(* ===== verification/Prelude.thy ===== *)
theory Prelude
  imports Complex_Main "HOL-Library.Log_Nat"
begin

section \<open>Shared vocabulary: strings, digits, results\<close>

text \<open>
  What every component of the explorer's TypeScript code (\<open>web-next/src\<close>) shares. A JavaScript
  string is a sequence of UTF-16 code units, so it is modelled as a list of naturals
  (\<open>jstr\<close>); \<open>js\<close> turns an ASCII/Latin-1 literal into one. The theory has the character
  classes of the regular expressions in the code, \<open>trim\<close>, \<open>toLowerCase\<close>,
  \<open>padStart\<close>, \<open>padEnd\<close>, the stripping of trailing zeros, \<open>toString\<close> of a
  natural in a radix and its inverse, and the lemmas on them that the component theories use.
\<close>

named_theorems js_eval \<open>equations that evaluate string operations on concrete input\<close>

type_synonym jstr = "nat list"

definition js :: "string \<Rightarrow> jstr" where
  "js s = map of_char s"

lemma js_Nil [simp]: "js [] = []"
  by (simp add: js_def)

lemma js_Cons [js_eval]: "js (c # cs) = of_char c # js cs"
  by (simp add: js_def)

lemma js_append: "js (s @ t) = js s @ js t"
  by (simp add: js_def)

lemma js_eq_iff [simp]: "js s = js t \<longleftrightarrow> s = t"
proof -
  have "inj (of_char :: char \<Rightarrow> nat)"
    by (rule injI) simp
  then show ?thesis by (simp add: js_def inj_map_eq_map)
qed

lemma js_eq_Nil_iff [simp]: "js s = [] \<longleftrightarrow> s = []" "[] = js s \<longleftrightarrow> s = []"
  by (auto simp: js_def)

lemma length_js [simp]: "length (js s) = length s"
  by (simp add: js_def)


subsection \<open>Character classes\<close>

definition is_digit :: "nat \<Rightarrow> bool" where
  "is_digit c \<longleftrightarrow> 48 \<le> c \<and> c \<le> 57"

definition is_lower_hex :: "nat \<Rightarrow> bool" where
  "is_lower_hex c \<longleftrightarrow> is_digit c \<or> (97 \<le> c \<and> c \<le> 102)"

definition is_upper_hex :: "nat \<Rightarrow> bool" where
  "is_upper_hex c \<longleftrightarrow> is_digit c \<or> (65 \<le> c \<and> c \<le> 70)"

definition is_hex :: "nat \<Rightarrow> bool" where
  "is_hex c \<longleftrightarrow> is_lower_hex c \<or> is_upper_hex c"

text \<open>White space as \<open>String.prototype.trim\<close> and \<open>\\s\<close> of a regular expression read it.\<close>

definition is_ws :: "nat \<Rightarrow> bool" where
  "is_ws c \<longleftrightarrow> (9 \<le> c \<and> c \<le> 13) \<or> c = 32 \<or> c = 160 \<or> c = 5760 \<or> (8192 \<le> c \<and> c \<le> 8202)
     \<or> c = 8232 \<or> c = 8233 \<or> c = 8239 \<or> c = 8287 \<or> c = 12288 \<or> c = 65279"

lemmas char_class_defs = is_digit_def is_lower_hex_def is_upper_hex_def is_hex_def is_ws_def

lemma is_digit_not_ws: "is_digit c \<Longrightarrow> \<not> is_ws c"
  by (auto simp: char_class_defs)

lemma is_hex_not_ws: "is_hex c \<Longrightarrow> \<not> is_ws c"
  by (auto simp: char_class_defs)


subsection \<open>The address formats\<close>

text \<open>\<open>/^0x[0-9a-fA-F]{40}$/\<close>, \<open>/^E7[0-9A-F]{32}$/\<close> and \<open>/^E7[0-9A-F]{62}$/\<close>.\<close>

definition re_evm :: "jstr \<Rightarrow> bool" where
  "re_evm s \<longleftrightarrow> length s = 42 \<and> take 2 s = js ''0x'' \<and> list_all is_hex (drop 2 s)"

definition re_e7 :: "nat \<Rightarrow> jstr \<Rightarrow> bool" where
  "re_e7 k s \<longleftrightarrow> length s = k + 2 \<and> take 2 s = js ''E7'' \<and> list_all is_upper_hex (drop 2 s)"

lemma re_evm_not_e7: "re_evm s \<Longrightarrow> \<not> re_e7 k s"
  by (auto simp: re_evm_def re_e7_def)

lemma re_evm_split:
  assumes "re_evm s"
  shows "\<exists>h. s = js ''0x'' @ h \<and> length h = 40 \<and> list_all is_hex h"
proof (intro exI conjI)
  show "s = js ''0x'' @ drop 2 s"
    using assms append_take_drop_id [of 2 s] by (simp add: re_evm_def)
qed (use assms in \<open>simp_all add: re_evm_def\<close>)


subsection \<open>trim, letter case, padding, trailing zeros\<close>

definition trim_start :: "jstr \<Rightarrow> jstr" where
  "trim_start s = dropWhile is_ws s"

definition trim_end :: "jstr \<Rightarrow> jstr" where
  "trim_end s = rev (dropWhile is_ws (rev s))"

definition trim :: "jstr \<Rightarrow> jstr" where
  "trim s = trim_end (trim_start s)"

definition lower_char :: "nat \<Rightarrow> nat" where
  "lower_char c = (if 65 \<le> c \<and> c \<le> 90 then c + 32 else c)"

definition upper_char :: "nat \<Rightarrow> nat" where
  "upper_char c = (if 97 \<le> c \<and> c \<le> 122 then c - 32 else c)"

definition to_lower :: "jstr \<Rightarrow> jstr" where
  "to_lower s = map lower_char s"

definition to_upper :: "jstr \<Rightarrow> jstr" where
  "to_upper s = map upper_char s"

definition pad_start :: "nat \<Rightarrow> nat \<Rightarrow> jstr \<Rightarrow> jstr" where
  "pad_start n c s = replicate (n - length s) c @ s"

definition pad_end :: "nat \<Rightarrow> nat \<Rightarrow> jstr \<Rightarrow> jstr" where
  "pad_end n c s = s @ replicate (n - length s) c"

text \<open>\<open>s.split(c)\<close> for a one-character separator.\<close>

fun split_on :: "nat \<Rightarrow> jstr \<Rightarrow> jstr list" where
  "split_on k [] = [[]]"
| "split_on k (c # cs) = (if c = k then [] # split_on k cs
     else (case split_on k cs of [] \<Rightarrow> [[c]] | p # ps \<Rightarrow> (c # p) # ps))"

text \<open>\<open>s.replace(/0+$/, "")\<close>.\<close>

definition strip_zeros :: "jstr \<Rightarrow> jstr" where
  "strip_zeros s = rev (dropWhile (\<lambda>c. c = 48) (rev s))"

lemma set_remove1_cover: "set xs \<subseteq> insert x (set (remove1 x xs))"
  by (induction xs) auto

lemma trim_no_ws: "(\<And>c. c \<in> set s \<Longrightarrow> \<not> is_ws c) \<Longrightarrow> trim s = s"
proof -
  assume h: "\<And>c. c \<in> set s \<Longrightarrow> \<not> is_ws c"
  have "dropWhile is_ws s = s"
    using h by (cases s) auto
  moreover have "dropWhile is_ws (rev s) = rev s"
    using h by (metis dropWhile_eq_self_iff last_in_set last_rev hd_in_set set_rev rev_is_Nil_conv)
  ultimately show ?thesis
    by (simp add: trim_def trim_start_def trim_end_def)
qed

lemma trim_evm:
  assumes "re_evm c"
  shows "trim c = c"
proof (rule trim_no_ws)
  obtain h where h: "c = js ''0x'' @ h" "list_all is_hex h" using re_evm_split [OF assms] by blast
  have x: "js ''0x'' = [48, 120]" by (simp add: js_def)
  show "\<not> is_ws u" if "u \<in> set c" for u
  proof (cases "u \<in> set h")
    case True
    then show ?thesis using h(2) is_hex_not_ws by (simp add: list_all_iff)
  next
    case False
    then have "u = 48 \<or> u = 120" using that h(1) x by simp
    then show ?thesis by (auto simp: is_ws_def)
  qed
qed

lemma length_pad_start: "length (pad_start n c s) = max n (length s)"
  by (simp add: pad_start_def)

lemma length_pad_end: "length (pad_end n c s) = max n (length s)"
  by (simp add: pad_end_def)

lemma lower_char_idem [simp]: "lower_char (lower_char c) = lower_char c"
  by (simp add: lower_char_def)

lemma to_lower_idem [simp]: "to_lower (to_lower s) = to_lower s"
  by (simp add: to_lower_def)

lemma length_to_lower [simp]: "length (to_lower s) = length s"
  by (simp add: to_lower_def)

lemma lower_char_hex: "is_hex c \<Longrightarrow> is_lower_hex (lower_char c)"
  by (auto simp: char_class_defs lower_char_def)

lemma strip_zeros_split: "\<exists>k. s = strip_zeros s @ replicate k 48"
proof -
  have "rev s = takeWhile (\<lambda>c. c = 48) (rev s) @ dropWhile (\<lambda>c. c = 48) (rev s)"
    by simp
  moreover have "takeWhile (\<lambda>c. c = (48::nat)) (rev s)
      = replicate (length (takeWhile (\<lambda>c. c = 48) (rev s))) 48"
    by (rule replicate_eqI [symmetric, THEN sym]) (auto dest: set_takeWhileD)
  ultimately have "rev s = replicate (length (takeWhile (\<lambda>c. c = 48) (rev s))) 48
      @ dropWhile (\<lambda>c. c = 48) (rev s)"
    by metis
  then have "s = rev (dropWhile (\<lambda>c. c = 48) (rev s))
      @ rev (replicate (length (takeWhile (\<lambda>c. c = 48) (rev s))) 48)"
    by (metis rev_append rev_rev_ident)
  then show ?thesis
    by (metis rev_replicate strip_zeros_def)
qed

lemma set_strip_zeros: "set (strip_zeros s) \<subseteq> set s"
  by (auto simp: strip_zeros_def dest: set_dropWhileD)

lemma length_strip_zeros: "length (strip_zeros s) \<le> length s"
  by (metis strip_zeros_split length_append le_add1)


subsection \<open>toString in a radix, and reading digits back\<close>

definition digit_char :: "nat \<Rightarrow> nat" where
  "digit_char d = (if d < 10 then 48 + d else 87 + d)"

definition digit_val :: "nat \<Rightarrow> nat" where
  "digit_val c = (if is_digit c then c - 48 else if 97 \<le> c \<and> c \<le> 122 then c - 87
     else if 65 \<le> c \<and> c \<le> 90 then c - 55 else 36)"

function to_base :: "nat \<Rightarrow> nat \<Rightarrow> jstr" where
  "to_base b n = (if b < 2 \<or> n < b then [digit_char n]
     else to_base b (n div b) @ [digit_char (n mod b)])"
  by pat_completeness auto
termination
  by (relation "measure snd") auto

declare to_base.simps [simp del]

abbreviation dec :: "nat \<Rightarrow> jstr" where
  "dec n \<equiv> to_base 10 n"

definition of_base :: "nat \<Rightarrow> jstr \<Rightarrow> nat" where
  "of_base b s = foldl (\<lambda>a c. a * b + digit_val c) 0 s"

abbreviation undec :: "jstr \<Rightarrow> nat" where
  "undec s \<equiv> of_base 10 s"

definition is_digits :: "jstr \<Rightarrow> bool" where
  "is_digits s \<longleftrightarrow> s \<noteq> [] \<and> list_all is_digit s"

lemma digit_val_char [simp]: "d < 36 \<Longrightarrow> digit_val (digit_char d) = d"
  by (auto simp: digit_val_def digit_char_def is_digit_def)

lemma is_digit_digit_char [simp]: "d < 10 \<Longrightarrow> is_digit (digit_char d)"
  by (simp add: digit_char_def is_digit_def)

lemma digit_val_zero [simp]: "digit_val 48 = 0"
  by (simp add: digit_val_def is_digit_def)

lemma foldl_of_base:
  "foldl (\<lambda>a c. a * b + digit_val c) a s = a * b ^ length s + of_base b s"
proof (induction s arbitrary: a)
  case Nil
  then show ?case by (simp add: of_base_def)
next
  case (Cons c s)
  have "of_base b (c # s) = digit_val c * b ^ length s + of_base b s"
    using Cons.IH [of "digit_val c"] by (simp add: of_base_def)
  then show ?case
    using Cons.IH [of "a * b + digit_val c"] by (simp add: algebra_simps)
qed

lemma of_base_Nil [simp]: "of_base b [] = 0"
  by (simp add: of_base_def)

lemma of_base_Cons: "of_base b (c # s) = digit_val c * b ^ length s + of_base b s"
  using foldl_of_base [of b "digit_val c" s] by (simp add: of_base_def)

lemma of_base_append: "of_base b (s @ t) = of_base b s * b ^ length t + of_base b t"
  by (induction s) (simp_all add: of_base_Cons power_add algebra_simps)

lemma of_base_replicate_zero [simp]: "of_base b (replicate k 48) = 0"
  by (induction k) (simp_all add: of_base_Cons)

lemma of_base_to_base:
  assumes "2 \<le> b" "b \<le> 36"
  shows "of_base b (to_base b n) = n"
  using assms
proof (induction b n rule: to_base.induct)
  case (1 b n)
  show ?case
  proof (cases "n < b")
    case True
    then have "n < 36" using "1.prems" by simp
    with True show ?thesis by (simp add: to_base.simps [of b n] of_base_Cons)
  next
    case False
    with 1 have "of_base b (to_base b (n div b)) = n div b" by simp
    moreover have "n mod b < b" using "1.prems" by simp
    then have "n mod b < 36" using "1.prems"(2) by (rule less_le_trans)
    then have "digit_val (digit_char (n mod b)) = n mod b" by simp
    ultimately show ?thesis
      using False "1.prems" by (simp add: to_base.simps [of b n] of_base_append of_base_Cons)
  qed
qed

lemma undec_dec [simp]: "undec (dec n) = n"
  by (rule of_base_to_base) simp_all

lemma to_base_nonempty [simp]: "to_base b n \<noteq> []"
  by (subst to_base.simps) simp

text \<open>Conditional equations, so that the simplifier unfolds the recursion on numerals only.\<close>

lemma to_base_less [js_eval]: "n < b \<Longrightarrow> to_base b n = [digit_char n]"
  by (subst to_base.simps) simp

lemma to_base_ge [js_eval]:
  "b \<le> n \<Longrightarrow> 2 \<le> b \<Longrightarrow> to_base b n = to_base b (n div b) @ [digit_char (n mod b)]"
  by (subst to_base.simps) simp

lemma replicate_numeral_eq [js_eval]:
  "replicate (numeral n) c = c # replicate (pred_numeral n) c"
  by (simp add: numeral_eq_Suc)

lemmas string_eval [js_eval] = trim_def trim_start_def trim_end_def is_ws_def is_digit_def
  digit_val_def digit_char_def of_base_Cons is_digits_def strip_zeros_def

lemma dec_digits: "list_all is_digit (dec n)"
proof (induction "10::nat" n rule: to_base.induct)
  case (1 n)
  show ?case
  proof (cases "n < 10")
    case True
    then show ?thesis by (simp add: to_base.simps [of 10 n])
  next
    case False
    with 1 show ?thesis by (simp add: to_base.simps [of 10 n])
  qed
qed

lemma is_digits_dec [simp]: "is_digits (dec n)"
  by (simp add: is_digits_def dec_digits)

lemma length_to_base_le:
  assumes "2 \<le> b" "n < b ^ k" "0 < k"
  shows "length (to_base b n) \<le> k"
  using assms
proof (induction b n arbitrary: k rule: to_base.induct)
  case (1 b n)
  show ?case
  proof (cases "n < b")
    case True
    with 1 show ?thesis by (simp add: to_base.simps [of b n])
  next
    case False
    have "k \<noteq> 1" using False "1.prems" by auto
    then obtain k' where k: "k = Suc k'" and "0 < k'"
      using "1.prems"(3) by (cases k) auto
    have "n div b < b ^ k'"
      using 1 k by (simp add: div_less_iff_less_mult algebra_simps)
    then have "length (to_base b (n div b)) \<le> k'"
      using 1 False \<open>0 < k'\<close> by simp
    then show ?thesis
      using False 1 k by (simp add: to_base.simps [of b n])
  qed
qed

lemma of_base_less:
  assumes "\<And>c. c \<in> set s \<Longrightarrow> digit_val c < b"
  shows "of_base b s < b ^ length s"
  using assms
proof (induction s)
  case Nil
  then show ?case by simp
next
  case (Cons c s)
  have "of_base b s < b ^ length s" using Cons by simp
  moreover have "Suc (digit_val c) * b ^ length s \<le> b * b ^ length s"
    using Cons.prems by (intro mult_right_mono) (simp_all add: Suc_leI)
  ultimately show ?case by (simp add: of_base_Cons)
qed

lemma digit_val_digit: "is_digit c \<Longrightarrow> digit_val c < 10"
  by (auto simp: digit_val_def is_digit_def)

lemma undec_less: "list_all is_digit s \<Longrightarrow> undec s < 10 ^ length s"
  by (rule of_base_less) (simp add: list_all_iff digit_val_digit)

text \<open>
  The two facts behind every decimal fraction the code prints: padding on the left keeps the
  value, and stripping trailing zeros is undone by padding on the right.
\<close>

lemma undec_pad_start [simp]: "undec (pad_start k 48 s) = undec s"
  by (simp add: pad_start_def of_base_append)

lemma pad_end_strip_zeros:
  assumes "length s = n"
  shows "pad_end n 48 (strip_zeros s) = s"
proof -
  obtain k where k: "s = strip_zeros s @ replicate k 48"
    using strip_zeros_split by blast
  then have "length s = length (strip_zeros s) + k"
    by (metis length_append length_replicate)
  then have "n - length (strip_zeros s) = k" using assms by simp
  then show ?thesis using k [symmetric] by (simp add: pad_end_def)
qed

lemma list_all_strip_zeros: "list_all P s \<Longrightarrow> list_all P (strip_zeros s)"
  using set_strip_zeros [of s] by (auto simp: list_all_iff)

lemma list_all_pad_start: "P c \<Longrightarrow> list_all P s \<Longrightarrow> list_all P (pad_start n c s)"
  by (auto simp: list_all_iff pad_start_def)

lemma is_digit_zero [simp]: "is_digit 48"
  by (simp add: is_digit_def)


subsection \<open>Errors and results\<close>

text \<open>
  A JavaScript \<open>throw\<close> is a value: \<open>Inl\<close> the message of the thrown \<open>Error\<close>,
  \<open>Inr\<close> the result. \<open>bind_res\<close> is the sequencing of two statements, the second of
  which does not run when the first throws.
\<close>

type_synonym 'a res = "jstr + 'a"

definition bind_res :: "'a res \<Rightarrow> ('a \<Rightarrow> 'b res) \<Rightarrow> 'b res" where
  "bind_res r f = (case r of Inl e \<Rightarrow> Inl e | Inr a \<Rightarrow> f a)"

lemma bind_res_simps [simp]: "bind_res (Inl e) f = Inl e" "bind_res (Inr a) f = f a"
  by (simp_all add: bind_res_def)

lemma bind_res_eq_Inr:
  "bind_res r f = Inr b \<longleftrightarrow> (\<exists>a. r = Inr a \<and> f a = Inr b)"
  by (cases r) auto

end
