(* ===== verification/JsNumber.thy ===== *)
theory JsNumber
  imports Prelude
begin

section \<open>JavaScript numbers: IEEE binary64 with round-to-nearest-even\<close>

text \<open>
  Prices, USD amounts and percentages are JavaScript numbers. A number is \<open>NaN\<close>, an infinity,
  or a finite value, which is a rational (every binary64 is one); the two zeros are identified,
  since nothing modelled here divides by a zero or prints one with its sign. Each arithmetic
  operation computes the exact rational result and rounds it to the nearest binary64, ties to
  even (\<open>fl\<close>), with gradual underflow and overflow to infinity. All of it is executable. The
  lemmas are the three facts the components use: \<open>fl\<close> fixes the representable numbers
  (\<open>fl_f64\<close>), it is monotone (\<open>fl_mono\<close>), and therefore it keeps any bound that is itself
  representable (\<open>fl_le_f64\<close>, \<open>fl_ge_f64\<close>).
\<close>

named_theorems num_eval \<open>equations that evaluate number operations on numerals\<close>

datatype jsnum = NaN | PosInf | NegInf | Num rat

definition ilog2 :: "rat \<Rightarrow> int" where
  "ilog2 q = (if 1 \<le> q then bitlen \<lfloor>q\<rfloor> - 1 else - bitlen (\<lceil>1 / q\<rceil> - 1))"

definition rne_frac :: "int \<Rightarrow> rat \<Rightarrow> int" where
  "rne_frac f r = (if r < 1 / 2 then f else if 1 / 2 < r then f + 1 else if even f then f else f + 1)"

definition rne :: "rat \<Rightarrow> int" where
  "rne q = rne_frac \<lfloor>q\<rfloor> (q - of_int \<lfloor>q\<rfloor>)"

definition ulp_exp :: "rat \<Rightarrow> int" where
  "ulp_exp q = max (ilog2 \<bar>q\<bar> - 52) (- 1074)"

definition grid_round :: "int \<Rightarrow> rat \<Rightarrow> rat" where
  "grid_round e q = of_int (rne (q / 2 powi e)) * 2 powi e"

definition fl :: "rat \<Rightarrow> rat" where
  "fl q = (if q = 0 then 0 else grid_round (ulp_exp q) q)"

definition overflow :: "rat \<Rightarrow> jsnum" where
  "overflow v = (if 2 ^ 1024 \<le> v then PosInf else if v \<le> - (2 ^ 1024) then NegInf else Num v)"

definition to_num :: "rat \<Rightarrow> jsnum" where
  "to_num q = overflow (fl q)"

definition is_f64 :: "rat \<Rightarrow> bool" where
  "is_f64 v \<longleftrightarrow> (\<exists>m e::int. v = of_int m * 2 powi e \<and> \<bar>m\<bar> \<le> 2 ^ 53 \<and> - 1074 \<le> e)"


subsection \<open>Evaluation on numerals\<close>

lemma floor_rat_eval [simp]:
  "\<lfloor>numeral a / numeral b :: rat\<rfloor> = numeral a div numeral b"
  "\<lfloor>1 / numeral b :: rat\<rfloor> = 1 div numeral b"
  "\<lfloor>- (numeral a / numeral b) :: rat\<rfloor> = - numeral a div numeral b"
  "\<lfloor>- (1 / numeral b) :: rat\<rfloor> = - 1 div numeral b"
  by (metis floor_divide_of_int_eq of_int_numeral, metis floor_divide_of_int_eq of_int_numeral of_int_1,
      metis divide_minus_left floor_divide_of_int_eq of_int_neg_numeral of_int_numeral,
      metis divide_minus_left floor_divide_of_int_eq of_int_minus of_int_1 of_int_numeral)

lemma ceiling_rat_eval [simp]:
  "\<lceil>numeral a / numeral b :: rat\<rceil> = - (- numeral a div numeral b)"
  by (simp add: ceiling_def)

lemma bitlen_numeral [num_eval]: "bitlen (numeral n) = bitlen (numeral n div 2) + 1"
  by (subst compute_bitlen) simp

lemma bitlen_1 [num_eval]: "bitlen 1 = 1"
  by (subst compute_bitlen) simp

lemma powi_eval [num_eval]:
  "(b::rat) powi numeral n = b ^ numeral n"
  "(b::rat) powi (- numeral n) = 1 / b ^ numeral n"
  "(b::rat) powi (- 1) = 1 / b"
  by (simp_all add: power_int_def power_one_over inverse_eq_divide)

lemmas rounding_eval [num_eval] = to_num_def overflow_def fl_def grid_round_def ulp_exp_def
  ilog2_def rne_def rne_frac_def


subsection \<open>The logarithm and the rounding to an integer\<close>

lemma bitlen_pos: "0 < bitlen x \<longleftrightarrow> 0 < x"
  using bitlen_eq_zero_iff [of x] bitlen_nonneg [of x] by linarith

lemma powi_less_imp_less: "(2::rat) powi a < 2 powi b \<Longrightarrow> a < b"
  by (meson leD not_le power_int_increasing one_le_numeral)

lemma powi_le_imp_le: "(2::rat) powi a \<le> 2 powi b \<Longrightarrow> a \<le> b"
  by (meson leD not_le power_int_strict_increasing one_less_numeral_iff semiring_norm(76))

lemma powi_two_nonneg: "0 \<le> k \<Longrightarrow> (2::rat) powi k = of_int (2 ^ nat k)"
  by (simp add: power_int_def)

lemma powi_le_of_int: "0 \<le> k \<Longrightarrow> 2 ^ nat k \<le> i \<Longrightarrow> (2::rat) powi k \<le> of_int i"
  by (subst powi_two_nonneg) (simp_all only: of_int_le_iff)

lemma of_int_le_powi: "0 \<le> k \<Longrightarrow> i \<le> 2 ^ nat k \<Longrightarrow> of_int i \<le> (2::rat) powi k"
  by (subst powi_two_nonneg) (simp_all only: of_int_le_iff)

lemma two_powi_pos [simp]: "(0::rat) < 2 powi k"
  by simp

lemma ilog2_bounds:
  assumes "0 < q"
  shows "2 powi ilog2 q \<le> q \<and> q < 2 powi (ilog2 q + 1)"
proof (cases "1 \<le> q")
  case True
  then have f: "1 \<le> \<lfloor>q\<rfloor>" by simp
  then have b: "2 ^ nat (bitlen \<lfloor>q\<rfloor> - 1) \<le> \<lfloor>q\<rfloor>" "\<lfloor>q\<rfloor> < 2 ^ nat (bitlen \<lfloor>q\<rfloor>)"
    using bitlen_bounds [of "\<lfloor>q\<rfloor>"] by auto
  have pos: "0 < bitlen \<lfloor>q\<rfloor>" using f by (simp add: bitlen_pos)
  have "(2::rat) powi (bitlen \<lfloor>q\<rfloor> - 1) \<le> of_int \<lfloor>q\<rfloor>"
    using b(1) pos by (intro powi_le_of_int) simp_all
  also have "\<dots> \<le> q" by simp
  finally have lo: "2 powi (bitlen \<lfloor>q\<rfloor> - 1) \<le> q" .
  have "q < of_int (\<lfloor>q\<rfloor> + 1)" by linarith
  also have "\<dots> \<le> 2 powi bitlen \<lfloor>q\<rfloor>"
    using b(2) pos by (intro of_int_le_powi) simp_all
  finally show ?thesis using lo True by (simp add: ilog2_def)
next
  case False
  define c where "c = \<lceil>1 / q\<rceil> - 1"
  have "1 < 1 / q" using assms False by simp
  then have c1: "1 \<le> c" unfolding c_def by linarith
  then have b: "2 ^ nat (bitlen c - 1) \<le> c" "c < 2 ^ nat (bitlen c)"
    using bitlen_bounds [of c] by auto
  have pos: "0 < bitlen c" using c1 by (simp add: bitlen_pos)
  have "(2::rat) powi (bitlen c - 1) \<le> of_int c"
    using b(1) pos by (intro powi_le_of_int) simp_all
  also have "\<dots> < 1 / q" unfolding c_def by linarith
  finally have l: "2 powi (bitlen c - 1) < 1 / q" .
  have "1 / q \<le> of_int (c + 1)" unfolding c_def by linarith
  also have "\<dots> \<le> 2 powi bitlen c"
    using b(2) pos by (intro of_int_le_powi) simp_all
  finally have u: "1 / q \<le> 2 powi bitlen c" .
  have "2 powi (- bitlen c) \<le> q"
    using u assms by (simp add: power_int_minus field_simps)
  moreover have "q < 2 powi (- bitlen c + 1)"
  proof -
    have "q * 2 powi (bitlen c - 1) < 1" using l assms by (simp add: field_simps)
    then have "q < 1 / 2 powi (bitlen c - 1)" by (simp add: field_simps)
    also have "\<dots> = 2 powi (- (bitlen c - 1))" by (simp only: power_int_minus_divide [symmetric])
    also have "\<dots> = 2 powi (- bitlen c + 1)" by simp
    finally show ?thesis .
  qed
  ultimately show ?thesis using False by (simp add: ilog2_def c_def)
qed

lemma ilog2_unique:
  assumes "2 powi k \<le> q" "q < 2 powi (k + 1)"
  shows "ilog2 q = k"
proof -
  have "0 < q" using assms(1) by (meson less_le_trans two_powi_pos)
  then have b: "2 powi ilog2 q \<le> q" "q < 2 powi (ilog2 q + 1)"
    using ilog2_bounds by auto
  have "2 powi k < (2::rat) powi (ilog2 q + 1)" using assms(1) b(2) by (rule le_less_trans)
  moreover have "2 powi ilog2 q < (2::rat) powi (k + 1)" using b(1) assms(2) by (rule le_less_trans)
  ultimately have "k < ilog2 q + 1" "ilog2 q < k + 1"
    by (blast intro: powi_less_imp_less)+
  then show ?thesis by simp
qed

lemma ilog2_mono:
  assumes "0 < x" "x \<le> y"
  shows "ilog2 x \<le> ilog2 y"
proof -
  have "2 powi ilog2 x \<le> x" using ilog2_bounds [OF assms(1)] by simp
  also have "x \<le> y" by fact
  also have "y < 2 powi (ilog2 y + 1)" using ilog2_bounds [of y] assms by simp
  finally have "ilog2 x < ilog2 y + 1" by (rule powi_less_imp_less)
  then show ?thesis by simp
qed

lemma rne_of_int [simp]: "rne (of_int k) = k"
  by (simp add: rne_def rne_frac_def)

lemma rne_bounds: "of_int (rne q) - 1 / 2 \<le> q \<and> q \<le> of_int (rne q) + 1 / 2"
proof -
  define f where "f = (of_int \<lfloor>q\<rfloor> :: rat)"
  have "f \<le> q" "q < f + 1" unfolding f_def by linarith+
  then show ?thesis unfolding rne_def rne_frac_def f_def [symmetric]
    by (cases "q - f < 1 / 2"; cases "1 / 2 < q - f")
      (simp_all add: f_def [symmetric] field_simps)
qed

lemma rne_mono:
  assumes "x \<le> y"
  shows "rne x \<le> rne y"
proof (cases "\<lfloor>x\<rfloor> = \<lfloor>y\<rfloor>")
  case True
  then show ?thesis using assms unfolding rne_def rne_frac_def by auto
next
  case False
  then have "\<lfloor>x\<rfloor> + 1 \<le> \<lfloor>y\<rfloor>" using assms floor_mono [OF assms] by linarith
  moreover have "rne x \<le> \<lfloor>x\<rfloor> + 1" "\<lfloor>y\<rfloor> \<le> rne y"
    unfolding rne_def rne_frac_def by auto
  ultimately show ?thesis by linarith
qed

lemma rne_minus: "rne (- q) = - rne q"
proof (cases "q = of_int \<lfloor>q\<rfloor>")
  case True
  then show ?thesis by (metis of_int_minus rne_of_int)
next
  case False
  have m: "\<lfloor>- q\<rfloor> = - \<lfloor>q\<rfloor> - 1"
    using False by (smt (verit, best) ceiling_altdef floor_minus)
  define r where "r = q - of_int \<lfloor>q\<rfloor>"
  have r': "- q - of_int (- \<lfloor>q\<rfloor> - 1) = 1 - r" by (simp add: r_def)
  show ?thesis
    unfolding rne_def rne_frac_def m r' r_def [symmetric]
    by (cases "r < 1 / 2"; cases "1 / 2 < r") auto
qed


subsection \<open>Rounding to a binary64\<close>

lemma ulp_exp_ge: "- 1074 \<le> ulp_exp q"
  by (simp add: ulp_exp_def)

lemma ulp_exp_minus [simp]: "ulp_exp (- q) = ulp_exp q"
  by (simp add: ulp_exp_def)

lemma fl_zero [simp]: "fl 0 = 0"
  by (simp add: fl_def grid_round_def)

lemma fl_minus: "fl (- q) = - fl q"
  by (simp add: fl_def grid_round_def rne_minus)

lemma fl_nonneg: "0 \<le> q \<Longrightarrow> 0 \<le> fl q"
proof -
  assume "0 \<le> q"
  then have "rne 0 \<le> rne (q / 2 powi ulp_exp q)"
    by (intro rne_mono) simp
  then have "0 \<le> rne (q / 2 powi ulp_exp q)"
    using rne_of_int [of 0] by simp
  then show ?thesis by (simp add: fl_def grid_round_def)
qed

text \<open>A multiple of the grid step stays; that is the only way rounding is the identity.\<close>

lemma fl_on_grid:
  assumes "q / 2 powi ulp_exp q = of_int k"
  shows "fl q = q"
proof (cases "q = 0")
  case False
  have "q = of_int k * 2 powi ulp_exp q"
    unfolding assms [symmetric] by simp
  then show ?thesis
    using False by (simp add: fl_def grid_round_def assms)
qed simp

lemma powi_int_quotient:
  assumes "b \<le> a"
  shows "(2::rat) powi a / 2 powi b = of_int (2 ^ nat (a - b))"
proof -
  have "(2::rat) powi a / 2 powi b = 2 powi (a - b)"
    by (simp add: power_int_diff)
  also have "\<dots> = of_int (2 ^ nat (a - b))"
    using assms by (subst powi_two_nonneg) simp_all
  finally show ?thesis .
qed

lemma fl_f64:
  assumes "is_f64 v"
  shows "fl v = v"
proof (cases "v = 0")
  case True
  then show ?thesis by simp
next
  case False
  from assms obtain m e :: int where v: "v = of_int m * 2 powi e"
    and m: "\<bar>m\<bar> \<le> 2 ^ 53" and e: "- 1074 \<le> e"
    unfolding is_f64_def by blast
  let ?E = "ulp_exp v"
  have av: "\<bar>v\<bar> = of_int \<bar>m\<bar> * 2 powi e" by (simp add: v abs_mult)
  have lb: "2 powi ilog2 \<bar>v\<bar> \<le> \<bar>v\<bar>" using ilog2_bounds [of "\<bar>v\<bar>"] False by simp
  have "(of_int \<bar>m\<bar> :: rat) \<le> of_int (2 ^ 53)" using m by (simp only: of_int_le_iff)
  then have "of_int \<bar>m\<bar> \<le> (2::rat) powi 53" by (simp add: power_int_def)
  then have ub: "\<bar>v\<bar> \<le> 2 powi (53 + e)"
    unfolding av by (simp add: power_int_add mult_right_mono)
  have il: "ilog2 \<bar>v\<bar> \<le> 53 + e" using lb ub by (meson order_trans powi_le_imp_le)
  show ?thesis
  proof (cases "?E \<le> e")
    case True
    have "v / 2 powi ?E = of_int m * (2 powi e / 2 powi ?E)" by (simp add: v)
    also have "\<dots> = of_int (m * 2 ^ nat (e - ?E))"
      using powi_int_quotient [OF True] by simp
    finally show ?thesis by (rule fl_on_grid)
  next
    case nle: False
    then have E: "?E = ilog2 \<bar>v\<bar> - 52" using e by (auto simp: ulp_exp_def)
    then have i: "ilog2 \<bar>v\<bar> = 53 + e" using il nle by simp
    then have "\<bar>v\<bar> = 2 powi (53 + e)" using lb ub by simp
    then have "\<bar>v\<bar> / 2 powi ?E = of_int (2 ^ nat (53 + e - ?E))"
      using i E by (simp only: powi_int_quotient)
    then have "v / 2 powi ?E = of_int (if 0 \<le> v then 2 ^ nat (53 + e - ?E) else - (2 ^ nat (53 + e - ?E)))"
      by (auto simp: abs_if split: if_splits)
    then show ?thesis by (rule fl_on_grid)
  qed
qed

lemma fl_mono_pos:
  assumes "0 < x" "x \<le> y"
  shows "fl x \<le> fl y"
proof -
  let ?X = "ulp_exp x" and ?Y = "ulp_exp y"
  have XY: "?X \<le> ?Y" using ilog2_mono [OF assms] assms by (simp add: ulp_exp_def)
  show ?thesis
  proof (cases "?X = ?Y")
    case True
    have "rne (x / 2 powi ?X) \<le> rne (y / 2 powi ?X)"
      using assms by (intro rne_mono divide_right_mono) simp_all
    then show ?thesis using assms True by (simp add: fl_def grid_round_def mult_right_mono)
  next
    case False
    define p where "p = (2::rat) powi ilog2 y"
    have Y: "?Y = ilog2 y - 52" using False XY assms by (auto simp: ulp_exp_def split: if_splits)
    have "ilog2 x < ilog2 y"
      using False XY ilog2_mono [OF assms] assms by (auto simp: ulp_exp_def)
    then have "(2::rat) powi (ilog2 x + 1) \<le> p"
      unfolding p_def by (intro power_int_increasing) simp_all
    then have xp: "x \<le> p" using ilog2_bounds [OF assms(1)] by simp
    have py: "p \<le> y" unfolding p_def using ilog2_bounds [of y] assms by simp
    have gx: "p / 2 powi ?X = of_int (2 ^ nat (ilog2 y - ?X))"
      unfolding p_def using XY Y by (intro powi_int_quotient) simp
    have gy: "p / 2 powi ?Y = of_int (2 ^ 52)"
      unfolding p_def using Y by (subst powi_int_quotient) simp_all
    have "x / 2 powi ?X \<le> of_int (2 ^ nat (ilog2 y - ?X))"
      unfolding gx [symmetric] using xp by (intro divide_right_mono) simp_all
    then have "rne (x / 2 powi ?X) \<le> 2 ^ nat (ilog2 y - ?X)"
      using rne_mono by (metis rne_of_int)
    then have "fl x \<le> of_int (2 ^ nat (ilog2 y - ?X)) * 2 powi ?X"
      using assms by (simp add: fl_def grid_round_def mult_right_mono del: of_int_power)
    also have "\<dots> = p" unfolding gx [symmetric] by simp
    also have "p \<le> fl y"
    proof -
      have "of_int (2 ^ 52) \<le> y / 2 powi ?Y"
        unfolding gy [symmetric] using py by (intro divide_right_mono) simp_all
      then have "2 ^ 52 \<le> rne (y / 2 powi ?Y)"
        using rne_mono by (metis rne_of_int)
      then have "of_int (2 ^ 52) * 2 powi ?Y \<le> fl y"
        using assms by (simp add: fl_def grid_round_def mult_right_mono del: of_int_power)
      moreover have "of_int (2 ^ 52) * 2 powi ?Y = p"
        unfolding gy [symmetric] by simp
      ultimately show ?thesis by simp
    qed
    finally show ?thesis .
  qed
qed

lemma fl_mono:
  assumes "x \<le> y"
  shows "fl x \<le> fl y"
proof -
  consider "0 < x" | "x \<le> 0" "0 \<le> y" | "y < 0" by linarith
  then show ?thesis
  proof cases
    case 1
    then show ?thesis using assms by (rule fl_mono_pos)
  next
    case 2
    then have "0 \<le> fl (- x)" "0 \<le> fl y" by (simp_all add: fl_nonneg)
    then show ?thesis by (simp add: fl_minus)
  next
    case 3
    then have "fl (- y) \<le> fl (- x)" using assms by (intro fl_mono_pos) simp_all
    then show ?thesis by (simp add: fl_minus)
  qed
qed

text \<open>Rounding keeps a bound that is itself a binary64; the integers up to \<open>2 ^ 53\<close> are.\<close>

lemma fl_le_f64: "q \<le> c \<Longrightarrow> is_f64 c \<Longrightarrow> fl q \<le> c"
  using fl_mono [of q c] by (simp add: fl_f64)

lemma fl_ge_f64: "c \<le> q \<Longrightarrow> is_f64 c \<Longrightarrow> c \<le> fl q"
  using fl_mono [of c q] by (simp add: fl_f64)

lemma is_f64_of_int: "\<bar>k\<bar> \<le> 2 ^ 53 \<Longrightarrow> is_f64 (of_int k)"
  unfolding is_f64_def by (intro exI [of _ k] exI [of _ 0]) simp

lemma is_f64_0 [simp]: "is_f64 0"
  using is_f64_of_int [of 0] by simp

lemma is_f64_1 [simp]: "is_f64 1"
  using is_f64_of_int [of 1] by simp

lemma is_f64_numeral: "(numeral n :: int) \<le> 2 ^ 53 \<Longrightarrow> is_f64 (numeral n)"
  using is_f64_of_int [of "numeral n"] by simp

lemma fl_of_int: "\<bar>k\<bar> \<le> 2 ^ 53 \<Longrightarrow> fl (of_int k) = of_int k"
  by (simp add: fl_f64 is_f64_of_int)

lemma is_f64_fl: "is_f64 (fl q)"
proof (cases "q = 0")
  case False
  let ?E = "ulp_exp q"
  have "ilog2 \<bar>q\<bar> + 1 \<le> 53 + ?E" by (simp add: ulp_exp_def)
  then have "(2::rat) powi (ilog2 \<bar>q\<bar> + 1) \<le> 2 powi (53 + ?E)"
    by (intro power_int_increasing) simp_all
  then have "\<bar>q\<bar> \<le> 2 powi (53 + ?E)"
    using ilog2_bounds [of "\<bar>q\<bar>"] False by simp
  then have "\<bar>q\<bar> / 2 powi ?E \<le> 2 powi (53 + ?E) / 2 powi ?E"
    by (intro divide_right_mono) simp_all
  also have "\<dots> = of_int (2 ^ 53)" by (subst powi_int_quotient) simp_all
  finally have "\<bar>q / 2 powi ?E\<bar> \<le> of_int (2 ^ 53)" by simp
  then have "q / 2 powi ?E \<le> of_int (2 ^ 53)" "of_int (- (2 ^ 53)) \<le> q / 2 powi ?E"
    unfolding abs_le_iff by simp_all
  then have "rne (q / 2 powi ?E) \<le> 2 ^ 53" "- (2 ^ 53) \<le> rne (q / 2 powi ?E)"
    using rne_mono by (metis rne_of_int)+
  then have "\<bar>rne (q / 2 powi ?E)\<bar> \<le> 2 ^ 53" by simp
  then show ?thesis
    unfolding is_f64_def using False ulp_exp_ge [of q] by (auto simp: fl_def grid_round_def)
qed simp

lemma fl_idem [simp]: "fl (fl q) = fl q"
  by (simp add: fl_f64 is_f64_fl)

text \<open>The error of one rounding: half a grid step.\<close>

lemma fl_error: "\<bar>fl q - q\<bar> \<le> 2 powi ulp_exp q / 2"
proof (cases "q = 0")
  case False
  define g where "g = (2::rat) powi ulp_exp q"
  have g: "0 < g" by (simp add: g_def)
  have "\<bar>of_int (rne (q / g)) - q / g\<bar> \<le> 1 / 2"
    using rne_bounds [of "q / g"] unfolding abs_le_iff by linarith
  then have "\<bar>of_int (rne (q / g)) - q / g\<bar> * g \<le> 1 / 2 * g"
    using g by (intro mult_right_mono) simp_all
  moreover have "(of_int (rne (q / g)) - q / g) * g = fl q - q"
    using g False by (simp add: fl_def grid_round_def g_def [symmetric] left_diff_distrib)
  then have "\<bar>of_int (rne (q / g)) - q / g\<bar> * g = \<bar>fl q - q\<bar>"
    using g by (metis abs_mult abs_of_pos)
  ultimately show ?thesis unfolding g_def by linarith
qed simp


subsection \<open>The operations\<close>

definition num_of_int :: "int \<Rightarrow> jsnum" where
  "num_of_int k = to_num (of_int k)"

fun num_neg :: "jsnum \<Rightarrow> jsnum" where
  "num_neg NaN = NaN"
| "num_neg PosInf = NegInf"
| "num_neg NegInf = PosInf"
| "num_neg (Num a) = Num (- a)"

fun num_add :: "jsnum \<Rightarrow> jsnum \<Rightarrow> jsnum" where
  "num_add (Num a) (Num b) = to_num (a + b)"
| "num_add NaN _ = NaN"
| "num_add _ NaN = NaN"
| "num_add PosInf NegInf = NaN"
| "num_add NegInf PosInf = NaN"
| "num_add PosInf _ = PosInf"
| "num_add _ PosInf = PosInf"
| "num_add NegInf _ = NegInf"
| "num_add _ NegInf = NegInf"

definition num_sub :: "jsnum \<Rightarrow> jsnum \<Rightarrow> jsnum" where
  "num_sub a b = num_add a (num_neg b)"

definition inf_of_sign :: "rat \<Rightarrow> jsnum" where
  "inf_of_sign s = (if s = 0 then NaN else if 0 < s then PosInf else NegInf)"

fun num_mul :: "jsnum \<Rightarrow> jsnum \<Rightarrow> jsnum" where
  "num_mul (Num a) (Num b) = to_num (a * b)"
| "num_mul NaN _ = NaN"
| "num_mul _ NaN = NaN"
| "num_mul PosInf (Num b) = inf_of_sign b"
| "num_mul NegInf (Num b) = inf_of_sign (- b)"
| "num_mul (Num a) PosInf = inf_of_sign a"
| "num_mul (Num a) NegInf = inf_of_sign (- a)"
| "num_mul PosInf PosInf = PosInf"
| "num_mul NegInf NegInf = PosInf"
| "num_mul PosInf NegInf = NegInf"
| "num_mul NegInf PosInf = NegInf"

fun num_div :: "jsnum \<Rightarrow> jsnum \<Rightarrow> jsnum" where
  "num_div (Num a) (Num b) = (if b = 0 then inf_of_sign a else to_num (a / b))"
| "num_div NaN _ = NaN"
| "num_div _ NaN = NaN"
| "num_div (Num a) _ = Num 0"
| "num_div PosInf (Num b) = (if 0 \<le> b then PosInf else NegInf)"
| "num_div NegInf (Num b) = (if 0 \<le> b then NegInf else PosInf)"
| "num_div _ _ = NaN"

fun num_lt :: "jsnum \<Rightarrow> jsnum \<Rightarrow> bool" where
  "num_lt (Num a) (Num b) = (a < b)"
| "num_lt NaN _ = False"
| "num_lt _ NaN = False"
| "num_lt NegInf x = (x \<noteq> NegInf)"
| "num_lt x PosInf = (x \<noteq> PosInf)"
| "num_lt _ _ = False"

fun num_le :: "jsnum \<Rightarrow> jsnum \<Rightarrow> bool" where
  "num_le (Num a) (Num b) = (a \<le> b)"
| "num_le NaN _ = False"
| "num_le _ NaN = False"
| "num_le NegInf _ = True"
| "num_le _ PosInf = True"
| "num_le _ _ = False"

text \<open>\<open>Math.max\<close> and \<open>Math.min\<close> of two arguments: a \<open>NaN\<close> argument wins.\<close>

definition num_max :: "jsnum \<Rightarrow> jsnum \<Rightarrow> jsnum" where
  "num_max a b = (if a = NaN \<or> b = NaN then NaN else if num_lt a b then b else a)"

definition num_min :: "jsnum \<Rightarrow> jsnum \<Rightarrow> jsnum" where
  "num_min a b = (if a = NaN \<or> b = NaN then NaN else if num_lt b a then b else a)"

fun num_abs :: "jsnum \<Rightarrow> jsnum" where
  "num_abs (Num a) = Num \<bar>a\<bar>"
| "num_abs NaN = NaN"
| "num_abs _ = PosInf"

fun is_finite :: "jsnum \<Rightarrow> bool" where
  "is_finite (Num a) = True"
| "is_finite _ = False"

fun num_floor :: "jsnum \<Rightarrow> jsnum" where
  "num_floor (Num a) = Num (of_int \<lfloor>a\<rfloor>)"
| "num_floor x = x"

text \<open>\<open>Math.round\<close>: to the nearest integer, a half towards \<open>+\<infinity>\<close>.\<close>

fun num_round :: "jsnum \<Rightarrow> jsnum" where
  "num_round (Num a) = Num (of_int \<lfloor>a + 1 / 2\<rfloor>)"
| "num_round x = x"

text \<open>\<open>BigInt(n)\<close> of a number throws a \<open>RangeError\<close> unless it is an integer.\<close>

definition bigint_of_num :: "jsnum \<Rightarrow> int res" where
  "bigint_of_num x = (case x of Num a \<Rightarrow>
       if of_int \<lfloor>a\<rfloor> = a then Inr \<lfloor>a\<rfloor> else Inl (js ''not an integer'')
     | _ \<Rightarrow> Inl (js ''not an integer''))"

lemma to_num_f64: "is_f64 v \<Longrightarrow> \<bar>v\<bar> < 2 ^ 1024 \<Longrightarrow> to_num v = Num v"
  by (auto simp: to_num_def overflow_def fl_f64 abs_less_iff)

lemma to_num_not_NaN [simp]: "to_num q \<noteq> NaN"
  by (simp add: to_num_def overflow_def)

lemma num_of_int_small: "\<bar>k\<bar> \<le> 2 ^ 53 \<Longrightarrow> num_of_int k = Num (of_int k)"
proof -
  assume k: "\<bar>k\<bar> \<le> 2 ^ 53"
  then have "of_int \<bar>k\<bar> \<le> (of_int (2 ^ 53) :: rat)" by (simp only: of_int_le_iff)
  also have "\<dots> < 2 ^ 1024" by simp
  finally have "\<bar>of_int k :: rat\<bar> < 2 ^ 1024" by simp
  with k show ?thesis by (simp add: num_of_int_def to_num_f64 is_f64_of_int)
qed

lemma num_le_to_num_f64:
  assumes "c \<le> q" "is_f64 c" "\<bar>c\<bar> < 2 ^ 1024"
  shows "num_le (Num c) (to_num q)"
  using fl_ge_f64 [OF assms(1,2)] assms(3) by (auto simp: to_num_def overflow_def)

lemma to_num_le_num_f64:
  assumes "q \<le> c" "is_f64 c" "\<bar>c\<bar> < 2 ^ 1024"
  shows "num_le (to_num q) (Num c)"
  using fl_le_f64 [OF assms(1,2)] assms(3) by (auto simp: to_num_def overflow_def)

lemma bigint_round: "bigint_of_num (num_round (Num a)) = Inr \<lfloor>a + 1 / 2\<rfloor>"
  by (simp add: bigint_of_num_def)


subsection \<open>Well-formed and non-negative numbers\<close>

text \<open>
  The values a JavaScript number can have: a finite one is a binary64 below the overflow
  threshold. \<open>nn_num\<close> is the non-negative ones, which addition keeps.
\<close>

fun num_wf :: "jsnum \<Rightarrow> bool" where
  "num_wf (Num v) = (is_f64 v \<and> \<bar>v\<bar> < 2 ^ 1024)"
| "num_wf _ = True"

fun nn_num :: "jsnum \<Rightarrow> bool" where
  "nn_num (Num v) = (0 \<le> v \<and> is_f64 v \<and> v < 2 ^ 1024)"
| "nn_num PosInf = True"
| "nn_num _ = False"

lemma num_wf_to_num [simp]: "num_wf (to_num q)"
  by (auto simp: to_num_def overflow_def is_f64_fl abs_less_iff)

lemma num_wf_num_of_int [simp]: "num_wf (num_of_int k)"
  by (simp add: num_of_int_def)

lemma nn_num_to_num: "0 \<le> q \<Longrightarrow> nn_num (to_num q)"
  using fl_nonneg [of q] by (auto simp: to_num_def overflow_def is_f64_fl)

lemma nn_num_0 [simp]: "nn_num (Num 0)"
  by simp

lemma nn_num_not_NaN: "nn_num x \<Longrightarrow> x \<noteq> NaN"
  by auto

lemma nn_num_iff: "nn_num x \<longleftrightarrow> num_wf x \<and> num_le (Num 0) x"
  by (cases x) auto

lemma nn_num_add: "nn_num x \<Longrightarrow> nn_num y \<Longrightarrow> nn_num (num_add x y)"
  by (cases x; cases y) (simp_all add: nn_num_to_num)

lemma num_le_refl: "x \<noteq> NaN \<Longrightarrow> num_le x x"
  by (cases x) simp_all

lemma num_le_trans: "num_le x y \<Longrightarrow> num_le y z \<Longrightarrow> num_le x z"
  by (cases x; cases y; cases z) auto

lemma num_le_add_nn:
  assumes "nn_num x" "nn_num y"
  shows "num_le x (num_add x y)"
proof (cases "\<exists>a b. x = Num a \<and> y = Num b")
  case True
  then show ?thesis using assms by (auto intro!: num_le_to_num_f64)
next
  case False
  then show ?thesis using assms by (cases x; cases y) auto
qed

lemma num_not_lt: "x \<noteq> NaN \<Longrightarrow> y \<noteq> NaN \<Longrightarrow> \<not> num_lt x y \<longleftrightarrow> num_le y x"
  by (cases x; cases y) auto

lemma num_lt_le_trans: "num_le x y \<Longrightarrow> num_lt y z \<Longrightarrow> num_lt x z"
  by (cases x; cases y; cases z) auto

text \<open>\<open>Math.min(hi, Math.max(lo, x))\<close> and \<open>Math.max(lo, x)\<close> of a number that is not \<open>NaN\<close>.\<close>

lemma num_max_ge: "x \<noteq> NaN \<Longrightarrow> num_le (Num lo) (num_max (Num lo) x)"
  by (cases x) (auto simp: num_max_def)

lemma num_clamp:
  assumes "x \<noteq> NaN" "lo \<le> hi"
  shows "num_le (Num lo) (num_min (Num hi) (num_max (Num lo) x))
    \<and> num_le (num_min (Num hi) (num_max (Num lo) x)) (Num hi)"
  using assms by (cases x) (auto simp: num_max_def num_min_def)

end
