(* ===== verification/JsText.thy ===== *)
theory JsText
  imports JsNumber
begin

section \<open>Numbers and BigInts as text\<close>

text \<open>
  The conversions of the JavaScript standard library that the code calls: \<open>BigInt(s)\<close> and
  \<open>toString\<close> of a BigInt, \<open>Number(s)\<close>, \<open>String(n)\<close> (the shortest decimal that reads back as the same
  number), \<open>toFixed\<close>, and \<open>toLocaleString\<close> for the two locales in use (pt-BR and en-US). A
  BigInt is an \<open>int\<close>; its division and remainder truncate towards zero. The lemmas are the
  round trip of a decimal through \<open>BigInt\<close> and the fact that grouping digits loses none.
\<close>

subsection \<open>BigInt\<close>

definition big_div :: "int \<Rightarrow> int \<Rightarrow> int" where
  "big_div a b = sgn a * sgn b * (\<bar>a\<bar> div \<bar>b\<bar>)"

definition big_mod :: "int \<Rightarrow> int \<Rightarrow> int" where
  "big_mod a b = sgn a * (\<bar>a\<bar> mod \<bar>b\<bar>)"

definition big_str :: "int \<Rightarrow> jstr" where
  "big_str k = (if k < 0 then 45 # dec (nat (- k)) else dec (nat k))"

definition octal_or_less :: "nat \<Rightarrow> nat \<Rightarrow> bool" where
  "octal_or_less b c \<longleftrightarrow> is_digit c \<and> digit_val c < b"

text \<open>\<open>0x\<close>, \<open>0o\<close> and \<open>0b\<close> literals, read by \<open>Number\<close> and \<open>BigInt\<close> alike.\<close>

definition radix_lit :: "jstr \<Rightarrow> nat option" where
  "radix_lit t = (case t of z # x # ds \<Rightarrow>
       if z = 48 \<and> ds \<noteq> [] then
         if (x = 120 \<or> x = 88) \<and> list_all is_hex ds then Some (of_base 16 ds)
         else if (x = 111 \<or> x = 79) \<and> list_all (octal_or_less 8) ds then Some (of_base 8 ds)
         else if (x = 98 \<or> x = 66) \<and> list_all (octal_or_less 2) ds then Some (of_base 2 ds)
         else None
       else None
     | _ \<Rightarrow> None)"

definition big_of_str :: "jstr \<Rightarrow> int res" where
  "big_of_str s = (let t = trim s in
     if t = [] then Inr 0
     else if is_digits t then Inr (int (undec t))
     else if hd t = 45 \<and> is_digits (tl t) then Inr (- int (undec (tl t)))
     else if hd t = 43 \<and> is_digits (tl t) then Inr (int (undec (tl t)))
     else case radix_lit t of Some n \<Rightarrow> Inr (int n)
       | None \<Rightarrow> Inl (js ''Cannot convert to a BigInt''))"

lemma big_div_nonneg [simp]: "0 \<le> a \<Longrightarrow> 0 < b \<Longrightarrow> big_div a b = a div b"
  by (cases "a = 0") (simp_all add: big_div_def)

lemma big_mod_nonneg [simp]: "0 \<le> a \<Longrightarrow> 0 < b \<Longrightarrow> big_mod a b = a mod b"
  by (cases "a = 0") (simp_all add: big_mod_def)

lemma big_div_mod: "0 < b \<Longrightarrow> big_div a b * b + big_mod a b = a"
  by (cases "0 < a"; cases "a = 0")
    (simp_all add: big_div_def big_mod_def minus_div_mult_eq_mod [symmetric] algebra_simps)

lemma big_str_nonneg: "0 \<le> k \<Longrightarrow> big_str k = dec (nat k)"
  by (simp add: big_str_def)

lemma trim_digits: "list_all is_digit s \<Longrightarrow> trim s = s"
  by (rule trim_no_ws) (auto simp: list_all_iff is_digit_not_ws)

lemma big_of_str_digits: "is_digits s \<Longrightarrow> big_of_str s = Inr (int (undec s))"
  by (simp add: big_of_str_def trim_digits is_digits_def)

lemma big_of_str_dec [simp]: "big_of_str (dec n) = Inr (int n)"
  by (simp add: big_of_str_digits)

text \<open>\<open>BigInt(n.toString()) === n\<close>, signs included.\<close>

lemma big_of_str_big_str: "big_of_str (big_str k) = Inr k"
proof (cases "k < 0")
  case True
  have "trim (45 # dec (nat (- k))) = 45 # dec (nat (- k))"
    using dec_digits [of "nat (- k)"]
    by (intro trim_no_ws) (auto simp: list_all_iff is_digit_not_ws, auto simp: is_ws_def)
  then show ?thesis
    using True by (simp add: big_str_def big_of_str_def is_digits_def is_digit_def dec_digits)
next
  case False
  then show ?thesis by (simp add: big_str_def)
qed


subsection \<open>Number(s)\<close>

definition exp_digits :: "jstr \<Rightarrow> int option" where
  "exp_digits s = (if is_digits s then Some (int (undec s)) else None)"

definition exp_part :: "jstr \<Rightarrow> int option" where
  "exp_part s = (case s of [] \<Rightarrow> Some 0
     | c # r \<Rightarrow> if c = 101 \<or> c = 69 then
         (case r of [] \<Rightarrow> None
          | d # r' \<Rightarrow> if d = 43 then exp_digits r'
             else if d = 45 then map_option uminus (exp_digits r')
             else exp_digits r)
       else None)"

definition udec_lit :: "jstr \<Rightarrow> rat option" where
  "udec_lit s = (let ip = takeWhile is_digit s; r1 = dropWhile is_digit s;
      fp = (case r1 of c # r \<Rightarrow> if c = 46 then takeWhile is_digit r else [] | [] \<Rightarrow> []);
      r2 = (case r1 of c # r \<Rightarrow> if c = 46 then dropWhile is_digit r else r1 | [] \<Rightarrow> [])
    in if ip = [] \<and> fp = [] then None
       else map_option (\<lambda>e. of_nat (undec (ip @ fp)) * 10 powi (e - int (length fp))) (exp_part r2))"

definition num_of_lit :: "rat option \<Rightarrow> jsnum" where
  "num_of_lit q = (case q of None \<Rightarrow> NaN | Some v \<Rightarrow> to_num v)"

definition num_of_str :: "jstr \<Rightarrow> jsnum" where
  "num_of_str s = (let t = trim s in
     if t = [] then Num 0
     else if t = js ''Infinity'' \<or> t = js ''+Infinity'' then PosInf
     else if t = js ''-Infinity'' then NegInf
     else case radix_lit t of Some n \<Rightarrow> num_of_int (int n)
       | None \<Rightarrow> if hd t = 45 then num_neg (num_of_lit (udec_lit (tl t)))
                 else if hd t = 43 then num_of_lit (udec_lit (tl t))
                 else num_of_lit (udec_lit t))"


lemma num_wf_neg [simp]: "num_wf (num_neg x) = num_wf x"
proof (cases x)
  case (Num v)
  have "is_f64 (- v) = is_f64 v"
    unfolding is_f64_def by (metis (no_types, opaque_lifting) abs_minus_cancel
      minus_mult_left of_int_minus verit_minus_simplify(4))
  then show ?thesis using Num by simp
qed simp_all

lemma num_wf_num_of_str [simp]: "num_wf (num_of_str s)"
  by (simp add: num_of_str_def num_of_lit_def Let_def split: option.split)


subsection \<open>String(n): the shortest decimal that reads back\<close>

definition ilog10_1 :: "rat \<Rightarrow> int" where
  "ilog10_1 a = (if 1 \<le> a then int (length (dec (nat \<lfloor>a\<rfloor>)))
     else 1 - int (length (dec (nat (\<lceil>1 / a\<rceil> - 1)))))"

definition short_reads :: "rat \<Rightarrow> int \<Rightarrow> int \<Rightarrow> bool" where
  "short_reads a e s \<longleftrightarrow> fl (of_int s * 10 powi e) = a"

definition near_pair :: "int \<Rightarrow> rat \<Rightarrow> int \<times> int" where
  "near_pair f r = (if r < 1 / 2 \<or> (r = 1 / 2 \<and> even f) then (f, f + 1) else (f + 1, f))"

fun short_pick :: "rat \<Rightarrow> int \<Rightarrow> int \<times> int \<Rightarrow> int option" where
  "short_pick a e (s1, s2) = (if short_reads a e s1 then Some s1
     else if short_reads a e s2 then Some s2 else None)"

definition short_cand :: "rat \<Rightarrow> int \<Rightarrow> int \<Rightarrow> int option" where
  "short_cand a n k = short_pick a (n - k)
     (near_pair \<lfloor>a * 10 powi (k - n)\<rfloor> (a * 10 powi (k - n) - of_int \<lfloor>a * 10 powi (k - n)\<rfloor>))"

fun short_search :: "nat \<Rightarrow> rat \<Rightarrow> int \<Rightarrow> int \<Rightarrow> int \<times> int" where
  "short_search 0 a n k = (rne (a * 10 powi (k - n)), k)"
| "short_search (Suc m) a n k =
     (case short_cand a n k of Some s \<Rightarrow> (s, k) | None \<Rightarrow> short_search m a n (k + 1))"

definition zeros :: "int \<Rightarrow> jstr" where
  "zeros k = replicate (nat k) 48"

definition exp_suffix :: "int \<Rightarrow> jstr" where
  "exp_suffix e = 101 # (if e < 0 then 45 else 43) # dec (nat \<bar>e\<bar>)"

definition place_point :: "jstr \<Rightarrow> int \<Rightarrow> int \<Rightarrow> jstr" where
  "place_point ds k n =
     (if k \<le> n \<and> n \<le> 21 then ds @ zeros (n - k)
      else if 0 < n \<and> n \<le> 21 then take (nat n) ds @ [46] @ drop (nat n) ds
      else if - 6 < n \<and> n \<le> 0 then [48, 46] @ zeros (- n) @ ds
      else if k = 1 then ds @ exp_suffix (n - 1)
      else take 1 ds @ [46] @ drop 1 ds @ exp_suffix (n - 1))"

fun finish_str :: "int \<Rightarrow> int \<times> int \<Rightarrow> jstr" where
  "finish_str n (s, k) = (if s = 10 ^ nat k then place_point (dec (nat (s div 10))) k (n + 1)
     else place_point (dec (nat s)) k n)"

definition pos_str :: "rat \<Rightarrow> jstr" where
  "pos_str a = finish_str (ilog10_1 a) (short_search 16 a (ilog10_1 a) 1)"

fun num_str :: "jsnum \<Rightarrow> jstr" where
  "num_str NaN = js ''NaN''"
| "num_str PosInf = js ''Infinity''"
| "num_str NegInf = js ''-Infinity''"
| "num_str (Num q) = (if q = 0 then [48] else if q < 0 then 45 # pos_str (- q) else pos_str q)"


subsection \<open>toFixed and toLocaleString\<close>

text \<open>A non-negative rational in units of \<open>10 ^ -d\<close>, a half rounded up.\<close>

definition scaled :: "nat \<Rightarrow> rat \<Rightarrow> nat" where
  "scaled d a = nat \<lfloor>a * 10 ^ d + 1 / 2\<rfloor>"

definition int_part :: "nat \<Rightarrow> nat \<Rightarrow> jstr" where
  "int_part d m = dec (m div 10 ^ d)"

definition frac_part :: "nat \<Rightarrow> nat \<Rightarrow> jstr" where
  "frac_part d m = (if d = 0 then [] else pad_start d 48 (dec (m mod 10 ^ d)))"

definition with_frac :: "nat \<Rightarrow> jstr \<Rightarrow> jstr \<Rightarrow> jstr" where
  "with_frac sep ip fp = (if fp = [] then ip else ip @ [sep] @ fp)"

fun to_fixed :: "nat \<Rightarrow> jsnum \<Rightarrow> jstr" where
  "to_fixed d (Num q) = (if 10 ^ 21 \<le> \<bar>q\<bar> then num_str (Num q)
     else (if q < 0 then [45] else [])
       @ with_frac 46 (int_part d (scaled d \<bar>q\<bar>)) (frac_part d (scaled d \<bar>q\<bar>)))"
| "to_fixed d x = num_str x"

datatype loc = PtBR | EnUS

fun group_sep :: "loc \<Rightarrow> nat" where
  "group_sep PtBR = 46"
| "group_sep EnUS = 44"

fun decimal_sep :: "loc \<Rightarrow> nat" where
  "decimal_sep PtBR = 44"
| "decimal_sep EnUS = 46"

fun group_rev :: "nat \<Rightarrow> jstr \<Rightarrow> jstr" where
  "group_rev sep (a # b # c # d # r) = a # b # c # sep # group_rev sep (d # r)"
| "group_rev sep s = s"

definition group3 :: "nat \<Rightarrow> jstr \<Rightarrow> jstr" where
  "group3 sep s = rev (group_rev sep (rev s))"

text \<open>Fraction digits between \<open>mn\<close> and the \<open>mx\<close> already computed: drop zeros beyond \<open>mn\<close>.\<close>

definition min_frac :: "nat \<Rightarrow> jstr \<Rightarrow> jstr" where
  "min_frac mn fp = pad_end mn 48 (strip_zeros fp)"

fun locale_str :: "loc \<Rightarrow> nat \<Rightarrow> nat \<Rightarrow> jsnum \<Rightarrow> jstr" where
  "locale_str l mn mx (Num q) = (if q < 0 then [45] else [])
     @ with_frac (decimal_sep l) (group3 (group_sep l) (int_part mx (scaled mx \<bar>q\<bar>)))
         (min_frac mn (frac_part mx (scaled mx \<bar>q\<bar>)))"
| "locale_str l mn mx NaN = js ''NaN''"
| "locale_str l mn mx PosInf = [8734]"
| "locale_str l mn mx NegInf = [45, 8734]"

text \<open>Grouping only inserts separators: without them the digits are the ones that went in.\<close>

lemma filter_group_rev: "sep \<notin> set s \<Longrightarrow> filter (\<lambda>c. c \<noteq> sep) (group_rev sep s) = s"
  by (induction sep s rule: group_rev.induct) auto

lemma filter_group3: "sep \<notin> set s \<Longrightarrow> filter (\<lambda>c. c \<noteq> sep) (group3 sep s) = s"
  by (simp add: group3_def filter_group_rev flip: rev_filter)

lemma group3_short: "length s \<le> 3 \<Longrightarrow> group3 sep s = s"
proof -
  assume "length s \<le> 3"
  then have "group_rev sep (rev s) = rev s"
    by (cases "(sep, rev s)" rule: group_rev.cases) (auto dest: arg_cong [where f = length])
  then show ?thesis by (simp add: group3_def)
qed

lemma scaled_of_nat [simp]: "scaled 0 (of_nat n) = n"
  by (simp add: scaled_def)

lemma locale_str_nat:
  "locale_str l 0 0 (Num (of_nat n)) = group3 (group_sep l) (dec n)"
  by (simp add: int_part_def frac_part_def with_frac_def min_frac_def pad_end_def strip_zeros_def)


subsection \<open>Evaluation on concrete input\<close>

lemmas text_eval [num_eval] = num_of_str_def udec_lit_def exp_part_def exp_digits_def radix_lit_def
  num_of_lit_def pos_str_def ilog10_1_def short_cand_def near_pair_def short_reads_def Let_def place_point_def zeros_def exp_suffix_def
  scaled_def int_part_def frac_part_def with_frac_def min_frac_def group3_def pad_start_def pad_end_def
  big_str_def big_of_str_def

lemma short_search_numeral [num_eval]: "short_search (numeral m) a n k =
     (case short_cand a n k of Some s \<Rightarrow> (s, k) | None \<Rightarrow> short_search (pred_numeral m) a n (k + 1))"
  by (simp add: numeral_eq_Suc)

lemma num_of_str_0005: "num_of_str (js ''0.005'') = Num (5764607523034235 / 1152921504606846976)"
  by (simp add: num_eval js_eval)

lemma num_str_0005: "num_str (Num (5764607523034235 / 1152921504606846976)) = js ''0.005''"
  by (simp add: num_eval js_eval)

lemma num_of_str_12_5: "num_of_str (js '' 12.5e1 '') = Num 125"
  by (simp add: num_eval js_eval)

lemma num_add_tenths:
  "num_str (num_add (num_of_str (js ''0.1'')) (num_of_str (js ''0.2''))) = js ''0.30000000000000004''"
  by (simp add: num_eval js_eval)

lemma num_str_1e23: "num_str (num_of_str (js ''1e23'')) = js ''1e+23''"
  by (simp add: num_eval js_eval)

lemma to_fixed_example: "to_fixed 2 (Num (- 1 / 3)) = js ''-0.33''"
  by (simp add: num_eval js_eval)

lemma locale_str_example: "locale_str PtBR 0 2 (Num (24691357 / 20)) = js ''1.234.567,85''"
  by (simp add: num_eval js_eval)

end
