(* ===== verification/Decimals.thy ===== *)
theory Decimals
  imports JsText
begin

section \<open>Amounts in base units as decimal text\<close>

text \<open>
  Every amount on the explorer is an integer of base units (e7, wei, a token's smallest unit)
  and is shown with a fixed number of decimals. Four functions of the code print one
  (\<open>formatTokenAmount\<close>, \<open>formatPayDisplay\<close>, \<open>e7ToWhole\<close>, \<open>weiToEav7Str\<close>), with the same
  expression \<open>frac.toString().padStart(d, "0").replace(/0+$/, "")\<close>, and \<open>parseEav7ToWei\<close> reads
  one with the regular expression \<open>/^(\d+)(?:\.(\d{1,6}))?$/\<close>. The theory has that expression
  (\<open>frac_str\<close>, \<open>amount_str\<close>), the recogniser (\<open>match_decimal\<close>), the reader (\<open>read_decimal\<close>), and
  the contract they share as a locale: a printer whose text reads back as the amount
  (\<open>amount_printer\<close>), from which it is injective and its output well-formed.
\<close>

definition frac_str :: "nat \<Rightarrow> int \<Rightarrow> jstr" where
  "frac_str d f = strip_zeros (pad_start d 48 (big_str f))"

definition amount_str :: "nat \<Rightarrow> int \<Rightarrow> jstr" where
  "amount_str d n = (let fracStr = frac_str d (big_mod n (10 ^ d)); whole = big_str (big_div n (10 ^ d))
     in if fracStr \<noteq> [] then whole @ [46] @ fracStr else whole)"

definition match_decimal :: "nat \<Rightarrow> jstr \<Rightarrow> (jstr \<times> jstr option) option" where
  "match_decimal d s = (let ip = takeWhile is_digit s; r = dropWhile is_digit s in
     if ip = [] then None
     else case r of [] \<Rightarrow> Some (ip, None)
       | c # f \<Rightarrow> if c = 46 \<and> is_digits f \<and> length f \<le> d then Some (ip, Some f) else None)"

definition frac_value :: "nat \<Rightarrow> jstr option \<Rightarrow> nat" where
  "frac_value d f = undec (pad_end d 48 (case f of None \<Rightarrow> [48] | Some g \<Rightarrow> g))"

definition read_decimal :: "nat \<Rightarrow> jstr \<Rightarrow> nat option" where
  "read_decimal d s =
     map_option (\<lambda>(ip, f). undec ip * 10 ^ d + frac_value d f) (match_decimal d s)"

lemma length_dec_frac: "n < 10 ^ d \<Longrightarrow> 0 < d \<Longrightarrow> length (pad_start d 48 (dec n)) = d"
  using length_to_base_le [of 10 n d] by (simp add: length_pad_start)

lemma frac_str_pad:
  assumes "n < 10 ^ d" "0 < d"
  shows "undec (pad_end d 48 (frac_str d (int n))) = n"
  using assms by (simp add: frac_str_def big_str_def pad_end_strip_zeros length_dec_frac)

lemma frac_str_digits: "0 \<le> f \<Longrightarrow> list_all is_digit (frac_str d f)"
  by (simp add: frac_str_def big_str_def list_all_strip_zeros list_all_pad_start dec_digits)

lemma length_frac_str: "n < 10 ^ d \<Longrightarrow> 0 < d \<Longrightarrow> length (frac_str d (int n)) \<le> d"
  using length_strip_zeros [of "pad_start d 48 (dec n)"] length_dec_frac [of n d]
  by (simp add: frac_str_def big_str_def)

lemma frac_str_zero: "frac_str d 0 = []"
  by (simp add: frac_str_def big_str_def pad_start_def strip_zeros_def to_base_less
      digit_char_def dropWhile_append)

lemma takeWhile_digits_append:
  "list_all is_digit s \<Longrightarrow> \<not> is_digit c \<Longrightarrow> takeWhile is_digit (s @ c # r) = s"
  by (simp add: list_all_iff takeWhile_tail)

lemma dropWhile_digits_append:
  "list_all is_digit s \<Longrightarrow> \<not> is_digit c \<Longrightarrow> dropWhile is_digit (s @ c # r) = c # r"
  by (induction s) auto

lemma takeWhile_digits: "list_all is_digit s \<Longrightarrow> takeWhile is_digit s = s"
  by (simp add: list_all_iff)

lemma dropWhile_digits: "list_all is_digit s \<Longrightarrow> dropWhile is_digit s = []"
  by (simp add: list_all_iff)

lemma not_digit_dot [simp]: "\<not> is_digit 46"
  by (simp add: is_digit_def)

lemma match_decimal_whole:
  "is_digits s \<Longrightarrow> match_decimal d s = Some (s, None)"
  by (simp add: match_decimal_def is_digits_def takeWhile_digits dropWhile_digits Let_def)

lemma match_decimal_point:
  "is_digits s \<Longrightarrow> is_digits f \<Longrightarrow> length f \<le> d \<Longrightarrow> match_decimal d (s @ 46 # f) = Some (s, Some f)"
  by (simp add: match_decimal_def is_digits_def takeWhile_digits_append dropWhile_digits_append Let_def)

lemma frac_value_None [simp]: "frac_value d None = 0"
  by (simp add: frac_value_def pad_end_def of_base_Cons)

lemma amount_str_nat:
  "amount_str d (int n) = (let f = frac_str d (int (n mod 10 ^ d))
     in if f \<noteq> [] then dec (n div 10 ^ d) @ 46 # f else dec (n div 10 ^ d))"
proof -
  have "int n div 10 ^ d = int (n div 10 ^ d)" "int n mod 10 ^ d = int (n mod 10 ^ d)"
    by (simp_all add: zdiv_int zmod_int)
  then show ?thesis by (simp add: amount_str_def Let_def big_str_nonneg)
qed

text \<open>The text of an amount reads back as the amount, for any number of decimals.\<close>

lemma read_amount_str: "read_decimal d (amount_str d (int n)) = Some n"
proof (cases "n mod 10 ^ d = 0")
  case True
  then have "n div 10 ^ d * 10 ^ d = n" by (metis add.right_neutral div_mult_mod_eq)
  then show ?thesis
    using True by (simp add: amount_str_nat frac_str_zero read_decimal_def match_decimal_whole)
next
  case False
  let ?f = "frac_str d (int (n mod 10 ^ d))"
  have d: "0 < d" using False by (cases d) auto
  have lt: "n mod 10 ^ d < 10 ^ d" by simp
  have "?f \<noteq> []"
  proof
    assume "?f = []"
    then have "undec (pad_end d 48 []) = n mod 10 ^ d"
      using frac_str_pad [OF lt d] by simp
    then show False using False by (simp add: pad_end_def)
  qed
  moreover have "is_digits ?f" using calculation by (simp add: is_digits_def frac_str_digits)
  moreover have "frac_value d (Some ?f) = n mod 10 ^ d"
    using frac_str_pad [OF lt d] by (simp add: frac_value_def)
  ultimately show ?thesis
    using length_frac_str [OF lt d]
    by (simp add: amount_str_nat read_decimal_def match_decimal_point Let_def div_mult_mod_eq)
qed


subsection \<open>The contract of a printer\<close>

locale amount_printer =
  fixes d :: nat and render :: "int \<Rightarrow> jstr"
  assumes reads_back: "read_decimal d (render (int n)) = Some n"
begin

lemma render_inj: "render (int m) = render (int n) \<Longrightarrow> m = n"
  using reads_back by (metis option.inject)

lemma render_nonempty: "render (int n) \<noteq> []"
proof
  assume "render (int n) = []"
  then have "read_decimal d [] = Some n" using reads_back [of n] by simp
  then show False by (simp add: read_decimal_def match_decimal_def)
qed

lemma render_value:
  "\<exists>ip f. match_decimal d (render (int n)) = Some (ip, f) \<and> n = undec ip * 10 ^ d + frac_value d f"
  using reads_back [of n] by (auto simp: read_decimal_def)

end

interpretation amount: amount_printer d "amount_str d" for d
  by unfold_locales (rule read_amount_str)

end
