(* ===== verification/SaleRails.thy ===== *)
theory SaleRails
  imports Decimals
begin

section \<open>Payment rails of the sale (\<open>lib/sale-rails.ts\<close>)\<close>

text \<open>
  The treasury rails a buyer can pay on, the demo quote of an amount to pay (whose last digits
  carry a nonce, so that an incoming payment identifies its intent) and the printing of a token
  amount. The lemmas say where the suffixed amount lies, that the suffix is the nonce, and that a
  printed amount reads back.
\<close>

record sale_rail =
  rail_id :: jstr
  rail_chain :: jstr
  rail_asset :: jstr
  rail_standard :: jstr
  rail_receive :: jstr
  rail_explorer :: jstr
  rail_token :: "jstr option"
  rail_decimals :: "nat option"

definition SALE_PRICE_USD_PER_EAV7 :: jsnum where
  "SALE_PRICE_USD_PER_EAV7 = num_of_str (js ''0.008'')"

definition SALE_RAILS :: "sale_rail list" where
  "SALE_RAILS = [
    \<lparr>rail_id = js ''eth-usdt'', rail_chain = js ''ethereum'', rail_asset = js ''USDT'', rail_standard = js ''ERC-20'',
      rail_receive = js ''0x2ddd408bbd8c84fb64ac950f578e9297e7002a35'',
      rail_explorer = js ''https://etherscan.io/address/0x2ddd408bbd8c84fb64ac950f578e9297e7002a35'',
      rail_token = Some (js ''0xdAC17F958D2ee523a2206206994597C13D831ec7''), rail_decimals = Some 6\<rparr>,
    \<lparr>rail_id = js ''eth-usdc'', rail_chain = js ''ethereum'', rail_asset = js ''USDC'', rail_standard = js ''ERC-20'',
      rail_receive = js ''0x2ddd408bbd8c84fb64ac950f578e9297e7002a35'',
      rail_explorer = js ''https://etherscan.io/address/0x2ddd408bbd8c84fb64ac950f578e9297e7002a35'',
      rail_token = Some (js ''0xA0b86991c6218b36c1d19D4a2e9Eb0cE3606eB48''), rail_decimals = Some 6\<rparr>,
    \<lparr>rail_id = js ''bsc-usdt'', rail_chain = js ''bsc'', rail_asset = js ''USDT'', rail_standard = js ''BEP-20'',
      rail_receive = js ''0x2ddd408bbd8c84fb64ac950f578e9297e7002a35'',
      rail_explorer = js ''https://bscscan.com/address/0x2ddd408bbd8c84fb64ac950f578e9297e7002a35'',
      rail_token = Some (js ''0x55d398326f99059fF775485246999027B3197955''), rail_decimals = Some 18\<rparr>,
    \<lparr>rail_id = js ''bsc-usdc'', rail_chain = js ''bsc'', rail_asset = js ''USDC'', rail_standard = js ''BEP-20'',
      rail_receive = js ''0x2ddd408bbd8c84fb64ac950f578e9297e7002a35'',
      rail_explorer = js ''https://bscscan.com/address/0x2ddd408bbd8c84fb64ac950f578e9297e7002a35'',
      rail_token = Some (js ''0x8AC76a51cc950d9822D68b83fE1Ad97B32Cd580d''), rail_decimals = Some 18\<rparr>,
    \<lparr>rail_id = js ''tron-usdt'', rail_chain = js ''tron'', rail_asset = js ''USDT'', rail_standard = js ''TRC-20'',
      rail_receive = js ''TMymUyjrF1aumbr7FYGnfJdca1dkndg6qj'',
      rail_explorer = js ''https://tronscan.org/#/address/TMymUyjrF1aumbr7FYGnfJdca1dkndg6qj'',
      rail_token = Some (js ''TR7NHqjeKQxGTCi8q8ZY4pL8otSzgjLj6t''), rail_decimals = Some 6\<rparr>,
    \<lparr>rail_id = js ''tron-usdc'', rail_chain = js ''tron'', rail_asset = js ''USDC'', rail_standard = js ''TRC-20'',
      rail_receive = js ''TMymUyjrF1aumbr7FYGnfJdca1dkndg6qj'',
      rail_explorer = js ''https://tronscan.org/#/address/TMymUyjrF1aumbr7FYGnfJdca1dkndg6qj'',
      rail_token = Some (js ''TEkxiTehnzSmSe2XqrBj4w32RUN966rdz8''), rail_decimals = Some 6\<rparr>,
    \<lparr>rail_id = js ''btc'', rail_chain = js ''bitcoin'', rail_asset = js ''BTC'', rail_standard = js ''native'',
      rail_receive = js ''bc1q0h3d69d03c7wwaul97xq322l64c0lag2nddy3j'',
      rail_explorer = js ''https://mempool.space/address/bc1q0h3d69d03c7wwaul97xq322l64c0lag2nddy3j'',
      rail_token = None, rail_decimals = None\<rparr>,
    \<lparr>rail_id = js ''sol-usdt'', rail_chain = js ''solana'', rail_asset = js ''USDT'', rail_standard = js ''SPL'',
      rail_receive = js ''E1fuh28E9nFkvWEpUYujvnWChB7modBhitBP4fqTyedt'',
      rail_explorer = js ''https://solscan.io/account/E1fuh28E9nFkvWEpUYujvnWChB7modBhitBP4fqTyedt'',
      rail_token = Some (js ''Es9vMFrzaCERmJfrF4H2FYD4KCoNkY11McCe8BenwNYB''), rail_decimals = Some 6\<rparr>,
    \<lparr>rail_id = js ''sol-usdc'', rail_chain = js ''solana'', rail_asset = js ''USDC'', rail_standard = js ''SPL'',
      rail_receive = js ''E1fuh28E9nFkvWEpUYujvnWChB7modBhitBP4fqTyedt'',
      rail_explorer = js ''https://solscan.io/account/E1fuh28E9nFkvWEpUYujvnWChB7modBhitBP4fqTyedt'',
      rail_token = Some (js ''EPjFWdd5AufqSSqeM2qN1xzybapC8G4wEGGkZwyTDt1v''), rail_decimals = Some 6\<rparr>]"

definition CHAIN_LABEL :: "jstr \<Rightarrow> jstr option" where
  "CHAIN_LABEL = map_of [
     (js ''ethereum'', js ''Ethereum''),
     (js ''bsc'', js ''BNB Chain''),
     (js ''tron'', js ''TRON''),
     (js ''bitcoin'', js ''Bitcoin''),
     (js ''solana'', js ''Solana'')]"

text \<open>
  The last three statements of \<open>quotePayAmount\<close>, here and in \<open>lib/sale-server.ts\<close>: the low
  digits of the amount are replaced by the nonce.
\<close>

definition suffix_mod :: "int \<Rightarrow> int" where
  "suffix_mod amount = (if 1000000 \<le> amount then 1000000 else 10000)"

definition with_suffix :: "int \<Rightarrow> int \<Rightarrow> int" where
  "with_suffix amount nonce =
     amount - big_mod amount (suffix_mod amount) + big_mod nonce (suffix_mod amount)"

definition quotePayAmount :: "jsnum \<Rightarrow> nat \<Rightarrow> int \<Rightarrow> jstr res" where
  "quotePayAmount usd decimals nonce = bind_res
     (if decimals = 18 then
        bind_res (bigint_of_num (num_round (num_mul usd (Num 1000000)))) (\<lambda>a. Inr (a * 10 ^ 12))
      else if decimals = 6 then bigint_of_num (num_round (num_mul usd (Num 1000000)))
      else bigint_of_num (num_round (num_mul usd (num_of_int (10 ^ decimals)))))
     (\<lambda>amount. Inr (big_str (with_suffix amount nonce)))"

definition formatTokenAmount :: "jstr \<Rightarrow> nat \<Rightarrow> jstr res" where
  "formatTokenAmount raw decimals = bind_res (big_of_str raw) (\<lambda>n.
     let base = 10 ^ decimals; whole = big_div n base; frac = big_mod n base;
       fracStr = strip_zeros (pad_start decimals 48 (big_str frac))
     in Inr (if fracStr \<noteq> [] then big_str whole @ [46] @ fracStr else big_str whole))"

lemma suffix_mod_pos [simp]: "0 < suffix_mod a"
  by (simp add: suffix_mod_def)

lemma with_suffix_eq:
  "0 \<le> a \<Longrightarrow> 0 \<le> n \<Longrightarrow>
     with_suffix a n = a div suffix_mod a * suffix_mod a + n mod suffix_mod a"
  by (simp add: with_suffix_def minus_mod_eq_div_mult)

text \<open>The suffixed amount stays in the block of \<open>suffix_mod a\<close> units of the amount.\<close>

lemma with_suffix_block:
  assumes "0 \<le> a" "0 \<le> n"
  shows "a div suffix_mod a * suffix_mod a \<le> with_suffix a n"
    and "with_suffix a n < (a div suffix_mod a + 1) * suffix_mod a"
    and "\<bar>with_suffix a n - a\<bar> < suffix_mod a"
proof -
  let ?m = "suffix_mod a"
  have b: "0 \<le> n mod ?m" "n mod ?m < ?m" by simp_all
  have c: "0 \<le> a mod ?m" "a mod ?m < ?m" by simp_all
  have a: "a div ?m * ?m + a mod ?m = a" by simp
  have w: "with_suffix a n = a div ?m * ?m + n mod ?m"
    using assms by (rule with_suffix_eq)
  show "a div ?m * ?m \<le> with_suffix a n" using w b by simp
  show "with_suffix a n < (a div ?m + 1) * ?m" using w b by (simp add: distrib_right)
  show "\<bar>with_suffix a n - a\<bar> < ?m" using w a b c by linarith
qed

lemma with_suffix_nonneg: "0 \<le> a \<Longrightarrow> 0 \<le> n \<Longrightarrow> 0 \<le> with_suffix a n"
  using with_suffix_block(1) [of a n]
  by (meson dual_order.trans mult_nonneg_nonneg order_less_imp_le pos_imp_zdiv_nonneg_iff suffix_mod_pos)

text \<open>The suffix is the nonce: different suffixes give different amounts.\<close>

lemma with_suffix_mod:
  assumes "0 \<le> a" "0 \<le> n"
  shows "with_suffix a n mod suffix_mod a = n mod suffix_mod a"
  using assms by (simp add: with_suffix_eq)

lemma formatTokenAmount_eq:
  "formatTokenAmount raw d = bind_res (big_of_str raw) (\<lambda>n. Inr (amount_str d n))"
  by (simp add: formatTokenAmount_def amount_str_def frac_str_def Let_def)

lemma formatTokenAmount_nat:
  "formatTokenAmount (big_str (int n)) d = Inr (amount_str d (int n))"
  by (simp add: formatTokenAmount_eq big_of_str_big_str)

interpretation token_amount: amount_printer d
  "\<lambda>n. case formatTokenAmount (big_str n) d of Inr s \<Rightarrow> s | Inl _ \<Rightarrow> []" for d
  by unfold_locales (simp add: formatTokenAmount_nat read_amount_str)

end
