(* ===== verification/SalePricing.thy ===== *)
theory SalePricing
  imports Decimals
begin

section \<open>Tiered sale pricing (\<open>lib/sale-pricing.ts\<close>)\<close>

text \<open>
  The price of the sale is a list of tiers, each open while the amount raised is below its
  cap. The theory models the configuration and where it is read from, the amount raised by the
  stored intents, the choice of the tier and the quote. The lemmas: the amount raised is a
  non-negative number that no counted intent lowers; the tier chosen is the first open one, or
  the last when every cap is passed, and moves forward only; the quote's progress is a fraction.
\<close>

record sale_tier =
  tier_id :: jstr
  tier_label :: jstr
  untilRaisedUsd :: "jsnum option"
  priceUsdPerEav7 :: jstr

record quote_tier =
  qt_id :: jstr
  qt_label :: jstr
  qt_price :: jsnum
  qt_until :: "jsnum option"
  qt_active :: bool
  qt_filled :: bool

record sale_quote =
  q_price :: jsnum
  q_tierId :: jstr
  q_tierLabel :: jstr
  q_tierIndex :: nat
  q_raisedUsd :: jsnum
  q_remainingInTierUsd :: "jsnum option"
  q_nextPrice :: "jsnum option"
  q_nextTierLabel :: "jstr option"
  q_progressInTier :: jsnum
  q_tiers :: "quote_tier list"

record auto_cfg =
  cfg_price :: jstr
  cfg_tiers :: "sale_tier list option"
  cfg_counts :: "jstr list option"
  cfg_channel :: "jstr option"
  cfg_windowHours :: "nat option"

datatype channel = Private | Public

text \<open>
  The world a server function reads: the environment variables, \<open>process.cwd()\<close>, and the JSON
  files. A file holds what \<open>JSON.parse\<close> makes of it, or is \<open>Garbled\<close> when it throws.
\<close>

datatype 'a json_file = Parsed 'a | Garbled

type_synonym 'a json_fs = "jstr \<Rightarrow> 'a json_file option"

definition env_or :: "(string \<Rightarrow> jstr option) \<Rightarrow> string \<Rightarrow> jstr \<Rightarrow> jstr" where
  "env_or env k dflt = (case env k of None \<Rightarrow> dflt | Some v \<Rightarrow> if v = [] then dflt else v)"

definition path_resolve :: "jstr \<Rightarrow> string \<Rightarrow> jstr" where
  "path_resolve cwd rel = cwd @ js ''/'' @ js rel"

definition env_path :: "(string \<Rightarrow> jstr option) \<Rightarrow> string \<Rightarrow> jstr list" where
  "env_path env k = (case env k of None \<Rightarrow> [] | Some v \<Rightarrow> if v = [] then [] else [v])"

definition PRIVATE_CFG_CANDIDATES :: "(string \<Rightarrow> jstr option) \<Rightarrow> jstr \<Rightarrow> jstr list" where
  "PRIVATE_CFG_CANDIDATES env cwd = env_path env ''SALE_AUTO_CFG'' @
     [path_resolve cwd ''../contracts/sale/auto-delivery.json'',
      path_resolve cwd ''data/sale-auto-delivery.json'',
      path_resolve cwd ''contracts/sale/auto-delivery.json'']"

definition PUBLIC_CFG_CANDIDATES :: "(string \<Rightarrow> jstr option) \<Rightarrow> jstr \<Rightarrow> jstr list" where
  "PUBLIC_CFG_CANDIDATES env cwd = env_path env ''SALE_PUBLIC_AUTO_CFG'' @
     [path_resolve cwd ''../contracts/sale/public-lbp-delivery.json'',
      path_resolve cwd ''data/sale-public-lbp-delivery.json'',
      path_resolve cwd ''contracts/sale/public-lbp-delivery.json'']"

definition EMBEDDED_CFG :: auto_cfg where
  "EMBEDDED_CFG = \<lparr>cfg_price = js ''0.005'',
     cfg_tiers = Some [
       \<lparr>tier_id = js ''launch'', tier_label = js ''Launch'', untilRaisedUsd = Some (Num 500000),
         priceUsdPerEav7 = js ''0.005''\<rparr>,
       \<lparr>tier_id = js ''early'', tier_label = js ''Early'', untilRaisedUsd = Some (Num 2000000),
         priceUsdPerEav7 = js ''0.008''\<rparr>,
       \<lparr>tier_id = js ''growth'', tier_label = js ''Growth'', untilRaisedUsd = Some (Num 5000000),
         priceUsdPerEav7 = js ''0.01''\<rparr>,
       \<lparr>tier_id = js ''final'', tier_label = js ''Final'', untilRaisedUsd = Some (Num 15000000),
         priceUsdPerEav7 = js ''0.012''\<rparr>,
       \<lparr>tier_id = js ''last'', tier_label = js ''Last call'', untilRaisedUsd = None,
         priceUsdPerEav7 = js ''0.015''\<rparr>],
     cfg_counts = Some [js ''paid'', js ''granted''], cfg_channel = None, cfg_windowHours = None\<rparr>"

definition PUBLIC_FALLBACK_CFG :: auto_cfg where
  "PUBLIC_FALLBACK_CFG = \<lparr>cfg_price = js ''0.008'',
     cfg_tiers = Some [
       \<lparr>tier_id = js ''lbp-open'', tier_label = js ''LBP open'', untilRaisedUsd = Some (Num 750000),
         priceUsdPerEav7 = js ''0.008''\<rparr>,
       \<lparr>tier_id = js ''lbp-early'', tier_label = js ''LBP early'', untilRaisedUsd = Some (Num 2500000),
         priceUsdPerEav7 = js ''0.010''\<rparr>,
       \<lparr>tier_id = js ''lbp-mid'', tier_label = js ''LBP mid'', untilRaisedUsd = Some (Num 6000000),
         priceUsdPerEav7 = js ''0.012''\<rparr>,
       \<lparr>tier_id = js ''lbp-late'', tier_label = js ''LBP late'', untilRaisedUsd = Some (Num 12000000),
         priceUsdPerEav7 = js ''0.014''\<rparr>,
       \<lparr>tier_id = js ''lbp-final'', tier_label = js ''LBP final'', untilRaisedUsd = None,
         priceUsdPerEav7 = js ''0.015''\<rparr>],
     cfg_counts = Some [js ''paid'', js ''granted''], cfg_channel = Some (js ''public''),
     cfg_windowHours = Some 72\<rparr>"

fun loadCfgFrom :: "auto_cfg json_fs \<Rightarrow> jstr list \<Rightarrow> auto_cfg \<Rightarrow> auto_cfg" where
  "loadCfgFrom fs [] dflt = dflt"
| "loadCfgFrom fs (p # ps) dflt =
     (case fs p of Some (Parsed c) \<Rightarrow> c | _ \<Rightarrow> loadCfgFrom fs ps dflt)"

definition loadSaleAutoCfg ::
  "(string \<Rightarrow> jstr option) \<Rightarrow> jstr \<Rightarrow> auto_cfg json_fs \<Rightarrow> channel \<Rightarrow> auto_cfg" where
  "loadSaleAutoCfg env cwd fs ch = (case ch of
       Public \<Rightarrow> loadCfgFrom fs (PUBLIC_CFG_CANDIDATES env cwd) PUBLIC_FALLBACK_CFG
     | Private \<Rightarrow> loadCfgFrom fs (PRIVATE_CFG_CANDIDATES env cwd) EMBEDDED_CFG)"


subsection \<open>The amount raised\<close>

text \<open>One intent as the function reads it: its \<open>status\<close> and its \<open>usdAmount\<close>.\<close>

definition raised_step :: "jstr list \<Rightarrow> jsnum \<Rightarrow> jstr \<times> jstr \<Rightarrow> jsnum" where
  "raised_step counts acc i = (if fst i \<notin> set counts then acc
     else let n = num_of_str (snd i) in
       if is_finite n \<and> num_lt (Num 0) n then num_add acc n else acc)"

definition raisedFromIntents :: "(jstr \<times> jstr) list \<Rightarrow> jstr list \<Rightarrow> jsnum" where
  "raisedFromIntents is counts = foldl (raised_step counts) (Num 0) is"


subsection \<open>The tier\<close>

definition tier_open :: "jsnum \<Rightarrow> sale_tier \<Rightarrow> bool" where
  "tier_open raised t = (case untilRaisedUsd t of None \<Rightarrow> True | Some cap \<Rightarrow> num_lt raised cap)"

definition tiers_of :: "auto_cfg \<Rightarrow> sale_tier list" where
  "tiers_of cfg = (case cfg_tiers cfg of
       Some (t # ts) \<Rightarrow> t # ts
     | _ \<Rightarrow> [\<lparr>tier_id = js ''flat'', tier_label = js ''Fixed'', untilRaisedUsd = None,
               priceUsdPerEav7 = cfg_price cfg\<rparr>])"

text \<open>The loop over \<open>i\<close>: \<open>None\<close> when it ends without returning.\<close>

fun tier_loop :: "jsnum \<Rightarrow> sale_tier list \<Rightarrow> nat \<Rightarrow> (sale_tier \<times> nat) option" where
  "tier_loop raised [] i = None"
| "tier_loop raised (t # ts) i =
     (if tier_open raised t then Some (t, i) else tier_loop raised ts (Suc i))"

definition resolveTier :: "jsnum \<Rightarrow> auto_cfg \<Rightarrow> sale_tier \<times> nat \<times> sale_tier list" where
  "resolveTier raised cfg = (let tiers = tiers_of cfg in
     case tier_loop raised tiers 0 of
       Some (t, i) \<Rightarrow> (t, i, tiers)
     | None \<Rightarrow> (last tiers, length tiers - 1, tiers))"


subsection \<open>The quote\<close>

definition quote_at :: "jsnum \<Rightarrow> sale_tier \<Rightarrow> nat \<Rightarrow> sale_tier list \<Rightarrow> sale_quote" where
  "quote_at raised tier index tiers = (let
       next_t = (if index + 1 < length tiers then Some (tiers ! (index + 1)) else None);
       cap = untilRaisedUsd tier;
       prevCap = (if 0 < index then
           (case untilRaisedUsd (tiers ! (index - 1)) of None \<Rightarrow> Num 0 | Some c \<Rightarrow> c) else Num 0);
       span = (case cap of None \<Rightarrow> Num 1 | Some c \<Rightarrow> num_max (Num 1) (num_sub c prevCap))
     in \<lparr>q_price = num_of_str (priceUsdPerEav7 tier),
         q_tierId = tier_id tier,
         q_tierLabel = tier_label tier,
         q_tierIndex = index,
         q_raisedUsd = raised,
         q_remainingInTierUsd = map_option (\<lambda>c. num_max (Num 0) (num_sub c raised)) cap,
         q_nextPrice = map_option (\<lambda>t. num_of_str (priceUsdPerEav7 t)) next_t,
         q_nextTierLabel = map_option tier_label next_t,
         q_progressInTier = (case cap of None \<Rightarrow> Num 1
           | Some c \<Rightarrow> num_min (Num 1) (num_max (Num 0) (num_div (num_sub raised prevCap) span))),
         q_tiers = map (\<lambda>(i, t). \<lparr>qt_id = tier_id t, qt_label = tier_label t,
           qt_price = num_of_str (priceUsdPerEav7 t), qt_until = untilRaisedUsd t,
           qt_active = (i = index), qt_filled = (i < index)\<rparr>) (enumerate 0 tiers)\<rparr>)"

definition counts_of :: "auto_cfg \<Rightarrow> jstr list" where
  "counts_of cfg = (case cfg_counts cfg of None \<Rightarrow> [js ''paid'', js ''granted''] | Some c \<Rightarrow> c)"

definition buildSaleQuote :: "(jstr \<times> jstr) list \<Rightarrow> auto_cfg \<Rightarrow> sale_quote" where
  "buildSaleQuote is cfg = (let raisedUsd = raisedFromIntents is (counts_of cfg) in
     case resolveTier raisedUsd cfg of (tier, index, tiers) \<Rightarrow> quote_at raisedUsd tier index tiers)"



subsection \<open>The amount raised is a sum that only grows\<close>

lemma counted_nn: "is_finite n \<Longrightarrow> num_lt (Num 0) n \<Longrightarrow> num_wf n \<Longrightarrow> nn_num n"
  by (cases n) (auto simp: abs_less_iff)

lemma raised_step_nn: "nn_num a \<Longrightarrow> nn_num (raised_step counts a i)"
  by (simp add: raised_step_def Let_def nn_num_add counted_nn)

lemma raised_step_le: "nn_num a \<Longrightarrow> num_le a (raised_step counts a i)"
  by (simp add: raised_step_def Let_def num_le_add_nn counted_nn num_le_refl nn_num_not_NaN)

lemma foldl_raised:
  "nn_num a \<Longrightarrow> nn_num (foldl (raised_step counts) a is) \<and> num_le a (foldl (raised_step counts) a is)"
proof (induction "is" arbitrary: a)
  case Nil
  then show ?case by (simp add: num_le_refl nn_num_not_NaN)
next
  case (Cons i "is")
  then have "nn_num (raised_step counts a i)" by (simp add: raised_step_nn)
  with Cons show ?case by (auto intro: num_le_trans [OF raised_step_le])
qed

lemma raised_nn: "nn_num (raisedFromIntents is counts)"
  using foldl_raised [of "Num 0"] by (simp add: raisedFromIntents_def)

lemma raised_append_le: "num_le (raisedFromIntents is counts) (raisedFromIntents (is @ ks) counts)"
  using foldl_raised [OF raised_nn [of "is" counts], of counts ks]
  by (simp add: raisedFromIntents_def)

lemma raised_uncounted:
  "fst i \<notin> set counts \<Longrightarrow> raisedFromIntents (is @ [i]) counts = raisedFromIntents is counts"
  by (simp add: raisedFromIntents_def raised_step_def)


subsection \<open>Which tier\<close>

text \<open>
  What the loop computes, without the loop: the number of leading tiers whose cap is passed, or
  the last tier when all are.
\<close>

definition tier_index :: "jsnum \<Rightarrow> sale_tier list \<Rightarrow> nat" where
  "tier_index raised tiers =
     min (length (takeWhile (\<lambda>t. \<not> tier_open raised t) tiers)) (length tiers - 1)"

lemma tier_loop_Some:
  "tier_loop raised ts i = Some (t, k) \<longleftrightarrow>
     k = i + length (takeWhile (\<lambda>t. \<not> tier_open raised t) ts)
     \<and> k < i + length ts \<and> t = ts ! (k - i)"
  by (induction ts arbitrary: i) (auto simp: nth_Cons')

lemma tier_loop_None:
  "tier_loop raised ts i = None \<longleftrightarrow> (\<forall>t \<in> set ts. \<not> tier_open raised t)"
  by (induction ts arbitrary: i) auto

lemma tiers_of_nonempty [simp]: "tiers_of cfg \<noteq> []"
  by (simp add: tiers_of_def split: option.split list.split)

lemma tier_index_less: "tiers \<noteq> [] \<Longrightarrow> tier_index raised tiers < length tiers"
  by (cases tiers) (auto simp: tier_index_def)

lemma resolveTier_eq:
  "resolveTier raised cfg =
     (tiers_of cfg ! tier_index raised (tiers_of cfg), tier_index raised (tiers_of cfg), tiers_of cfg)"
proof (cases "tier_loop raised (tiers_of cfg) 0")
  case None
  then have all: "\<forall>t \<in> set (tiers_of cfg). \<not> tier_open raised t" by (simp add: tier_loop_None)
  then have "takeWhile (\<lambda>t. \<not> tier_open raised t) (tiers_of cfg) = tiers_of cfg"
    by (simp add: takeWhile_eq_all_conv)
  then have "tier_index raised (tiers_of cfg) = length (tiers_of cfg) - 1"
    unfolding tier_index_def by (metis diff_le_self min.absorb2)
  then show ?thesis using None by (simp add: resolveTier_def Let_def last_conv_nth)
next
  case (Some p)
  obtain t k where p: "p = (t, k)" by (cases p)
  with Some have "k = length (takeWhile (\<lambda>t. \<not> tier_open raised t) (tiers_of cfg))"
    "k < length (tiers_of cfg)" "t = tiers_of cfg ! k"
    using tier_loop_Some [of raised "tiers_of cfg" 0 t k] by auto
  then show ?thesis using Some p by (simp add: resolveTier_def tier_index_def Let_def)
qed

lemma tier_index_closed_before:
  assumes "j < tier_index raised tiers"
  shows "\<not> tier_open raised (tiers ! j)"
proof -
  have j: "j < length (takeWhile (\<lambda>t. \<not> tier_open raised t) tiers)"
    using assms by (simp add: tier_index_def)
  then have "takeWhile (\<lambda>t. \<not> tier_open raised t) tiers ! j \<in> set (takeWhile (\<lambda>t. \<not> tier_open raised t) tiers)"
    by (rule nth_mem)
  then show ?thesis using j by (auto simp: takeWhile_nth dest: set_takeWhileD)
qed

lemma tier_index_open:
  assumes "\<exists>t \<in> set tiers. tier_open raised t"
  shows "tier_open raised (tiers ! tier_index raised tiers)"
proof -
  let ?n = "length (takeWhile (\<lambda>t. \<not> tier_open raised t) tiers)"
  have "takeWhile (\<lambda>t. \<not> tier_open raised t) tiers \<noteq> tiers"
    using assms by (auto simp: takeWhile_eq_all_conv)
  then have n: "?n < length tiers"
    by (metis length_takeWhile_le le_neq_implies_less takeWhile_eq_take take_all_iff order_refl)
  then have "tier_index raised tiers = ?n" by (auto simp: tier_index_def)
  then show ?thesis using nth_length_takeWhile [OF n] by simp
qed

lemma tier_open_antimono: "tier_open r' t \<Longrightarrow> num_le r r' \<Longrightarrow> tier_open r t"
  by (auto simp: tier_open_def split: option.splits intro: num_lt_le_trans)

lemma length_takeWhile_mono:
  "(\<And>x. P x \<Longrightarrow> Q x) \<Longrightarrow> length (takeWhile P xs) \<le> length (takeWhile Q xs)"
  by (induction xs) auto

lemma tier_index_mono: "num_le r r' \<Longrightarrow> tier_index r tiers \<le> tier_index r' tiers"
  unfolding tier_index_def
  by (intro min.mono length_takeWhile_mono) (auto dest: tier_open_antimono)



subsection \<open>The quote\<close>

lemma buildSaleQuote_eq:
  "buildSaleQuote is cfg = (let r = raisedFromIntents is (counts_of cfg); k = tier_index r (tiers_of cfg)
     in quote_at r (tiers_of cfg ! k) k (tiers_of cfg))"
  by (simp add: buildSaleQuote_def resolveTier_eq Let_def)

lemma quote_at_sel:
  "q_tierIndex (quote_at r t k ts) = k"
  "q_raisedUsd (quote_at r t k ts) = r"
  "q_price (quote_at r t k ts) = num_of_str (priceUsdPerEav7 t)"
  "q_tierId (quote_at r t k ts) = tier_id t"
  "length (q_tiers (quote_at r t k ts)) = length ts"
  by (simp_all add: quote_at_def Let_def)

lemma quote_at_tiers:
  "j < length ts \<Longrightarrow> qt_active (q_tiers (quote_at r t k ts) ! j) = (j = k)
     \<and> qt_filled (q_tiers (quote_at r t k ts) ! j) = (j < k)
     \<and> qt_price (q_tiers (quote_at r t k ts) ! j) = num_of_str (priceUsdPerEav7 (ts ! j))"
  by (simp add: quote_at_def Let_def nth_enumerate_eq)

text \<open>A cap as a configuration gives it: a dollar amount that is an integer below \<open>2 ^ 53\<close>.\<close>

definition cap_ok :: "sale_tier \<Rightarrow> bool" where
  "cap_ok t \<longleftrightarrow> (case untilRaisedUsd t of None \<Rightarrow> True
     | Some c \<Rightarrow> \<exists>k::int. c = Num (of_int k) \<and> 0 \<le> k \<and> k \<le> 2 ^ 53)"

text \<open>The two facts that keep \<open>NaN\<close> out of the quotient: the span is finite and at least 1.\<close>

lemma span_finite:
  assumes "0 \<le> a" "a \<le> 2 ^ 53" "0 \<le> b" "b \<le> 2 ^ 53"
  shows "\<exists>v. num_max (Num 1) (num_sub (Num (of_int a)) (Num (of_int b))) = Num v \<and> 1 \<le> v"
proof -
  have k: "\<bar>a - b\<bar> \<le> 2 ^ 53" using assms by simp
  then have "num_sub (Num (of_int a)) (Num (of_int b)) = Num (of_int (a - b))"
    using num_of_int_small [OF k] by (simp add: num_sub_def num_of_int_def)
  then show ?thesis by (auto simp: num_max_def)
qed

lemma num_div_finite_not_NaN: "x \<noteq> NaN \<Longrightarrow> 1 \<le> v \<Longrightarrow> num_div x (Num v) \<noteq> NaN"
  by (cases x) auto

lemma num_sub_fin_not_NaN: "x \<noteq> NaN \<Longrightarrow> num_sub x (Num v) \<noteq> NaN"
  by (cases x) (auto simp: num_sub_def)

lemma num_sub_fin_not_NaN': "x \<noteq> NaN \<Longrightarrow> num_sub (Num v) x \<noteq> NaN"
  by (cases x) (auto simp: num_sub_def)

lemma prev_cap_ok:
  assumes "\<forall>t \<in> set ts. cap_ok t" "k < length ts"
  shows "\<exists>b::int. (if 0 < k then
      (case untilRaisedUsd (ts ! (k - 1)) of None \<Rightarrow> Num 0 | Some c \<Rightarrow> c) else Num 0) = Num (of_int b)
      \<and> 0 \<le> b \<and> b \<le> 2 ^ 53"
proof (cases "0 < k")
  case True
  then have "ts ! (k - 1) \<in> set ts" using assms(2) by simp
  then have "cap_ok (ts ! (k - 1))" using assms(1) by blast
  then show ?thesis using True
    by (auto simp: cap_ok_def split: option.splits intro: exI [of _ 0])
qed (auto intro: exI [of _ 0])

lemma quote_at_progress:
  assumes caps: "\<forall>t \<in> set ts. cap_ok t" and k: "k < length ts" and r: "nn_num r"
  shows "num_le (Num 0) (q_progressInTier (quote_at r (ts ! k) k ts))
    \<and> num_le (q_progressInTier (quote_at r (ts ! k) k ts)) (Num 1)"
proof (cases "untilRaisedUsd (ts ! k)")
  case None
  then show ?thesis by (simp add: quote_at_def Let_def)
next
  case (Some c)
  have "cap_ok (ts ! k)" using caps k by simp
  then obtain a :: int where a: "c = Num (of_int a)" "0 \<le> a" "a \<le> 2 ^ 53"
    using Some by (auto simp: cap_ok_def)
  obtain b :: int where b: "(if 0 < k then
      (case untilRaisedUsd (ts ! (k - 1)) of None \<Rightarrow> Num 0 | Some c \<Rightarrow> c) else Num 0) = Num (of_int b)"
      "0 \<le> b" "b \<le> 2 ^ 53"
    using prev_cap_ok [OF caps k] by blast
  obtain v where v: "num_max (Num 1) (num_sub c (Num (of_int b))) = Num v" "1 \<le> v"
    using span_finite [OF a(2,3) b(2,3)] a(1) by blast
  have "num_div (num_sub r (Num (of_int b))) (Num v) \<noteq> NaN"
    using v(2) r by (intro num_div_finite_not_NaN num_sub_fin_not_NaN nn_num_not_NaN)
  then show ?thesis
    using num_clamp [of _ 0 1] Some b(1) v(1) by (simp add: quote_at_def Let_def)
qed

lemma quote_at_remaining:
  assumes caps: "\<forall>t \<in> set ts. cap_ok t" and k: "k < length ts" and r: "nn_num r"
    and some: "q_remainingInTierUsd (quote_at r (ts ! k) k ts) = Some x"
  shows "num_le (Num 0) x"
proof -
  have "cap_ok (ts ! k)" using caps k by simp
  then obtain v where "x = num_max (Num 0) (num_sub (Num v) r)"
    using some by (auto simp: quote_at_def Let_def cap_ok_def split: option.splits)
  then show ?thesis
    using num_max_ge [OF num_sub_fin_not_NaN'] r nn_num_not_NaN by blast
qed



subsection \<open>Properties\<close>

lemma embedded_cfg_eval:
  "tiers_of EMBEDDED_CFG = the (cfg_tiers EMBEDDED_CFG)"
  "counts_of EMBEDDED_CFG = [js ''paid'', js ''granted'']"
  by (simp_all add: tiers_of_def counts_of_def EMBEDDED_CFG_def)

lemma raised_600k:
  "raisedFromIntents [(js ''paid'', js ''600000''), (js ''pending'', js ''900000'')]
     [js ''paid'', js ''granted''] = Num 600000"
  by (simp add: raisedFromIntents_def raised_step_def num_eval js_eval)

text \<open>
  The quote names the first tier whose cap the amount raised has not reached, and the last
  tier when every cap is reached: every earlier tier is closed, and the tier itself is open as
  soon as any tier is.
\<close>

theorem quote_first_open_tier:
  "(let q = buildSaleQuote is cfg; ts = tiers_of cfg; k = q_tierIndex q; r = q_raisedUsd q in
     k < length ts \<and> q_tierId q = tier_id (ts ! k)
     \<and> q_price q = num_of_str (priceUsdPerEav7 (ts ! k))
     \<and> (\<forall>j < k. \<not> tier_open r (ts ! j))
     \<and> (tier_open r (ts ! k) \<or> (k = length ts - 1 \<and> (\<forall>t \<in> set ts. \<not> tier_open r t))))"
proof -
  let ?r = "raisedFromIntents is (counts_of cfg)" and ?ts = "tiers_of cfg"
  have "tier_open ?r (?ts ! tier_index ?r ?ts)
      \<or> (tier_index ?r ?ts = length ?ts - 1 \<and> (\<forall>t \<in> set ?ts. \<not> tier_open ?r t))"
  proof (cases "\<exists>t \<in> set ?ts. tier_open ?r t")
    case True
    then show ?thesis by (simp add: tier_index_open)
  next
    case False
    then have "takeWhile (\<lambda>t. \<not> tier_open ?r t) ?ts = ?ts" by (simp add: takeWhile_eq_all_conv)
    then have "tier_index ?r ?ts = length ?ts - 1"
      unfolding tier_index_def by (metis diff_le_self min.absorb2)
    with False show ?thesis by blast
  qed
  then show ?thesis
    using tier_index_less [of ?ts ?r] tier_index_closed_before [of _ ?r ?ts]
    by (simp add: buildSaleQuote_eq quote_at_sel Let_def)
qed

theorem quote_first_open_tier_witness:
  "q_tierIndex (buildSaleQuote [(js ''paid'', js ''600000''), (js ''pending'', js ''900000'')] EMBEDDED_CFG) = 1
   \<and> \<not> tier_open (Num 600000) (tiers_of EMBEDDED_CFG ! 0)"
proof -
  let ?is = "[(js ''paid'', js ''600000''), (js ''pending'', js ''900000'')]"
  have q: "q_tierIndex (buildSaleQuote ?is EMBEDDED_CFG) = 1"
    "q_raisedUsd (buildSaleQuote ?is EMBEDDED_CFG) = Num 600000"
    by (simp_all add: buildSaleQuote_eq embedded_cfg_eval raised_600k quote_at_sel Let_def,
        simp add: tier_index_def EMBEDDED_CFG_def tier_open_def)
  show ?thesis
    using quote_first_open_tier [of ?is EMBEDDED_CFG] q by (simp add: Let_def)
qed

text \<open>
  C16. With the tiers listed by non-decreasing price, the price never goes down while intents are
  added: the tier only moves forward.
\<close>

theorem quote_price_mono:
  assumes "\<And>i j. i \<le> j \<Longrightarrow> j < length (tiers_of cfg) \<Longrightarrow>
    num_le (num_of_str (priceUsdPerEav7 (tiers_of cfg ! i))) (num_of_str (priceUsdPerEav7 (tiers_of cfg ! j)))"
  shows "q_tierIndex (buildSaleQuote is cfg) \<le> q_tierIndex (buildSaleQuote (is @ ks) cfg)
    \<and> num_le (q_price (buildSaleQuote is cfg)) (q_price (buildSaleQuote (is @ ks) cfg))"
  using assms tier_index_mono [OF raised_append_le] tier_index_less [OF tiers_of_nonempty]
  by (simp add: buildSaleQuote_eq quote_at_sel Let_def)

lemma price_texts:
  "num_of_str (js ''0.005'') = to_num (5 / 1000)" "num_of_str (js ''0.008'') = to_num (8 / 1000)"
  "num_of_str (js ''0.01'') = to_num (1 / 100)" "num_of_str (js ''0.012'') = to_num (12 / 1000)"
  "num_of_str (js ''0.015'') = to_num (15 / 1000)"
  by (simp_all add: text_eval js_eval powi_eval)

lemma embedded_prices:
  "map (\<lambda>t. num_of_str (priceUsdPerEav7 t)) (tiers_of EMBEDDED_CFG)
     = [to_num (5 / 1000), to_num (8 / 1000), to_num (1 / 100), to_num (12 / 1000), to_num (15 / 1000)]"
  by (simp add: tiers_of_def EMBEDDED_CFG_def price_texts)

lemma embedded_prices_sorted:
  "i \<le> j \<Longrightarrow> j < length (tiers_of EMBEDDED_CFG) \<Longrightarrow>
    num_le (num_of_str (priceUsdPerEav7 (tiers_of EMBEDDED_CFG ! i)))
           (num_of_str (priceUsdPerEav7 (tiers_of EMBEDDED_CFG ! j)))"
proof -
  assume ij: "i \<le> j" "j < length (tiers_of EMBEDDED_CFG)"
  have e: "num_of_str (priceUsdPerEav7 (tiers_of EMBEDDED_CFG ! k)) =
      [to_num (5 / 1000), to_num (8 / 1000), to_num (1 / 100), to_num (12 / 1000), to_num (15 / 1000)] ! k"
    if "k < length (tiers_of EMBEDDED_CFG)" for k
    using nth_map [OF that, of "\<lambda>t. num_of_str (priceUsdPerEav7 t)"] by (simp add: embedded_prices)
  have "length (tiers_of EMBEDDED_CFG) = 5"
    using arg_cong [OF embedded_prices, of length] by simp
  then have "j \<in> {0, 1, 2, 3, 4}" "i \<in> {0, 1, 2, 3, 4}" "i < length (tiers_of EMBEDDED_CFG)"
    using ij by auto
  then show ?thesis using ij e [of i] e [of j] by (auto simp: num_eval)
qed

theorem quote_price_mono_witness:
  "num_le (q_price (buildSaleQuote [(js ''paid'', js ''600000'')] EMBEDDED_CFG))
     (q_price (buildSaleQuote ([(js ''paid'', js ''600000'')] @ [(js ''granted'', js ''5e6'')]) EMBEDDED_CFG))"
  using quote_price_mono [OF embedded_prices_sorted] by blast

text \<open>
  The progress inside the tier is a number between 0 and 1 and the amount left in the tier
  is not negative, for every list of stored intents, whatever their amounts parse to.
\<close>

theorem quote_progress_bounds:
  assumes "\<forall>t \<in> set (tiers_of cfg). cap_ok t"
  shows "num_le (Num 0) (q_progressInTier (buildSaleQuote is cfg))
    \<and> num_le (q_progressInTier (buildSaleQuote is cfg)) (Num 1)
    \<and> (\<forall>x. q_remainingInTierUsd (buildSaleQuote is cfg) = Some x \<longrightarrow> num_le (Num 0) x)"
  using quote_at_progress [OF assms tier_index_less raised_nn]
    quote_at_remaining [OF assms tier_index_less raised_nn]
  by (simp add: buildSaleQuote_eq Let_def)

theorem quote_progress_bounds_witness:
  "num_le (q_progressInTier (buildSaleQuote [(js ''paid'', js ''1e400'')] PUBLIC_FALLBACK_CFG)) (Num 1)"
proof -
  have "\<exists>k::int. (numeral n :: rat) = of_int k \<and> 0 \<le> k \<and> k \<le> 9007199254740992"
    if "(numeral n :: int) \<le> 9007199254740992" for n
    using that by (intro exI [of _ "numeral n"]) simp
  then have "\<forall>t \<in> set (tiers_of PUBLIC_FALLBACK_CFG). cap_ok t"
    by (simp add: tiers_of_def PUBLIC_FALLBACK_CFG_def cap_ok_def)
  then show ?thesis using quote_progress_bounds by blast
qed

end
