(* ===== verification/SaleApi.thy ===== *)
theory SaleApi
  imports Decimals SalePricing
begin

section \<open>The sale as the browser sees it (\<open>lib/sale-api.ts\<close>)\<close>

text \<open>
  The public view of an intent, the paths of the sale API the browser calls, the reading of a
  reply (\<open>parse\<close>), and the two printers of amounts. Both printers fulfil the contract of
  \<open>Decimals\<close>.
\<close>

record sale_intent =
  it_id :: jstr
  it_status :: jstr
  it_beneficiary0x :: jstr
  it_rail :: jstr
  it_chain :: jstr
  it_asset :: jstr
  it_standard :: jstr
  it_decimals :: "nat option"
  it_usdAmount :: jstr
  it_payAmount :: jstr
  it_e7Amount :: jstr
  it_priceUsdPerEav7 :: "jstr option"
  it_tierId :: "jstr option"
  it_receive :: jstr
  it_explorer :: jstr
  it_createdAt :: jstr
  it_paymentTx :: "jstr option"
  it_paymentId :: "jstr option"
  it_grantTx :: "jstr option"
  it_manualConfirm :: bool
  it_channel :: "channel option"
  it_liquid :: "bool option"

text \<open>A reply: \<open>res.ok\<close>, \<open>res.statusText\<close> and the JSON body, which is \<open>{data}\<close>, \<open>{error}\<close> or neither.\<close>

datatype 'a api_body = ApiOk 'a | ApiErr jstr jstr | ApiOther

fun parse_reply :: "bool \<Rightarrow> jstr \<Rightarrow> 'a api_body \<Rightarrow> 'a res" where
  "parse_reply ok statusText json = (if \<not> ok
     then Inl (case json of ApiErr code message \<Rightarrow> message | _ \<Rightarrow> statusText)
     else (case json of ApiOk d \<Rightarrow> Inr d | _ \<Rightarrow> Inl (js ''resposta inv'' @ [225] @ js ''lida'')))"

definition quote_path :: "channel \<Rightarrow> jstr" where
  "quote_path ch = (if ch = Public then js ''/sale-api/public/quote'' else js ''/sale-api/quote'')"

definition create_path :: "channel \<Rightarrow> jstr" where
  "create_path ch = (if ch = Public then js ''/sale-api/public/intent'' else js ''/sale-api/intent'')"

definition intent_path :: "channel \<Rightarrow> jstr \<Rightarrow> jstr" where
  "intent_path ch iid =
     (if ch = Public then js ''/sale-api/public/intent/'' @ iid else js ''/sale-api/intent/'' @ iid)"

definition confirm_path :: "channel \<Rightarrow> jstr" where
  "confirm_path ch = (if ch = Public then js ''/sale-api/public/confirm'' else js ''/sale-api/confirm'')"

definition pay_decimals :: "sale_intent \<Rightarrow> nat" where
  "pay_decimals i = (case it_decimals i of Some d \<Rightarrow> d
     | None \<Rightarrow> if it_asset i = js ''BTC'' then 8 else 6)"

definition formatPayDisplay :: "sale_intent \<Rightarrow> jstr res" where
  "formatPayDisplay i = bind_res (big_of_str (it_payAmount i)) (\<lambda>n.
     let decimals = pay_decimals i; base = 10 ^ decimals; whole = big_div n base; frac = big_mod n base;
       fracStr = strip_zeros (pad_start decimals 48 (big_str frac))
     in Inr (if fracStr \<noteq> [] then big_str whole @ [46] @ fracStr else big_str whole))"

definition e7ToWhole :: "jstr \<Rightarrow> jstr res" where
  "e7ToWhole e7Amount = bind_res (big_of_str e7Amount) (\<lambda>n.
     let whole = big_div n 1000000; frac = big_mod n 1000000
     in Inr (if frac = 0 then big_str whole
         else big_str whole @ [46] @ strip_zeros (pad_start 6 48 (big_str frac))))"

lemma formatPayDisplay_eq:
  "formatPayDisplay i = bind_res (big_of_str (it_payAmount i)) (\<lambda>n. Inr (amount_str (pay_decimals i) n))"
  by (simp add: formatPayDisplay_def amount_str_def frac_str_def Let_def)

lemma frac_str6_Nil_iff: "frac_str 6 (int (n mod 1000000)) = [] \<longleftrightarrow> n mod 1000000 = 0"
proof
  assume "frac_str 6 (int (n mod 1000000)) = []"
  then have "undec (pad_end 6 48 []) = n mod 1000000"
    using frac_str_pad [of "n mod 1000000" 6] by simp
  then show "n mod 1000000 = 0" by (simp add: pad_end_def)
qed (simp add: frac_str_zero)

lemma e7ToWhole_nat: "e7ToWhole (big_str (int n)) = Inr (amount_str 6 (int n))"
proof -
  have "int n mod 1000000 = int (n mod 1000000)" by (simp add: zmod_int)
  then show ?thesis
    using frac_str6_Nil_iff [of n]
    by (auto simp: e7ToWhole_def big_of_str_big_str amount_str_def frac_str_def Let_def)
qed

interpretation pay_display: amount_printer "pay_decimals i"
  "\<lambda>n. case formatPayDisplay (i\<lparr>it_payAmount := big_str n\<rparr>) of Inr s \<Rightarrow> s | Inl _ \<Rightarrow> []" for i
  by unfold_locales (simp add: formatPayDisplay_eq big_of_str_big_str read_amount_str pay_decimals_def)

interpretation e7_whole: amount_printer 6
  "\<lambda>n. case e7ToWhole (big_str n) of Inr s \<Rightarrow> s | Inl _ \<Rightarrow> []"
  by unfold_locales (simp add: e7ToWhole_nat read_amount_str)

end
