(* ===== verification/JsDate.thy ===== *)
theory JsDate
  imports JsText
begin

section \<open>Dates of the standard library\<close>

text \<open>
  \<open>new Date(ms).toISOString()\<close>: the proleptic Gregorian date of a count of milliseconds since
  1970, which the sale stamps intents with and the explorer shows. A time value beyond
  8.64e15 ms is invalid, and \<open>toISOString\<close> throws on it.
\<close>

definition MS_PER_DAY :: int where
  "MS_PER_DAY = 86400000"

definition civil_of_doe :: "int \<Rightarrow> int \<Rightarrow> int \<times> int \<times> int" where
  "civil_of_doe era doe = (let
      yoe = (doe - doe div 1460 + doe div 36524 - doe div 146096) div 365;
      doy = doe - (365 * yoe + yoe div 4 - yoe div 100);
      mp = (5 * doy + 2) div 153;
      m = (if mp < 10 then mp + 3 else mp - 9)
    in (yoe + era * 400 + (if m \<le> 2 then 1 else 0), m, doy - (153 * mp + 2) div 5 + 1))"

definition civil_of_days :: "int \<Rightarrow> int \<times> int \<times> int" where
  "civil_of_days z = civil_of_doe ((z + 719468) div 146097) ((z + 719468) mod 146097)"

definition pad_int :: "nat \<Rightarrow> int \<Rightarrow> jstr" where
  "pad_int n k = pad_start n 48 (dec (nat k))"

definition iso_year :: "int \<Rightarrow> jstr" where
  "iso_year y = (if 0 \<le> y \<and> y \<le> 9999 then pad_int 4 y
     else (if y < 0 then 45 else 43) # pad_int 6 \<bar>y\<bar>)"

definition iso_date :: "int \<times> int \<times> int \<Rightarrow> jstr" where
  "iso_date d = (case d of (y, m, dd) \<Rightarrow> iso_year y @ [45] @ pad_int 2 m @ [45] @ pad_int 2 dd)"

definition iso_time :: "int \<Rightarrow> jstr" where
  "iso_time ms = pad_int 2 (ms div 3600000) @ [58] @ pad_int 2 (ms div 60000 mod 60) @ [58]
     @ pad_int 2 (ms div 1000 mod 60) @ [46] @ pad_int 3 (ms mod 1000)"

definition valid_time :: "int \<Rightarrow> bool" where
  "valid_time t \<longleftrightarrow> \<bar>t\<bar> \<le> 8640000000000000"

definition iso_string :: "int \<Rightarrow> jstr res" where
  "iso_string t = (if valid_time t
     then Inr (iso_date (civil_of_days (t div MS_PER_DAY)) @ [84] @ iso_time (t mod MS_PER_DAY) @ [90])
     else Inl (js ''Invalid time value''))"

lemma iso_string_example:
  "iso_string 1784160063000 = Inr (js ''2026-07-16T00:01:03.000Z'')"
  by (simp add: iso_string_def valid_time_def MS_PER_DAY_def civil_of_days_def civil_of_doe_def Let_def iso_date_def
      iso_year_def iso_time_def pad_int_def js_eval num_eval)

end
