(* ===== verification/SaleServer.thy ===== *)
theory SaleServer
  imports SaleRails SaleApi JsDate
begin

section \<open>The local sale server (\<open>lib/sale-server.ts\<close>)\<close>

text \<open>
  Without a remote relayer the web server keeps the intents itself, in one JSON file per
  channel. The record \<open>server\<close> is everything its functions read and write: the environment,
  the working directory, the JSON files, the random source (a sequence of draws, each cut to the
  number of bits asked for) and the clock. A function that writes takes the server and returns
  the next one next to its result; a \<open>throw\<close> is an \<open>Inl\<close>.
\<close>

text \<open>An intent of the file; one the relayer wrote has no \<open>channel\<close>.\<close>

record stored_intent =
  si_id :: jstr
  si_status :: jstr
  si_channel :: "channel option"
  si_beneficiary0x :: jstr
  si_rail :: jstr
  si_usdAmount :: jstr
  si_payAmount :: jstr
  si_e7Amount :: jstr
  si_price :: jstr
  si_tierId :: jstr
  si_receive :: jstr
  si_token :: "jstr option"
  si_chain :: jstr
  si_createdAt :: jstr
  si_paymentTx :: "jstr option"
  si_paymentId :: "jstr option"
  si_grantTx :: "jstr option"

record sale_state =
  intents :: "stored_intent list"

text \<open>The distribution file of \<open>loadPublicPlan\<close>: its partition (share and tokens) and its bucket.\<close>

record public_plan =
  pp_partition :: "(jstr \<times> jsnum \<times> jstr) list"
  pp_bucketTokens :: jstr

record server =
  sv_env :: "string \<Rightarrow> jstr option"
  sv_cwd :: jstr
  sv_cfgs :: "auto_cfg json_fs"
  sv_states :: "sale_state json_fs"
  sv_plans :: "public_plan json_fs"
  sv_rand :: "nat \<Rightarrow> nat"
  sv_rpos :: nat
  sv_now :: int
  sv_readonly :: bool

record create_input =
  ci_beneficiary0x :: jstr
  ci_rail :: jstr
  ci_usdAmount :: jsnum

definition BTC_USD :: "server \<Rightarrow> jsnum" where
  "BTC_USD sv = (case sv_env sv ''BTC_USD'' of None \<Rightarrow> Num 95000
     | Some v \<Rightarrow> if v = [] then Num 95000 else num_of_str v)"

definition statePath :: "channel \<Rightarrow> server \<Rightarrow> jstr" where
  "statePath ch sv = (if ch = Public
     then env_or (sv_env sv) ''SALE_STATE_PUBLIC_PATH''
       (path_resolve (sv_cwd sv) ''../contracts/sale/relayer/sale-state-public.json'')
     else env_or (sv_env sv) ''SALE_STATE_PATH''
       (path_resolve (sv_cwd sv) ''../contracts/sale/relayer/sale-state.json''))"

definition loadState :: "channel \<Rightarrow> server \<Rightarrow> sale_state res" where
  "loadState ch sv = (case sv_states sv (statePath ch sv) of
       None \<Rightarrow> Inr \<lparr>intents = []\<rparr>
     | Some (Parsed s) \<Rightarrow> Inr s
     | Some Garbled \<Rightarrow> Inl (js ''SyntaxError''))"

definition saveState :: "channel \<Rightarrow> sale_state \<Rightarrow> server \<Rightarrow> unit res \<times> server" where
  "saveState ch s sv = (if sv_readonly sv then (Inl (js ''EROFS''), sv)
     else (Inr (), sv\<lparr>sv_states := (sv_states sv)(statePath ch sv \<mapsto> Parsed s)\<rparr>))"

definition railById :: "jstr \<Rightarrow> sale_rail res" where
  "railById rid = (case find (\<lambda>x. rail_id x = rid) SALE_RAILS of
       None \<Rightarrow> Inl (js ''rail desconhecida: '' @ rid)
     | Some r \<Rightarrow> Inr r)"

definition pay_base :: "server \<Rightarrow> sale_rail \<Rightarrow> jsnum \<Rightarrow> int res" where
  "pay_base sv rail usdAmount =
     (if rail_chain rail = js ''bitcoin'' \<or> rail_asset rail = js ''BTC'' then
        bigint_of_num (num_round (num_mul (num_div usdAmount (BTC_USD sv)) (Num 100000000)))
      else if rail_decimals rail = Some 18 then
        bind_res (bigint_of_num (num_round (num_mul usdAmount (Num 1000000)))) (\<lambda>a. Inr (a * 10 ^ 12))
      else if (case rail_decimals rail of None \<Rightarrow> 6 | Some d \<Rightarrow> d) = 6 then
        bigint_of_num (num_round (num_mul usdAmount (Num 1000000)))
      else bigint_of_num (num_round (num_mul usdAmount
        (num_of_int (10 ^ (case rail_decimals rail of None \<Rightarrow> 6 | Some d \<Rightarrow> d))))))"

definition quoteRailPayAmount :: "server \<Rightarrow> sale_rail \<Rightarrow> jsnum \<Rightarrow> int \<Rightarrow> jstr res" where
  "quoteRailPayAmount sv rail usdAmount nonce = bind_res (pay_base sv rail usdAmount) (\<lambda>a.
     let amount = with_suffix a nonce
     in if amount \<le> 0 then Inl (js ''amount'') else Inr (big_str amount))"

text \<open>\<open>randomBytes\<close>: the next draw, of the given number of bits.\<close>

definition draw :: "nat \<Rightarrow> server \<Rightarrow> nat \<times> server" where
  "draw bits sv = (sv_rand sv (sv_rpos sv) mod 2 ^ bits, sv\<lparr>sv_rpos := Suc (sv_rpos sv)\<rparr>)"

definition pay_taken :: "sale_state \<Rightarrow> sale_rail \<Rightarrow> jstr \<Rightarrow> bool" where
  "pay_taken st rail pay \<longleftrightarrow> list_ex (\<lambda>i. si_status i \<noteq> js ''granted''
     \<and> si_rail i = rail_id rail \<and> si_payAmount i = pay) (intents st)"

fun alloc_loop :: "nat \<Rightarrow> sale_state \<Rightarrow> sale_rail \<Rightarrow> jsnum \<Rightarrow> server \<Rightarrow> jstr res \<times> server" where
  "alloc_loop 0 st rail usdAmount sv = (Inl (js ''could not allocate unique payAmount''), sv)"
| "alloc_loop (Suc attempts) st rail usdAmount sv = (case draw 32 sv of (nonce, sv1) \<Rightarrow>
     (case quoteRailPayAmount sv1 rail usdAmount (int nonce) of
        Inl e \<Rightarrow> (Inl e, sv1)
      | Inr pay \<Rightarrow> if \<not> pay_taken st rail pay then (Inr pay, sv1)
          else alloc_loop attempts st rail usdAmount sv1))"

definition allocateUniquePayAmount ::
  "sale_state \<Rightarrow> sale_rail \<Rightarrow> jsnum \<Rightarrow> server \<Rightarrow> jstr res \<times> server" where
  "allocateUniquePayAmount st rail usdAmount sv = alloc_loop 64 st rail usdAmount sv"

text \<open>\<open>createHash("sha256")\<close> is a parameter, from the text hashed to its hex digest.\<close>

definition paymentId :: "(jstr \<Rightarrow> jstr) \<Rightarrow> jstr \<Rightarrow> jstr \<Rightarrow> jsnum \<Rightarrow> jstr" where
  "paymentId sha256_hex chainKey txHash logIndex =
     js ''0x'' @ sha256_hex (chainKey @ [58] @ to_lower txHash @ [58] @ num_str logIndex)"

definition toPublic :: "stored_intent \<Rightarrow> sale_intent res" where
  "toPublic i = bind_res (railById (si_rail i)) (\<lambda>rail. Inr
     \<lparr>it_id = si_id i, it_status = si_status i, it_beneficiary0x = si_beneficiary0x i,
      it_rail = si_rail i, it_chain = si_chain i, it_asset = rail_asset rail,
      it_standard = rail_standard rail,
      it_decimals = (case rail_decimals rail of Some d \<Rightarrow> Some d
        | None \<Rightarrow> if rail_asset rail = js ''BTC'' then Some 8 else None),
      it_usdAmount = si_usdAmount i, it_payAmount = si_payAmount i, it_e7Amount = si_e7Amount i,
      it_priceUsdPerEav7 = Some (si_price i), it_tierId = Some (si_tierId i),
      it_receive = si_receive i, it_explorer = rail_explorer rail, it_createdAt = si_createdAt i,
      it_paymentTx = si_paymentTx i, it_paymentId = si_paymentId i, it_grantTx = si_grantTx i,
      it_manualConfirm = (rail_chain rail = js ''bitcoin'' \<or> rail_chain rail = js ''solana''),
      it_channel = si_channel i, it_liquid = Some (si_channel i = Some Public)\<rparr>)"

definition progress_view :: "sale_state \<Rightarrow> (jstr \<times> jstr) list" where
  "progress_view st = map (\<lambda>i. (si_status i, si_usdAmount i)) (intents st)"

definition server_cfg :: "channel \<Rightarrow> server \<Rightarrow> auto_cfg" where
  "server_cfg ch sv = loadSaleAutoCfg (sv_env sv) (sv_cwd sv) (sv_cfgs sv) ch"

definition getSaleQuoteSnapshot :: "channel \<Rightarrow> server \<Rightarrow> sale_quote res" where
  "getSaleQuoteSnapshot ch sv = bind_res (loadState ch sv) (\<lambda>st.
     Inr (buildSaleQuote (progress_view st) (server_cfg ch sv)))"

definition new_intent :: "create_input \<Rightarrow> channel \<Rightarrow> sale_rail \<Rightarrow> sale_quote \<Rightarrow> jstr \<Rightarrow> int
    \<Rightarrow> nat \<Rightarrow> jstr \<Rightarrow> stored_intent" where
  "new_intent inp ch rail quote pay e7 rnd created =
     \<lparr>si_id = pad_start 16 48 (to_base 16 rnd), si_status = js ''pending'', si_channel = Some ch,
      si_beneficiary0x = to_lower (ci_beneficiary0x inp), si_rail = ci_rail inp,
      si_usdAmount = num_str (ci_usdAmount inp), si_payAmount = pay, si_e7Amount = big_str e7,
      si_price = num_str (q_price quote), si_tierId = q_tierId quote,
      si_receive = rail_receive rail,
      si_token = (case rail_token rail of None \<Rightarrow> None | Some t \<Rightarrow> if t = [] then None else Some t),
      si_chain = rail_chain rail, si_createdAt = created,
      si_paymentTx = None, si_paymentId = None, si_grantTx = None\<rparr>"

definition createLocalIntent ::
  "create_input \<Rightarrow> channel \<Rightarrow> server \<Rightarrow> sale_intent res \<times> server" where
  "createLocalIntent inp ch sv =
     (if \<not> re_evm (ci_beneficiary0x inp) then (Inl (js ''beneficiary0x inv'' @ [225] @ js ''lido''), sv)
      else if \<not> num_le (Num 100) (ci_usdAmount inp) then (Inl (js ''usdAmount m'' @ [237] @ js ''nimo 100''), sv)
      else case railById (ci_rail inp) of Inl e \<Rightarrow> (Inl e, sv) | Inr rail \<Rightarrow>
        (case loadState ch sv of Inl e \<Rightarrow> (Inl e, sv) | Inr st \<Rightarrow>
          (let quote = buildSaleQuote (progress_view st) (server_cfg ch sv); price = q_price quote in
           if \<not> num_lt (Num 0) price then (Inl (js ''pre'' @ [231] @ js ''o inv'' @ [225] @ js ''lido''), sv)
           else case allocateUniquePayAmount st rail (ci_usdAmount inp) sv of
               (Inl e, sv1) \<Rightarrow> (Inl e, sv1)
             | (Inr pay, sv1) \<Rightarrow>
                 (case bigint_of_num (num_round (num_mul (num_div (ci_usdAmount inp) price) (Num 1000000))) of
                    Inl e \<Rightarrow> (Inl e, sv1)
                  | Inr e7 \<Rightarrow>
                    (case draw 64 sv1 of (rnd, sv2) \<Rightarrow>
                      (case iso_string (sv_now sv2) of Inl e \<Rightarrow> (Inl e, sv2) | Inr created \<Rightarrow>
                        (let intent = new_intent inp ch rail quote pay e7 rnd created in
                         case saveState ch (st\<lparr>intents := intents st @ [intent]\<rparr>) sv2 of
                           (Inl e, sv3) \<Rightarrow> (Inl e, sv3)
                         | (Inr _, sv3) \<Rightarrow> (toPublic intent, sv3))))))))"

definition getLocalIntent :: "jstr \<Rightarrow> channel \<Rightarrow> server \<Rightarrow> sale_intent option res" where
  "getLocalIntent iid ch sv = bind_res (loadState ch sv) (\<lambda>st.
     case find (\<lambda>i. si_id i = iid) (intents st) of
       None \<Rightarrow> Inr None
     | Some i \<Rightarrow> bind_res (toPublic i) (\<lambda>p. Inr (Some p)))"

definition confirmLocalIntent :: "jstr \<Rightarrow> jstr \<Rightarrow> channel \<Rightarrow> sale_intent res" where
  "confirmLocalIntent intentId txHash ch =
     Inl (js ''confirm disabled: use the payment watcher or ops CLI with SALE_OPS_TOKEN'')"

definition env_set :: "server \<Rightarrow> string \<Rightarrow> bool" where
  "env_set sv k \<longleftrightarrow> (case sv_env sv k of None \<Rightarrow> False | Some v \<Rightarrow> v \<noteq> [])"

definition useRemoteRelayer :: "channel \<Rightarrow> server \<Rightarrow> bool" where
  "useRemoteRelayer ch sv = (if ch = Public
     then env_set sv ''SALE_RELAYER_PUBLIC_URL'' \<or> env_set sv ''SALE_RELAYER_URL''
     else env_set sv ''SALE_RELAYER_URL'')"

definition strip_slash :: "jstr \<Rightarrow> jstr" where
  "strip_slash s = (if s \<noteq> [] \<and> last s = 47 then butlast s else s)"

definition relayerBase :: "channel \<Rightarrow> server \<Rightarrow> jstr" where
  "relayerBase ch sv = strip_slash (if ch = Public
     then env_or (sv_env sv) ''SALE_RELAYER_PUBLIC_URL''
       (env_or (sv_env sv) ''SALE_RELAYER_URL'' (js ''http://127.0.0.1:8788''))
     else env_or (sv_env sv) ''SALE_RELAYER_URL'' (js ''http://127.0.0.1:8787''))"

definition loadPublicPlan :: "server \<Rightarrow> public_plan res" where
  "loadPublicPlan sv = (case sv_plans sv (path_resolve (sv_cwd sv) ''../contracts/sale/public-distribution.json'') of
       None \<Rightarrow> Inl (js ''ENOENT'')
     | Some (Parsed p) \<Rightarrow> Inr p
     | Some Garbled \<Rightarrow> Inl (js ''SyntaxError''))"


subsection \<open>Allocating a payment amount\<close>

lemma quoteRailPayAmount_rpos [simp]:
  "quoteRailPayAmount (sv\<lparr>sv_rpos := r\<rparr>) = quoteRailPayAmount sv"
  by (intro ext) (simp add: quoteRailPayAmount_def pay_base_def BTC_USD_def)

text \<open>What the loop has to find: the first draw whose amount is an error or not taken.\<close>

definition nonce_at :: "server \<Rightarrow> nat \<Rightarrow> nat" where
  "nonce_at sv k = sv_rand sv (sv_rpos sv + k) mod 2 ^ 32"

definition draw_quote :: "sale_rail \<Rightarrow> jsnum \<Rightarrow> server \<Rightarrow> nat \<Rightarrow> jstr res" where
  "draw_quote rail usd sv k = quoteRailPayAmount sv rail usd (int (nonce_at sv k))"

definition draw_blocked :: "sale_state \<Rightarrow> sale_rail \<Rightarrow> jstr res \<Rightarrow> bool" where
  "draw_blocked st rail q = (case q of Inl e \<Rightarrow> False | Inr p \<Rightarrow> pay_taken st rail p)"

definition next_draw :: "server \<Rightarrow> server" where
  "next_draw sv = sv\<lparr>sv_rpos := Suc (sv_rpos sv)\<rparr>"

lemma draw_quote_Suc: "draw_quote rail usd (next_draw sv) k = draw_quote rail usd sv (Suc k)"
  by (simp add: draw_quote_def nonce_at_def next_draw_def)

lemma alloc_loop_Suc:
  "alloc_loop (Suc n) st rail usd sv = (case draw_quote rail usd sv 0 of
       Inl e \<Rightarrow> (Inl e, next_draw sv)
     | Inr pay \<Rightarrow> if \<not> pay_taken st rail pay then (Inr pay, next_draw sv)
         else alloc_loop n st rail usd (next_draw sv))"
  unfolding next_draw_def by (simp add: draw_def draw_quote_def nonce_at_def)

lemma alloc_loop_spec:
  "fst (alloc_loop n st rail usd sv) =
     (case dropWhile (draw_blocked st rail) (map (draw_quote rail usd sv) [0..<n]) of
        [] \<Rightarrow> Inl (js ''could not allocate unique payAmount'') | q # _ \<Rightarrow> q)"
proof (induction n arbitrary: sv)
  case 0
  then show ?case by simp
next
  case (Suc n)
  have m: "map (draw_quote rail usd sv) [0..<Suc n] =
      draw_quote rail usd sv 0 # map (draw_quote rail usd (next_draw sv)) [0..<n]"
    by (simp add: upt_conv_Cons map_Suc_upt [symmetric] draw_quote_Suc comp_def del: upt_Suc)
  show ?case
    unfolding m alloc_loop_Suc
    by (cases "draw_quote rail usd sv 0") (simp_all add: draw_blocked_def Suc.IH del: alloc_loop.simps)
qed

text \<open>Drawing only moves the random source.\<close>

definition drawn :: "server \<Rightarrow> server \<Rightarrow> bool" where
  "drawn sv sv' \<longleftrightarrow> sv' = sv\<lparr>sv_rpos := sv_rpos sv'\<rparr>"

lemma drawn_refl [simp]: "drawn sv sv"
  by (simp add: drawn_def)

lemma drawn_next: "drawn (next_draw sv) sv' \<Longrightarrow> drawn sv sv'"
  by (simp add: drawn_def next_draw_def)

lemma drawn_rpos [simp]: "drawn sv (sv\<lparr>sv_rpos := r\<rparr>)"
  by (simp add: drawn_def)

lemma alloc_loop_frame: "drawn sv (snd (alloc_loop n st rail usd sv))"
proof (induction n arbitrary: sv)
  case (Suc n)
  show ?case
    unfolding alloc_loop_Suc using drawn_next [OF Suc.IH] drawn_next [OF drawn_refl]
    by (cases "draw_quote rail usd sv 0") (simp_all del: alloc_loop.simps)
qed simp

lemma alloc_loop_Inr:
  assumes "alloc_loop n st rail usd sv = (Inr pay, sv')"
  shows "\<not> pay_taken st rail pay"
    and "\<exists>nonce. quoteRailPayAmount sv rail usd (int nonce) = Inr pay"
proof -
  let ?qs = "map (draw_quote rail usd sv) [0..<n]"
  obtain q qs where d: "dropWhile (draw_blocked st rail) ?qs = q # qs"
    and q: "q = Inr pay"
    using alloc_loop_spec [of n st rail usd sv] assms by (auto split: list.splits)
  have "q \<in> set ?qs" using d by (metis list.set_intros(1) set_dropWhileD)
  then show "\<exists>nonce. quoteRailPayAmount sv rail usd (int nonce) = Inr pay"
    using q by (auto simp: draw_quote_def)
  show "\<not> pay_taken st rail pay"
    using d q by (auto simp: dropWhile_eq_Cons_conv draw_blocked_def)
qed

definition open_on :: "sale_rail \<Rightarrow> stored_intent \<Rightarrow> bool" where
  "open_on rail i \<longleftrightarrow> si_status i \<noteq> js ''granted'' \<and> si_rail i = rail_id rail"

lemma pay_taken_iff:
  "pay_taken st rail pay \<longleftrightarrow> pay \<in> si_payAmount ` set (filter (open_on rail) (intents st))"
  by (auto simp: pay_taken_def open_on_def list_ex_iff)

lemma big_str_inj: "big_str a = big_str b \<longleftrightarrow> a = b"
  by (metis big_of_str_big_str Inr_inject)

lemma draw_quote_large:
  assumes "pay_base sv rail usd = Inr a" "1000000 \<le> a"
  shows "draw_quote rail usd sv k =
    Inr (big_str (a div 1000000 * 1000000 + int (nonce_at sv k mod 1000000)))"
proof -
  have "with_suffix a (int n) = a div 1000000 * 1000000 + int (n mod 1000000)" for n
    using assms(2) by (simp add: with_suffix_eq suffix_mod_def zmod_int)
  moreover have "0 < a div 1000000 * 1000000 + int (n mod 1000000)" for n
  proof -
    have "0 < a div 1000000" using assms(2) by (simp add: pos_imp_zdiv_pos_iff)
    then show ?thesis by (simp add: add_pos_nonneg)
  qed
  ultimately show ?thesis
    using assms(1) by (simp add: draw_quote_def quoteRailPayAmount_def Let_def not_le)
qed

lemma alloc_pigeonhole:
  assumes a: "pay_base sv rail usd = Inr a" "1000000 \<le> a"
    and few: "length (filter (open_on rail) (intents st)) < card ((\<lambda>k. nonce_at sv k mod 1000000) ` {..<64})"
  shows "\<exists>pay. fst (allocateUniquePayAmount st rail usd sv) = Inr pay"
proof -
  let ?f = "\<lambda>n. big_str (a div 1000000 * 1000000 + int n)"
  let ?R = "(\<lambda>k. nonce_at sv k mod 1000000) ` {..<64}"
  let ?O = "si_payAmount ` set (filter (open_on rail) (intents st))"
  have "inj_on ?f ?R" by (rule inj_onI) (simp add: big_str_inj)
  then have "card (?f ` ?R) = card ?R" by (rule card_image)
  moreover have "card ?O \<le> length (filter (open_on rail) (intents st))"
    by (metis card_image_le card_length finite_set le_trans)
  ultimately have "\<not> ?f ` ?R \<subseteq> ?O"
    using few card_mono [of ?O "?f ` ?R"] by auto
  then obtain k where "k < 64" "?f (nonce_at sv k mod 1000000) \<notin> ?O" by blast
  then have "\<not> draw_blocked st rail (draw_quote rail usd sv k)"
    unfolding draw_quote_large [OF a] by (simp add: draw_blocked_def pay_taken_iff)
  with \<open>k < 64\<close> have "dropWhile (draw_blocked st rail) (map (draw_quote rail usd sv) [0..<64]) \<noteq> []"
    by (auto simp: dropWhile_eq_Nil_conv simp del: upt_rec_numeral)
  then obtain q qs where d: "dropWhile (draw_blocked st rail) (map (draw_quote rail usd sv) [0..<64]) = q # qs"
    by (meson neq_Nil_conv)
  then have "q \<in> set (map (draw_quote rail usd sv) [0..<64])"
    by (metis list.set_intros(1) set_dropWhileD)
  then show ?thesis
    unfolding allocateUniquePayAmount_def alloc_loop_spec d
    by (auto simp: draw_quote_large [OF a] simp del: upt_rec_numeral)
qed

subsection \<open>How far an amount is from its price\<close>

lemma round_scaled:
  assumes u: "0 \<le> u" "u \<le> 1000000000"
    and a: "bigint_of_num (num_round (num_mul (Num u) (Num 1000000))) = Inr a"
  shows "\<lfloor>u * 1000000\<rfloor> \<le> a" "a \<le> \<lceil>u * 1000000\<rceil>"
proof -
  let ?x = "u * 1000000"
  have x: "0 \<le> ?x" "?x \<le> of_int (10 ^ 15)" using u by simp_all
  have fx: "\<lfloor>?x\<rfloor> \<le> 10 ^ 15" "0 \<le> \<lfloor>?x\<rfloor>" using x by linarith+
  have cx: "\<lceil>?x\<rceil> \<le> 10 ^ 15" "0 \<le> \<lceil>?x\<rceil>" using x by (simp_all add: ceiling_le_iff le_ceiling_iff)
  have lo: "of_int \<lfloor>?x\<rfloor> \<le> fl ?x"
    by (rule fl_ge_f64) (use fx in \<open>auto intro!: is_f64_of_int\<close>)
  have hi: "fl ?x \<le> of_int \<lceil>?x\<rceil>"
    by (rule fl_le_f64) (use cx in \<open>auto intro!: is_f64_of_int\<close>)
  have "fl ?x \<le> of_int (10 ^ 15)"
    using hi cx(1) by (meson of_int_le_iff order_trans)
  also have "\<dots> < 2 ^ 1024" by simp
  finally have b: "fl ?x < 2 ^ 1024" .
  have "to_num ?x = Num (fl ?x)"
    using b fl_nonneg [OF x(1)] by (simp add: to_num_def overflow_def)
  then have "a = \<lfloor>fl ?x + 1 / 2\<rfloor>"
    using a by (simp add: bigint_round del: num_round.simps)
  then show "\<lfloor>?x\<rfloor> \<le> a" "a \<le> \<lceil>?x\<rceil>"
    using lo hi by linarith+
qed

lemma SALE_RAILS_kind:
  assumes "railById k = Inr rail"
  shows "rail_asset rail = js ''BTC'' \<and> rail_chain rail = js ''bitcoin'' \<and> rail_decimals rail = None
    \<or> rail_asset rail \<noteq> js ''BTC'' \<and> rail_chain rail \<noteq> js ''bitcoin''
      \<and> (rail_decimals rail = Some 6 \<or> rail_decimals rail = Some 18)"
proof -
  have "rail \<in> set SALE_RAILS"
    using assms by (auto simp: railById_def find_Some_iff split: option.splits)
  then show ?thesis by (auto simp: SALE_RAILS_def)
qed

lemma quoteRailPayAmount_Inr:
  assumes "quoteRailPayAmount sv rail usd (int n) = Inr pay"
  obtains a where "pay_base sv rail usd = Inr a" "pay = big_str (with_suffix a (int n))"
    "0 < with_suffix a (int n)"
  using assms by (auto simp: quoteRailPayAmount_def Let_def bind_res_eq_Inr split: if_splits)

lemma stable_pay_bound:
  assumes r: "railById k = Inr rail" and d: "rail_decimals rail = Some d"
    and u: "0 \<le> u" "u \<le> 1000000000"
    and q: "quoteRailPayAmount sv rail (Num u) (int n) = Inr pay"
  shows "\<exists>v. pay = big_str v \<and> 0 < v \<and> \<bar>of_int v / 10 ^ d - u\<bar> < 1"
proof -
  obtain a where a: "pay_base sv rail (Num u) = Inr a"
    and pay: "pay = big_str (with_suffix a (int n))" "0 < with_suffix a (int n)"
    using q by (rule quoteRailPayAmount_Inr)
  let ?b = "bigint_of_num (num_round (num_mul (Num u) (Num 1000000)))"
  let ?x = "u * 1000000"
  have x0: "0 \<le> ?x" using u by simp
  consider "d = 6" "?b = Inr a" | b where "d = 18" "?b = Inr b" "a = b * 10 ^ 12"
    using SALE_RAILS_kind [OF r] d a
    by (auto simp: pay_base_def bind_res_eq_Inr simp del: num_round.simps num_mul.simps)
  then have "\<bar>of_int (with_suffix a (int n)) / 10 ^ d - u\<bar> < 1"
  proof cases
    case 1
    have a: "\<lfloor>?x\<rfloor> \<le> a" "a \<le> \<lceil>?x\<rceil>" using round_scaled [OF u 1(2)] .
    have "0 \<le> a" using a x0 by linarith
    then have "\<bar>with_suffix a (int n) - a\<bar> < suffix_mod a" by (intro with_suffix_block) simp_all
    moreover have "suffix_mod a \<le> 1000000" by (simp add: suffix_mod_def)
    ultimately have w: "\<bar>with_suffix a (int n) - a\<bar> \<le> 999999" by linarith
    then have w': "\<bar>of_int (with_suffix a (int n)) - of_int a\<bar> \<le> (999999 :: rat)"
      by (metis (no_types) of_int_abs of_int_diff of_int_le_iff of_int_numeral)
    have "\<bar>of_int a - ?x\<bar> < 1" using a by linarith
    with w' have "\<bar>of_int (with_suffix a (int n)) - ?x\<bar> < 1000000" by linarith
    then show ?thesis using 1(1) by (simp add: abs_less_iff field_simps)
  next
    case 2
    have b: "\<lfloor>?x\<rfloor> \<le> b" "b \<le> \<lceil>?x\<rceil>" using round_scaled [OF u 2(2)] .
    have "0 \<le> b" using b x0 by linarith
    then have "0 \<le> a" using 2 by simp
    then have "\<bar>with_suffix a (int n) - a\<bar> < suffix_mod a" by (intro with_suffix_block) simp_all
    moreover have "suffix_mod a \<le> 1000000" by (simp add: suffix_mod_def)
    ultimately have w: "\<bar>with_suffix a (int n) - a\<bar> \<le> 999999" by linarith
    then have w': "\<bar>of_int (with_suffix a (int n)) - of_int a\<bar> \<le> (999999 :: rat)"
      by (metis (no_types) of_int_abs of_int_diff of_int_le_iff of_int_numeral)
    have "\<bar>of_int b - ?x\<bar> < 1" using b by linarith
    moreover have "(of_int a :: rat) = of_int b * 10 ^ 12" using 2 by simp
    ultimately have "\<bar>of_int (with_suffix a (int n)) - ?x * 10 ^ 12\<bar> < 10 ^ 18"
      using w' by (auto simp: abs_less_iff abs_le_iff)
    then show ?thesis using 2(1) by (simp add: abs_less_iff field_simps)
  qed
  then show ?thesis using pay by blast
qed

lemma btc_1899:
  assumes "sv_env sv ''BTC_USD'' = None" "railById (js ''btc'') = Inr rail"
  shows "quoteRailPayAmount sv rail (Num 1899) (int n) = Inr (big_str (1000000 + int (n mod 1000000)))"
proof -
  have r: "rail_chain rail = js ''bitcoin''"
    using assms(2) by (auto simp: railById_def SALE_RAILS_def)
  have "bigint_of_num (num_round (num_mul (num_div (Num 1899) (Num 95000)) (Num 100000000))) = Inr 1998947"
    by (simp add: num_eval bigint_of_num_def)
  then have "pay_base sv rail (Num 1899) = Inr 1998947"
    using r assms(1) by (simp add: pay_base_def BTC_USD_def)
  then show ?thesis
    by (simp add: quoteRailPayAmount_def with_suffix_def suffix_mod_def zmod_int Let_def not_le add_pos_nonneg)
qed

subsection \<open>Creating an intent\<close>

lemma createLocalIntent_Inr:
  assumes "createLocalIntent inp ch sv = (Inr view, sv')"
  obtains rail st pay e7 rnd created r where
    "re_evm (ci_beneficiary0x inp)" "num_le (Num 100) (ci_usdAmount inp)"
    "railById (ci_rail inp) = Inr rail" "loadState ch sv = Inr st"
    "num_lt (Num 0) (q_price (buildSaleQuote (progress_view st) (server_cfg ch sv)))"
    "\<not> pay_taken st rail pay"
    "\<exists>nonce. quoteRailPayAmount sv rail (ci_usdAmount inp) (int nonce) = Inr pay"
    "bigint_of_num (num_round (num_mul (num_div (ci_usdAmount inp)
       (q_price (buildSaleQuote (progress_view st) (server_cfg ch sv)))) (Num 1000000))) = Inr e7"
    "iso_string (sv_now sv) = Inr created" "rnd < 2 ^ 64"
    "\<not> sv_readonly sv"
    "sv' = sv\<lparr>sv_rpos := r, sv_states := (sv_states sv)(statePath ch sv \<mapsto> Parsed (st\<lparr>intents := intents st @
       [new_intent inp ch rail (buildSaleQuote (progress_view st) (server_cfg ch sv)) pay e7 rnd created]\<rparr>))\<rparr>"
    "toPublic (new_intent inp ch rail (buildSaleQuote (progress_view st) (server_cfg ch sv)) pay e7 rnd created)
       = Inr view"
proof -
  obtain rail where rail: "railById (ci_rail inp) = Inr rail" and g: "re_evm (ci_beneficiary0x inp)"
    "num_le (Num 100) (ci_usdAmount inp)"
    using assms by (auto simp: createLocalIntent_def split: if_splits sum.splits)
  obtain st where st: "loadState ch sv = Inr st"
    using assms g rail by (auto simp: createLocalIntent_def split: sum.splits)
  let ?q = "buildSaleQuote (progress_view st) (server_cfg ch sv)"
  have pr: "num_lt (Num 0) (q_price ?q)"
    using assms g rail st by (auto simp: createLocalIntent_def Let_def split: if_splits)
  obtain pay sv1 where al: "allocateUniquePayAmount st rail (ci_usdAmount inp) sv = (Inr pay, sv1)"
    using assms g rail st pr
    by (auto simp: createLocalIntent_def Let_def split: prod.splits sum.splits)
  obtain r1 where sv1: "sv1 = sv\<lparr>sv_rpos := r1\<rparr>"
    using alloc_loop_frame [of sv 64 st rail "ci_usdAmount inp"] al
    by (auto simp: allocateUniquePayAmount_def drawn_def)
  obtain e7 where e7: "bigint_of_num (num_round (num_mul (num_div (ci_usdAmount inp)
       (q_price ?q)) (Num 1000000))) = Inr e7"
    using assms g rail st pr al
    by (auto simp: createLocalIntent_def Let_def split: prod.splits sum.splits)
  obtain created where c: "iso_string (sv_now sv) = Inr created"
    using assms g rail st pr al e7 sv1
    by (auto simp: createLocalIntent_def Let_def draw_def split: prod.splits sum.splits)
  let ?i = "\<lambda>rnd. new_intent inp ch rail ?q pay e7 rnd created"
  obtain rnd where rnd: "rnd < 2 ^ 64" "\<not> sv_readonly sv" and sv': "sv' = sv\<lparr>sv_rpos := Suc r1,
       sv_states := (sv_states sv)(statePath ch sv \<mapsto> Parsed (st\<lparr>intents := intents st @ [?i rnd]\<rparr>))\<rparr>"
    and v: "toPublic (?i rnd) = Inr view"
  proof -
    let ?rnd = "sv_rand sv r1 mod 2 ^ 64"
    have rr: "\<not> sv_readonly sv"
      using assms g rail st pr al e7 c sv1
      by (auto simp: createLocalIntent_def Let_def draw_def saveState_def)
    have p: "statePath ch (sv\<lparr>sv_rpos := Suc r1\<rparr>) = statePath ch sv"
      by (simp add: statePath_def)
    show thesis
      by (rule that [of ?rnd]) (use assms g rail st pr al e7 c sv1 rr p in
        \<open>auto simp: createLocalIntent_def Let_def draw_def saveState_def\<close>)
  qed
  have a: "\<not> pay_taken st rail pay"
    "\<exists>nonce. quoteRailPayAmount sv rail (ci_usdAmount inp) (int nonce) = Inr pay"
    using alloc_loop_Inr al by (auto simp: allocateUniquePayAmount_def)
  show thesis
    by (rule that [OF g rail st pr a e7 c rnd sv' v])
qed

lemma railById_id: "railById k = Inr rail \<Longrightarrow> rail_id rail = k"
  by (auto simp: railById_def find_Some_iff split: option.splits)

lemma toPublic_new_intent:
  "railById (ci_rail inp) = Inr rail \<Longrightarrow>
     \<exists>v. toPublic (new_intent inp ch rail q pay e7 rnd created) = Inr v"
  by (simp add: toPublic_def new_intent_def)

lemma toPublic_new_ne:
  "railById (ci_rail inp) = Inr rail \<Longrightarrow>
     toPublic (new_intent inp ch rail q pay e7 rnd created) \<noteq> Inl e"
  by (simp add: toPublic_def new_intent_def)

text \<open>A create that throws leaves every state file as it was: the write is its last effect.\<close>

lemma createLocalIntent_Inl:
  assumes "createLocalIntent inp ch sv = (Inl e, sv')"
  shows "drawn sv sv'"
proof (cases "railById (ci_rail inp)")
  case (Inl e')
  then show ?thesis using assms by (auto simp: createLocalIntent_def split: if_splits)
next
  case rail: (Inr rail)
  show ?thesis
  proof (cases "loadState ch sv")
    case (Inl e')
    then show ?thesis using assms rail by (auto simp: createLocalIntent_def split: if_splits)
  next
    case st: (Inr st)
    obtain a sv1 where al: "allocateUniquePayAmount st rail (ci_usdAmount inp) sv = (a, sv1)"
      by fastforce
    obtain r1 where sv1: "sv1 = sv\<lparr>sv_rpos := r1\<rparr>"
      using alloc_loop_frame [of sv 64 st rail "ci_usdAmount inp"] al
      by (auto simp: drawn_def allocateUniquePayAmount_def)
    show ?thesis
      using assms rail st al sv1
      by (auto simp: createLocalIntent_def Let_def draw_def saveState_def toPublic_new_ne [OF rail]
        split: if_splits sum.splits)
  qed
qed

lemma createLocalIntent_returns:
  assumes "re_evm (ci_beneficiary0x inp)" "num_le (Num 100) (ci_usdAmount inp)"
    "railById (ci_rail inp) = Inr rail" "loadState ch sv = Inr st"
    "q_price (buildSaleQuote (progress_view st) (server_cfg ch sv)) = p" "num_lt (Num 0) p"
    "\<exists>pay. fst (allocateUniquePayAmount st rail (ci_usdAmount inp) sv) = Inr pay"
    "bigint_of_num (num_round (num_mul (num_div (ci_usdAmount inp) p) (Num 1000000))) = Inr e7"
    "iso_string (sv_now sv) = Inr created" "\<not> sv_readonly sv"
  shows "\<exists>view sv'. createLocalIntent inp ch sv = (Inr view, sv')"
proof -
  obtain pay sv1 where al: "allocateUniquePayAmount st rail (ci_usdAmount inp) sv = (Inr pay, sv1)"
    using assms(7) by (metis prod.collapse)
  obtain r1 where sv1: "sv1 = sv\<lparr>sv_rpos := r1\<rparr>"
    using alloc_loop_frame [of sv 64 st rail "ci_usdAmount inp"] al
    by (auto simp: drawn_def allocateUniquePayAmount_def)
  show ?thesis
    using assms al sv1 toPublic_new_intent [OF assms(3)]
    by (simp add: createLocalIntent_def Let_def draw_def saveState_def)
qed

lemma find_append_fresh:
  "k \<notin> f ` set xs \<Longrightarrow> find (\<lambda>i. f i = k) (xs @ [i]) = (if f i = k then Some i else None)"
  by (induction xs) auto

text \<open>What a created intent keeps and what it adds.\<close>

lemma statePath_upd [simp]:
  "statePath ch (sv\<lparr>sv_rpos := r, sv_states := m\<rparr>) = statePath ch sv"
  by (simp add: statePath_def)

lemma loadState_upd:
  "loadState ch (sv\<lparr>sv_rpos := r, sv_states := (sv_states sv)(p \<mapsto> Parsed s)\<rparr>) =
     (if statePath ch sv = p then Inr s else loadState ch sv)"
  by (simp add: loadState_def)

lemma new_intent_sel [simp]:
  "si_status (new_intent inp ch rail q pay e7 rnd created) = js ''pending''"
  "si_rail (new_intent inp ch rail q pay e7 rnd created) = ci_rail inp"
  "si_payAmount (new_intent inp ch rail q pay e7 rnd created) = pay"
  "si_channel (new_intent inp ch rail q pay e7 rnd created) = Some ch"
  "si_beneficiary0x (new_intent inp ch rail q pay e7 rnd created) = to_lower (ci_beneficiary0x inp)"
  "si_paymentTx (new_intent inp ch rail q pay e7 rnd created) = None"
  "si_paymentId (new_intent inp ch rail q pay e7 rnd created) = None"
  "si_grantTx (new_intent inp ch rail q pay e7 rnd created) = None"
  by (simp_all add: new_intent_def)

text \<open>
  The key a payment is matched by: two intents that are not granted must not share it.
\<close>

definition pay_key :: "stored_intent \<Rightarrow> jstr \<times> jstr" where
  "pay_key i = (si_rail i, si_payAmount i)"

definition open_intent :: "stored_intent \<Rightarrow> bool" where
  "open_intent i \<longleftrightarrow> si_status i \<noteq> js ''granted''"

lemma pay_taken_key:
  "pay_taken st rail pay \<longleftrightarrow>
     (rail_id rail, pay) \<in> pay_key ` set (filter open_intent (intents st))"
  by (force simp: pay_taken_def open_intent_def pay_key_def list_ex_iff)

lemma createLocalIntent_appends:
  assumes "createLocalIntent inp ch sv = (Inr view, sv')"
  obtains st i where "loadState ch sv = Inr st"
    "loadState ch sv' = Inr (st\<lparr>intents := intents st @ [i]\<rparr>)"
    "toPublic i = Inr view" "si_status i = js ''pending''" "si_channel i = Some ch"
    "si_beneficiary0x i = to_lower (ci_beneficiary0x inp)" "si_rail i = ci_rail inp"
    "pay_key i \<notin> pay_key ` set (filter open_intent (intents st))"
    "si_paymentTx i = None" "si_paymentId i = None" "si_grantTx i = None"
    "\<And>ch'. statePath ch' sv \<noteq> statePath ch sv \<Longrightarrow> loadState ch' sv' = loadState ch' sv"
  using assms
  by (rule createLocalIntent_Inr) (auto simp: loadState_upd pay_taken_key pay_key_def railById_id intro!: that)


lemma get_created:
  assumes "createLocalIntent inp ch sv = (Inr view, sv')" "loadState ch sv = Inr st"
    and "it_id view \<notin> si_id ` set (intents st)"
  shows "getLocalIntent (it_id view) ch sv' = Inr (Some view)"
  using assms(1)
proof (rule createLocalIntent_appends)
  fix st' i
  assume l: "loadState ch sv = Inr st'" "loadState ch sv' = Inr (st'\<lparr>intents := intents st' @ [i]\<rparr>)"
    and v: "toPublic i = Inr view"
  have "it_id view = si_id i" using v by (auto simp: toPublic_def bind_res_eq_Inr)
  moreover have "st' = st" using l assms(2) by simp
  ultimately show ?thesis
    using assms(3) l v by (simp add: getLocalIntent_def find_append_fresh)
qed

subsection \<open>A server to evaluate on\<close>

definition sv0 :: server where
  "sv0 = \<lparr>sv_env = (\<lambda>_. None), sv_cwd = js ''/srv/web-next'', sv_cfgs = (\<lambda>_. None),
     sv_states = (\<lambda>_. None), sv_plans = (\<lambda>_. None), sv_rand = (\<lambda>_. 123456), sv_rpos = 0, sv_now = 1700000000000,
     sv_readonly = False\<rparr>"

definition inp0 :: create_input where
  "inp0 = \<lparr>ci_beneficiary0x = js ''0x2ddd408bbd8c84fb64ac950f578e9297e7002a35'',
     ci_rail = js ''eth-usdt'', ci_usdAmount = Num 1000\<rparr>"

definition rail0 :: sale_rail where "rail0 = hd SALE_RAILS"

lemma rail0: "railById (js ''eth-usdt'') = Inr rail0"
  by (simp add: railById_def rail0_def SALE_RAILS_def)

lemma cfg0: "server_cfg Private sv0 = EMBEDDED_CFG"
  by (simp add: server_cfg_def loadSaleAutoCfg_def sv0_def PRIVATE_CFG_CANDIDATES_def env_path_def)

lemma state0: "loadState Private sv0 = Inr \<lparr>intents = []\<rparr>"
  by (simp add: loadState_def sv0_def)

lemma price0: "q_price (buildSaleQuote [] EMBEDDED_CFG) = Num (5764607523034235 / 1152921504606846976)"
  by (simp add: buildSaleQuote_eq quote_at_sel Let_def embedded_cfg_eval tier_index_def
    raisedFromIntents_def,simp add: EMBEDDED_CFG_def tier_open_def num_of_str_0005)

lemma base0: "pay_base sv0 rail0 (Num 1000) = Inr 1000000000"
  by (simp add: pay_base_def rail0_def SALE_RAILS_def num_eval bigint_of_num_def)

lemma e7_0: "bigint_of_num (num_round (num_mul (num_div (Num 1000)
   (Num (5764607523034235 / 1152921504606846976))) (Num 1000000))) = Inr 200000000000"
  by (simp add: num_eval bigint_of_num_def)

lemma alloc0: "\<exists>pay. fst (allocateUniquePayAmount \<lparr>intents = []\<rparr> rail0 (Num 1000) sv0) = Inr pay"
  by (rule alloc_pigeonhole [OF base0]) (simp_all add: nonce_at_def sv0_def image_constant_conv lessThan_empty_iff)

lemma addr0: "re_evm (ci_beneficiary0x inp0)"
  by (simp add: inp0_def re_evm_def js_eval char_class_defs)

lemma create0: "\<exists>view sv'. createLocalIntent inp0 Private sv0 = (Inr view, sv')"
proof -
  have c: "iso_string (sv_now sv0) = Inr (iso_date (civil_of_days 19675) @ [84] @ iso_time 80000000 @ [90])"
    by (simp add: iso_string_def sv0_def valid_time_def MS_PER_DAY_def)
  have u: "ci_usdAmount inp0 = Num 1000" "ci_rail inp0 = js ''eth-usdt''"
    by (simp_all add: inp0_def)
  show ?thesis
    by (rule createLocalIntent_returns [of inp0 rail0 Private sv0 "\<lparr>intents = []\<rparr>"])
      (use addr0 state0 cfg0 price0 alloc0 e7_0 c rail0 in
        \<open>simp_all add: u progress_view_def sv0_def del: num_mul.simps num_div.simps num_round.simps\<close>)
qed


subsection \<open>Properties\<close>

text \<open>
  C15. The amount a buyer is asked for is the first of the 64 draws that is not the amount of
  another open intent on the same rail (an amount that cannot be formed stops the search with
  its error, and 64 taken amounts are reported as such).
\<close>

theorem allocate_first_free:
  "fst (allocateUniquePayAmount st rail usd sv) =
     (case dropWhile (\<lambda>q. \<exists>pay. q = Inr pay \<and> (\<exists>i \<in> set (intents st). si_status i \<noteq> js ''granted''
             \<and> si_rail i = rail_id rail \<and> si_payAmount i = pay))
         (map (\<lambda>k. quoteRailPayAmount sv rail usd (int (sv_rand sv (sv_rpos sv + k) mod 2 ^ 32))) [0..<64]) of
        [] \<Rightarrow> Inl (js ''could not allocate unique payAmount'') | q # _ \<Rightarrow> q)"
proof -
  have b: "draw_blocked st rail = (\<lambda>q. \<exists>pay. q = Inr pay \<and> (\<exists>i \<in> set (intents st).
      si_status i \<noteq> js ''granted'' \<and> si_rail i = rail_id rail \<and> si_payAmount i = pay))"
    by (auto simp: draw_blocked_def pay_taken_def list_ex_iff fun_eq_iff split: sum.splits)
  have d: "draw_quote rail usd sv =
      (\<lambda>k. quoteRailPayAmount sv rail usd (int (sv_rand sv (sv_rpos sv + k) mod 2 ^ 32)))"
    by (simp only: draw_quote_def nonce_at_def fun_eq_iff) blast
  show ?thesis
    unfolding allocateUniquePayAmount_def alloc_loop_spec b d ..
qed

text \<open>
  C30. Allocation cannot fail while the rail has fewer open intents than the 64 draws have
  different suffixes, for amounts of at least 1000000 base units.
\<close>

theorem allocate_succeeds:
  assumes "pay_base sv rail usd = Inr a" "1000000 \<le> a"
    and "length (filter (open_on rail) (intents st)) <
      card ((\<lambda>k. sv_rand sv (sv_rpos sv + k) mod 2 ^ 32 mod 1000000) ` {..<64})"
  shows "\<exists>pay. fst (allocateUniquePayAmount st rail usd sv) = Inr pay"
  using alloc_pigeonhole [of sv rail usd a st] assms by (simp only: nonce_at_def)

theorem allocate_succeeds_witness:
  "\<exists>pay. fst (allocateUniquePayAmount \<lparr>intents = []\<rparr> rail0 (Num 1000) sv0) = Inr pay"
  by (rule allocate_succeeds [OF base0]) (simp_all add: sv0_def image_constant_conv lessThan_empty_iff)

text \<open>
  C22. On every rail with a token, for prices up to a billion dollars, the amount asked for is
  positive and less than one dollar away from the dollars of the intent: replacing the low
  digits by the nonce never moves the price by a dollar.
\<close>

theorem stable_pay_within_dollar:
  assumes "railById k = Inr rail" "rail_decimals rail = Some d" "0 \<le> u" "u \<le> 1000000000"
    and "quoteRailPayAmount sv rail (Num u) (int n) = Inr pay"
  shows "\<exists>v. pay = big_str v \<and> 0 < v \<and> \<bar>of_int v / 10 ^ d - u\<bar> < 1"
  using stable_pay_bound [OF assms] .

theorem stable_pay_within_dollar_witness:
  "\<exists>v. js ''1000123456'' = big_str v \<and> 0 < v \<and> \<bar>of_int v / 10 ^ 6 - (1000 :: rat)\<bar> < 1"
proof -
  have q: "quoteRailPayAmount sv0 rail0 (Num 1000) (int 123456) = Inr (js ''1000123456'')"
    by (simp add: quoteRailPayAmount_def base0 with_suffix_def suffix_mod_def big_str_def Let_def js_eval
        digit_char_def)
  have d: "rail_decimals rail0 = Some 6" by (simp add: rail0_def SALE_RAILS_def)
  show ?thesis
    by (rule stable_pay_within_dollar [OF rail0 d _ _ q]) simp_all
qed

text \<open>
  The native rail does not have that bound: at the default rate of 95000 dollars a coin, an
  intent of 1899 dollars (1998947 units) is asked for any amount from 1000000 units on,
  depending on the nonce only, as an intent of 951 dollars is.
\<close>

theorem btc_price_lost:
  assumes "sv_env sv ''BTC_USD'' = None" "railById (js ''btc'') = Inr rail"
  shows "quoteRailPayAmount sv rail (Num 1899) (int n) = Inr (big_str (1000000 + int (n mod 1000000)))"
  using btc_1899 [OF assms] .

theorem btc_price_lost_witness:
  "\<exists>rail. railById (js ''btc'') = Inr rail
     \<and> quoteRailPayAmount sv0 rail (Num 1899) (int 0) = Inr (js ''1000000'')"
proof -
  obtain rail where r: "railById (js ''btc'') = Inr rail"
    by (simp add: railById_def SALE_RAILS_def)
  have "sv_env sv0 ''BTC_USD'' = None" by (simp add: sv0_def)
  then have "quoteRailPayAmount sv0 rail (Num 1899) (int 0) = Inr (big_str (1000000 + int (0 mod 1000000)))"
    by (rule btc_price_lost [OF _ r])
  then show ?thesis using r by (simp add: big_str_def js_eval digit_char_def)
qed

text \<open>
  C2. A create that succeeds appends one intent to the channel's file: pending, without payment
  or grant, for the lower-cased beneficiary, and with an amount no open intent of the file has
  on that rail. The other channel's file is untouched, and the answer is the new intent's
  public view.
\<close>

theorem create_appends_pending:
  assumes "createLocalIntent inp ch sv = (Inr view, sv')"
  shows "\<exists>st i. loadState ch sv = Inr st \<and> loadState ch sv' = Inr (st\<lparr>intents := intents st @ [i]\<rparr>)
    \<and> toPublic i = Inr view \<and> si_status i = js ''pending'' \<and> si_channel i = Some ch
    \<and> si_beneficiary0x i = to_lower (ci_beneficiary0x inp) \<and> si_rail i = ci_rail inp
    \<and> pay_key i \<notin> pay_key ` set (filter open_intent (intents st))
    \<and> si_paymentTx i = None \<and> si_paymentId i = None \<and> si_grantTx i = None
    \<and> (\<forall>ch'. statePath ch' sv \<noteq> statePath ch sv \<longrightarrow> loadState ch' sv' = loadState ch' sv)"
  using assms by (rule createLocalIntent_appends) blast

theorem create_appends_pending_witness:
  "\<exists>view sv' i. createLocalIntent inp0 Private sv0 = (Inr view, sv')
     \<and> loadState Private sv' = Inr \<lparr>intents = [i]\<rparr> \<and> si_status i = js ''pending''"
proof -
  obtain view sv' where c: "createLocalIntent inp0 Private sv0 = (Inr view, sv')"
    using create0 by blast
  show ?thesis using create_appends_pending [OF c] c state0 by auto
qed



text \<open>
  Reading a created intent back by its id gives what the create answered, when the random id
  is not already in the file.
\<close>

theorem create_then_get:
  assumes "createLocalIntent inp ch sv = (Inr view, sv')" "loadState ch sv = Inr st"
    and "it_id view \<notin> si_id ` set (intents st)"
  shows "getLocalIntent (it_id view) ch sv' = Inr (Some view)"
  using get_created [OF assms] .

theorem create_then_get_witness:
  "\<exists>view sv'. createLocalIntent inp0 Private sv0 = (Inr view, sv')
     \<and> getLocalIntent (it_id view) Private sv' = Inr (Some view)"
proof -
  obtain view sv' where c: "createLocalIntent inp0 Private sv0 = (Inr view, sv')"
    using create0 by blast
  show ?thesis using create_then_get [OF c state0] c by simp
qed

end
