(* ===== verification/SaleBook.thy ===== *)
theory SaleBook
  imports SaleServer
begin

section \<open>The sale book under concurrent writers\<close>

text \<open>
  The file of a channel has two writers: the web server (\<open>createLocalIntent\<close>, one synchronous
  read-modify-write) and the relayer's \<open>tick\<close> (\<open>contracts/sale/relayer/index.mjs\<close>), which reads
  the file, awaits the chains for every pending intent and writes its copy back at the end. The
  locale \<open>intent_book\<close> is what both rely on: an operation appends an intent with a fresh open key
  or leaves the book alone, or it settles intents in place. The step relation at the end
  interleaves the two, with the relayer's copy part of the state.
\<close>

subsection \<open>The contract of a book of open keys\<close>

locale intent_book =
  fixes is_open :: "'i \<Rightarrow> bool"
    and key :: "'i \<Rightarrow> 'k"
    and append_ok :: "'i list \<Rightarrow> 'i \<Rightarrow> bool"
    and settle :: "'i \<Rightarrow> 'i \<Rightarrow> bool"
  assumes append_fresh: "append_ok is i \<Longrightarrow> key i \<notin> key ` set (filter is_open is)"
    and settle_key: "settle i j \<Longrightarrow> key j = key i"
    and settle_open: "settle i j \<Longrightarrow> is_open j \<Longrightarrow> is_open i"
begin

definition keys_ok :: "'i list \<Rightarrow> bool" where
  "keys_ok is \<longleftrightarrow> distinct (map key (filter is_open is))"

lemma keys_ok_Nil: "keys_ok []"
  by (simp add: keys_ok_def)

lemma keys_ok_append: "keys_ok is \<Longrightarrow> append_ok is i \<Longrightarrow> keys_ok (is @ [i])"
  using append_fresh [of "is" i] by (simp add: keys_ok_def)

lemma keys_ok_Cons:
  "keys_ok (i # is) \<longleftrightarrow> keys_ok is \<and> (is_open i \<longrightarrow> key i \<notin> key ` set (filter is_open is))"
  by (auto simp: keys_ok_def)

lemma settle_keys_subset:
  "list_all2 settle is ks \<Longrightarrow> key ` set (filter is_open ks) \<subseteq> key ` set (filter is_open is)"
proof (induction rule: list_all2_induct)
  case (Cons i "is" j ks)
  then show ?case using settle_key [of i j] settle_open [of i j] by auto
qed simp

lemma keys_ok_settle: "list_all2 settle is ks \<Longrightarrow> keys_ok is \<Longrightarrow> keys_ok ks"
proof (induction rule: list_all2_induct)
  case (Cons i "is" j ks)
  then show ?case
    using settle_key [of i j] settle_open [of i j] settle_keys_subset [OF Cons.hyps(2)]
    by (auto simp: keys_ok_Cons)
qed simp

lemma keys_ok_unique:
  assumes "keys_ok is" "m < length is" "n < length is" "is_open (is ! m)" "is_open (is ! n)"
    and "key (is ! m) = key (is ! n)"
  shows "m = n"
  using assms
proof (induction "is" arbitrary: m n)
  case (Cons i "is")
  have ne: "key (is ! k) \<noteq> key i" if "k < length is" "is_open (is ! k)" "is_open i" for k
    using that Cons.prems(1) by (auto simp: keys_ok_Cons image_iff dest!: nth_mem)
  show ?case
  proof (cases m)
    case 0
    then show ?thesis using Cons.prems ne by (cases n) force+
  next
    case (Suc m')
    then show ?thesis using Cons ne by (cases n) (auto simp: keys_ok_Cons)
  qed
qed simp

end

subsection \<open>What the relayer does to an intent\<close>

text \<open>
  \<open>markPaidAndGrant\<close>: the payment is recorded first; the grant transaction follows, and when it
  throws the intent stays \<open>paid\<close> in memory.
\<close>

definition mark_paid :: "(jstr \<Rightarrow> jstr) \<Rightarrow> jstr \<Rightarrow> jsnum \<Rightarrow> stored_intent \<Rightarrow> stored_intent" where
  "mark_paid sha txHash logIndex i = i\<lparr>si_status := js ''paid'', si_paymentTx := Some txHash,
     si_paymentId := Some (paymentId sha (si_chain i) txHash logIndex)\<rparr>"

definition mark_granted :: "jstr \<Rightarrow> stored_intent \<Rightarrow> stored_intent" where
  "mark_granted grantTx i = i\<lparr>si_grantTx := Some grantTx, si_status := js ''granted''\<rparr>"

definition markPaidAndGrant ::
  "(jstr \<Rightarrow> jstr) \<Rightarrow> jstr \<Rightarrow> jsnum \<Rightarrow> jstr res \<Rightarrow> stored_intent \<Rightarrow> bool \<times> stored_intent" where
  "markPaidAndGrant sha txHash logIndex grant i = (case grant of
       Inl e \<Rightarrow> (False, mark_paid sha txHash logIndex i)
     | Inr tx \<Rightarrow> (True, mark_granted tx (mark_paid sha txHash logIndex i)))"

text \<open>The guard of \<open>tick\<close>'s loop: pending, and no other pending intent asks the same payment.\<close>

definition tick_eligible :: "stored_intent list \<Rightarrow> stored_intent \<Rightarrow> bool" where
  "tick_eligible is i \<longleftrightarrow> si_status i = js ''pending''
     \<and> \<not> 1 < length (filter (\<lambda>j. si_status j = js ''pending'' \<and> si_rail j = si_rail i
         \<and> si_payAmount j = si_payAmount i) is)"

text \<open>The statuses an intent can be in and what each one has recorded.\<close>

definition intent_ok :: "stored_intent \<Rightarrow> bool" where
  "intent_ok i \<longleftrightarrow>
     (si_status i = js ''pending'' \<and> si_paymentTx i = None \<and> si_paymentId i = None \<and> si_grantTx i = None)
   \<or> (si_status i = js ''paid'' \<and> si_paymentTx i \<noteq> None \<and> si_paymentId i \<noteq> None \<and> si_grantTx i = None)
   \<or> (si_status i = js ''granted'' \<and> si_paymentTx i \<noteq> None \<and> si_paymentId i \<noteq> None \<and> si_grantTx i \<noteq> None)"

text \<open>
  The two operations of the book, as the code performs them: \<open>web_creates\<close> is what a successful
  \<open>createLocalIntent\<close> on a book appends to it, \<open>relayer_settles\<close> what \<open>markPaidAndGrant\<close> makes of a
  pending intent (or leaves alone).
\<close>

definition web_creates :: "channel \<Rightarrow> stored_intent list \<Rightarrow> stored_intent \<Rightarrow> bool" where
  "web_creates ch is i \<longleftrightarrow> (\<exists>inp sv view sv' st. createLocalIntent inp ch sv = (Inr view, sv')
     \<and> loadState ch sv = Inr st \<and> intents st = is
     \<and> loadState ch sv' = Inr (st\<lparr>intents := is @ [i]\<rparr>))"

definition relayer_settles :: "stored_intent \<Rightarrow> stored_intent \<Rightarrow> bool" where
  "relayer_settles i j \<longleftrightarrow> j = i \<or>
     (si_status i = js ''pending'' \<and> (\<exists>sha tx n g ok. markPaidAndGrant sha tx n g i = (ok, j)))"

lemma createLocalIntent_creates:
  assumes "createLocalIntent inp ch sv = (Inr view, sv')"
  obtains st i where "loadState ch sv = Inr st"
    "loadState ch sv' = Inr (st\<lparr>intents := intents st @ [i]\<rparr>)"
    "web_creates ch (intents st) i" "intent_ok i"
proof -
  obtain st i where "loadState ch sv = Inr st"
    "loadState ch sv' = Inr (st\<lparr>intents := intents st @ [i]\<rparr>)" "intent_ok i"
    using createLocalIntent_appends [OF assms] unfolding intent_ok_def by metis
  then show thesis using assms that unfolding web_creates_def by blast
qed

lemma web_creates_fresh:
  assumes "web_creates ch is i"
  shows "pay_key i \<notin> pay_key ` set (filter open_intent is)"
proof -
  obtain inp sv view sv' st where c: "createLocalIntent inp ch sv = (Inr view, sv')"
    and l: "loadState ch sv = Inr st" "intents st = is" "loadState ch sv' = Inr (st\<lparr>intents := is @ [i]\<rparr>)"
    using assms unfolding web_creates_def by blast
  obtain i' where "loadState ch sv' = Inr (st\<lparr>intents := is @ [i']\<rparr>)"
    "pay_key i' \<notin> pay_key ` set (filter open_intent is)"
    using createLocalIntent_appends [OF c] l by (metis Inr_inject)
  moreover have "i' = i"
    using calculation(1) l(3) by (metis Inr_inject last_snoc sale_state.select_convs(1) sale_state.update_convs(1) sale_state.surjective)
  ultimately show ?thesis by simp
qed

lemma markPaidAndGrant_keeps:
  "markPaidAndGrant sha tx n g i = (ok, j) \<Longrightarrow> pay_key j = pay_key i"
  "markPaidAndGrant sha tx n g i = (ok, j) \<Longrightarrow> si_id j = si_id i"
  by (auto simp: markPaidAndGrant_def mark_paid_def mark_granted_def pay_key_def split: sum.splits)

interpretation book: intent_book open_intent pay_key "web_creates ch" relayer_settles for ch
proof unfold_locales
  show "web_creates ch is i \<Longrightarrow> pay_key i \<notin> pay_key ` set (filter open_intent is)" for "is" i
    by (rule web_creates_fresh)
qed (auto simp: relayer_settles_def markPaidAndGrant_keeps open_intent_def)

lemma markPaidAndGrant_snd:
  assumes "markPaidAndGrant sha tx n g i = (ok, j)" "intent_ok i" "si_status i = js ''pending''"
  shows "intent_ok j" "relayer_settles i j" "si_id j = si_id i" "si_status j \<noteq> js ''pending''"
proof -
  show "relayer_settles i j" using assms unfolding relayer_settles_def by blast
qed (use assms in \<open>auto simp: markPaidAndGrant_def mark_paid_def mark_granted_def intent_ok_def
  split: sum.splits\<close>)


subsection \<open>The interleaving\<close>

text \<open>
  \<open>w_sv\<close> is the machine both processes run on, \<open>w_copy\<close> the list the relayer's tick is working
  on (none between two ticks), \<open>w_dirty\<close> its flag, \<open>w_told\<close> the ids answered to buyers.
\<close>

record world =
  w_sv :: server
  w_copy :: "stored_intent list option"
  w_dirty :: bool
  w_told :: "jstr list"

inductive sale_step :: "(jstr \<Rightarrow> jstr) \<Rightarrow> channel \<Rightarrow> world \<Rightarrow> world \<Rightarrow> bool" for sha ch where
  create_ok: "createLocalIntent inp ch (w_sv w) = (Inr view, sv') \<Longrightarrow>
    sale_step sha ch w (w\<lparr>w_sv := sv', w_told := it_id view # w_told w\<rparr>)"
| create_err: "createLocalIntent inp ch (w_sv w) = (Inl e, sv') \<Longrightarrow>
    sale_step sha ch w (w\<lparr>w_sv := sv'\<rparr>)"
| tick_load: "w_copy w = None \<Longrightarrow> loadState ch (w_sv w) = Inr st \<Longrightarrow>
    sale_step sha ch w (w\<lparr>w_copy := Some (intents st), w_dirty := False\<rparr>)"
| tick_hit: "w_copy w = Some is \<Longrightarrow> k < length is \<Longrightarrow> tick_eligible is (is ! k) \<Longrightarrow>
    markPaidAndGrant sha tx n g (is ! k) = (granted, i') \<Longrightarrow>
    sale_step sha ch w (w\<lparr>w_copy := Some (is[k := i']), w_dirty := w_dirty w \<or> granted\<rparr>)"
| tick_save: "w_copy w = Some is \<Longrightarrow> w_dirty w \<Longrightarrow>
    saveState ch \<lparr>intents = is\<rparr> (w_sv w) = (Inr (), sv') \<Longrightarrow>
    sale_step sha ch w (w\<lparr>w_sv := sv', w_copy := None\<rparr>)"
| tick_end: "w_copy w = Some is \<Longrightarrow> \<not> w_dirty w \<Longrightarrow> sale_step sha ch w (w\<lparr>w_copy := None\<rparr>)"
| clock: "sv_now (w_sv w) \<le> t \<Longrightarrow> sale_step sha ch w (w\<lparr>w_sv := (w_sv w)\<lparr>sv_now := t\<rparr>\<rparr>)"

inductive_cases sale_step_cases: "sale_step sha ch w w'"

inductive sale_reach :: "(jstr \<Rightarrow> jstr) \<Rightarrow> channel \<Rightarrow> world \<Rightarrow> world \<Rightarrow> bool" for sha ch w0 where
  start: "sale_reach sha ch w0 w0"
| more: "sale_reach sha ch w0 w \<Longrightarrow> sale_step sha ch w w' \<Longrightarrow> sale_reach sha ch w0 w'"

definition book_ok :: "stored_intent list \<Rightarrow> bool" where
  "book_ok is \<longleftrightarrow> book.keys_ok is \<and> list_all intent_ok is"

definition world_ok :: "channel \<Rightarrow> world \<Rightarrow> bool" where
  "world_ok ch w \<longleftrightarrow> (\<forall>st. loadState ch (w_sv w) = Inr st \<longrightarrow> book_ok (intents st))
     \<and> (\<forall>is. w_copy w = Some is \<longrightarrow> book_ok is)"

lemma book_ok_append:
  "book_ok is \<Longrightarrow> web_creates ch is i \<Longrightarrow> intent_ok i \<Longrightarrow> book_ok (is @ [i])"
  by (simp add: book_ok_def book.keys_ok_append)

lemma book_ok_update:
  assumes "book_ok is" "k < length is" "relayer_settles (is ! k) j" "intent_ok j"
  shows "book_ok (is[k := j])"
proof -
  have "list_all2 relayer_settles is (is[k := j])"
    using assms(2,3) by (auto simp: list_all2_conv_all_nth nth_list_update relayer_settles_def)
  then show ?thesis
    using assms by (auto simp: book_ok_def list_all_length nth_list_update intro: book.keys_ok_settle)
qed

lemma loadState_sv_now [simp]: "loadState ch (sv\<lparr>sv_now := t\<rparr>) = loadState ch sv"
  by (simp add: loadState_def statePath_def)

lemma loadState_rpos [simp]: "loadState ch (sv\<lparr>sv_rpos := r\<rparr>) = loadState ch sv"
  by (simp add: loadState_def statePath_def)

lemma loadState_drawn: "drawn sv sv' \<Longrightarrow> loadState ch sv' = loadState ch sv"
  unfolding drawn_def by (metis (no_types) loadState_rpos)

lemma loadState_saved:
  "saveState ch s sv = (Inr (), sv') \<Longrightarrow> loadState ch sv' = Inr s"
  by (auto simp: saveState_def loadState_def statePath_def split: if_splits)

lemma world_ok_step:
  assumes "sale_step sha ch w w'" "world_ok ch w"
  shows "world_ok ch w'"
  using assms(1)
proof cases
  case (create_ok inp view sv')
  obtain st i where "loadState ch (w_sv w) = Inr st"
    "loadState ch sv' = Inr (st\<lparr>intents := intents st @ [i]\<rparr>)"
    "web_creates ch (intents st) i" "intent_ok i"
    using createLocalIntent_creates [OF create_ok(2)] .
  then show ?thesis using assms(2) create_ok by (auto simp: world_ok_def intro: book_ok_append)
next
  case (create_err inp e sv')
  then show ?thesis
    using assms(2) loadState_drawn [OF createLocalIntent_Inl] by (simp add: world_ok_def)
next
  case (tick_load st)
  then show ?thesis using assms(2) by (simp add: world_ok_def)
next
  case (tick_hit "is" k tx n g granted i')
  then have "book_ok is" using assms(2) by (simp add: world_ok_def)
  moreover have "intent_ok (is ! k)" "si_status (is ! k) = js ''pending''"
    using calculation tick_hit by (simp_all add: book_ok_def list_all_length tick_eligible_def)
  ultimately have "book_ok (is[k := i'])"
    using tick_hit markPaidAndGrant_snd [OF tick_hit(5)] by (intro book_ok_update)
  then show ?thesis using tick_hit assms(2) by (simp add: world_ok_def)
next
  case (tick_save "is" sv')
  then show ?thesis using assms(2) by (simp add: world_ok_def loadState_saved)
next
  case (tick_end "is")
  then show ?thesis using assms(2) by (simp add: world_ok_def)
next
  case (clock t)
  then show ?thesis using assms(2) by (simp add: world_ok_def)
qed

lemma world_ok_reach: "sale_reach sha ch w0 w \<Longrightarrow> world_ok ch w0 \<Longrightarrow> world_ok ch w"
  by (induction rule: sale_reach.induct) (auto intro: world_ok_step)

text \<open>Where the book is right, the collision guard of the tick holds for every pending intent.\<close>

lemma filter_le_1:
  assumes "\<And>m n. m < length xs \<Longrightarrow> n < length xs \<Longrightarrow> P (xs ! m) \<Longrightarrow> P (xs ! n) \<Longrightarrow> m = n"
  shows "length (filter P xs) \<le> 1"
proof -
  have "{k. k < length xs \<and> P (xs ! k)} \<subseteq> {k}" if "k < length xs" "P (xs ! k)" for k
    using that assms by blast
  then have "card {k. k < length xs \<and> P (xs ! k)} \<le> 1"
    by (metis (no_types, lifting) card.empty card_mono empty_Collect_eq finite.emptyI finite_insert
        is_singletonI is_singleton_altdef le0 One_nat_def)
  then show ?thesis by (simp add: length_filter_conv_card)
qed

lemma book_ok_eligible:
  assumes "book_ok is" "i \<in> set is" "si_status i = js ''pending''"
  shows "tick_eligible is i"
proof -
  have "length (filter (\<lambda>j. si_status j = js ''pending'' \<and> si_rail j = si_rail i
      \<and> si_payAmount j = si_payAmount i) is) \<le> 1"
    by (rule filter_le_1, rule book.keys_ok_unique)
      (use assms(1) in \<open>auto simp: book_ok_def open_intent_def pay_key_def\<close>)
  then show ?thesis using assms(3) by (simp add: tick_eligible_def)
qed

lemma createLocalIntent_told:
  assumes "createLocalIntent inp ch sv = (Inr view, sv')"
  shows "16 \<le> length (it_id view)" "\<not> sv_readonly sv'" "\<not> sv_readonly sv"
  using assms
  by (rule createLocalIntent_Inr; auto simp: toPublic_def new_intent_def bind_res_eq_Inr length_pad_start)+

lemma tick_overwrites:
  assumes st: "loadState ch sv = Inr st" and k: "k < length (intents st)" "tick_eligible (intents st) (intents st ! k)"
    and c: "createLocalIntent inp ch sv = (Inr view, sv')"
    and fresh: "it_id view \<notin> si_id ` set (intents st)"
  shows "\<exists>w'. sale_reach sha ch \<lparr>w_sv = sv, w_copy = None, w_dirty = False, w_told = []\<rparr> w'
     \<and> it_id view \<in> set (w_told w') \<and> getLocalIntent (it_id view) ch (w_sv w') = Inr None"
proof -
  let ?w0 = "\<lparr>w_sv = sv, w_copy = None, w_dirty = False, w_told = []\<rparr>"
  let ?w1 = "\<lparr>w_sv = sv, w_copy = Some (intents st), w_dirty = False, w_told = []\<rparr>"
  let ?w2 = "\<lparr>w_sv = sv', w_copy = Some (intents st), w_dirty = False, w_told = [it_id view]\<rparr>"
  obtain i' where m: "markPaidAndGrant sha [] (Num 0) (Inr []) (intents st ! k) = (True, i')"
    by (simp add: markPaidAndGrant_def)
  let ?is = "(intents st)[k := i']"
  let ?w3 = "\<lparr>w_sv = sv', w_copy = Some ?is, w_dirty = True, w_told = [it_id view]\<rparr>"
  obtain sv'' where s: "saveState ch \<lparr>intents = ?is\<rparr> sv' = (Inr (), sv'')"
    using createLocalIntent_told(2) [OF c] by (simp add: saveState_def)
  let ?w4 = "\<lparr>w_sv = sv'', w_copy = None, w_dirty = True, w_told = [it_id view]\<rparr>"
  have 1: "sale_step sha ch ?w0 ?w1"
    using sale_step.tick_load [of ?w0 ch st sha] st by simp
  have 2: "sale_step sha ch ?w1 ?w2"
    using sale_step.create_ok [of inp ch ?w1 view sv' sha] c by simp
  have 3: "sale_step sha ch ?w2 ?w3"
    using sale_step.tick_hit [of ?w2 "intents st" k sha "[]" "Num 0" "Inr []" True i' ch] k m by simp
  have 4: "sale_step sha ch ?w3 ?w4"
    using sale_step.tick_save [of ?w3 ?is ch sv'' sha] s by simp
  have r: "sale_reach sha ch ?w0 ?w4"
    by (rule sale_reach.more [OF sale_reach.more [OF sale_reach.more [OF sale_reach.more
          [OF sale_reach.start 1] 2] 3] 4])
  have "si_id i' = si_id (intents st ! k)"
    using m by (auto simp: markPaidAndGrant_def mark_paid_def mark_granted_def)
  then have "map si_id ?is = map si_id (intents st)"
    using k(1) by (simp add: map_update list_update_same_conv)
  then have "si_id ` set ?is = si_id ` set (intents st)"
    by (metis list.set_map)
  then have "find (\<lambda>i. si_id i = it_id view) ?is = None"
    using fresh by (metis (mono_tags, lifting) find_None_iff imageI)
  then have "getLocalIntent (it_id view) ch sv'' = Inr None"
    using loadState_saved [OF s] by (simp add: getLocalIntent_def)
  then show ?thesis using r by (intro exI [of _ ?w4]) simp
qed


subsection \<open>Properties\<close>

text \<open>
  C1. However creates, failed creates, relayer ticks (with their stale copy) and the clock
  interleave, no two intents of the file that are not granted are ever asked the same amount on
  the same rail, so a payment seen on a chain names at most one of them.
\<close>

theorem open_payments_distinct:
  assumes "world_ok ch w0" "sale_reach sha ch w0 w" "loadState ch (w_sv w) = Inr st"
    and "m < length (intents st)" "n < length (intents st)"
    and "si_status (intents st ! m) \<noteq> js ''granted''" "si_status (intents st ! n) \<noteq> js ''granted''"
    and "si_rail (intents st ! m) = si_rail (intents st ! n)"
    and "si_payAmount (intents st ! m) = si_payAmount (intents st ! n)"
  shows "m = n"
proof -
  have "book_ok (intents st)"
    using world_ok_reach [OF assms(2,1)] assms(3) by (simp add: world_ok_def)
  then show ?thesis
    using assms by (intro book.keys_ok_unique [of "intents st"])
      (simp_all add: book_ok_def open_intent_def pay_key_def)
qed

definition world0 :: world where
  "world0 = \<lparr>w_sv = sv0, w_copy = None, w_dirty = False, w_told = []\<rparr>"

lemma world0_ok: "world_ok Private world0"
  by (simp add: world0_def world_ok_def state0 book_ok_def book.keys_ok_Nil)

lemma created_world:
  obtains w i where "sale_reach (\<lambda>h. h) Private world0 w"
    "loadState Private (w_sv w) = Inr \<lparr>intents = [i]\<rparr>" "si_status i = js ''pending''"
proof -
  obtain view sv' where c: "createLocalIntent inp0 Private sv0 = (Inr view, sv')"
    using create0 by blast
  let ?w = "world0\<lparr>w_sv := sv', w_told := it_id view # w_told world0\<rparr>"
  have "sale_step (\<lambda>h. h) Private world0 ?w"
    by (rule sale_step.create_ok [of inp0]) (simp add: world0_def c)
  then have r: "sale_reach (\<lambda>h. h) Private world0 ?w"
    by (rule sale_reach.more [OF sale_reach.start])
  obtain i where l: "loadState Private sv' = Inr \<lparr>intents = [i]\<rparr>" "si_status i = js ''pending''"
    using createLocalIntent_appends [OF c] state0 by (metis append_Nil sale_state.select_convs(1) sale_state.update_convs(1) Inr_inject)
  then show thesis using r l that [of ?w i] by simp
qed

theorem open_payments_distinct_witness:
  "\<exists>w st. sale_reach (\<lambda>h. h) Private world0 w \<and> loadState Private (w_sv w) = Inr st
     \<and> length (intents st) = 1
     \<and> (\<forall>n < 1. si_payAmount (intents st ! n) = si_payAmount (intents st ! 0) \<longrightarrow> n = 0)"
proof -
  obtain w i where w: "sale_reach (\<lambda>h. h) Private world0 w"
    "loadState Private (w_sv w) = Inr \<lparr>intents = [i]\<rparr>" "si_status i = js ''pending''"
    by (rule created_world)
  have "n = 0" if "n < 1" for n :: nat
    by (rule open_payments_distinct [OF world0_ok w(1,2)]) (use that w(3) in simp_all)
  then show ?thesis
    using w by (intro exI [of _ w] exI [of _ "\<lparr>intents = [i]\<rparr>"]) simp
qed

text \<open>
  C3. In every reachable state each intent of the file is pending with nothing recorded, paid
  with its payment, or granted with its payment and its grant, and the relayer's collision guard
  skips no pending intent of its copy.
\<close>

theorem intents_follow_lifecycle:
  assumes "world_ok ch w0" "sale_reach sha ch w0 w"
  shows "(\<forall>st. loadState ch (w_sv w) = Inr st \<longrightarrow> list_all intent_ok (intents st))
    \<and> (\<forall>is. w_copy w = Some is \<longrightarrow>
         (\<forall>i \<in> set is. si_status i = js ''pending'' \<longrightarrow> tick_eligible is i))"
  using world_ok_reach [OF assms(2,1)] book_ok_eligible by (auto simp: world_ok_def book_ok_def)

theorem intents_follow_lifecycle_witness:
  "\<exists>w st. sale_reach (\<lambda>h. h) Private world0 w \<and> loadState Private (w_sv w) = Inr st
     \<and> length (intents st) = 1 \<and> list_all intent_ok (intents st)"
proof -
  obtain w i where w: "sale_reach (\<lambda>h. h) Private world0 w" "loadState Private (w_sv w) = Inr \<lparr>intents = [i]\<rparr>"
    by (rule created_world)
  then show ?thesis
    using intents_follow_lifecycle [OF world0_ok w(1)]
    by (intro exI [of _ w] exI [of _ "\<lparr>intents = [i]\<rparr>"]) auto
qed

text \<open>
  C17. The relayer's tick writes back the copy it read before awaiting the chains. An intent that
  the web server creates in between, and whose id a buyer has been given, is then no longer in
  the file: the buyer's payment has nothing to match.
\<close>

theorem tick_loses_created_intent:
  assumes "loadState ch sv = Inr st" "k < length (intents st)"
    and "tick_eligible (intents st) (intents st ! k)"
    and "createLocalIntent inp ch sv = (Inr view, sv')" "it_id view \<notin> si_id ` set (intents st)"
  shows "\<exists>w'. sale_reach sha ch \<lparr>w_sv = sv, w_copy = None, w_dirty = False, w_told = []\<rparr> w'
     \<and> it_id view \<in> set (w_told w') \<and> getLocalIntent (it_id view) ch (w_sv w') = Inr None"
  using tick_overwrites [OF assms] .

definition int1 :: stored_intent where
  "int1 = (new_intent inp0 Private rail0 (buildSaleQuote [] EMBEDDED_CFG) (js ''1000123457'') 0 0 [])
     \<lparr>si_id := js ''a'', si_rail := js ''eth-usdc''\<rparr>"

definition sv1 :: server where
  "sv1 = sv0\<lparr>sv_states := (\<lambda>_. Some (Parsed \<lparr>intents = [int1]\<rparr>))\<rparr>"

lemma state1: "loadState Private sv1 = Inr \<lparr>intents = [int1]\<rparr>"
  by (simp add: loadState_def sv1_def)

lemma create1: "\<exists>view sv'. createLocalIntent inp0 Private sv1 = (Inr view, sv')"
proof -
  have c: "iso_string (sv_now sv1) = Inr (iso_date (civil_of_days 19675) @ [84] @ iso_time 80000000 @ [90])"
    by (simp add: iso_string_def sv1_def sv0_def valid_time_def MS_PER_DAY_def)
  have u: "ci_usdAmount inp0 = Num 1000" "ci_rail inp0 = js ''eth-usdt''"
    by (simp_all add: inp0_def)
  have p: "progress_view \<lparr>intents = [int1]\<rparr> = [(js ''pending'', num_str (Num 1000))]"
    by (simp add: progress_view_def int1_def new_intent_def inp0_def)
  have g: "server_cfg Private sv1 = EMBEDDED_CFG"
    using cfg0 by (simp add: server_cfg_def sv1_def)
  have q: "q_price (buildSaleQuote [(js ''pending'', x)] EMBEDDED_CFG) =
      Num (5764607523034235 / 1152921504606846976)" for x
    using price0 raised_uncounted [of "(js ''pending'', x)" _ "[]"]
    by (simp add: buildSaleQuote_eq embedded_cfg_eval)
  have "pay_base sv1 rail0 (Num 1000) = Inr 1000000000"
    by (simp add: pay_base_def rail0_def SALE_RAILS_def num_eval bigint_of_num_def)
  then have a: "\<exists>pay. fst (allocateUniquePayAmount \<lparr>intents = [int1]\<rparr> rail0 (Num 1000) sv1) = Inr pay"
    by (rule alloc_pigeonhole)
      (simp_all add: nonce_at_def sv1_def sv0_def open_on_def int1_def rail0_def SALE_RAILS_def
        image_constant_conv lessThan_empty_iff)
  show ?thesis
    by (rule createLocalIntent_returns [of inp0 rail0 Private sv1 "\<lparr>intents = [int1]\<rparr>"])
      (use addr0 state1 g p q a e7_0 c rail0 in
        \<open>simp_all add: u del: num_mul.simps num_div.simps num_round.simps\<close>,
       simp add: sv1_def sv0_def)
qed

theorem tick_loses_created_intent_witness:
  "\<exists>(view :: sale_intent) w'. sale_reach (\<lambda>h. h) Private \<lparr>w_sv = sv1, w_copy = None, w_dirty = False, w_told = []\<rparr> w'
     \<and> it_id view \<in> set (w_told w') \<and> getLocalIntent (it_id view) Private (w_sv w') = Inr None"
proof -
  obtain view sv' where c: "createLocalIntent inp0 Private sv1 = (Inr view, sv')"
    using create1 by blast
  have e: "tick_eligible [int1] int1" by (simp add: tick_eligible_def int1_def)
  have "it_id view \<noteq> js ''a''" using createLocalIntent_told(1) [OF c] by (auto simp: js_eval)
  then have "it_id view \<notin> si_id ` set (intents \<lparr>intents = [int1]\<rparr>)" by (simp add: int1_def)
  then have "\<exists>w'. sale_reach (\<lambda>h. h) Private \<lparr>w_sv = sv1, w_copy = None, w_dirty = False, w_told = []\<rparr> w'
     \<and> it_id view \<in> set (w_told w') \<and> getLocalIntent (it_id view) Private (w_sv w') = Inr None"
    by (intro tick_loses_created_intent [OF state1 _ _ c, of 0]) (simp_all add: e)
  then show ?thesis by blast
qed

end
