(* ===== verification/Json.thy ===== *)
theory Json
  imports JsText
begin

section \<open>JSON values and their conversions\<close>

text \<open>
  What \<open>JSON.parse\<close> gives and what the program does with a value of unknown shape: property
  access (a missing property, or one of a value that is no object, is \<open>undefined\<close>, here \<open>None\<close>;
  of \<open>null\<close> it throws), truthiness, \<open>String(v)\<close> and \<open>Number(v)\<close>. When a key occurs twice the
  last one counts, as in \<open>JSON.parse\<close>.
\<close>

datatype json = JNull | JBool bool | JNum jsnum | JStr jstr | JArr "json list"
  | JObj "(jstr \<times> json) list"

definition json_prop :: "json \<Rightarrow> jstr \<Rightarrow> json option res" where
  "json_prop v k = (case v of JNull \<Rightarrow> Inl (js ''Cannot read properties of null'')
     | JObj kvs \<Rightarrow> Inr (map_of (rev kvs) k) | _ \<Rightarrow> Inr None)"

fun truthy :: "json \<Rightarrow> bool" where
  "truthy JNull = False"
| "truthy (JBool b) = b"
| "truthy (JNum x) = (x \<noteq> NaN \<and> x \<noteq> Num 0)"
| "truthy (JStr s) = (s \<noteq> [])"
| "truthy (JArr _) = True"
| "truthy (JObj _) = True"

definition join_with :: "jstr \<Rightarrow> jstr list \<Rightarrow> jstr" where
  "join_with sep parts = (case parts of [] \<Rightarrow> [] | p # ps \<Rightarrow> p @ concat (map (\<lambda>q. sep @ q) ps))"

fun json_str :: "json \<Rightarrow> jstr" where
  "json_str JNull = js ''null''"
| "json_str (JBool b) = (if b then js ''true'' else js ''false'')"
| "json_str (JNum x) = num_str x"
| "json_str (JStr s) = s"
| "json_str (JArr vs) = join_with (js '','') (map (\<lambda>v. if v = JNull then [] else json_str v) vs)"
| "json_str (JObj _) = js ''[object Object]''"

fun json_num :: "json \<Rightarrow> jsnum" where
  "json_num JNull = Num 0"
| "json_num (JBool b) = (if b then Num 1 else Num 0)"
| "json_num (JNum x) = x"
| "json_num (JStr s) = num_of_str s"
| "json_num (JArr vs) = num_of_str (json_str (JArr vs))"
| "json_num (JObj _) = NaN"

text \<open>\<open>String(v || "")\<close>, \<open>v || w\<close> on optional values, and \<open>Number(v)\<close> of a property.\<close>

definition or_else :: "json option \<Rightarrow> json option \<Rightarrow> json option" where
  "or_else v w = (case v of Some x \<Rightarrow> if truthy x then Some x else w | None \<Rightarrow> w)"

definition str_or_empty :: "json option \<Rightarrow> jstr" where
  "str_or_empty v = (case or_else v (Some (JStr [])) of Some x \<Rightarrow> json_str x | None \<Rightarrow> js ''undefined'')"

definition num_prop :: "json option \<Rightarrow> jsnum" where
  "num_prop v = (case v of None \<Rightarrow> NaN | Some x \<Rightarrow> json_num x)"

text \<open>\<open>JSON.stringify\<close> of a number, read back: a number that is not finite becomes \<open>null\<close>.\<close>

definition sent_num :: "jsnum \<Rightarrow> json" where
  "sent_num x = (if is_finite x then JNum x else JNull)"

lemma str_or_empty_str [simp]: "str_or_empty (Some (JStr s)) = s"
  by (simp add: str_or_empty_def or_else_def)

lemma str_or_empty_None [simp]: "str_or_empty None = []"
  by (simp add: str_or_empty_def or_else_def)

lemma num_prop_sent [simp]: "is_finite x \<Longrightarrow> num_prop (Some (sent_num x)) = x"
  by (simp add: num_prop_def sent_num_def)

end
