(* ===== verification/SaleRoutes.thy ===== *)
theory SaleRoutes
  imports Json SaleServer
begin

section \<open>The sale API (\<open>app/sale-api\<close> and the client half of \<open>lib/sale-api.ts\<close>)\<close>

text \<open>
  Each route file is one definition. \<open>relayer\<close> stands for \<open>fetch\<close> of the remote relayer with
  its answer read as JSON: the method, the URL and the body sent, to a status and a body, or an
  error (the network's, or a body that is not JSON). A handler that throws outside its
  \<open>try\<close> is an \<open>Inl\<close>, which the framework answers with status 500. The client functions at the
  end run against these handlers, in local mode.
\<close>

datatype http_method = GET | POST

type_synonym relayer = "http_method \<Rightarrow> jstr \<Rightarrow> json option \<Rightarrow> (nat \<times> json) res"

datatype 'a payload = Data 'a | ErrorBody jstr jstr | Relayed json

record 'a reply =
  rp_status :: nat
  rp_body :: "'a payload"

definition bad :: "nat \<Rightarrow> jstr \<Rightarrow> jstr \<Rightarrow> 'a reply" where
  "bad status code message = \<lparr>rp_status = status, rp_body = ErrorBody code message\<rparr>"

definition json_reply :: "nat \<Rightarrow> 'a \<Rightarrow> 'a reply" where
  "json_reply status d = \<lparr>rp_status = status, rp_body = Data d\<rparr>"

definition relay :: "(nat \<times> json) res \<Rightarrow> jstr \<Rightarrow> 'a reply" where
  "relay r offline = (case r of
       Inl e \<Rightarrow> bad 503 (js ''relayer_down'') offline
     | Inr (status, j) \<Rightarrow> \<lparr>rp_status = status, rp_body = Relayed j\<rparr>)"

text \<open>\<open>/^[a-f0-9]+$/i\<close>.\<close>

definition re_id :: "jstr \<Rightarrow> bool" where
  "re_id s \<longleftrightarrow> s \<noteq> [] \<and> list_all is_hex s"

definition INVALID_JSON :: jstr where "INVALID_JSON = js ''JSON inv'' @ [225] @ js ''lido''"
definition INVALID_ADDR :: jstr where "INVALID_ADDR = js ''beneficiary0x inv'' @ [225] @ js ''lido''"
definition RAIL_REQUIRED :: jstr where "RAIL_REQUIRED = js ''rail obrigat'' @ [243] @ js ''ria''"
definition USD_MINIMUM :: jstr where "USD_MINIMUM = js ''usdAmount m'' @ [237] @ js ''nimo 100''"
definition INVALID_ID :: jstr where "INVALID_ID = js ''id inv'' @ [225] @ js ''lido''"
definition INTENT_MISSING :: jstr where "INTENT_MISSING = js ''intent n'' @ [227] @ js ''o encontrada''"

definition CONFIRM_DISABLED :: jstr where
  "CONFIRM_DISABLED = js ''Manual confirm is not exposed on the public API. Wait for the payment watcher or use ops CLI.''"

text \<open>The body both create routes send on and both read.\<close>

definition create_body :: "create_input \<Rightarrow> json" where
  "create_body inp = JObj [(js ''beneficiary0x'', JStr (ci_beneficiary0x inp)),
     (js ''rail'', JStr (ci_rail inp)), (js ''usdAmount'', sent_num (ci_usdAmount inp))]"

definition read_create :: "json \<Rightarrow> create_input res" where
  "read_create body = bind_res (json_prop body (js ''beneficiary0x'')) (\<lambda>b.
     bind_res (json_prop body (js ''rail'')) (\<lambda>r. bind_res (json_prop body (js ''railId'')) (\<lambda>ri.
     bind_res (json_prop body (js ''usdAmount'')) (\<lambda>u. Inr
       \<lparr>ci_beneficiary0x = str_or_empty b, ci_rail = str_or_empty (or_else r ri),
        ci_usdAmount = num_prop u\<rparr>))))"

definition intent_POST :: "relayer \<Rightarrow> json res \<Rightarrow> server \<Rightarrow> sale_intent reply res \<times> server" where
  "intent_POST relayer req sv = (case req of
       Inl e \<Rightarrow> (Inr (bad 400 (js ''bad_request'') INVALID_JSON), sv)
     | Inr body \<Rightarrow> (case read_create body of Inl e \<Rightarrow> (Inl e, sv) | Inr inp \<Rightarrow>
         if \<not> re_evm (ci_beneficiary0x inp) then (Inr (bad 400 (js ''bad_request'') INVALID_ADDR), sv)
         else if ci_rail inp = [] then (Inr (bad 400 (js ''bad_request'') RAIL_REQUIRED), sv)
         else if \<not> num_le (Num 100) (ci_usdAmount inp)
           then (Inr (bad 400 (js ''bad_request'') USD_MINIMUM), sv)
         else if useRemoteRelayer Private sv then
           (Inr (relay (relayer POST (relayerBase Private sv @ js ''/intent'') (Some (create_body inp)))
              (js ''Sale relayer offline (SALE_RELAYER_URL)'')), sv)
         else (case createLocalIntent inp Private sv of
             (Inl e, sv') \<Rightarrow> (Inr (bad 400 (js ''bad_request'') e), sv')
           | (Inr d, sv') \<Rightarrow> (Inr (json_reply 201 d), sv'))))"

definition public_intent_POST :: "relayer \<Rightarrow> json res \<Rightarrow> server \<Rightarrow> sale_intent reply res \<times> server" where
  "public_intent_POST relayer req sv = (case req of
       Inl e \<Rightarrow> (Inr (bad 400 (js ''bad_request'') INVALID_JSON), sv)
     | Inr body \<Rightarrow> (case read_create body of Inl e \<Rightarrow> (Inl e, sv) | Inr inp \<Rightarrow>
         if \<not> re_evm (ci_beneficiary0x inp) then (Inr (bad 400 (js ''bad_request'') INVALID_ADDR), sv)
         else if ci_rail inp = [] then (Inr (bad 400 (js ''bad_request'') RAIL_REQUIRED), sv)
         else if \<not> num_le (Num 100) (ci_usdAmount inp)
           then (Inr (bad 400 (js ''bad_request'') USD_MINIMUM), sv)
         else if useRemoteRelayer Public sv \<and> env_set sv ''SALE_RELAYER_PUBLIC_URL'' then
           (Inr (relay (relayer POST (relayerBase Public sv @ js ''/intent'') (Some (create_body inp)))
              (js ''Public relayer offline'')), sv)
         else (case createLocalIntent inp Public sv of
             (Inl e, sv') \<Rightarrow> (Inr (bad 400 (js ''bad_request'') e), sv')
           | (Inr d, sv') \<Rightarrow> (Inr (json_reply 201 d), sv'))))"

definition intent_id_GET :: "relayer \<Rightarrow> jstr \<Rightarrow> server \<Rightarrow> sale_intent reply res" where
  "intent_id_GET relayer iid sv =
     (if \<not> re_id iid then Inr (bad 400 (js ''bad_request'') INVALID_ID)
      else if useRemoteRelayer Private sv then
        Inr (relay (relayer GET (relayerBase Private sv @ js ''/intent/'' @ iid) None) (js ''Sale relayer offline''))
      else bind_res (getLocalIntent iid Private sv) (\<lambda>d. Inr (case d of
          None \<Rightarrow> bad 404 (js ''not_found'') INTENT_MISSING
        | Some i \<Rightarrow> json_reply 200 i)))"

definition public_intent_id_GET :: "relayer \<Rightarrow> jstr \<Rightarrow> server \<Rightarrow> sale_intent reply res" where
  "public_intent_id_GET relayer iid sv =
     (if \<not> re_id iid then Inr (bad 400 (js ''bad_request'') INVALID_ID)
      else if useRemoteRelayer Public sv \<and> env_set sv ''SALE_RELAYER_PUBLIC_URL'' then
        Inr (relay (relayer GET (relayerBase Public sv @ js ''/intent/'' @ iid) None) (js ''Public relayer offline''))
      else bind_res (getLocalIntent iid Public sv) (\<lambda>d. Inr (case d of
          None \<Rightarrow> bad 404 (js ''not_found'') INTENT_MISSING
        | Some i \<Rightarrow> json_reply 200 i)))"

definition quote_GET :: "relayer \<Rightarrow> server \<Rightarrow> sale_quote reply res" where
  "quote_GET relayer sv = (if useRemoteRelayer Private sv then
       Inr (relay (relayer GET (relayerBase Private sv @ js ''/quote'') None) (js ''Sale relayer offline''))
     else bind_res (getSaleQuoteSnapshot Private sv) (\<lambda>q. Inr (json_reply 200 q)))"

definition public_quote_GET :: "relayer \<Rightarrow> server \<Rightarrow> sale_quote reply res" where
  "public_quote_GET relayer sv =
     (if useRemoteRelayer Public sv \<and> env_set sv ''SALE_RELAYER_PUBLIC_URL'' then
       Inr (relay (relayer GET (relayerBase Public sv @ js ''/quote'') None) (js ''Public relayer offline''))
     else bind_res (getSaleQuoteSnapshot Public sv) (\<lambda>q. Inr (json_reply 200 q)))"

definition confirm_POST :: "sale_intent reply" where
  "confirm_POST = bad 403 (js ''confirm_disabled'') CONFIRM_DISABLED"

definition public_confirm_POST :: "sale_intent reply" where
  "public_confirm_POST = bad 403 (js ''confirm_disabled'') CONFIRM_DISABLED"


subsection \<open>The client\<close>

text \<open>
  What the browser's functions get from a reply. A reply the framework makes of a throw has
  status 500 and a body that is not JSON, so reading it throws. A relayed body is read by its
  \<open>data\<close> and \<open>error\<close> properties, which needs the decoder \<open>rd\<close> of the data.
\<close>

fun body_of :: "(json \<Rightarrow> 'a api_body) \<Rightarrow> 'a payload \<Rightarrow> 'a api_body" where
  "body_of rd (Data d) = ApiOk d"
| "body_of rd (ErrorBody code message) = ApiErr code message"
| "body_of rd (Relayed j) = rd j"

definition receive :: "(json \<Rightarrow> 'a api_body) \<Rightarrow> 'a reply res \<Rightarrow> 'a res" where
  "receive rd r = (case r of Inl e \<Rightarrow> Inl (js ''Unexpected token in JSON'')
     | Inr p \<Rightarrow> parse_reply (200 \<le> rp_status p \<and> rp_status p < 300) [] (body_of rd (rp_body p)))"

definition getSaleQuote :: "(json \<Rightarrow> sale_quote api_body) \<Rightarrow> relayer \<Rightarrow> channel \<Rightarrow> server \<Rightarrow> sale_quote res" where
  "getSaleQuote rd relayer ch sv =
     receive rd (if ch = Public then public_quote_GET relayer sv else quote_GET relayer sv)"

definition createSaleIntent :: "(json \<Rightarrow> sale_intent api_body) \<Rightarrow> relayer \<Rightarrow> create_input \<Rightarrow> channel
    \<Rightarrow> server \<Rightarrow> sale_intent res \<times> server" where
  "createSaleIntent rd relayer inp ch sv =
     (case (if ch = Public then public_intent_POST relayer (Inr (create_body inp)) sv
            else intent_POST relayer (Inr (create_body inp)) sv) of (r, sv') \<Rightarrow> (receive rd r, sv'))"

definition getSaleIntent :: "(json \<Rightarrow> sale_intent api_body) \<Rightarrow> relayer \<Rightarrow> jstr \<Rightarrow> channel \<Rightarrow> server
    \<Rightarrow> sale_intent res" where
  "getSaleIntent rd relayer iid ch sv =
     receive rd (if ch = Public then public_intent_id_GET relayer iid sv else intent_id_GET relayer iid sv)"

definition confirmSaleIntent :: "(json \<Rightarrow> sale_intent api_body) \<Rightarrow> channel \<Rightarrow> sale_intent res" where
  "confirmSaleIntent rd ch =
     receive rd (Inr (if ch = Public then public_confirm_POST else confirm_POST))"


subsection \<open>Local mode\<close>

definition local_mode :: "channel \<Rightarrow> server \<Rightarrow> bool" where
  "local_mode ch sv \<longleftrightarrow> \<not> useRemoteRelayer ch sv"

lemma map_of_create_body:
  "json_prop (create_body inp) (js ''beneficiary0x'') = Inr (Some (JStr (ci_beneficiary0x inp)))"
  "json_prop (create_body inp) (js ''rail'') = Inr (Some (JStr (ci_rail inp)))"
  "json_prop (create_body inp) (js ''railId'') = Inr None"
  "json_prop (create_body inp) (js ''usdAmount'') = Inr (Some (sent_num (ci_usdAmount inp)))"
  by (simp_all add: json_prop_def create_body_def)

lemma or_else_rail: "str_or_empty (or_else (Some (JStr s)) None) = s"
  by (simp add: str_or_empty_def or_else_def)

lemma read_create_body: "is_finite (ci_usdAmount inp) \<Longrightarrow> read_create (create_body inp) = Inr inp"
  by (simp add: read_create_def map_of_create_body or_else_rail)

lemma receive_simps [simp]:
  "receive rd (Inr (bad n c m)) = (if 200 \<le> n \<and> n < 300 then Inl (js ''resposta inv'' @ [225] @ js ''lida'') else Inl m)"
  "receive rd (Inr (json_reply 200 d)) = Inr d"
  "receive rd (Inr (json_reply 201 d)) = Inr d"
  "receive rd (Inl e) = Inl (js ''Unexpected token in JSON'')"
  by (simp_all add: receive_def bad_def json_reply_def)

lemma createLocalIntent_first_checks:
  "\<not> re_evm (ci_beneficiary0x inp) \<Longrightarrow> createLocalIntent inp ch sv = (Inl INVALID_ADDR, sv)"
  "re_evm (ci_beneficiary0x inp) \<Longrightarrow> \<not> num_le (Num 100) (ci_usdAmount inp) \<Longrightarrow>
     createLocalIntent inp ch sv = (Inl USD_MINIMUM, sv)"
  by (simp_all add: createLocalIntent_def INVALID_ADDR_def USD_MINIMUM_def)

lemma createSaleIntent_local:
  assumes "local_mode ch sv" "is_finite (ci_usdAmount inp)" "ci_rail inp \<noteq> []"
  shows "createSaleIntent rd relayer inp ch sv = createLocalIntent inp ch sv"
  using assms createLocalIntent_first_checks [of inp ch sv]
  by (cases ch; cases "createLocalIntent inp ch sv")
    (auto simp: createSaleIntent_def intent_POST_def public_intent_POST_def read_create_body local_mode_def
      split: sum.splits)


lemma to_base_16_hex: "list_all is_hex (to_base 16 n)"
proof (induction n rule: less_induct)
  case (less n)
  have "is_hex (digit_char d)" if "d < 16" for d
    using that by (auto simp: digit_char_def char_class_defs)
  then show ?case
    using less.IH [of "n div 16"] by (cases "n < 16") (simp_all add: to_base_less to_base_ge)
qed

lemma re_id_created:
  assumes "createLocalIntent inp ch sv = (Inr view, sv')"
  shows "re_id (it_id view)"
proof -
  have "re_id (pad_start 16 48 (to_base 16 rnd))" for rnd
  proof -
    have "list_all is_hex (pad_start 16 48 (to_base 16 rnd))"
      by (rule list_all_pad_start) (simp_all add: to_base_16_hex char_class_defs)
    moreover have "0 < length (pad_start 16 48 (to_base 16 rnd))"
      unfolding length_pad_start by simp
    then have "pad_start 16 48 (to_base 16 rnd) \<noteq> []" by blast
    ultimately show ?thesis by (simp add: re_id_def)
  qed
  then show ?thesis
    using assms by (elim createLocalIntent_Inr) (auto simp: toPublic_def new_intent_def bind_res_eq_Inr)
qed

lemma useRemoteRelayer_env: "sv_env sv' = sv_env sv \<Longrightarrow> useRemoteRelayer ch sv' = useRemoteRelayer ch sv"
  by (simp add: useRemoteRelayer_def env_set_def)

lemma getSaleIntent_local:
  assumes "local_mode ch sv" "re_id iid" "getLocalIntent iid ch sv = Inr (Some view)"
  shows "getSaleIntent rd relayer iid ch sv = Inr view"
  using assms
  by (cases ch) (simp_all add: getSaleIntent_def intent_id_GET_def public_intent_id_GET_def local_mode_def)

lemma createLocalIntent_env:
  assumes "createLocalIntent inp ch sv = (Inr view, sv')"
  shows "sv_env sv' = sv_env sv"
  using assms by (elim createLocalIntent_Inr) simp

lemma createLocalIntent_Inl_states:
  "createLocalIntent inp ch sv = (Inl e, sv') \<Longrightarrow> sv_states sv' = sv_states sv"
  using createLocalIntent_Inl [of inp ch sv e sv'] by (cases sv; cases sv') (simp add: drawn_def)

lemma api_create_then_poll:
  assumes m: "local_mode ch sv" and u: "is_finite (ci_usdAmount inp)" "ci_rail inp \<noteq> []"
    and st: "loadState ch sv = Inr st"
    and c: "createSaleIntent rd relayer inp ch sv = (Inr view, sv')"
    and fresh: "it_id view \<notin> si_id ` set (intents st)"
  shows "getSaleIntent rd' relayer' (it_id view) ch sv' = Inr view"
proof -
  have l: "createLocalIntent inp ch sv = (Inr view, sv')"
    using c createSaleIntent_local [OF m u, of rd relayer] by simp
  have "local_mode ch sv'"
    using m useRemoteRelayer_env [OF createLocalIntent_env [OF l], of ch] by (simp add: local_mode_def)
  then show ?thesis
    by (rule getSaleIntent_local [OF _ re_id_created [OF l] get_created [OF l st fresh]])
qed


subsection \<open>Properties\<close>

text \<open>
  C23. Without a remote relayer, creating an intent from the browser is creating it on the server:
  the request survives JSON, the route's own checks agree with the server's, and the buyer gets
  the server's view or the server's error message, with the same files written.
\<close>

theorem api_create_is_local_create:
  assumes "\<not> useRemoteRelayer ch sv" "is_finite (ci_usdAmount inp)" "ci_rail inp \<noteq> []"
  shows "createSaleIntent rd relayer inp ch sv = createLocalIntent inp ch sv"
  using createSaleIntent_local [of ch sv inp rd relayer] assms by (simp add: local_mode_def)

definition no_relayer :: relayer where
  "no_relayer m url body = Inl (js ''fetch failed'')"

theorem api_create_is_local_create_witness:
  "\<exists>view sv'. createSaleIntent (\<lambda>_. ApiOther) no_relayer inp0 Private sv0 = (Inr view, sv')"
proof -
  have "createSaleIntent (\<lambda>_. ApiOther) no_relayer inp0 Private sv0 = createLocalIntent inp0 Private sv0"
    by (rule api_create_is_local_create) (simp_all add: useRemoteRelayer_def env_set_def sv0_def inp0_def)
  then show ?thesis using create0 by simp
qed

text \<open>
  The buyer's poll finds the intent just created: the id passes the route's pattern and the
  view read back is the one the create answered.
\<close>

theorem poll_finds_created:
  assumes "\<not> useRemoteRelayer ch sv" "is_finite (ci_usdAmount inp)" "ci_rail inp \<noteq> []"
    and "loadState ch sv = Inr st" "createSaleIntent rd relayer inp ch sv = (Inr view, sv')"
    and "it_id view \<notin> si_id ` set (intents st)"
  shows "getSaleIntent rd' relayer' (it_id view) ch sv' = Inr view"
  using api_create_then_poll [of ch sv inp st rd relayer] assms by (simp add: local_mode_def)

theorem poll_finds_created_witness:
  "\<exists>view sv'. createSaleIntent (\<lambda>_. ApiOther) no_relayer inp0 Private sv0 = (Inr view, sv')
     \<and> getSaleIntent (\<lambda>_. ApiOther) no_relayer (it_id view) Private sv' = Inr view"
proof -
  have m: "\<not> useRemoteRelayer Private sv0" "is_finite (ci_usdAmount inp0)" "ci_rail inp0 \<noteq> []"
    by (simp_all add: useRemoteRelayer_def env_set_def sv0_def inp0_def)
  obtain view sv' where c: "createSaleIntent (\<lambda>_. ApiOther) no_relayer inp0 Private sv0 = (Inr view, sv')"
    using create0 createSaleIntent_local [of Private sv0 inp0 "\<lambda>_. ApiOther" no_relayer] m
    by (auto simp: local_mode_def)
  show ?thesis
    using poll_finds_created [OF m state0 c, of "\<lambda>_. ApiOther" no_relayer] c by simp
qed

text \<open>
  A POST to either intent route that is not answered 201 leaves the sale files as they were,
  and so does one that is handed to a remote relayer.
\<close>

theorem rejected_post_writes_nothing:
  assumes "f = (if ch = Public then public_intent_POST else intent_POST)"
    and "f relayer req sv = (r, sv')"
    and "useRemoteRelayer ch sv \<and> (ch = Public \<longrightarrow> env_set sv ''SALE_RELAYER_PUBLIC_URL'')
         \<or> (\<forall>p. r = Inr p \<longrightarrow> rp_status p \<noteq> 201)"
  shows "sv_states sv' = sv_states sv"
  using assms createLocalIntent_Inl_states
  by (cases ch) (auto simp: intent_POST_def public_intent_POST_def json_reply_def
      split: sum.splits if_splits prod.splits)

theorem rejected_post_writes_nothing_witness:
  "sv_states (snd (public_intent_POST no_relayer (Inr JNull) sv0)) = sv_states sv0"
proof -
  have p: "public_intent_POST no_relayer (Inr JNull) sv0 = (Inl (js ''Cannot read properties of null''), sv0)"
    by (simp add: public_intent_POST_def read_create_def json_prop_def)
  show ?thesis
    using rejected_post_writes_nothing [of public_intent_POST Public no_relayer "Inr JNull" sv0] p by simp
qed

end
