(* ===== verification/Base64.thy ===== *)
theory Base64
  imports Prelude
begin

section \<open>Base64, as \<open>btoa\<close> and \<open>atob\<close>\<close>

text \<open>
  The vault stores its byte strings through \<open>btoa\<close> and \<open>atob\<close>. A byte string is a list of
  numbers below 256. \<open>atob\<close> skips white space, drops up to two padding characters when the
  length is a multiple of four, and throws on anything else that is not an alphabet character.
\<close>

definition b64_char :: "nat \<Rightarrow> nat" where
  "b64_char v = (if v < 26 then v + 65 else if v < 52 then v + 71 else if v < 62 then v - 4
     else if v = 62 then 43 else 47)"

definition b64_val :: "nat \<Rightarrow> nat option" where
  "b64_val c = (if 65 \<le> c \<and> c \<le> 90 then Some (c - 65) else if 97 \<le> c \<and> c \<le> 122 then Some (c - 71)
     else if is_digit c then Some (c + 4) else if c = 43 then Some 62 else if c = 47 then Some 63 else None)"

fun sextets :: "nat list \<Rightarrow> nat list" where
  "sextets (a # b # c # r) =
     [a div 4, a mod 4 * 16 + b div 16, b mod 16 * 4 + c div 64, c mod 64] @ sextets r"
| "sextets [a, b] = [a div 4, a mod 4 * 16 + b div 16, b mod 16 * 4]"
| "sextets [a] = [a div 4, a mod 4 * 16]"
| "sextets [] = []"

fun octets :: "nat list \<Rightarrow> nat list" where
  "octets (w # x # y # z # r) = [w * 4 + x div 16, x mod 16 * 16 + y div 4, y mod 4 * 64 + z] @ octets r"
| "octets [w, x, y] = [w * 4 + x div 16, x mod 16 * 16 + y div 4]"
| "octets [w, x] = [w * 4 + x div 16]"
| "octets _ = []"

definition b64 :: "nat list \<Rightarrow> jstr" where
  "b64 u8 = map b64_char (sextets u8) @ replicate ((3 - length u8 mod 3) mod 3) 61"

definition drop_pad :: "jstr \<Rightarrow> jstr" where
  "drop_pad t = (if length t mod 4 = 0 \<and> t \<noteq> [] \<and> last t = 61 then
       (if butlast t \<noteq> [] \<and> last (butlast t) = 61 then butlast (butlast t) else butlast t)
     else t)"

definition atob_ws :: "nat \<Rightarrow> bool" where
  "atob_ws c \<longleftrightarrow> c = 9 \<or> c = 10 \<or> c = 12 \<or> c = 13 \<or> c = 32"

definition ub64 :: "jstr \<Rightarrow> nat list res" where
  "ub64 s = (let u = drop_pad (filter (\<lambda>c. \<not> atob_ws c) s) in
     if length u mod 4 = 1 \<or> list_ex (\<lambda>c. b64_val c = None) u then Inl (js ''InvalidCharacterError'')
     else Inr (octets (map (\<lambda>c. the (b64_val c)) u)))"

lemma b64_val_char [simp]: "v < 64 \<Longrightarrow> b64_val (b64_char v) = Some v"
  by (auto simp: b64_val_def b64_char_def is_digit_def)

lemma b64_char_plain: "b64_char v \<noteq> 61" "\<not> atob_ws (b64_char v)"
  by (auto simp: b64_char_def atob_ws_def)

lemma sextets_bound: "\<forall>b \<in> set u8. b < 256 \<Longrightarrow> \<forall>v \<in> set (sextets u8). v < 64"
  by (induction u8 rule: sextets.induct) auto

lemma octets_sextets: "\<forall>b \<in> set u8. b < 256 \<Longrightarrow> octets (sextets u8) = u8"
  by (induction u8 rule: sextets.induct) auto

lemma length_sextets: "length (sextets u8) = 4 * (length u8 div 3) + (if length u8 mod 3 = 0 then 0 else length u8 mod 3 + 1)"
proof (induction u8 rule: sextets.induct)
  case (1 a b c r)
  have "length (a # b # c # r) div 3 = Suc (length r div 3)" "length (a # b # c # r) mod 3 = length r mod 3"
    by simp_all
  then show ?case using 1 by simp
qed simp_all

lemma drop_pad_append:
  assumes "61 \<notin> set t" "k \<le> 2" "(length t + k) mod 4 = 0"
  shows "drop_pad (t @ replicate k 61) = t"
proof -
  have l: "t = [] \<or> last t \<noteq> 61" using assms(1) by (metis last_in_set)
  have "k = 0 \<or> k = 1 \<or> k = 2" using assms(2) by arith
  then show ?thesis
    using l assms(3) by (elim disjE) (auto simp: drop_pad_def butlast_append numeral_2_eq_2)
qed

text \<open>What \<open>btoa\<close> writes, \<open>atob\<close> reads back.\<close>

lemma ub64_b64: "\<forall>b \<in> set u8. b < 256 \<Longrightarrow> ub64 (b64 u8) = Inr u8"
proof -
  assume b: "\<forall>b \<in> set u8. b < 256"
  let ?t = "map b64_char (sextets u8)" and ?k = "(3 - length u8 mod 3) mod 3"
  have w: "filter (\<lambda>c. \<not> atob_ws c) (b64 u8) = ?t @ replicate ?k 61"
  proof -
    have "\<not> atob_ws 61" by (simp add: atob_ws_def)
    then have "\<forall>c \<in> set (b64 u8). \<not> atob_ws c" using b64_char_plain by (auto simp: b64_def)
    then show ?thesis by (simp only: filter_True b64_def [symmetric])
  qed
  have n: "61 \<notin> set ?t" using b64_char_plain by force
  have "length u8 mod 3 < 3" by simp
  then consider "length u8 mod 3 = 0" | "length u8 mod 3 = 1" | "length u8 mod 3 = 2" by linarith
  then have m: "(length ?t + ?k) mod 4 = 0 \<and> length ?t mod 4 \<noteq> 1 \<and> ?k \<le> 2"
    by cases (simp_all add: length_sextets, presburger)
  have d: "drop_pad (?t @ replicate ?k 61) = ?t"
    using m n by (intro drop_pad_append) simp_all
  have v: "\<not> list_ex (\<lambda>c. b64_val c = None) ?t"
    using sextets_bound [OF b] by (auto simp: list_ex_iff)
  have "map (\<lambda>c. the (b64_val c)) ?t = sextets u8"
    using sextets_bound [OF b] by (simp add: map_idI)
  then show ?thesis
    using m v octets_sextets [OF b] by (simp add: ub64_def w d Let_def)
qed

end
