(* ===== verification/Format.thy ===== *)
theory Format
  imports Decimals JsDate
begin

section \<open>Formatting (\<open>lib/format.ts\<close>)\<close>

text \<open>
  What every page of the explorer prints: amounts of e7 and of tokens with the thousands
  separators of pt-BR, compact numbers, shortened hashes, ages, sizes and dates, and the energy
  table. An argument of type \<open>string | bigint | number | null\<close> is the datatype \<open>big_arg\<close>; an
  optional number is a \<open>jsnum option\<close>. Not modelled: \<open>when\<close>, which prints in the time zone of
  the browser.
\<close>

datatype big_arg = BStr jstr | BBig int | BNum jsnum | BNone

text \<open>\<open>BigInt(v ?? 0)\<close> and \<open>Number(bigint)\<close>.\<close>

fun to_big :: "big_arg \<Rightarrow> int res" where
  "to_big (BStr s) = big_of_str s"
| "to_big (BBig k) = Inr k"
| "to_big (BNum x) = bigint_of_num x"
| "to_big BNone = Inr 0"

definition UNIT :: int where
  "UNIT = 1000000"

definition int_locale :: "int \<Rightarrow> jstr" where
  "int_locale k = locale_str PtBR 0 3 (num_of_int k)"

definition comma_frac :: "jstr \<Rightarrow> jstr" where
  "comma_frac frc = (if frc \<noteq> [] then 44 # frc else [])"

definition fmt :: "big_arg \<Rightarrow> jstr" where
  "fmt e7 = (case to_big e7 of Inl _ \<Rightarrow> js ''0''
     | Inr v \<Rightarrow> (let whole = big_div v UNIT; frc = strip_zeros (pad_start 6 48 (big_str (big_mod v UNIT)))
         in int_locale whole @ comma_frac frc))"

definition fmtCompact :: "big_arg \<Rightarrow> jstr" where
  "fmtCompact e7 = (case to_big e7 of Inl _ \<Rightarrow> js ''0''
     | Inr v \<Rightarrow> (let n = num_of_int (big_div v UNIT) in
         if num_le (Num 1000000000) n then locale_str PtBR 0 2 (num_div n (Num 1000000000)) @ js '' bi''
         else if num_le (Num 1000000) n then locale_str PtBR 0 2 (num_div n (Num 1000000)) @ js '' mi''
         else if num_le (Num 10000) n then locale_str PtBR 0 1 (num_div n (Num 1000)) @ js '' mil''
         else fmt e7))"

definition num :: "jsnum \<Rightarrow> jstr" where
  "num n = locale_str PtBR 0 3 n"

definition numCompact :: "jsnum \<Rightarrow> jstr" where
  "numCompact n =
     (if num_le (Num 1000000000) n then locale_str PtBR 0 2 (num_div n (Num 1000000000)) @ js '' bi''
      else if num_le (Num 1000000) n then locale_str PtBR 0 2 (num_div n (Num 1000000)) @ js '' mi''
      else if num_le (Num 1000) n then locale_str PtBR 0 1 (num_div n (Num 1000)) @ js '' mil''
      else locale_str PtBR 0 3 n)"

text \<open>\<open>h.slice(-tail)\<close>: the last \<open>tail\<close> characters, and the whole string for 0.\<close>

definition slice_tail :: "nat \<Rightarrow> jstr \<Rightarrow> jstr" where
  "slice_tail tail h = (if tail = 0 then h else drop (length h - tail) h)"

definition shortHash :: "jstr option \<Rightarrow> nat \<Rightarrow> nat \<Rightarrow> jstr" where
  "shortHash h head tail = (case h of None \<Rightarrow> [8212]
     | Some s \<Rightarrow> if s = [] then [8212]
         else if length s \<le> head + tail + 1 then s
         else take head s @ [8230] @ slice_tail tail s)"

definition hashLink :: "jstr option \<Rightarrow> jstr" where "hashLink h = shortHash h 12 6"
definition addrLink :: "jstr option \<Rightarrow> jstr" where "addrLink h = shortHash h 10 6"
definition addrTight :: "jstr option \<Rightarrow> jstr" where "addrTight h = shortHash h 8 5"

definition ago :: "int \<Rightarrow> jsnum \<Rightarrow> jstr" where
  "ago now ts = (let s = num_max (Num 0) (num_floor (num_div (num_sub (num_of_int now) ts) (Num 1000))) in
     if num_lt s (Num 60) then num_str s @ js ''s''
     else if num_lt s (Num 3600) then num_str (num_floor (num_div s (Num 60))) @ js ''min''
     else if num_lt s (Num 86400) then num_str (num_floor (num_div s (Num 3600))) @ js ''h''
     else num_str (num_floor (num_div s (Num 86400))) @ js ''d'')"

text \<open>\<open>.replace(/\.0$/, "").replace(".", ",")\<close>.\<close>

definition drop_point_zero :: "jstr \<Rightarrow> jstr" where
  "drop_point_zero s = (if 2 \<le> length s \<and> drop (length s - 2) s = [46, 48] then take (length s - 2) s else s)"

definition replace1 :: "nat \<Rightarrow> jstr \<Rightarrow> jstr \<Rightarrow> jstr" where
  "replace1 c r s = (let p = takeWhile (\<lambda>x. x \<noteq> c) s; q = dropWhile (\<lambda>x. x \<noteq> c) s
     in if q = [] then s else p @ r @ tl q)"

definition one_decimal :: "jsnum \<Rightarrow> jstr" where
  "one_decimal k = (if num_lt k (Num 100) then replace1 46 [44] (drop_point_zero (to_fixed 1 k))
     else num_str (num_round k))"

definition fmtEnergy :: "jsnum option \<Rightarrow> jstr" where
  "fmtEnergy n = (let v = num_max (Num 0) (num_round (case n of None \<Rightarrow> Num 0 | Some x \<Rightarrow> x)) in
     if num_lt v (Num 1000) then num_str v
     else if num_lt v (Num 1000000) then one_decimal (num_div v (Num 1000)) @ js ''k''
     else one_decimal (num_div v (Num 1000000)) @ js ''M'')"

definition fmtGbBytes :: "jsnum option \<Rightarrow> jstr" where
  "fmtGbBytes bytes = (let v = num_max (Num 0) (case bytes of None \<Rightarrow> Num 0 | Some x \<Rightarrow> x) in
     if \<not> is_finite v then [8212]
     else if num_le (Num 1000000000) v then
       (let gb = num_div v (Num 1000000000)
        in locale_str PtBR 0 (if num_le (Num 100) gb then 1 else 2) gb @ js '' GB'')
     else if num_le (Num 1000000) v then
       (let mb = num_div v (Num 1000000)
        in locale_str PtBR 0 (if num_le (Num 100) mb then 0 else 1) mb @ js '' MB'')
     else if num_le (Num 1000) v then locale_str PtBR 0 1 (num_div v (Num 1000)) @ js '' KB''
     else locale_str PtBR 0 3 (num_round v) @ js '' B'')"

definition fmtGbQuota :: "jsnum \<Rightarrow> jsnum \<Rightarrow> jstr" where
  "fmtGbQuota available mx = fmtGbBytes (Some available) @ js '' / '' @ fmtGbBytes (Some mx)"

definition fmtUsd :: "jsnum option \<Rightarrow> nat \<Rightarrow> jstr" where
  "fmtUsd n digits = (case n of None \<Rightarrow> [8212] | Some x \<Rightarrow>
     if \<not> is_finite x then [8212]
     else (let a = num_abs x;
         d = (if num_lt (Num 0) a \<and> num_lt a (num_of_str (js ''0.01'')) then max digits 4 else digits)
       in js ''$'' @ locale_str EnUS (min 2 d) d x))"

text \<open>\<open>/^eav7-labs-ancora-(\d+)$/i.exec(name.trim())\<close>: the digits.\<close>

definition ancora_match :: "jstr \<Rightarrow> jstr option" where
  "ancora_match name = (let t = trim name; p = js ''eav7-labs-ancora-'' in
     if to_lower (take (length p) t) = p \<and> is_digits (drop (length p) t) then Some (drop (length p) t) else None)"

definition fmtNsName :: "jstr option \<Rightarrow> jstr" where
  "fmtNsName name = (case name of None \<Rightarrow> [] | Some s \<Rightarrow>
     (case ancora_match s of Some ds \<Rightarrow> js ''EAV7 Labs '' @ [194] @ js ''ncora '' @ ds | None \<Rightarrow> s))"

definition ancoraIndex :: "jstr option \<Rightarrow> jsnum option" where
  "ancoraIndex name = (case name of None \<Rightarrow> None | Some s \<Rightarrow>
     if s = [] then None else map_option num_of_str (ancora_match s))"

definition isE7Address :: "jstr \<Rightarrow> bool" where "isE7Address s = re_e7 32 s"
definition isE7Hash :: "jstr \<Rightarrow> bool" where "isE7Hash s = re_e7 62 s"
definition isEvm :: "jstr \<Rightarrow> bool" where "isEvm s = re_evm s"

definition ENERGY_COST :: "(jstr \<times> int) list" where
  "ENERGY_COST = [
    (js ''TRANSFER'', 1), (js ''EAVM_TRANSFER'', 1), (js ''STAKE'', 1), (js ''UNSTAKE'', 1),
    (js ''VOTE'', 1), (js ''DELEGATE_RESOURCE'', 1), (js ''UNDELEGATE_RESOURCE'', 1),
    (js ''PERMISSION_UPDATE'', 2), (js ''MULTISIG_PROPOSE'', 2), (js ''MULTISIG_APPROVE'', 1),
    (js ''GOV_PROPOSE'', 2), (js ''GOV_VOTE'', 1), (js ''SLASH_DOUBLE_SIGN'', 8),
    (js ''BRIDGE_COMMITTEE_UPDATE'', 2), (js ''VESTING_CREATE'', 2), (js ''VESTING_CLAIM'', 1),
    (js ''SET_COMMISSION'', 1), (js ''CLAIM_VOTER_REWARD'', 1), (js ''META_TX'', 3),
    (js ''TOKEN_TRANSFER'', 2), (js ''TOKEN_TRANSFER_FROM'', 2), (js ''TOKEN_APPROVE'', 1),
    (js ''TOKEN_CREATE'', 10), (js ''TOKEN_MINT'', 2), (js ''TOKEN_BURN'', 2), (js ''TOKEN_PAUSE'', 1),
    (js ''TOKEN_UNPAUSE'', 1), (js ''TOKEN_BLACKLIST'', 1), (js ''TOKEN_FREEZE'', 1),
    (js ''TOKEN_UNFREEZE'', 1), (js ''NFT_CREATE'', 10), (js ''NFT_MINT'', 3), (js ''NFT_TRANSFER'', 2),
    (js ''NFT_APPROVE'', 1), (js ''NFT_BURN'', 2), (js ''NAME_REGISTER'', 3), (js ''NAME_UPDATE'', 1),
    (js ''NAME_TRANSFER'', 1), (js ''NAME_RELEASE'', 1), (js ''AI_TASK'', 5), (js ''AI_RESULT'', 0),
    (js ''AI_COMMIT'', 1), (js ''AI_REVEAL'', 1), (js ''AI_CLAIM'', 1), (js ''AI_CHALLENGE'', 2),
    (js ''AI_VERDICT'', 1), (js ''AI_BID'', 1), (js ''AI_AWARD'', 1), (js ''AI_REFUND'', 0),
    (js ''ORACLE_REGISTER'', 2), (js ''BRIDGE_OUT'', 2), (js ''BRIDGE_IN'', 0), (js ''BRIDGE_SETTLE'', 0)
  ]"

definition energyCost :: "jstr \<Rightarrow> int" where
  "energyCost type = (case map_of ENERGY_COST type of Some c \<Rightarrow> c | None \<Rightarrow> 1)"

definition fmtToken :: "big_arg \<Rightarrow> nat \<Rightarrow> jstr" where
  "fmtToken raw decimals = (case to_big raw of Inl _ \<Rightarrow> js ''0''
     | Inr v \<Rightarrow> if decimals = 0 then int_locale v
         else (let unit = 10 ^ decimals; whole = big_div v unit;
             frc = strip_zeros (pad_start decimals 48 (big_str (big_mod v unit)))
           in int_locale whole @ comma_frac frc))"

text \<open>\<open>new Date(ts)\<close> truncates to an integer; a time out of range is an invalid date.\<close>

definition num_trunc :: "rat \<Rightarrow> int" where
  "num_trunc q = (if 0 \<le> q then \<lfloor>q\<rfloor> else \<lceil>q\<rceil>)"

definition whenUtc :: "jsnum option \<Rightarrow> jstr" where
  "whenUtc ts = (case ts of Some (Num q) \<Rightarrow>
       if q = 0 then [8212]
       else (case iso_string (num_trunc q) of
           Inl _ \<Rightarrow> [8212]
         | Inr text_iso \<Rightarrow> take 19 (replace1 84 [32] text_iso))
     | _ \<Rightarrow> [8212])"

definition fmtBytes :: "jsnum option \<Rightarrow> jstr" where
  "fmtBytes n = (case n of None \<Rightarrow> [8212] | Some x \<Rightarrow>
     if \<not> is_finite x \<or> num_lt x (Num 0) then [8212]
     else if num_lt x (Num 1024) then num_str x @ js '' B''
     else if num_lt x (Num (1024 * 1024)) then locale_str PtBR 0 1 (num_div x (Num 1024)) @ js '' KiB''
     else locale_str PtBR 0 2 (num_div x (Num (1024 * 1024))) @ js '' MiB'')"


subsection \<open>Reading back what is printed\<close>

text \<open>
  The reader of a printed amount: drop the thousands separators, read the comma as the decimal
  point.
\<close>

definition plain :: "jstr \<Rightarrow> jstr" where
  "plain s = map (\<lambda>c. if c = 44 then 46 else c) (filter (\<lambda>c. c \<noteq> 46) s)"

lemma digits_no_sep: "list_all is_digit s \<Longrightarrow> 46 \<notin> set s \<and> 44 \<notin> set s"
  by (auto simp: list_all_iff is_digit_def)

lemma plain_digits: "list_all is_digit s \<Longrightarrow> plain s = s"
proof -
  assume s: "list_all is_digit s"
  then have "filter (\<lambda>c. c \<noteq> 46) s = s"
    using digits_no_sep [OF s] by (metis (mono_tags, lifting) filter_True)
  then show ?thesis
    using digits_no_sep [OF s] by (auto simp: plain_def intro!: map_idI)
qed

lemma plain_append: "plain (s @ t) = plain s @ plain t"
  by (simp add: plain_def)

lemma group_rev_set: "set s \<subseteq> set (group_rev sep s) \<and> set (group_rev sep s) \<subseteq> insert sep (set s)"
  by (induction sep s rule: group_rev.induct) auto

lemma plain_group3:
  assumes "list_all is_digit s"
  shows "plain (group3 46 s) = s"
proof -
  have "filter (\<lambda>c. c \<noteq> 46) (group3 46 s) = s"
    using digits_no_sep [OF assms] by (simp add: filter_group3)
  then show ?thesis
    using digits_no_sep [OF assms] by (auto simp: plain_def intro!: map_idI)
qed

lemma scaled_of_int: "scaled d (of_nat n) = n * 10 ^ d"
proof -
  have "(of_nat n * 10 ^ d :: rat) = of_int (int (n * 10 ^ d))" by simp
  then have "\<lfloor>(of_nat n * 10 ^ d :: rat) + 1 / 2\<rfloor> = int (n * 10 ^ d)"
    by linarith
  then show ?thesis unfolding scaled_def by (metis nat_int)
qed

lemma strip_zeros_replicate: "strip_zeros (replicate k 48) = []"
  by (simp add: strip_zeros_def dropWhile_eq_Nil_conv)

lemma locale_str_int: "locale_str l 0 d (Num (of_nat n)) = group3 (group_sep l) (dec n)"
  by (cases "d = 0")
    (simp_all add: scaled_of_int int_part_def frac_part_def with_frac_def min_frac_def pad_end_def
      pad_start_def to_base_less digit_char_def strip_zeros_replicate strip_zeros_def dropWhile_append)

lemma int_locale_nat:
  "n \<le> 2 ^ 53 \<Longrightarrow> int_locale (int n) = group3 46 (dec n)"
proof -
  assume "n \<le> 2 ^ 53"
  then have "\<bar>int n\<bar> \<le> 2 ^ 53" by (simp flip: of_nat_le_iff)
  then have "num_of_int (int n) = Num (of_nat n)" by (simp add: num_of_int_small)
  then show ?thesis by (simp add: int_locale_def locale_str_int del: locale_str.simps)
qed

lemma plain_int_locale: "n \<le> 2 ^ 53 \<Longrightarrow> plain (int_locale (int n)) = dec n"
  by (simp add: int_locale_nat plain_group3 dec_digits)

lemma plain_comma_frac:
  "list_all is_digit f \<Longrightarrow> plain (comma_frac f) = (if f \<noteq> [] then 46 # f else [])"
  using plain_digits [of f] by (simp add: comma_frac_def plain_def)

lemma plain_fmtToken:
  assumes "0 < d" "n div 10 ^ d \<le> 2 ^ 53"
  shows "plain (fmtToken (BBig (int n)) d) = amount_str d (int n)"
proof -
  have "int n div 10 ^ d = int (n div 10 ^ d)" "int n mod 10 ^ d = int (n mod 10 ^ d)"
    by (simp_all add: zdiv_int zmod_int)
  moreover have "plain (comma_frac (frac_str d (int (n mod 10 ^ d)))) =
      (if frac_str d (int (n mod 10 ^ d)) \<noteq> [] then 46 # frac_str d (int (n mod 10 ^ d)) else [])"
    by (rule plain_comma_frac) (simp add: frac_str_digits)
  ultimately show ?thesis
    using assms by (simp add: fmtToken_def amount_str_nat plain_append plain_int_locale frac_str_def Let_def)
qed

lemma fmt_fmtToken: "fmt v = fmtToken v 6"
  by (simp add: fmt_def fmtToken_def UNIT_def Let_def cong: sum.case_cong)


lemma length_slice_tail: "0 < k \<Longrightarrow> k \<le> length h \<Longrightarrow> length (slice_tail k h) = k"
  by (simp add: slice_tail_def)


subsection \<open>Properties\<close>

text \<open>
  No digit of an amount is lost in print: with the thousands separators dropped and the
  comma read as the point, what \<open>fmtToken\<close> prints for any number of decimals, and \<open>fmt\<close> for the
  native coin, reads back as the amount, as long as the whole part is at most \<open>2 ^ 53\<close>.
\<close>

theorem printed_amount_reads_back:
  assumes "0 < d" "n div 10 ^ d \<le> 2 ^ 53"
  shows "read_decimal d (plain (fmtToken (BBig (int n)) d)) = Some n
    \<and> (d = 6 \<longrightarrow> fmt (BBig (int n)) = fmtToken (BBig (int n)) d)"
  using plain_fmtToken [OF assms] fmt_fmtToken by (simp add: read_amount_str)

theorem printed_amount_reads_back_witness:
  "read_decimal 6 (plain (fmtToken (BBig (int 1234567890)) 6)) = Some 1234567890
   \<and> fmt (BBig 1234567890) = js ''1.234,56789''"
proof -
  have "read_decimal 6 (plain (fmtToken (BBig (int 1234567890)) 6)) = Some 1234567890"
    using printed_amount_reads_back [of 6 1234567890] by simp
  moreover have "fmt (BBig 1234567890) = js ''1.234,56789''"
    by (simp add: fmt_def UNIT_def int_locale_def comma_frac_def num_of_int_def strip_zeros_def num_eval js_eval)
  ultimately show ?thesis ..
qed

text \<open>
  A negative amount below one coin prints the sign inside the fraction: minus 5 e7 is shown
  as \<open>0,0000-5\<close>, and the sign of the whole part is lost.
\<close>

theorem fmt_negative_misprints:
  "fmt (BBig (- 5)) = js ''0,0000-5''"
  by (simp add: fmt_def UNIT_def int_locale_def comma_frac_def num_of_int_def strip_zeros_def big_div_def
      big_mod_def num_eval js_eval)

text \<open>
  A shortened hash is never longer than \<open>head + tail + 1\<close>, starts with the first \<open>head\<close> and
  ends with the last \<open>tail\<close> characters of the hash, and a hash that fits is shown in full.
\<close>

theorem shortHash_shape:
  assumes "s \<noteq> []" "0 < tail"
  shows "length (shortHash (Some s) head tail) \<le> head + tail + 1
    \<and> take head (shortHash (Some s) head tail) = take head s
    \<and> (tail \<le> length s \<longrightarrow> drop (length (shortHash (Some s) head tail) - tail) (shortHash (Some s) head tail)
          = drop (length s - tail) s)
    \<and> (length s \<le> head + tail + 1 \<longrightarrow> shortHash (Some s) head tail = s)"
proof (cases "length s \<le> head + tail + 1")
  case True
  then show ?thesis using assms(1) by (simp add: shortHash_def)
next
  case False
  then show ?thesis using assms by (simp add: shortHash_def slice_tail_def min_def)
qed

theorem shortHash_shape_witness:
  "shortHash (Some (js ''0x2ddd408bbd8c84fb64ac'')) 8 4 = js ''0x2ddd40'' @ [8230] @ js ''64ac''
   \<and> length (shortHash (Some (js ''0x2ddd408bbd8c84fb64ac'')) 8 4) \<le> 13"
proof
  show "shortHash (Some (js ''0x2ddd408bbd8c84fb64ac'')) 8 4 = js ''0x2ddd40'' @ [8230] @ js ''64ac''"
    by (simp add: shortHash_def slice_tail_def js_eval)
  show "length (shortHash (Some (js ''0x2ddd408bbd8c84fb64ac'')) 8 4) \<le> 13"
    using shortHash_shape [of "js ''0x2ddd408bbd8c84fb64ac''" 4 8] by simp
qed

end
