(* ===== verification/Wallet.thy ===== *)
theory Wallet
  imports Base64 Format
begin

section \<open>The browser wallet (\<open>lib/wallet.ts\<close>, \<open>lib/wallet-crypto.ts\<close>)\<close>

text \<open>
  The vault keeps one private key, encrypted, under one key of \<open>localStorage\<close>. The browser's
  cryptography (\<open>TextEncoder\<close>, PBKDF2 and AES-GCM of \<open>crypto.subtle\<close>) is the record \<open>webcrypto\<close>,
  absent where the page has no secure context; its random bytes are arguments. The signer
  (\<open>eav7-wasm\<close>, built from the Rust sources) and the node's API are arguments of
  \<open>signAndSend\<close>, which also returns the raw transactions it posted.
\<close>

record account =
  privateKey :: jstr
  evm :: jstr
  eav7 :: jstr

record encrypted_vault =
  ev_v :: nat
  ev_salt :: jstr
  ev_iv :: jstr
  ev_ct :: jstr

record webcrypto =
  text_encode :: "jstr \<Rightarrow> nat list"
  text_decode :: "nat list \<Rightarrow> jstr"
  pbkdf2 :: "nat list \<Rightarrow> nat list \<Rightarrow> nat \<Rightarrow> nat list"
  aes_encrypt :: "nat list \<Rightarrow> nat list \<Rightarrow> nat list \<Rightarrow> nat list"
  aes_decrypt :: "nat list \<Rightarrow> nat list \<Rightarrow> nat list \<Rightarrow> nat list res"

definition NO_WEBCRYPTO :: jstr where
  "NO_WEBCRYPTO = js ''WebCrypto indispon'' @ [237] @ js ''vel (use https ou localhost)''"

definition deriveAesKey :: "webcrypto option \<Rightarrow> jstr \<Rightarrow> nat list \<Rightarrow> nat list res" where
  "deriveAesKey subtle password salt = (case subtle of None \<Rightarrow> Inl NO_WEBCRYPTO
     | Some s \<Rightarrow> Inr (pbkdf2 s (text_encode s password) salt 210000))"

definition encryptKey :: "webcrypto option \<Rightarrow> nat list \<Rightarrow> nat list \<Rightarrow> jstr \<Rightarrow> jstr \<Rightarrow> encrypted_vault res" where
  "encryptKey subtle salt iv privHex password = (case subtle of None \<Rightarrow> Inl NO_WEBCRYPTO
     | Some s \<Rightarrow> bind_res (deriveAesKey subtle password salt) (\<lambda>k.
         let ct = aes_encrypt s k iv (text_encode s privHex)
         in Inr \<lparr>ev_v = 1, ev_salt = b64 salt, ev_iv = b64 iv, ev_ct = b64 ct\<rparr>))"

definition decryptKey :: "webcrypto option \<Rightarrow> encrypted_vault \<Rightarrow> jstr \<Rightarrow> jstr res" where
  "decryptKey subtle blob password = (case subtle of None \<Rightarrow> Inl NO_WEBCRYPTO
     | Some s \<Rightarrow> bind_res (ub64 (ev_salt blob)) (\<lambda>salt.
         bind_res (deriveAesKey subtle password salt) (\<lambda>k.
         bind_res (ub64 (ev_iv blob)) (\<lambda>iv. bind_res (ub64 (ev_ct blob)) (\<lambda>ct.
         bind_res (aes_decrypt s k iv ct) (\<lambda>pt. Inr (text_decode s pt)))))))"


subsection \<open>The vault in localStorage\<close>

text \<open>
  What the storage holds under \<open>eav7-wallet-vault\<close>: nothing, the empty string, text that is not
  JSON, or a vault. A storage that throws on access (blocked by the browser) is \<open>ls_blocked\<close>; a
  write can also fail for lack of space.
\<close>

datatype vault_item = EmptyText | NotJson | Vault encrypted_vault

record storage =
  ls_blocked :: bool
  ls_full :: bool
  ls_vault :: "vault_item option"

definition hasVault :: "storage \<Rightarrow> bool" where
  "hasVault ls \<longleftrightarrow> \<not> ls_blocked ls \<and> ls_vault ls \<noteq> None \<and> ls_vault ls \<noteq> Some EmptyText"

definition readVault :: "storage \<Rightarrow> encrypted_vault option" where
  "readVault ls = (if ls_blocked ls then None
     else case ls_vault ls of Some (Vault v) \<Rightarrow> Some v | _ \<Rightarrow> None)"

definition saveVault :: "webcrypto option \<Rightarrow> nat list \<Rightarrow> nat list \<Rightarrow> jstr \<Rightarrow> jstr \<Rightarrow> storage
    \<Rightarrow> unit res \<times> storage" where
  "saveVault subtle salt iv privKey password ls =
     (case encryptKey subtle salt iv privKey password of Inl e \<Rightarrow> (Inl e, ls)
      | Inr blob \<Rightarrow> if ls_blocked ls then (Inl (js ''SecurityError''), ls)
          else if ls_full ls then (Inl (js ''QuotaExceededError''), ls)
          else (Inr (), ls\<lparr>ls_vault := Some (Vault blob)\<rparr>))"

definition unlockVault :: "webcrypto option \<Rightarrow> jstr \<Rightarrow> storage \<Rightarrow> jstr res" where
  "unlockVault subtle password ls = (case readVault ls of
       None \<Rightarrow> Inl (js ''nenhuma carteira neste dispositivo'')
     | Some blob \<Rightarrow> decryptKey subtle blob password)"

definition clearVault :: "storage \<Rightarrow> unit res \<times> storage" where
  "clearVault ls = (if ls_blocked ls then (Inl (js ''SecurityError''), ls)
     else (Inr (), ls\<lparr>ls_vault := None\<rparr>))"


subsection \<open>Amounts\<close>

definition WEI_PER_E7 :: int where
  "WEI_PER_E7 = 10 ^ 12"

definition INVALID_AMOUNT :: jstr where
  "INVALID_AMOUNT = js ''valor inv'' @ [225] @ js ''lido (at'' @ [233] @ js '' 6 casas decimais)''"

definition comma_to_point :: "jstr \<Rightarrow> jstr" where
  "comma_to_point s = (let p = takeWhile (\<lambda>c. c \<noteq> 44) s; q = dropWhile (\<lambda>c. c \<noteq> 44) s
     in if q = [] then s else p @ [46] @ tl q)"

definition parseEav7ToWei :: "jstr \<Rightarrow> int res" where
  "parseEav7ToWei input = (case match_decimal 6 (comma_to_point (trim input)) of
       None \<Rightarrow> Inl INVALID_AMOUNT
     | Some (m1, m2) \<Rightarrow> bind_res (big_of_str m1) (\<lambda>whole.
         bind_res (big_of_str (pad_end 6 48 (case m2 of Some f \<Rightarrow> f | None \<Rightarrow> [48]))) (\<lambda>frc.
         Inr ((whole * 1000000 + frc) * WEI_PER_E7))))"

definition isEvmAddress :: "jstr \<Rightarrow> bool" where "isEvmAddress a = re_evm a"
definition wallet_isE7Address :: "jstr \<Rightarrow> bool" where "wallet_isE7Address a = re_e7 32 a"


subsection \<open>Signing and sending\<close>

record build_tx_args =
  bt_privateKey :: jstr
  bt_nonce :: jsnum
  bt_to :: jstr
  bt_valueWei :: int
  bt_chainId :: jsnum
  bt_gasPriceWei :: "int option"
  bt_gasLimit :: "int option"
  bt_data :: "jstr option"

text \<open>\<open>assinarTransacao\<close> of the wasm module, with the arguments it is given.\<close>

type_synonym signer = "jstr \<Rightarrow> int \<Rightarrow> jstr \<Rightarrow> jstr \<Rightarrow> int \<Rightarrow> jstr option \<Rightarrow> jstr option \<Rightarrow> jstr option \<Rightarrow> jstr res"

definition buildSignedTx :: "signer \<Rightarrow> build_tx_args \<Rightarrow> jstr res" where
  "buildSignedTx assinarTransacao a = bind_res (bigint_of_num (bt_nonce a)) (\<lambda>nonce.
     bind_res (bigint_of_num (bt_chainId a)) (\<lambda>chain.
     assinarTransacao (bt_privateKey a) nonce (bt_to a) (big_str (bt_valueWei a)) chain
       (map_option big_str (bt_gasPriceWei a)) (map_option big_str (bt_gasLimit a)) (bt_data a)))"

record send_params =
  sp_to :: jstr
  sp_valueWei :: int
  sp_chainId :: jsnum
  sp_data :: "jstr option"
  sp_gasLimit :: "int option"

text \<open>The node: the nonces of an address and the id of a posted transaction, if it names one.\<close>

record node_api =
  api_getAddress :: "jstr \<Rightarrow> (jsnum option \<times> jsnum option) res"
  api_postEavmTx :: "jstr \<Rightarrow> jstr option res"

definition NEED_POSITIVE :: jstr where "NEED_POSITIVE = js ''informe um valor positivo''"

definition NEED_EVM :: jstr where
  "NEED_EVM = js ''destino deve ser um endere'' @ [231] @ js ''o 0x (EAVM)''"

definition has_data :: "send_params \<Rightarrow> bool" where
  "has_data p \<longleftrightarrow> (case sp_data p of None \<Rightarrow> False | Some d \<Rightarrow> d \<noteq> [] \<and> d \<noteq> js ''0x'')"

definition tx_args :: "account \<Rightarrow> send_params \<Rightarrow> jsnum \<Rightarrow> build_tx_args" where
  "tx_args acct p nonce = \<lparr>bt_privateKey = privateKey acct, bt_nonce = nonce, bt_to = sp_to p,
     bt_valueWei = sp_valueWei p, bt_chainId = sp_chainId p, bt_gasPriceWei = None,
     bt_gasLimit = (case sp_gasLimit p of Some g \<Rightarrow> Some g | None \<Rightarrow> if has_data p then Some 300000 else None),
     bt_data = sp_data p\<rparr>"

definition nonce_of :: "jsnum option \<times> jsnum option \<Rightarrow> jsnum" where
  "nonce_of acc = (case fst acc of Some n \<Rightarrow> n | None \<Rightarrow> (case snd acc of Some n \<Rightarrow> n | None \<Rightarrow> Num 0))"

definition signAndSend :: "signer \<Rightarrow> node_api \<Rightarrow> account \<Rightarrow> send_params \<Rightarrow> jstr res \<times> jstr list" where
  "signAndSend sign api acct p =
     (if \<not> has_data p \<and> sp_valueWei p \<le> 0 then (Inl NEED_POSITIVE, [])
      else if \<not> isEvmAddress (sp_to p) then (Inl NEED_EVM, [])
      else case api_getAddress api (evm acct) of Inl e \<Rightarrow> (Inl e, [])
        | Inr acc \<Rightarrow> (case buildSignedTx sign (tx_args acct p (nonce_of acc)) of Inl e \<Rightarrow> (Inl e, [])
            | Inr raw \<Rightarrow> (case api_postEavmTx api raw of Inl e \<Rightarrow> (Inl e, [raw])
                | Inr i \<Rightarrow> (Inr (case i of Some s \<Rightarrow> s | None \<Rightarrow> []), [raw]))))"


subsection \<open>What the parser accepts\<close>

lemma match_decimal_digits:
  assumes "match_decimal d s = Some (a, b)"
  shows "is_digits a" "\<And>f. b = Some f \<Longrightarrow> is_digits f \<and> length f \<le> d"
proof -
  have "list_all is_digit (takeWhile is_digit s)"
    by (simp add: list_all_iff) (meson set_takeWhileD)
  then show "is_digits a" "\<And>f. b = Some f \<Longrightarrow> is_digits f \<and> length f \<le> d"
    using assms by (auto simp: match_decimal_def is_digits_def Let_def split: if_splits list.splits)
qed

lemma is_digits_pad_end: "list_all is_digit f \<Longrightarrow> 0 < d \<Longrightarrow> is_digits (pad_end d 48 f)"
  by (cases f) (auto simp: is_digits_def pad_end_def list_all_iff)

lemma parseEav7ToWei_eq:
  "parseEav7ToWei input = (case read_decimal 6 (comma_to_point (trim input)) of
     None \<Rightarrow> Inl INVALID_AMOUNT | Some n \<Rightarrow> Inr (int n * WEI_PER_E7))"
proof (cases "match_decimal 6 (comma_to_point (trim input))")
  case None
  then show ?thesis by (simp add: parseEav7ToWei_def read_decimal_def)
next
  case (Some m)
  obtain a b where m: "m = (a, b)" by fastforce
  have a: "big_of_str a = Inr (int (undec a))"
    using match_decimal_digits [OF Some [unfolded m]] by (simp add: big_of_str_digits)
  have "list_all is_digit (case b of Some f \<Rightarrow> f | None \<Rightarrow> [48])"
    using match_decimal_digits(2) [OF Some [unfolded m]] by (auto simp: is_digits_def split: option.split)
  then have "big_of_str (pad_end 6 48 (case b of Some f \<Rightarrow> f | None \<Rightarrow> [48])) = Inr (int (frac_value 6 b))"
    unfolding frac_value_def
    by (subst big_of_str_digits) (auto intro!: is_digits_pad_end split: option.splits)
  then show ?thesis
    using Some m a by (simp add: parseEav7ToWei_def read_decimal_def)
qed

lemma comma_to_point_none: "44 \<notin> set s \<Longrightarrow> comma_to_point s = s"
  by (simp add: comma_to_point_def)

lemma comma_split:
  "44 \<notin> set p \<Longrightarrow> takeWhile (\<lambda>c. c \<noteq> 44) (p @ 44 # q) = p \<and> dropWhile (\<lambda>c. c \<noteq> 44) (p @ 44 # q) = 44 # q"
  by (induction p) auto

lemma comma_to_point_append: "44 \<notin> set p \<Longrightarrow> comma_to_point (p @ 44 # q) = p @ 46 # q"
  using comma_split [of p q] by (simp add: comma_to_point_def Let_def)

text \<open>Both ways of writing an amount, with the point and with the comma.\<close>

definition with_comma :: "jstr \<Rightarrow> jstr" where
  "with_comma s = map (\<lambda>c. if c = 46 then 44 else c) s"

lemma amount_str_shape:
  "\<exists>w f. is_digits w \<and> list_all is_digit f \<and>
     amount_str d (int n) = w @ (if f = [] then [] else 46 # f)"
proof -
  have "list_all is_digit (frac_str d (int (n mod 10 ^ d)))" by (simp add: frac_str_digits)
  then show ?thesis
    by (intro exI [of _ "dec (n div 10 ^ d)"] exI [of _ "frac_str d (int (n mod 10 ^ d))"])
      (simp add: amount_str_nat Let_def)
qed

lemma digits_plain: "list_all is_digit s \<Longrightarrow> c \<in> set s \<Longrightarrow> c \<noteq> 44 \<and> c \<noteq> 46 \<and> \<not> is_ws c"
  using is_digit_not_ws by (auto simp: list_all_iff is_digit_def)

lemma amount_text_trimmed:
  "trim (amount_str d (int n)) = amount_str d (int n)"
  "trim (with_comma (amount_str d (int n))) = with_comma (amount_str d (int n))"
  "comma_to_point (amount_str d (int n)) = amount_str d (int n)"
  "comma_to_point (with_comma (amount_str d (int n))) = amount_str d (int n)"
proof -
  obtain w f where w: "list_all is_digit w" and f: "list_all is_digit f"
    and e: "amount_str d (int n) = w @ (if f = [] then [] else 46 # f)"
    using amount_str_shape [of d n] by (auto simp: is_digits_def)
  have ws: "\<not> is_ws 46" "\<not> is_ws 44" by (simp_all add: is_ws_def)
  have m: "map (\<lambda>c. if c = 46 then 44 else c) w = w" "map (\<lambda>c. if c = 46 then 44 else c) f = f"
    using digits_plain [OF w] digits_plain [OF f] by (auto intro!: map_idI)
  have c: "with_comma (amount_str d (int n)) = w @ (if f = [] then [] else 44 # f)"
    using m by (simp add: with_comma_def e)
  show "trim (amount_str d (int n)) = amount_str d (int n)"
    unfolding e using digits_plain [OF w] digits_plain [OF f] ws by (intro trim_no_ws) (auto split: if_splits)
  show "trim (with_comma (amount_str d (int n))) = with_comma (amount_str d (int n))"
    unfolding c using digits_plain [OF w] digits_plain [OF f] ws by (intro trim_no_ws) (auto split: if_splits)
  show "comma_to_point (amount_str d (int n)) = amount_str d (int n)"
    unfolding e using digits_plain [OF w] digits_plain [OF f] by (intro comma_to_point_none) auto
  have "44 \<notin> set w" using digits_plain [OF w] by blast
  then show "comma_to_point (with_comma (amount_str d (int n))) = amount_str d (int n)"
    unfolding c by (simp add: e comma_to_point_append comma_to_point_none)
qed

lemma parse_amount_str:
  "parseEav7ToWei (amount_str 6 (int n)) = Inr (int n * WEI_PER_E7)"
  "parseEav7ToWei (with_comma (amount_str 6 (int n))) = Inr (int n * WEI_PER_E7)"
  by (simp_all add: parseEav7ToWei_eq amount_text_trimmed read_amount_str)

lemma parse_Inr:
  "parseEav7ToWei s = Inr w \<Longrightarrow> \<exists>n. w = int n * WEI_PER_E7"
  by (auto simp: parseEav7ToWei_eq split: option.splits)

lemma parse_Inl: "parseEav7ToWei s = Inl e \<Longrightarrow> e = INVALID_AMOUNT"
  by (auto simp: parseEav7ToWei_eq split: option.splits)


subsection \<open>The vault\<close>

text \<open>
  What the documentation of AES-GCM and of the text coders promises: decryption with the key and
  the nonce of the encryption gives the plaintext, and decoding what was encoded gives the text.
\<close>

definition crypto_ok :: "webcrypto \<Rightarrow> bool" where
  "crypto_ok s \<longleftrightarrow> (\<forall>k iv pt. (\<forall>b \<in> set pt. b < 256) \<longrightarrow>
       aes_decrypt s k iv (aes_encrypt s k iv pt) = Inr pt \<and> (\<forall>b \<in> set (aes_encrypt s k iv pt). b < 256))
     \<and> (\<forall>t. list_all (\<lambda>c. c < 128) t \<longrightarrow>
       text_decode s (text_encode s t) = t \<and> (\<forall>b \<in> set (text_encode s t). b < 256))"

lemma decrypt_encrypt:
  assumes "crypto_ok s" "list_all (\<lambda>c. c < 128) key"
    and "\<forall>b \<in> set salt. b < 256" "\<forall>b \<in> set iv. b < 256"
    and "encryptKey (Some s) salt iv key pw = Inr blob"
  shows "decryptKey (Some s) blob pw = Inr key"
proof -
  let ?k = "pbkdf2 s (text_encode s pw) salt 210000"
  have bytes: "\<forall>b \<in> set (text_encode s key). b < 256" and dec: "text_decode s (text_encode s key) = key"
    using assms(1,2) by (simp_all add: crypto_ok_def)
  then have aes: "aes_decrypt s ?k iv (aes_encrypt s ?k iv (text_encode s key)) = Inr (text_encode s key)"
    "\<forall>b \<in> set (aes_encrypt s ?k iv (text_encode s key)). b < 256"
    using assms(1) by (simp_all add: crypto_ok_def)
  have "blob = \<lparr>ev_v = 1, ev_salt = b64 salt, ev_iv = b64 iv,
      ev_ct = b64 (aes_encrypt s ?k iv (text_encode s key))\<rparr>"
    using assms(5) by (simp add: encryptKey_def deriveAesKey_def Let_def)
  then show ?thesis
    using assms(3,4) aes dec by (simp add: decryptKey_def deriveAesKey_def ub64_b64)
qed

lemma saved_unlocks:
  assumes "crypto_ok s" "list_all (\<lambda>c. c < 128) key"
    and "\<forall>b \<in> set salt. b < 256" "\<forall>b \<in> set iv. b < 256"
    and "\<not> ls_blocked ls" "\<not> ls_full ls"
  obtains ls' where "saveVault (Some s) salt iv key pw ls = (Inr (), ls')" "hasVault ls'" "\<not> ls_blocked ls'"
    "unlockVault (Some s) pw ls' = Inr key"
proof -
  obtain blob where b: "encryptKey (Some s) salt iv key pw = Inr blob"
    by (simp add: encryptKey_def deriveAesKey_def Let_def)
  have "decryptKey (Some s) blob pw = Inr key"
    by (rule decrypt_encrypt [OF assms(1-4) b])
  then show ?thesis
    using that [of "ls\<lparr>ls_vault := Some (Vault blob)\<rparr>"] b assms(5,6)
    by (simp add: saveVault_def hasVault_def unlockVault_def readVault_def)
qed

text \<open>An amount shown with one separator, read by the parser.\<close>

lemma group3_split: "0 < length p \<Longrightarrow> length p \<le> 3 \<Longrightarrow> group3 sep (p @ [x, y, z]) = p @ sep # [x, y, z]"
proof -
  assume a: "0 < length p" "length p \<le> 3"
  then obtain c q where q: "rev p = c # q" by (cases "rev p") auto
  have "group_rev sep (rev p) = rev p"
    using group3_short [OF a(2), of sep] by (metis group3_def rev_rev_ident)
  moreover have "p = rev q @ [c]" using q by (metis rev.simps(2) rev_rev_ident)
  ultimately show ?thesis using q by (simp add: group3_def)
qed

lemma shown_thousandth:
  assumes n: "1000 \<le> n" "n < 1000000"
  shows "parseEav7ToWei (fmt (BBig (int n * 1000000))) = Inr (int n * 1000 * WEI_PER_E7)"
proof -
  have "n < 10 ^ length (dec n)"
    using undec_less [OF dec_digits [of n]] by simp
  moreover have "length (dec n) \<le> 3 \<Longrightarrow> (10::nat) ^ length (dec n) \<le> 10 ^ 3"
    by (rule power_increasing) simp_all
  ultimately have l3: "3 < length (dec n)" using n(1) by (cases "3 < length (dec n)") auto
  have l6: "length (dec n) \<le> 6" using length_to_base_le [of 10 n 6] n by simp
  obtain p q where pq: "dec n = p @ q" "length p = length (dec n) - 3"
    by (metis append_take_drop_id diff_le_self length_take min.absorb2)
  then have "length q = 3" using l3 by (metis add_diff_cancel_left' diff_diff_cancel length_append less_imp_le)
  then obtain x y z where "q = [x, y, z]" by (auto simp: numeral_3_eq_3 length_Suc_conv)
  with pq have d: "dec n = p @ [x, y, z]" by simp
  have p: "0 < length p" "length p \<le> 3" using pq(2) l3 l6 by linarith+
  have "list_all is_digit (p @ [x, y, z])" using dec_digits [of n] d by metis
  then have dg: "is_digits p" "is_digits [x, y, z]" using p by (auto simp: is_digits_def)
  have f: "fmt (BBig (int n * 1000000)) = p @ 46 # [x, y, z]"
  proof -
    have "int_locale (int n) = group3 46 (dec n)"
      by (rule int_locale_nat) (use n in simp)
    also have "\<dots> = group3 46 (p @ [x, y, z])" using d by simp
    also have "\<dots> = p @ 46 # [x, y, z]" by (rule group3_split [OF p])
    finally show ?thesis
      using frac_str_zero [of 6] by (simp add: fmt_def UNIT_def comma_frac_def frac_str_def)
  qed
  have "trim (p @ 46 # [x, y, z]) = p @ 46 # [x, y, z]"
    using dg digits_plain [of p] digits_plain [of "[x, y, z]"]
    by (intro trim_no_ws) (auto simp: is_digits_def is_ws_def)
  moreover have "comma_to_point (p @ 46 # [x, y, z]) = p @ 46 # [x, y, z]"
    using dg digits_plain [of p] digits_plain [of "[x, y, z]"]
    by (intro comma_to_point_none) (auto simp: is_digits_def)
  moreover have "read_decimal 6 (p @ 46 # [x, y, z]) = Some (n * 1000)"
  proof -
    have "undec (p @ [x, y, z]) = n" using d undec_dec by metis
    then have "undec p * 1000 + undec [x, y, z] = n" by (simp add: of_base_append)
    moreover have "undec ([x, y, z] @ replicate 3 48) = undec [x, y, z] * 1000"
      unfolding of_base_append by simp
    ultimately show ?thesis
      using dg by (simp add: read_decimal_def match_decimal_point frac_value_def pad_end_def)
  qed
  ultimately show ?thesis by (simp add: f parseEav7ToWei_eq)
qed

lemma signAndSend_posts:
  assumes "signAndSend sign api acct p = (r, posted)" "posted \<noteq> []"
  obtains acc raw where "posted = [raw]" "isEvmAddress (sp_to p)" "0 < sp_valueWei p \<or> has_data p"
    "api_getAddress api (evm acct) = Inr acc"
    "buildSignedTx sign (tx_args acct p (nonce_of acc)) = Inr raw"
  using assms by (auto simp: signAndSend_def split: if_splits sum.splits)


subsection \<open>Properties\<close>

text \<open>
  C25. The amount parser reads every amount of e7 as written, with the point or with the comma,
  as that many wei, and whatever it accepts is a whole number of e7 and not negative: nothing the
  chain cannot represent is ever signed. Everything else is one and the same error.
\<close>

theorem parse_amount_exact:
  "parseEav7ToWei (amount_str 6 (int n)) = Inr (int n * 10 ^ 12)
   \<and> parseEav7ToWei (with_comma (amount_str 6 (int n))) = Inr (int n * 10 ^ 12)
   \<and> (case parseEav7ToWei s of Inr w \<Rightarrow> 0 \<le> w \<and> w mod 10 ^ 12 = 0 | Inl e \<Rightarrow> e = INVALID_AMOUNT)"
proof (intro conjI)
  show "case parseEav7ToWei s of Inr w \<Rightarrow> 0 \<le> w \<and> w mod 10 ^ 12 = 0 | Inl e \<Rightarrow> e = INVALID_AMOUNT"
    using parse_Inr [of s] parse_Inl [of s]
    by (cases "parseEav7ToWei s") (auto simp: WEI_PER_E7_def)
qed (simp_all add: parse_amount_str WEI_PER_E7_def)

text \<open>
  The balance line and the amount field disagree on what a point is: a balance of 1000 up to
  999999 whole coins, typed as \<open>fmt\<close> shows it, is read as a thousandth of it.
\<close>

theorem shown_amount_misread:
  assumes "1000 \<le> n" "n < 1000000"
  shows "parseEav7ToWei (fmt (BBig (int n * 1000000))) = Inr (int n * 1000 * WEI_PER_E7)"
  using shown_thousandth [OF assms] .

theorem shown_amount_misread_witness:
  "parseEav7ToWei (fmt (BBig (int 1234 * 1000000))) = Inr (1234000 * 10 ^ 12)"
  using shown_amount_misread [of 1234] by (simp add: WEI_PER_E7_def)

text \<open>
  What the vault stores under a password unlocks with that password, to the key that was
  saved, on any browser whose storage and cryptography work.
\<close>

theorem vault_roundtrip:
  assumes "crypto_ok s" "list_all (\<lambda>c. c < 128) key"
    and "\<forall>b \<in> set salt. b < 256" "\<forall>b \<in> set iv. b < 256"
    and "\<not> ls_blocked ls" "\<not> ls_full ls"
  shows "\<exists>ls'. saveVault (Some s) salt iv key pw ls = (Inr (), ls') \<and> hasVault ls'
    \<and> unlockVault (Some s) pw ls' = Inr key
    \<and> (\<exists>ls''. clearVault ls' = (Inr (), ls'') \<and> \<not> hasVault ls''
         \<and> unlockVault (Some s) pw ls'' = Inl (js ''nenhuma carteira neste dispositivo''))"
proof -
  obtain ls' where "saveVault (Some s) salt iv key pw ls = (Inr (), ls')" "hasVault ls'" "\<not> ls_blocked ls'"
    "unlockVault (Some s) pw ls' = Inr key"
    by (rule saved_unlocks [OF assms])
  then show ?thesis
    by (simp add: hasVault_def unlockVault_def readVault_def clearVault_def)
qed

text \<open>A browser to evaluate on: a shift cipher.\<close>

definition demo_crypto :: webcrypto where
  "demo_crypto = \<lparr>text_encode = (\<lambda>t. t), text_decode = (\<lambda>b. b), pbkdf2 = (\<lambda>p salt n. p),
     aes_encrypt = (\<lambda>k iv pt. map (\<lambda>b. (b + 7) mod 256) pt),
     aes_decrypt = (\<lambda>k iv ct. Inr (map (\<lambda>b. (b + 249) mod 256) ct))\<rparr>"

lemma demo_crypto_ok: "crypto_ok demo_crypto"
proof -
  have e: "((b + 7) mod 256 + 249) mod 256 = b" if "b < 256" for b :: nat
    unfolding mod_add_left_eq using that by simp
  have "map (\<lambda>b. (b + 249) mod 256) (map (\<lambda>b. (b + 7) mod 256) pt) = pt"
    if "\<forall>b \<in> set pt. b < 256" for pt :: "nat list"
    unfolding map_map comp_def by (rule map_idI) (rule e, use that in blast)
  moreover have "\<forall>b \<in> set t. b < 256" if "list_all (\<lambda>c. c < 128) t" for t :: "nat list"
    using that by (auto simp: list_all_iff)
  ultimately show ?thesis
    by (simp add: crypto_ok_def demo_crypto_def del: map_map)
qed

definition demo_storage :: storage where
  "demo_storage = \<lparr>ls_blocked = False, ls_full = False, ls_vault = None\<rparr>"

theorem vault_roundtrip_witness:
  "\<exists>ls'. saveVault (Some demo_crypto) [1, 2, 3] [4, 5] (js ''0x1f2e'') (js ''pw'') demo_storage = (Inr (), ls')
     \<and> unlockVault (Some demo_crypto) (js ''pw'') ls' = Inr (js ''0x1f2e'')"
  using vault_roundtrip [OF demo_crypto_ok, of "js ''0x1f2e''" "[1, 2, 3]" "[4, 5]" demo_storage "js ''pw''"]
  by (auto simp: demo_storage_def js_eval)


definition demo_signer :: signer where
  "demo_signer pk nonce t v chain gp gl d = Inr (t @ v)"

definition demo_api :: node_api where
  "demo_api = \<lparr>api_getAddress = (\<lambda>_. Inr (Some (Num 7), None)), api_postEavmTx = (\<lambda>_. Inr (Some (js ''id1'')))\<rparr>"

definition demo_account :: account where
  "demo_account = \<lparr>privateKey = js ''0x01'', evm = js ''0x2ddd408bbd8c84fb64ac950f578e9297e7002a35'',
     eav7 = js ''E7''\<rparr>"


end
