(* ===== verification/SendFlow.thy ===== *)
theory SendFlow
  imports Wallet
begin

section \<open>Sending from the wallet (\<open>components/wallet/send-flow.tsx\<close>)\<close>

text \<open>
  The three-step form of the wallet as a state machine: the fields of its \<open>useState\<close> calls, the
  balance the page passes in, the reads of the clipboard that are still waiting, the transfer
  that is being signed and the transactions posted so far. Each handler is a function on the
  state; \<open>flow_step\<close> says when the page offers it. Amounts and addresses are exact; the texts of
  the error messages are the keys of the dictionary.
\<close>

definition FEE_WEI :: int where
  "FEE_WEI = 476190476190 * 21000"

definition weiToEav7Str :: "int \<Rightarrow> jstr" where
  "weiToEav7Str wei = (let e7 = big_div wei WEI_PER_E7; whole = big_div e7 1000000;
      frc = strip_zeros (pad_start 6 48 (big_str (big_mod e7 1000000)))
    in if frc \<noteq> [] then big_str whole @ [46] @ frc else big_str whole)"

definition fmtWei :: "int \<Rightarrow> jstr" where
  "fmtWei wei = fmt (BBig (big_div wei WEI_PER_E7))"

datatype flow_at = Destination | Amount | Review

record send_flow =
  sf_step :: flow_at
  sf_to :: jstr
  sf_amount :: jstr
  sf_err :: jstr
  sf_busy :: bool
  sf_sentId :: "jstr option"
  sf_balanceE7 :: int
  sf_pastes :: nat
  sf_inflight :: "send_params option"
  sf_posted :: "(jstr \<times> int) list"

definition flow_start :: "int \<Rightarrow> send_flow" where
  "flow_start balance = \<lparr>sf_step = Destination, sf_to = [], sf_amount = [], sf_err = [], sf_busy = False,
     sf_sentId = None, sf_balanceE7 = balance, sf_pastes = 0, sf_inflight = None, sf_posted = []\<rparr>"

definition balanceWei :: "send_flow \<Rightarrow> int" where
  "balanceWei s = sf_balanceE7 s * WEI_PER_E7"

definition valueWei :: "send_flow \<Rightarrow> int" where
  "valueWei s = (if sf_amount s \<noteq> [] then (case parseEav7ToWei (sf_amount s) of Inr v \<Rightarrow> v | Inl _ \<Rightarrow> 0) else 0)"

definition afterWei :: "send_flow \<Rightarrow> int" where
  "afterWei s = balanceWei s - valueWei s - FEE_WEI"

text \<open>\<open>if (sentId)\<close>: the page shows the receipt for a non-empty id only.\<close>

definition shows_receipt :: "send_flow \<Rightarrow> bool" where
  "shows_receipt s \<longleftrightarrow> (case sf_sentId s of None \<Rightarrow> False | Some i \<Rightarrow> i \<noteq> [])"

definition nextFromRecipient :: "send_flow \<Rightarrow> send_flow" where
  "nextFromRecipient s = (let s1 = s\<lparr>sf_err := []\<rparr>; trimmedTo = trim (sf_to s) in
     if wallet_isE7Address trimmedTo then s1\<lparr>sf_err := js ''wallet_send.errors.needEvmAddress''\<rparr>
     else if \<not> isEvmAddress trimmedTo then s1\<lparr>sf_err := js ''wallet_send.errors.invalidAddress''\<rparr>
     else s1\<lparr>sf_step := Amount\<rparr>)"

definition nextFromAmount :: "send_flow \<Rightarrow> send_flow" where
  "nextFromAmount s = (let s1 = s\<lparr>sf_err := []\<rparr> in
     case parseEav7ToWei (sf_amount s) of
       Inl e \<Rightarrow> s1\<lparr>sf_err := e\<rparr>
     | Inr v \<Rightarrow> if v \<le> 0 then s1\<lparr>sf_err := js ''wallet_send.errors.needPositiveAmount''\<rparr>
         else if balanceWei s < v + FEE_WEI then s1\<lparr>sf_err := js ''wallet_send.errors.insufficientBalance''\<rparr>
         else s1\<lparr>sf_step := Review\<rparr>)"

definition setPercent :: "int \<Rightarrow> send_flow \<Rightarrow> send_flow" where
  "setPercent p s = (let usable = balanceWei s - FEE_WEI in
     if usable \<le> 0 then s\<lparr>sf_amount := js ''0''\<rparr>
     else s\<lparr>sf_amount := weiToEav7Str (big_div (usable * p) 100)\<rparr>)"

definition paste_text :: "jstr \<Rightarrow> send_flow \<Rightarrow> send_flow" where
  "paste_text t s = (if t \<noteq> [] then s\<lparr>sf_to := trim t\<rparr> else s)"

definition confirm_params :: "jsnum \<Rightarrow> send_flow \<Rightarrow> send_params" where
  "confirm_params chainId s = \<lparr>sp_to = trim (sf_to s), sp_valueWei = valueWei s, sp_chainId = chainId,
     sp_data = None, sp_gasLimit = None\<rparr>"

definition confirm_click :: "jsnum \<Rightarrow> send_flow \<Rightarrow> send_flow" where
  "confirm_click chainId s =
     s\<lparr>sf_busy := True, sf_err := [], sf_inflight := Some (confirm_params chainId s)\<rparr>"

definition confirm_settled :: "jstr res \<times> jstr list \<Rightarrow> send_params \<Rightarrow> send_flow \<Rightarrow> send_flow" where
  "confirm_settled r p s = (let s1 = s\<lparr>sf_busy := False, sf_inflight := None,
       sf_posted := sf_posted s @ map (\<lambda>_. (sp_to p, sp_valueWei p)) (snd r)\<rparr> in
     case fst r of Inr i \<Rightarrow> s1\<lparr>sf_sentId := Some i\<rparr> | Inl e \<Rightarrow> s1\<lparr>sf_err := e\<rparr>)"

inductive flow_step :: "signer \<Rightarrow> account \<Rightarrow> jsnum \<Rightarrow> send_flow \<Rightarrow> send_flow \<Rightarrow> bool"
  for sign acct chainId where
  type_to: "sf_step s = Destination \<Longrightarrow> \<not> shows_receipt s \<Longrightarrow> flow_step sign acct chainId s (s\<lparr>sf_to := t\<rparr>)"
| paste_ask: "sf_step s = Destination \<Longrightarrow> \<not> shows_receipt s \<Longrightarrow>
    flow_step sign acct chainId s (s\<lparr>sf_pastes := Suc (sf_pastes s)\<rparr>)"
| paste_come: "sf_pastes s = Suc k \<Longrightarrow> flow_step sign acct chainId s (paste_text t (s\<lparr>sf_pastes := k\<rparr>))"
| paste_refused: "sf_pastes s = Suc k \<Longrightarrow> flow_step sign acct chainId s (s\<lparr>sf_pastes := k\<rparr>)"
| to_amount: "sf_step s = Destination \<Longrightarrow> \<not> shows_receipt s \<Longrightarrow>
    flow_step sign acct chainId s (nextFromRecipient s)"
| type_amount: "sf_step s = Amount \<Longrightarrow> \<not> shows_receipt s \<Longrightarrow>
    flow_step sign acct chainId s (s\<lparr>sf_amount := t\<rparr>)"
| percent: "sf_step s = Amount \<Longrightarrow> \<not> shows_receipt s \<Longrightarrow> p \<in> {25, 50, 75, 100} \<Longrightarrow>
    flow_step sign acct chainId s (setPercent p s)"
| to_review: "sf_step s = Amount \<Longrightarrow> \<not> shows_receipt s \<Longrightarrow>
    flow_step sign acct chainId s (nextFromAmount s)"
| back_to_destination: "sf_step s = Amount \<Longrightarrow> \<not> shows_receipt s \<Longrightarrow>
    flow_step sign acct chainId s (s\<lparr>sf_step := Destination\<rparr>)"
| back_to_amount: "sf_step s = Review \<Longrightarrow> \<not> shows_receipt s \<Longrightarrow> \<not> sf_busy s \<Longrightarrow>
    flow_step sign acct chainId s (s\<lparr>sf_step := Amount\<rparr>)"
| confirm: "sf_step s = Review \<Longrightarrow> \<not> shows_receipt s \<Longrightarrow> \<not> sf_busy s \<Longrightarrow>
    flow_step sign acct chainId s (confirm_click chainId s)"
| settled: "sf_inflight s = Some p \<Longrightarrow>
    flow_step sign acct chainId s (confirm_settled (signAndSend sign api acct p) p s)"
| balance: "flow_step sign acct chainId s (s\<lparr>sf_balanceE7 := b\<rparr>)"

inductive flow_reach :: "signer \<Rightarrow> account \<Rightarrow> jsnum \<Rightarrow> send_flow \<Rightarrow> send_flow \<Rightarrow> bool"
  for sign acct chainId s0 where
  flow_refl: "flow_reach sign acct chainId s0 s0"
| flow_more: "flow_reach sign acct chainId s0 s \<Longrightarrow> flow_step sign acct chainId s s' \<Longrightarrow>
    flow_reach sign acct chainId s0 s'"

inductive_cases flow_step_cases: "flow_step sign acct chainId s s'"


subsection \<open>The invariant\<close>

definition flow_ok :: "send_flow \<Rightarrow> bool" where
  "flow_ok s \<longleftrightarrow> (sf_step s = Review \<longrightarrow> 0 < valueWei s)
     \<and> (sf_busy s \<longleftrightarrow> sf_inflight s \<noteq> None)
     \<and> (sf_busy s \<longrightarrow> sf_step s = Review)
     \<and> (\<forall>p. sf_inflight s = Some p \<longrightarrow> sp_valueWei p = valueWei s \<and> sp_data p = None)
     \<and> (\<forall>(t, v) \<in> set (sf_posted s). re_evm t \<and> 0 < v)"

lemma parse_empty: "parseEav7ToWei [] = Inl INVALID_AMOUNT"
  by (simp add: parseEav7ToWei_eq comma_to_point_def trim_def trim_start_def trim_end_def
      read_decimal_def match_decimal_def)

lemma nextFromAmount_cases:
  obtains e where "nextFromAmount s = s\<lparr>sf_err := e\<rparr>" "e \<noteq> []"
  | v where "parseEav7ToWei (sf_amount s) = Inr v" "0 < v" "v + FEE_WEI \<le> balanceWei s"
      "nextFromAmount s = s\<lparr>sf_err := [], sf_step := Review\<rparr>"
proof (cases "parseEav7ToWei (sf_amount s)")
  case (Inl e)
  then have "e \<noteq> []" using parse_Inl by (auto simp: INVALID_AMOUNT_def)
  then show ?thesis using Inl that(1) by (simp add: nextFromAmount_def)
next
  case (Inr v)
  then show ?thesis
    using that(1) [of "js ''wallet_send.errors.needPositiveAmount''"]
      that(1) [of "js ''wallet_send.errors.insufficientBalance''"] that(2) [of v]
    by (cases "v \<le> 0"; cases "balanceWei s < v + FEE_WEI") (simp_all add: nextFromAmount_def)
qed

lemma valueWei_parse: "parseEav7ToWei (sf_amount s) = Inr v \<Longrightarrow> valueWei s = v"
  using parse_empty by (auto simp: valueWei_def)

lemma flow_step_ok:
  assumes "flow_step sign acct chainId s s'" "flow_ok s"
  shows "flow_ok s'"
  using assms
proof cases
  case (settled p api)
  have "signAndSend sign api acct p = (r, posted) \<Longrightarrow> raw \<in> set posted \<Longrightarrow> sp_data p = None \<Longrightarrow>
      re_evm (sp_to p) \<and> 0 < sp_valueWei p" for r posted raw
    by (auto simp: signAndSend_def has_data_def isEvmAddress_def split: if_splits sum.splits)
  then show ?thesis
    using settled assms(2) by (cases "signAndSend sign api acct p")
      (auto simp: flow_ok_def confirm_settled_def Let_def valueWei_def split: sum.splits)
next
  case to_amount
  then show ?thesis using assms(2)
    by (auto simp: flow_ok_def nextFromRecipient_def Let_def valueWei_def)
next
  case to_review
  show ?thesis
  proof (cases rule: nextFromAmount_cases [of s])
    case (1 e)
    then show ?thesis using to_review assms(2) by (auto simp: flow_ok_def valueWei_def)
  next
    case (2 v)
    then have "valueWei s = v" by (intro valueWei_parse)
    then show ?thesis using 2 to_review assms(2) by (auto simp: flow_ok_def valueWei_def)
  qed
next
  case (percent p)
  then show ?thesis using assms(2) by (auto simp: flow_ok_def setPercent_def Let_def)
next
  case (paste_come k t)
  then show ?thesis using assms(2) by (auto simp: flow_ok_def paste_text_def valueWei_def)
next
  case confirm
  then show ?thesis using assms(2) by (auto simp: flow_ok_def confirm_click_def confirm_params_def valueWei_def)
qed (auto simp: flow_ok_def valueWei_def)

lemma flow_reach_ok: "flow_reach sign acct chainId s0 s \<Longrightarrow> flow_ok s0 \<Longrightarrow> flow_ok s"
  by (induction rule: flow_reach.induct) (auto intro: flow_step_ok)

lemma flow_start_ok: "flow_ok (flow_start b)"
  by (simp add: flow_ok_def flow_start_def)

lemma flow_reach_trans:
  "flow_reach sign acct chainId s1 s2 \<Longrightarrow> flow_reach sign acct chainId s0 s1 \<Longrightarrow> flow_reach sign acct chainId s0 s2"
  by (induction rule: flow_reach.induct) (auto intro: flow_reach.intros)


subsection \<open>The percent buttons\<close>

lemma weiToEav7Str_eq: "weiToEav7Str wei = amount_str 6 (big_div wei WEI_PER_E7)"
  by (simp add: weiToEav7Str_def amount_str_def frac_str_def Let_def)

interpretation wei_text: amount_printer 6 "\<lambda>n. weiToEav7Str (n * WEI_PER_E7)"
proof unfold_locales
  fix n
  have "big_div (int n * WEI_PER_E7) WEI_PER_E7 = int n"
    by (simp add: WEI_PER_E7_def)
  then show "read_decimal 6 (weiToEav7Str (int n * WEI_PER_E7)) = Some n"
    by (simp add: weiToEav7Str_eq read_amount_str)
qed

lemma setPercent_amount:
  assumes "FEE_WEI < balanceWei s" "0 \<le> p"
  shows "sf_amount (setPercent p s) = amount_str 6 ((balanceWei s - FEE_WEI) * p div 100 div WEI_PER_E7)"
  using assms by (simp add: setPercent_def weiToEav7Str_eq WEI_PER_E7_def Let_def pos_imp_zdiv_nonneg_iff)

lemma setPercent_parse:
  assumes "FEE_WEI < balanceWei s" "0 \<le> p"
  shows "parseEav7ToWei (sf_amount (setPercent p s)) =
    Inr ((balanceWei s - FEE_WEI) * p div 100 div WEI_PER_E7 * WEI_PER_E7)"
proof -
  have "0 \<le> (balanceWei s - FEE_WEI) * p div 100 div WEI_PER_E7"
    using assms by (simp add: WEI_PER_E7_def pos_imp_zdiv_nonneg_iff)
  then obtain n where n: "(balanceWei s - FEE_WEI) * p div 100 div WEI_PER_E7 = int n"
    using nonneg_eq_int by blast
  then show ?thesis
    using setPercent_amount [OF assms] by (simp add: parse_amount_str)
qed

lemma setPercent_frame [simp]:
  "balanceWei (setPercent p s) = balanceWei s" "sf_step (setPercent p s) = sf_step s"
  "sf_balanceE7 (setPercent p s) = sf_balanceE7 s"
  by (simp_all add: setPercent_def balanceWei_def Let_def)


subsection \<open>Two runs of the form\<close>

lemma flow_trans:
  "flow_reach sign acct chainId s0 s \<Longrightarrow> flow_step sign acct chainId s s1 \<Longrightarrow> s1 = s2 \<Longrightarrow>
    flow_reach sign acct chainId s0 s2"
  using flow_more by blast

text \<open>From the empty form to the review step, with \<open>n\<close> clipboard reads still waiting.\<close>

lemma pastes_asked:
  "flow_reach sign acct chainId (flow_start bal) ((flow_start bal)\<lparr>sf_pastes := n\<rparr>)"
proof (induction n)
  case 0
  have "(flow_start bal)\<lparr>sf_pastes := 0\<rparr> = flow_start bal" by (simp add: flow_start_def)
  then show ?case by (simp add: flow_refl)
next
  case (Suc n)
  then show ?case
    by (rule flow_trans [OF _ flow_step.paste_ask]) (simp_all add: flow_start_def shows_receipt_def)
qed

lemma review_reached:
  assumes "re_evm a" "parseEav7ToWei x = Inr v" "0 < v" "v + FEE_WEI \<le> bal * WEI_PER_E7"
  shows "flow_reach sign acct chainId (flow_start bal)
    ((flow_start bal)\<lparr>sf_pastes := n, sf_to := a, sf_amount := x, sf_step := Review\<rparr>)"
proof -
  let ?s = "(flow_start bal)\<lparr>sf_pastes := n, sf_to := a\<rparr>"
  have "flow_reach sign acct chainId (flow_start bal) ?s"
    by (rule flow_trans [OF pastes_asked flow_step.type_to]) (simp_all add: flow_start_def shows_receipt_def)
  then have "flow_reach sign acct chainId (flow_start bal) (?s\<lparr>sf_step := Amount\<rparr>)"
    by (rule flow_trans [OF _ flow_step.to_amount])
      (simp_all add: flow_start_def shows_receipt_def nextFromRecipient_def wallet_isE7Address_def
        isEvmAddress_def Let_def assms(1) trim_evm [OF assms(1)] re_evm_not_e7 [OF assms(1)])
  then have "flow_reach sign acct chainId (flow_start bal) (?s\<lparr>sf_step := Amount, sf_amount := x\<rparr>)"
    by (rule flow_trans [OF _ flow_step.type_amount]) (simp_all add: flow_start_def shows_receipt_def)
  then show ?thesis
    by (rule flow_trans [OF _ flow_step.to_review])
      (use assms(2-4) in \<open>simp_all add: flow_start_def shows_receipt_def nextFromAmount_def balanceWei_def Let_def\<close>)
qed

text \<open>One confirmation that the node accepts.\<close>

lemma confirm_once:
  assumes "sf_step u = Review" "\<not> shows_receipt u" "\<not> sf_busy u"
    and "signAndSend sign api acct (confirm_params chainId u) = (Inr i, [raw])"
  obtains t where "flow_reach sign acct chainId u t" "sf_step t = Review" "sf_sentId t = Some i" "\<not> sf_busy t"
    "confirm_params chainId t = confirm_params chainId u" "sf_err t = []"
    "sf_posted t = sf_posted u @ [(trim (sf_to u), valueWei u)]"
proof -
  let ?c = "confirm_click chainId u"
  let ?t = "confirm_settled (signAndSend sign api acct (confirm_params chainId u)) (confirm_params chainId u) ?c"
  have 1: "flow_step sign acct chainId u ?c" using assms by (intro flow_step.confirm)
  have 2: "flow_step sign acct chainId ?c ?t"
    by (rule flow_step.settled) (simp add: confirm_click_def)
  show thesis
    by (rule that [of ?t]) (use flow_more [OF flow_more [OF flow_refl 1] 2] assms in
      \<open>simp_all add: confirm_settled_def confirm_click_def confirm_params_def valueWei_def\<close>)
qed

lemma parse_one: "parseEav7ToWei (js ''1'') = Inr (10 ^ 18)"
  by (simp add: parseEav7ToWei_eq read_decimal_def match_decimal_def comma_to_point_def WEI_PER_E7_def
      js_eval num_eval of_base_Cons digit_val_def)

definition demo_review :: send_flow where
  "demo_review = (flow_start 2000000)\<lparr>sf_pastes := 0, sf_to := js ''0x0000000000000000000000000000000000007001'',
     sf_amount := js ''1'', sf_step := Review\<rparr>"

lemma demo_review_reached: "flow_reach demo_signer demo_account (Num 72020) (flow_start 2000000) demo_review"
  unfolding demo_review_def
  by (rule review_reached [OF _ parse_one])
    (simp_all add: re_evm_def js_eval char_class_defs FEE_WEI_def WEI_PER_E7_def)

lemma demo_review_value: "valueWei demo_review = 10 ^ 18"
  by (rule valueWei_parse) (simp add: demo_review_def parse_one)

lemma demo_review_sent:
  assumes "api_getAddress api = api_getAddress demo_api" "\<And>raw. api_postEavmTx api raw = Inr r"
  shows "\<exists>raw. signAndSend demo_signer api demo_account (confirm_params (Num 72020) demo_review)
    = (Inr (case r of Some s \<Rightarrow> s | None \<Rightarrow> []), [raw])"
proof -
  have t: "trim (sf_to demo_review) = js ''0x0000000000000000000000000000000000007001''"
    by (simp add: demo_review_def js_eval)
  show ?thesis
    unfolding confirm_params_def t demo_review_value using assms
    by (simp add: signAndSend_def has_data_def isEvmAddress_def demo_api_def buildSignedTx_def tx_args_def
        nonce_of_def bigint_of_num_def demo_signer_def, simp add: re_evm_def js_eval char_class_defs)
qed

lemma demo_review_at: "sf_step demo_review = Review" "\<not> shows_receipt demo_review" "\<not> sf_busy demo_review"
  by (simp_all add: demo_review_def shows_receipt_def flow_start_def)


subsection \<open>Properties\<close>

text \<open>
  C19. Whatever the user, the clipboard, the balance and the node do and in whatever order, every
  transaction the form posts goes to a well-formed 0x address with a positive value, and on the
  review step the amount shown is positive.
\<close>

theorem flow_posts_valid:
  assumes "flow_reach sign acct chainId (flow_start balance) s"
  shows "(\<forall>(t, v) \<in> set (sf_posted s). re_evm t \<and> 0 < v)
    \<and> (sf_step s = Review \<longrightarrow> 0 < valueWei s)
    \<and> (\<forall>p. sf_inflight s = Some p \<longrightarrow> sp_valueWei p = valueWei s)"
  using flow_reach_ok [OF assms flow_start_ok] by (auto simp: flow_ok_def)

theorem flow_posts_valid_witness:
  "\<exists>s. flow_reach demo_signer demo_account (Num 72020) (flow_start 2000000) s \<and> length (sf_posted s) = 1
    \<and> (\<forall>(t, v) \<in> set (sf_posted s). re_evm t \<and> 0 < v)"
proof -
  obtain raw where "signAndSend demo_signer demo_api demo_account (confirm_params (Num 72020) demo_review)
      = (Inr (js ''id1''), [raw])"
    using demo_review_sent [of demo_api "Some (js ''id1'')"] by (auto simp: demo_api_def)
  from confirm_once [OF demo_review_at this] obtain t
    where t: "flow_reach demo_signer demo_account (Num 72020) demo_review t"
      "sf_posted t = sf_posted demo_review @ [(trim (sf_to demo_review), valueWei demo_review)]" by blast
  have "sf_posted demo_review = []" by (simp add: demo_review_def flow_start_def)
  then have "length (sf_posted t) = 1" using t(2) by simp
  then show ?thesis
    using flow_posts_valid [of demo_signer demo_account "Num 72020" 2000000 t]
      flow_reach_trans [OF t(1) demo_review_reached] by blast
qed

text \<open>
  A percent button followed by "review" is never refused for lack of balance: the amount
  written parses, leaves room for the fee, and the review step is reached exactly when the
  percentage is at least one e7.
\<close>

theorem percent_then_review:
  assumes "FEE_WEI < balanceWei s" "0 \<le> p" "p \<le> 100"
  shows "(let s' = nextFromAmount (setPercent p s); v = (balanceWei s - FEE_WEI) * p div 100 in
    if WEI_PER_E7 \<le> v then sf_step s' = Review \<and> 0 \<le> afterWei s' \<and> valueWei s' = v div WEI_PER_E7 * WEI_PER_E7
    else s' = (setPercent p s)\<lparr>sf_err := js ''wallet_send.errors.needPositiveAmount''\<rparr>)"
proof -
  let ?s = "setPercent p s" and ?v = "(balanceWei s - FEE_WEI) * p div 100"
  let ?w = "?v div WEI_PER_E7 * WEI_PER_E7"
  have p: "parseEav7ToWei (sf_amount ?s) = Inr ?w" by (rule setPercent_parse [OF assms(1,2)])
  have W: "0 < WEI_PER_E7" by (simp add: WEI_PER_E7_def)
  have v0: "0 \<le> ?v" using assms by (simp add: pos_imp_zdiv_nonneg_iff)
  have "(balanceWei s - FEE_WEI) * p \<le> (balanceWei s - FEE_WEI) * 100"
    using assms by (intro mult_left_mono) simp_all
  then have "?v \<le> balanceWei s - FEE_WEI" using zdiv_mono1 [of _ _ 100] by fastforce
  moreover have "?w \<le> ?v" using W pos_mod_sign [OF W, of ?v] minus_mod_eq_div_mult [of ?v WEI_PER_E7] by linarith
  ultimately have enough: "?w + FEE_WEI \<le> balanceWei s" by linarith
  have pos: "0 < ?w \<longleftrightarrow> WEI_PER_E7 \<le> ?v"
    using W v0 by (simp add: zero_less_mult_iff pos_imp_zdiv_pos_iff)
  show ?thesis
  proof (cases "WEI_PER_E7 \<le> ?v")
    case True
    then have s': "nextFromAmount ?s = ?s\<lparr>sf_err := [], sf_step := Review\<rparr>"
      using p pos enough by (simp add: nextFromAmount_def)
    have "valueWei (nextFromAmount ?s) = ?w"
      by (rule valueWei_parse) (simp add: s' p)
    then show ?thesis
      using True enough s' by (simp add: Let_def afterWei_def balanceWei_def)
  next
    case False
    then have "nextFromAmount ?s = ?s\<lparr>sf_err := js ''wallet_send.errors.needPositiveAmount''\<rparr>"
      using p pos by (simp add: nextFromAmount_def not_less)
    then show ?thesis using False by (simp add: Let_def)
  qed
qed

theorem percent_then_review_witness:
  "sf_step (nextFromAmount (setPercent 100 (flow_start 20000))) = Review"
proof -
  have b: "FEE_WEI < balanceWei (flow_start 20000)"
    by (simp add: FEE_WEI_def balanceWei_def flow_start_def WEI_PER_E7_def)
  show ?thesis
    using percent_then_review [OF b, of 100]
    by (simp add: Let_def FEE_WEI_def balanceWei_def flow_start_def WEI_PER_E7_def)
qed

text \<open>
  The destination can change after it was checked: a clipboard read asked for on the first
  step may answer on the review step, and the transfer then signed goes to the pasted address,
  without passing the first step again.
\<close>

theorem paste_changes_reviewed_destination:
  assumes "re_evm a" "re_evm b" "parseEav7ToWei x = Inr v" "0 < v" "v + FEE_WEI \<le> bal * WEI_PER_E7"
  shows "\<exists>s1 s2 p. flow_reach sign acct chainId (flow_start bal) s1 \<and> sf_step s1 = Review \<and> trim (sf_to s1) = a
    \<and> flow_reach sign acct chainId s1 s2 \<and> sf_step s2 = Review \<and> sf_inflight s2 = Some p
    \<and> sp_to p = b \<and> sp_valueWei p = v"
proof -
  let ?r = "(flow_start bal)\<lparr>sf_pastes := 1, sf_to := a, sf_amount := x, sf_step := Review\<rparr>"
  let ?q = "paste_text b (?r\<lparr>sf_pastes := 0\<rparr>)"
  have r: "flow_reach sign acct chainId (flow_start bal) ?r"
    by (rule review_reached [OF assms(1,3-5)])
  have b: "b \<noteq> []" using assms(2) by (auto simp: re_evm_def)
  have 6: "flow_step sign acct chainId ?r ?q"
    by (rule flow_step.paste_come) simp
  have 7: "flow_step sign acct chainId ?q (confirm_click chainId ?q)"
    by (rule flow_step.confirm) (simp_all add: b paste_text_def shows_receipt_def flow_start_def)
  have q: "flow_reach sign acct chainId ?r (confirm_click chainId ?q)"
    by (rule flow_more [OF flow_more [OF flow_refl 6] 7])
  have "valueWei ?q = v"
    by (rule valueWei_parse) (simp add: b paste_text_def assms(3))
  then show ?thesis
    using r q by (intro exI [of _ ?r] exI [of _ "confirm_click chainId ?q"] exI [of _ "confirm_params chainId ?q"])
      (simp add: trim_evm assms(1,2) confirm_click_def confirm_params_def b paste_text_def)
qed

theorem paste_changes_reviewed_destination_witness:
  "\<exists>s1 s2 p. flow_reach demo_signer demo_account (Num 72020) (flow_start 2000000) s1 \<and> sf_step s1 = Review
    \<and> trim (sf_to s1) = js ''0x2ddd408bbd8c84fb64ac950f578e9297e7002a35''
    \<and> flow_reach demo_signer demo_account (Num 72020) s1 s2 \<and> sf_step s2 = Review \<and> sf_inflight s2 = Some p
    \<and> sp_to p = js ''0x0000000000000000000000000000000000007001'' \<and> sp_valueWei p = 10 ^ 18"
  by (rule paste_changes_reviewed_destination [OF _ _ parse_one])
    (simp_all add: re_evm_def js_eval char_class_defs FEE_WEI_def WEI_PER_E7_def)

text \<open>
  When the node accepts the transfer without naming an id, the form shows no receipt and no
  error and stays on the review step, and a second confirmation posts the same transfer again.
\<close>

theorem unnamed_transfer_sent_twice:
  assumes "sf_step s = Review" "\<not> shows_receipt s" "\<not> sf_busy s"
    and "signAndSend sign api acct (confirm_params chainId s) = (Inr [], [raw])"
  shows "\<exists>s'. flow_reach sign acct chainId s s' \<and> sf_err s' = []
    \<and> sf_posted s' = sf_posted s @ [(trim (sf_to s), valueWei s), (trim (sf_to s), valueWei s)]"
proof -
  obtain t where t: "flow_reach sign acct chainId s t" "sf_step t = Review" "sf_sentId t = Some []" "\<not> sf_busy t"
    "confirm_params chainId t = confirm_params chainId s"
    "sf_posted t = sf_posted s @ [(trim (sf_to s), valueWei s)]"
    by (rule confirm_once [OF assms])
  have "\<not> shows_receipt t" using t(3) by (simp add: shows_receipt_def)
  then obtain t' where t': "flow_reach sign acct chainId t t'" "sf_err t' = []"
    "sf_posted t' = sf_posted t @ [(trim (sf_to t), valueWei t)]"
    using confirm_once [OF t(2) _ t(4), of sign api acct chainId "[]" raw] assms(4) t(5) by auto
  have "trim (sf_to t) = trim (sf_to s) \<and> valueWei t = valueWei s"
    using t(5) by (simp add: confirm_params_def)
  then show ?thesis
    using flow_reach_trans [OF t'(1) t(1)] t'(2,3) t(6) by auto
qed

theorem unnamed_transfer_sent_twice_witness:
  "\<exists>s'. flow_reach demo_signer demo_account (Num 72020) demo_review s' \<and> length (sf_posted s') = 2"
proof -
  let ?api = "demo_api\<lparr>api_postEavmTx := (\<lambda>_. Inr None)\<rparr>"
  obtain raw where "signAndSend demo_signer ?api demo_account (confirm_params (Num 72020) demo_review) = (Inr [], [raw])"
    using demo_review_sent [of ?api None] by auto
  from unnamed_transfer_sent_twice [OF demo_review_at this] show ?thesis
    by (auto simp: demo_review_def flow_start_def)
qed

end
