(* ===== verification/PartnerTranche.thy ===== *)
theory PartnerTranche
  imports Wallet
begin

section \<open>The partner tranche (\<open>lib/partner-tranche.ts\<close>, \<open>partner-tranche-panel.tsx\<close>)\<close>

text \<open>
  The calls of the vault contract that holds the partner's ten percent, and the panel that signs
  them. The two variables of the build (the vault, the owner) are arguments. \<open>submit\<close> is one
  click of the panel's button with the answers it gets from the signer and the node; it returns
  the panel and the raw transactions posted.
\<close>

definition PARTNER_TRANCHE_VAULT :: "jstr option \<Rightarrow> jstr" where
  "PARTNER_TRANCHE_VAULT env = trim (case env of Some s \<Rightarrow> s | None \<Rightarrow> [])"

definition PARTNER_OWNER_EVM :: "jstr option \<Rightarrow> jstr" where
  "PARTNER_OWNER_EVM env = to_lower (trim (case env of Some s \<Rightarrow> s | None \<Rightarrow> []))"

definition PARTNER_TRANCHE_ENABLED :: "jstr option \<Rightarrow> bool" where
  "PARTNER_TRANCHE_ENABLED env \<longleftrightarrow> PARTNER_TRANCHE_VAULT env \<noteq> [] \<and> re_evm (PARTNER_TRANCHE_VAULT env)"

definition PARTNER_BUCKET_E7 :: int where "PARTNER_BUCKET_E7 = 10000000000000000"
definition PARTNER_TRANCHE_E7 :: int where "PARTNER_TRANCHE_E7 = big_div PARTNER_BUCKET_E7 4"

definition SELECTOR_releaseTo :: jstr where "SELECTOR_releaseTo = js ''d1fb5646''"
definition SELECTOR_arm :: jstr where "SELECTOR_arm = js ''fb90b4ea''"

definition strip_0x :: "jstr \<Rightarrow> jstr" where
  "strip_0x s = (if take 2 s = js ''0x'' then drop 2 s else s)"

definition padAddress :: "jstr \<Rightarrow> jstr" where
  "padAddress addr = (let h = strip_0x (to_lower (trim addr)) in pad_start 64 48 h)"

definition hex_str :: "int \<Rightarrow> jstr" where
  "hex_str n = (if n < 0 then 45 # to_base 16 (nat (- n)) else to_base 16 (nat n))"

definition padUint :: "int \<Rightarrow> jstr" where
  "padUint n = pad_start 64 48 (hex_str n)"

definition encodeReleaseTo :: "jstr \<Rightarrow> jstr" where
  "encodeReleaseTo to0x = js ''0x'' @ SELECTOR_releaseTo @ padAddress to0x"

definition encodeArm :: "int \<Rightarrow> jstr" where
  "encodeArm totalE7 = js ''0x'' @ SELECTOR_arm @ padUint totalE7"

definition isPartnerOwner :: "jstr option \<Rightarrow> jstr \<Rightarrow> bool" where
  "isPartnerOwner ownerEnv addr \<longleftrightarrow> PARTNER_OWNER_EVM ownerEnv \<noteq> []
     \<and> to_lower (trim addr) = PARTNER_OWNER_EVM ownerEnv"

definition isForbiddenPartnerRecipient :: "jstr option \<Rightarrow> jstr \<Rightarrow> jstr \<Rightarrow> bool" where
  "isForbiddenPartnerRecipient vaultEnv to0x ownerEvm = (let to = to_lower (trim to0x);
       vault = PARTNER_TRANCHE_VAULT vaultEnv in
     if \<not> (re_evm to \<and> list_all is_lower_hex (drop 2 to)) then False
     else if ownerEvm \<noteq> [] \<and> to = to_lower (trim ownerEvm) then True
     else vault \<noteq> [] \<and> to = to_lower vault)"


subsection \<open>The panel\<close>

datatype partner_mode = Release | Arm

record partner_panel =
  pp_to :: jstr
  pp_err :: jstr
  pp_busy :: bool
  pp_sentId :: "jstr option"
  pp_mode :: partner_mode

definition NOT_OWNER :: jstr where
  "NOT_OWNER = js ''Desbloqueie a carteira do dono (owner) para assinar.''"
definition NO_VAULT :: jstr where
  "NO_VAULT = js ''Vault n'' @ [227] @ js ''o configurado (NEXT_PUBLIC_PARTNER_TRANCHE_VAULT).''"
definition NOT_EVM :: jstr where
  "NOT_EVM = js ''Parceiro deve ser endere'' @ [231] @ js ''o 0x (EAVM).''"
definition FORBIDDEN :: jstr where
  "FORBIDDEN = js ''Prote'' @ [231, 227] @ js ''o de rede: o dono (e o vault) n'' @ [227]
     @ js ''o podem receber a tranche.''"

definition vault_call :: "jstr option \<Rightarrow> jsnum \<Rightarrow> jstr \<Rightarrow> send_params" where
  "vault_call vaultEnv chainId calldata = \<lparr>sp_to = PARTNER_TRANCHE_VAULT vaultEnv, sp_valueWei = 0,
     sp_chainId = chainId, sp_data = Some calldata, sp_gasLimit = None\<rparr>"

definition panel_settle :: "partner_panel \<Rightarrow> jstr res \<times> jstr list \<Rightarrow> partner_panel \<times> jstr list" where
  "panel_settle s rp = (case fst rp of
       Inr i \<Rightarrow> (s\<lparr>pp_sentId := Some i, pp_busy := False\<rparr>, snd rp)
     | Inl e \<Rightarrow> (s\<lparr>pp_err := e, pp_busy := False\<rparr>, snd rp))"

definition partner_submit :: "jstr option \<Rightarrow> jstr option \<Rightarrow> signer \<Rightarrow> node_api \<Rightarrow> account \<Rightarrow> jsnum
    \<Rightarrow> partner_panel \<Rightarrow> partner_panel \<times> jstr list" where
  "partner_submit vaultEnv ownerEnv sign api acct chainId s = (let s1 = s\<lparr>pp_err := []\<rparr> in
     if \<not> isPartnerOwner ownerEnv (evm acct) then (s1\<lparr>pp_err := NOT_OWNER\<rparr>, [])
     else if PARTNER_TRANCHE_VAULT vaultEnv = [] then (s1\<lparr>pp_err := NO_VAULT\<rparr>, [])
     else (case pp_mode s of
         Arm \<Rightarrow> panel_settle s1 (signAndSend sign api acct (vault_call vaultEnv chainId (encodeArm PARTNER_BUCKET_E7)))
       | Release \<Rightarrow> (let dest = trim (pp_to s) in
           if \<not> isEvmAddress dest then (s1\<lparr>pp_busy := False, pp_err := NOT_EVM\<rparr>, [])
           else if isForbiddenPartnerRecipient vaultEnv dest (evm acct)
             \<or> isForbiddenPartnerRecipient vaultEnv dest (PARTNER_OWNER_EVM ownerEnv)
           then (s1\<lparr>pp_busy := False, pp_err := FORBIDDEN\<rparr>, [])
           else panel_settle s1 (signAndSend sign api acct (vault_call vaultEnv chainId (encodeReleaseTo dest))))))"


subsection \<open>The calldata\<close>

lemma to_lower_evm: "re_evm a \<Longrightarrow> to_lower a = js ''0x'' @ to_lower (drop 2 a)"
proof -
  assume "re_evm a"
  then obtain h where "a = js ''0x'' @ h" using re_evm_split by blast
  then show ?thesis by (simp add: to_lower_def js_eval lower_char_def)
qed

lemma lower_hex: "list_all is_hex h \<Longrightarrow> list_all is_lower_hex (to_lower h)"
  by (auto simp: to_lower_def list_all_iff lower_char_hex)

lemma evm_lower: "re_evm a \<Longrightarrow> re_evm (to_lower a) \<and> list_all is_lower_hex (drop 2 (to_lower a))"
  using lower_hex [of "drop 2 a"] to_lower_evm [of a]
  by (auto simp: re_evm_def js_eval list_all_iff is_hex_def)

lemma padAddress_evm: "re_evm a \<Longrightarrow> padAddress a = replicate 24 48 @ to_lower (drop 2 a)"
proof -
  assume a: "re_evm a"
  then have "strip_0x (to_lower a) = to_lower (drop 2 a)"
    by (simp add: strip_0x_def to_lower_evm js_eval)
  moreover have "length (to_lower (drop 2 a)) = 40" using a by (simp add: re_evm_def)
  ultimately show ?thesis
    using a by (simp add: padAddress_def trim_evm pad_start_def)
qed

lemma length_releaseTo: "re_evm a \<Longrightarrow> length (encodeReleaseTo a) = 74"
  by (simp add: encodeReleaseTo_def SELECTOR_releaseTo_def padAddress_evm re_evm_def)

lemma of_base_pad [simp]: "of_base b (pad_start k 48 s) = of_base b s"
  by (simp add: pad_start_def of_base_append)

lemma length_padUint: "0 \<le> n \<Longrightarrow> n < 2 ^ 256 \<Longrightarrow> length (padUint n) = 64"
proof -
  assume n: "0 \<le> n" "n < 2 ^ 256"
  then have "nat n < 16 ^ 64" by (simp add: nat_less_iff)
  then have "length (to_base 16 (nat n)) \<le> 64" by (intro length_to_base_le) simp_all
  then show ?thesis using n by (simp add: padUint_def hex_str_def length_pad_start)
qed

lemma vault_call_data: "sp_data (vault_call v c d) = Some d" "sp_to (vault_call v c d) = PARTNER_TRANCHE_VAULT v"
    "sp_valueWei (vault_call v c d) = 0"
  by (simp_all add: vault_call_def)

lemma panel_settle_posts: "panel_settle s rp = (s', posted) \<Longrightarrow> posted = snd rp"
  by (cases rp) (auto simp: panel_settle_def split: sum.splits)

lemma submit_posts:
  assumes "partner_submit vaultEnv ownerEnv sign api acct chainId s = (s', posted)" "raw \<in> set posted"
  obtains calldata nonce chain gas where "posted = [raw]" "isPartnerOwner ownerEnv (evm acct)"
    "isEvmAddress (PARTNER_TRANCHE_VAULT vaultEnv)"
    "sign (privateKey acct) nonce (PARTNER_TRANCHE_VAULT vaultEnv) (js ''0'') chain None gas (Some calldata) = Inr raw"
    "pp_mode s = Arm \<and> calldata = encodeArm PARTNER_BUCKET_E7
     \<or> pp_mode s = Release \<and> calldata = encodeReleaseTo (trim (pp_to s)) \<and> isEvmAddress (trim (pp_to s))
       \<and> \<not> isForbiddenPartnerRecipient vaultEnv (trim (pp_to s)) (evm acct)
       \<and> \<not> isForbiddenPartnerRecipient vaultEnv (trim (pp_to s)) (PARTNER_OWNER_EVM ownerEnv)"
proof -
  obtain calldata where o: "isPartnerOwner ownerEnv (evm acct)"
    and p: "posted = snd (signAndSend sign api acct (vault_call vaultEnv chainId calldata))"
    and m: "pp_mode s = Arm \<and> calldata = encodeArm PARTNER_BUCKET_E7
     \<or> pp_mode s = Release \<and> calldata = encodeReleaseTo (trim (pp_to s)) \<and> isEvmAddress (trim (pp_to s))
       \<and> \<not> isForbiddenPartnerRecipient vaultEnv (trim (pp_to s)) (evm acct)
       \<and> \<not> isForbiddenPartnerRecipient vaultEnv (trim (pp_to s)) (PARTNER_OWNER_EVM ownerEnv)"
    using assms by (auto simp: partner_submit_def Let_def dest: panel_settle_posts
        split: if_splits partner_mode.splits)
  let ?p = "vault_call vaultEnv chainId calldata"
  have "signAndSend sign api acct ?p = (fst (signAndSend sign api acct ?p), posted)"
    using p by simp
  moreover have "posted \<noteq> []" using assms(2) by auto
  ultimately obtain acc raw' where r: "posted = [raw']" "isEvmAddress (sp_to ?p)"
      "buildSignedTx sign (tx_args acct ?p (nonce_of acc)) = Inr raw'"
    by (rule signAndSend_posts)
  have "raw' = raw" using r(1) assms(2) by simp
  moreover obtain nonce chain gas where
    "sign (privateKey acct) nonce (PARTNER_TRANCHE_VAULT vaultEnv) (big_str 0) chain None gas (Some calldata) = Inr raw'"
    using r(3) by (auto simp: buildSignedTx_def tx_args_def vault_call_data bind_res_eq_Inr)
  moreover have "big_str 0 = js ''0''" by (simp add: big_str_def js_eval)
  ultimately show thesis
    using that [of nonce chain gas calldata] r(1,2) o m by (simp add: vault_call_data)
qed

lemma not_forbidden:
  assumes "re_evm d" "\<not> isForbiddenPartnerRecipient vaultEnv d owner" "owner \<noteq> []" "re_evm (PARTNER_TRANCHE_VAULT vaultEnv)"
  shows "to_lower d \<noteq> to_lower (trim owner) \<and> to_lower d \<noteq> to_lower (PARTNER_TRANCHE_VAULT vaultEnv)"
  using assms evm_lower [OF assms(1)]
  by (auto simp: isForbiddenPartnerRecipient_def Let_def trim_evm re_evm_def split: if_splits)


subsection \<open>Properties\<close>

text \<open>
  The calldata is the ABI encoding of the two calls: a selector and one 32-byte word, from
  which the address (in lower case) or the amount can be read back, for every well-formed address
  and every 256-bit amount.
\<close>

theorem calldata_roundtrip:
  assumes "re_evm a" "0 \<le> n" "n < 2 ^ 256"
  shows "length (encodeReleaseTo a) = 74 \<and> take 34 (encodeReleaseTo a) = js ''0xd1fb5646'' @ replicate 24 48
    \<and> js ''0x'' @ drop 34 (encodeReleaseTo a) = to_lower a
    \<and> length (encodeArm n) = 74 \<and> take 10 (encodeArm n) = js ''0xfb90b4ea''
    \<and> int (of_base 16 (drop 10 (encodeArm n))) = n"
proof -
  have e: "encodeReleaseTo a = js ''0xd1fb5646'' @ replicate 24 48 @ to_lower (drop 2 a)"
    using assms(1) by (simp add: encodeReleaseTo_def SELECTOR_releaseTo_def padAddress_evm js_eval)
  have "int (of_base 16 (padUint n)) = n"
    using assms(2) by (simp add: padUint_def hex_str_def of_base_to_base)
  then show ?thesis
    using assms length_releaseTo [of a] length_padUint [of n] to_lower_evm [of a]
    by (simp add: e encodeArm_def SELECTOR_arm_def js_eval)
qed

theorem calldata_roundtrip_witness:
  "js ''0x'' @ drop 34 (encodeReleaseTo (js ''0xFDED408bbd8c84fb64ac950f578e9297e7002a35''))
     = js ''0xfded408bbd8c84fb64ac950f578e9297e7002a35''
   \<and> int (of_base 16 (drop 10 (encodeArm 255))) = 255"
  using calldata_roundtrip [of "js ''0xFDED408bbd8c84fb64ac950f578e9297e7002a35''" 255]
  by (simp add: re_evm_def js_eval char_class_defs to_lower_def lower_char_def)

text \<open>
  C32. Whatever the panel posts is one call of the vault with no value, signed by the owner's
  account: the arming of the whole bucket, or the release to the address typed, which is
  well-formed and neither the owner's account nor the vault itself, in any letter case.
\<close>

theorem partner_posts_only_tranche_calls:
  assumes "partner_submit vaultEnv ownerEnv sign api acct chainId s = (s', posted)" "raw \<in> set posted"
    and "evm acct \<noteq> []"
  shows "posted = [raw] \<and> isPartnerOwner ownerEnv (evm acct) \<and> (\<exists>calldata nonce chain gas.
    sign (privateKey acct) nonce (PARTNER_TRANCHE_VAULT vaultEnv) (js ''0'') chain None gas (Some calldata) = Inr raw
    \<and> (pp_mode s = Arm \<and> calldata = encodeArm PARTNER_BUCKET_E7
     \<or> pp_mode s = Release \<and> calldata = encodeReleaseTo (trim (pp_to s)) \<and> re_evm (trim (pp_to s))
       \<and> to_lower (trim (pp_to s)) \<noteq> to_lower (trim (evm acct))
       \<and> to_lower (trim (pp_to s)) \<noteq> to_lower (PARTNER_TRANCHE_VAULT vaultEnv)))"
proof -
  obtain calldata nonce chain gas where c: "posted = [raw]" "isPartnerOwner ownerEnv (evm acct)"
    "isEvmAddress (PARTNER_TRANCHE_VAULT vaultEnv)"
    "sign (privateKey acct) nonce (PARTNER_TRANCHE_VAULT vaultEnv) (js ''0'') chain None gas (Some calldata) = Inr raw"
    and m: "pp_mode s = Arm \<and> calldata = encodeArm PARTNER_BUCKET_E7
     \<or> pp_mode s = Release \<and> calldata = encodeReleaseTo (trim (pp_to s)) \<and> isEvmAddress (trim (pp_to s))
       \<and> \<not> isForbiddenPartnerRecipient vaultEnv (trim (pp_to s)) (evm acct)
       \<and> \<not> isForbiddenPartnerRecipient vaultEnv (trim (pp_to s)) (PARTNER_OWNER_EVM ownerEnv)"
    using assms(1,2) by (rule submit_posts)
  have "pp_mode s = Arm \<and> calldata = encodeArm PARTNER_BUCKET_E7
     \<or> pp_mode s = Release \<and> calldata = encodeReleaseTo (trim (pp_to s)) \<and> re_evm (trim (pp_to s))
       \<and> to_lower (trim (pp_to s)) \<noteq> to_lower (trim (evm acct))
       \<and> to_lower (trim (pp_to s)) \<noteq> to_lower (PARTNER_TRANCHE_VAULT vaultEnv)"
    using m not_forbidden [of "trim (pp_to s)" vaultEnv "evm acct"] c(3) assms(3)
    unfolding isEvmAddress_def by blast
  then show ?thesis using c(1,2,4) by blast
qed

definition demo_vault :: jstr where "demo_vault = js ''0x00000000000000000000000000000000000000aa''"

definition demo_panel :: partner_panel where
  "demo_panel = \<lparr>pp_to = [], pp_err = [], pp_busy = False, pp_sentId = None, pp_mode = Arm\<rparr>"

lemma demo_vault_env: "PARTNER_TRANCHE_VAULT (Some demo_vault) = demo_vault" "re_evm demo_vault"
proof -
  show v: "re_evm demo_vault" by (simp add: demo_vault_def re_evm_def js_eval char_class_defs)
  show "PARTNER_TRANCHE_VAULT (Some demo_vault) = demo_vault"
    by (simp add: PARTNER_TRANCHE_VAULT_def trim_evm [OF v])
qed

lemma demo_owner: "isPartnerOwner (Some (evm demo_account)) (evm demo_account)" "evm demo_account \<noteq> []"
  by (simp_all add: isPartnerOwner_def PARTNER_OWNER_EVM_def demo_account_def js_eval to_lower_def)

lemma demo_arm:
  "partner_submit (Some demo_vault) (Some (evm demo_account)) demo_signer demo_api demo_account (Num 72020) demo_panel
     = (demo_panel\<lparr>pp_sentId := Some (js ''id1'')\<rparr>, [demo_vault @ js ''0''])"
proof -
  have n: "demo_vault \<noteq> []" by (simp add: demo_vault_def)
  have d: "has_data (vault_call (Some demo_vault) (Num 72020) (encodeArm PARTNER_BUCKET_E7))"
    by (simp add: has_data_def vault_call_data encodeArm_def SELECTOR_arm_def js_eval)
  have z: "big_str 0 = js ''0''" by (simp add: big_str_def js_eval)
  have "signAndSend demo_signer demo_api demo_account (vault_call (Some demo_vault) (Num 72020) (encodeArm PARTNER_BUCKET_E7))
     = (Inr (js ''id1''), [demo_vault @ js ''0''])"
    using d demo_vault_env by (simp add: signAndSend_def isEvmAddress_def vault_call_data demo_api_def
        buildSignedTx_def tx_args_def nonce_of_def bigint_of_num_def demo_signer_def z)
      (simp add: vault_call_def bigint_of_num_def demo_signer_def z)
  then show ?thesis
    using demo_owner n by (simp add: partner_submit_def demo_panel_def demo_vault_env panel_settle_def)
qed

theorem partner_posts_only_tranche_calls_witness:
  "\<exists>calldata. demo_signer (privateKey demo_account) 7 demo_vault (js ''0'') 72020 None None (Some calldata)
     = Inr (demo_vault @ js ''0'') \<and> isPartnerOwner (Some (evm demo_account)) (evm demo_account)"
  using partner_posts_only_tranche_calls [OF demo_arm, of "demo_vault @ js ''0''"] demo_owner(2)
  by (simp add: demo_signer_def)

end
