(* ===== verification/ApiTypes.thy ===== *)
theory ApiTypes
  imports Json
begin

section \<open>The data of the node API (\<open>lib/api.ts\<close>)\<close>

text \<open>
  One record per interface of the client, with the fields in the order of the source. Amounts are
  the decimal strings of base units the node sends (\<open>jstr\<close>); a number that counts or numbers
  something is an \<open>int\<close>, one that measures is a \<open>jsnum\<close>; an optional or nullable field is an
  \<open>option\<close> (a field that is both is one \<open>option\<close>: no code tells the two apart); a
  \<open>Record\<close> is an association list; a field of unknown shape is a \<open>json\<close>.
\<close>

datatype tx_type =
    TRANSFER | EAVM_TRANSFER | STAKE | UNSTAKE | VOTE | SET_COMMISSION | CLAIM_VOTER_REWARD
  | SLASH_DOUBLE_SIGN | DELEGATE_RESOURCE | UNDELEGATE_RESOURCE | PERMISSION_UPDATE
  | MULTISIG_PROPOSE | MULTISIG_APPROVE | GOV_PROPOSE | GOV_VOTE | VESTING_CREATE | VESTING_CLAIM
  | META_TX | TOKEN_CREATE | TOKEN_TRANSFER | TOKEN_APPROVE | TOKEN_TRANSFER_FROM | TOKEN_MINT
  | TOKEN_BURN | TOKEN_PAUSE | TOKEN_UNPAUSE | TOKEN_BLACKLIST | TOKEN_FREEZE | TOKEN_UNFREEZE
  | NFT_CREATE | NFT_MINT | NFT_TRANSFER | NFT_APPROVE | NFT_BURN | NAME_REGISTER | NAME_UPDATE
  | NAME_TRANSFER | NAME_RELEASE | AI_TASK | AI_RESULT | AI_COMMIT | AI_REVEAL | AI_CLAIM
  | AI_CHALLENGE | AI_VERDICT | AI_BID | AI_AWARD | AI_REFUND | ORACLE_REGISTER | BRIDGE_OUT
  | BRIDGE_IN | BRIDGE_SETTLE | BRIDGE_COMMITTEE_UPDATE | EAVM_DEPLOY | EAVM_CALL

fun tx_type_str :: "tx_type \<Rightarrow> jstr" where
  "tx_type_str TRANSFER = js ''TRANSFER''"
| "tx_type_str EAVM_TRANSFER = js ''EAVM_TRANSFER''"
| "tx_type_str STAKE = js ''STAKE''"
| "tx_type_str UNSTAKE = js ''UNSTAKE''"
| "tx_type_str VOTE = js ''VOTE''"
| "tx_type_str SET_COMMISSION = js ''SET_COMMISSION''"
| "tx_type_str CLAIM_VOTER_REWARD = js ''CLAIM_VOTER_REWARD''"
| "tx_type_str SLASH_DOUBLE_SIGN = js ''SLASH_DOUBLE_SIGN''"
| "tx_type_str DELEGATE_RESOURCE = js ''DELEGATE_RESOURCE''"
| "tx_type_str UNDELEGATE_RESOURCE = js ''UNDELEGATE_RESOURCE''"
| "tx_type_str PERMISSION_UPDATE = js ''PERMISSION_UPDATE''"
| "tx_type_str MULTISIG_PROPOSE = js ''MULTISIG_PROPOSE''"
| "tx_type_str MULTISIG_APPROVE = js ''MULTISIG_APPROVE''"
| "tx_type_str GOV_PROPOSE = js ''GOV_PROPOSE''"
| "tx_type_str GOV_VOTE = js ''GOV_VOTE''"
| "tx_type_str VESTING_CREATE = js ''VESTING_CREATE''"
| "tx_type_str VESTING_CLAIM = js ''VESTING_CLAIM''"
| "tx_type_str META_TX = js ''META_TX''"
| "tx_type_str TOKEN_CREATE = js ''TOKEN_CREATE''"
| "tx_type_str TOKEN_TRANSFER = js ''TOKEN_TRANSFER''"
| "tx_type_str TOKEN_APPROVE = js ''TOKEN_APPROVE''"
| "tx_type_str TOKEN_TRANSFER_FROM = js ''TOKEN_TRANSFER_FROM''"
| "tx_type_str TOKEN_MINT = js ''TOKEN_MINT''"
| "tx_type_str TOKEN_BURN = js ''TOKEN_BURN''"
| "tx_type_str TOKEN_PAUSE = js ''TOKEN_PAUSE''"
| "tx_type_str TOKEN_UNPAUSE = js ''TOKEN_UNPAUSE''"
| "tx_type_str TOKEN_BLACKLIST = js ''TOKEN_BLACKLIST''"
| "tx_type_str TOKEN_FREEZE = js ''TOKEN_FREEZE''"
| "tx_type_str TOKEN_UNFREEZE = js ''TOKEN_UNFREEZE''"
| "tx_type_str NFT_CREATE = js ''NFT_CREATE''"
| "tx_type_str NFT_MINT = js ''NFT_MINT''"
| "tx_type_str NFT_TRANSFER = js ''NFT_TRANSFER''"
| "tx_type_str NFT_APPROVE = js ''NFT_APPROVE''"
| "tx_type_str NFT_BURN = js ''NFT_BURN''"
| "tx_type_str NAME_REGISTER = js ''NAME_REGISTER''"
| "tx_type_str NAME_UPDATE = js ''NAME_UPDATE''"
| "tx_type_str NAME_TRANSFER = js ''NAME_TRANSFER''"
| "tx_type_str NAME_RELEASE = js ''NAME_RELEASE''"
| "tx_type_str AI_TASK = js ''AI_TASK''"
| "tx_type_str AI_RESULT = js ''AI_RESULT''"
| "tx_type_str AI_COMMIT = js ''AI_COMMIT''"
| "tx_type_str AI_REVEAL = js ''AI_REVEAL''"
| "tx_type_str AI_CLAIM = js ''AI_CLAIM''"
| "tx_type_str AI_CHALLENGE = js ''AI_CHALLENGE''"
| "tx_type_str AI_VERDICT = js ''AI_VERDICT''"
| "tx_type_str AI_BID = js ''AI_BID''"
| "tx_type_str AI_AWARD = js ''AI_AWARD''"
| "tx_type_str AI_REFUND = js ''AI_REFUND''"
| "tx_type_str ORACLE_REGISTER = js ''ORACLE_REGISTER''"
| "tx_type_str BRIDGE_OUT = js ''BRIDGE_OUT''"
| "tx_type_str BRIDGE_IN = js ''BRIDGE_IN''"
| "tx_type_str BRIDGE_SETTLE = js ''BRIDGE_SETTLE''"
| "tx_type_str BRIDGE_COMMITTEE_UPDATE = js ''BRIDGE_COMMITTEE_UPDATE''"
| "tx_type_str EAVM_DEPLOY = js ''EAVM_DEPLOY''"
| "tx_type_str EAVM_CALL = js ''EAVM_CALL''"

record energy_params =
  en_free :: int
  en_perStakedEav7 :: int
  en_regenBlocks :: int

record fork_heights =
  fk_bridgeBreaker :: int
  fk_aiTee :: int
  fk_bridgeQuorum :: int
  fk_canonicalHash :: int

record eavm_params =
  vm_chainId :: int
  vm_rpcPort :: int
  vm_decimals :: int
  vm_rpcUrl :: jstr

record status =
  st_chain :: jstr
  st_protocol :: jstr
  st_symbol :: jstr
  st_blockTimeMs :: int
  st_height :: int
  st_finalizedHeight :: int
  st_headHash :: jstr
  st_headTime :: int
  st_supply :: jstr
  st_genesisSupply :: "jstr option"
  st_minted :: jstr
  st_burned :: jstr
  st_treasury :: jstr
  st_circulating :: jstr
  st_blockReward :: jstr
  st_energy :: energy_params
  st_mempool :: int
  st_validators :: int
  st_peers :: int
  st_producer :: jstr
  st_ai :: "int \<times> int"
  st_bridge :: "int \<times> jstr"
  st_security_alerts :: int
  st_forkHeights :: "fork_heights option"
  st_eavm :: eavm_params

record block =
  bk_height :: int
  bk_timestamp :: int
  bk_previousHash :: jstr
  bk_txRoot :: jstr
  bk_txCount :: int
  bk_producer :: jstr
  bk_hash :: "jstr option"
  bk_protocol :: "jstr option"
  bk_scheme :: "jstr option"
  bk_size :: "int option"

record tx_receipt =
  rc_success :: bool
  rc_gasUsed :: "jstr option"
  rc_contract :: "jstr option"

record tx_asset =
  as_kind :: jstr
  asset_id :: jstr
  as_symbol :: "jstr option"
  as_name :: "jstr option"
  as_decimals :: "int option"
  as_tokenId :: "jstr option"

record tx =
  tx_id :: jstr
  tx_type :: tx_type
  tx_from :: jstr
  tx_to :: "jstr option"
  tx_amount :: jstr
  tx_fee :: jstr
  tx_nonce :: int
  tx_timestamp :: int
  tx_blockHeight :: int
  tx_blockHash :: "jstr option"
  tx_scheme :: "jstr option"
  tx_data :: "(jstr \<times> json) list option"
  tx_receipt :: "tx_receipt option"
  tx_asset :: "tx_asset option"

record tx_page =
  tp_txs :: "tx list"
  tp_nextBefore :: "int option"
  tp_height :: int

record validator =
  vl_address :: jstr
  vl_staked :: jstr
  vl_votes :: "jstr option"
  vl_name :: "jstr option"

datatype validator_health = Healthy | Lagging | Degraded | Offline

record validator_perf =
  vp_address :: jstr
  vp_score :: jsnum
  vp_status :: validator_health
  vp_degraded :: bool
  vp_productivityPct :: jsnum
  vp_expected :: int
  vp_produced :: int
  vp_inTurn :: int
  vp_missed :: int
  vp_outOfTurn :: int
  vp_avgLatencyMs :: "jsnum option"
  vp_lastProducedHeight :: "int option"

record perf_summary =
  ps_count :: int
  ps_healthy :: int
  ps_degraded :: int
  ps_degradedAddresses :: "jstr list"
  ps_avgScore :: "jsnum option"
  ps_worst :: "(jstr \<times> jsnum \<times> validator_health) option"

record perf_window =
  pw_blocks :: int
  pw_fromHeight :: "int option"
  pw_toHeight :: "int option"

record validators =
  vs_maxValidators :: int
  vs_minStake :: jstr
  vs_blockReward :: jstr
  vs_current :: "validator list"
  vs_bank :: "validator list option"
  vs_bankSize :: "int option"
  vs_slotProducer :: jstr
  vs_performance :: "validator_perf list option"
  vs_performanceSummary :: "perf_summary option"
  vs_performanceWindow :: "perf_window option"

record block_detail =
  bd_block :: block
  bd_version :: "int option"
  bd_publicKey :: "jstr option"
  bd_pqPublicKey :: "jstr option"
  bd_transactions :: "tx list option"
  bd_error :: "jstr option"

record tx_detail =
  td_status :: jstr
  td_tx :: tx
  td_blockHeight :: "int option"
  td_blockHash :: "jstr option"
  td_blockTime :: "int option"
  td_error :: "jstr option"

record token_balance =
  tb_symbol :: "jstr option"
  tb_balance :: "jstr option"
  tb_name :: "jstr option"
  tb_decimals :: "int option"

record nft_owned =
  no_collection :: jstr
  no_symbol :: jstr
  no_tokenId :: jstr
  no_uri :: "jstr option"

record gb_quota =
  gb_max :: jsnum
  gb_available :: jsnum
  gb_used :: "jsnum option"
  gb_unit :: "jstr option"

record activity =
  ac_firstSeen :: "int option"
  ac_lastSeen :: "int option"
  ac_txCount :: int
  ac_transfers :: int
  ac_transfersIn :: int
  ac_transfersOut :: int
  ac_blocks :: int
  ac_truncated :: bool

record delegation =
  dg_from :: jstr
  dg_to :: jstr
  dg_amount :: jstr

record resources =
  rs_resourceStake :: jstr
  rs_delegatedOut :: jstr
  rs_delegatedIn :: jstr
  rs_delegations :: "delegation list"

record unbonding =
  ub_amount :: jstr
  ub_matureAt :: int
  ub_blocksLeft :: int

record key_set =
  ks_threshold :: int
  ks_keys :: "(jstr \<times> int) list"

record active_perm =
  ap_id :: int
  ap_name :: "jstr option"
  ap_threshold :: int
  ap_keys :: "(jstr \<times> int) list"
  ap_operations :: "jstr list option"

record permissions =
  pm_default :: "bool option"
  pm_version :: "int option"
  pm_threshold :: "int option"
  pm_keys :: "(jstr \<times> int) list option"
  pm_owner :: "key_set option"
  pm_actives :: "active_perm list option"
  pm_witness :: "jstr option"
  pm_recovery :: "jstr option"
  pm_delayBlocks :: "int option"

record pending_permission =
  pp_level :: "jstr option"
  pp_approvals :: "jstr list"
  pp_vetoes :: "jstr list"
  pp_executeAt :: "int option"
  pp_blocksLeft :: "int option"

record vesting =
  ve_id :: jstr
  ve_total :: jstr
  ve_claimed :: jstr
  ve_cliff :: int
  ve_duration :: int

record contract_info =
  ci_address :: jstr
  ci_codeSize :: int
  ci_verified :: bool
  ci_nonce :: int

record address_info =
  ai_address :: jstr
  ai_eavmAddress :: "jstr option"
  ai_balance :: jstr
  ai_balanceFormatted :: "jstr option"
  ai_staked :: jstr
  ai_stakedFormatted :: "jstr option"
  ai_nonce :: int
  ai_nextNonce :: int
  ai_energy :: "int \<times> int"
  ai_gb :: "gb_quota option"
  ai_feeExempt :: bool
  ai_isValidator :: bool
  ai_votes :: "jstr option"
  ai_commission :: "int option"
  ai_tokens :: "(jstr \<times> token_balance) list"
  ai_nfts :: "nft_owned list option"
  ai_names :: "(jstr \<times> jstr) list option"
  ai_oracle :: "json option"
  ai_error :: "jstr option"
  ai_activity :: "activity option"
  ai_claimableVoterReward :: "jstr option"
  ai_approvals :: "(jstr \<times> jstr option \<times> jstr \<times> jstr) list option"
  ai_bandwidth :: "(jsnum \<times> jsnum) option"
  ai_resources :: "resources option"
  ai_votesCast :: "(jstr \<times> jstr) list option"
  ai_votedTotal :: "jstr option"
  ai_unbonding :: "unbonding list option"
  ai_permissions :: "permissions option"
  ai_pendingPermission :: "pending_permission option"
  ai_vesting :: "vesting list option"
  ai_contract :: "contract_info option"

record token_summary =
  tk_id :: jstr
  tk_symbol :: jstr
  tk_name :: jstr
  tk_standard :: jstr
  tk_decimals :: int
  tk_totalSupply :: jstr
  tk_holders :: int
  tk_creator :: jstr
  tk_owner :: jstr
  tk_mintable :: bool
  tk_paused :: bool
  tk_createdAt :: int

record token_detail =
  tt_summary :: token_summary
  tt_blacklist :: "(jstr \<times> bool) list option"
  tt_frozen :: "(jstr \<times> jstr \<times> int) list option"

record verified_contract =
  vc_verified :: bool
  vc_address :: jstr
  vc_language :: jstr
  vc_compiler :: jstr
  vc_source :: jstr
  vc_codeHash :: jstr
  vc_verifiedAt :: int

record token_holder =
  th_rank :: int
  th_address :: jstr
  th_balance :: jstr
  th_shareBps :: int
  th_frozen :: jstr
  th_blacklisted :: bool

record token_holders =
  hs_token :: jstr
  hs_decimals :: int
  hs_totalSupply :: jstr
  hs_holders :: int
  hs_list :: "token_holder list"

record name_record =
  nr_name :: jstr
  nr_target :: jstr
  nr_owner :: jstr

record account_proof =
  pf_address :: jstr
  pf_height :: int
  pf_stateRoot :: jstr
  pf_encodedAccount :: jstr
  pf_path :: "jstr list"

record log_entry =
  lg_address :: jstr
  lg_topics :: "jstr list"
  lg_data :: "jstr option"
  lg_blockHeight :: int
  lg_txId :: "jstr option"

record internal_transfer =
  in_txId :: jstr
  in_kind :: jstr
  in_from :: jstr
  in_to :: jstr
  in_fromE7 :: jstr
  in_toE7 :: jstr
  in_amount :: jstr
  in_blockHeight :: int
  in_blockTime :: "int option"

record address_analysis =
  aa_address :: jstr
  aa_txCount :: int
  aa_truncated :: bool
  aa_firstSeen :: "int option"
  aa_lastSeen :: "int option"
  aa_sent :: jstr
  aa_received :: jstr
  aa_feesPaid :: jstr
  aa_byType :: "(jstr \<times> int) list"
  aa_topCounterparties :: "(jstr \<times> int) list"
  aa_daily :: "(jstr \<times> int) list"

record nft_summary =
  nf_id :: jstr
  nf_name :: jstr
  nf_symbol :: jstr
  nf_owner :: jstr
  nf_supply :: int
  nf_nextId :: jstr

record nft_token =
  nt_tokenId :: jstr
  nt_owner :: jstr
  nt_uri :: "jstr option"

record nft_detail =
  nd_summary :: nft_summary
  nd_tokens :: "nft_token list"

record name_entry =
  ne_name :: jstr
  ne_target :: jstr
  ne_owner :: jstr
  ne_registeredAt :: "int option"

record gov_proposal =
  gp_id :: jstr
  gp_param :: jstr
  gp_value :: json
  gp_proposer :: jstr
  gp_status :: jstr
  gp_deadline :: int
  gp_voteCount :: int
  gp_createdAt :: "int option"
  gp_appliesAt :: "int option"

record governable =
  gv_param :: jstr
  gv_kind :: jstr
  gv_value :: json
  gv_min :: json
  gv_max :: json
  gv_overridden :: bool

record governance =
  gs_params :: "(jstr \<times> json) list"
  gs_governable :: "governable list option"
  gs_proposals :: "gov_proposal list"
  gs_validators :: int
  gs_quorum :: "int option"
  gs_governanceActive :: "bool option"

record treasury =
  ty_balance :: jstr
  ty_treasuryPct :: jsnum

record security_alert =
  sa_at :: int
  sa_source :: "jstr option"
  sa_kind :: jstr
  sa_severity :: jstr
  sa_message :: jstr
  sa_context :: "(jstr \<times> json) list option"

record ai_task =
  at_id :: jstr
  at_status :: jstr
  at_requester :: "jstr option"
  at_oracle :: "jstr option"
  at_reward :: "jstr option"
  at_prompt :: "jstr option"
  at_resultHash :: "jstr option"
  at_resultUri :: "jstr option"
  at_verified :: "jstr option"
  at_createdAt :: "int option"

record ai_oracle =
  ao_address :: jstr
  ao_stake :: "jstr option"
  ao_reputation :: "jsnum option"
  ao_completed :: "int option"
  ao_registeredAt :: "int option"

record governance_advisory =
  ga_kind :: jstr
  ga_param :: jstr
  ga_currentValue :: json
  ga_suggestedValue :: json
  ga_severity :: jstr
  ga_reason :: jstr

record network_stats =
  ns_accounts :: int
  ns_accountsDelta :: int
  ns_transactions :: int
  ns_transactionsDelta :: int
  ns_volume :: jstr
  ns_volumeDelta :: jstr
  ns_staked :: jstr
  ns_stakedDelta :: jstr
  ns_tps :: jsnum
  ns_txSeries :: "int list option"
  ns_volSeries :: "jstr list option"

record eavm_tx_result =
  er_accepted :: "bool option"
  er_id :: "jstr option"
  er_error :: "jstr option"
  er_reason :: "jstr option"

end
