(* ===== verification/Mock.thy ===== *)
theory Mock
  imports ApiTypes JsText "HOL-Library.Word"
begin

unbundle bit_operations_syntax

section \<open>The mock node (\<open>lib/mock.ts\<close>)\<close>

text \<open>
  With \<open>NEXT_PUBLIC_USE_MOCK\<close> the pages run on data made up in the browser, in the shapes of the
  API: a chain whose height follows the clock, and blocks, transactions and accounts drawn from a
  32-bit generator (mulberry32) seeded by their height or address. The generator is modelled bit
  by bit on \<open>32 word\<close>; \<open>floor(r() * k)\<close> is computed on integers, which is exact in binary64 for
  \<open>k < 2 ^ 21\<close>, and the program uses no larger one. \<open>Date.now()\<close> is one instant per call of an
  exported function. \<open>Math.pow\<close> is an argument of the one function that uses it.
\<close>

record mock_clock =
  mc_client :: bool
  mc_epoch :: int
  mc_now :: int

definition BASE_HEIGHT :: int where "BASE_HEIGHT = 4218530"
definition BLOCK_MS :: int where "BLOCK_MS = 1000"

definition currentHeight :: "mock_clock \<Rightarrow> int" where
  "currentHeight c = BASE_HEIGHT + (if mc_client c then (mc_now c - mc_epoch c) div BLOCK_MS else 0)"

definition tsOf :: "mock_clock \<Rightarrow> int \<Rightarrow> int" where
  "tsOf c h = mc_now c - (currentHeight c - h) * BLOCK_MS"


subsection \<open>The generator\<close>

definition rng :: "int \<Rightarrow> 32 word" where
  "rng seed = word_of_int seed"

text \<open>One call of the closure: the 32 bits it returns (over \<open>2 ^ 32\<close>) and its next state.\<close>

definition mix1 :: "32 word \<Rightarrow> 32 word" where
  "mix1 a = (a XOR drop_bit 15 a) * (1 OR a)"

definition mix2 :: "32 word \<Rightarrow> 32 word" where
  "mix2 t = (t + (t XOR drop_bit 7 t) * (61 OR t)) XOR t"

definition rng_next :: "32 word \<Rightarrow> nat \<times> 32 word" where
  "rng_next a0 = (let a = a0 + 0x6d2b79f5; t = mix2 (mix1 a) in (unat (t XOR drop_bit 14 t), a))"

definition rand_floor :: "nat \<Rightarrow> int \<Rightarrow> int" where
  "rand_floor u k = int u * k div 2 ^ 32"

definition strSeed :: "jstr \<Rightarrow> int" where
  "strSeed s = uint (foldl (\<lambda>h c. (h XOR (of_nat c :: 32 word)) * 16777619) 2166136261 s)"

definition HEXU :: jstr where "HEXU = js ''0123456789ABCDEF''"

fun hex_loop :: "nat \<Rightarrow> 32 word \<Rightarrow> jstr" where
  "hex_loop 0 a = []"
| "hex_loop (Suc n) a = (case rng_next a of (u, a') \<Rightarrow> HEXU ! nat (rand_floor u 16) # hex_loop n a')"

definition hexFrom :: "int \<Rightarrow> nat \<Rightarrow> jstr" where
  "hexFrom seed len = hex_loop len (rng seed)"

definition e7hash :: "int \<Rightarrow> jstr" where
  "e7hash seed = js ''E7'' @ hexFrom (seed * 2 + 1) 62"

definition e7addr :: "int \<Rightarrow> jstr" where
  "e7addr seed = js ''E7'' @ hexFrom (seed * 7 + 3) 32"

definition intIn :: "32 word \<Rightarrow> int \<Rightarrow> int \<Rightarrow> int \<times> 32 word" where
  "intIn r mn mx = (case rng_next r of (u, r') \<Rightarrow> (mn + rand_floor u (mx - mn + 1), r'))"


subsection \<open>Blocks and transactions\<close>

definition VALIDATORS :: "validator list" where
  "VALIDATORS = [
     \<lparr>vl_address = js ''E79F4F604DDBCDD5BEB6E4D1FDD193F0ED'', vl_staked = js ''10000000000'',
      vl_votes = Some (js ''4200000000''), vl_name = None\<rparr>,
     \<lparr>vl_address = js ''E745706CC4F0604ABF251F55EC9C65DEA2'', vl_staked = js ''1000000000'',
      vl_votes = Some (js ''2600000000''), vl_name = None\<rparr>,
     \<lparr>vl_address = js ''E7EA592A0E54BF561DEA632805B8A5B881'', vl_staked = js ''1000000000'',
      vl_votes = Some (js ''900000000''), vl_name = None\<rparr>]"

definition validator_at :: "int \<Rightarrow> jstr" where
  "validator_at h = vl_address (VALIDATORS ! nat (h mod 3))"

definition TX_TYPES :: "(tx_type \<times> jstr) list" where
  "TX_TYPES = [
     (EAVM_TRANSFER, js ''0.24''),
     (TRANSFER, js ''0.18''),
     (TOKEN_TRANSFER, js ''0.1''),
     (STAKE, js ''0.07''),
     (VOTE, js ''0.06''),
     (AI_TASK, js ''0.05''),
     (TOKEN_MINT, js ''0.04''),
     (NFT_MINT, js ''0.04''),
     (NFT_TRANSFER, js ''0.03''),
     (NAME_REGISTER, js ''0.03''),
     (GOV_VOTE, js ''0.03''),
     (CLAIM_VOTER_REWARD, js ''0.03''),
     (META_TX, js ''0.03''),
     (DELEGATE_RESOURCE, js ''0.02''),
     (UNSTAKE, js ''0.02''),
     (BRIDGE_OUT, js ''0.02''),
     (VESTING_CLAIM, js ''0.02''),
     (MULTISIG_APPROVE, js ''0.02''),
     (ORACLE_REGISTER, js ''0.02'')]"

definition NO_RECIPIENT :: "tx_type list" where
  "NO_RECIPIENT = [STAKE, UNSTAKE, ORACLE_REGISTER, VOTE, CLAIM_VOTER_REWARD, GOV_VOTE, VESTING_CLAIM,
     MULTISIG_APPROVE, SET_COMMISSION]"

definition hex0x :: "int \<Rightarrow> nat \<Rightarrow> json" where
  "hex0x seed len = JStr (js ''0x'' @ to_lower (hexFrom seed len))"

definition whole_e7 :: "int \<Rightarrow> jstr" where
  "whole_e7 n = big_str (n * 1000000)"

definition mockTxData :: "tx_type \<Rightarrow> int \<Rightarrow> (jstr \<times> json) list option" where
  "mockTxData ty seed = (case ty of
       EAVM_TRANSFER \<Rightarrow> Some [(js ''eavmFrom'', hex0x (seed + 10) 40), (js ''eavmTo'', hex0x (seed + 20) 40),
         (js ''eavmHash'', hex0x (seed + 30) 64)]
     | VOTE \<Rightarrow> Some [(js ''votes'', JObj [(e7addr (seed + 5), JStr (whole_e7 (500 + seed mod 900)))])]
     | GOV_VOTE \<Rightarrow> Some [(js ''proposalId'', JStr (e7hash (seed + 7))), (js ''approve'', JBool (seed mod 2 = 0))]
     | TOKEN_MINT \<Rightarrow> Some [(js ''tokenId'', JStr (e7hash (seed + 9))), (js ''symbol'', JStr (js ''QBIT''))]
     | TOKEN_BURN \<Rightarrow> Some [(js ''tokenId'', JStr (e7hash (seed + 9))), (js ''symbol'', JStr (js ''QBIT''))]
     | NFT_MINT \<Rightarrow> Some [(js ''collection'', JStr (e7hash (seed + 11))), (js ''tokenId'', JNum (num_of_int (seed mod 10000))),
         (js ''uri'', JStr (js ''ipfs://Qm'' @ hexFrom (seed + 12) 20))]
     | NFT_TRANSFER \<Rightarrow> Some [(js ''collection'', JStr (e7hash (seed + 11))), (js ''tokenId'', JNum (num_of_int (seed mod 10000))),
         (js ''uri'', JStr (js ''ipfs://Qm'' @ hexFrom (seed + 12) 20))]
     | NAME_REGISTER \<Rightarrow> Some [(js ''name'', JStr (js ''eav'' @ big_str (seed mod 1000) @ js ''.e7'')),
         (js ''target'', JStr (e7addr (seed + 2)))]
     | NAME_UPDATE \<Rightarrow> Some [(js ''name'', JStr (js ''eav'' @ big_str (seed mod 1000) @ js ''.e7'')),
         (js ''target'', JStr (e7addr (seed + 2)))]
     | VESTING_CLAIM \<Rightarrow> Some [(js ''vestingId'', JStr (e7hash (seed + 13)))]
     | META_TX \<Rightarrow> Some [(js ''relayer'', JStr (e7addr (seed + 3))), (js ''inner'', JStr (js ''TRANSFER''))]
     | DELEGATE_RESOURCE \<Rightarrow> Some [(js ''resource'', JStr (if seed mod 2 = 0 then js ''energy'' else js ''bandwidth''))]
     | UNDELEGATE_RESOURCE \<Rightarrow> Some [(js ''resource'', JStr (if seed mod 2 = 0 then js ''energy'' else js ''bandwidth''))]
     | _ \<Rightarrow> None)"

fun pick_loop :: "jsnum \<Rightarrow> (tx_type \<times> jstr) list \<Rightarrow> tx_type" where
  "pick_loop x [] = TRANSFER"
| "pick_loop x ((t, w) # ws) = (let x' = num_sub x (num_of_str w) in
     if num_le x' (Num 0) then t else pick_loop x' ws)"

definition pickType :: "32 word \<Rightarrow> tx_type \<times> 32 word" where
  "pickType r = (case rng_next r of (u, r') \<Rightarrow> (pick_loop (Num (of_nat u / 2 ^ 32)) TX_TYPES, r'))"

definition txCountFor :: "int \<Rightarrow> int" where
  "txCountFor h = fst (intIn (rng (h * 13 + 5)) 0 8)"

definition mockBlock :: "mock_clock \<Rightarrow> int \<Rightarrow> block" where
  "mockBlock c h = \<lparr>bk_height = h, bk_timestamp = tsOf c h, bk_previousHash = e7hash (h - 1),
     bk_txRoot = e7hash (h * 3 + 99), bk_txCount = txCountFor h, bk_producer = validator_at h,
     bk_hash = None, bk_protocol = Some (js ''eav20''), bk_scheme = Some (js ''eav7-hybrid-1''),
     bk_size = Some (640 + txCountFor h * 420)\<rparr>"

text \<open>The fields a mock transaction shares: type, amount and nonce are the first draws of its seed.\<close>

definition mock_tx :: "mock_clock \<Rightarrow> jstr \<Rightarrow> int \<Rightarrow> int \<Rightarrow> tx_type \<Rightarrow> int \<Rightarrow> int \<Rightarrow> tx" where
  "mock_tx c txid seed h ty amount nonce = \<lparr>tx_id = txid, tx_type = ty, tx_from = e7addr (seed + 1),
     tx_to = (if ty \<in> set NO_RECIPIENT then None else Some (e7addr (seed + 2))),
     tx_amount = whole_e7 amount, tx_fee = js ''10000'', tx_nonce = nonce, tx_timestamp = tsOf c h,
     tx_blockHeight = h, tx_blockHash = None,
     tx_scheme = Some (if ty = EAVM_TRANSFER then js ''eav7-eavm-1'' else js ''eav7-hybrid-1''),
     tx_data = mockTxData ty seed, tx_receipt = None, tx_asset = None\<rparr>"

definition mockTxAt :: "mock_clock \<Rightarrow> int \<Rightarrow> int \<Rightarrow> tx" where
  "mockTxAt c h i = (let seed = h * 100 + i in case pickType (rng seed) of (ty, r1) \<Rightarrow>
     (case intIn r1 1 9000 of (amount, r2) \<Rightarrow> (case intIn r2 0 40 of (nonce, r3) \<Rightarrow>
        mock_tx c (e7hash seed) seed h ty amount nonce)))"

definition mockStatus :: "mock_clock \<Rightarrow> status" where
  "mockStatus c = (let h = currentHeight c in
     \<lparr>st_chain = js ''EAV7'', st_protocol = js ''eav20'', st_symbol = js ''EAV7'', st_blockTimeMs = BLOCK_MS,
      st_height = h, st_finalizedHeight = h - 2, st_headHash = e7hash h, st_headTime = tsOf c h,
      st_supply = js ''100001299216000000'', st_genesisSupply = Some (js ''100000000000000000''),
      st_minted = js ''1299216000000'', st_burned = js ''1728400000'', st_treasury = js ''3120000000'',
      st_circulating = js ''100001299216000000'', st_blockReward = js ''16000000'',
      st_energy = \<lparr>en_free = 10, en_perStakedEav7 = 1, en_regenBlocks = 86400\<rparr>,
      st_mempool = fst (intIn (rng (h * 3 + 7)) 0 38), st_validators = int (length VALIDATORS), st_peers = 4,
      st_producer = validator_at h, st_ai = (fst (intIn (rng (h + 1)) 0 3), 2), st_bridge = (3, js ''0''),
      st_security_alerts = 18, st_forkHeights = None,
      st_eavm = \<lparr>vm_chainId = 72020, vm_rpcPort = 7075, vm_decimals = 18,
        vm_rpcUrl = js ''https://rpc.eavscan.com''\<rparr>\<rparr>)"

definition mockBlocks :: "mock_clock \<Rightarrow> nat \<Rightarrow> int option \<Rightarrow> block list" where
  "mockBlocks c limit from = (let h = currentHeight c in case from of
       Some f \<Rightarrow> map (\<lambda>i. mockBlock c (f + int i)) (takeWhile (\<lambda>i. f + int i \<le> h) [0..<limit])
     | None \<Rightarrow> map (\<lambda>i. mockBlock c (h - int i)) [0..<limit])"

text \<open>The inner loop fills the page from one block; the outer one walks down at most \<open>6 * limit\<close> blocks.\<close>

definition fill_from :: "mock_clock \<Rightarrow> nat \<Rightarrow> int \<Rightarrow> tx list \<Rightarrow> tx list" where
  "fill_from c limit h txs =
     txs @ map (\<lambda>i. mockTxAt c h (int i)) [0..<min (nat (txCountFor h)) (limit - length txs)]"

fun txs_loop :: "nat \<Rightarrow> mock_clock \<Rightarrow> nat \<Rightarrow> int \<Rightarrow> tx list \<Rightarrow> tx list \<times> int" where
  "txs_loop 0 c limit h txs = (txs, h)"
| "txs_loop (Suc guard) c limit h txs = (if length txs < limit
     then txs_loop guard c limit (h - 1) (fill_from c limit h txs) else (txs, h))"

definition mockTxs :: "mock_clock \<Rightarrow> nat \<Rightarrow> int option \<Rightarrow> tx_page" where
  "mockTxs c limit before = (let tip = (case before of Some b \<Rightarrow> b | None \<Rightarrow> currentHeight c) in
     case txs_loop (limit * 6) c limit tip [] of (txs, h) \<Rightarrow>
       \<lparr>tp_txs = txs, tp_nextBefore = (if BASE_HEIGHT < h then Some h else None), tp_height = tip\<rparr>)"

definition mockValidators :: "mock_clock \<Rightarrow> validators" where
  "mockValidators c = \<lparr>vs_maxValidators = 51, vs_minStake = js ''1000000000'', vs_blockReward = js ''16000000'',
     vs_current = VALIDATORS, vs_bank = Some [], vs_bankSize = Some 50,
     vs_slotProducer = validator_at (currentHeight c), vs_performance = None, vs_performanceSummary = None,
     vs_performanceWindow = None\<rparr>"

datatype block_ref = RefNum int | RefStr jstr

definition mockBlockDetail :: "mock_clock \<Rightarrow> block_ref \<Rightarrow> block_detail" where
  "mockBlockDetail c ref = (let h = (case ref of RefNum n \<Rightarrow> n
         | RefStr s \<Rightarrow> if is_digits s then int (undec s) else currentHeight c);
       base = mockBlock c h in
     \<lparr>bd_block = base, bd_version = Some 1, bd_publicKey = None, bd_pqPublicKey = None,
      bd_transactions = Some (map (\<lambda>i. mockTxAt c h (int i)) [0..<nat (bk_txCount base)]), bd_error = None\<rparr>)"

definition mockTxDetail :: "mock_clock \<Rightarrow> jstr \<Rightarrow> tx_detail" where
  "mockTxDetail c txid = (let seed = strSeed txid in case pickType (rng seed) of (ty, r1) \<Rightarrow>
     (case intIn r1 1 400 of (back, r2) \<Rightarrow> (case intIn r2 1 9000 of (amount, r3) \<Rightarrow>
     (case intIn r3 0 40 of (nonce, r4) \<Rightarrow> (let h = currentHeight c - back in
       \<lparr>td_status = js ''CONFIRMED'', td_tx = mock_tx c txid seed h ty amount nonce,
        td_blockHeight = Some h, td_blockHash = Some (e7hash h), td_blockTime = None, td_error = None\<rparr>)))))"


subsection \<open>Accounts\<close>

definition int_of_num :: "jsnum \<Rightarrow> int" where
  "int_of_num x = (case x of Num q \<Rightarrow> \<lfloor>q\<rfloor> | _ \<Rightarrow> 0)"

text \<open>The draws of \<open>mockAddress\<close>, in the order the code makes them.\<close>

definition mock_staked :: "validator option \<Rightarrow> 32 word \<Rightarrow> jstr \<times> 32 word" where
  "mock_staked known r = (case known of Some v \<Rightarrow> (vl_staked v, r)
     | None \<Rightarrow> (let (k, r1) = intIn r 0 3 in
         if k = 0 then (let (s, r2) = intIn r1 1 500 in (whole_e7 s, r2)) else (js ''0'', r1)))"

definition mock_nfts :: "int \<Rightarrow> 32 word \<Rightarrow> nft_owned list \<times> 32 word" where
  "mock_nfts seed r = (let (k, r1) = intIn r 0 2 in
     if k = 0 then (let (t, r2) = intIn r1 1 512 in
       ([\<lparr>no_collection = e7hash 2001, no_symbol = js ''PUNK'', no_tokenId = big_str t,
          no_uri = Some (js ''ipfs://Qm'' @ hexFrom seed 20)\<rparr>], r2))
     else ([], r1))"

text \<open>\<open>BigInt(staked)\<close>: every staked text here is a decimal number.\<close>

definition big_value :: "jstr \<Rightarrow> int" where
  "big_value s = (case big_of_str s of Inr v \<Rightarrow> v | Inl e \<Rightarrow> 0)"

definition mockAddress :: "jstr \<Rightarrow> address_info" where
  "mockAddress addr = (let known = find (\<lambda>v. vl_address v = addr) VALIDATORS; seed = strSeed addr;
       (bal, r1) = intIn (rng seed) 10 90000;
       (staked, r2) = mock_staked known r1;
       energyMax = 10 + big_div (big_value staked) 1000000;
       (nonce, r3) = intIn r2 0 30;
       (next, r4) = intIn r3 0 30;
       (avail, r5) = intIn r4 (int_of_num (num_floor (num_mul (num_of_int energyMax) (num_of_str (js ''0.4''))))) energyMax;
       (nfts, r6) = mock_nfts seed r5;
       (m, r7) = intIn r6 0 3
     in \<lparr>ai_address = addr, ai_eavmAddress = (if take 2 addr = js ''0x'' then Some addr else None),
        ai_balance = whole_e7 bal, ai_balanceFormatted = None, ai_staked = staked, ai_stakedFormatted = None,
        ai_nonce = nonce, ai_nextNonce = next + 1, ai_energy = (energyMax, avail), ai_gb = None,
        ai_feeExempt = (100000000 \<le> big_value staked), ai_isValidator = (known \<noteq> None),
        ai_votes = Some (case known of Some v \<Rightarrow> the (vl_votes v) | None \<Rightarrow> js ''0''),
        ai_commission = (if known \<noteq> None then Some 20 else None), ai_tokens = [], ai_nfts = Some nfts,
        ai_names = Some (if m = 0 then [(js ''user'' @ big_str (seed mod 1000) @ js ''.e7'', addr)] else []),
        ai_oracle = None, ai_error = None, ai_activity = None, ai_claimableVoterReward = None,
        ai_approvals = None, ai_bandwidth = None, ai_resources = None, ai_votesCast = None,
        ai_votedTotal = None, ai_unbonding = None, ai_permissions = None, ai_pendingPermission = None,
        ai_vesting = None, ai_contract = None\<rparr>)"

definition mockAddressTxs :: "mock_clock \<Rightarrow> jstr \<Rightarrow> int \<Rightarrow> tx list" where
  "mockAddressTxs c addr limit = (let h = currentHeight c; n = fst (intIn (rng (strSeed addr)) 0 limit) in
     map (\<lambda>i. let t = mockTxAt c (h - int i * 3 - 1) (int (i mod 5)) in
       if i mod 2 = 0 then t\<lparr>tx_from := addr\<rparr> else t\<lparr>tx_to := Some addr\<rparr>) [0..<nat n])"


subsection \<open>Tokens, collections, names and the rest\<close>

definition tokenMock :: "int \<Rightarrow> jstr \<Rightarrow> jstr \<Rightarrow> jstr \<Rightarrow> int \<Rightarrow> nat \<Rightarrow> token_summary" where
  "tokenMock n symbol name totalSupply holders v = \<lparr>tk_id = e7hash n, tk_symbol = symbol, tk_name = name,
     tk_standard = js ''EAV20'', tk_decimals = 6, tk_totalSupply = totalSupply, tk_holders = holders,
     tk_creator = vl_address (VALIDATORS ! v), tk_owner = vl_address (VALIDATORS ! v), tk_mintable = True,
     tk_paused = False, tk_createdAt = 1700000000000 + n * 86400000\<rparr>"

definition mockTokens :: "token_summary list" where
  "mockTokens = [tokenMock 1001 (js ''USDE'') (js ''USD EAV'') (js ''50000000'') 1284 0,
     tokenMock 1002 (js ''QBIT'') (js ''QuantumBit'') (js ''21000000'') 642 1,
     tokenMock 1003 (js ''AIX'') (js ''AI Oracle Token'') (js ''100000000'') 318 2]"

fun find_index :: "('a \<Rightarrow> bool) \<Rightarrow> 'a list \<Rightarrow> nat option" where
  "find_index P [] = None"
| "find_index P (x # xs) = (if P x then Some 0 else map_option Suc (find_index P xs))"

definition mockToken :: "mock_clock \<Rightarrow> jstr \<Rightarrow> token_detail option" where
  "mockToken c tid = (case find_index (\<lambda>t. tk_id t = tid) mockTokens of None \<Rightarrow> None
     | Some i \<Rightarrow> (let base = mockTokens ! i in Some
         \<lparr>tt_summary = base\<lparr>tk_standard := js ''eav20'', tk_decimals := 6, tk_owner := tk_creator base,
            tk_mintable := (i = 0), tk_paused := False,
            tk_createdAt := mc_now c - (int i + 1) * 86400000 * 30\<rparr>,
          tt_blacklist = None, tt_frozen = None\<rparr>))"

fun weights_loop :: "(jsnum \<Rightarrow> jsnum \<Rightarrow> jsnum) \<Rightarrow> nat \<Rightarrow> nat \<Rightarrow> 32 word \<Rightarrow> jsnum list" where
  "weights_loop pow i 0 r = []"
| "weights_loop pow i (Suc n) r = (case rng_next r of (u, r') \<Rightarrow>
     num_mul (num_div (Num 1) (pow (num_of_int (int i + 1)) (num_of_str (js ''1.35''))))
       (num_add (num_of_str (js ''0.85'')) (num_mul (Num (of_nat u / 2 ^ 32)) (num_of_str (js ''0.3''))))
     # weights_loop pow (Suc i) n r')"

definition holder_row :: "jstr \<Rightarrow> token_summary \<Rightarrow> jsnum \<Rightarrow> jsnum \<Rightarrow> nat \<Rightarrow> jsnum \<Rightarrow> token_holder" where
  "holder_row tid tok supply wsum i w = (let share = num_div w wsum;
       balance = num_floor (num_mul supply share) in
     \<lparr>th_rank = int i + 1,
      th_address = (if i = 0 then tk_creator tok else e7addr (strSeed tid + int i * 13)),
      th_balance = num_str (num_mul balance (num_of_int (10 ^ nat (tk_decimals tok)))),
      th_shareBps = int_of_num (num_round (num_mul share (Num 10000))), th_frozen = js ''0'',
      th_blacklisted = False\<rparr>)"

definition mockTokenHolders :: "(jsnum \<Rightarrow> jsnum \<Rightarrow> jsnum) \<Rightarrow> mock_clock \<Rightarrow> jstr \<Rightarrow> int \<Rightarrow> token_holders option" where
  "mockTokenHolders pow c tid limit = (case mockToken c tid of None \<Rightarrow> None
     | Some t \<Rightarrow> (let tok = tt_summary t; supply = num_of_str (tk_totalSupply tok);
         n = nat (min limit (tk_holders tok)); ws = weights_loop pow 0 n (rng (strSeed tid));
         wsum = foldl num_add (Num 0) ws in Some
         \<lparr>hs_token = tid, hs_decimals = tk_decimals tok, hs_totalSupply = tk_totalSupply tok,
          hs_holders = tk_holders tok,
          hs_list = map (\<lambda>i. holder_row tid tok supply wsum i (ws ! i)) [0..<length ws]\<rparr>))"

definition transfer_row :: "mock_clock \<Rightarrow> jstr \<Rightarrow> token_summary \<Rightarrow> nat \<Rightarrow> tx" where
  "transfer_row c tid tok i = (let seed = strSeed tid + int i * 31; h = currentHeight c - int i * 4 - 1 in
     case intIn (rng seed) 1 250000 of (amount, r1) \<Rightarrow> (case intIn r1 0 40 of (nonce, r2) \<Rightarrow>
       \<lparr>tx_id = e7hash seed, tx_type = TOKEN_TRANSFER, tx_from = e7addr (seed + 1),
        tx_to = Some (e7addr (seed + 2)), tx_amount = big_str (amount * 10 ^ nat (tk_decimals tok)),
        tx_fee = js ''10000'', tx_nonce = nonce, tx_timestamp = tsOf c h, tx_blockHeight = h,
        tx_blockHash = None, tx_scheme = Some (js ''eav7-hybrid-1''),
        tx_data = Some [(js ''token'', JStr tid)], tx_receipt = None,
        tx_asset = Some \<lparr>as_kind = js ''EAV20'', asset_id = tid, as_symbol = Some (tk_symbol tok),
          as_name = Some (tk_name tok), as_decimals = Some (tk_decimals tok), as_tokenId = None\<rparr>\<rparr>))"

definition mockTokenTransfers :: "mock_clock \<Rightarrow> jstr \<Rightarrow> nat \<Rightarrow> tx list" where
  "mockTokenTransfers c tid limit = (case mockToken c tid of None \<Rightarrow> []
     | Some t \<Rightarrow> map (transfer_row c tid (tt_summary t)) [0..<limit])"

definition mockPostEavmTx :: "jstr \<Rightarrow> eavm_tx_result" where
  "mockPostEavmTx raw = \<lparr>er_accepted = Some True, er_id = Some (e7hash (strSeed raw)), er_error = None,
     er_reason = None\<rparr>"

definition nft_mock :: "int \<Rightarrow> jstr \<Rightarrow> jstr \<Rightarrow> int \<Rightarrow> nat \<Rightarrow> nft_summary" where
  "nft_mock n name symbol supply i = \<lparr>nf_id = e7hash n, nf_name = name, nf_symbol = symbol,
     nf_owner = vl_address (VALIDATORS ! (i mod 3)), nf_supply = supply, nf_nextId = big_str supply\<rparr>"

definition mockNfts :: "nft_summary list" where
  "mockNfts = [nft_mock 2001 (js ''EAV7 Genesis Punks'') (js ''PUNK'') 512 0,
     nft_mock 2002 (js ''Quantum Artifacts'') (js ''QART'') 128 1,
     nft_mock 2003 (js ''Validator Crests'') (js ''CREST'') 27 2]"

definition mockNftCollection :: "jstr \<Rightarrow> nft_detail option" where
  "mockNftCollection cid = (let s = (case find (\<lambda>x. nf_id x = cid) mockNfts of Some x \<Rightarrow> x | None \<Rightarrow> mockNfts ! 0) in
     Some \<lparr>nd_summary = s\<lparr>nf_owner := vl_address (VALIDATORS ! 0)\<rparr>,
       nd_tokens = map (\<lambda>i. \<lparr>nt_tokenId = big_str (int i + 1), nt_owner = e7addr (strSeed (nf_id s) + int i * 7),
         nt_uri = Some (js ''ipfs://Qm'' @ hexFrom (strSeed (nf_id s) + int i) 20)\<rparr>)
         [0..<nat (min 24 (nf_supply s))]\<rparr>)"

definition MOCK_NAMES :: "jstr list" where
  "MOCK_NAMES = [js ''eav7'', js ''satoshi'', js ''tesouraria'', js ''oracle'', js ''ponte'', js ''genesis'',
     js ''wope'', js ''validator'']"

definition mockNames :: "mock_clock \<Rightarrow> name_entry list" where
  "mockNames c = map (\<lambda>i. let n = MOCK_NAMES ! i in \<lparr>ne_name = n @ js ''.e7'', ne_target = e7addr (strSeed n),
     ne_owner = e7addr (strSeed n + 1), ne_registeredAt = Some (mc_now c - int i * 86400000)\<rparr>)
     [0..<length MOCK_NAMES]"

definition mockGovernance :: "mock_clock \<Rightarrow> governance" where
  "mockGovernance c = (let h = currentHeight c in
     \<lparr>gs_params = [(js ''TREASURY_PCT'', JNum (Num 5)), (js ''BLOCK_REWARD'', JStr (js ''16000000''))],
      gs_governable = None,
      gs_proposals = [
        \<lparr>gp_id = e7hash 3001, gp_param = js ''TREASURY_PCT'', gp_value = JNum (Num 5),
         gp_proposer = vl_address (VALIDATORS ! 0), gp_status = js ''PASSED'', gp_deadline = h - 1000,
         gp_voteCount = 3, gp_createdAt = Some (mc_now c - 6 * 86400000), gp_appliesAt = Some (h - 200)\<rparr>,
        \<lparr>gp_id = e7hash 3002, gp_param = js ''BLOCK_REWARD'', gp_value = JStr (js ''16000000''),
         gp_proposer = vl_address (VALIDATORS ! 1), gp_status = js ''VOTING'', gp_deadline = h + 40000,
         gp_voteCount = 1, gp_createdAt = Some (mc_now c - 3600000), gp_appliesAt = None\<rparr>],
      gs_validators = int (length VALIDATORS), gs_quorum = None, gs_governanceActive = None\<rparr>)"

definition mockTreasury :: treasury where
  "mockTreasury = \<lparr>ty_balance = js ''3120000000'', ty_treasuryPct = Num 5\<rparr>"

definition ALERT_SAMPLES :: "(jstr \<times> jstr \<times> jstr) list" where
  "ALERT_SAMPLES = [
     (js ''info'', js ''SENTINEL_REPORT'', js ''Rede est'' @ [225] @ js ''vel: produ'' @ [231] @ [227] @ js ''o em ritmo, sem forks nem concentra'' @ [231] @ [227] @ js ''o de produtores.''),
     (js ''warning'', js ''LARGE_TRANSFER'', js ''Transfer'' @ [234] @ js ''ncia acima de 1% do supply detectada no bloco recente.''),
     (js ''info'', js ''MEMPOOL'', js ''Fluxo de mempool normal; sem rajadas an'' @ [244] @ js ''malas de transa'' @ [231] @ [245] @ js ''es.''),
     (js ''warning'', js ''PRODUCER_CONCENTRATION'', js ''Um produtor concentrou 40% dos '' @ [250] @ js ''ltimos blocos '' @ [8212] @ js '' monitorando.''),
     (js ''info'', js ''SENTINEL_REPORT'', js ''Parecer hor'' @ [225] @ js ''rio do analista de IA: nenhum comportamento suspeito.''),
     (js ''critical'', js ''REORG'', js ''Reorganiza'' @ [231] @ [227] @ js ''o de cadeia observada (profundidade 2) '' @ [8212] @ js '' dentro do esperado.'')]"

definition mockSecurityAlerts :: "mock_clock \<Rightarrow> security_alert list" where
  "mockSecurityAlerts c = map (\<lambda>i. case ALERT_SAMPLES ! (i mod length ALERT_SAMPLES) of (severity, kind, message) \<Rightarrow>
     \<lparr>sa_at = mc_now c - int i * 900000, sa_source = Some (js ''sentinel''), sa_kind = kind,
      sa_severity = severity, sa_message = message, sa_context = None\<rparr>) [0..<24]"

definition mockAiTasks :: "ai_task list" where "mockAiTasks = []"
definition mockAiOracles :: "ai_oracle list" where "mockAiOracles = []"

definition tx_series :: "int \<Rightarrow> int list" where
  "tx_series h = map (\<lambda>i. fst (intIn (rng (h + int i * 31)) 2 40)) [0..<24]"

definition vol_series :: "int \<Rightarrow> int list" where
  "vol_series h = map (\<lambda>i. tx_series h ! i * fst (intIn (rng (h + int i * 7)) 20 900) * 1000000) [0..<24]"

definition mockNetworkStats :: "mock_clock \<Rightarrow> network_stats" where
  "mockNetworkStats c = (let h = currentHeight c; txCount24h = sum_list (tx_series h);
      vol24h = sum_list (vol_series h) in
     \<lparr>ns_accounts = int_of_num (num_floor (num_add (Num 902400) (num_mul (num_of_str (js ''0.12'')) (num_of_int h)))),
      ns_accountsDelta = 0,
      ns_transactions = int_of_num (num_floor (num_mul (num_of_str (js ''3.7'')) (num_of_int h))),
      ns_transactionsDelta = txCount24h, ns_volume = big_str vol24h, ns_volumeDelta = big_str vol24h,
      ns_staked = big_str (41280000 * 1000000), ns_stakedDelta = js ''0'',
      ns_tps = num_div (num_of_int txCount24h) (num_of_int (24 * 3600)),
      ns_txSeries = Some (tx_series h), ns_volSeries = Some (map big_str (vol_series h))\<rparr>)"



subsection \<open>The generator keeps its ranges\<close>

lemma rand_floor_bounds:
  assumes "0 < k" "u < 2 ^ 32"
  shows "0 \<le> rand_floor u k" "rand_floor u k < k"
proof -
  have "int u < 2 ^ 32" using assms(2) by (simp flip: of_nat_less_iff)
  then have "int u * k < 2 ^ 32 * k" using assms(1) by (simp add: mult_strict_right_mono)
  moreover have "a div 4294967296 < k" if "a < 4294967296 * k" for a :: int
    using that by presburger
  ultimately have "int u * k div 2 ^ 32 < k" by simp
  then show "rand_floor u k < k" by (simp add: rand_floor_def)
  show "0 \<le> rand_floor u k" using assms(1) by (simp add: rand_floor_def pos_imp_zdiv_nonneg_iff)
qed

lemma rng_next_less: "fst (rng_next a) < 2 ^ 32"
proof -
  have "unat (w :: 32 word) < 2 ^ LENGTH(32)" for w by (rule unsigned_less)
  then show ?thesis by (simp add: rng_next_def Let_def)
qed

lemma intIn_bounds:
  assumes "mn \<le> mx"
  shows "mn \<le> fst (intIn r mn mx)" "fst (intIn r mn mx) \<le> mx"
  using rand_floor_bounds [of "mx - mn + 1" "fst (rng_next r)"] rng_next_less [of r] assms
  by (auto simp: intIn_def split: prod.splits)

lemma hexu_upper: "k < 16 \<Longrightarrow> is_upper_hex (HEXU ! k)"
proof -
  assume k: "k < 16"
  have "list_all is_upper_hex HEXU" by (simp add: HEXU_def js_eval is_upper_hex_def)
  moreover have "length HEXU = 16" by (simp add: HEXU_def)
  ultimately show ?thesis using k by (simp add: list_all_length)
qed

lemma hex_loop_shape: "length (hex_loop n a) = n \<and> list_all is_upper_hex (hex_loop n a)"
proof (induction n arbitrary: a)
  case (Suc n)
  obtain u a' where u: "rng_next a = (u, a')" by fastforce
  then have "u < 2 ^ 32" using rng_next_less [of a] by simp
  then have "nat (rand_floor u 16) < 16" using rand_floor_bounds [of 16 u] by simp
  then show ?case using Suc.IH [of a'] u by (simp add: hexu_upper)
qed simp

lemma e7addr_valid: "re_e7 32 (e7addr seed)"
  using hex_loop_shape by (simp add: e7addr_def re_e7_def hexFrom_def)

lemma e7hash_valid: "re_e7 62 (e7hash seed)"
  using hex_loop_shape by (simp add: e7hash_def re_e7_def hexFrom_def)

lemma length_fill_from: "length txs \<le> limit \<Longrightarrow> length (fill_from c limit h txs) \<le> limit"
  by (simp add: fill_from_def)

lemma txs_loop_shape:
  assumes "length txs \<le> limit" "\<forall>t \<in> set txs. h < tx_blockHeight t"
  shows "length (fst (txs_loop g c limit h txs)) \<le> limit
    \<and> snd (txs_loop g c limit h txs) \<le> h
    \<and> (\<forall>t \<in> set (fst (txs_loop g c limit h txs)). snd (txs_loop g c limit h txs) < tx_blockHeight t)
    \<and> (\<forall>t \<in> set (fst (txs_loop g c limit h txs)). t \<in> set txs \<or> tx_blockHeight t \<le> h)"
  using assms
proof (induction g arbitrary: h txs)
  case (Suc g)
  show ?case
  proof (cases "length txs < limit")
    case True
    have b: "tx_blockHeight (mockTxAt c h i) = h" for i
      by (simp add: mockTxAt_def mock_tx_def Let_def split: prod.splits)
    have l: "length (fill_from c limit h txs) \<le> limit" using Suc.prems(1) by (rule length_fill_from)
    have "\<forall>t \<in> set (fill_from c limit h txs). h - 1 < tx_blockHeight t"
      using Suc.prems(2) by (auto simp: fill_from_def b)
    then show ?thesis
      using True Suc.IH [OF l, of "h - 1"] by (auto simp: fill_from_def b)
  next
    case False
    then show ?thesis using Suc.prems by simp
  qed
qed simp


lemma tx_height_mockTxAt [simp]: "tx_blockHeight (mockTxAt c h i) = h"
  by (simp add: mockTxAt_def mock_tx_def Let_def split: prod.splits)

lemma mockTxs_shape:
  assumes "p = mockTxs c limit (Some tip)"
  shows "length (tp_txs p) \<le> limit"
    and "t \<in> set (tp_txs p) \<Longrightarrow> tx_blockHeight t \<le> tip"
    and "t \<in> set (tp_txs p) \<Longrightarrow> tp_nextBefore p = Some n \<Longrightarrow> n < tx_blockHeight t"
    and "tp_nextBefore p = Some n \<Longrightarrow> n \<le> tip"
  using txs_loop_shape [of "[]" limit tip "limit * 6" c] assms
  by (auto simp: mockTxs_def split: prod.splits if_splits)

lemma mock_tx_of:
  obtains ty a n where "mockTxAt c h i = mock_tx c (e7hash (h * 100 + i)) (h * 100 + i) h ty a n"
    "1 \<le> a" "a \<le> 9000" "0 \<le> n" "n \<le> 40"
proof -
  obtain ty r1 where 1: "pickType (rng (h * 100 + i)) = (ty, r1)" by fastforce
  obtain a r2 where 2: "intIn r1 1 9000 = (a, r2)" by fastforce
  obtain n r3 where 3: "intIn r2 0 40 = (n, r3)" by fastforce
  have "mockTxAt c h i = mock_tx c (e7hash (h * 100 + i)) (h * 100 + i) h ty a n"
    by (simp add: mockTxAt_def Let_def 1 2 3)
  then show thesis
    using intIn_bounds [of 1 9000 r1] intIn_bounds [of 0 40 r2] 2 3 that by simp
qed

lemma tx_of_later_page:
  assumes "b \<le> n" "n < h"
  shows "mockTxAt c h i \<notin> set (tp_txs (mockTxs c limit (Some b)))"
proof
  assume "mockTxAt c h i \<in> set (tp_txs (mockTxs c limit (Some b)))"
  then have "tx_blockHeight (mockTxAt c h i) \<le> b" by (rule mockTxs_shape(2) [OF refl])
  then show False using assms by simp
qed

lemma full_page:
  assumes "0 < limit" "int limit < txCountFor tip"
  shows "mockTxs c limit (Some tip) = \<lparr>tp_txs = map (\<lambda>i. mockTxAt c tip (int i)) [0..<limit],
    tp_nextBefore = (if BASE_HEIGHT < tip - 1 then Some (tip - 1) else None), tp_height = tip\<rparr>"
proof -
  obtain g where g: "limit * 6 = Suc g" using assms(1) by (cases "limit * 6") auto
  have f: "fill_from c limit tip [] = map (\<lambda>i. mockTxAt c tip (int i)) [0..<limit]"
    using assms by (simp add: fill_from_def min_def)
  have "txs_loop g' c limit h xs = (xs, h)" if "length xs = limit" for g' h xs
    using that by (cases g') simp_all
  then have "txs_loop (limit * 6) c limit tip [] = (map (\<lambda>i. mockTxAt c tip (int i)) [0..<limit], tip - 1)"
    using assms(1) by (simp add: g f)
  then show ?thesis by (simp add: mockTxs_def)
qed

lemma txCountFor_example: "txCountFor 4218540 = 7"
  by (simp add: txCountFor_def intIn_def rng_next_def rng_def mix1_def mix2_def Let_def rand_floor_def)



subsection \<open>Properties\<close>

text \<open>
  What the mock makes up has the formats of the chain: every transaction has a 62-digit E7 id,
  well-formed E7 addresses, 1 to 9000 whole coins, a nonce up to 40, no recipient exactly for the
  types that have none, and it sits in the block it was asked for, for every height and seed.
\<close>

theorem mock_tx_well_formed:
  "(let t = mockTxAt c h i in re_e7 62 (tx_id t) \<and> re_e7 32 (tx_from t)
     \<and> (case tx_to t of None \<Rightarrow> tx_type t \<in> set NO_RECIPIENT
        | Some a \<Rightarrow> re_e7 32 a \<and> tx_type t \<notin> set NO_RECIPIENT)
     \<and> (\<exists>a. tx_amount t = whole_e7 a \<and> 1 \<le> a \<and> a \<le> 9000)
     \<and> 0 \<le> tx_nonce t \<and> tx_nonce t \<le> 40 \<and> tx_blockHeight t = h)"
proof -
  obtain ty a n where "mockTxAt c h i = mock_tx c (e7hash (h * 100 + i)) (h * 100 + i) h ty a n"
    "1 \<le> a" "a \<le> 9000" "0 \<le> n" "n \<le> 40"
    by (rule mock_tx_of)
  then show ?thesis
    by (simp add: mock_tx_def e7hash_valid e7addr_valid) blast
qed

text \<open>
  A page of transactions has at most \<open>limit\<close> of them, none above the height asked for and all
  above \<open>nextBefore\<close>, so the page fetched with \<open>nextBefore\<close> repeats none of them and paging goes
  strictly down.
\<close>

theorem mock_pages_disjoint:
  assumes "p = mockTxs c limit (Some tip)" "tp_nextBefore p = Some n"
  shows "length (tp_txs p) \<le> limit \<and> n \<le> tip
    \<and> set (tp_txs p) \<inter> set (tp_txs (mockTxs c' limit' (Some n))) = {}"
proof -
  have "tx_blockHeight t \<le> n" if "t \<in> set (tp_txs (mockTxs c' limit' (Some n)))" for t
    using mockTxs_shape(2) [OF refl that] .
  moreover have "n < tx_blockHeight t" if "t \<in> set (tp_txs p)" for t
    using mockTxs_shape(3) [OF assms(1) that assms(2)] .
  ultimately show ?thesis
    using mockTxs_shape(1) [OF assms(1)] mockTxs_shape(4) [OF assms(1) assms(2)] by fastforce
qed

definition demo_clock :: mock_clock where
  "demo_clock = \<lparr>mc_client = False, mc_epoch = 0, mc_now = 1700000000000\<rparr>"

lemma demo_page:
  "tp_nextBefore (mockTxs demo_clock 3 (Some 4218540)) = Some 4218539"
  using full_page [of 3 4218540 demo_clock] by (simp add: txCountFor_example BASE_HEIGHT_def)

theorem mock_pages_disjoint_witness:
  "set (tp_txs (mockTxs demo_clock 3 (Some 4218540))) \<inter> set (tp_txs (mockTxs demo_clock 3 (Some 4218539))) = {}"
  using mock_pages_disjoint [OF refl demo_page, of demo_clock 3] by blast

text \<open>
  A page that ends inside a block loses the rest of the block: \<open>nextBefore\<close> is the height
  below it, so a transaction of the block beyond the limit is on this page of no size and on no
  later page.
\<close>

theorem mock_page_drops_rest_of_block:
  assumes "0 < limit" "int limit \<le> i" "i < txCountFor tip" "b \<le> tip - 1"
  shows "tp_nextBefore (mockTxs c limit (Some tip)) \<in> {None, Some (tip - 1)}
    \<and> tp_txs (mockTxs c limit (Some tip)) = map (\<lambda>k. mockTxAt c tip (int k)) [0..<limit]
    \<and> mockTxAt c tip i \<notin> set (tp_txs (mockTxs c limit' (Some b)))"
  using full_page [of limit tip c] tx_of_later_page [of b "tip - 1" tip c i limit'] assms by simp

theorem mock_page_drops_rest_of_block_witness:
  "mockTxAt demo_clock 4218540 5 \<notin> set (tp_txs (mockTxs demo_clock 3 (Some 4218539)))"
  using mock_page_drops_rest_of_block [of 3 5 4218540 4218539 demo_clock 3] by (simp add: txCountFor_example)

end
