(* ===== verification/Api.thy ===== *)
theory Api
  imports Mock Wallet
begin

section \<open>The client of the node API (\<open>lib/api.ts\<close>)\<close>

text \<open>
  The environment of the build, the base URL per context, and one function per endpoint. \<open>fetch\<close>
  is an argument: from the URL to an HTTP status and a decoded body, or an error (of the network,
  or a body that is not the JSON asked for). Under the mock switch a function answers from
  \<open>Mock\<close> and fetches nothing.
\<close>

record web_env =
  we_API_BASE :: "jstr option"
  we_NODE_ENV :: jstr
  we_USE_MOCK :: "jstr option"
  we_API_ORIGIN :: "jstr option"
  we_browser :: bool
  we_NETWORK :: "jstr option"

type_synonym 'a fetch = "jstr \<Rightarrow> (nat \<times> 'a) res"

definition API_BASE :: "web_env \<Rightarrow> jstr" where
  "API_BASE e = (case we_API_BASE e of Some b \<Rightarrow> b
     | None \<Rightarrow> if we_NODE_ENV e = js ''development'' then js ''/api'' else [])"

definition USE_MOCK :: "web_env \<Rightarrow> bool" where
  "USE_MOCK e \<longleftrightarrow> we_USE_MOCK e = Some (js ''true'')"

text \<open>Loading the module throws for a production build with the mock on.\<close>

definition api_module :: "web_env \<Rightarrow> unit res" where
  "api_module e = (if we_NODE_ENV e = js ''production'' \<and> USE_MOCK e
     then Inl (js ''NEXT_PUBLIC_USE_MOCK=true em production'' @ [32, 8212] @
       js '' recusado. Remova a env ou use development.'') else Inr ())"

definition resolveBase :: "web_env \<Rightarrow> jstr" where
  "resolveBase e = (case we_API_ORIGIN e of
       Some origin \<Rightarrow> if \<not> we_browser e \<and> origin \<noteq> [] then origin else API_BASE e
     | None \<Rightarrow> API_BASE e)"

definition api_get :: "web_env \<Rightarrow> 'a fetch \<Rightarrow> jstr \<Rightarrow> 'a res" where
  "api_get e fetch path = (case fetch (resolveBase e @ path) of
       Inl err \<Rightarrow> Inl err
     | Inr (status, body) \<Rightarrow> if 200 \<le> status \<and> status < 300 then Inr body
         else Inl (js ''API '' @ path @ [32, 8594, 32] @ dec status))"

text \<open>\<open>.catch(() => d)\<close>.\<close>

definition catch :: "'a \<Rightarrow> 'a res \<Rightarrow> 'a" where
  "catch d r = (case r of Inl _ \<Rightarrow> d | Inr a \<Rightarrow> a)"

definition get_option :: "'a res \<Rightarrow> 'a option" where
  "get_option r = catch None (bind_res r (\<lambda>a. Inr (Some a)))"

definition getStatus :: "web_env \<Rightarrow> mock_clock \<Rightarrow> status fetch \<Rightarrow> status res" where
  "getStatus e c fetch = (if USE_MOCK e then Inr (mockStatus c) else api_get e fetch (js ''/status''))"

definition num_query :: "string \<Rightarrow> int option \<Rightarrow> jstr" where
  "num_query k v = (case v of None \<Rightarrow> [] | Some n \<Rightarrow> js ''&'' @ js k @ js ''='' @ big_str n)"

definition getBlocks :: "web_env \<Rightarrow> mock_clock \<Rightarrow> block list fetch \<Rightarrow> nat \<Rightarrow> int option \<Rightarrow> block list res" where
  "getBlocks e c fetch limit from = (if USE_MOCK e then Inr (mockBlocks c limit from)
     else api_get e fetch (js ''/blocks?limit='' @ dec limit @ num_query ''from'' from))"

definition getTxs :: "web_env \<Rightarrow> mock_clock \<Rightarrow> tx_page fetch \<Rightarrow> nat \<Rightarrow> int option \<Rightarrow> tx_page res" where
  "getTxs e c fetch limit before = (if USE_MOCK e then Inr (mockTxs c limit before)
     else api_get e fetch (js ''/txs?limit='' @ dec limit @ num_query ''before'' before))"

definition getValidators :: "web_env \<Rightarrow> mock_clock \<Rightarrow> validators fetch \<Rightarrow> validators res" where
  "getValidators e c fetch = (if USE_MOCK e then Inr (mockValidators c) else api_get e fetch (js ''/validators''))"

definition ref_text :: "block_ref \<Rightarrow> jstr" where
  "ref_text r = (case r of RefNum n \<Rightarrow> big_str n | RefStr s \<Rightarrow> s)"

definition getBlock :: "web_env \<Rightarrow> mock_clock \<Rightarrow> block_detail fetch \<Rightarrow> block_ref \<Rightarrow> block_detail res" where
  "getBlock e c fetch ref = (if USE_MOCK e then Inr (mockBlockDetail c ref)
     else api_get e fetch (js ''/blocks/'' @ ref_text ref))"

definition getTx :: "web_env \<Rightarrow> mock_clock \<Rightarrow> tx_detail fetch \<Rightarrow> jstr \<Rightarrow> tx_detail res" where
  "getTx e c fetch txid = (if USE_MOCK e then Inr (mockTxDetail c txid) else api_get e fetch (js ''/tx/'' @ txid))"

definition getAddress :: "web_env \<Rightarrow> address_info fetch \<Rightarrow> jstr \<Rightarrow> address_info res" where
  "getAddress e fetch addr = (if USE_MOCK e then Inr (mockAddress addr)
     else api_get e fetch (js ''/address/'' @ addr))"

definition getAddressTxs :: "web_env \<Rightarrow> mock_clock \<Rightarrow> tx list fetch \<Rightarrow> jstr \<Rightarrow> nat \<Rightarrow> tx list res" where
  "getAddressTxs e c fetch addr limit = (if USE_MOCK e then Inr (mockAddressTxs c addr (int limit))
     else api_get e fetch (js ''/address/'' @ addr @ js ''/txs?limit='' @ dec limit))"

definition getTokens :: "web_env \<Rightarrow> token_summary list fetch \<Rightarrow> token_summary list res" where
  "getTokens e fetch = (if USE_MOCK e then Inr mockTokens else api_get e fetch (js ''/tokens''))"

definition getToken :: "web_env \<Rightarrow> mock_clock \<Rightarrow> token_detail fetch \<Rightarrow> jstr \<Rightarrow> token_detail option" where
  "getToken e c fetch tid = (if USE_MOCK e then mockToken c tid
     else get_option (api_get e fetch (js ''/tokens/'' @ tid)))"

definition getTokenHolders :: "web_env \<Rightarrow> (jsnum \<Rightarrow> jsnum \<Rightarrow> jsnum) \<Rightarrow> mock_clock \<Rightarrow> token_holders fetch
    \<Rightarrow> jstr \<Rightarrow> nat \<Rightarrow> token_holders option" where
  "getTokenHolders e pow c fetch tid limit = (if USE_MOCK e then mockTokenHolders pow c tid (int limit)
     else get_option (api_get e fetch (js ''/tokens/'' @ tid @ js ''/holders?limit='' @ dec limit)))"

definition getContract :: "web_env \<Rightarrow> verified_contract fetch \<Rightarrow> jstr \<Rightarrow> verified_contract option" where
  "getContract e fetch addr = (if USE_MOCK e then None
     else get_option (api_get e fetch (js ''/contract/'' @ addr)))"

definition getTokenTransfers :: "web_env \<Rightarrow> mock_clock \<Rightarrow> tx list fetch \<Rightarrow> jstr \<Rightarrow> nat \<Rightarrow> tx list" where
  "getTokenTransfers e c fetch tid limit = (if USE_MOCK e then mockTokenTransfers c tid limit
     else catch [] (api_get e fetch (js ''/tokens/'' @ tid @ js ''/transfers?limit='' @ dec limit)))"

text \<open>\<open>encodeURIComponent\<close> on the bytes of a text, and the application form of \<open>URLSearchParams\<close>.\<close>

definition percent_byte :: "nat \<Rightarrow> jstr" where
  "percent_byte b = [37, upper_char (digit_char (b div 16)), upper_char (digit_char (b mod 16))]"

definition uri_plain :: "nat \<Rightarrow> bool" where
  "uri_plain c \<longleftrightarrow> is_digit c \<or> (65 \<le> c \<and> c \<le> 90) \<or> (97 \<le> c \<and> c \<le> 122)
     \<or> c \<in> {45, 95, 46, 33, 126, 42, 39, 40, 41}"

definition form_plain :: "nat \<Rightarrow> bool" where
  "form_plain c \<longleftrightarrow> is_digit c \<or> (65 \<le> c \<and> c \<le> 90) \<or> (97 \<le> c \<and> c \<le> 122) \<or> c \<in> {45, 95, 46, 42}"

definition encodeURIComponent :: "(jstr \<Rightarrow> nat list) \<Rightarrow> jstr \<Rightarrow> jstr" where
  "encodeURIComponent utf8 s = concat (map (\<lambda>b. if uri_plain b then [b] else percent_byte b) (utf8 s))"

definition form_encode :: "(jstr \<Rightarrow> nat list) \<Rightarrow> jstr \<Rightarrow> jstr" where
  "form_encode utf8 s =
     concat (map (\<lambda>b. if form_plain b then [b] else if b = 32 then [43] else percent_byte b) (utf8 s))"

definition query_string :: "(jstr \<Rightarrow> nat list) \<Rightarrow> (jstr \<times> jstr) list \<Rightarrow> jstr" where
  "query_string utf8 kvs = join_with [38] (map (\<lambda>(k, v). form_encode utf8 k @ [61] @ form_encode utf8 v) kvs)"

definition getName :: "(jstr \<Rightarrow> nat list) \<Rightarrow> web_env \<Rightarrow> name_record fetch \<Rightarrow> jstr \<Rightarrow> name_record option" where
  "getName utf8 e fetch name = (if USE_MOCK e then None
     else get_option (api_get e fetch (js ''/name/'' @ encodeURIComponent utf8 name)))"

definition getProof :: "web_env \<Rightarrow> account_proof fetch \<Rightarrow> jstr \<Rightarrow> account_proof option" where
  "getProof e fetch addr = (if USE_MOCK e then None else get_option (api_get e fetch (js ''/proof/'' @ addr)))"

definition set_text :: "string \<Rightarrow> jstr option \<Rightarrow> (jstr \<times> jstr) list" where
  "set_text k v = (case v of None \<Rightarrow> [] | Some s \<Rightarrow> if s = [] then [] else [(js k, s)])"

definition set_limit :: "nat option \<Rightarrow> (jstr \<times> jstr) list" where
  "set_limit v = (case v of None \<Rightarrow> [] | Some n \<Rightarrow> if n = 0 then [] else [(js ''limit'', dec n)])"

definition with_query :: "jstr \<Rightarrow> jstr \<Rightarrow> jstr" where
  "with_query path qs = path @ (if qs \<noteq> [] then [63] @ qs else [])"

definition getLogs :: "(jstr \<Rightarrow> nat list) \<Rightarrow> web_env \<Rightarrow> log_entry list fetch \<Rightarrow> jstr option \<Rightarrow> jstr option
    \<Rightarrow> nat option \<Rightarrow> log_entry list res" where
  "getLogs utf8 e fetch address topic limit = (if USE_MOCK e then Inr []
     else api_get e fetch (with_query (js ''/logs'')
       (query_string utf8 (set_text ''address'' address @ set_text ''topic'' topic @ set_limit limit))))"

definition getInternal :: "(jstr \<Rightarrow> nat list) \<Rightarrow> web_env \<Rightarrow> internal_transfer list fetch \<Rightarrow> jstr option
    \<Rightarrow> nat option \<Rightarrow> internal_transfer list" where
  "getInternal utf8 e fetch address limit = (if USE_MOCK e then []
     else catch [] (api_get e fetch (with_query (js ''/internal'')
       (query_string utf8 (set_text ''address'' address @ set_limit limit)))))"

definition getAddressAnalysis :: "web_env \<Rightarrow> address_analysis fetch \<Rightarrow> jstr \<Rightarrow> address_analysis option" where
  "getAddressAnalysis e fetch addr = (if USE_MOCK e then None
     else get_option (api_get e fetch (js ''/address/'' @ addr @ js ''/analysis'')))"

definition getNfts :: "web_env \<Rightarrow> nft_summary list fetch \<Rightarrow> nft_summary list res" where
  "getNfts e fetch = (if USE_MOCK e then Inr mockNfts else api_get e fetch (js ''/nfts''))"

definition getNftCollection :: "web_env \<Rightarrow> nft_detail fetch \<Rightarrow> jstr \<Rightarrow> nft_detail option" where
  "getNftCollection e fetch cid = (if USE_MOCK e then mockNftCollection cid
     else get_option (api_get e fetch (js ''/nfts/'' @ cid)))"

definition getNames :: "web_env \<Rightarrow> mock_clock \<Rightarrow> name_entry list fetch \<Rightarrow> name_entry list res" where
  "getNames e c fetch = (if USE_MOCK e then Inr (mockNames c) else api_get e fetch (js ''/names''))"

definition getGovernance :: "web_env \<Rightarrow> mock_clock \<Rightarrow> governance fetch \<Rightarrow> governance res" where
  "getGovernance e c fetch = (if USE_MOCK e then Inr (mockGovernance c) else api_get e fetch (js ''/governance''))"

definition getTreasury :: "web_env \<Rightarrow> treasury fetch \<Rightarrow> treasury res" where
  "getTreasury e fetch = (if USE_MOCK e then Inr mockTreasury else api_get e fetch (js ''/treasury''))"

definition getSecurityAlerts :: "web_env \<Rightarrow> mock_clock \<Rightarrow> security_alert list fetch \<Rightarrow> security_alert list res" where
  "getSecurityAlerts e c fetch = (if USE_MOCK e then Inr (mockSecurityAlerts c)
     else api_get e fetch (js ''/security/alerts''))"

definition getAiTasks :: "web_env \<Rightarrow> ai_task list fetch \<Rightarrow> ai_task list res" where
  "getAiTasks e fetch = (if USE_MOCK e then Inr mockAiTasks else api_get e fetch (js ''/ai/tasks''))"

definition getAiOracles :: "web_env \<Rightarrow> ai_oracle list fetch \<Rightarrow> ai_oracle list res" where
  "getAiOracles e fetch = (if USE_MOCK e then Inr mockAiOracles else api_get e fetch (js ''/ai/oracles''))"

definition getGovernanceAdvisories :: "web_env \<Rightarrow> (governance_advisory list \<times> int) fetch
    \<Rightarrow> (governance_advisory list \<times> int) res" where
  "getGovernanceAdvisories e fetch = (if USE_MOCK e then Inr ([], 0)
     else api_get e fetch (js ''/governance/advisories''))"

definition getNetworkStats :: "web_env \<Rightarrow> mock_clock \<Rightarrow> network_stats fetch \<Rightarrow> network_stats res" where
  "getNetworkStats e c fetch = (if USE_MOCK e then Inr (mockNetworkStats c) else api_get e fetch (js ''/stats''))"


subsection \<open>The two posts\<close>

definition FAUCET_URL :: "web_env \<Rightarrow> jstr option" where
  "FAUCET_URL e = (if we_NETWORK e = Some (js ''testnet'') then Some (js ''https://faucet-testnet.eavscan.com'')
     else None)"

record faucet_reply =
  fr_error :: "jstr option"
  fr_amount :: "jstr option"
  fr_id :: "jstr option"

text \<open>
  \<open>post\<close> is the status and, when the body is JSON, the body; a body that is not is read as \<open>{}\<close> by
  the faucet and is an error for a transaction.
\<close>

definition requestFaucet :: "web_env \<Rightarrow> (jstr \<Rightarrow> jstr \<Rightarrow> (nat \<times> faucet_reply option) res) \<Rightarrow> jstr
    \<Rightarrow> (jstr option \<times> jstr option) res" where
  "requestFaucet e post address = (case FAUCET_URL e of
       None \<Rightarrow> Inl (js ''faucet indispon'' @ [237] @ js ''vel nesta rede'')
     | Some url \<Rightarrow> bind_res (post (url @ js ''/faucet'') address) (\<lambda>(status, b).
         let body = (case b of Some r \<Rightarrow> r | None \<Rightarrow> \<lparr>fr_error = None, fr_amount = None, fr_id = None\<rparr>) in
         if \<not> (200 \<le> status \<and> status < 300) \<or> (case fr_error body of None \<Rightarrow> False | Some x \<Rightarrow> x \<noteq> [])
         then Inl (case fr_error body of Some x \<Rightarrow> x | None \<Rightarrow> js ''faucet falhou'')
         else Inr (fr_amount body, fr_id body)))"

definition REFUSED :: jstr where
  "REFUSED = js ''transa'' @ [231, 227] @ js ''o recusada''"

definition postEavmTx :: "web_env \<Rightarrow> (jstr \<Rightarrow> jstr \<Rightarrow> (nat \<times> eavm_tx_result) res) \<Rightarrow> jstr \<Rightarrow> eavm_tx_result res" where
  "postEavmTx e post raw = (if USE_MOCK e then Inr (mockPostEavmTx raw)
     else bind_res (post (resolveBase e @ js ''/eavm/tx'') raw) (\<lambda>(status, body).
       if \<not> (200 \<le> status \<and> status < 300) \<or> er_accepted body = Some False
       then Inl (case er_error body of Some x \<Rightarrow> x | None \<Rightarrow> (case er_reason body of Some x \<Rightarrow> x | None \<Rightarrow> REFUSED))
       else Inr body))"


subsection \<open>The wallet's node\<close>

text \<open>The node as \<open>signAndSend\<close> sees it, given by the client functions above.\<close>

definition wallet_node :: "web_env \<Rightarrow> address_info fetch \<Rightarrow> (jstr \<Rightarrow> jstr \<Rightarrow> (nat \<times> eavm_tx_result) res) \<Rightarrow> node_api" where
  "wallet_node e fetch post = \<lparr>
     api_getAddress = (\<lambda>a. bind_res (getAddress e fetch a) (\<lambda>i.
        Inr (Some (num_of_int (ai_nextNonce i)), Some (num_of_int (ai_nonce i))))),
     api_postEavmTx = (\<lambda>raw. bind_res (postEavmTx e post raw) (\<lambda>r. Inr (er_id r)))\<rparr>"


subsection \<open>Properties\<close>

text \<open>
  A production build never shows made-up data: where the module loads in production, the mock
  switch is off and every endpoint's answer is exactly what the fetch of its URL gives, an error
  when the status is not a success.
\<close>

theorem production_serves_no_mock:
  assumes "api_module e = Inr ()" "we_NODE_ENV e = js ''production''"
  shows "\<not> USE_MOCK e
    \<and> getStatus e c f = api_get e f (js ''/status'')
    \<and> getTxs e c g n (Some b) = api_get e g (js ''/txs?limit='' @ dec n @ js ''&before='' @ big_str b)
    \<and> (\<forall>x. getAddress e h a = Inr x \<longrightarrow> (\<exists>s. h (resolveBase e @ js ''/address/'' @ a) = Inr (s, x) \<and> 200 \<le> s \<and> s < 300))"
proof -
  have m: "\<not> USE_MOCK e" using assms by (simp add: api_module_def split: if_splits)
  then show ?thesis
    by (auto simp: getStatus_def getTxs_def getAddress_def num_query_def api_get_def js_eval
        split: sum.splits if_splits)
qed

definition prod_env :: web_env where
  "prod_env = \<lparr>we_API_BASE = None, we_NODE_ENV = js ''production'', we_USE_MOCK = None,
     we_API_ORIGIN = None, we_browser = True, we_NETWORK = None\<rparr>"

theorem production_serves_no_mock_witness:
  "getStatus prod_env demo_clock (\<lambda>_. Inl (js ''down'')) = Inl (js ''down'') \<and> \<not> USE_MOCK prod_env"
proof -
  have a: "api_module prod_env = Inr ()" "we_NODE_ENV prod_env = js ''production''"
    by (simp_all add: api_module_def USE_MOCK_def prod_env_def)
  have "api_get prod_env (\<lambda>_. Inl (js ''down'')) p = (Inl (js ''down'') :: status res)" for p
    by (simp add: api_get_def)
  then show ?thesis
    using production_serves_no_mock [OF a, of demo_clock "\<lambda>_. Inl (js ''down'')"
        "\<lambda>_. Inl []" 0 0 "\<lambda>_. Inl []" "[]"] by simp
qed

text \<open>
  A transaction the node refuses is never reported as sent: when the wallet is told it went
  through, the node's answer had a success status and did not say \<open>accepted: false\<close>.
\<close>

theorem refused_tx_is_an_error:
  assumes "\<not> USE_MOCK e" "signAndSend sign (wallet_node e fetch post) acct p = (Inr i, posted)"
  shows "\<exists>raw s r. posted = [raw] \<and> post (resolveBase e @ js ''/eavm/tx'') raw = Inr (s, r)
    \<and> 200 \<le> s \<and> s < 300 \<and> er_accepted r \<noteq> Some False
    \<and> i = (case er_id r of Some x \<Rightarrow> x | None \<Rightarrow> [])"
  using assms
  by (auto simp: signAndSend_def wallet_node_def postEavmTx_def bind_res_eq_Inr split: if_splits sum.splits)

definition demo_post :: "jstr \<Rightarrow> jstr \<Rightarrow> (nat \<times> eavm_tx_result) res" where
  "demo_post url raw = Inr (200, \<lparr>er_accepted = Some True, er_id = Some (js ''t1''), er_error = None, er_reason = None\<rparr>)"

theorem refused_tx_is_an_error_witness:
  "\<exists>raw s r. demo_post (resolveBase prod_env @ js ''/eavm/tx'') raw = Inr (s, r) \<and> er_accepted r \<noteq> Some False"
proof -
  let ?p = "\<lparr>sp_to = js ''0x2ddd408bbd8c84fb64ac950f578e9297e7002a35'', sp_valueWei = 5,
     sp_chainId = Num 72020, sp_data = None, sp_gasLimit = None\<rparr>"
  let ?f = "\<lambda>_ :: jstr. Inr (200, (mockAddress [])\<lparr>ai_nextNonce := 3\<rparr>) :: (nat \<times> address_info) res"
  let ?node = "wallet_node prod_env ?f demo_post"
  have m: "\<not> USE_MOCK prod_env" by (simp add: USE_MOCK_def prod_env_def)
  have n: "num_of_int 3 = Num 3" using num_of_int_small [of 3] by simp
  have g: "api_getAddress ?node (evm demo_account) = Inr (Some (Num 3), Some (num_of_int (ai_nonce (mockAddress []))))"
    using m n by (simp add: wallet_node_def getAddress_def api_get_def)
  have t: "isEvmAddress (sp_to ?p)"
    by (simp add: isEvmAddress_def re_evm_def js_eval char_class_defs)
  have "\<exists>i posted. signAndSend demo_signer ?node demo_account ?p = (Inr i, posted)"
    using g t m by (simp add: signAndSend_def has_data_def buildSignedTx_def tx_args_def nonce_of_def
        bigint_of_num_def demo_signer_def wallet_node_def postEavmTx_def demo_post_def)
  then obtain i posted where "signAndSend demo_signer ?node demo_account ?p = (Inr i, posted)" by blast
  from refused_tx_is_an_error [OF m this] show ?thesis by blast
qed

end
