(* ===== verification/PublicLbp.thy ===== *)
theory PublicLbp
  imports SalePricing
begin

section \<open>The public LBP files (\<open>lib/public-lbp.ts\<close>) and the custodies (\<open>lib/custody.ts\<close>)\<close>

text \<open>
  The two JSON files that describe the public sale, the first readable one of each candidate
  list, and the predicates the site asks of them; then the published custody accounts of the
  genesis and the plan of the public bucket.
\<close>

record lbp_addresses =
  la_version :: int
  la_status :: jstr
  la_network :: jstr
  la_rpc :: jstr
  la_publicCustodyEoa :: jstr
  la_admin0x :: "jstr option"
  la_relayer0x :: "jstr option"
  la_sweepTo0x :: "jstr option"
  la_publicVault0x :: "jstr option"
  la_timelockLpSeeder0x :: "jstr option"
  la_ammRouter0x :: "jstr option"
  la_pairToken0x :: "jstr option"
  la_openedAtHeight :: "int option"
  la_lbpDeadlineHeight :: "int option"
  la_notes :: "jstr option"

record lbp_delivery =
  ld_channel :: "jstr option"
  ld_windowHours :: "jsnum option"
  ld_priceHintUsd :: "(jstr \<times> jstr) option"
  ld_tiers :: "sale_tier list"
  ld_lpLockMonths :: "jsnum option"

definition lbp_candidates :: "jstr \<Rightarrow> string \<Rightarrow> jstr list" where
  "lbp_candidates cwd file = [path_resolve cwd (''../contracts/sale/'' @ file),
     path_resolve cwd (''contracts/sale/'' @ file)]"

fun readJson :: "'a json_fs \<Rightarrow> jstr list \<Rightarrow> 'a option" where
  "readJson fs [] = None"
| "readJson fs (p # ps) = (case fs p of Some (Parsed a) \<Rightarrow> Some a | _ \<Rightarrow> readJson fs ps)"

definition loadPublicLbpAddresses :: "jstr \<Rightarrow> lbp_addresses json_fs \<Rightarrow> lbp_addresses option" where
  "loadPublicLbpAddresses cwd fs = readJson fs (lbp_candidates cwd ''public-lbp-addresses.json'')"

definition loadPublicLbpDelivery :: "jstr \<Rightarrow> lbp_delivery json_fs \<Rightarrow> lbp_delivery option" where
  "loadPublicLbpDelivery cwd fs = readJson fs (lbp_candidates cwd ''public-lbp-delivery.json'')"

definition text_set :: "jstr option \<Rightarrow> bool" where
  "text_set v \<longleftrightarrow> (case v of None \<Rightarrow> False | Some s \<Rightarrow> s \<noteq> [])"

definition height_set :: "int option \<Rightarrow> bool" where
  "height_set v \<longleftrightarrow> (case v of None \<Rightarrow> False | Some h \<Rightarrow> h \<noteq> 0)"

definition isPublicVaultDeployed :: "lbp_addresses option \<Rightarrow> bool" where
  "isPublicVaultDeployed a = (case a of None \<Rightarrow> False
     | Some x \<Rightarrow> text_set (la_publicVault0x x) \<and> la_status x \<noteq> js ''not-deployed'')"

definition isLbpOpen :: "lbp_addresses option \<Rightarrow> bool" where
  "isLbpOpen a = (case a of None \<Rightarrow> False | Some x \<Rightarrow> la_status x = js ''lbp-open'')"

definition isLbpPreparedOnChain :: "lbp_addresses option \<Rightarrow> bool" where
  "isLbpPreparedOnChain a = (case a of None \<Rightarrow> False | Some x \<Rightarrow>
     if la_status x = js ''lbp-open'' \<or> la_status x = js ''lbp-prepared''
     then height_set (la_openedAtHeight x) \<and> height_set (la_lbpDeadlineHeight x)
     else height_set (la_openedAtHeight x) \<and> height_set (la_lbpDeadlineHeight x))"

record custody =
  cu_id :: jstr
  cu_label :: jstr
  cu_labelEn :: jstr
  cu_address :: jstr
  cu_sharePct :: jsnum
  cu_role :: jstr
  cu_roleEn :: jstr

definition CUSTODY :: "custody list" where
  "CUSTODY = [
     \<lparr>cu_id = js ''public'', cu_label = js ''P'' @ [250] @ js ''blico '' @ [183] @ js '' 45%'', cu_labelEn = js ''Public '' @ [183] @ js '' 45%'',
      cu_address = js ''E7AADB9206205894E8C8D7A9B6FE6C8320'', cu_sharePct = Num 45,
      cu_role = js ''PublicVault implantado '' @ [183] @ js '' LBP preparado (marketing condicionado)'',
      cu_roleEn = js ''PublicVault deployed '' @ [183] @ js '' LBP prepared (marketing gated)''\<rparr>,
     \<lparr>cu_id = js ''private'', cu_label = js ''Venda privada '' @ [183] @ js '' 14,75%'', cu_labelEn = js ''Private sale '' @ [183] @ js '' 14.75%'',
      cu_address = js ''E7C66510442208FEA89FAFC30BE666CCB0'', cu_sharePct = Num (59 / 4),
      cu_role = js ''Cust'' @ [243] @ js ''dia at'' @ [233] @ js '' SaleVault '' @ [183] @ js '' cliff 12m + linear 24m'',
      cu_roleEn = js ''Custody until SaleVault '' @ [183] @ js '' 12m cliff + 24m linear''\<rparr>,
     \<lparr>cu_id = js ''partner'', cu_label = js ''Parceiro '' @ [183] @ js '' 10%'', cu_labelEn = js ''Partner '' @ [183] @ js '' 10%'',
      cu_address = js ''E72F728E69D24CFB91C167A805C6472D40'', cu_sharePct = Num 10,
      cu_role = js ''4 tranches '' @ [183] @ js '' cooldown 12m'',
      cu_roleEn = js ''4 tranches '' @ [183] @ js '' 12m cooldown''\<rparr>,
     \<lparr>cu_id = js ''treasury'', cu_label = js ''Funda'' @ [231] @ [227] @ js ''o / Tesouraria '' @ [183] @ js '' 30,25%'', cu_labelEn = js ''Foundation / Treasury '' @ [183] @ js '' 30.25%'',
      cu_address = js ''E7F2906EA4B2CD23D20180C8E813F2D126'', cu_sharePct = Num (121 / 4),
      cu_role = js ''Stake '' @ [226] @ js ''ncoras + vesting 12 partes'',
      cu_roleEn = js ''Anchor stake + 12-part vesting''\<rparr>]"

definition PUBLIC_MARKET_PLAN :: "(jstr \<times> rat \<times> jstr \<times> jstr) list" where
  "PUBLIC_MARKET_PLAN = [
     (js ''lbp'', 30, js ''13.500.000.000'', js ''LBP / dutch '' @ [183] @ js '' 72h '' @ [183] @ js '' $0.008'' @ [8594] @ js ''$0.015''),
     (js ''lp'', 50, js ''22.500.000.000'', js ''Seed AMM EAV7/USDT '' @ [183] @ js '' LP lock 18m''),
     (js ''cex'', 15, js ''6.750.000.000'', js ''Buffer CEX '' @ [183] @ js '' multisig''),
     (js ''incentives'', 5, js ''2.250.000.000'', js ''Incentives / drip'')]"


subsection \<open>Properties\<close>

text \<open>
  The custodies published for the genesis are four different well-formed E7 accounts that
  together hold the whole supply, and the plan of the public bucket distributes all of it.
\<close>

theorem custody_covers_supply:
  "distinct (map cu_address CUSTODY) \<and> list_all (\<lambda>c. re_e7 32 (cu_address c)) CUSTODY
   \<and> foldl num_add (Num 0) (map cu_sharePct CUSTODY) = Num 100
   \<and> sum_list (map (\<lambda>(i, share, tokens, note). share) PUBLIC_MARKET_PLAN) = 100"
proof (intro conjI)
  show "distinct (map cu_address CUSTODY)" by (simp add: CUSTODY_def)
  show "list_all (\<lambda>c. re_e7 32 (cu_address c)) CUSTODY"
    by (simp add: CUSTODY_def re_e7_def js_eval is_upper_hex_def)
  show "foldl num_add (Num 0) (map cu_sharePct CUSTODY) = Num 100"
    by (simp add: CUSTODY_def num_eval)
  show "sum_list (map (\<lambda>(i, share, tokens, note). share) PUBLIC_MARKET_PLAN) = 100"
    by (simp add: PUBLIC_MARKET_PLAN_def)
qed

end
