(* ===== verification/PriceMarket.thy ===== *)
theory PriceMarket
  imports PublicLbp SaleServer Format
begin

section \<open>The market page (\<open>lib/price-market.ts\<close>)\<close>

text \<open>
  The official price is the environment's, else the first open tier of the sale whose channel is
  the LBP's when it is open; each reading may append a snapshot to a history file. The record
  \<open>market\<close> adds the history files and the LBP file to the sale server. Times in the history are
  numbers, as the file may hold any. A history file that cannot be read is an empty history; a
  file system that is read-only keeps nothing.
\<close>

record price_point =
  pt_t :: jsnum
  pt_priceUsd :: jsnum

record market =
  mk_sv :: server
  mk_hist :: "price_point list json_fs"
  mk_lbp :: "lbp_addresses json_fs"

datatype price_source = SaleTier | EnvOverride

record spot =
  sp_priceUsd :: jsnum
  sp_source :: price_source
  sp_sourceLabel :: jstr
  sp_tierId :: "jstr option"
  sp_tierLabel :: "jstr option"

datatype basis = FreeFloat | Query

record market_price =
  mp_priceUsd :: jsnum
  mp_priceUsdFormatted :: jstr
  mp_change24hPct :: jsnum
  mp_change24hFormatted :: jstr
  mp_source :: price_source
  mp_sourceLabel :: jstr
  mp_updatedAt :: int
  mp_tierId :: "jstr option"
  mp_tierLabel :: "jstr option"
  mp_circulating :: "jstr option"
  mp_circulatingBasis :: "basis option"
  mp_marketCapUsd :: "jsnum option"

definition histPath :: "market \<Rightarrow> jstr" where
  "histPath m = env_or (sv_env (mk_sv m)) ''EAV7_PRICE_HISTORY_PATH''
     (path_resolve (sv_cwd (mk_sv m)) ''../contracts/sale/relayer/price-history.json'')"

definition fmtPrice :: "jsnum \<Rightarrow> nat \<Rightarrow> jstr" where
  "fmtPrice n digits = (if \<not> is_finite n then [8212]
     else js ''$'' @ locale_str EnUS (min 2 digits) digits n)"

definition fmtChange :: "jsnum \<Rightarrow> jstr" where
  "fmtChange pct = (if \<not> is_finite pct then js ''0.00%''
     else (if num_lt (Num 0) pct then js ''+'' else []) @ to_fixed 2 pct @ js ''%'')"

definition loadHistory :: "market \<Rightarrow> price_point list" where
  "loadHistory m = (case mk_hist m (histPath m) of Some (Parsed ps) \<Rightarrow> ps | _ \<Rightarrow> [])"

definition now_num :: "market \<Rightarrow> jsnum" where
  "now_num m = num_of_int (sv_now (mk_sv m))"

text \<open>\<open>filter(x => x.t >= cut).slice(-2500)\<close>.\<close>

definition kept_points :: "jsnum \<Rightarrow> price_point list \<Rightarrow> price_point list" where
  "kept_points now ps = (let qs = filter (\<lambda>x. num_le (num_sub now (Num 7776000000)) (pt_t x)) ps
     in drop (length qs - 2500) qs)"

definition saveHistory :: "price_point list \<Rightarrow> market \<Rightarrow> market" where
  "saveHistory ps m = (if sv_readonly (mk_sv m) then m
     else m\<lparr>mk_hist := (mk_hist m)(histPath m \<mapsto> Parsed (kept_points (now_num m) ps))\<rparr>)"

definition price_moved :: "jsnum \<Rightarrow> price_point \<Rightarrow> bool" where
  "price_moved priceUsd prev \<longleftrightarrow> num_le (num_of_str (js ''0.001''))
     (num_div (num_abs (num_sub priceUsd (pt_priceUsd prev))) (num_max (pt_priceUsd prev) (num_of_str (js ''1e-12''))))"

definition point_aged :: "jsnum \<Rightarrow> price_point \<Rightarrow> bool" where
  "point_aged now prev \<longleftrightarrow> num_le (Num 3300000) (num_sub now (pt_t prev))"

definition maybeSnapshot :: "jsnum \<Rightarrow> market \<Rightarrow> market" where
  "maybeSnapshot priceUsd m = (let h = loadHistory m in
     if h = [] \<or> price_moved priceUsd (last h) \<or> point_aged (now_num m) (last h)
     then saveHistory (h @ [\<lparr>pt_t = now_num m, pt_priceUsd = priceUsd\<rparr>]) m else m)"

definition market_channel :: "market \<Rightarrow> channel" where
  "market_channel m = (if isLbpOpen (loadPublicLbpAddresses (sv_cwd (mk_sv m)) (mk_lbp m)) then Public else Private)"

definition spot_of_quote :: "sale_quote \<Rightarrow> spot" where
  "spot_of_quote q = \<lparr>sp_priceUsd = q_price q, sp_source = SaleTier,
     sp_sourceLabel = js ''sale '' @ [183, 32] @ q_tierLabel q, sp_tierId = Some (q_tierId q),
     sp_tierLabel = Some (q_tierLabel q)\<rparr>"

definition env_price :: "market \<Rightarrow> jsnum option" where
  "env_price m = (case sv_env (mk_sv m) ''EAV7_PRICE_USD'' of None \<Rightarrow> None
     | Some v \<Rightarrow> if v \<noteq> [] \<and> is_finite (num_of_str v) \<and> num_lt (Num 0) (num_of_str v)
         then Some (num_of_str v) else None)"

definition resolveSpot :: "market \<Rightarrow> spot" where
  "resolveSpot m = (case env_price m of
       Some p \<Rightarrow> \<lparr>sp_priceUsd = p, sp_source = EnvOverride, sp_sourceLabel = js ''EAV7_PRICE_USD'',
         sp_tierId = None, sp_tierLabel = None\<rparr>
     | None \<Rightarrow> (let ch = market_channel m in case getSaleQuoteSnapshot ch (mk_sv m) of
           Inr q \<Rightarrow> spot_of_quote q
         | Inl e \<Rightarrow> spot_of_quote (buildSaleQuote [] (server_cfg ch (mk_sv m)))))"

fun ref_loop :: "jsnum \<Rightarrow> price_point option \<Rightarrow> price_point list \<Rightarrow> price_point option" where
  "ref_loop target ref [] = ref"
| "ref_loop target ref (p # ps) = (if num_le (pt_t p) target then ref_loop target (Some p) ps else ref)"

definition pct_from :: "jsnum \<Rightarrow> jsnum \<Rightarrow> jsnum" where
  "pct_from priceUsd base = num_mul (num_div (num_sub priceUsd base) base) (Num 100)"

definition change24h :: "jsnum \<Rightarrow> market \<Rightarrow> jsnum" where
  "change24h priceUsd m = (let h = loadHistory m; target = num_sub (now_num m) (Num 86400000) in
     case ref_loop target None h of
       None \<Rightarrow> (case h of [] \<Rightarrow> Num 0
         | first # _ \<Rightarrow> if num_le (pt_priceUsd first) (Num 0) then Num 0 else pct_from priceUsd (pt_priceUsd first))
     | Some ref \<Rightarrow> if num_le (pt_priceUsd ref) (Num 0) then Num 0 else pct_from priceUsd (pt_priceUsd ref))"

text \<open>\<open>BigInt(String(e7 ?? "0"))\<close>: a number goes through its text.\<close>

fun to_big_text :: "big_arg \<Rightarrow> int res" where
  "to_big_text (BBig k) = Inr k"
| "to_big_text (BStr s) = big_of_str s"
| "to_big_text (BNum x) = big_of_str (num_str x)"
| "to_big_text BNone = Inr 0"

definition e7ToHuman :: "big_arg \<Rightarrow> jsnum" where
  "e7ToHuman e7 = (case to_big_text e7 of Inr n \<Rightarrow> num_div (num_of_int n) (Num 1000000) | Inl e \<Rightarrow> Num 0)"

definition usdValue :: "big_arg \<Rightarrow> jsnum \<Rightarrow> jsnum" where
  "usdValue e7Amount priceUsd = num_mul (e7ToHuman e7Amount) priceUsd"

definition getMarketPrice :: "jstr option \<Rightarrow> basis option \<Rightarrow> market \<Rightarrow> market_price \<times> market" where
  "getMarketPrice circ cbasis m = (let spot = resolveSpot m; p = sp_priceUsd spot;
       m1 = maybeSnapshot p m; ch = change24h p m1 in
     (\<lparr>mp_priceUsd = p, mp_priceUsdFormatted = fmtPrice p (if num_lt p (num_of_str (js ''0.01'')) then 5 else 4),
       mp_change24hPct = ch, mp_change24hFormatted = fmtChange ch, mp_source = sp_source spot,
       mp_sourceLabel = sp_sourceLabel spot, mp_updatedAt = sv_now (mk_sv m), mp_tierId = sp_tierId spot,
       mp_tierLabel = sp_tierLabel spot, mp_circulating = circ,
       mp_circulatingBasis = (case circ of None \<Rightarrow> None
          | Some _ \<Rightarrow> (case cbasis of Some b \<Rightarrow> Some b | None \<Rightarrow> Some Query)),
       mp_marketCapUsd = map_option (\<lambda>c. num_mul (e7ToHuman (BStr c)) p) circ\<rparr>, m1))"


subsection \<open>The history of a range\<close>

definition RANGES :: "(jstr \<times> rat) list" where
  "RANGES = [(js ''1h'', 3600000), (js ''24h'', 86400000), (js ''7d'', 604800000), (js ''30d'', 2592000000),
     (js ''90d'', 7776000000)]"

text \<open>
  \<open>ranges[range]\<close> on an object literal also finds the members every object inherits; arithmetic
  on one of them gives \<open>NaN\<close>.
\<close>

definition OBJECT_MEMBERS :: "jstr list" where
  "OBJECT_MEMBERS = [js ''constructor'', js ''toString'', js ''toLocaleString'', js ''valueOf'',
     js ''hasOwnProperty'', js ''isPrototypeOf'', js ''propertyIsEnumerable'', js ''__proto__'',
     js ''__defineGetter__'', js ''__defineSetter__'', js ''__lookupGetter__'', js ''__lookupSetter__'']"

definition range_found :: "jstr \<Rightarrow> bool" where
  "range_found rng7 \<longleftrightarrow> map_of RANGES rng7 \<noteq> None \<or> rng7 \<in> set OBJECT_MEMBERS"

definition windowMs :: "jstr \<Rightarrow> jsnum" where
  "windowMs rng7 = (case map_of RANGES rng7 of Some ms \<Rightarrow> Num ms
     | None \<Rightarrow> if rng7 \<in> set OBJECT_MEMBERS then NaN else Num 604800000)"

record price_history =
  ph_range :: jstr
  ph_intervalSec :: int
  ph_points :: "price_point list"

definition fill_points :: "jsnum \<Rightarrow> jsnum \<Rightarrow> jsnum \<Rightarrow> price_point list \<Rightarrow> price_point list" where
  "fill_points now window price ps = (case ps of
       [] \<Rightarrow> [\<lparr>pt_t = num_sub now window, pt_priceUsd = price\<rparr>,
             \<lparr>pt_t = num_sub now (num_div window (Num 2)), pt_priceUsd = price\<rparr>,
             \<lparr>pt_t = now, pt_priceUsd = price\<rparr>]
     | [p] \<Rightarrow> [\<lparr>pt_t = num_sub (pt_t p) (Num 3600000), pt_priceUsd = pt_priceUsd p\<rparr>, p]
     | _ \<Rightarrow> ps)"

definition price_drifted :: "jsnum \<Rightarrow> jsnum \<Rightarrow> price_point \<Rightarrow> bool" where
  "price_drifted now price prev \<longleftrightarrow>
     num_lt (num_of_str (js ''1e-12'')) (num_abs (num_sub (pt_priceUsd prev) price))
     \<or> num_lt (Num 60000) (num_sub now (pt_t prev))"

definition end_at_spot :: "jsnum \<Rightarrow> jsnum \<Rightarrow> price_point list \<Rightarrow> price_point list" where
  "end_at_spot now price ps = (if ps = [] \<or> price_drifted now price (last ps)
     then ps @ [\<lparr>pt_t = now, pt_priceUsd = price\<rparr>] else ps)"

definition getPriceHistory :: "jstr \<Rightarrow> market \<Rightarrow> price_history \<times> market" where
  "getPriceHistory rng7 m = (let spot = resolveSpot m; p = sp_priceUsd spot; m1 = maybeSnapshot p m;
       now = now_num m1; cut = num_sub now (windowMs rng7);
       points = filter (\<lambda>x. num_le cut (pt_t x)) (loadHistory m1) in
     (\<lparr>ph_range = (if range_found rng7 then rng7 else js ''7d''), ph_intervalSec = 3600,
       ph_points = end_at_spot now p (fill_points now (windowMs rng7) p points)\<rparr>, m1))"


subsection \<open>Conversion\<close>

record price_convert =
  pc_from :: jstr
  pc_to :: jstr
  pc_amount :: jsnum
  pc_result :: jsnum
  pc_priceUsd :: jsnum
  pc_updatedAt :: int

definition is_usd :: "jstr \<Rightarrow> bool" where
  "is_usd s \<longleftrightarrow> s = js ''USD'' \<or> s = js ''USDT'' \<or> s = js ''USDC''"

definition convert_result :: "jsnum \<Rightarrow> jsnum \<Rightarrow> jstr \<Rightarrow> jstr \<Rightarrow> jsnum option" where
  "convert_result price amount f t =
     (if f = js ''EAV7'' \<and> is_usd t then Some (num_mul amount price)
      else if is_usd f \<and> t = js ''EAV7'' then
        Some (if num_lt (Num 0) price then num_div amount price else Num 0)
      else if f = t then Some amount else None)"

definition convertAmount :: "jsnum \<Rightarrow> jstr \<Rightarrow> jstr \<Rightarrow> market \<Rightarrow> price_convert res" where
  "convertAmount amount from to m = (let spot = resolveSpot m; f = to_upper from; t = to_upper to in
     case convert_result (sp_priceUsd spot) amount f t of
       None \<Rightarrow> Inl (js ''unsupported pair '' @ from @ [47] @ to)
     | Some r \<Rightarrow> Inr \<lparr>pc_from = f, pc_to = t, pc_amount = amount, pc_result = r,
         pc_priceUsd = sp_priceUsd spot, pc_updatedAt = sv_now (mk_sv m)\<rparr>)"


subsection \<open>The routes (\<open>app/price\<close>)\<close>

text \<open>A query parameter is absent or a text. The answer is a status and data or an error.\<close>

datatype 'a price_reply = PriceOk 'a | PriceErr nat jstr jstr

definition price_GET :: "jstr option \<Rightarrow> jstr res \<Rightarrow> market \<Rightarrow> market_price price_reply \<times> market" where
  "price_GET fromQuery freeFloat m =
     (case (if text_set fromQuery then (fromQuery, Some Query)
            else case freeFloat of Inr s \<Rightarrow> (Some s, Some FreeFloat) | Inl e \<Rightarrow> (None, None)) of
       (circulating, bas) \<Rightarrow> (case getMarketPrice circulating bas m of (d, m1) \<Rightarrow> (PriceOk d, m1)))"

definition history_GET :: "jstr option \<Rightarrow> market \<Rightarrow> price_history price_reply \<times> market" where
  "history_GET rng7 m = (case getPriceHistory (case rng7 of Some r \<Rightarrow> r | None \<Rightarrow> js ''7d'') m of
     (d, m1) \<Rightarrow> (PriceOk d, m1))"

definition convert_GET :: "jstr option \<Rightarrow> jstr option \<Rightarrow> jstr option \<Rightarrow> market \<Rightarrow> price_convert price_reply" where
  "convert_GET amountQ fromQ toQ m = (let amount = (case amountQ of Some s \<Rightarrow> num_of_str s | None \<Rightarrow> Num 0);
       from = (case fromQ of Some s \<Rightarrow> s | None \<Rightarrow> js ''EAV7''); to = (case toQ of Some s \<Rightarrow> s | None \<Rightarrow> js ''USD'') in
     if \<not> is_finite amount \<or> num_lt amount (Num 0)
     then PriceErr 400 (js ''bad_amount'') (js ''amount must be a non-negative number'')
     else (case convertAmount amount from to m of
         Inr d \<Rightarrow> PriceOk d
       | Inl e \<Rightarrow> PriceErr 400 (js ''unsupported_pair'') e))"

record price_token =
  pk_id :: jstr
  pk_symbol :: jstr
  pk_name :: jstr
  pk_pricePath :: jstr
  pk_historyPath :: jstr
  pk_convertPath :: jstr

definition tokens_GET :: "market \<Rightarrow> (int \<times> jstr \<times> price_token list) price_reply" where
  "tokens_GET m = PriceOk (sv_now (mk_sv m), js ''USD'',
     [\<lparr>pk_id = js ''EAV7'', pk_symbol = js ''EAV7'', pk_name = js ''EAV7'', pk_pricePath = js ''/price'',
       pk_historyPath = js ''/price/history'', pk_convertPath = js ''/price/convert''\<rparr>])"


subsection \<open>The history file\<close>

lemma histPath_hist [simp]: "histPath (m\<lparr>mk_hist := h\<rparr>) = histPath m"
  by (simp add: histPath_def)

lemma maybeSnapshot_frame [simp]: "mk_sv (maybeSnapshot p m) = mk_sv m" "mk_lbp (maybeSnapshot p m) = mk_lbp m"
  by (simp_all add: maybeSnapshot_def saveHistory_def Let_def)

lemma resolveSpot_snapshot [simp]: "resolveSpot (maybeSnapshot p m) = resolveSpot m"
proof -
  have "env_price (maybeSnapshot p m) = env_price m" "market_channel (maybeSnapshot p m) = market_channel m"
    by (simp_all add: env_price_def market_channel_def)
  then show ?thesis unfolding resolveSpot_def Let_def by (simp only: maybeSnapshot_frame)
qed

text \<open>
  What a history is after any number of readings: times in order, none after the last reading,
  and, once written here, at most 2500 points none older than 90 days then.
\<close>

definition hist_ok :: "rat \<Rightarrow> price_point list \<Rightarrow> bool" where
  "hist_ok now ps \<longleftrightarrow> (\<forall>p \<in> set ps. \<exists>t \<le> now. pt_t p = Num t)
     \<and> sorted_wrt (\<lambda>a b. num_le (pt_t a) (pt_t b)) ps"

lemma sorted_wrt_drop: "sorted_wrt P xs \<Longrightarrow> sorted_wrt P (drop n xs)"
  by (metis append_take_drop_id sorted_wrt_append)

lemma hist_ok_kept: "hist_ok now ps \<Longrightarrow> hist_ok now (kept_points x ps)"
  by (auto simp: hist_ok_def kept_points_def Let_def intro!: sorted_wrt_drop sorted_wrt_filter
      dest!: in_set_dropD)

lemma hist_ok_snoc: "hist_ok now ps \<Longrightarrow> now \<le> t \<Longrightarrow> hist_ok t (ps @ [\<lparr>pt_t = Num t, pt_priceUsd = p\<rparr>])"
  by (fastforce simp: hist_ok_def sorted_wrt_append)

lemma hist_ok_mono: "hist_ok now ps \<Longrightarrow> now \<le> t \<Longrightarrow> hist_ok t ps"
  by (fastforce simp: hist_ok_def)

lemma length_kept: "length (kept_points x ps) \<le> 2500"
  by (simp add: kept_points_def Let_def)

lemma loadHistory_snapshot:
  "loadHistory (maybeSnapshot p m) \<in> {loadHistory m,
     kept_points (now_num m) (loadHistory m @ [\<lparr>pt_t = now_num m, pt_priceUsd = p\<rparr>])}"
  by (auto simp: maybeSnapshot_def saveHistory_def loadHistory_def Let_def)

lemma snapshot_hist_ok:
  assumes "hist_ok (of_int t0) (loadHistory m)" "t0 \<le> sv_now (mk_sv m)" "\<bar>sv_now (mk_sv m)\<bar> \<le> 2 ^ 53"
  shows "hist_ok (of_int (sv_now (mk_sv m))) (loadHistory (maybeSnapshot p m))"
proof -
  have n: "now_num m = Num (of_int (sv_now (mk_sv m)))"
    using assms(3) by (simp add: now_num_def num_of_int_small)
  have le: "(of_int t0 :: rat) \<le> of_int (sv_now (mk_sv m))" using assms(2) by simp
  show ?thesis
    using loadHistory_snapshot [of p m] hist_ok_mono [OF assms(1) le]
      hist_ok_kept [OF hist_ok_snoc [OF assms(1) le]] n by auto
qed

text \<open>In an ordered history the loop stops at the last point that is a day old.\<close>

lemma ref_loop_takeWhile:
  "ref_loop target ref ps = (case takeWhile (\<lambda>p. num_le (pt_t p) target) ps of [] \<Rightarrow> ref | qs \<Rightarrow> Some (last qs))"
  by (induction ps arbitrary: ref) (auto split: list.splits)

lemma takeWhile_filter_sorted:
  assumes "sorted_wrt R xs" "\<And>a b. R a b \<Longrightarrow> P b \<Longrightarrow> P a"
  shows "takeWhile P xs = filter P xs"
  using assms(1)
proof (induction xs)
  case (Cons x xs)
  show ?case
  proof (cases "P x")
    case False
    then have "filter P xs = []" using Cons.prems assms(2) by (auto simp: filter_empty_conv)
    then show ?thesis using False by simp
  qed (use Cons in simp)
qed simp

text \<open>Reading the price at a time, and at each time of a list.\<close>

definition read_at :: "int \<Rightarrow> market \<Rightarrow> market" where
  "read_at t m = snd (getMarketPrice None None (m\<lparr>mk_sv := (mk_sv m)\<lparr>sv_now := t\<rparr>\<rparr>))"

lemma loadHistory_now [simp]: "loadHistory (m\<lparr>mk_sv := (mk_sv m)\<lparr>sv_now := t\<rparr>\<rparr>) = loadHistory m"
  by (simp add: loadHistory_def histPath_def)

lemma read_at_ok:
  assumes "hist_ok (of_int t0) (loadHistory m)" "t0 \<le> t" "\<bar>t\<bar> \<le> 2 ^ 53"
  shows "hist_ok (of_int t) (loadHistory (read_at t m))"
    and "length (loadHistory (read_at t m)) \<le> max 2500 (length (loadHistory m))"
proof -
  let ?m = "m\<lparr>mk_sv := (mk_sv m)\<lparr>sv_now := t\<rparr>\<rparr>"
  have r: "read_at t m = maybeSnapshot (sp_priceUsd (resolveSpot ?m)) ?m"
    by (simp add: read_at_def getMarketPrice_def Let_def)
  show "hist_ok (of_int t) (loadHistory (read_at t m))"
    using snapshot_hist_ok [of t0 ?m] assms by (simp add: r)
  show "length (loadHistory (read_at t m)) \<le> max 2500 (length (loadHistory m))"
    using loadHistory_snapshot [of "sp_priceUsd (resolveSpot ?m)" ?m] length_kept
    by (auto simp: r le_max_iff_disj)
qed

lemma read_all_ok:
  assumes "sorted (t0 # ts)" "\<forall>t \<in> set ts. \<bar>t\<bar> \<le> 2 ^ 53" "hist_ok (of_int t0) (loadHistory m)"
    "length (loadHistory m) \<le> 2500"
  shows "hist_ok (of_int (last (t0 # ts))) (loadHistory (fold read_at ts m))
    \<and> length (loadHistory (fold read_at ts m)) \<le> 2500"
  using assms
proof (induction ts arbitrary: t0 m)
  case (Cons t ts)
  have "hist_ok (of_int t) (loadHistory (read_at t m))" "length (loadHistory (read_at t m)) \<le> 2500"
    using read_at_ok [OF Cons.prems(3), of t] Cons.prems by auto
  then show ?case using Cons.IH [of t "read_at t m"] Cons.prems by simp
qed simp

lemma hist_ok_Nil [simp]: "hist_ok t []"
  by (simp add: hist_ok_def)

lemma tiny_nonneg: "nn_num (num_of_str (js ''1e-12''))"
proof -
  have "num_of_str (js ''1e-12'') = to_num (1 / 1000000000000)"
    by (simp add: text_eval js_eval powi_eval)
  then show ?thesis by (simp add: nn_num_to_num)
qed

lemma num_lt_zero_nn: "nn_num x \<Longrightarrow> \<not> num_lt x (Num 0)"
  by (cases x) simp_all

lemma num_sub_self: "num_sub x x = NaN \<or> num_sub x x = Num 0"
  by (cases x) (simp_all add: num_sub_def to_num_def overflow_def)

lemma not_drifted_self: "\<not> price_drifted now p \<lparr>pt_t = now, pt_priceUsd = p\<rparr>"
  using num_sub_self [of p] num_sub_self [of now] num_lt_zero_nn [OF tiny_nonneg]
  by (auto simp: price_drifted_def) (cases "num_of_str (js ''1e-12'')"; simp)+

lemma end_at_spot_last:
  "end_at_spot now p ps \<noteq> [] \<and> \<not> price_drifted now p (last (end_at_spot now p ps))"
  by (simp add: end_at_spot_def not_drifted_self)


subsection \<open>Properties\<close>

text \<open>
  C29. Starting without a history, any sequence of price readings at non-decreasing times leaves a
  history of at most 2500 points in the order of time, none later than the last reading.
\<close>

theorem history_ordered_and_bounded:
  assumes "loadHistory m = []" "sorted (t # ts)" "\<forall>u \<in> set (t # ts). \<bar>u\<bar> \<le> 2 ^ 53"
  shows "length (loadHistory (fold read_at (t # ts) m)) \<le> 2500
    \<and> sorted_wrt (\<lambda>a b. num_le (pt_t a) (pt_t b)) (loadHistory (fold read_at (t # ts) m))
    \<and> (\<forall>p \<in> set (loadHistory (fold read_at (t # ts) m)). \<exists>u \<le> of_int (last (t # ts)). pt_t p = Num u)"
  using read_all_ok [of t "t # ts" m] assms by (simp add: hist_ok_def)

definition market0 :: market where
  "market0 = \<lparr>mk_sv = sv0, mk_hist = (\<lambda>_. None), mk_lbp = (\<lambda>_. None)\<rparr>"

theorem history_ordered_and_bounded_witness:
  "length (loadHistory (fold read_at [1700000000000, 1700000007200000] market0)) \<le> 2500"
  using history_ordered_and_bounded [of market0 1700000000000 "[1700000007200000]"]
  by (simp add: market0_def loadHistory_def)

text \<open>
  The history of a range is never empty and ends at the current official price: its last
  point is at most a minute old and its price within 1e-12 of the spot.
\<close>

theorem history_ends_at_spot:
  "(case getPriceHistory r m of (h, m') \<Rightarrow> ph_points h \<noteq> []
     \<and> \<not> num_lt (num_of_str (js ''1e-12''))
          (num_abs (num_sub (pt_priceUsd (last (ph_points h))) (sp_priceUsd (resolveSpot m))))
     \<and> \<not> num_lt (Num 60000) (num_sub (now_num m) (pt_t (last (ph_points h)))))"
proof -
  have "now_num (maybeSnapshot p m) = now_num m" for p by (simp add: now_num_def)
  then show ?thesis
    using end_at_spot_last unfolding price_drifted_def by (simp add: getPriceHistory_def Let_def)
qed

text \<open>
  A range that names a member every object has, such as \<open>constructor\<close>, is accepted as a
  range: the answer repeats it and its points have no time.
\<close>

theorem inherited_range_has_no_times:
  "(case getPriceHistory (js ''constructor'') m of (h, m') \<Rightarrow>
     ph_range h = js ''constructor'' \<and> pt_t (hd (ph_points h)) = NaN)"
proof -
  have w: "windowMs (js ''constructor'') = NaN"
    by (simp add: windowMs_def RANGES_def OBJECT_MEMBERS_def)
  have n: "num_sub x NaN = NaN" for x by (cases x) (simp_all add: num_sub_def)
  have "filter (\<lambda>x. num_le NaN (pt_t x)) ps = []" for ps :: "price_point list"
    by (simp add: filter_empty_conv)
  then show ?thesis
    by (simp add: getPriceHistory_def Let_def w n fill_points_def end_at_spot_def range_found_def
        OBJECT_MEMBERS_def)
qed

text \<open>
  The price the market page shows is the price the next buyer of that channel pays: without
  an override, an intent created on the same files is sold at the spot price, at the same tier.
\<close>

theorem market_price_is_sale_price:
  assumes "env_price m = None" "createLocalIntent inp (market_channel m) (mk_sv m) = (Inr view, sv')"
  shows "it_priceUsdPerEav7 view = Some (num_str (mp_priceUsd (fst (getMarketPrice c b m))))
    \<and> it_tierId view = mp_tierId (fst (getMarketPrice c b m))"
  using assms(2)
proof (rule createLocalIntent_Inr)
  fix rail st pay e7 rnd created r
  assume l: "loadState (market_channel m) (mk_sv m) = Inr st"
    and v: "toPublic (new_intent inp (market_channel m) rail
      (buildSaleQuote (progress_view st) (server_cfg (market_channel m) (mk_sv m))) pay e7 rnd created) = Inr view"
  have "resolveSpot m = spot_of_quote (buildSaleQuote (progress_view st) (server_cfg (market_channel m) (mk_sv m)))"
    using assms(1) l by (simp add: resolveSpot_def getSaleQuoteSnapshot_def)
  then show ?thesis
    using v by (auto simp: getMarketPrice_def Let_def spot_of_quote_def toPublic_def new_intent_def bind_res_eq_Inr)
qed

theorem market_price_is_sale_price_witness:
  "\<exists>view sv'. createLocalIntent inp0 Private sv0 = (Inr view, sv')
     \<and> it_priceUsdPerEav7 view = Some (num_str (mp_priceUsd (fst (getMarketPrice None None market0))))"
proof -
  obtain view sv' where c: "createLocalIntent inp0 Private sv0 = (Inr view, sv')" using create0 by blast
  have e: "env_price market0 = None" by (simp add: env_price_def market0_def sv0_def)
  have ch: "market_channel market0 = Private"
    by (simp add: market_channel_def market0_def loadPublicLbpAddresses_def lbp_candidates_def isLbpOpen_def)
  have "createLocalIntent inp0 (market_channel market0) (mk_sv market0) = (Inr view, sv')"
    using c ch by (simp add: market0_def)
  then show ?thesis using market_price_is_sale_price [OF e, of inp0 view sv' None None] c by blast
qed

end
