(* ===== verification/Circulating.thy ===== *)
theory Circulating
  imports Api PriceMarket
begin

section \<open>The free float (\<open>lib/circulating.ts\<close>, \<open>app/circulating/route.ts\<close>)\<close>

text \<open>
  The gross circulating supply the node reports, less the balances of the four published custody
  accounts. The status and the custodies are read through the client of \<open>Api\<close>, so \<open>fetch\<close> is an
  argument; a custody that cannot be read counts as a balance of zero. The route answers 503 when
  the status itself cannot be read.
\<close>

record custody_balance =
  cb_id :: jstr
  cb_label :: jstr
  cb_labelEn :: jstr
  cb_address :: jstr
  cb_sharePct :: jsnum
  cb_role :: jstr
  cb_roleEn :: jstr
  cb_balanceE7 :: jstr
  cb_balanceEav7 :: jsnum

record circulating_snapshot =
  cs_updatedAt :: int
  cs_height :: int
  cs_genesisE7 :: jstr
  cs_mintedE7 :: jstr
  cs_burnedE7 :: jstr
  cs_grossE7 :: jstr
  cs_grossEav7 :: jsnum
  cs_lockedCustodyE7 :: jstr
  cs_lockedCustodyEav7 :: jsnum
  cs_freeFloatE7 :: jstr
  cs_freeFloatEav7 :: jsnum
  cs_formula :: jstr
  cs_custody :: "custody_balance list"
  cs_notes :: "jstr list"

definition big :: "jstr \<Rightarrow> int" where
  "big s = catch 0 (big_of_str s)"

definition custody_row :: "custody \<Rightarrow> jstr \<Rightarrow> jsnum \<Rightarrow> custody_balance" where
  "custody_row c balE7 balEav7 = \<lparr>cb_id = cu_id c, cb_label = cu_label c, cb_labelEn = cu_labelEn c,
     cb_address = cu_address c, cb_sharePct = cu_sharePct c, cb_role = cu_role c, cb_roleEn = cu_roleEn c,
     cb_balanceE7 = balE7, cb_balanceEav7 = balEav7\<rparr>"

definition custody_balance :: "web_env \<Rightarrow> address_info fetch \<Rightarrow> custody \<Rightarrow> custody_balance" where
  "custody_balance e fetch c = (case getAddress e fetch (cu_address c) of
       Inr info \<Rightarrow> custody_row c (ai_balance info) (e7ToHuman (BStr (ai_balance info)))
     | Inl err \<Rightarrow> custody_row c (js ''0'') (Num 0))"

definition FORMULA :: jstr where
  "FORMULA = js ''freeFloat = (genesis + minted '' @ [8722] @ js '' burned) '' @ [8722, 32, 931]
     @ js ''(custody balances)''"

definition CIRC_NOTES :: "jstr list" where
  "CIRC_NOTES = [
     js ''Gross circulating matches the node /status field (protocol accounting).'',
     js ''Free float subtracts the four published genesis custody balances still on-chain.'',
     js ''Price on /price is still sale-tier or EAV7_PRICE_USD until a DEX pool is live.'',
     js ''Public 45% market plan: contracts/sale/public-distribution.json (LBP '' @ [8594] @ js '' LP seed ''
       @ [8594] @ js '' CEX buffer).'']"

definition getCirculatingSnapshot :: "web_env \<Rightarrow> mock_clock \<Rightarrow> int \<Rightarrow> status fetch \<Rightarrow> address_info fetch
    \<Rightarrow> circulating_snapshot res" where
  "getCirculatingSnapshot e c now fs fa = bind_res (getStatus e c fs) (\<lambda>status.
     let balances = map (custody_balance e fa) CUSTODY;
       gross = big (st_circulating status);
       locked = foldl (\<lambda>acc b. acc + big (cb_balanceE7 b)) 0 balances;
       free = (if gross > locked then gross - locked else 0)
     in Inr \<lparr>cs_updatedAt = now, cs_height = st_height status,
       cs_genesisE7 = (case st_genesisSupply status of Some g \<Rightarrow> g | None \<Rightarrow> st_supply status),
       cs_mintedE7 = st_minted status, cs_burnedE7 = st_burned status,
       cs_grossE7 = big_str gross, cs_grossEav7 = e7ToHuman (BBig gross),
       cs_lockedCustodyE7 = big_str locked, cs_lockedCustodyEav7 = e7ToHuman (BBig locked),
       cs_freeFloatE7 = big_str free, cs_freeFloatEav7 = e7ToHuman (BBig free),
       cs_formula = FORMULA, cs_custody = balances, cs_notes = CIRC_NOTES\<rparr>)"

definition getFreeFloatE7 :: "web_env \<Rightarrow> mock_clock \<Rightarrow> int \<Rightarrow> status fetch \<Rightarrow> address_info fetch \<Rightarrow> jstr res" where
  "getFreeFloatE7 e c now fs fa = bind_res (getCirculatingSnapshot e c now fs fa) (\<lambda>s. Inr (cs_freeFloatE7 s))"

datatype circulating_reply = CirculatingOk circulating_snapshot | CirculatingErr nat jstr

definition circulating_GET :: "web_env \<Rightarrow> mock_clock \<Rightarrow> int \<Rightarrow> status fetch \<Rightarrow> address_info fetch
    \<Rightarrow> circulating_reply" where
  "circulating_GET e c now fs fa = (case getCirculatingSnapshot e c now fs fa of
     Inr d \<Rightarrow> CirculatingOk d | Inl err \<Rightarrow> CirculatingErr 503 err)"


subsection \<open>The sum over the custodies\<close>

text \<open>The balance the node holds for an account, zero when it cannot be read or is no integer.\<close>

definition node_balance :: "web_env \<Rightarrow> address_info fetch \<Rightarrow> jstr \<Rightarrow> int" where
  "node_balance e fetch a = (case getAddress e fetch a of Inr info \<Rightarrow> big (ai_balance info) | Inl err \<Rightarrow> 0)"

definition custody_total :: "web_env \<Rightarrow> address_info fetch \<Rightarrow> int" where
  "custody_total e fetch = sum_list (map (node_balance e fetch) (map cu_address CUSTODY))"

lemma big_zero [simp]: "big (js ''0'') = 0"
  by (simp add: big_def catch_def text_eval js_eval)

lemma big_big_str [simp]: "big (big_str k) = k"
  by (simp add: big_def catch_def big_of_str_big_str)

lemma custody_row_balance: "big (cb_balanceE7 (custody_balance e fa c)) = node_balance e fa (cu_address c)"
  by (simp add: custody_balance_def custody_row_def node_balance_def split: sum.split)

lemma foldl_add: "foldl (\<lambda>acc b. acc + f b) a xs = a + sum_list (map f xs)" for a :: int
  by (induction xs arbitrary: a) simp_all

lemma locked_total:
  "foldl (\<lambda>acc b. acc + big (cb_balanceE7 b)) 0 (map (custody_balance e fa) CUSTODY) = custody_total e fa"
  by (simp add: foldl_add custody_total_def comp_def custody_row_balance)

lemma snapshot_Inr:
  "getCirculatingSnapshot e c now fs fa = Inr s \<longleftrightarrow> (\<exists>st. getStatus e c fs = Inr st \<and>
     s = \<lparr>cs_updatedAt = now, cs_height = st_height st,
       cs_genesisE7 = (case st_genesisSupply st of Some g \<Rightarrow> g | None \<Rightarrow> st_supply st),
       cs_mintedE7 = st_minted st, cs_burnedE7 = st_burned st,
       cs_grossE7 = big_str (big (st_circulating st)), cs_grossEav7 = e7ToHuman (BBig (big (st_circulating st))),
       cs_lockedCustodyE7 = big_str (custody_total e fa), cs_lockedCustodyEav7 = e7ToHuman (BBig (custody_total e fa)),
       cs_freeFloatE7 = big_str (max 0 (big (st_circulating st) - custody_total e fa)),
       cs_freeFloatEav7 = e7ToHuman (BBig (max 0 (big (st_circulating st) - custody_total e fa))),
       cs_formula = FORMULA, cs_custody = map (custody_balance e fa) CUSTODY, cs_notes = CIRC_NOTES\<rparr>)"
proof -
  have "(if g > l then g - l else 0) = max 0 (g - l)" for g l :: int
    by (simp add: max_def)
  then show ?thesis
    by (auto simp: getCirculatingSnapshot_def bind_res_eq_Inr locked_total Let_def)
qed

text \<open>A fetch that answers what another does, or fails.\<close>

definition fails_more :: "'a fetch \<Rightarrow> 'a fetch \<Rightarrow> bool" where
  "fails_more worse better \<longleftrightarrow> (\<forall>url. worse url = better url \<or> (\<exists>err. worse url = Inl err))"

lemma node_balance_fails:
  assumes "fails_more worse better" "\<not> USE_MOCK e" "0 \<le> node_balance e better a"
  shows "node_balance e worse a \<le> node_balance e better a"
proof -
  let ?u = "resolveBase e @ js ''/address/'' @ a"
  have "worse ?u = better ?u \<or> (\<exists>err. worse ?u = Inl err)"
    using assms(1) by (simp add: fails_more_def)
  then show ?thesis
    using assms(2,3) by (auto simp: node_balance_def getAddress_def api_get_def)
qed

lemma custody_total_fails:
  assumes "fails_more worse better" "\<not> USE_MOCK e"
    and "\<And>a. 0 \<le> node_balance e better a"
  shows "custody_total e worse \<le> custody_total e better"
  unfolding custody_total_def by (intro sum_list_mono node_balance_fails [OF assms])

lemma custody_total_down:
  assumes "\<not> USE_MOCK e" "\<And>url. \<exists>err. fa url = Inl err"
  shows "custody_total e fa = 0"
proof -
  have "node_balance e fa a = 0" for a
    using assms(1) assms(2) [of "resolveBase e @ js ''/address/'' @ a"]
    by (auto simp: node_balance_def getAddress_def api_get_def)
  then have "node_balance e fa = (\<lambda>_. 0)" by (rule ext)
  then show ?thesis by (simp add: custody_total_def comp_def)
qed


subsection \<open>Properties\<close>

text \<open>
  The free float is the gross supply less what the node holds for the four custodies, never
  negative, and the four figures of the answer agree: when the custodies hold no more than the
  gross, free and locked add up to it exactly.
\<close>

theorem free_float_accounting:
  assumes "circulating_GET e c now fs fa = CirculatingOk s"
  shows "big (cs_lockedCustodyE7 s) = (\<Sum>a \<leftarrow> map cu_address CUSTODY. node_balance e fa a)
    \<and> big (cs_freeFloatE7 s) = max 0 (big (cs_grossE7 s) - big (cs_lockedCustodyE7 s))
    \<and> (big (cs_lockedCustodyE7 s) \<le> big (cs_grossE7 s)
        \<longrightarrow> big (cs_freeFloatE7 s) + big (cs_lockedCustodyE7 s) = big (cs_grossE7 s))
    \<and> getFreeFloatE7 e c now fs fa = Inr (cs_freeFloatE7 s)"
proof -
  have g: "getCirculatingSnapshot e c now fs fa = Inr s"
    using assms by (simp add: circulating_GET_def split: sum.splits)
  then have "getFreeFloatE7 e c now fs fa = Inr (cs_freeFloatE7 s)"
    by (simp add: getFreeFloatE7_def)
  moreover have "big (cs_lockedCustodyE7 s) = custody_total e fa"
    and "big (cs_freeFloatE7 s) = max 0 (big (cs_grossE7 s) - custody_total e fa)"
    using g by (auto simp: snapshot_Inr)
  ultimately show ?thesis
    by (simp add: custody_total_def del: map_map)
qed

definition demo_status :: "jstr \<Rightarrow> status fetch" where
  "demo_status gross url = Inr (200, (mockStatus demo_clock)\<lparr>st_circulating := gross\<rparr>)"

definition demo_custodies :: "jstr \<Rightarrow> address_info fetch" where
  "demo_custodies bal url = Inr (200, (mockAddress [])\<lparr>ai_balance := bal\<rparr>)"

lemma demo_snapshot:
  "\<exists>s. getCirculatingSnapshot prod_env demo_clock 7 (demo_status (js ''1000'')) fa = Inr s"
  by (auto simp: snapshot_Inr getStatus_def prod_env_def USE_MOCK_def api_get_def demo_status_def)

lemma big_1000: "big (js ''1000'') = 1000" and big_200: "big (js ''200'') = 200"
  by (simp_all add: big_def catch_def text_eval js_eval)

lemma demo_balance: "node_balance prod_env (demo_custodies (js ''200'')) a = 200"
  by (simp add: node_balance_def getAddress_def prod_env_def USE_MOCK_def api_get_def demo_custodies_def big_200)

lemma demo_gross:
  "getCirculatingSnapshot prod_env demo_clock 7 (demo_status (js ''1000'')) fa = Inr s \<Longrightarrow> big (cs_grossE7 s) = 1000"
  by (auto simp: snapshot_Inr getStatus_def prod_env_def USE_MOCK_def api_get_def demo_status_def big_1000)

theorem free_float_accounting_witness:
  "\<exists>s. circulating_GET prod_env demo_clock 7 (demo_status (js ''1000'')) (demo_custodies (js ''200'')) = CirculatingOk s
    \<and> big (cs_freeFloatE7 s) = 200"
proof -
  obtain s where s: "getCirculatingSnapshot prod_env demo_clock 7 (demo_status (js ''1000''))
      (demo_custodies (js ''200'')) = Inr s"
    using demo_snapshot by blast
  then have r: "circulating_GET prod_env demo_clock 7 (demo_status (js ''1000'')) (demo_custodies (js ''200'')) = CirculatingOk s"
    by (simp add: circulating_GET_def)
  have "(\<Sum>a \<leftarrow> map cu_address CUSTODY. node_balance prod_env (demo_custodies (js ''200'')) a) = 800"
    by (simp add: demo_balance CUSTODY_def)
  then show ?thesis
    using free_float_accounting [OF r] demo_gross [OF s] r by auto
qed

text \<open>
  Custody accounts that cannot be read make the published free float too large, without any
  sign of it: with more failing lookups the route still answers, and never with a smaller free
  float; with every lookup failing it publishes the whole gross supply as free.
\<close>

theorem failed_lookups_overstate_float:
  assumes "\<not> USE_MOCK e" "fails_more worse better" "\<And>a. 0 \<le> node_balance e better a"
    and "circulating_GET e c now fs better = CirculatingOk s" "0 \<le> big (cs_grossE7 s)"
  shows "\<exists>s'. circulating_GET e c now fs worse = CirculatingOk s'
    \<and> cs_grossE7 s' = cs_grossE7 s
    \<and> big (cs_freeFloatE7 s) \<le> big (cs_freeFloatE7 s')
    \<and> ((\<forall>url. \<exists>err. worse url = Inl err) \<longrightarrow> cs_freeFloatE7 s' = cs_grossE7 s)"
proof -
  have "getCirculatingSnapshot e c now fs better = Inr s"
    using assms(4) by (simp add: circulating_GET_def split: sum.splits)
  then obtain st where st: "getStatus e c fs = Inr st"
    and gross: "cs_grossE7 s = big_str (big (st_circulating st))"
    and free: "cs_freeFloatE7 s = big_str (max 0 (big (st_circulating st) - custody_total e better))"
    by (auto simp: snapshot_Inr)
  obtain s' where s': "getCirculatingSnapshot e c now fs worse = Inr s'"
    and gross': "cs_grossE7 s' = big_str (big (st_circulating st))"
    and free': "cs_freeFloatE7 s' = big_str (max 0 (big (st_circulating st) - custody_total e worse))"
    using st by (auto simp: snapshot_Inr)
  have "(\<forall>url. \<exists>err. worse url = Inl err) \<longrightarrow> cs_freeFloatE7 s' = cs_grossE7 s"
    using custody_total_down [OF assms(1), of worse] assms(5) by (simp add: gross free')
  then show ?thesis
    using s' custody_total_fails [OF assms(2,1,3)] gross gross' free free'
    by (simp add: circulating_GET_def)
qed

theorem failed_lookups_overstate_float_witness:
  "\<exists>s s'. circulating_GET prod_env demo_clock 7 (demo_status (js ''1000'')) (demo_custodies (js ''200'')) = CirculatingOk s
    \<and> circulating_GET prod_env demo_clock 7 (demo_status (js ''1000'')) (\<lambda>url. Inl (js ''down'')) = CirculatingOk s'
    \<and> big (cs_freeFloatE7 s') = 1000"
proof -
  obtain s where s: "getCirculatingSnapshot prod_env demo_clock 7 (demo_status (js ''1000''))
      (demo_custodies (js ''200'')) = Inr s"
    using demo_snapshot by blast
  then have r: "circulating_GET prod_env demo_clock 7 (demo_status (js ''1000'')) (demo_custodies (js ''200'')) = CirculatingOk s"
    by (simp add: circulating_GET_def)
  have m: "\<not> USE_MOCK prod_env" by (simp add: prod_env_def USE_MOCK_def)
  have f: "fails_more (\<lambda>url. Inl (js ''down'')) (demo_custodies (js ''200''))"
    by (simp add: fails_more_def)
  show ?thesis
    using failed_lookups_overstate_float [OF m f _ r] demo_gross [OF s] r
    by (auto simp: demo_balance)
qed

end
