(* ===== verification/Relayer.thy ===== *)
theory Relayer
  imports SaleBook SaleRoutes
begin

section \<open>The sale relayer (\<open>contracts/sale/relayer/index.mjs\<close>)\<close>

text \<open>
  The process that watches the chains and grants what was paid. The record \<open>relay\<close> is what it
  reads and writes: its environment, its configuration file, the payment rails, the intent file
  it shares with the web server, the random source and the clock. The chains are arguments: what
  the JSON-RPC nodes, the TRON API and the vault answer, each possibly an error. Its own quote and
  its own create are translated from this file, beside the web server's.
\<close>

record relay_cfg =
  rc_auto :: auto_cfg
  rc_btcUsdHint :: "jstr option"
  rc_minConfirmations :: "(jstr \<rightharpoonup> nat) option"
  rc_uniqueAmountMicros :: "bool option"

record relay =
  rl_env :: "string \<Rightarrow> jstr option"
  rl_cfg :: relay_cfg
  rl_rails :: "sale_rail list"
  rl_file :: "sale_state json_file option"
  rl_rand :: "nat \<Rightarrow> nat"
  rl_rpos :: nat
  rl_now :: int
  rl_readonly :: bool

definition SALE_MODE :: "relay \<Rightarrow> channel" where
  "SALE_MODE r = (if to_lower (env_or (rl_env r) ''SALE_MODE'' (js ''private'')) = js ''public'' then Public else Private)"

definition VAULT_ENV :: "relay \<Rightarrow> string" where
  "VAULT_ENV r = (if SALE_MODE r = Public then ''PUBLIC_VAULT_ADDRESS'' else ''VAULT_ADDRESS'')"

definition relay_loadState :: "relay \<Rightarrow> sale_state res" where
  "relay_loadState r = (case rl_file r of None \<Rightarrow> Inr \<lparr>intents = []\<rparr>
     | Some (Parsed s) \<Rightarrow> Inr s | Some Garbled \<Rightarrow> Inl (js ''SyntaxError''))"

definition relay_saveState :: "sale_state \<Rightarrow> relay \<Rightarrow> unit res \<times> relay" where
  "relay_saveState s r = (if rl_readonly r then (Inl (js ''EROFS''), r)
     else (Inr (), r\<lparr>rl_file := Some (Parsed s)\<rparr>))"

definition relay_railById :: "relay \<Rightarrow> jstr \<Rightarrow> sale_rail res" where
  "relay_railById r rid = (case find (\<lambda>x. rail_id x = rid) (rl_rails r) of
     None \<Rightarrow> Inl (js ''rail desconhecida: '' @ rid) | Some x \<Rightarrow> Inr x)"

definition isAddr0x :: "json option \<Rightarrow> bool" where
  "isAddr0x a = (case a of Some (JStr s) \<Rightarrow> re_evm s | _ \<Rightarrow> False)"


subsection \<open>The quote\<close>

fun raised_loop :: "jstr list \<Rightarrow> jsnum \<Rightarrow> stored_intent list \<Rightarrow> jsnum" where
  "raised_loop counts acc [] = acc"
| "raised_loop counts acc (i # is) =
     (if si_status i \<notin> set counts then raised_loop counts acc is
      else let n = num_of_str (si_usdAmount i) in
        raised_loop counts (if is_finite n \<and> num_lt (Num 0) n then num_add acc n else acc) is)"

definition raisedUsd :: "relay_cfg \<Rightarrow> sale_state \<Rightarrow> jsnum" where
  "raisedUsd cfg st = raised_loop (case cfg_counts (rc_auto cfg) of Some c \<Rightarrow> c
     | None \<Rightarrow> [js ''paid'', js ''granted'']) (Num 0) (intents st)"

fun relay_tier_loop :: "jsnum \<Rightarrow> nat \<Rightarrow> sale_tier list \<Rightarrow> nat option" where
  "relay_tier_loop raised i [] = None"
| "relay_tier_loop raised i (t # ts) =
     (if (case untilRaisedUsd t of None \<Rightarrow> True | Some cap \<Rightarrow> num_lt raised cap) then Some i
      else relay_tier_loop raised (Suc i) ts)"

definition relay_resolveTier :: "relay_cfg \<Rightarrow> jsnum \<Rightarrow> sale_tier \<times> nat \<times> sale_tier list" where
  "relay_resolveTier cfg raised = (let tiers = (case cfg_tiers (rc_auto cfg) of
         Some ts \<Rightarrow> if ts \<noteq> [] then ts else [\<lparr>tier_id = js ''flat'', tier_label = js ''Fixed'', untilRaisedUsd = None,
           priceUsdPerEav7 = cfg_price (rc_auto cfg)\<rparr>]
       | None \<Rightarrow> [\<lparr>tier_id = js ''flat'', tier_label = js ''Fixed'', untilRaisedUsd = None,
           priceUsdPerEav7 = cfg_price (rc_auto cfg)\<rparr>]) in
     case relay_tier_loop raised 0 tiers of
       Some i \<Rightarrow> (tiers ! i, i, tiers)
     | None \<Rightarrow> (tiers ! (length tiers - 1), length tiers - 1, tiers))"

definition buildQuote :: "relay_cfg \<Rightarrow> sale_state \<Rightarrow> sale_quote" where
  "buildQuote cfg st = (let raised = raisedUsd cfg st in
     case relay_resolveTier cfg raised of (tier, index, tiers) \<Rightarrow> (let
       nxt = (if index + 1 < length tiers then Some (tiers ! (index + 1)) else None);
       cap = untilRaisedUsd tier;
       prevCap = (if index > 0 then (case untilRaisedUsd (tiers ! (index - 1)) of Some c \<Rightarrow> c | None \<Rightarrow> Num 0) else Num 0);
       span = (case cap of None \<Rightarrow> Num 1 | Some c \<Rightarrow> num_max (Num 1) (num_sub c prevCap));
       into = (case cap of None \<Rightarrow> Num 1
         | Some c \<Rightarrow> num_min (Num 1) (num_max (Num 0) (num_div (num_sub raised prevCap) span)))
     in \<lparr>q_price = num_of_str (priceUsdPerEav7 tier), q_tierId = tier_id tier, q_tierLabel = tier_label tier,
         q_tierIndex = index, q_raisedUsd = raised,
         q_remainingInTierUsd = (case cap of None \<Rightarrow> None | Some c \<Rightarrow> Some (num_max (Num 0) (num_sub c raised))),
         q_nextPrice = (case nxt of None \<Rightarrow> None | Some t \<Rightarrow> Some (num_of_str (priceUsdPerEav7 t))),
         q_nextTierLabel = (case nxt of None \<Rightarrow> None | Some t \<Rightarrow> Some (tier_label t)),
         q_progressInTier = into,
         q_tiers = map (\<lambda>(i, t). \<lparr>qt_id = tier_id t, qt_label = tier_label t,
           qt_price = num_of_str (priceUsdPerEav7 t), qt_until = untilRaisedUsd t,
           qt_active = (i = index), qt_filled = (i < index)\<rparr>) (enumerate 0 tiers)\<rparr>))"


subsection \<open>Creating an intent\<close>

definition PAY_SUFFIX_MOD :: int where "PAY_SUFFIX_MOD = 1000000"

definition relay_btcUsd :: "relay \<Rightarrow> jsnum" where
  "relay_btcUsd r = num_of_str (env_or (rl_env r) ''BTC_USD''
     (case rc_btcUsdHint (rl_cfg r) of Some h \<Rightarrow> if h = [] then js ''95000'' else h | None \<Rightarrow> js ''95000''))"

definition quote_base :: "relay \<Rightarrow> sale_rail \<Rightarrow> jsnum \<Rightarrow> int res" where
  "quote_base r rail usd =
     (if rail_chain rail = js ''bitcoin'' \<or> rail_asset rail = js ''BTC'' then
        (if \<not> num_lt (Num 0) (relay_btcUsd r) then Inl (js ''BTC_USD inv'' @ [225] @ js ''lido'')
         else bigint_of_num (num_round (num_mul (num_div usd (relay_btcUsd r)) (Num 100000000))))
      else (let decimals = (case rail_decimals rail of Some d \<Rightarrow> d | None \<Rightarrow> 6) in
        if decimals = 18 then
          bind_res (bigint_of_num (num_round (num_mul usd (Num 1000000)))) (\<lambda>a. Inr (a * 10 ^ 12))
        else if decimals = 6 then bigint_of_num (num_round (num_mul usd (Num 1000000)))
        else bigint_of_num (num_round (num_mul usd (num_of_int (10 ^ decimals))))))"

definition quoteAmount :: "relay \<Rightarrow> sale_rail \<Rightarrow> json option \<Rightarrow> int \<Rightarrow> jsnum \<Rightarrow> (jstr \<times> jstr) res" where
  "quoteAmount r rail usdAmount intentNonce price =
     (if \<not> num_lt (Num 0) price then Inl (js ''priceUsdPerEav7 inv'' @ [225] @ js ''lido'')
      else let usd = num_prop usdAmount in
        if \<not> num_le (Num 100) usd then Inl (js ''usdAmount m'' @ [237] @ js ''nimo 100'')
        else bind_res (quote_base r rail usd) (\<lambda>a0. let
            modu = (if a0 \<ge> PAY_SUFFIX_MOD then PAY_SUFFIX_MOD else 10000);
            suffix = big_mod intentNonce modu;
            amount = (if rc_uniqueAmountMicros (rl_cfg r) \<noteq> Some False then a0 - big_mod a0 modu + suffix else a0)
          in if amount \<le> 0 then Inl (js ''amount'')
             else bind_res (bigint_of_num (num_round (num_mul (num_div usd price) (Num 1000000)))) (\<lambda>e7.
               Inr (big_str amount, big_str e7))))"

definition payAmountTaken :: "sale_state \<Rightarrow> jstr \<Rightarrow> jstr \<Rightarrow> jstr option \<Rightarrow> bool" where
  "payAmountTaken st railId payAmount exceptId \<longleftrightarrow> (\<exists>i \<in> set (intents st). Some (si_id i) \<noteq> exceptId
     \<and> si_status i \<noteq> js ''granted'' \<and> si_rail i = railId \<and> si_payAmount i = payAmount)"

definition relay_draw :: "nat \<Rightarrow> relay \<Rightarrow> nat \<times> relay" where
  "relay_draw bits r = (rl_rand r (rl_rpos r) mod 2 ^ bits, r\<lparr>rl_rpos := Suc (rl_rpos r)\<rparr>)"

fun unique_loop :: "nat \<Rightarrow> sale_state \<Rightarrow> sale_rail \<Rightarrow> json option \<Rightarrow> jsnum \<Rightarrow> relay \<Rightarrow> (jstr \<times> jstr) res \<times> relay" where
  "unique_loop 0 st rail usdAmount price r = (Inl (js ''could not allocate unique payAmount''), r)"
| "unique_loop (Suc attempts) st rail usdAmount price r = (case relay_draw 32 r of (nonce, r1) \<Rightarrow>
     (case quoteAmount r1 rail usdAmount (int nonce) price of
        Inl e \<Rightarrow> (Inl e, r1)
      | Inr q \<Rightarrow> if \<not> payAmountTaken st (rail_id rail) (fst q) None then (Inr q, r1)
          else unique_loop attempts st rail usdAmount price r1))"

definition allocateUniqueQuote :: "sale_state \<Rightarrow> sale_rail \<Rightarrow> json option \<Rightarrow> jsnum \<Rightarrow> relay \<Rightarrow> (jstr \<times> jstr) res \<times> relay" where
  "allocateUniqueQuote st rail usdAmount price r = unique_loop 64 st rail usdAmount price r"

definition relay_publicIntent :: "relay \<Rightarrow> stored_intent \<Rightarrow> sale_intent res" where
  "relay_publicIntent r i = bind_res (relay_railById r (si_rail i)) (\<lambda>rail. Inr
     \<lparr>it_id = si_id i, it_status = si_status i, it_beneficiary0x = si_beneficiary0x i,
      it_rail = si_rail i, it_chain = si_chain i, it_asset = rail_asset rail,
      it_standard = rail_standard rail,
      it_decimals = (case rail_decimals rail of Some d \<Rightarrow> Some d
        | None \<Rightarrow> if rail_asset rail = js ''BTC'' then Some 8 else None),
      it_usdAmount = si_usdAmount i, it_payAmount = si_payAmount i, it_e7Amount = si_e7Amount i,
      it_priceUsdPerEav7 = (if si_price i = [] then None else Some (si_price i)),
      it_tierId = (if si_tierId i = [] then None else Some (si_tierId i)),
      it_receive = si_receive i, it_explorer = rail_explorer rail, it_createdAt = si_createdAt i,
      it_paymentTx = si_paymentTx i, it_paymentId = si_paymentId i, it_grantTx = si_grantTx i,
      it_manualConfirm = (rail_chain rail = js ''bitcoin'' \<or> rail_chain rail = js ''solana''),
      it_channel = None, it_liquid = None\<rparr>)"

text \<open>The fields of a request, as JSON sent them: any of them can be missing or of any type.\<close>

record create_request =
  cr_beneficiary0x :: "json option"
  cr_rail :: "json option"
  cr_usdAmount :: "json option"

definition json_text :: "json option \<Rightarrow> jstr" where
  "json_text v = (case v of Some x \<Rightarrow> json_str x | None \<Rightarrow> js ''undefined'')"

definition find_rail :: "relay \<Rightarrow> json option \<Rightarrow> sale_rail res" where
  "find_rail r v = (case v of Some (JStr k) \<Rightarrow> relay_railById r k
     | _ \<Rightarrow> Inl (js ''rail desconhecida: '' @ json_text v))"

definition relay_intent :: "create_request \<Rightarrow> sale_rail \<Rightarrow> sale_quote \<Rightarrow> jstr \<times> jstr \<Rightarrow> nat \<Rightarrow> jstr \<Rightarrow> stored_intent" where
  "relay_intent req rail quote q rnd created =
     \<lparr>si_id = pad_start 16 48 (to_base 16 rnd), si_status = js ''pending'', si_channel = None,
      si_beneficiary0x = to_lower (json_text (cr_beneficiary0x req)), si_rail = json_text (cr_rail req),
      si_usdAmount = json_text (cr_usdAmount req), si_payAmount = fst q, si_e7Amount = snd q,
      si_price = num_str (q_price quote), si_tierId = q_tierId quote,
      si_receive = rail_receive rail,
      si_token = (case rail_token rail of None \<Rightarrow> None | Some t \<Rightarrow> if t = [] then None else Some t),
      si_chain = rail_chain rail, si_createdAt = created,
      si_paymentTx = None, si_paymentId = None, si_grantTx = None\<rparr>"

definition createIntent :: "create_request \<Rightarrow> relay \<Rightarrow> stored_intent res \<times> relay" where
  "createIntent req r =
     (if \<not> isAddr0x (cr_beneficiary0x req) then (Inl (js ''beneficiary0x inv'' @ [225] @ js ''lido''), r)
      else case find_rail r (cr_rail req) of Inl e \<Rightarrow> (Inl e, r) | Inr rail \<Rightarrow>
        (case relay_loadState r of Inl e \<Rightarrow> (Inl e, r) | Inr st \<Rightarrow>
          (let quote = buildQuote (rl_cfg r) st in
           case allocateUniqueQuote st rail (cr_usdAmount req) (q_price quote) r of
             (Inl e, r1) \<Rightarrow> (Inl e, r1)
           | (Inr q, r1) \<Rightarrow>
              (case relay_draw 64 r1 of (rnd, r2) \<Rightarrow>
                (case iso_string (rl_now r2) of Inl e \<Rightarrow> (Inl e, r2) | Inr created \<Rightarrow>
                  (let intent = relay_intent req rail quote q rnd created in
                   case relay_saveState (st\<lparr>intents := intents st @ [intent]\<rparr>) r2 of
                     (Inl e, r3) \<Rightarrow> (Inl e, r3)
                   | (Inr _, r3) \<Rightarrow> (Inr intent, r3)))))))"

definition relay_getIntent :: "jstr \<Rightarrow> relay \<Rightarrow> stored_intent option res" where
  "relay_getIntent iid r = bind_res (relay_loadState r) (\<lambda>st. Inr (find (\<lambda>i. si_id i = iid) (intents st)))"


subsection \<open>Looking for the payment\<close>

record evm_log =
  lg_data :: jstr
  lg_blockNumber :: jstr
  lg_transactionHash :: jstr
  lg_logIndex :: jstr

record tron_tx =
  tt_value :: "json option"
  tt_confirmed :: "json option"
  tt_transaction_id :: jstr

text \<open>
  What the outside answers: \<open>eth_blockNumber\<close> and \<open>eth_getLogs\<close> of a node's URL (the second with
  the token, the two blocks and the recipient's topic), the TRON API (a status and its data), and
  the vault's \<open>grant\<close> (vault, beneficiary, amount, payment id, rail) down to the receipt's hash.
\<close>

record chains =
  cn_blockNumber :: "jstr \<Rightarrow> jstr res"
  cn_getLogs :: "jstr \<Rightarrow> jstr \<Rightarrow> jstr \<Rightarrow> jstr \<Rightarrow> jstr \<Rightarrow> evm_log list option res"
  cn_trc20 :: "jstr \<Rightarrow> (nat \<times> tron_tx list option) res"
  cn_grant :: "jstr \<Rightarrow> jstr \<Rightarrow> jstr \<Rightarrow> jstr \<Rightarrow> jstr \<Rightarrow> jstr res"

record pay_hit =
  ht_txHash :: jstr
  ht_logIndex :: jsnum

definition relay_env :: "relay \<Rightarrow> string \<Rightarrow> jstr option" where
  "relay_env r k = (case rl_env r k of Some v \<Rightarrow> if v = [] then None else Some v | None \<Rightarrow> None)"

text \<open>\<open>parseInt(s, 16)\<close>, and \<open>toString(16)\<close> of an integer (or \<open>NaN\<close>).\<close>

definition parse_int16 :: "jstr \<Rightarrow> jsnum" where
  "parse_int16 s = (let t = trim_start s; neg = (take 1 t = [45]);
       u = (if take 1 t = [45] \<or> take 1 t = [43] then drop 1 t else t);
       v = (if take 2 u = js ''0x'' \<or> take 2 u = js ''0X'' then drop 2 u else u);
       ds = takeWhile is_hex v
     in if ds = [] then NaN else num_of_int (if neg then - int (of_base 16 ds) else int (of_base 16 ds)))"

definition hex_text :: "jsnum \<Rightarrow> jstr" where
  "hex_text x = (case x of Num q \<Rightarrow> if q < 0 then 45 # to_base 16 (nat \<lfloor>- q\<rfloor>) else to_base 16 (nat \<lfloor>q\<rfloor>)
     | _ \<Rightarrow> num_str x)"

definition to_topic :: "jstr \<Rightarrow> jstr" where
  "to_topic a = js ''0x'' @ pad_start 64 48
     (to_lower (if take 2 a = js ''0x'' \<or> take 2 a = js ''0X'' then drop 2 a else a))"

definition min_conf :: "relay \<Rightarrow> sale_rail \<Rightarrow> jsnum res" where
  "min_conf r rail = (case rc_minConfirmations (rl_cfg r) of
       None \<Rightarrow> Inl (js ''Cannot read properties of undefined'')
     | Some m \<Rightarrow> Inr (case m (rail_chain rail) of Some n \<Rightarrow> if n = 0 then Num 12 else Num (of_nat n) | None \<Rightarrow> Num 12))"

fun evm_loop :: "jsnum \<Rightarrow> jsnum \<Rightarrow> jstr \<Rightarrow> evm_log list \<Rightarrow> pay_hit option res" where
  "evm_loop latest conf payAmount [] = Inr None"
| "evm_loop latest conf payAmount (l # ls) = bind_res (big_of_str (lg_data l)) (\<lambda>value.
     if big_str value \<noteq> payAmount then evm_loop latest conf payAmount ls
     else if num_lt (num_sub latest (parse_int16 (lg_blockNumber l))) conf then evm_loop latest conf payAmount ls
     else Inr (Some \<lparr>ht_txHash = lg_transactionHash l, ht_logIndex = parse_int16 (lg_logIndex l)\<rparr>))"

definition scanEvmTransfer :: "chains \<Rightarrow> relay \<Rightarrow> sale_rail \<Rightarrow> stored_intent \<Rightarrow> pay_hit option res" where
  "scanEvmTransfer cn r rail i =
     (case (relay_env r (if rail_chain rail = js ''bsc'' then ''BSC_RPC'' else ''ETH_RPC''), rail_token rail) of
        (Some url, Some token) \<Rightarrow> if token = [] then Inr None else
          bind_res (cn_blockNumber cn url) (\<lambda>latestHex. let latest = parse_int16 latestHex in
          bind_res (min_conf r rail) (\<lambda>conf.
          let fromBlock = num_max (Num 0) (num_sub latest (Num 5000)) in
          bind_res (cn_getLogs cn url token (js ''0x'' @ hex_text fromBlock) (js ''0x'' @ hex_text latest)
              (to_topic (rail_receive rail))) (\<lambda>logs.
          evm_loop latest conf (si_payAmount i) (case logs of Some ls \<Rightarrow> ls | None \<Rightarrow> []))))
      | _ \<Rightarrow> Inr None)"

fun tron_loop :: "jstr \<Rightarrow> tron_tx list \<Rightarrow> pay_hit option" where
  "tron_loop payAmount [] = None"
| "tron_loop payAmount (tx # txs) =
     (if json_text (tt_value tx) \<noteq> payAmount then tron_loop payAmount txs
      else if tt_confirmed tx = Some (JBool False) then tron_loop payAmount txs
      else Some \<lparr>ht_txHash = tt_transaction_id tx, ht_logIndex = Num 0\<rparr>)"

definition scanTronTrc20 :: "chains \<Rightarrow> relay \<Rightarrow> sale_rail \<Rightarrow> stored_intent \<Rightarrow> pay_hit option res" where
  "scanTronTrc20 cn r rail i = (let base = env_or (rl_env r) ''TRON_API'' (js ''https://api.trongrid.io'') in
     case rail_token rail of None \<Rightarrow> Inr None
     | Some token \<Rightarrow> if token = [] then Inr None else
         bind_res (cn_trc20 cn (base @ js ''/v1/accounts/'' @ rail_receive rail
             @ js ''/transactions/trc20?only_to=true&limit=50&contract_address='' @ token)) (\<lambda>(status, data).
           if \<not> (200 \<le> status \<and> status < 300) then Inr None
           else Inr (tron_loop (si_payAmount i) (case data of Some txs \<Rightarrow> txs | None \<Rightarrow> []))))"

definition scanPayment :: "chains \<Rightarrow> relay \<Rightarrow> stored_intent \<Rightarrow> pay_hit option res" where
  "scanPayment cn r i = bind_res (relay_railById r (si_rail i)) (\<lambda>rail.
     if rail_chain rail = js ''ethereum'' \<or> rail_chain rail = js ''bsc'' then scanEvmTransfer cn r rail i
     else if rail_chain rail = js ''tron'' then scanTronTrc20 cn r rail i
     else Inr None)"


subsection \<open>Granting, and one pass of the watcher\<close>

definition submitGrant :: "chains \<Rightarrow> relay \<Rightarrow> stored_intent \<Rightarrow> jstr res" where
  "submitGrant cn r i = (case (relay_env r ''EAV7_RPC'',
         (case relay_env r (VAULT_ENV r) of Some v \<Rightarrow> Some v | None \<Rightarrow> relay_env r ''VAULT_ADDRESS''),
         relay_env r ''RELAYER_PRIVATE_KEY'') of
       (Some rpcUrl, Some vault, Some pk) \<Rightarrow>
         cn_grant cn vault (si_beneficiary0x i) (si_e7Amount i)
           (case si_paymentId i of Some p \<Rightarrow> p | None \<Rightarrow> []) (si_rail i)
     | _ \<Rightarrow> Inr (js ''dry-run''))"

definition grant_intent :: "(jstr \<Rightarrow> jstr) \<Rightarrow> chains \<Rightarrow> relay \<Rightarrow> jstr \<Rightarrow> jsnum \<Rightarrow> stored_intent \<Rightarrow> bool \<times> stored_intent" where
  "grant_intent sha cn r txHash logIndex i =
     markPaidAndGrant sha txHash logIndex (submitGrant cn r (mark_paid sha txHash logIndex i)) i"

definition tick_one :: "(jstr \<Rightarrow> jstr) \<Rightarrow> chains \<Rightarrow> relay \<Rightarrow> nat \<Rightarrow> stored_intent list \<Rightarrow> stored_intent list \<times> bool" where
  "tick_one sha cn r k is =
     (if \<not> tick_eligible is (is ! k) then (is, False)
      else case scanPayment cn r (is ! k) of
          Inr (Some hit) \<Rightarrow> (case grant_intent sha cn r (ht_txHash hit) (ht_logIndex hit) (is ! k) of
             (granted, i') \<Rightarrow> (is[k := i'], granted))
        | _ \<Rightarrow> (is, False))"

text \<open>The loop; \<open>view k\<close> is what the outside answers while intent \<open>k\<close> is looked at.\<close>

definition tick_pass :: "(jstr \<Rightarrow> jstr) \<Rightarrow> (nat \<Rightarrow> chains) \<Rightarrow> relay \<Rightarrow> stored_intent list \<Rightarrow> stored_intent list \<times> bool" where
  "tick_pass sha view r is = foldl (\<lambda>(is, dirty) k. case tick_one sha (view k) r k is of
      (is', granted) \<Rightarrow> (is', dirty \<or> granted)) (is, False) [0..<length is]"

definition tick :: "(jstr \<Rightarrow> jstr) \<Rightarrow> (nat \<Rightarrow> chains) \<Rightarrow> relay \<Rightarrow> unit res \<times> relay" where
  "tick sha view r = (case relay_loadState r of Inl e \<Rightarrow> (Inl e, r)
     | Inr st \<Rightarrow> (case tick_pass sha view r (intents st) of (is, dirty) \<Rightarrow>
         if dirty then relay_saveState (st\<lparr>intents := is\<rparr>) r else (Inr (), r)))"


subsection \<open>The HTTP server and the command line\<close>

datatype relay_body = NoBody | BadJson | JsonBody json

record relay_request =
  rq_method :: jstr
  rq_path :: jstr
  rq_body :: relay_body
  rq_opsToken :: "jstr option"
  rq_authorization :: "jstr option"

datatype relay_payload = REmpty | RHealth nat | RRails "sale_rail list" jstr sale_quote | RQuote sale_quote
  | RIntent sale_intent | RError jstr jstr

definition readBody :: "relay_request \<Rightarrow> json res" where
  "readBody rq = (case rq_body rq of NoBody \<Rightarrow> Inr (JObj []) | BadJson \<Rightarrow> Inl (js ''JSON inv'' @ [225] @ js ''lido'')
     | JsonBody b \<Rightarrow> Inr b)"

definition caught :: "(nat \<times> relay_payload) res \<times> relay \<Rightarrow> (nat \<times> relay_payload) \<times> relay" where
  "caught x = (case fst x of Inr a \<Rightarrow> (a, snd x) | Inl e \<Rightarrow> ((400, RError (js ''bad_request'') e), snd x))"

definition post_intent :: "relay_request \<Rightarrow> relay \<Rightarrow> (nat \<times> relay_payload) res \<times> relay" where
  "post_intent rq r = (case bind_res (readBody rq) (\<lambda>b. bind_res (json_prop b (js ''beneficiary0x'')) (\<lambda>ben.
       bind_res (json_prop b (js ''rail'')) (\<lambda>rail. bind_res (json_prop b (js ''railId'')) (\<lambda>railId.
       bind_res (json_prop b (js ''usdAmount'')) (\<lambda>usd.
         Inr \<lparr>cr_beneficiary0x = ben, cr_rail = or_else rail railId, cr_usdAmount = usd\<rparr>))))) of
     Inl e \<Rightarrow> (Inl e, r)
   | Inr req \<Rightarrow> (case createIntent req r of (Inl e, r1) \<Rightarrow> (Inl e, r1)
       | (Inr i, r1) \<Rightarrow> (bind_res (relay_publicIntent r1 i) (\<lambda>v. Inr (201, RIntent v)), r1)))"

definition ops_header :: "relay_request \<Rightarrow> jstr" where
  "ops_header rq = (case rq_opsToken rq of
       Some t \<Rightarrow> if t \<noteq> [] then t else (case rq_authorization rq of
         Some a \<Rightarrow> if take 7 a = js ''Bearer '' then drop 7 a else [] | None \<Rightarrow> [])
     | None \<Rightarrow> (case rq_authorization rq of
         Some a \<Rightarrow> if take 7 a = js ''Bearer '' then drop 7 a else [] | None \<Rightarrow> []))"

definition or_zero :: "jsnum \<Rightarrow> jsnum" where
  "or_zero x = (if x = NaN then Num 0 else x)"

definition index_of_intent :: "json option \<Rightarrow> stored_intent list \<Rightarrow> nat option" where
  "index_of_intent v is = find (\<lambda>k. v = Some (JStr (si_id (is ! k)))) [0..<length is]"

definition post_confirm :: "(jstr \<Rightarrow> jstr) \<Rightarrow> chains \<Rightarrow> relay_request \<Rightarrow> relay \<Rightarrow> (nat \<times> relay_payload) res \<times> relay" where
  "post_confirm sha cn rq r = (case relay_env r ''SALE_OPS_TOKEN'' of
     None \<Rightarrow> (Inr (503, RError (js ''confirm_disabled'')
       (js ''SALE_OPS_TOKEN not set '' @ [8212] @ js '' use CLI confirm on an ops host or rely on watcher'')), r)
   | Some ops \<Rightarrow>
     if ops_header rq \<noteq> ops then (Inr (401, RError (js ''unauthorized'') (js ''invalid ops token'')), r)
     else (case readBody rq of Inl e \<Rightarrow> (Inl e, r) | Inr b \<Rightarrow>
       (case relay_loadState r of Inl e \<Rightarrow> (Inl e, r) | Inr st \<Rightarrow>
       (case (if intents st = [] then Inr None else json_prop b (js ''intentId'')) of Inl e \<Rightarrow> (Inl e, r) | Inr iid \<Rightarrow>
         (case index_of_intent iid (intents st) of
           None \<Rightarrow> (Inr (404, RError (js ''not_found'') (js ''intent not found'')), r)
         | Some k \<Rightarrow> let i = intents st ! k in
            if si_status i = js ''granted''
            then (bind_res (relay_publicIntent r i) (\<lambda>v. Inr (200, RIntent v)), r)
            else (case bind_res (json_prop b (js ''txHash'')) (\<lambda>tx. bind_res (json_prop b (js ''logIndex'')) (\<lambda>li. Inr (tx, li))) of
                Inl e \<Rightarrow> (Inl e, r)
              | Inr (Some (JStr h), li) \<Rightarrow>
                  if h = [] then (Inr (400, RError (js ''bad_request'') (js ''txHash required'')), r)
                  else (case submitGrant cn r (mark_paid sha (trim h) (or_zero (num_prop li)) i) of
                    Inl e \<Rightarrow> (Inl e, r)
                  | Inr g \<Rightarrow> (let i' = mark_granted g (mark_paid sha (trim h) (or_zero (num_prop li)) i) in
                      case relay_saveState (st\<lparr>intents := (intents st)[k := i']\<rparr>) r of
                        (Inl e, r1) \<Rightarrow> (Inl e, r1)
                      | (Inr _, r1) \<Rightarrow> (bind_res (relay_publicIntent r1 i') (\<lambda>v. Inr (200, RIntent v)), r1)))
              | _ \<Rightarrow> (Inr (400, RError (js ''bad_request'') (js ''txHash required'')), r)))))))"

definition relay_handle :: "(jstr \<Rightarrow> jstr) \<Rightarrow> chains \<Rightarrow> relay_request \<Rightarrow> relay \<Rightarrow> (nat \<times> relay_payload) \<times> relay" where
  "relay_handle sha cn rq r =
     (if rq_method rq = js ''OPTIONS'' then ((204, REmpty), r)
      else if rq_method rq = js ''GET'' \<and> rq_path rq = js ''/health''
      then caught (bind_res (relay_loadState r) (\<lambda>st. Inr (200, RHealth (length (intents st)))), r)
      else if rq_method rq = js ''GET'' \<and> rq_path rq = js ''/rails''
      then caught (bind_res (relay_loadState r) (\<lambda>st. let q = buildQuote (rl_cfg r) st in
          Inr (200, RRails (rl_rails r) (num_str (q_price q)) q)), r)
      else if rq_method rq = js ''GET'' \<and> rq_path rq = js ''/quote''
      then caught (bind_res (relay_loadState r) (\<lambda>st. Inr (200, RQuote (buildQuote (rl_cfg r) st))), r)
      else if rq_method rq = js ''POST'' \<and> rq_path rq = js ''/intent'' then caught (post_intent rq r)
      else if rq_method rq = js ''GET'' \<and> take 8 (rq_path rq) = js ''/intent/'' \<and> re_id (drop 8 (rq_path rq))
      then caught (bind_res (relay_getIntent (drop 8 (rq_path rq)) r) (\<lambda>oi. case oi of
          None \<Rightarrow> Inr (404, RError (js ''not_found'') (js ''intent n'' @ [227] @ js ''o encontrada''))
        | Some i \<Rightarrow> bind_res (relay_publicIntent r i) (\<lambda>v. Inr (200, RIntent v))), r)
      else if rq_method rq = js ''POST'' \<and> rq_path rq = js ''/confirm'' then caught (post_confirm sha cn rq r)
      else ((404, RError (js ''not_found'') (js ''rota'')), r))"

text \<open>\<open>node index.mjs confirm <id> <txHash>\<close>: no token, and no check of the status.\<close>

definition cli_confirm :: "(jstr \<Rightarrow> jstr) \<Rightarrow> chains \<Rightarrow> jstr \<Rightarrow> jstr \<Rightarrow> relay \<Rightarrow> sale_intent res \<times> relay" where
  "cli_confirm sha cn iid txHash r = (case relay_loadState r of Inl e \<Rightarrow> (Inl e, r) | Inr st \<Rightarrow>
     (case index_of_intent (Some (JStr iid)) (intents st) of
       None \<Rightarrow> (Inl (js ''intent n'' @ [227] @ js ''o encontrada''), r)
     | Some k \<Rightarrow> (case submitGrant cn r (mark_paid sha txHash (Num 0) (intents st ! k)) of
           Inl e \<Rightarrow> (Inl e, r)
         | Inr g \<Rightarrow> (let i' = mark_granted g (mark_paid sha txHash (Num 0) (intents st ! k)) in
             case relay_saveState (st\<lparr>intents := (intents st)[k := i']\<rparr>) r of
               (Inl e, r1) \<Rightarrow> (Inl e, r1)
             | (Inr _, r1) \<Rightarrow> (relay_publicIntent r1 i', r1)))))"

end
