(* ===== verification/RelayerBook.thy ===== *)
theory RelayerBook
  imports Relayer
begin

section \<open>The relayer against the web server and the sale book\<close>

text \<open>
  The relayer repeats the web server's quote and create in its own file; the first part shows they
  are the same function of the same machine. Then its watcher's pass is a run of the steps of
  \<open>SaleBook\<close>, and its HTTP interface changes the file only as stated. The last properties are
  about a grant that fails.
\<close>

subsection \<open>The two quotes\<close>

lemma raised_loop_foldl:
  "raised_loop counts acc is = foldl (raised_step counts) acc (map (\<lambda>i. (si_status i, si_usdAmount i)) is)"
  by (induction "is" arbitrary: acc) (simp_all add: raised_step_def Let_def)

lemma raisedUsd_web: "raisedUsd cfg st = raisedFromIntents (progress_view st) (counts_of (rc_auto cfg))"
  by (simp add: raisedUsd_def raisedFromIntents_def raised_loop_foldl progress_view_def counts_of_def split: option.split)

lemma relay_tier_loop_web: "relay_tier_loop raised i ts = map_option snd (tier_loop raised ts i)"
  by (induction ts arbitrary: i) (simp_all add: tier_open_def)

lemma relay_resolveTier_web: "relay_resolveTier cfg raised = resolveTier raised (rc_auto cfg)"
proof -
  have t: "(case cfg_tiers (rc_auto cfg) of
         Some ts \<Rightarrow> if ts \<noteq> [] then ts else [\<lparr>tier_id = js ''flat'', tier_label = js ''Fixed'', untilRaisedUsd = None,
           priceUsdPerEav7 = cfg_price (rc_auto cfg)\<rparr>]
       | None \<Rightarrow> [\<lparr>tier_id = js ''flat'', tier_label = js ''Fixed'', untilRaisedUsd = None,
           priceUsdPerEav7 = cfg_price (rc_auto cfg)\<rparr>]) = tiers_of (rc_auto cfg)"
    by (auto simp: tiers_of_def split: option.split list.split)
  have "tier_loop raised ts 0 = Some (t, k) \<Longrightarrow> ts ! k = t" for ts t k
    by (simp add: tier_loop_Some)
  moreover have "ts \<noteq> [] \<Longrightarrow> ts ! (length ts - 1) = last ts" for ts :: "sale_tier list"
    by (simp add: last_conv_nth)
  ultimately show ?thesis
    by (auto simp: relay_resolveTier_def resolveTier_def t relay_tier_loop_web Let_def tiers_of_nonempty
        split: option.split)
qed

lemma buildQuote_web: "buildQuote cfg st = buildSaleQuote (progress_view st) (rc_auto cfg)"
proof -
  obtain t i ts where "resolveTier (raisedUsd cfg st) (rc_auto cfg) = (t, i, ts)" by (metis prod_cases3)
  then show ?thesis
    unfolding buildQuote_def buildSaleQuote_def relay_resolveTier_web raisedUsd_web [symmetric] Let_def
    by (simp add: quote_at_def Let_def map_option_case)
qed


subsection \<open>The two creates\<close>

text \<open>One machine seen by both programs, with the same configuration.\<close>

definition same_world :: "channel \<Rightarrow> server \<Rightarrow> relay \<Rightarrow> bool" where
  "same_world ch sv r \<longleftrightarrow> rl_file r = sv_states sv (statePath ch sv) \<and> rl_rand r = sv_rand sv
     \<and> rl_rpos r = sv_rpos sv \<and> rl_now r = sv_now sv \<and> rl_readonly r = sv_readonly sv
     \<and> rl_rails r = SALE_RAILS \<and> rc_auto (rl_cfg r) = server_cfg ch sv
     \<and> rc_uniqueAmountMicros (rl_cfg r) \<noteq> Some False
     \<and> relay_btcUsd r = BTC_USD sv \<and> num_lt (Num 0) (BTC_USD sv)"

definition json_request :: "create_input \<Rightarrow> create_request" where
  "json_request inp = \<lparr>cr_beneficiary0x = Some (JStr (ci_beneficiary0x inp)), cr_rail = Some (JStr (ci_rail inp)),
     cr_usdAmount = Some (JNum (ci_usdAmount inp))\<rparr>"

lemma same_world_load: "same_world ch sv r \<Longrightarrow> relay_loadState r = loadState ch sv"
  by (simp add: same_world_def relay_loadState_def loadState_def)

lemma same_world_rail: "same_world ch sv r \<Longrightarrow> relay_railById r k = railById k"
  by (simp add: same_world_def relay_railById_def railById_def)

lemma same_world_draw:
  "same_world ch sv r \<Longrightarrow> same_world ch (sv\<lparr>sv_rpos := n\<rparr>) (r\<lparr>rl_rpos := n\<rparr>)"
  by (simp add: same_world_def statePath_def server_cfg_def BTC_USD_def relay_btcUsd_def)

lemma payAmountTaken_web: "payAmountTaken st (rail_id rail) pay None \<longleftrightarrow> pay_taken st rail pay"
  by (auto simp: payAmountTaken_def pay_taken_def list_ex_iff)

lemma quoteAmount_web:
  assumes "same_world ch sv r" "num_lt (Num 0) price" "num_le (Num 100) u"
  shows "quoteAmount r rail (Some (JNum u)) (int n) price =
    bind_res (quoteRailPayAmount sv rail u (int n)) (\<lambda>pay.
    bind_res (bigint_of_num (num_round (num_mul (num_div u price) (Num 1000000)))) (\<lambda>e7. Inr (pay, big_str e7)))"
proof -
  have b: "quote_base r rail u = pay_base sv rail u"
    using assms(1) by (cases "rail_decimals rail") (auto simp: quote_base_def pay_base_def same_world_def Let_def)
  have s: "(if a \<ge> PAY_SUFFIX_MOD then PAY_SUFFIX_MOD else 10000) = suffix_mod a" for a
    by (simp add: PAY_SUFFIX_MOD_def suffix_mod_def)
  have "rc_uniqueAmountMicros (rl_cfg r) \<noteq> Some False" using assms(1) by (simp add: same_world_def)
  then show ?thesis
    using assms(2,3) unfolding quoteAmount_def quoteRailPayAmount_def s Let_def
    by (cases "pay_base sv rail u") (simp_all add: b num_prop_def with_suffix_def del: num_mul.simps num_div.simps num_round.simps)
qed

lemma unique_loop_web:
  assumes "same_world ch sv r" "num_lt (Num 0) price" "num_le (Num 100) u"
    and "bigint_of_num (num_round (num_mul (num_div u price) (Num 1000000))) = Inr e7"
  shows "unique_loop n st rail (Some (JNum u)) price r = (case alloc_loop n st rail u sv of
    (a, sva) \<Rightarrow> (bind_res a (\<lambda>pay. Inr (pay, big_str e7)), r\<lparr>rl_rpos := sv_rpos sva\<rparr>))"
  using assms(1)
proof (induction n arbitrary: sv r)
  case 0
  then show ?case by (cases r) (simp add: same_world_def)
next
  case (Suc n)
  let ?sv = "sv\<lparr>sv_rpos := Suc (sv_rpos sv)\<rparr>" and ?r = "r\<lparr>rl_rpos := Suc (rl_rpos r)\<rparr>"
  have w: "same_world ch ?sv ?r"
    using same_world_draw [OF Suc.prems, of "Suc (sv_rpos sv)"] Suc.prems by (simp add: same_world_def)
  have d: "relay_draw 32 r = (sv_rand sv (sv_rpos sv) mod 2 ^ 32, ?r)"
    using Suc.prems by (simp add: relay_draw_def same_world_def)
  have p: "rl_rpos r = sv_rpos sv" using Suc.prems by (simp add: same_world_def)
  note q = quoteAmount_web [OF w assms(2,3), unfolded assms(4) bind_res_simps p]
  show ?case
  proof (cases "quoteRailPayAmount sv rail u (int (sv_rand sv (sv_rpos sv) mod 2 ^ 32))")
    case (Inl e)
    then show ?thesis by (simp add: d q draw_def p)
  next
    case (Inr pay)
    then show ?thesis using Suc.IH [OF w] by (simp add: d q draw_def p payAmountTaken_web)
  qed
qed

lemma unique_loop_Inl:
  assumes "\<And>r nonce. \<exists>e. quoteAmount r rail usd nonce price = Inl e"
  shows "\<exists>e k. unique_loop n st rail usd price r = (Inl e, r\<lparr>rl_rpos := k\<rparr>)"
proof (cases n)
  case 0
  then show ?thesis by (auto intro: exI [of _ "rl_rpos r"])
next
  case (Suc m)
  obtain e where "quoteAmount (r\<lparr>rl_rpos := Suc (rl_rpos r)\<rparr>) rail usd
      (int (rl_rand r (rl_rpos r) mod 2 ^ 32)) price = Inl e" using assms by blast
  then show ?thesis using Suc by (auto simp: relay_draw_def)
qed

lemma quoteAmount_no_price: "\<not> num_lt (Num 0) price \<Longrightarrow> \<exists>e. quoteAmount r rail usd nonce price = Inl e"
  by (simp add: quoteAmount_def)

lemma quoteAmount_small: "\<not> num_le (Num 100) u \<Longrightarrow> \<exists>e. quoteAmount r rail (Some (JNum u)) nonce price = Inl e"
  by (simp add: quoteAmount_def num_prop_def)

lemma quoteAmount_no_e7:
  "bigint_of_num (num_round (num_mul (num_div u price) (Num 1000000))) = Inl e
     \<Longrightarrow> \<exists>e. quoteAmount r rail (Some (JNum u)) nonce price = Inl e"
  by (simp add: quoteAmount_def num_prop_def Let_def bind_res_def del: num_mul.simps num_div.simps num_round.simps
      split: sum.split)


lemma relay_loadState_saved: "relay_loadState (r\<lparr>rl_rpos := k, rl_file := Some (Parsed s)\<rparr>) = Inr s"
  by (simp add: relay_loadState_def)

lemma relay_intent_web:
  "relay_intent (json_request inp) rail quote (pay, big_str e7) rnd created =
     (new_intent inp ch rail quote pay e7 rnd created)\<lparr>si_channel := None\<rparr>"
  by (simp add: relay_intent_def new_intent_def json_request_def json_text_def)

definition web_outcome :: "create_input \<Rightarrow> channel \<Rightarrow> server \<Rightarrow> relay \<Rightarrow> stored_intent res \<times> relay \<Rightarrow> bool" where
  "web_outcome inp ch sv r out \<longleftrightarrow> (case (createLocalIntent inp ch sv, out) of
      ((Inr view, sv'), (Inr i, r')) \<Rightarrow> (\<exists>st i'. loadState ch sv = Inr st
         \<and> loadState ch sv' = Inr (st\<lparr>intents := intents st @ [i']\<rparr>) \<and> toPublic i' = Inr view
         \<and> i = i'\<lparr>si_channel := None\<rparr> \<and> relay_loadState r' = Inr (st\<lparr>intents := intents st @ [i]\<rparr>))
    | ((Inl e, sv'), (Inl e', r')) \<Rightarrow> rl_file r' = rl_file r
    | _ \<Rightarrow> False)"

lemma create_same:
  assumes w: "same_world ch sv r" and rail: "railById (ci_rail inp) = Inr rail"
    and st: "loadState ch sv = Inr st" and a: "re_evm (ci_beneficiary0x inp)"
    and u: "num_le (Num 100) (ci_usdAmount inp)"
    and p: "num_lt (Num 0) (q_price (buildSaleQuote (progress_view st) (server_cfg ch sv)))"
    and e7: "bigint_of_num (num_round (num_mul (num_div (ci_usdAmount inp)
      (q_price (buildSaleQuote (progress_view st) (server_cfg ch sv)))) (Num 1000000))) = Inr e7"
  shows "web_outcome inp ch sv r (createIntent (json_request inp) r)"
proof -
  let ?q = "buildSaleQuote (progress_view st) (server_cfg ch sv)"
  obtain al sva where al: "alloc_loop 64 st rail (ci_usdAmount inp) sv = (al, sva)" by fastforce
  obtain k where sva: "sva = sv\<lparr>sv_rpos := k\<rparr>"
    using alloc_loop_frame [of sv 64 st rail "ci_usdAmount inp"] al by (auto simp: drawn_def)
  have l: "unique_loop 64 st rail (Some (JNum (ci_usdAmount inp))) (q_price ?q) r =
      (bind_res al (\<lambda>pay. Inr (pay, big_str e7)), r\<lparr>rl_rpos := k\<rparr>)"
    using unique_loop_web [OF w p u e7] al sva by simp
  have web: "buildQuote (rl_cfg r) st = ?q" "rl_rand r = sv_rand sv" "rl_now r = sv_now sv"
    "rl_readonly r = sv_readonly sv" "relay_railById r (ci_rail inp) = Inr rail"
    "relay_loadState r = Inr st"
    using w rail st same_world_load [OF w] same_world_rail [OF w]
    by (simp_all add: buildQuote_web same_world_def)
  have sel: "cr_beneficiary0x (json_request inp) = Some (JStr (ci_beneficiary0x inp))"
    "cr_rail (json_request inp) = Some (JStr (ci_rail inp))"
    "cr_usdAmount (json_request inp) = Some (JNum (ci_usdAmount inp))"
    by (simp_all add: json_request_def)
  have in1: "isAddr0x (cr_beneficiary0x (json_request inp))"
    "find_rail r (cr_rail (json_request inp)) = Inr rail"
    using a web(5) by (simp_all add: sel isAddr0x_def find_rail_def)
  note defs = web_outcome_def createLocalIntent_def createIntent_def allocateUniquePayAmount_def
    allocateUniqueQuote_def Let_def
  show ?thesis
  proof (cases al)
    case (Inl e)
    then show ?thesis
      using a u p rail st al l in1 by (simp add: defs web sel)
  next
    case (Inr pay)
    obtain c where c: "iso_string (sv_now sv) = Inr c \<or> (\<exists>e. iso_string (sv_now sv) = Inl e)"
      by (cases "iso_string (sv_now sv)") auto
    let ?i = "new_intent inp ch rail ?q pay e7 (sv_rand sv k mod 2 ^ 64) c"
    have v: "\<exists>v. toPublic (new_intent inp ch rail ?q pay e7 (sv_rand sv k mod 2 ^ 64) c) = Inr v" for c
      by (rule toPublic_new_intent [OF rail])
    have sp: "statePath ch (sv\<lparr>sv_rpos := n\<rparr>) = statePath ch sv" for n by (simp add: statePath_def)
    show ?thesis
      using a u p rail st al l in1 Inr c e7 sva
      by (cases "sv_readonly sv")
        (auto simp: defs web sel draw_def relay_draw_def saveState_def relay_saveState_def
          relay_intent_web [of inp _ _ _ _ _ _ ch] relay_loadState_saved loadState_upd sp toPublic_new_ne [OF rail]
          simp del: num_mul.simps num_div.simps num_round.simps split: sum.splits)
  qed
qed


lemma createIntent_refused:
  assumes q: "\<And>r nonce. \<exists>e. quoteAmount r rail (cr_usdAmount req) nonce
      (q_price (buildQuote (rl_cfg r0) st)) = Inl e"
    and "find_rail r0 (cr_rail req) = Inr rail" "relay_loadState r0 = Inr st"
  shows "\<exists>e k. createIntent req r0 = (Inl e, r0\<lparr>rl_rpos := k\<rparr>)"
proof -
  have id: "\<exists>k. r0 = r0\<lparr>rl_rpos := k\<rparr>" by (rule exI [of _ "rl_rpos r0"]) simp
  obtain e k where "unique_loop 64 st rail (cr_usdAmount req) (q_price (buildQuote (rl_cfg r0) st)) r0
      = (Inl e, r0\<lparr>rl_rpos := k\<rparr>)" using unique_loop_Inl [OF q] by blast
  then show ?thesis
    using assms(2,3) id by (auto simp: createIntent_def allocateUniqueQuote_def Let_def)
qed

lemma create_like_web:
  assumes w: "same_world ch sv r"
  shows "web_outcome inp ch sv r (createIntent (json_request inp) r)"
proof -
  have sel: "cr_beneficiary0x (json_request inp) = Some (JStr (ci_beneficiary0x inp))"
    "cr_rail (json_request inp) = Some (JStr (ci_rail inp))"
    "cr_usdAmount (json_request inp) = Some (JNum (ci_usdAmount inp))"
    by (simp_all add: json_request_def)
  show ?thesis
  proof (cases "re_evm (ci_beneficiary0x inp)")
    case False
    then show ?thesis
      by (simp add: web_outcome_def createLocalIntent_def createIntent_def isAddr0x_def sel)
  next
    case a: True
    then have ia: "isAddr0x (cr_beneficiary0x (json_request inp))" by (simp add: isAddr0x_def sel)
    have fr: "find_rail r (cr_rail (json_request inp)) = railById (ci_rail inp)"
      using same_world_rail [OF w] by (simp add: find_rail_def sel)
    show ?thesis
    proof (cases "railById (ci_rail inp)")
      case (Inl e)
      then show ?thesis
        using a ia fr by (simp add: web_outcome_def createLocalIntent_def createIntent_def)
    next
      case rail: (Inr rail)
      show ?thesis
      proof (cases "loadState ch sv")
        case (Inl e)
        then show ?thesis
          using a ia fr rail same_world_load [OF w]
          by (simp add: web_outcome_def createLocalIntent_def createIntent_def)
      next
        case st: (Inr st)
        let ?p = "q_price (buildSaleQuote (progress_view st) (server_cfg ch sv))"
        let ?e7 = "bigint_of_num (num_round (num_mul (num_div (ci_usdAmount inp) ?p) (Num 1000000)))"
        have p: "q_price (buildQuote (rl_cfg r) st) = ?p"
          using w by (simp add: buildQuote_web same_world_def)
        show ?thesis
        proof (cases "num_le (Num 100) (ci_usdAmount inp) \<and> num_lt (Num 0) ?p \<and> (\<exists>e7. ?e7 = Inr e7)")
          case True
          then show ?thesis using create_same [OF w rail st a] by blast
        next
          case False
          then have q: "\<exists>e. quoteAmount r' rail (cr_usdAmount (json_request inp)) nonce
              (q_price (buildQuote (rl_cfg r) st)) = Inl e" for r' nonce
            using quoteAmount_no_price quoteAmount_small quoteAmount_no_e7 unfolding p sel
            by (metis sum.exhaust)
          obtain e k where c: "createIntent (json_request inp) r = (Inl e, r\<lparr>rl_rpos := k\<rparr>)"
            using createIntent_refused [OF q] fr rail same_world_load [OF w] st by auto
          have "\<exists>e. fst (createLocalIntent inp ch sv) = Inl e"
            using False a rail st
            by (auto simp: createLocalIntent_def Let_def split: prod.splits sum.splits
                simp del: num_mul.simps num_div.simps num_round.simps)
          then show ?thesis using c by (auto simp: web_outcome_def split: prod.splits sum.splits)
        qed
      qed
    qed
  qed
qed


subsection \<open>The watcher as steps of the sale book\<close>

lemma tick_one_length [simp]: "length (fst (tick_one sha cn r k is)) = length is"
  by (simp add: tick_one_def split: sum.split option.split prod.split)

lemma tick_one_cases:
  assumes "tick_one sha cn r k is = (is', g)"
  obtains (idle) "is' = is" "\<not> g"
  | (hit) h i' where "tick_eligible is (is ! k)" "scanPayment cn r (is ! k) = Inr (Some h)"
      "grant_intent sha cn r (ht_txHash h) (ht_logIndex h) (is ! k) = (g, i')" "is' = is[k := i']"
proof (cases "tick_eligible is (is ! k) \<and> (\<exists>h. scanPayment cn r (is ! k) = Inr (Some h))")
  case True
  then obtain h where e: "tick_eligible is (is ! k)" "scanPayment cn r (is ! k) = Inr (Some h)" by blast
  obtain g' i' where gr: "grant_intent sha cn r (ht_txHash h) (ht_logIndex h) (is ! k) = (g', i')" by fastforce
  have "tick_one sha cn r k is = (is[k := i'], g')" by (simp add: tick_one_def e gr)
  then show thesis using assms hit e gr by simp
next
  case False
  then have "tick_one sha cn r k is = (is, False)"
    by (auto simp: tick_one_def split: sum.split option.split)
  then show thesis using assms idle by simp
qed

lemma tick_one_steps:
  assumes "sale_reach sha ch w0 (w\<lparr>w_copy := Some is, w_dirty := d\<rparr>)" "k < length is"
    and "tick_one sha cn r k is = (is', g)"
  shows "sale_reach sha ch w0 (w\<lparr>w_copy := Some is', w_dirty := d \<or> g\<rparr>)"
  using assms(3)
proof (cases rule: tick_one_cases)
  case idle
  then show ?thesis using assms(1) by simp
next
  case (hit h i')
  let ?w = "w\<lparr>w_copy := Some is, w_dirty := d\<rparr>"
  have "sale_step sha ch ?w (?w\<lparr>w_copy := Some (is[k := i']), w_dirty := w_dirty ?w \<or> g\<rparr>)"
    by (rule sale_step.tick_hit [of ?w "is" k sha "ht_txHash h" "ht_logIndex h" _ g i' ch,
        OF _ assms(2) hit(1) hit(3) [unfolded grant_intent_def]]) simp
  then show ?thesis using sale_reach.more [OF assms(1)] hit(4) by simp
qed

definition tick_fold :: "(jstr \<Rightarrow> jstr) \<Rightarrow> (nat \<Rightarrow> chains) \<Rightarrow> relay \<Rightarrow> stored_intent list \<times> bool \<Rightarrow> nat list
    \<Rightarrow> stored_intent list \<times> bool" where
  "tick_fold sha view r = foldl (\<lambda>(is, dirty) k. case tick_one sha (view k) r k is of
      (is', granted) \<Rightarrow> (is', dirty \<or> granted))"

lemma tick_pass_fold: "tick_pass sha view r is = tick_fold sha view r (is, False) [0..<length is]"
  by (simp add: tick_pass_def tick_fold_def)

lemma tick_fold_simps [simp]:
  "tick_fold sha view r x [] = x"
  "tick_fold sha view r (is, d) (k # ks) =
     tick_fold sha view r (fst (tick_one sha (view k) r k is), d \<or> snd (tick_one sha (view k) r k is)) ks"
  by (simp_all add: tick_fold_def split: prod.split)

lemma tick_fold_steps:
  assumes "sale_reach sha ch w0 (w\<lparr>w_copy := Some is, w_dirty := d\<rparr>)" "\<forall>k \<in> set ks. k < length is"
  shows "sale_reach sha ch w0 (w\<lparr>w_copy := Some (fst (tick_fold sha view r (is, d) ks)),
    w_dirty := snd (tick_fold sha view r (is, d) ks)\<rparr>)"
  using assms
proof (induction ks arbitrary: "is" d)
  case (Cons k ks)
  show ?case
    using Cons.IH [OF tick_one_steps [OF Cons.prems(1), of k "view k" r]] Cons.prems(2) by simp
qed simp

lemma tick_steps:
  assumes f: "rl_file r = sv_states (w_sv w) (statePath ch (w_sv w))" "rl_readonly r = sv_readonly (w_sv w)"
    and c: "w_copy w = None" and t: "tick sha view r = (res, r')"
  shows "\<exists>w'. sale_reach sha ch w w' \<and> w_told w' = w_told w
    \<and> rl_file r' = sv_states (w_sv w') (statePath ch (w_sv w'))"
proof (cases "relay_loadState r")
  case (Inl e)
  then show ?thesis using t f sale_reach.start by (auto simp: tick_def intro: exI [of _ w])
next
  case (Inr st)
  have l: "loadState ch (w_sv w) = Inr st" using Inr f(1) by (simp add: loadState_def relay_loadState_def)
  let ?p = "tick_pass sha view r (intents st)"
  have "sale_reach sha ch w (w\<lparr>w_copy := Some (intents st), w_dirty := False\<rparr>)"
    by (rule sale_reach.more [OF sale_reach.start sale_step.tick_load [OF c l]])
  from tick_fold_steps [OF this, of "[0..<length (intents st)]" view r]
  have p: "sale_reach sha ch w (w\<lparr>w_copy := Some (fst ?p), w_dirty := snd ?p\<rparr>)"
    by (simp add: tick_pass_fold)
  show ?thesis
  proof (cases "snd ?p \<and> \<not> rl_readonly r")
    case False
    then have "r' = r" using t Inr by (auto simp: tick_def relay_saveState_def split: prod.splits if_splits)
    then show ?thesis using p f by (intro exI [of _ "w\<lparr>w_copy := Some (fst ?p), w_dirty := snd ?p\<rparr>"]) simp
  next
    case True
    then obtain "is" where i: "?p = (is, True)" "\<not> rl_readonly r" by (metis prod.collapse)
    have st': "st\<lparr>intents := is\<rparr> = \<lparr>intents = is\<rparr>" by simp
    obtain sv' where s: "saveState ch \<lparr>intents = is\<rparr> (w_sv w) = (Inr (), sv')"
      and f': "sv_states sv' (statePath ch sv') = Some (Parsed \<lparr>intents = is\<rparr>)"
      using i(2) f(2) by (simp add: saveState_def statePath_def)
    let ?w = "w\<lparr>w_copy := Some is, w_dirty := True\<rparr>"
    have "sale_step sha ch ?w (?w\<lparr>w_sv := sv', w_copy := None\<rparr>)"
      by (rule sale_step.tick_save [of ?w "is" ch sv' sha]) (simp_all add: s)
    moreover have "sale_reach sha ch w ?w" using p i(1) by simp
    ultimately have "sale_reach sha ch w (?w\<lparr>w_sv := sv', w_copy := None\<rparr>)"
      by (rule sale_reach.more [rotated])
    moreover have "rl_file r' = Some (Parsed \<lparr>intents = is\<rparr>)"
      using t Inr i by (auto simp: tick_def relay_saveState_def st')
    ultimately show ?thesis using f'
      by (intro exI [of _ "?w\<lparr>w_sv := sv', w_copy := None\<rparr>"]) simp
  qed
qed


subsection \<open>What one pass leaves alone\<close>

lemma tick_one_other:
  assumes "tick_one sha cn r k is = (is', g)" "m < length is" "m \<noteq> k"
  shows "is' ! m = is ! m"
  using assms(1)
proof (cases rule: tick_one_cases)
  case (hit h i')
  then show ?thesis using assms(3) by simp
qed simp

lemma tick_one_closed:
  assumes "tick_one sha cn r k is = (is', g)" "m < length is" "si_status (is ! m) \<noteq> js ''pending''"
  shows "is' ! m = is ! m"
  using assms(1)
proof (cases rule: tick_one_cases)
  case (hit h i')
  then show ?thesis using assms(3) by (cases "m = k") (simp_all add: tick_eligible_def)
qed simp

lemma tick_fold_length [simp]: "length (fst (tick_fold sha view r (is, d) ks)) = length is"
  by (induction ks arbitrary: "is" d) simp_all

lemma tick_fold_closed:
  "m < length is \<Longrightarrow> si_status (is ! m) \<noteq> js ''pending'' \<Longrightarrow>
     fst (tick_fold sha view r (is, d) ks) ! m = is ! m"
proof (induction ks arbitrary: "is" d)
  case (Cons k ks)
  let ?t = "tick_one sha (view k) r k is"
  have e: "fst ?t ! m = is ! m"
    using tick_one_closed [of sha "view k" r k "is" "fst ?t" "snd ?t" m] Cons.prems by simp
  then show ?case using Cons.IH [of "fst ?t"] Cons.prems by simp
qed simp

lemma tick_fold_other:
  "m < length is \<Longrightarrow> m \<notin> set ks \<Longrightarrow> fst (tick_fold sha view r (is, d) ks) ! m = is ! m"
proof (induction ks arbitrary: "is" d)
  case (Cons k ks)
  let ?t = "tick_one sha (view k) r k is"
  have e: "fst ?t ! m = is ! m"
    using tick_one_other [of sha "view k" r k "is" "fst ?t" "snd ?t" m] Cons.prems by simp
  then show ?case using Cons.IH [of "fst ?t"] Cons.prems by simp
qed simp

text \<open>A pending intent stays eligible while the others are settled.\<close>

lemma filter_update_le:
  "\<not> P x \<Longrightarrow> length (filter P (xs[k := x])) \<le> length (filter P xs)"
  by (induction xs arbitrary: k) (auto split: nat.split simp: le_SucI)

lemma tick_one_eligible:
  assumes "tick_one sha cn r k is = (is', g)" "tick_eligible is i"
  shows "tick_eligible is' i"
  using assms(1)
proof (cases rule: tick_one_cases)
  case (hit h i')
  have "si_status i' \<noteq> js ''pending''"
    using hit(3) by (auto simp: grant_intent_def markPaidAndGrant_def mark_paid_def mark_granted_def split: sum.splits)
  then have "length (filter (\<lambda>j. si_status j = js ''pending'' \<and> si_rail j = si_rail i
      \<and> si_payAmount j = si_payAmount i) is') \<le> length (filter (\<lambda>j. si_status j = js ''pending''
      \<and> si_rail j = si_rail i \<and> si_payAmount j = si_payAmount i) is)"
    unfolding hit(4) by (intro filter_update_le) simp
  then show ?thesis using assms(2) by (simp add: tick_eligible_def)
qed (use assms(2) in simp)

lemma tick_fold_eligible:
  "tick_eligible is i \<Longrightarrow> tick_eligible (fst (tick_fold sha view r (is, d) ks)) i"
proof (induction ks arbitrary: "is" d)
  case (Cons k ks)
  then show ?case using tick_one_eligible [of sha "view k" r k "is" "fst (tick_one sha (view k) r k is)"
      "snd (tick_one sha (view k) r k is)"] by simp
qed simp

lemma tick_fold_append:
  "tick_fold sha view r x (ks @ ls) = tick_fold sha view r (tick_fold sha view r x ks) ls"
  by (simp add: tick_fold_def)

text \<open>So the pass treats an intent that starts eligible on its own.\<close>

lemma tick_pass_at:
  assumes k: "k < length is" "tick_eligible is (is ! k)" and s: "scanPayment (view k) r (is ! k) = Inr (Some h)"
  shows "fst (tick_pass sha view r is) ! k =
    snd (grant_intent sha (view k) r (ht_txHash h) (ht_logIndex h) (is ! k))"
proof -
  let ?a = "tick_fold sha view r (is, False) [0..<k]"
  have u: "[0..<length is] = [0..<k] @ k # [Suc k..<length is]"
    using k(1) by (metis le0 less_imp_le_nat upt_add_eq_append upt_conv_Cons le_add_diff_inverse)
  have a: "fst ?a ! k = is ! k" using k(1) by (simp add: tick_fold_other)
  have e: "tick_eligible (fst ?a) (is ! k)" using k(2) by (rule tick_fold_eligible)
  obtain g i' where g: "grant_intent sha (view k) r (ht_txHash h) (ht_logIndex h) (is ! k) = (g, i')" by fastforce
  have t: "tick_one sha (view k) r k (fst ?a) = ((fst ?a)[k := i'], g)"
    using e s g a by (simp add: tick_one_def)
  have "tick_pass sha view r is = tick_fold sha view r ((fst ?a)[k := i'], snd ?a \<or> g) [Suc k..<length is]"
    unfolding tick_pass_fold u tick_fold_append using t by (metis prod.collapse tick_fold_simps(2) fst_conv snd_conv)
  then show ?thesis using k(1) g by (simp add: tick_fold_other)
qed

lemma tick_pass_length [simp]: "length (fst (tick_pass sha view r is)) = length is"
  by (simp add: tick_pass_fold)

lemma scanPayment_key:
  assumes "pay_key i = pay_key j"
  shows "scanPayment cn r i = scanPayment cn r j"
proof -
  have k: "si_rail i = si_rail j" "si_payAmount i = si_payAmount j" using assms by (simp_all add: pay_key_def)
  have e: "scanEvmTransfer cn r rail i = scanEvmTransfer cn r rail j"
    "scanTronTrc20 cn r rail i = scanTronTrc20 cn r rail j" for rail
    by (simp_all only: scanEvmTransfer_def scanTronTrc20_def k)
  show ?thesis unfolding scanPayment_def k e ..
qed

lemma tick_loads:
  assumes "relay_loadState r = Inr st"
  shows "\<exists>st'. relay_loadState (snd (tick sha view r)) = Inr st'"
proof -
  have s: "relay_loadState (r\<lparr>rl_file := Some (Parsed s)\<rparr>) = Inr s" for s by (simp add: relay_loadState_def)
  obtain "is" d where "tick_pass sha view r (intents st) = (is, d)" by fastforce
  then show ?thesis using assms by (simp add: tick_def relay_saveState_def s)
qed

lemma tick_keeps_closed:
  assumes "relay_loadState r = Inr st" "m < length (intents st)" "si_status (intents st ! m) \<noteq> js ''pending''"
    and "relay_loadState (snd (tick sha view r)) = Inr st'"
  shows "m < length (intents st') \<and> intents st' ! m = intents st ! m"
proof -
  obtain "is" d where p: "tick_pass sha view r (intents st) = (is, d)" by fastforce
  have "fst (tick_pass sha view r (intents st)) ! m = intents st ! m"
    unfolding tick_pass_fold using assms by (simp add: tick_fold_closed)
  moreover have "length (fst (tick_pass sha view r (intents st))) = length (intents st)" by simp
  ultimately have i: "is ! m = intents st ! m" "length is = length (intents st)" by (simp_all add: p)
  show ?thesis
    using assms i p
    by (auto simp: tick_def relay_saveState_def relay_loadState_def split: if_splits)
qed


subsection \<open>What a request changes\<close>

lemma unique_loop_frame: "\<exists>k. snd (unique_loop n st rail usd price r) = r\<lparr>rl_rpos := k\<rparr>"
proof (induction n arbitrary: r)
  case 0
  show ?case by (auto intro: exI [of _ "rl_rpos r"])
next
  case (Suc n)
  let ?r = "r\<lparr>rl_rpos := Suc (rl_rpos r)\<rparr>"
  obtain k where "snd (unique_loop n st rail usd price ?r) = ?r\<lparr>rl_rpos := k\<rparr>" using Suc.IH [of ?r] by blast
  then show ?case by (auto simp: relay_draw_def split: sum.split)
qed

lemma find_railE:
  assumes "find_rail r v = Inr rail"
  obtains k where "v = Some (JStr k)" "relay_railById r k = Inr rail"
  using assms by (cases v; cases "the v") (auto simp: find_rail_def)

lemma createIntent_cases:
  obtains (refused) e k where "createIntent req r = (Inl e, r\<lparr>rl_rpos := k\<rparr>)"
  | (created) st i k rail where "relay_loadState r = Inr st" "relay_railById r (si_rail i) = Inr rail"
      "si_status i = js ''pending''" "si_grantTx i = None"
      "createIntent req r = (Inr i, r\<lparr>rl_rpos := k, rl_file := Some (Parsed (st\<lparr>intents := intents st @ [i]\<rparr>))\<rparr>)"
proof -
  show thesis
  proof (cases "isAddr0x (cr_beneficiary0x req) \<and> (\<exists>rail. find_rail r (cr_rail req) = Inr rail)
      \<and> (\<exists>st. relay_loadState r = Inr st)")
    case False
    then have "\<exists>e. createIntent req r = (Inl e, r)"
      by (cases "isAddr0x (cr_beneficiary0x req)"; cases "find_rail r (cr_rail req)"; cases "relay_loadState r")
        (simp_all add: createIntent_def)
    then obtain e where "createIntent req r = (Inl e, r)" by blast
    then show thesis using refused [of e "rl_rpos r"] by simp
  next
    case True
    then obtain rail st where t: "isAddr0x (cr_beneficiary0x req)" "find_rail r (cr_rail req) = Inr rail"
      "relay_loadState r = Inr st" by blast
    obtain rid where rid: "cr_rail req = Some (JStr rid)" "relay_railById r rid = Inr rail"
      using t(2) by (rule find_railE)
    let ?q = "buildQuote (rl_cfg r) st"
    obtain a r1 where u: "unique_loop 64 st rail (cr_usdAmount req) (q_price ?q) r = (a, r1)" by fastforce
    obtain k where r1: "r1 = r\<lparr>rl_rpos := k\<rparr>" using unique_loop_frame [of 64 st rail] u by (metis snd_conv)
    show thesis
    proof (cases "\<exists>q c. a = Inr q \<and> iso_string (rl_now r) = Inr c \<and> \<not> rl_readonly r")
      case False
      note eval = createIntent_def allocateUniqueQuote_def Let_def relay_draw_def relay_saveState_def t u r1
      show thesis
      proof (cases a)
        case (Inl e)
        then have "createIntent req r = (Inl e, r\<lparr>rl_rpos := k\<rparr>)" by (simp add: eval)
        then show thesis by (rule refused)
      next
        case (Inr q)
        show thesis
        proof (cases "iso_string (rl_now r)")
          case (Inl e)
          with Inr have "createIntent req r = (Inl e, r\<lparr>rl_rpos := Suc k\<rparr>)" by (simp add: eval)
          then show thesis by (rule refused)
        next
          case iso: (Inr c)
          with Inr False have "rl_readonly r" by blast
          with Inr iso have "createIntent req r = (Inl (js ''EROFS''), r\<lparr>rl_rpos := Suc k\<rparr>)" by (simp add: eval)
          then show thesis by (rule refused)
        qed
      qed
    next
      case True
      then obtain q c where q: "a = Inr q" "iso_string (rl_now r) = Inr c" "\<not> rl_readonly r" by blast
      let ?i = "relay_intent req rail ?q q (rl_rand r k mod 2 ^ 64) c"
      have "createIntent req r = (Inr ?i, r\<lparr>rl_rpos := Suc k,
          rl_file := Some (Parsed (st\<lparr>intents := intents st @ [?i]\<rparr>))\<rparr>)"
        using t u r1 q by (simp add: createIntent_def allocateUniqueQuote_def Let_def relay_draw_def relay_saveState_def)
      then show thesis
        using rid by (intro created [OF t(3), of ?i rail "Suc k"]) (simp_all add: relay_intent_def json_text_def)
    qed
  qed
qed

lemma post_intent_cases:
  obtains (refused) out k where "post_intent rq r = (out, r\<lparr>rl_rpos := k\<rparr>)"
  | (created) st i v k where "relay_loadState r = Inr st" "si_status i = js ''pending''" "si_grantTx i = None"
      "post_intent rq r = (Inr (201, RIntent v), r\<lparr>rl_rpos := k,
         rl_file := Some (Parsed (st\<lparr>intents := intents st @ [i]\<rparr>))\<rparr>)"
proof (cases "\<exists>e. post_intent rq r = (Inl e, r)")
  case True
  then show thesis using refused [of _ "rl_rpos r"] by auto
next
  case False
  then obtain req where p: "post_intent rq r = (case createIntent req r of (Inl e, r1) \<Rightarrow> (Inl e, r1)
       | (Inr i, r1) \<Rightarrow> (bind_res (relay_publicIntent r1 i) (\<lambda>v. Inr (201, RIntent v)), r1))"
    unfolding post_intent_def by (auto split: sum.splits)
  show thesis
  proof (cases rule: createIntent_cases [of req r])
    case (refused e k)
    then show thesis using p that(1) by simp
  next
    case (created st i k rail)
    then obtain v where "relay_publicIntent (r\<lparr>rl_rpos := k,
        rl_file := Some (Parsed (st\<lparr>intents := intents st @ [i]\<rparr>))\<rparr>) i = Inr v"
      by (simp add: relay_publicIntent_def relay_railById_def)
    then show thesis using p created that(2) by simp
  qed
qed

definition settled_by_hand :: "stored_intent \<Rightarrow> stored_intent \<Rightarrow> bool" where
  "settled_by_hand i j \<longleftrightarrow> si_status i \<noteq> js ''granted'' \<and> si_status j = js ''granted''
     \<and> si_id j = si_id i \<and> si_beneficiary0x j = si_beneficiary0x i \<and> si_e7Amount j = si_e7Amount i
     \<and> si_payAmount j = si_payAmount i \<and> si_rail j = si_rail i"

definition hand_write :: "relay \<Rightarrow> relay \<Rightarrow> bool" where
  "hand_write r r' \<longleftrightarrow> (\<exists>st k i'. relay_loadState r = Inr st \<and> k < length (intents st)
    \<and> settled_by_hand (intents st ! k) i'
    \<and> r' = r\<lparr>rl_file := Some (Parsed (st\<lparr>intents := (intents st)[k := i']\<rparr>))\<rparr>)"

lemma hand_writeI:
  "relay_loadState r = Inr st \<Longrightarrow> k < length (intents st) \<Longrightarrow> settled_by_hand (intents st ! k) i'
     \<Longrightarrow> hand_write r (r\<lparr>rl_file := Some (Parsed (st\<lparr>intents := (intents st)[k := i']\<rparr>))\<rparr>)"
  unfolding hand_write_def by blast

lemma post_confirm_file:
  assumes "post_confirm sha cn rq r = (out, r')"
  shows "r' = r \<or> (relay_env r ''SALE_OPS_TOKEN'' = Some (ops_header rq) \<and> hand_write r r')"
proof -
  have k: "index_of_intent v is = Some k \<Longrightarrow> k < length is" for v k "is"
    by (auto simp: index_of_intent_def find_Some_iff)
  have h: "settled_by_hand i (mark_granted g (mark_paid sha tx li i))" if "si_status i \<noteq> js ''granted''" for i g tx li
    using that by (simp add: settled_by_hand_def mark_granted_def mark_paid_def)
  show ?thesis
    using assms unfolding post_confirm_def Let_def relay_saveState_def
    by (auto split: option.splits if_splits sum.splits json.splits dest!: k intro!: h hand_writeI)
qed


lemma relay_handle_file:
  assumes "relay_handle sha cn rq r = (resp, r')" "rl_file r' \<noteq> rl_file r"
  shows "rq_method rq = js ''POST'' \<and> (rq_path rq = js ''/intent'' \<and> caught (post_intent rq r) = (resp, r')
    \<or> rq_path rq = js ''/confirm'' \<and> caught (post_confirm sha cn rq r) = (resp, r'))"
proof -
  have c: "snd (caught (x, r)) = r" for x by (simp add: caught_def split: sum.split)
  have ne: "caught (x, r) \<noteq> (resp, r')" for x
    using c [of x] assms(2) by auto
  show ?thesis
    using assms ne unfolding relay_handle_def by (auto split: if_splits)
qed


subsection \<open>Properties\<close>

text \<open>
  C4. On the same machine and configuration, the relayer's create is the web server's: with the
  same draws it appends the same intent (without the channel's name) to the same file, and where
  one throws so does the other, leaving the file as it was. The two quotes, tier walks, amount
  formulas and collision checks of the repository are one function.
\<close>

theorem relayer_creates_as_web:
  assumes "same_world ch sv r"
  shows "case createLocalIntent inp ch sv of
      (Inr view, sv') \<Rightarrow> (\<exists>st i r'. loadState ch sv' = Inr (st\<lparr>intents := intents st @ [i]\<rparr>)
        \<and> toPublic i = Inr view \<and> createIntent (json_request inp) r = (Inr (i\<lparr>si_channel := None\<rparr>), r')
        \<and> relay_loadState r' = Inr (st\<lparr>intents := intents st @ [i\<lparr>si_channel := None\<rparr>]\<rparr>))
    | (Inl e, sv') \<Rightarrow> (\<exists>e' r'. createIntent (json_request inp) r = (Inl e', r') \<and> rl_file r' = rl_file r)"
  using create_like_web [OF assms, of inp] unfolding web_outcome_def
  by (auto split: prod.splits sum.splits)

definition relay0 :: relay where
  "relay0 = \<lparr>rl_env = (\<lambda>_. None), rl_cfg = \<lparr>rc_auto = EMBEDDED_CFG, rc_btcUsdHint = None,
       rc_minConfirmations = Some (\<lambda>_. None), rc_uniqueAmountMicros = Some True\<rparr>,
     rl_rails = SALE_RAILS, rl_file = None, rl_rand = sv_rand sv0, rl_rpos = 0, rl_now = sv_now sv0,
     rl_readonly = False\<rparr>"

lemma same_world0: "same_world Private sv0 relay0"
proof -
  have n: "num_of_str (js ''95000'') = Num 95000" by (simp add: num_of_str_def js_eval num_eval)
  have c: "server_cfg Private sv0 = EMBEDDED_CFG" by (rule cfg0)
  show ?thesis
    by (simp add: same_world_def c relay0_def relay_btcUsd_def BTC_USD_def env_or_def n)
      (simp add: sv0_def)
qed

theorem relayer_creates_as_web_witness:
  "\<exists>i r'. createIntent (json_request inp0) relay0 = (Inr i, r')
     \<and> relay_loadState r' = Inr \<lparr>intents = [i]\<rparr>"
proof -
  obtain view sv' where c: "createLocalIntent inp0 Private sv0 = (Inr view, sv')" using create0 by blast
  obtain st i r' where s: "loadState Private sv' = Inr (st\<lparr>intents := intents st @ [i]\<rparr>)"
    and r: "createIntent (json_request inp0) relay0 = (Inr (i\<lparr>si_channel := None\<rparr>), r')"
      "relay_loadState r' = Inr (st\<lparr>intents := intents st @ [i\<lparr>si_channel := None\<rparr>]\<rparr>)"
    using relayer_creates_as_web [OF same_world0, of inp0] c by auto
  obtain i2 where "loadState Private sv' = Inr \<lparr>intents = [i2]\<rparr>"
    using createLocalIntent_appends [OF c] state0 by (metis append_Nil sale_state.select_convs(1) sale_state.update_convs(1) Inr_inject)
  then have "intents st = []" using s by (cases st) simp
  then show ?thesis using r by (cases st) auto
qed

text \<open>
  C5. The watcher's pass, written out with its scans and grants, refines the sale book: whatever
  the chains answer, what it does to the file is a run of the book's steps, so the book's
  invariants hold of the running relayer.
\<close>

theorem tick_refines_sale_book:
  assumes "rl_file r = sv_states (w_sv w) (statePath ch (w_sv w))" "rl_readonly r = sv_readonly (w_sv w)"
    and "w_copy w = None" "tick sha view r = (res, r')"
  shows "\<exists>w'. sale_reach sha ch w w' \<and> w_told w' = w_told w
    \<and> rl_file r' = sv_states (w_sv w') (statePath ch (w_sv w'))"
  by (rule tick_steps [OF assms])


definition request0 :: relay_request where
  "request0 = \<lparr>rq_method = js ''POST'', rq_path = js ''/intent'',
     rq_body = JsonBody (JObj [(js ''beneficiary0x'', JStr (ci_beneficiary0x inp0)),
       (js ''rail'', JStr (ci_rail inp0)), (js ''usdAmount'', JNum (ci_usdAmount inp0))]),
     rq_opsToken = None, rq_authorization = None\<rparr>"


text \<open>A watcher configured to grant, two TRON buyers, and a vault that refuses the first grant.\<close>

definition tron_intent :: "jstr \<Rightarrow> jstr \<Rightarrow> stored_intent" where
  "tron_intent iid pay = int1\<lparr>si_id := iid, si_rail := js ''tron-usdt'', si_chain := js ''tron'', si_payAmount := pay\<rparr>"

definition relay1 :: relay where
  "relay1 = relay0\<lparr>rl_env := (\<lambda>k. if k \<in> {''EAV7_RPC'', ''VAULT_ADDRESS'', ''RELAYER_PRIVATE_KEY''}
       then Some (js ''x'') else None),
     rl_file := Some (Parsed \<lparr>intents = [tron_intent (js ''a'') (js ''7''), tron_intent (js ''b'') (js ''8'')]\<rparr>)\<rparr>"

definition view1 :: "nat \<Rightarrow> chains" where
  "view1 k = \<lparr>cn_blockNumber = (\<lambda>_. Inl []), cn_getLogs = (\<lambda>_ _ _ _ _. Inl []),
     cn_trc20 = (\<lambda>_. Inr (200, Some [
       \<lparr>tt_value = Some (JStr (js ''7'')), tt_confirmed = None, tt_transaction_id = js ''t7''\<rparr>,
       \<lparr>tt_value = Some (JStr (js ''8'')), tt_confirmed = Some (JBool True), tt_transaction_id = js ''t8''\<rparr>])),
     cn_grant = (\<lambda>_ _ _ _ _. if k = 0 then Inl (js ''replay'') else Inr (js ''0x1''))\<rparr>"

lemma tron_scan:
  "\<exists>h. scanPayment (view1 k) relay1 (tron_intent iid (js ''7'')) = Inr (Some h)"
  "\<exists>h. scanPayment (view1 k) relay1 (tron_intent iid (js ''8'')) = Inr (Some h)"
  by (simp_all add: scanPayment_def relay_railById_def relay1_def relay0_def tron_intent_def SALE_RAILS_def
      scanTronTrc20_def view1_def json_text_def js_eval)

lemma tron_grant: "submitGrant (view1 k) relay1 i = (if k = 0 then Inl (js ''replay'') else Inr (js ''0x1''))"
  by (simp add: submitGrant_def relay_env_def relay1_def VAULT_ENV_def SALE_MODE_def env_or_def view1_def js_eval)

lemma tron_eligible:
  "tick_eligible [tron_intent (js ''a'') (js ''7''), tron_intent (js ''b'') (js ''8'')] (tron_intent (js ''a'') (js ''7''))"
  "si_status i \<noteq> js ''pending'' \<Longrightarrow>
     tick_eligible [i, tron_intent (js ''b'') (js ''8'')] (tron_intent (js ''b'') (js ''8''))"
  by (simp_all add: tick_eligible_def tron_intent_def int1_def js_eval)


lemma tron_pass:
  "\<exists>i j. tick_pass sha view1 relay1 [tron_intent (js ''a'') (js ''7''), tron_intent (js ''b'') (js ''8'')]
     = ([i, j], True) \<and> si_status i = js ''paid'' \<and> si_grantTx i = None"
proof -
  let ?a = "tron_intent (js ''a'') (js ''7'')" and ?b = "tron_intent (js ''b'') (js ''8'')"
  obtain h1 h2 where h: "scanPayment (view1 0) relay1 ?a = Inr (Some h1)" "scanPayment (view1 (Suc 0)) relay1 ?b = Inr (Some h2)"
    using tron_scan by blast
  let ?i = "mark_paid sha (ht_txHash h1) (ht_logIndex h1) ?a"
  have 1: "tick_one sha (view1 0) relay1 0 [?a, ?b] = ([?i, ?b], False)"
    by (simp add: tick_one_def tron_eligible h grant_intent_def markPaidAndGrant_def tron_grant)
  have s: "si_status ?i = js ''paid''" "si_grantTx ?i = None"
    by (simp_all add: mark_paid_def tron_intent_def int1_def new_intent_def)
  have e: "tick_eligible [?i, ?b] ?b" by (rule tron_eligible(2)) (simp only: s, simp add: js_eval)
  obtain j where "tick_one sha (view1 (Suc 0)) relay1 (Suc 0) [?i, ?b] = ([?i, j], True)"
    using that by (simp add: tick_one_def e h grant_intent_def markPaidAndGrant_def tron_grant)
  then show ?thesis using 1 s by (simp add: tick_pass_def)
qed

text \<open>
  A grant that fails is retried only as long as nothing else is granted in the same pass. When
  another intent is, the file is saved with the failed one \<open>paid\<close> and not granted, and no later
  pass, whatever the chains answer, touches it again.
\<close>

theorem failed_grant_abandoned:
  assumes "relay_loadState r = Inr st" "k < length (intents st)" "tick_eligible (intents st) (intents st ! k)"
    and "scanPayment (view k) r (intents st ! k) = Inr (Some h)"
    and "submitGrant (view k) r (mark_paid sha (ht_txHash h) (ht_logIndex h) (intents st ! k)) = Inl err"
    and "snd (tick_pass sha view r (intents st))" "\<not> rl_readonly r"
  shows "\<exists>st'. relay_loadState (foldl (\<lambda>r v. snd (tick sha v r)) (snd (tick sha view r)) views) = Inr st'
    \<and> k < length (intents st') \<and> si_status (intents st' ! k) = js ''paid''
    \<and> si_grantTx (intents st' ! k) = si_grantTx (intents st ! k)"
proof -
  let ?i = "mark_paid sha (ht_txHash h) (ht_logIndex h) (intents st ! k)"
  let ?is = "fst (tick_pass sha view r (intents st))"
  have at: "?is ! k = ?i"
    using tick_pass_at [of k "intents st" view r h] assms(2,3,4,5) by (simp add: grant_intent_def markPaidAndGrant_def)
  have l: "relay_loadState (snd (tick sha view r)) = Inr (st\<lparr>intents := ?is\<rparr>)"
    using assms(1,6,7) by (cases "tick_pass sha view r (intents st)")
      (simp add: tick_def relay_saveState_def relay_loadState_def)
  have later: "\<exists>st'. relay_loadState (foldl (\<lambda>r v. snd (tick sha v r)) r1 views) = Inr st'
      \<and> k < length (intents st') \<and> intents st' ! k = ?i"
    if "relay_loadState r1 = Inr st1" "k < length (intents st1)" "intents st1 ! k = ?i" for r1 st1
    using that
  proof (induction views arbitrary: r1 st1)
    case (Cons v views)
    have np: "si_status (intents st1 ! k) \<noteq> js ''pending''"
      using Cons.prems(3) by (simp add: mark_paid_def js_eval)
    obtain st2 where s2: "relay_loadState (snd (tick sha v r1)) = Inr st2"
      using tick_loads [OF Cons.prems(1)] by blast
    then show ?case
      using tick_keeps_closed [OF Cons.prems(1,2) np s2] Cons.prems(3) Cons.IH [OF s2] by simp
  qed auto
  obtain st' where "relay_loadState (foldl (\<lambda>r v. snd (tick sha v r)) (snd (tick sha view r)) views) = Inr st'"
    "k < length (intents st')" "intents st' ! k = ?i"
    using later [OF l] at assms(2) by auto
  then show ?thesis by (simp add: mark_paid_def)
qed

theorem failed_grant_abandoned_witness:
  "\<exists>st'. relay_loadState (foldl (\<lambda>r v. snd (tick (\<lambda>h. h) v r)) (snd (tick (\<lambda>h. h) view1 relay1)) [view1, view1]) = Inr st'
    \<and> 0 < length (intents st') \<and> si_status (intents st' ! 0) = js ''paid'' \<and> si_grantTx (intents st' ! 0) = None"
proof -
  let ?a = "tron_intent (js ''a'') (js ''7'')" and ?b = "tron_intent (js ''b'') (js ''8'')"
  have l: "relay_loadState relay1 = Inr \<lparr>intents = [?a, ?b]\<rparr>"
    by (simp add: relay_loadState_def relay1_def)
  obtain h where h: "scanPayment (view1 0) relay1 ?a = Inr (Some h)" using tron_scan by blast
  have d: "snd (tick_pass (\<lambda>h. h) view1 relay1 [?a, ?b])" using tron_pass [of "\<lambda>h. h"] by auto
  have g: "si_grantTx ?a = None" by (simp add: tron_intent_def int1_def)
  have w: "\<not> rl_readonly relay1" by (simp add: relay1_def relay0_def)
  show ?thesis
    using failed_grant_abandoned [OF l, of 0 view1 h "\<lambda>h. h" "js ''replay''" "[view1, view1]"] h d w
    by (simp add: tron_eligible tron_grant g)
qed

text \<open>
  A granted intent no longer reserves its amount, and the scan looks for an amount only. So as
  long as the chain still lists its transfer, a new intent asked the same amount on the same rail
  is matched with that transfer, under the payment id the vault has already used: the grant
  the vault refuses as a replay leaves the new intent ungranted, whatever its own buyer has paid.
\<close>

theorem old_transfer_claims_new_intent:
  assumes "intents st ! j = old" "si_status old = js ''granted''" "si_paymentId old = Some pid"
    and "scanPayment cn r old = Inr (Some h)" "pid = paymentId sha (si_chain old) (ht_txHash h) (ht_logIndex h)"
    and "k < length (intents st)" "tick_eligible (intents st) (intents st ! k)"
    and "pay_key (intents st ! k) = pay_key old" "si_chain (intents st ! k) = si_chain old"
    and "\<forall>i. si_paymentId i = Some pid \<longrightarrow> (\<exists>e. submitGrant cn r i = Inl e)"
  shows "payAmountTaken \<lparr>intents = [old]\<rparr> (si_rail old) (si_payAmount old) None = False
    \<and> (\<exists>i'. tick_one sha cn r k (intents st) = ((intents st)[k := i'], False)
          \<and> si_paymentId i' = Some pid \<and> si_status i' = js ''paid'')"
proof -
  let ?n = "intents st ! k"
  let ?i = "mark_paid sha (ht_txHash h) (ht_logIndex h) ?n"
  have pid: "si_paymentId ?i = Some pid" using assms(5,9) by (simp add: mark_paid_def)
  have k: "si_rail ?n = si_rail old" "si_payAmount ?n = si_payAmount old"
    using assms(8) by (simp_all add: pay_key_def)
  have "scanPayment cn r ?n = scanPayment cn r old" by (rule scanPayment_key [OF assms(8)])
  moreover obtain e where "submitGrant cn r ?i = Inl e" using assms(10) pid by blast
  ultimately have "tick_one sha cn r k (intents st) = ((intents st)[k := ?i], False)"
    using assms(4,7) by (simp add: tick_one_def grant_intent_def markPaidAndGrant_def)
  then show ?thesis using pid assms(2) by (auto simp: payAmountTaken_def mark_paid_def)
qed


theorem old_transfer_claims_new_intent_witness:
  "\<exists>h i'. scanPayment (view1 0) relay1 (tron_intent (js ''a'') (js ''7'')) = Inr (Some h)
     \<and> tick_one (\<lambda>h. h) (view1 0) relay1 1
        [mark_granted (js ''0x1'') (mark_paid (\<lambda>h. h) (ht_txHash h) (ht_logIndex h) (tron_intent (js ''a'') (js ''7''))),
         tron_intent (js ''b'') (js ''7'')]
      = ([mark_granted (js ''0x1'') (mark_paid (\<lambda>h. h) (ht_txHash h) (ht_logIndex h) (tron_intent (js ''a'') (js ''7''))), i'], False)
     \<and> si_status i' = js ''paid''"
proof -
  obtain h where h: "scanPayment (view1 0) relay1 (tron_intent (js ''a'') (js ''7'')) = Inr (Some h)"
    using tron_scan by blast
  let ?o = "mark_granted (js ''0x1'') (mark_paid (\<lambda>h. h) (ht_txHash h) (ht_logIndex h) (tron_intent (js ''a'') (js ''7'')))"
    and ?n = "tron_intent (js ''b'') (js ''7'')"
  have r: "si_rail ?o = js ''tron-usdt''" "si_payAmount ?o = js ''7''" "si_status ?o = js ''granted''"
    "si_chain ?o = js ''tron''" "si_paymentId ?o = Some (paymentId (\<lambda>h. h) (js ''tron'') (ht_txHash h) (ht_logIndex h))"
    by (simp_all add: mark_granted_def mark_paid_def tron_intent_def)
  have "scanPayment (view1 0) relay1 ?o = scanPayment (view1 0) relay1 (tron_intent (js ''a'') (js ''7''))"
    by (rule scanPayment_key) (simp add: pay_key_def mark_granted_def mark_paid_def)
  then have s: "scanPayment (view1 0) relay1 ?o = Inr (Some h)" by (simp add: h)
  have e: "tick_eligible [?o, ?n] ?n"
    by (simp only: tick_eligible_def list.size filter.simps r, simp add: tron_intent_def int1_def js_eval)
  have "\<exists>i'. tick_one (\<lambda>h. h) (view1 0) relay1 1 (intents \<lparr>intents = [?o, ?n]\<rparr>)
       = ((intents \<lparr>intents = [?o, ?n]\<rparr>)[1 := i'], False) \<and> si_paymentId i' = si_paymentId ?o \<and> si_status i' = js ''paid''"
    using old_transfer_claims_new_intent [of "\<lparr>intents = [?o, ?n]\<rparr>" 0 ?o _ "view1 0" relay1 h "\<lambda>h. h" 1]
      s e r by (simp add: tron_grant pay_key_def tron_intent_def)
  then show ?thesis using h by (intro exI [of _ h]) auto
qed

theorem tick_refines_sale_book_witness:
  "\<exists>w w' i j. w_sv w = sv0\<lparr>sv_states := (\<lambda>_. rl_file relay1)\<rparr> \<and> sale_reach (\<lambda>h. h) Private w w'
     \<and> sv_states (w_sv w') (statePath Private (w_sv w')) = Some (Parsed \<lparr>intents = [i, j]\<rparr>)
     \<and> si_status i = js ''paid''"
proof -
  let ?w = "\<lparr>w_sv = sv0\<lparr>sv_states := (\<lambda>_. rl_file relay1)\<rparr>, w_copy = None, w_dirty = False, w_told = []\<rparr>"
  obtain res r' where t: "tick (\<lambda>h. h) view1 relay1 = (res, r')" by fastforce
  have l: "relay_loadState relay1 = Inr \<lparr>intents = [tron_intent (js ''a'') (js ''7''), tron_intent (js ''b'') (js ''8'')]\<rparr>"
    by (simp add: relay_loadState_def relay1_def)
  have w: "rl_readonly relay1 = sv_readonly (w_sv ?w)" "\<not> rl_readonly relay1"
    by (simp_all add: relay1_def relay0_def sv0_def)
  obtain i j where p: "tick_pass (\<lambda>h. h) view1 relay1 [tron_intent (js ''a'') (js ''7''), tron_intent (js ''b'') (js ''8'')]
      = ([i, j], True)" "si_status i = js ''paid''" using tron_pass by metis
  then have f: "rl_file r' = Some (Parsed \<lparr>intents = [i, j]\<rparr>)"
    using t l w(2) by (auto simp: tick_def relay_saveState_def)
  have "\<exists>w'. sale_reach (\<lambda>h. h) Private ?w w' \<and> w_told w' = w_told ?w
      \<and> rl_file r' = sv_states (w_sv w') (statePath Private (w_sv w'))"
    by (rule tick_refines_sale_book [OF _ w(1) _ t]) simp_all
  then obtain w' where "sale_reach (\<lambda>h. h) Private ?w w'"
    "sv_states (w_sv w') (statePath Private (w_sv w')) = Some (Parsed \<lparr>intents = [i, j]\<rparr>)"
    using f by auto
  then show ?thesis using p(2) by (intro exI [of _ ?w] exI [of _ w'] exI [of _ i] exI [of _ j]) simp
qed

end
