(* ===== verification/Faucet.thy ===== *)
theory Faucet
  imports SalePricing Json "HOL-Library.AList"
begin

section \<open>The testnet faucet (\<open>services/faucet/index.mjs\<close>)\<close>

text \<open>
  One process gives test coins, at most once per address and interval. \<open>faucet\<close> is its state: the
  map \<open>ultimo\<close> from addresses to the moment of their last request (in insertion order), the
  queue \<open>fila\<close> of sends, whose first one is running, and the counter \<open>emEspera\<close>. The command-line
  wallet that sends is an argument: \<open>cli_end\<close> is how its process ended. Bodies are what JSON parsing
  gave; the parser itself, used on the wallet's output, is the argument \<open>parse\<close>.
\<close>

subsection \<open>Configuration\<close>

record faucet_cfg =
  fa_node :: jstr
  fa_wallet :: jstr
  fa_amount :: jstr
  fa_interval :: jsnum
  fa_cors :: "jstr list"

definition faucet_config :: "(string \<Rightarrow> jstr option) \<Rightarrow> faucet_cfg option" where
  "faucet_config env = (if env ''FAUCET_ENABLE'' \<noteq> Some (js ''1'') then None else Some
     \<lparr>fa_node = env_or env ''EAV7_NODE'' (js ''http://127.0.0.1:6170''),
      fa_wallet = env_or env ''FAUCET_WALLET'' (js ''/var/lib/eav7-testnet/validator-wallet.json''),
      fa_amount = env_or env ''FAUCET_AMOUNT'' (js ''100''),
      fa_interval = (case env ''FAUCET_INTERVAL_MS'' of None \<Rightarrow> Num 3600000
        | Some v \<Rightarrow> if v = [] then Num 3600000 else num_of_str v),
      fa_cors = filter (\<lambda>s. s \<noteq> []) (map trim
        (split_on 44 (env_or env ''FAUCET_CORS'' (js ''https://testnet.eavscan.com''))))\<rparr>)"

definition corsHeaders :: "faucet_cfg \<Rightarrow> jstr \<Rightarrow> (jstr \<times> jstr) list" where
  "corsHeaders cfg origin = (let allow = (if origin \<noteq> [] \<and> origin \<in> set (fa_cors cfg) then origin
       else (case fa_cors cfg of [] \<Rightarrow> js ''*'' | c # _ \<Rightarrow> c)) in
     [(js ''access-control-allow-origin'', allow),
      (js ''access-control-allow-methods'', js ''GET, POST, OPTIONS''),
      (js ''access-control-allow-headers'', js ''content-type''),
      (js ''access-control-max-age'', js ''86400'')])"


subsection \<open>The reservations\<close>

record faucet_job =
  jb_address :: jstr
  jb_at :: int

record faucet =
  fc_ultimo :: "(jstr \<times> int) list"
  fc_fila :: "faucet_job list"
  fc_emEspera :: int
  fc_now :: int

text \<open>
  \<open>toUpperCase\<close> as the test after it sees it: besides the ASCII letters, the ligature U+FB00 is the
  one character whose upper case consists of letters of the test.
\<close>

definition upper_text :: "jstr \<Rightarrow> jstr" where
  "upper_text s = concat (map (\<lambda>c. if c = 64256 then js ''FF'' else [upper_char c]) s)"

definition normalizaEndereco :: "json option \<Rightarrow> jstr option" where
  "normalizaEndereco raw = (let a = upper_text (trim (str_or_empty raw)) in if \<not> re_e7 32 a then None else Some a)"

definition esperaRestante :: "faucet_cfg \<Rightarrow> jstr \<Rightarrow> faucet \<Rightarrow> jsnum" where
  "esperaRestante cfg addr f = (case map_of (fc_ultimo f) addr of None \<Rightarrow> Num 0
     | Some prev \<Rightarrow> num_max (Num 0) (num_sub (fa_interval cfg) (Num (of_int (fc_now f - prev)))))"

definition podar :: "faucet_cfg \<Rightarrow> faucet \<Rightarrow> faucet" where
  "podar cfg f = f\<lparr>fc_ultimo :=
     filter (\<lambda>(k, when). \<not> num_le (fa_interval cfg) (Num (of_int (fc_now f - when)))) (fc_ultimo f)\<rparr>"


subsection \<open>The wallet process\<close>

datatype cli_end = CliTimeout | CliError jstr | CliClose "int option" jstr jstr

definition cli_args :: "faucet_cfg \<Rightarrow> jstr \<Rightarrow> jstr list" where
  "cli_args cfg address = [js ''send'', js ''--node'', fa_node cfg, js ''--wallet'', fa_wallet cfg,
     js ''--to'', address, js ''--amount'', fa_amount cfg]"

definition runCli :: "cli_end \<Rightarrow> jstr res" where
  "runCli e = (case e of CliTimeout \<Rightarrow> Inl (js ''timeout no eav7-cli'')
     | CliError msg \<Rightarrow> Inl msg
     | CliClose code out err \<Rightarrow> if code \<noteq> Some 0
         then Inl (take 400 (trim (if err \<noteq> [] then err else if out \<noteq> [] then out
           else js ''exit '' @ (case code of None \<Rightarrow> js ''null'' | Some n \<Rightarrow> big_str n))))
         else Inr out)"

text \<open>The regular expression \<open>/"id"\s*:\s*"([^"]+)"/\<close>: the first place of the text where it matches.\<close>

definition id_here :: "jstr \<Rightarrow> jstr option" where
  "id_here s = (if take 4 s \<noteq> [34, 105, 100, 34] then None
     else case trim_start (drop 4 s) of [] \<Rightarrow> None | c # r \<Rightarrow>
       if c \<noteq> 58 then None
       else case trim_start r of [] \<Rightarrow> None | q # t \<Rightarrow>
         let v = takeWhile (\<lambda>x. x \<noteq> 34) t in
         if q \<noteq> 34 \<or> v = [] \<or> length v = length t then None else Some v)"

fun id_match :: "jstr \<Rightarrow> jstr option" where
  "id_match [] = None"
| "id_match (c # cs) = (case id_here (c # cs) of Some v \<Rightarrow> Some v | None \<Rightarrow> id_match cs)"

definition parseTxId :: "(jstr \<Rightarrow> json option) \<Rightarrow> jstr \<Rightarrow> json option" where
  "parseTxId parse stdout = (let by_text = map_option JStr (id_match stdout) in
     case parse stdout of None \<Rightarrow> by_text
     | Some j \<Rightarrow> (case bind_res (json_prop j (js ''id'')) (\<lambda>a. bind_res (json_prop j (js ''txId'')) (\<lambda>b.
           bind_res (json_prop j (js ''hash'')) (\<lambda>c. Inr (or_else a (or_else b (or_else c None)))))) of
         Inl e \<Rightarrow> by_text | Inr v \<Rightarrow> v))"

definition enviar :: "(jstr \<Rightarrow> json option) \<Rightarrow> cli_end \<Rightarrow> json option res" where
  "enviar parse e = bind_res (runCli e) (\<lambda>out. Inr (parseTxId parse out))"


subsection \<open>The requests\<close>

datatype faucet_body = FEmpty
  | FStatus jstr jsnum nat int
  | FPaid jstr "json option"
  | FWait jstr jsnum
  | FError jstr

type_synonym faucet_reply = "nat \<times> faucet_body"

definition num_ceil :: "jsnum \<Rightarrow> jsnum" where
  "num_ceil x = num_neg (num_floor (num_neg x))"

definition INVALID_E7 :: jstr where
  "INVALID_E7 = js ''endere'' @ [231] @ js ''o EAV7 inv'' @ [225] @ js ''lido''"

text \<open>\<open>GET /status\<close> and \<open>POST /faucet\<close>; a post that is accepted has no answer until its job ends.\<close>

definition faucet_status :: "faucet_cfg \<Rightarrow> faucet \<Rightarrow> faucet_reply \<times> faucet" where
  "faucet_status cfg f = (let f1 = podar cfg f in
     ((200, FStatus (fa_amount cfg) (fa_interval cfg) (length (fc_ultimo f1)) (fc_emEspera f1)), f1))"

definition faucet_post :: "faucet_cfg \<Rightarrow> json res \<Rightarrow> faucet \<Rightarrow> faucet_reply option \<times> faucet" where
  "faucet_post cfg body f = (case bind_res body (\<lambda>b. json_prop b (js ''address'')) of
       Inl e \<Rightarrow> (Some (500, FError e), f)
     | Inr raw \<Rightarrow> (case normalizaEndereco raw of
         None \<Rightarrow> (Some (400, FError INVALID_E7), f)
       | Some address \<Rightarrow> (let f1 = podar cfg f; falta = esperaRestante cfg address f1 in
           if num_lt (Num 0) falta
           then (Some (429, FWait (js ''aguarde '' @ num_str (num_ceil (num_div falta (Num 60000)))
             @ js '' min antes de pedir de novo'') falta), f1)
           else (None, f1\<lparr>fc_ultimo := AList.update address (fc_now f1) (fc_ultimo f1),
             fc_emEspera := fc_emEspera f1 + 1,
             fc_fila := fc_fila f1 @ [\<lparr>jb_address = address, jb_at = fc_now f1\<rparr>]\<rparr>))))"

text \<open>The first job of the queue ends: the answer to its request, and the state after it.\<close>

definition faucet_settle ::
  "(jstr \<Rightarrow> json option) \<Rightarrow> faucet_cfg \<Rightarrow> cli_end \<Rightarrow> faucet \<Rightarrow> (faucet_job \<times> faucet_reply \<times> faucet) option" where
  "faucet_settle parse cfg e f = (case fc_fila f of [] \<Rightarrow> None | job # rest \<Rightarrow>
     Some (job, (case enviar parse e of
         Inr i \<Rightarrow> ((200, FPaid (num_str (num_mul (num_of_str (fa_amount cfg)) (Num 1000000))) (or_else i None)),
           f\<lparr>fc_fila := rest, fc_emEspera := max 0 (fc_emEspera f - 1)\<rparr>)
       | Inl msg \<Rightarrow> ((500, FError msg),
           f\<lparr>fc_ultimo := AList.delete (jb_address job) (fc_ultimo f), fc_fila := rest,
             fc_emEspera := max 0 (fc_emEspera f - 1)\<rparr>))))"

record faucet_request =
  fq_method :: jstr
  fq_path :: jstr
  fq_body :: "json res"

definition faucet_handle :: "faucet_cfg \<Rightarrow> faucet_request \<Rightarrow> faucet \<Rightarrow> faucet_reply option \<times> faucet" where
  "faucet_handle cfg rq f =
     (if fq_method rq = js ''OPTIONS'' then (Some (204, FEmpty), f)
      else if fq_method rq = js ''GET'' \<and> fq_path rq = js ''/status'' then
        (case faucet_status cfg f of (reply, f1) \<Rightarrow> (Some reply, f1))
      else if fq_method rq = js ''POST'' \<and> fq_path rq = js ''/faucet'' then faucet_post cfg (fq_body rq) f
      else (Some (404, FError (js ''not found'')), f))"


subsection \<open>Runs of the faucet\<close>

text \<open>
  The faucet with what the chain received: \<open>tp_sent\<close> lists the jobs whose transfer it took, \<open>tp_lost\<close>
  says that it took one whose process failed (a time-out after the transfer was posted), \<open>tp_late\<close>
  that a job failed an interval or more after it was asked for. \<open>jb_at\<close>, the moment of the
  request, is read by these alone.
\<close>

record tap =
  tp_f :: faucet
  tp_sent :: "faucet_job list"
  tp_lost :: bool
  tp_late :: bool

definition job_old :: "faucet_cfg \<Rightarrow> faucet \<Rightarrow> faucet_job \<Rightarrow> bool" where
  "job_old cfg f job \<longleftrightarrow> num_le (fa_interval cfg) (Num (of_int (fc_now f - jb_at job)))"

inductive tap_step :: "(jstr \<Rightarrow> json option) \<Rightarrow> faucet_cfg \<Rightarrow> tap \<Rightarrow> tap \<Rightarrow> bool" for parse cfg where
  asked: "faucet_handle cfg rq (tp_f w) = (reply, f) \<Longrightarrow> tap_step parse cfg w (w\<lparr>tp_f := f\<rparr>)"
| ended: "faucet_settle parse cfg e (tp_f w) = Some (job, reply, f) \<Longrightarrow> tap_step parse cfg w
    (w\<lparr>tp_f := f, tp_sent := (if sent then tp_sent w @ [job] else tp_sent w),
       tp_lost := tp_lost w \<or> (sent \<and> fst reply \<noteq> 200),
       tp_late := tp_late w \<or> (fst reply \<noteq> 200 \<and> job_old cfg (tp_f w) job)\<rparr>)"
| passed: "fc_now (tp_f w) \<le> t \<Longrightarrow> tap_step parse cfg w (w\<lparr>tp_f := (tp_f w)\<lparr>fc_now := t\<rparr>\<rparr>)"

inductive tap_reach :: "(jstr \<Rightarrow> json option) \<Rightarrow> faucet_cfg \<Rightarrow> tap \<Rightarrow> tap \<Rightarrow> bool" for parse cfg w0 where
  start: "tap_reach parse cfg w0 w0"
| more: "tap_reach parse cfg w0 w \<Longrightarrow> tap_step parse cfg w w' \<Longrightarrow> tap_reach parse cfg w0 w'"

definition tap_start :: "int \<Rightarrow> tap" where
  "tap_start t = \<lparr>tp_f = \<lparr>fc_ultimo = [], fc_fila = [], fc_emEspera = 0, fc_now = t\<rparr>,
     tp_sent = [], tp_lost = False, tp_late = False\<rparr>"


subsection \<open>The rate limit\<close>

definition spaced :: "int \<Rightarrow> faucet_job list \<Rightarrow> bool" where
  "spaced i jobs \<longleftrightarrow> sorted_wrt (\<lambda>x y. jb_address x = jb_address y \<longrightarrow> i \<le> jb_at y - jb_at x) jobs"

definition held :: "int \<Rightarrow> faucet \<Rightarrow> faucet_job \<Rightarrow> bool" where
  "held i f j \<longleftrightarrow> i \<le> fc_now f - jb_at j \<or> (\<exists>u. map_of (fc_ultimo f) (jb_address j) = Some u \<and> jb_at j \<le> u)"

definition faucet_ok :: "faucet \<Rightarrow> bool" where
  "faucet_ok f \<longleftrightarrow> fc_emEspera f = int (length (fc_fila f)) \<and> distinct (map fst (fc_ultimo f))
     \<and> (\<forall>j \<in> set (fc_fila f). jb_at j \<le> fc_now f) \<and> (\<forall>x \<in> set (fc_ultimo f). snd x \<le> fc_now f)"

definition tap_ok :: "int \<Rightarrow> tap \<Rightarrow> bool" where
  "tap_ok i w \<longleftrightarrow> faucet_ok (tp_f w) \<and> (\<forall>j \<in> set (tp_sent w). jb_at j \<le> fc_now (tp_f w))
     \<and> (tp_lost w \<or> tp_late w \<or> spaced i (tp_sent w @ fc_fila (tp_f w))
          \<and> (\<forall>j \<in> set (tp_sent w @ fc_fila (tp_f w)). held i (tp_f w) j))"

lemma map_of_filter_value:
  "distinct (map fst xs) \<Longrightarrow> map_of (filter (\<lambda>(k, v). P v) xs) a =
     (case map_of xs a of None \<Rightarrow> None | Some v \<Rightarrow> if P v then Some v else None)"
proof (induction xs)
  case (Cons x xs)
  then have "fst x = a \<Longrightarrow> map_of xs a = None" by (auto simp: map_of_eq_None_iff)
  then show ?case using Cons by (cases x) auto
qed simp

lemma podar_sel [simp]:
  "fc_now (podar cfg f) = fc_now f" "fc_fila (podar cfg f) = fc_fila f"
  "fc_emEspera (podar cfg f) = fc_emEspera f"
  by (simp_all add: podar_def)

lemma podar_ok: "faucet_ok f \<Longrightarrow> faucet_ok (podar cfg f)"
  by (auto simp: faucet_ok_def podar_def distinct_map inj_on_def)

lemma num_le_ints: "num_le (Num (of_int a)) (Num (of_int b)) \<longleftrightarrow> a \<le> b"
  by simp

lemma podar_lookup:
  assumes "faucet_ok f" "fa_interval cfg = Num (of_int i)"
  shows "map_of (fc_ultimo (podar cfg f)) a = (case map_of (fc_ultimo f) a of None \<Rightarrow> None
     | Some u \<Rightarrow> if i \<le> fc_now f - u then None else Some u)"
proof -
  have "fc_ultimo (podar cfg f) = filter (\<lambda>(k, u). \<not> i \<le> fc_now f - u) (fc_ultimo f)"
    unfolding podar_def assms(2) num_le_ints by simp
  then show ?thesis
    using assms(1) map_of_filter_value [of "fc_ultimo f" "\<lambda>u. \<not> i \<le> fc_now f - u" a]
    by (simp add: faucet_ok_def split: option.split)
qed

lemma podar_held:
  assumes "faucet_ok f" "fa_interval cfg = Num (of_int i)" "held i f j"
  shows "held i (podar cfg f) j"
  using assms(3) by (auto simp: held_def podar_lookup [OF assms(1,2)])

text \<open>A request is accepted only where the pruned map has no entry.\<close>

lemma espera_zero:
  assumes "faucet_ok f" "fa_interval cfg = Num (of_int i)" "i \<le> 2 ^ 53" "0 \<le> i"
    and "\<not> num_lt (Num 0) (esperaRestante cfg a (podar cfg f))"
  shows "map_of (fc_ultimo (podar cfg f)) a = None"
proof (rule ccontr)
  assume "map_of (fc_ultimo (podar cfg f)) a \<noteq> None"
  then obtain u where u: "map_of (fc_ultimo (podar cfg f)) a = Some u" "map_of (fc_ultimo f) a = Some u"
    "\<not> i \<le> fc_now f - u"
    using podar_lookup [OF assms(1,2), of a] by (auto split: option.splits if_splits)
  let ?d = "fc_now f - u"
  have d: "0 \<le> ?d" "0 < i - ?d" "i - ?d \<le> 2 ^ 53" using assms(1,3) u map_of_SomeD [OF u(2)] by (auto simp: faucet_ok_def)
  have "num_sub (fa_interval cfg) (Num (of_int ?d)) = Num (of_int (i - ?d))"
    using d num_of_int_small [of "i - ?d"] unfolding assms(2)
    by (simp add: num_sub_def num_of_int_def algebra_simps)
  then have "num_lt (Num 0) (esperaRestante cfg a (podar cfg f))"
    using d u(1) by (simp add: esperaRestante_def num_max_def)
  then show False using assms(5) by simp
qed


text \<open>Every step keeps the invariant.\<close>

lemma faucet_post_cases:
  obtains (answered) reply f' where "faucet_post cfg body f = (Some reply, f')" "f' = f \<or> f' = podar cfg f"
  | (accepted) a where "\<not> num_lt (Num 0) (esperaRestante cfg a (podar cfg f))"
      "faucet_post cfg body f = (None, (podar cfg f)\<lparr>
         fc_ultimo := AList.update a (fc_now f) (fc_ultimo (podar cfg f)),
         fc_emEspera := fc_emEspera f + 1, fc_fila := fc_fila f @ [\<lparr>jb_address = a, jb_at = fc_now f\<rparr>]\<rparr>)"
proof (cases "\<exists>raw a. bind_res body (\<lambda>b. json_prop b (js ''address'')) = Inr raw \<and> normalizaEndereco raw = Some a
    \<and> \<not> num_lt (Num 0) (esperaRestante cfg a (podar cfg f))")
  case True
  then show thesis using accepted by (auto simp: faucet_post_def Let_def)
next
  case False
  then have "\<exists>reply f'. faucet_post cfg body f = (Some reply, f') \<and> (f' = f \<or> f' = podar cfg f)"
    by (auto simp: faucet_post_def Let_def split: sum.split option.split)
  then show thesis using answered by blast
qed

lemma set_AList_update: "set (AList.update k v xs) \<subseteq> insert (k, v) (set xs)"
  by (induction xs) auto

lemma AList_delete_sub: "set (AList.delete k xs) \<subseteq> set xs"
  by (induction xs) (auto simp: AList.delete_eq)

lemma accepted_ok:
  assumes "faucet_ok f"
  shows "faucet_ok (f\<lparr>fc_ultimo := AList.update a (fc_now f) (fc_ultimo f), fc_emEspera := fc_emEspera f + 1,
    fc_fila := fc_fila f @ [\<lparr>jb_address = a, jb_at = fc_now f\<rparr>]\<rparr>)"
proof -
  have "\<forall>x \<in> set (AList.update a (fc_now f) (fc_ultimo f)). snd x \<le> fc_now f"
    using assms set_AList_update [of a "fc_now f" "fc_ultimo f"] by (fastforce simp: faucet_ok_def)
  then show ?thesis using assms by (auto simp: faucet_ok_def distinct_update)
qed

lemma accepted_held:
  assumes "held i f j" "jb_at j \<le> fc_now f"
  shows "held i (f\<lparr>fc_ultimo := AList.update a (fc_now f) (fc_ultimo f), fc_emEspera := n, fc_fila := q\<rparr>) j"
  using assms by (auto simp: held_def update_conv')

lemma free_spaced:
  assumes "spaced i xs" "\<forall>j \<in> set xs. held i f j" "map_of (fc_ultimo f) a = None"
  shows "spaced i (xs @ [\<lparr>jb_address = a, jb_at = fc_now f\<rparr>])"
  using assms by (force simp: spaced_def sorted_wrt_append held_def)

lemma tap_ok_podar:
  assumes "tap_ok i w" "fa_interval cfg = Num (of_int i)"
  shows "tap_ok i (w\<lparr>tp_f := podar cfg (tp_f w)\<rparr>)"
  using assms podar_held [OF _ assms(2)] by (auto simp: tap_ok_def podar_ok)

lemma tap_ok_accept:
  assumes w: "tap_ok i w" and n: "map_of (fc_ultimo (tp_f w)) a = None"
  defines "f \<equiv> tp_f w"
  shows "tap_ok i (w\<lparr>tp_f := f\<lparr>fc_ultimo := AList.update a (fc_now f) (fc_ultimo f),
     fc_emEspera := fc_emEspera f + 1, fc_fila := fc_fila f @ [\<lparr>jb_address = a, jb_at = fc_now f\<rparr>]\<rparr>\<rparr>)"
    (is "tap_ok i (w\<lparr>tp_f := ?g\<rparr>)")
proof -
  have "faucet_ok ?g" using w by (simp add: tap_ok_def f_def accepted_ok)
  moreover have "spaced i (tp_sent w @ fc_fila ?g) \<and> (\<forall>j \<in> set (tp_sent w @ fc_fila ?g). held i ?g j)"
    if "\<not> tp_lost w" "\<not> tp_late w"
  proof
    have s: "spaced i (tp_sent w @ fc_fila f)" "\<forall>j \<in> set (tp_sent w @ fc_fila f). held i f j"
      using w that by (auto simp: tap_ok_def f_def)
    have "spaced i ((tp_sent w @ fc_fila f) @ [\<lparr>jb_address = a, jb_at = fc_now f\<rparr>])"
      by (rule free_spaced [OF s]) (use n in \<open>simp add: f_def\<close>)
    then show "spaced i (tp_sent w @ fc_fila ?g)" by simp
    have "held i ?g \<lparr>jb_address = a, jb_at = fc_now f\<rparr>" by (simp add: held_def update_conv')
    then show "\<forall>j \<in> set (tp_sent w @ fc_fila ?g). held i ?g j"
      using s(2) accepted_held [of i f] w by (auto simp: tap_ok_def faucet_ok_def f_def)
  qed
  ultimately show ?thesis using w by (auto simp: tap_ok_def f_def)
qed


lemma tap_ok_asked:
  assumes w: "tap_ok i w" and c: "fa_interval cfg = Num (of_int i)" "0 \<le> i" "i \<le> 2 ^ 53"
    and h: "faucet_handle cfg rq (tp_f w) = (reply, f')"
  shows "tap_ok i (w\<lparr>tp_f := f'\<rparr>)"
proof -
  have p: "tap_ok i (w\<lparr>tp_f := podar cfg (tp_f w)\<rparr>)" by (rule tap_ok_podar [OF w c(1)])
  have o: "faucet_ok (tp_f w)" using w by (simp add: tap_ok_def)
  have post: "tap_ok i (w\<lparr>tp_f := f'\<rparr>)" if "faucet_post cfg (fq_body rq) (tp_f w) = (reply, f')"
  proof (cases rule: faucet_post_cases [of cfg "fq_body rq" "tp_f w"])
    case (answered reply' f)
    then show ?thesis using that p w by auto
  next
    case (accepted a)
    have "map_of (fc_ultimo (podar cfg (tp_f w))) a = None"
      by (rule espera_zero [OF o c(1,3,2) accepted(1)])
    then show ?thesis using tap_ok_accept [OF p] accepted(2) that by simp
  qed
  show ?thesis
    using h p w post by (auto simp: faucet_handle_def faucet_status_def Let_def split: if_splits)
qed

lemma settle_cases:
  assumes "faucet_settle parse cfg e f = Some (job, reply, f')"
  obtains (paid) rest where "fc_fila f = job # rest" "fst reply = 200"
      "f' = f\<lparr>fc_fila := rest, fc_emEspera := max 0 (fc_emEspera f - 1)\<rparr>"
  | (failed) rest where "fc_fila f = job # rest" "fst reply = 500"
      "f' = f\<lparr>fc_ultimo := AList.delete (jb_address job) (fc_ultimo f), fc_fila := rest,
         fc_emEspera := max 0 (fc_emEspera f - 1)\<rparr>"
proof (cases "enviar parse e")
  case (Inl msg)
  then show thesis using assms failed by (auto simp: faucet_settle_def split: list.splits)
next
  case (Inr v)
  then show thesis using assms paid by (auto simp: faucet_settle_def split: list.splits)
qed

lemma settle_ok: "faucet_settle parse cfg e f = Some (job, reply, f') \<Longrightarrow> faucet_ok f \<Longrightarrow> faucet_ok f'"
  by (erule settle_cases)
    (use AList_delete_sub in \<open>fastforce simp: faucet_ok_def distinct_delete\<close>)+

lemma delete_held:
  assumes "held i f j" "jb_address j = a \<Longrightarrow> i \<le> fc_now f - jb_at j"
  shows "held i (f\<lparr>fc_ultimo := AList.delete a (fc_ultimo f), fc_fila := q, fc_emEspera := n\<rparr>) j"
  using assms by (auto simp: held_def delete_conv')

lemma tap_ok_ended:
  assumes w: "tap_ok i w" and c: "fa_interval cfg = Num (of_int i)"
    and s: "faucet_settle parse cfg e (tp_f w) = Some (job, reply, f')"
  shows "tap_ok i (w\<lparr>tp_f := f', tp_sent := (if sent then tp_sent w @ [job] else tp_sent w),
    tp_lost := tp_lost w \<or> (sent \<and> fst reply \<noteq> 200),
    tp_late := tp_late w \<or> (fst reply \<noteq> 200 \<and> job_old cfg (tp_f w) job)\<rparr>)" (is "tap_ok i ?w")
proof -
  have f': "faucet_ok f'" using settle_ok [OF s] w by (simp add: tap_ok_def)
  obtain rest where q: "fc_fila (tp_f w) = job # rest" "fc_fila f' = rest" "fc_now f' = fc_now (tp_f w)"
    using s by (cases rule: settle_cases) auto
  have now: "jb_at job \<le> fc_now (tp_f w)" "\<forall>j \<in> set (tp_sent w). jb_at j \<le> fc_now (tp_f w)"
    using w q(1) by (auto simp: tap_ok_def faucet_ok_def)
  have main: "spaced i (tp_sent ?w @ rest) \<and> (\<forall>j \<in> set (tp_sent ?w @ rest). held i f' j)"
    if fl: "\<not> tp_lost ?w" "\<not> tp_late ?w"
  proof -
    have o: "spaced i (tp_sent w @ job # rest)" "\<forall>j \<in> set (tp_sent w @ job # rest). held i (tp_f w) j"
      using w q(1) fl by (auto simp: tap_ok_def)
    have sp: "spaced i (tp_sent w @ rest)" "spaced i ((tp_sent w @ [job]) @ rest)"
      using o(1) by (auto simp: spaced_def sorted_wrt_append)
    show ?thesis
      using s
    proof (cases rule: settle_cases)
      case (paid r)
      then show ?thesis using o sp by (auto simp: held_def)
    next
      case (failed r)
      then have n: "\<not> sent" "\<not> i \<le> fc_now (tp_f w) - jb_at job"
        using fl c by (auto simp: job_old_def simp flip: of_int_diff)
      have "held i f' j" if j: "j \<in> set (tp_sent w @ rest)" for j
      proof -
        have "i \<le> fc_now (tp_f w) - jb_at j" if "jb_address j = jb_address job"
          using that j o(1) n(2) now w q(1)
          by (auto simp: spaced_def sorted_wrt_append tap_ok_def faucet_ok_def; fastforce)
        then show ?thesis using o(2) j failed(3) by (auto intro: delete_held)
      qed
      then show ?thesis using sp n by simp
    qed
  qed
  have "\<forall>j \<in> set (tp_sent ?w). jb_at j \<le> fc_now f'" using now q by simp
  moreover have "tp_f ?w = f'" by simp
  ultimately show ?thesis using main f' q(2) unfolding tap_ok_def by metis
qed

lemma tap_ok_passed:
  assumes "tap_ok i w" "fc_now (tp_f w) \<le> t"
  shows "tap_ok i (w\<lparr>tp_f := (tp_f w)\<lparr>fc_now := t\<rparr>\<rparr>)"
proof -
  have "held i (tp_f w) j \<Longrightarrow> held i ((tp_f w)\<lparr>fc_now := t\<rparr>) j" for j
    using assms(2) by (auto simp: held_def)
  moreover have "faucet_ok ((tp_f w)\<lparr>fc_now := t\<rparr>)"
    using assms by (fastforce simp: tap_ok_def faucet_ok_def)
  moreover have "\<forall>j \<in> set (tp_sent w). jb_at j \<le> t" using assms by (force simp: tap_ok_def)
  ultimately show ?thesis using assms(1) by (auto simp: tap_ok_def)
qed

lemma tap_ok_step:
  assumes "tap_step parse cfg w w'" "tap_ok i w" "fa_interval cfg = Num (of_int i)" "0 \<le> i" "i \<le> 2 ^ 53"
  shows "tap_ok i w'"
  using assms(1)
proof cases
  case (asked rq reply f)
  then show ?thesis using tap_ok_asked [OF assms(2-5)] by simp
next
  case (ended e job reply f sent)
  then show ?thesis using tap_ok_ended [OF assms(2,3)] by simp
next
  case (passed t)
  then show ?thesis using tap_ok_passed [OF assms(2)] by simp
qed

lemma tap_ok_reach:
  "tap_reach parse cfg w0 w \<Longrightarrow> tap_ok i w0 \<Longrightarrow> fa_interval cfg = Num (of_int i) \<Longrightarrow> 0 \<le> i \<Longrightarrow> i \<le> 2 ^ 53
     \<Longrightarrow> tap_ok i w"
  by (induction rule: tap_reach.induct) (auto intro: tap_ok_step)


lemma tap_ok_start: "tap_ok i (tap_start t)"
  by (simp add: tap_ok_def tap_start_def faucet_ok_def spaced_def)


subsection \<open>Properties\<close>

text \<open>
  C21. The rate limit: whatever is asked and however the sends end, any two transfers the chain took
  for one address were asked for at least an interval apart, provided no send was reported failed
  whose transfer the chain had taken, and no send failed an interval or more after its request.
\<close>

theorem faucet_rate_limit:
  assumes "fa_interval cfg = Num (of_int i)" "0 \<le> i" "i \<le> 2 ^ 53"
    and "tap_reach parse cfg (tap_start t) w" "\<not> tp_lost w" "\<not> tp_late w"
    and "m < n" "n < length (tp_sent w)"
    and "jb_address (tp_sent w ! m) = jb_address (tp_sent w ! n)"
  shows "i \<le> jb_at (tp_sent w ! n) - jb_at (tp_sent w ! m)"
proof -
  have "tap_ok i w" using tap_ok_reach [OF assms(4) tap_ok_start assms(1-3)] .
  then have "spaced i (tp_sent w)"
    using assms(5,6) by (auto simp: tap_ok_def spaced_def sorted_wrt_append)
  then show ?thesis using assms(7-9) by (simp add: spaced_def sorted_wrt_iff_nth_less)
qed

text \<open>A request, and its job, for a valid address.\<close>

definition ask :: "json \<Rightarrow> faucet_request" where
  "ask v = \<lparr>fq_method = js ''POST'', fq_path = js ''/faucet'', fq_body = Inr (JObj [(js ''address'', v)])\<rparr>"

lemma ask_accepted:
  assumes "normalizaEndereco (Some v) = Some a" "map_of (fc_ultimo (podar cfg f)) a = None"
  shows "faucet_handle cfg (ask v) f = (None, (podar cfg f)\<lparr>
     fc_ultimo := AList.update a (fc_now f) (fc_ultimo (podar cfg f)),
     fc_emEspera := fc_emEspera f + 1, fc_fila := fc_fila f @ [\<lparr>jb_address = a, jb_at = fc_now f\<rparr>]\<rparr>)"
  using assms by (simp add: faucet_handle_def ask_def js_eval faucet_post_def json_prop_def esperaRestante_def Let_def)

lemma settle_paid:
  assumes "fc_fila f = job # rest"
  shows "\<exists>reply. faucet_settle parse cfg (CliClose (Some 0) out err) f =
     Some (job, reply, f\<lparr>fc_fila := rest, fc_emEspera := max 0 (fc_emEspera f - 1)\<rparr>) \<and> fst reply = 200"
  using assms by (simp add: faucet_settle_def enviar_def runCli_def)

lemma settle_timeout:
  assumes "fc_fila f = job # rest"
  shows "faucet_settle parse cfg CliTimeout f = Some (job, (500, FError (js ''timeout no eav7-cli'')),
     f\<lparr>fc_ultimo := AList.delete (jb_address job) (fc_ultimo f), fc_fila := rest,
       fc_emEspera := max 0 (fc_emEspera f - 1)\<rparr>)"
  using assms by (simp add: faucet_settle_def enviar_def runCli_def)

text \<open>
  Without the first proviso it does not hold: a send that times out after posting its transfer
  frees the address, so the next request, at the same moment, is paid a second time.
\<close>

theorem faucet_timeout_pays_twice:
  assumes "normalizaEndereco (Some v) = Some a" "num_lt (Num 0) (fa_interval cfg)"
  shows "\<exists>w. tap_reach parse cfg (tap_start t) w \<and> \<not> tp_late w
    \<and> tp_sent w = [\<lparr>jb_address = a, jb_at = t\<rparr>, \<lparr>jb_address = a, jb_at = t\<rparr>]"
proof -
  let ?j = "\<lparr>jb_address = a, jb_at = t\<rparr>"
  let ?f0 = "\<lparr>fc_ultimo = [], fc_fila = [], fc_emEspera = 0, fc_now = t\<rparr>"
  let ?f1 = "\<lparr>fc_ultimo = [(a, t)], fc_fila = [?j], fc_emEspera = 1, fc_now = t\<rparr>"
  let ?f2 = "\<lparr>fc_ultimo = [(a, t)], fc_fila = [], fc_emEspera = 0, fc_now = t\<rparr>"
  have p: "podar cfg ?f0 = ?f0" by (simp add: podar_def)
  have ask: "faucet_handle cfg (ask v) ?f0 = (None, ?f1)"
    using ask_accepted [of v a cfg ?f0] assms(1) by (simp add: p)
  have old: "\<not> job_old cfg ?f1 ?j"
    using assms(2) by (cases "fa_interval cfg") (simp_all add: job_old_def)
  have lost: "faucet_settle parse cfg CliTimeout ?f1 = Some (?j, (500, FError (js ''timeout no eav7-cli'')), ?f0)"
    by (simp add: settle_timeout [where rest = "[]"])
  obtain reply where paid: "faucet_settle parse cfg (CliClose (Some 0) [] []) ?f1 = Some (?j, reply, ?f2)"
    using settle_paid [of ?f1 ?j "[]" parse cfg "[]" "[]"] by auto
  let ?w = "\<lambda>f q l. \<lparr>tp_f = f, tp_sent = q, tp_lost = l, tp_late = False\<rparr>"
  have 1: "tap_step parse cfg (?w ?f0 [] False) (?w ?f1 [] False)"
    using tap_step.asked [of cfg "ask v" "?w ?f0 [] False" None ?f1 parse] ask by simp
  have 2: "tap_step parse cfg (?w ?f1 [] False) (?w ?f0 [?j] True)"
    using tap_step.ended [of parse cfg CliTimeout "?w ?f1 [] False" ?j _ ?f0 True] lost old by fastforce
  have 3: "tap_step parse cfg (?w ?f0 [?j] True) (?w ?f1 [?j] True)"
    using tap_step.asked [of cfg "ask v" "?w ?f0 [?j] True" None ?f1 parse] ask by simp
  have 4: "tap_step parse cfg (?w ?f1 [?j] True) (?w ?f2 [?j, ?j] True)"
    using tap_step.ended [of parse cfg "CliClose (Some 0) [] []" "?w ?f1 [?j] True" ?j reply ?f2 True] paid old by simp
  have "tap_reach parse cfg (?w ?f0 [] False) (?w ?f2 [?j, ?j] True)"
    by (rule tap_reach.more [OF tap_reach.more [OF tap_reach.more [OF tap_reach.more [OF tap_reach.start 1] 2] 3] 4])
  then show ?thesis by (intro exI [of _ "?w ?f2 [?j, ?j] True"]) (simp add: tap_start_def)
qed

text \<open>An instance: the default interval, and an address typed in lower case with a space.\<close>

definition cfg_hour :: faucet_cfg where
  "cfg_hour = \<lparr>fa_node = [], fa_wallet = [], fa_amount = js ''100'', fa_interval = Num 3600000, fa_cors = []\<rparr>"

definition typed0 :: json where
  "typed0 = JStr (js '' e7aaaaaaaaaaaaaaaaaaaaaaaaaaaaaaaa'')"

lemma typed0: "normalizaEndereco (Some typed0) = Some (js ''E7AAAAAAAAAAAAAAAAAAAAAAAAAAAAAAAA'')"
  by (simp add: normalizaEndereco_def typed0_def upper_text_def trim_def trim_start_def trim_end_def js_eval
      is_ws_def re_e7_def is_upper_hex_def is_digit_def upper_char_def)

theorem faucet_timeout_pays_twice_witness:
  "\<exists>w a. tap_reach (\<lambda>_. None) cfg_hour (tap_start 5) w
     \<and> tp_sent w = [\<lparr>jb_address = a, jb_at = 5\<rparr>, \<lparr>jb_address = a, jb_at = 5\<rparr>]"
  using faucet_timeout_pays_twice [OF typed0, of cfg_hour "\<lambda>_. None" 5] by (auto simp: cfg_hour_def)


theorem faucet_rate_limit_witness:
  "\<exists>w. tap_reach (\<lambda>_. None) cfg_hour (tap_start 0) w \<and> length (tp_sent w) = 2
     \<and> 3600000 \<le> jb_at (tp_sent w ! 1) - jb_at (tp_sent w ! 0)"
proof -
  obtain a where a: "normalizaEndereco (Some typed0) = Some a" using typed0 by blast
  let ?f = "\<lambda>u q n t. \<lparr>fc_ultimo = u, fc_fila = q, fc_emEspera = n, fc_now = t\<rparr>"
  let ?h = "3600000 :: int" and ?j = "\<lambda>t. \<lparr>jb_address = a, jb_at = t\<rparr>"
  let ?w = "\<lambda>f q. \<lparr>tp_f = f, tp_sent = q, tp_lost = False, tp_late = False\<rparr>"
  have p: "podar cfg_hour (?f [] [] 0 0) = ?f [] [] 0 0" "podar cfg_hour (?f [(a, 0)] [] 0 ?h) = ?f [] [] 0 ?h"
    by (simp_all add: podar_def cfg_hour_def)
  have 1: "tap_step (\<lambda>_. None) cfg_hour (?w (?f [] [] 0 0) []) (?w (?f [(a, 0)] [?j 0] 1 0) [])"
    using tap_step.asked [of cfg_hour "ask typed0" "?w (?f [] [] 0 0) []" None "?f [(a, 0)] [?j 0] 1 0"]
      ask_accepted [OF a, of cfg_hour "?f [] [] 0 0"] by (simp add: p)
  obtain r1 where r1: "faucet_settle (\<lambda>_. None) cfg_hour (CliClose (Some 0) [] []) (?f [(a, 0)] [?j 0] 1 0)
      = Some (?j 0, r1, ?f [(a, 0)] [] 0 0)" "fst r1 = 200"
    using settle_paid [of "?f [(a, 0)] [?j 0] 1 0" "?j 0" "[]" "\<lambda>_. None" cfg_hour "[]" "[]"] by auto
  have 2: "tap_step (\<lambda>_. None) cfg_hour (?w (?f [(a, 0)] [?j 0] 1 0) []) (?w (?f [(a, 0)] [] 0 0) [?j 0])"
    using tap_step.ended [of "\<lambda>_. None" cfg_hour "CliClose (Some 0) [] []" "?w (?f [(a, 0)] [?j 0] 1 0) []"
        "?j 0" r1 "?f [(a, 0)] [] 0 0" True] r1 by simp
  have 3: "tap_step (\<lambda>_. None) cfg_hour (?w (?f [(a, 0)] [] 0 0) [?j 0]) (?w (?f [(a, 0)] [] 0 ?h) [?j 0])"
    using tap_step.passed [of "?w (?f [(a, 0)] [] 0 0) [?j 0]" ?h] by simp
  have 4: "tap_step (\<lambda>_. None) cfg_hour (?w (?f [(a, 0)] [] 0 ?h) [?j 0]) (?w (?f [(a, ?h)] [?j ?h] 1 ?h) [?j 0])"
    using tap_step.asked [of cfg_hour "ask typed0" "?w (?f [(a, 0)] [] 0 ?h) [?j 0]" None "?f [(a, ?h)] [?j ?h] 1 ?h"]
      ask_accepted [OF a, of cfg_hour "?f [(a, 0)] [] 0 ?h"] by (simp add: p)
  obtain r2 where r2: "faucet_settle (\<lambda>_. None) cfg_hour (CliClose (Some 0) [] []) (?f [(a, ?h)] [?j ?h] 1 ?h)
      = Some (?j ?h, r2, ?f [(a, ?h)] [] 0 ?h)" "fst r2 = 200"
    using settle_paid [of "?f [(a, ?h)] [?j ?h] 1 ?h" "?j ?h" "[]" "\<lambda>_. None" cfg_hour "[]" "[]"] by auto
  have 5: "tap_step (\<lambda>_. None) cfg_hour (?w (?f [(a, ?h)] [?j ?h] 1 ?h) [?j 0]) (?w (?f [(a, ?h)] [] 0 ?h) [?j 0, ?j ?h])"
    using tap_step.ended [of "\<lambda>_. None" cfg_hour "CliClose (Some 0) [] []" "?w (?f [(a, ?h)] [?j ?h] 1 ?h) [?j 0]"
        "?j ?h" r2 "?f [(a, ?h)] [] 0 ?h" True] r2 by simp
  let ?e = "?w (?f [(a, ?h)] [] 0 ?h) [?j 0, ?j ?h]"
  have r: "tap_reach (\<lambda>_. None) cfg_hour (tap_start 0) ?e"
    unfolding tap_start_def by (rule tap_reach.more [OF tap_reach.more [OF tap_reach.more [OF tap_reach.more
      [OF tap_reach.more [OF tap_reach.start 1] 2] 3] 4] 5])
  have "?h \<le> jb_at (tp_sent ?e ! 1) - jb_at (tp_sent ?e ! 0)"
    by (rule faucet_rate_limit [OF _ _ _ r]) (simp_all add: cfg_hour_def)
  then show ?thesis using r by (intro exI [of _ ?e]) simp
qed

end
