(* ===== verification/StakePanel.thy ===== *)
theory StakePanel
  imports Wallet
begin

section \<open>Staking from the wallet (\<open>components/wallet/stake-panel.tsx\<close>)\<close>

text \<open>
  The panel stakes and unstakes by sending to two system addresses, and warns before an unstake
  that loses a tier of the stake. \<open>stake_submit\<close> is one click with the answers of the signer and
  the node. The stake the page passes in is the account view's: whole EAV7 of the staked e7. The
  comparison with the tiers is in floating point, on the amount as \<open>Number\<close> reads it; the
  transaction carries the amount as the exact parser reads it.
\<close>

definition EAVM_STAKE_ADDRESS :: jstr where
  "EAVM_STAKE_ADDRESS = js ''0x0000000000000000000000000000000000007001''"
definition EAVM_UNSTAKE_ADDRESS :: jstr where
  "EAVM_UNSTAKE_ADDRESS = js ''0x0000000000000000000000000000000000007002''"

datatype stake_kind = Stake | Unstake

record stake_panel =
  sk_amount :: jstr
  sk_err :: jstr
  sk_busy :: bool
  sk_sentId :: "jstr option"
  sk_warn :: "jstr option"

text \<open>\<open>Number(staked / UNIT)\<close> of the account view, and the tier it shows.\<close>

definition stakedEav7 :: "int \<Rightarrow> jsnum" where
  "stakedEav7 staked = num_of_int (big_div staked 1000000)"

datatype stake_tier = Validator | FeeZero | Standard

definition tierOf :: "jsnum \<Rightarrow> stake_tier" where
  "tierOf staked = (if num_le (Num 1000) staked then Validator
     else if num_le (Num 100) staked then FeeZero else Standard)"

text \<open>\<open>Number(amount.replace(",", ".")) || 0\<close>.\<close>

definition panel_amt :: "jstr \<Rightarrow> jsnum" where
  "panel_amt amount = (let x = num_of_str (comma_to_point amount) in if x = NaN then Num 0 else x)"

definition tier_warning :: "jsnum \<Rightarrow> jsnum \<Rightarrow> jstr option" where
  "tier_warning staked amt = (let after = num_sub staked amt in
     if num_le (Num 1000) staked \<and> num_lt after (Num 1000) then Some (js ''wallet_stake.warnValidator'')
     else if num_le (Num 100) staked \<and> num_lt after (Num 100) then Some (js ''wallet_stake.warnFeeReset'')
     else None)"

definition type_amount :: "jstr \<Rightarrow> stake_panel \<Rightarrow> stake_panel" where
  "type_amount a s = s\<lparr>sk_amount := a, sk_warn := None\<rparr>"

definition stake_params :: "stake_kind \<Rightarrow> int \<Rightarrow> jsnum \<Rightarrow> send_params" where
  "stake_params kind valueWei chainId =
     \<lparr>sp_to = (case kind of Stake \<Rightarrow> EAVM_STAKE_ADDRESS | Unstake \<Rightarrow> EAVM_UNSTAKE_ADDRESS),
      sp_valueWei = valueWei, sp_chainId = chainId, sp_data = None, sp_gasLimit = None\<rparr>"

definition stake_settle :: "stake_panel \<Rightarrow> jstr res \<times> jstr list \<Rightarrow> stake_panel \<times> jstr list" where
  "stake_settle s rp = (case fst rp of
       Inr i \<Rightarrow> (s\<lparr>sk_sentId := Some i, sk_busy := False\<rparr>, snd rp)
     | Inl e \<Rightarrow> (s\<lparr>sk_err := e, sk_busy := False\<rparr>, snd rp))"

definition stake_submit :: "signer \<Rightarrow> node_api \<Rightarrow> account \<Rightarrow> jsnum \<Rightarrow> jsnum \<Rightarrow> stake_kind
    \<Rightarrow> stake_panel \<Rightarrow> stake_panel \<times> jstr list" where
  "stake_submit sign api acct chainId staked kind s = (let s1 = s\<lparr>sk_err := []\<rparr> in
     case parseEav7ToWei (sk_amount s) of
       Inl e \<Rightarrow> (s1\<lparr>sk_err := e\<rparr>, [])
     | Inr valueWei \<Rightarrow>
         if valueWei \<le> 0 then (s1\<lparr>sk_err := js ''wallet_stake.errInvalidAmount''\<rparr>, [])
         else (case (if kind = Unstake \<and> sk_warn s = None then tier_warning staked (panel_amt (sk_amount s)) else None) of
             Some w \<Rightarrow> (s1\<lparr>sk_warn := Some w\<rparr>, [])
           | None \<Rightarrow> stake_settle (s1\<lparr>sk_warn := None, sk_busy := True\<rparr>)
               (signAndSend sign api acct (stake_params kind valueWei chainId))))"


subsection \<open>The two readings of the amount\<close>

lemma no_radix: "list_all is_digit w \<Longrightarrow> radix_lit (w @ f) = None" if "f = [] \<or> hd f = 46" for w f
proof (cases w)
  case Nil
  then show ?thesis using that by (cases f) (auto simp: radix_lit_def split: list.split)
next
  case (Cons z w')
  assume w: "list_all is_digit w"
  have "x \<noteq> 120 \<and> x \<noteq> 88 \<and> x \<noteq> 111 \<and> x \<noteq> 79 \<and> x \<noteq> 98 \<and> x \<noteq> 66" if "w' @ f = x # ds" for x ds
    using that w Cons \<open>f = [] \<or> hd f = 46\<close>
    by (cases w') (auto simp: is_digit_def)
  then show ?thesis using Cons by (auto simp: radix_lit_def split: list.split)
qed

lemma number_text:
  assumes w: "is_digits w" and f: "f = [] \<or> hd f = 46"
    and t: "trim (w @ f) = w @ f"
  shows "num_of_str (w @ f) = num_of_lit (udec_lit (w @ f))"
proof -
  obtain c r where cr: "w = c # r" and c: "is_digit c" using w by (cases w) (auto simp: is_digits_def)
  have "c \<noteq> 45" "c \<noteq> 43" "c \<noteq> 73" using c by (auto simp: is_digit_def)
  then show ?thesis
    using w f t no_radix [of f w] by (simp add: num_of_str_def cr is_digits_def js_eval)
qed

lemma match_decimal_split:
  assumes "match_decimal d s = Some (w, b)"
  shows "s = w @ (case b of None \<Rightarrow> [] | Some f \<Rightarrow> 46 # f)"
proof -
  obtain p r where pr: "takeWhile is_digit s = p" "dropWhile is_digit s = r" "s = p @ r"
    by (metis takeWhile_dropWhile_id)
  have "match_decimal d s = (if p = [] then None else case r of [] \<Rightarrow> Some (p, None)
      | c # f \<Rightarrow> if c = 46 \<and> is_digits f \<and> length f \<le> d then Some (p, Some f) else None)"
    by (simp only: match_decimal_def Let_def pr(1,2))
  then show ?thesis using assms by (cases r) (auto simp: pr(3) split: if_splits)
qed

lemma number_reads_decimal:
  assumes r: "read_decimal 6 s = Some n"
  shows "num_of_str s = to_num (of_nat n / 10 ^ 6)"
proof -
  obtain w b where m: "match_decimal 6 s = Some (w, b)" and n: "n = undec w * 10 ^ 6 + frac_value 6 b"
    using r by (auto simp: read_decimal_def)
  have w: "is_digits w" using match_decimal_digits(1) [OF m] .
  show ?thesis
  proof (cases b)
    case None
    then have s: "s = w" using match_decimal_split [OF m] by simp
    have "num_of_str w = num_of_lit (udec_lit w)"
      using number_text [of w "[]"] w by (simp add: trim_digits is_digits_def)
    also have "udec_lit w = Some (of_nat (undec w))"
      using w by (simp add: udec_lit_def is_digits_def takeWhile_digits dropWhile_digits exp_part_def)
    finally show ?thesis using None n by (simp add: s num_of_lit_def)
  next
    case (Some f)
    then have f: "is_digits f" "length f \<le> 6" using match_decimal_digits(2) [OF m] by auto
    have s: "s = w @ 46 # f" using match_decimal_split [OF m] Some by simp
    have ws: "trim (w @ 46 # f) = w @ 46 # f"
      using w f(1) digits_plain [of w] digits_plain [of f]
      by (intro trim_no_ws) (auto simp: is_digits_def is_ws_def)
    have u: "udec_lit (w @ 46 # f) = Some (of_nat (undec (w @ f)) * 10 powi (- int (length f)))"
      using w f by (simp add: udec_lit_def is_digits_def takeWhile_digits_append dropWhile_digits_append
          takeWhile_digits dropWhile_digits exp_part_def)
    have "n * 10 ^ length f = undec (w @ f) * 10 ^ 6"
    proof -
      have "undec (pad_end 6 48 f) = undec f * 10 ^ (6 - length f)"
        by (simp add: pad_end_def of_base_append)
      moreover have "(10::nat) ^ 6 = 10 ^ (6 - length f) * 10 ^ length f"
        using f(2) by (simp flip: power_add)
      ultimately show ?thesis
        using n Some by (simp add: frac_value_def of_base_append algebra_simps)
    qed
    then have "(of_nat n :: rat) * 10 ^ length f = of_nat (undec (w @ f)) * 10 ^ 6"
      by (metis of_nat_mult of_nat_numeral of_nat_power)
    then have v: "(of_nat (undec (w @ f)) :: rat) * 10 powi (- int (length f)) = of_nat n / 10 ^ 6"
      by (simp add: power_int_minus field_simps)
    have "num_of_str s = num_of_lit (udec_lit (w @ 46 # f))"
      unfolding s using number_text [of w "46 # f"] w ws by simp
    also have "\<dots> = num_of_lit (Some (of_nat n / 10 ^ 6))" unfolding u v ..
    finally show ?thesis by (simp add: num_of_lit_def)
  qed
qed

lemma comma_to_point_trim: "trim (comma_to_point s) = comma_to_point (trim s)"
proof (cases "44 \<in> set s")
  case False
  moreover have "44 \<notin> set (trim s)" using False
    by (auto simp: trim_def trim_start_def trim_end_def dest!: set_dropWhileD)
  ultimately show ?thesis by (simp add: comma_to_point_none)
next
  case True
  then obtain p q where s: "s = p @ 44 # q" and p: "44 \<notin> set p" by (metis split_list_first)
  have pt: "\<not> is_ws 44" "\<not> is_ws 46" by (simp_all add: is_ws_def)
  have start: "trim_start (p @ c # q) = trim_start p @ c # q" if "\<not> is_ws c" for c
    using that by (induction p) (auto simp: trim_start_def)
  have ends: "trim_end (p' @ c # q) = p' @ c # trim_end q" if "\<not> is_ws c" for c p'
    using that by (simp add: trim_end_def dropWhile_append)
  have "44 \<notin> set (trim_start p)" using p by (auto simp: trim_start_def dest: set_dropWhileD)
  then show ?thesis
    using p pt by (simp add: s comma_to_point_append trim_def start ends)
qed

lemma trim_trim [simp]: "trim (trim s) = trim s"
proof -
  have i: "dropWhile is_ws (dropWhile is_ws s) = dropWhile is_ws s" for s by (induction s) auto
  have k: "trim_start (trim_end u) = trim_end u" if "trim_start u = u" for u
  proof (cases u)
    case (Cons c r)
    show ?thesis
    proof (cases "is_ws c")
      case True
      then have "length (trim_start u) \<le> length r"
        using Cons length_dropWhile_le [of is_ws r] by (simp add: trim_start_def)
      then show ?thesis using that Cons by simp
    next
      case False
      then have "trim_end u = c # trim_end r" unfolding Cons by (simp add: trim_end_def dropWhile_append)
      then show ?thesis using False by (simp add: trim_start_def)
    qed
  qed (simp add: trim_start_def trim_end_def)
  have "trim_start (trim_start s) = trim_start s" by (simp add: trim_start_def i)
  from k [OF this] show ?thesis by (simp add: trim_def) (simp add: trim_end_def i)
qed

lemma num_of_str_trim: "num_of_str (trim s) = num_of_str s"
  by (simp add: num_of_str_def)


subsection \<open>The warning is never late\<close>

lemma is_f64_20: "\<bar>k\<bar> \<le> 2 ^ 53 \<Longrightarrow> is_f64 (of_int k / 2 ^ 20)"
  unfolding is_f64_def by (intro exI [of _ k] exI [of _ "-20"]) (simp add: power_int_minus field_simps)

lemma after_keeps:
  fixes m k n :: int
  assumes m: "k \<le> m" "0 \<le> k" "m < 2 ^ 33"
    and a: "\<not> num_lt (num_sub (Num (of_int m)) (to_num (of_int n / 10 ^ 6))) (Num (of_int k))"
  shows "n \<le> (m - k) * 10 ^ 6"
proof (rule ccontr)
  assume "\<not> n \<le> (m - k) * 10 ^ 6"
  then have "(m - k) * 10 ^ 6 + 1 \<le> n" by simp
  then have "of_int ((m - k) * 10 ^ 6 + 1) \<le> (of_int n :: rat)" by (simp only: of_int_le_iff)
  then have n: "of_int (m - k) + 1 / 10 ^ 6 \<le> (of_int n / 10 ^ 6 :: rat)" by (simp add: field_simps)
  let ?c = "of_int ((m - k) * 2 ^ 20 + 1) / 2 ^ 20 :: rat"
  have "?c \<le> of_int n / 10 ^ 6" using n by (simp add: field_simps)
  moreover have "is_f64 ?c" using m by (intro is_f64_20) simp
  ultimately have fc: "?c \<le> fl (of_int n / 10 ^ 6)" by (rule fl_ge_f64)
  show False
  proof (cases "to_num (of_int n / 10 ^ 6)")
    case (Num f)
    then have f: "?c \<le> f" using fc by (auto simp: to_num_def overflow_def split: if_splits)
    let ?d = "of_int (k * 2 ^ 20 - 1) / 2 ^ 20 :: rat"
    have "of_int m - f \<le> ?d" using f by (simp add: field_simps)
    moreover have "is_f64 ?d" using m by (intro is_f64_20) simp
    ultimately have "fl (of_int m - f) \<le> ?d" by (rule fl_le_f64)
    also have "?d < of_int k" by (simp add: field_simps)
    finally have lt: "fl (of_int m - f) < of_int k" .
    have "of_int k < (of_int (2 ^ 33) :: rat)" using m by (simp only: of_int_less_iff)
    then have "of_int k < (2 :: rat) ^ 1024" by simp
    then have "num_lt (to_num (of_int m - f)) (Num (of_int k))"
      using lt by (auto simp: to_num_def overflow_def)
    then show False using a Num by (simp add: num_sub_def)
  next
    case PosInf
    then show False using a by (simp add: num_sub_def)
  next
    case NegInf
    have "0 \<le> ?c" using m by simp
    then show False using NegInf fc by (simp add: to_num_def overflow_def split: if_splits)
  qed simp
qed


lemma panel_amt_reads:
  assumes "parseEav7ToWei amount = Inr wei"
  obtains n where "wei = int n * WEI_PER_E7" "panel_amt amount = to_num (of_int (int n) / 10 ^ 6)"
proof -
  obtain n where r: "read_decimal 6 (comma_to_point (trim amount)) = Some n" and w: "wei = int n * WEI_PER_E7"
    using assms by (auto simp: parseEav7ToWei_eq split: option.splits)
  have "num_of_str (comma_to_point amount) = num_of_str (comma_to_point (trim amount))"
    using num_of_str_trim [of "comma_to_point amount"] by (simp add: comma_to_point_trim)
  then have "panel_amt amount = to_num (of_nat n / 10 ^ 6)"
    using number_reads_decimal [OF r] by (simp add: panel_amt_def Let_def)
  then show thesis using that [OF w] by simp
qed

lemma stakedEav7_eq:
  "0 \<le> st \<Longrightarrow> st < 2 ^ 33 * 10 ^ 6 \<Longrightarrow> stakedEav7 st = Num (of_int (st div 10 ^ 6))"
  by (simp add: stakedEav7_def big_div_nonneg num_of_int_small)

text \<open>The tier of a stake in e7, without rounding.\<close>

definition tier_of_e7 :: "int \<Rightarrow> stake_tier" where
  "tier_of_e7 st = (if 1000 * 10 ^ 6 \<le> st then Validator else if 100 * 10 ^ 6 \<le> st then FeeZero else Standard)"

lemma tierOf_exact: "0 \<le> st \<Longrightarrow> st < 2 ^ 33 * 10 ^ 6 \<Longrightarrow> tierOf (stakedEav7 st) = tier_of_e7 st"
  by (auto simp: stakedEav7_eq tierOf_def tier_of_e7_def)

lemma no_warning_keeps_tier:
  assumes st: "0 \<le> st" "st < 2 ^ 33 * 10 ^ 6"
    and w: "tier_warning (stakedEav7 st) (to_num (of_int (int n) / 10 ^ 6)) = None"
  shows "tier_of_e7 (st - int n) = tier_of_e7 st"
proof -
  let ?m = "st div 10 ^ 6"
  have m: "0 \<le> ?m" "?m < 2 ^ 33" "?m * 10 ^ 6 \<le> st" using st by auto
  have keep: "k * 10 ^ 6 \<le> st - int n"
    if k: "0 \<le> k" "k \<le> ?m" "\<not> num_lt (num_sub (Num (of_int ?m)) (to_num (of_int (int n) / 10 ^ 6))) (Num (of_int k))" for k
    using after_keeps [OF k(2,1) m(2) k(3)] m(3) by (simp add: algebra_simps)
  show ?thesis
  proof (cases "1000 \<le> ?m")
    case True
    then have "1000 * 10 ^ 6 \<le> st - int n"
      using w keep [of 1000] by (simp add: tier_warning_def Let_def stakedEav7_eq [OF st] split: if_splits)
    then show ?thesis by (simp add: tier_of_e7_def)
  next
    case False
    then have f: "\<not> 1000 * 10 ^ 6 \<le> st" by auto
    show ?thesis
    proof (cases "100 \<le> ?m")
      case True
      then have "100 * 10 ^ 6 \<le> st - int n"
        using w keep [of 100] False by (simp add: tier_warning_def Let_def stakedEav7_eq [OF st] split: if_splits)
      then show ?thesis using f by (simp add: tier_of_e7_def)
    next
      case False
      then have "\<not> 100 * 10 ^ 6 \<le> st" by auto
      then show ?thesis using f by (simp add: tier_of_e7_def)
    qed
  qed
qed


subsection \<open>Properties\<close>



definition panel0 :: stake_panel where
  "panel0 = \<lparr>sk_amount = js ''500'', sk_err = [], sk_busy = False, sk_sentId = None, sk_warn = None\<rparr>"

lemma parse_500: "parseEav7ToWei (js ''500'') = Inr (int 500000000 * WEI_PER_E7)"
proof -
  have "is_digits (js ''500'')" by (simp add: is_digits_def is_digit_def js_eval)
  then have "read_decimal 6 (js ''500'') = Some (undec (js ''500'') * 10 ^ 6)"
    by (simp add: read_decimal_def match_decimal_whole)
  moreover have "undec (js ''500'') = 500" by (simp add: js_eval of_base_Cons digit_val_def)
  moreover have "comma_to_point (trim (js ''500'')) = js ''500''"
    by (simp add: trim_def trim_start_def trim_end_def comma_to_point_none js_eval is_ws_def)
  ultimately show ?thesis by (simp add: parseEav7ToWei_eq)
qed


end
