(* ===== verification/Markdown.thy ===== *)
theory Markdown
  imports Prelude JsText
begin

section \<open>The whitepaper's Markdown (\<open>lib/markdown-lite.tsx\<close>, \<open>lib/whitepaper.ts\<close>)\<close>

text \<open>
  The component turns a source text into blocks, line by line; the table of contents is computed
  apart, from the same source. What is modelled is the list of blocks, not the markup around
  them. The main loop takes a step count, since it does not always end. Lower-casing, NFD and the
  removal of marks are one argument, \<open>nfd\<close>.
\<close>

subsection \<open>Slugs and inline text\<close>

definition alnum :: "nat \<Rightarrow> bool" where
  "alnum c \<longleftrightarrow> (97 \<le> c \<and> c \<le> 122) \<or> is_digit c"

text \<open>\<open>replace(/[^a-z0-9]+/g, "-")\<close> and \<open>replace(/(^-|-$)/g, "")\<close>.\<close>

function dash_runs :: "jstr \<Rightarrow> jstr" where
  "dash_runs [] = []"
| "dash_runs (c # cs) = (if alnum c then c # dash_runs cs
     else 45 # dash_runs (dropWhile (\<lambda>x. \<not> alnum x) cs))"
  by pat_completeness auto
termination by (relation "measure length") (auto simp: le_imp_less_Suc length_dropWhile_le)

definition strip_dashes :: "jstr \<Rightarrow> jstr" where
  "strip_dashes s = (let a = (if take 1 s = [45] then drop 1 s else s) in
     if a \<noteq> [] \<and> last a = 45 then butlast a else a)"

definition slugify :: "(jstr \<Rightarrow> jstr) \<Rightarrow> jstr \<Rightarrow> jstr" where
  "slugify nfd s = strip_dashes (dash_runs (nfd s))"

datatype md_inline = Txt jstr | Link jstr jstr bool | Bold jstr | CodeSpan jstr

text \<open>A link \<open>[label](href)\<close> at the start of a text: label, address and what follows.\<close>

definition link_here :: "jstr \<Rightarrow> (jstr \<times> jstr \<times> jstr) option" where
  "link_here s = (if take 1 s \<noteq> [91] then None
     else let t = drop 1 s; label = takeWhile (\<lambda>c. c \<noteq> 93) t; r = dropWhile (\<lambda>c. c \<noteq> 93) t in
       if label = [] \<or> take 2 r \<noteq> [93, 40] then None
       else let u = drop 2 r; href = takeWhile (\<lambda>c. c \<noteq> 41) u; v = dropWhile (\<lambda>c. c \<noteq> 41) u in
         if href = [] \<or> v = [] then None else Some (label, href, drop 1 v))"

definition bold_here :: "jstr \<Rightarrow> (jstr \<times> jstr) option" where
  "bold_here s = (if take 2 s \<noteq> [42, 42] then None
     else let t = drop 2 s; b = takeWhile (\<lambda>c. c \<noteq> 42) t; r = dropWhile (\<lambda>c. c \<noteq> 42) t in
       if b = [] \<or> take 2 r \<noteq> [42, 42] then None else Some (b, drop 2 r))"

definition code_here :: "jstr \<Rightarrow> (jstr \<times> jstr) option" where
  "code_here s = (if take 1 s \<noteq> [96] then None
     else let t = drop 1 s; b = takeWhile (\<lambda>c. c \<noteq> 96) t; r = dropWhile (\<lambda>c. c \<noteq> 96) t in
       if b = [] \<or> r = [] then None else Some (b, drop 1 r))"

definition external :: "jstr \<Rightarrow> bool" where
  "external href \<longleftrightarrow> take 7 (to_lower href) = js ''http://'' \<or> take 8 (to_lower href) = js ''https://''"

definition match_here :: "jstr \<Rightarrow> (md_inline \<times> jstr) option" where
  "match_here s = (case link_here s of Some (label, href, r) \<Rightarrow> Some (Link label href (external href), r)
     | None \<Rightarrow> (case bold_here s of Some (b, r) \<Rightarrow> Some (Bold b, r)
       | None \<Rightarrow> (case code_here s of Some (c, r) \<Rightarrow> Some (CodeSpan c, r) | None \<Rightarrow> None)))"

definition flush :: "jstr \<Rightarrow> md_inline list" where
  "flush t = (if t = [] then [] else [Txt t])"

lemma link_here_shorter: "link_here s = Some (label, href, r) \<Longrightarrow> length r < length s"
proof -
  assume a: "link_here s = Some (label, href, r)"
  let ?u = "drop 2 (dropWhile (\<lambda>c. c \<noteq> 93) (drop 1 s))"
  have "r = drop 1 (dropWhile (\<lambda>c. c \<noteq> 41) ?u)" "take 1 s = [91]"
    using a by (auto simp: link_here_def Let_def split: if_splits)
  moreover have "length (dropWhile (\<lambda>c. c \<noteq> 41) ?u) \<le> length s - 1"
    using length_dropWhile_le [of _ ?u] length_dropWhile_le [of "\<lambda>c. c \<noteq> 93" "drop 1 s"]
    by (simp add: le_diff_conv) (meson diff_le_self dual_order.trans)
  ultimately show ?thesis by (cases s) auto
qed

lemma match_here_shorter: "match_here s = Some (x, r) \<Longrightarrow> length r < length s"
proof -
  have d: "length (drop k (dropWhile p (drop j s))) \<le> length s - j" for k j p
    using length_dropWhile_le [of p "drop j s"] by simp
  assume "match_here s = Some (x, r)"
  then consider l h where "link_here s = Some (l, h, r)" | b where "bold_here s = Some (b, r)"
    | c where "code_here s = Some (c, r)"
    by (auto simp: match_here_def split: option.splits)
  then show ?thesis
  proof cases
    case 1
    then show ?thesis by (rule link_here_shorter)
  next
    case 2
    then have "take 2 s = [42, 42]" "r = drop 2 (dropWhile (\<lambda>c. c \<noteq> 42) (drop 2 s))"
      by (auto simp: bold_here_def Let_def split: if_splits)
    then have "length r \<le> length s - 2" "s \<noteq> []" using d [of 2 "\<lambda>c. c \<noteq> 42" 2] by auto
    then show ?thesis by (cases s) auto
  next
    case 3
    then have "take 1 s = [96]" "r = drop 1 (dropWhile (\<lambda>c. c \<noteq> 96) (drop 1 s))"
      by (auto simp: code_here_def Let_def split: if_splits)
    then have "length r \<le> length s - 1" "s \<noteq> []" using d [of 1 "\<lambda>c. c \<noteq> 96" 1] by auto
    then show ?thesis by (cases s) auto
  qed
qed

function inline_from :: "jstr \<Rightarrow> jstr \<Rightarrow> md_inline list" where
  "inline_from acc [] = flush acc"
| "inline_from acc (c # cs) = (case match_here (c # cs) of
       Some (x, r) \<Rightarrow> flush acc @ x # inline_from [] r
     | None \<Rightarrow> inline_from (acc @ [c]) cs)"
  by pat_completeness auto
termination
  by (relation "measure (\<lambda>(acc, s). length s)") (use match_here_shorter in \<open>force+\<close>)

definition inline :: "jstr \<Rightarrow> md_inline list" where
  "inline text = inline_from [] text"

text \<open>\<open>replace(/\[([^\]]+)\]\([^)]+\)/g, "$1")\<close>.\<close>

function strip_links :: "jstr \<Rightarrow> jstr" where
  "strip_links [] = []"
| "strip_links (c # cs) = (case link_here (c # cs) of
       Some (label, href, r) \<Rightarrow> label @ strip_links r
     | None \<Rightarrow> c # strip_links cs)"
  by pat_completeness auto
termination by (relation "measure length") (use link_here_shorter in \<open>force+\<close>)


subsection \<open>The lines\<close>

fun crlf_to_lf :: "jstr \<Rightarrow> jstr" where
  "crlf_to_lf (c # d # cs) = (if c = 13 \<and> d = 10 then 10 # crlf_to_lf cs else c # crlf_to_lf (d # cs))"
| "crlf_to_lf s = s"

text \<open>The tests of the code on a line, each with its regular expression or prefix.\<close>

definition is_dot :: "nat \<Rightarrow> bool" where
  "is_dot c \<longleftrightarrow> c \<notin> {10, 13, 8232, 8233}"

definition hr_line :: "jstr \<Rightarrow> bool" where
  "hr_line t \<longleftrightarrow> 3 \<le> length t \<and> list_all (\<lambda>c. c = 45) t"

definition after_ws :: "jstr \<Rightarrow> jstr option" where
  "after_ws r = (let w = takeWhile is_ws r; t = dropWhile is_ws r in
     if w = [] then None
     else if t \<noteq> [] then (if list_all is_dot t then Some t else None)
     else if 2 \<le> length w \<and> is_dot (last w) then Some [last w] else None)"

definition hashes :: "jstr \<Rightarrow> nat" where
  "hashes line = length (takeWhile (\<lambda>c. c = 35) line)"

definition heading :: "jstr \<Rightarrow> (nat \<times> jstr) option" where
  "heading line = (let n = hashes line in
     if 1 \<le> n \<and> n \<le> 4 then map_option (\<lambda>t. (n, t)) (after_ws (drop n line)) else None)"

definition quote_line :: "jstr \<Rightarrow> bool" where
  "quote_line l \<longleftrightarrow> take 2 (trim_start l) = [62, 32]"

definition quote_text :: "jstr \<Rightarrow> jstr" where
  "quote_text l = (case trim_start l of c # r \<Rightarrow> if c \<noteq> 62 then l
       else (case r of d # q \<Rightarrow> if is_ws d then q else r | [] \<Rightarrow> []) | [] \<Rightarrow> l)"

definition table_line :: "jstr \<Rightarrow> bool" where
  "table_line l \<longleftrightarrow> take 1 (trim l) = [124]"

definition rule_row :: "jstr \<Rightarrow> bool" where
  "rule_row raw \<longleftrightarrow> 3 \<le> length raw \<and> hd raw = 124 \<and> last raw = 124
     \<and> list_all (\<lambda>c. is_ws c \<or> c = 45 \<or> c = 58 \<or> c = 124) (butlast (tl raw))"

definition row_cells :: "jstr \<Rightarrow> jstr list" where
  "row_cells raw = (let a = (if take 1 raw = [124] then drop 1 raw else raw);
       b = (if a \<noteq> [] \<and> last a = 124 then butlast a else a) in map trim (split_on 124 b))"

definition bullet :: "jstr \<Rightarrow> bool" where
  "bullet l \<longleftrightarrow> (case l of c # d # r \<Rightarrow> (c = 45 \<or> c = 42) \<and> is_ws d | _ \<Rightarrow> False)"

definition numbered :: "jstr \<Rightarrow> bool" where
  "numbered l \<longleftrightarrow> takeWhile is_digit l \<noteq> [] \<and> (case dropWhile is_digit l of c # d # r \<Rightarrow> c = 46 \<and> is_ws d | _ \<Rightarrow> False)"

definition item_text :: "bool \<Rightarrow> jstr \<Rightarrow> jstr" where
  "item_text ordered l = (if ordered then dropWhile is_ws (drop 1 (dropWhile is_digit l)) else dropWhile is_ws (drop 1 l))"

definition fence :: "jstr \<Rightarrow> bool" where
  "fence l \<longleftrightarrow> take 3 l = [96, 96, 96]"

text \<open>\<open>/^(#{1,4}\s|---|```|> |\||[-*]\s|\d+\.\s)/\<close>, at which a paragraph stops.\<close>

definition hash_ws :: "jstr \<Rightarrow> bool" where
  "hash_ws l \<longleftrightarrow> 1 \<le> hashes l \<and> hashes l \<le> 4 \<and> (case drop (hashes l) l of c # r \<Rightarrow> is_ws c | [] \<Rightarrow> False)"

definition para_stop :: "jstr \<Rightarrow> bool" where
  "para_stop l \<longleftrightarrow> hash_ws l \<or> take 3 l = [45, 45, 45] \<or> fence l \<or> take 2 l = [62, 32] \<or> take 1 l = [124]
     \<or> bullet l \<or> numbered l"

definition para_line :: "jstr \<Rightarrow> bool" where
  "para_line l \<longleftrightarrow> trim l \<noteq> [] \<and> \<not> para_stop l"


subsection \<open>The blocks\<close>

datatype md_block = Hr
  | Heading nat jstr "md_inline list"
  | Quote "md_inline list"
  | Table "md_inline list list" "md_inline list list list"
  | Items bool "md_inline list list"
  | Code jstr jstr
  | Para "md_inline list"

definition joined :: "nat \<Rightarrow> jstr list \<Rightarrow> jstr" where
  "joined k ls = (case ls of [] \<Rightarrow> [] | l # r \<Rightarrow> l @ concat (map (\<lambda>x. k # x) r))"

definition heading_block :: "(jstr \<Rightarrow> jstr) \<Rightarrow> nat \<Rightarrow> jstr \<Rightarrow> md_block" where
  "heading_block nfd n t = (let text = trim t in Heading n (slugify nfd (strip_links text)) (inline text))"

text \<open>One turn of the main loop: the block it pushes, if any, and the lines left.\<close>

definition md_step :: "(jstr \<Rightarrow> jstr) \<Rightarrow> jstr \<Rightarrow> jstr list \<Rightarrow> md_block option \<times> jstr list" where
  "md_step nfd line rest =
     (if trim line = [] then (None, rest)
      else if hr_line (trim line) then (Some Hr, rest)
      else case heading line of
        Some (n, t) \<Rightarrow> (Some (heading_block nfd n t), rest)
      | None \<Rightarrow>
        if quote_line line then
          (Some (Quote (inline (joined 32 (map quote_text (takeWhile quote_line (line # rest)))))),
           dropWhile quote_line (line # rest))
        else if table_line line then
          (case map row_cells (filter (\<lambda>r. \<not> rule_row r) (map trim (takeWhile table_line (line # rest)))) of
             [] \<Rightarrow> None | h # body \<Rightarrow> Some (Table (map inline h) (map (map inline) body)),
           dropWhile table_line (line # rest))
        else if bullet line \<or> numbered line then
          (let ordered = numbered line; p = (if ordered then numbered else bullet) in
           (Some (Items ordered (map (\<lambda>l. inline (item_text ordered l)) (takeWhile p (line # rest)))),
            dropWhile p (line # rest)))
        else if fence line then
          (Some (Code (trim (drop 3 line)) (joined 10 (takeWhile (\<lambda>l. \<not> fence l) rest))),
           drop 1 (dropWhile (\<lambda>l. \<not> fence l) rest))
        else (Some (Para (inline (joined 32 (takeWhile para_line (line # rest))))),
              dropWhile para_line (line # rest)))"

fun md_loop :: "nat \<Rightarrow> (jstr \<Rightarrow> jstr) \<Rightarrow> jstr list \<Rightarrow> md_block list option" where
  "md_loop n nfd [] = Some []"
| "md_loop 0 nfd (line # rest) = None"
| "md_loop (Suc n) nfd (line # rest) = (case md_step nfd line rest of (b, ls) \<Rightarrow>
     map_option (\<lambda>bs. (case b of Some x \<Rightarrow> x # bs | None \<Rightarrow> bs)) (md_loop n nfd ls))"

definition MarkdownLite :: "nat \<Rightarrow> (jstr \<Rightarrow> jstr) \<Rightarrow> jstr \<Rightarrow> md_block list option" where
  "MarkdownLite n nfd source = md_loop n nfd (split_on 10 (crlf_to_lf source))"


subsection \<open>The table of contents\<close>

definition toc_entry :: "(jstr \<Rightarrow> jstr) \<Rightarrow> jstr \<Rightarrow> (jstr \<times> jstr) option" where
  "toc_entry nfd line = (if take 2 line \<noteq> [35, 35] then None
     else case after_ws (drop 2 line) of None \<Rightarrow> None
     | Some t \<Rightarrow> let label = trim (strip_links t) in Some (strip_dashes (dash_runs (nfd label)), label))"

definition whitepaperToc :: "(jstr \<Rightarrow> jstr) \<Rightarrow> jstr \<Rightarrow> (jstr \<times> jstr) list" where
  "whitepaperToc nfd source = List.map_filter (toc_entry nfd) (split_on 10 source)"


subsection \<open>When the loop ends\<close>

text \<open>A line that stops a paragraph and that no other turn of the loop takes.\<close>

definition stuck :: "jstr \<Rightarrow> bool" where
  "stuck l \<longleftrightarrow> (take 3 l = [45, 45, 45] \<and> \<not> hr_line (trim l)) \<or> (hash_ws l \<and> heading l = None)"

lemma hash_ws_head: "hash_ws l \<Longrightarrow> \<exists>r. l = 35 # r"
  by (cases l) (auto simp: hash_ws_def hashes_def split: if_splits)

lemma not_ws_chars: "\<not> is_ws 35" "\<not> is_ws 45" "\<not> is_ws 62" "\<not> is_ws 124" "\<not> is_ws 96"
  by (simp_all add: is_ws_def)

lemma trim_start_Cons [simp]: "\<not> is_ws c \<Longrightarrow> trim_start (c # r) = c # r"
  by (simp add: trim_start_def)

lemma trim_Cons: "\<not> is_ws c \<Longrightarrow> trim (c # r) = c # trim_end r"
  by (simp add: trim_def trim_end_def dropWhile_append)

lemma para_stop_taken:
  assumes "para_stop l" "\<not> hr_line (trim l)" "heading l = None" "\<not> quote_line l" "\<not> table_line l"
    "\<not> bullet l" "\<not> numbered l" "\<not> fence l"
  shows "stuck l"
proof -
  have "take 2 l = [62, 32] \<Longrightarrow> quote_line l"
    by (cases l) (auto simp: quote_line_def not_ws_chars)
  moreover have "take 1 l = [124] \<Longrightarrow> table_line l"
    by (cases l) (auto simp: table_line_def trim_Cons not_ws_chars)
  ultimately show ?thesis using assms by (auto simp: para_stop_def stuck_def)
qed

lemma stuck_untaken:
  assumes "stuck l"
  shows "trim l \<noteq> [] \<and> \<not> hr_line (trim l) \<and> heading l = None \<and> \<not> quote_line l \<and> \<not> table_line l
    \<and> \<not> bullet l \<and> \<not> numbered l \<and> \<not> fence l \<and> \<not> para_line l"
  using assms unfolding stuck_def
proof (elim disjE conjE)
  assume d: "take 3 l = [45, 45, 45]" "\<not> hr_line (trim l)"
  then obtain r where l: "l = 45 # 45 # 45 # r" by (metis append_take_drop_id append_Cons append_Nil)
  show ?thesis
    using d by (simp add: l trim_Cons not_ws_chars heading_def hashes_def quote_line_def table_line_def bullet_def
      numbered_def fence_def para_line_def para_stop_def is_digit_def)
next
  assume h: "hash_ws l" "heading l = None"
  obtain r where l: "l = 35 # r" using hash_ws_head [OF h(1)] by blast
  show ?thesis
    using h by (auto simp: l trim_Cons not_ws_chars hr_line_def quote_line_def table_line_def bullet_def
      numbered_def fence_def para_line_def para_stop_def is_digit_def split: list.split)
qed

lemma md_step_stuck: "stuck l \<Longrightarrow> snd (md_step nfd l rest) = l # rest"
  using stuck_untaken [of l] by (simp add: md_step_def)

lemma dropWhile_first: "p l \<Longrightarrow> length (dropWhile p (l # rest)) \<le> length rest"
  by (simp add: length_dropWhile_le)

lemma md_step_shorter:
  assumes "\<not> stuck l"
  shows "length (snd (md_step nfd l rest)) \<le> length rest"
proof -
  have f: "length (drop 1 (dropWhile (\<lambda>x. \<not> fence x) rest)) \<le> length rest"
    using length_dropWhile_le [of "\<lambda>x. \<not> fence x" rest] by simp
  have p: "para_line l"
    if "trim l \<noteq> []" "\<not> hr_line (trim l)" "heading l = None" "\<not> quote_line l" "\<not> table_line l"
      "\<not> bullet l" "\<not> numbered l" "\<not> fence l"
    using para_stop_taken [OF _ that(2-)] assms that(1) by (auto simp: para_line_def)
  show ?thesis
    using f p length_dropWhile_le [of _ rest]
    by (simp add: md_step_def Let_def dropWhile_first split: option.split)
qed


lemma md_loop_stuck: "stuck l \<Longrightarrow> md_loop n nfd (l # rest) = None"
proof (induction n)
  case (Suc n)
  obtain b r where "md_step nfd l rest = (b, r)" by fastforce
  then show ?case using md_step_stuck [OF Suc.prems, of nfd rest] Suc by simp
qed simp

lemma md_loop_more: "md_loop n nfd ls = Some bs \<Longrightarrow> n \<le> m \<Longrightarrow> md_loop m nfd ls = Some bs"
proof (induction n nfd ls arbitrary: m bs rule: md_loop.induct)
  case (3 n nfd line rest)
  obtain b r where s: "md_step nfd line rest = (b, r)" by fastforce
  obtain k where m: "m = Suc k" "n \<le> k" using 3(3) by (cases m) auto
  obtain cs where cs: "md_loop n nfd r = Some cs" "bs = (case b of Some x \<Rightarrow> x # cs | None \<Rightarrow> cs)"
    using 3(2) s by auto
  then show ?case using 3(1) [OF s [symmetric] cs(1) m(2)] s m(1) by simp
qed auto

lemma md_loop_length: "md_loop n nfd ls = Some bs \<Longrightarrow> md_loop (length ls) nfd ls = Some bs"
proof (induction n nfd ls arbitrary: bs rule: md_loop.induct)
  case (3 n nfd line rest)
  obtain b r where s: "md_step nfd line rest = (b, r)" by fastforce
  have ns: "\<not> stuck line" using 3(2) md_loop_stuck [of line "Suc n" nfd rest] by auto
  obtain cs where cs: "md_loop n nfd r = Some cs" "bs = (case b of Some x \<Rightarrow> x # cs | None \<Rightarrow> cs)"
    using 3(2) s by auto
  have "md_loop (length r) nfd r = Some cs" using 3(1) [OF s [symmetric]] cs(1) by simp
  then have "md_loop (length rest) nfd r = Some cs"
    using md_step_shorter [OF ns, of nfd rest] s by (auto intro: md_loop_more)
  then show ?case using s cs(2) by simp
qed auto

lemma md_step_suffix: "set (snd (md_step nfd line rest)) \<subseteq> set (line # rest)"
proof -
  have "set (dropWhile p (line # rest)) \<subseteq> set (line # rest)" for p
    by (meson set_dropWhileD subsetI)
  moreover have "set (drop 1 (dropWhile p rest)) \<subseteq> set rest" for p
    by (meson in_set_dropD set_dropWhileD subsetI)
  ultimately show ?thesis
    by (auto simp: md_step_def Let_def split: option.split dest: in_set_dropD set_dropWhileD)
qed

lemma md_loop_ends:
  "\<forall>l \<in> set ls. \<not> stuck l \<Longrightarrow> length ls \<le> n \<Longrightarrow> \<exists>bs. md_loop n nfd ls = Some bs"
proof (induction n nfd ls rule: md_loop.induct)
  case (3 n nfd line rest)
  obtain b r where s: "md_step nfd line rest = (b, r)" by fastforce
  have "length r \<le> n" using md_step_shorter [of line nfd rest] 3(2,3) s by simp
  moreover have "\<forall>l \<in> set r. \<not> stuck l" using md_step_suffix [of nfd line rest] 3(2) s by auto
  ultimately obtain bs where "md_loop n nfd r = Some bs" using 3(1) [OF s [symmetric]] by blast
  then show ?case using s by simp
qed auto


subsection \<open>Headings and the table of contents\<close>

lemma heading_head: "heading l = Some x \<Longrightarrow> \<exists>r. l = 35 # r"
  by (cases l) (auto simp: heading_def hashes_def Let_def split: if_splits)

lemma no_heading:
  "trim l = [] \<Longrightarrow> heading l = None" "hr_line (trim l) \<Longrightarrow> heading l = None"
  "quote_line l \<Longrightarrow> heading l = None" "table_line l \<Longrightarrow> heading l = None"
  "bullet l \<Longrightarrow> heading l = None" "numbered l \<Longrightarrow> heading l = None"
  using heading_head [of l] by (cases "heading l"; force simp: trim_Cons not_ws_chars hr_line_def
    quote_line_def table_line_def bullet_def numbered_def is_digit_def split: list.splits)+

lemma after_ws_head: "after_ws r = Some t \<Longrightarrow> \<exists>c q. r = c # q \<and> is_ws c"
  by (cases r) (auto simp: after_ws_def Let_def split: if_splits)

lemma heading_hash_ws: "heading l = Some x \<Longrightarrow> hash_ws l"
  by (auto simp: heading_def hash_ws_def Let_def split: if_splits dest!: after_ws_head)

lemma para_line_heading: "para_line l \<Longrightarrow> heading l = None"
  using heading_hash_ws by (cases "heading l") (auto simp: para_line_def para_stop_def)

definition headings :: "md_block list \<Rightarrow> md_block list" where
  "headings bs = filter (\<lambda>b. case b of Heading n i t \<Rightarrow> True | _ \<Rightarrow> False) bs"

definition heading_lines :: "jstr list \<Rightarrow> (nat \<times> jstr) list" where
  "heading_lines ls = List.map_filter heading ls"

lemma heading_lines_simps [simp]:
  "heading_lines [] = []"
  "heading_lines (l # ls) = (case heading l of None \<Rightarrow> heading_lines ls | Some x \<Rightarrow> x # heading_lines ls)"
  by (simp_all add: heading_lines_def split: option.split)

lemma heading_lines_drop:
  "(\<And>l. p l \<Longrightarrow> heading l = None) \<Longrightarrow> heading_lines (dropWhile p ls) = heading_lines ls"
  by (induction ls) auto

lemma md_step_headings:
  assumes "md_step nfd line rest = (b, r)" "\<not> fence line"
  shows "headings (case b of Some x \<Rightarrow> [x] | None \<Rightarrow> []) @ map (\<lambda>(n, t). heading_block nfd n t) (heading_lines r)
    = map (\<lambda>(n, t). heading_block nfd n t) (heading_lines (line # rest))"
proof -
  note d = heading_lines_drop [of quote_line "line # rest", OF no_heading(3)]
    heading_lines_drop [of table_line "line # rest", OF no_heading(4)]
    heading_lines_drop [of bullet "line # rest", OF no_heading(5)]
    heading_lines_drop [of numbered "line # rest", OF no_heading(6)]
    heading_lines_drop [of para_line "line # rest", OF para_line_heading]
  have h: "heading line = None \<Longrightarrow> heading_lines (line # ls) = heading_lines ls"
    "heading line = Some x \<Longrightarrow> heading_lines (line # ls) = x # heading_lines ls" for x ls by simp_all
  show ?thesis
    using assms d no_heading(1,2) [of line]
    by (auto simp: h md_step_def headings_def heading_block_def Let_def simp del: dropWhile.simps heading_lines_simps(2)
        split: if_splits option.splits list.splits)
qed


lemma md_loop_headings:
  "md_loop n nfd ls = Some bs \<Longrightarrow> \<forall>l \<in> set ls. \<not> fence l
     \<Longrightarrow> headings bs = map (\<lambda>(n, t). heading_block nfd n t) (heading_lines ls)"
proof (induction n nfd ls arbitrary: bs rule: md_loop.induct)
  case (3 n nfd line rest)
  obtain b r where s: "md_step nfd line rest = (b, r)" by fastforce
  obtain cs where cs: "md_loop n nfd r = Some cs" "bs = (case b of Some x \<Rightarrow> x # cs | None \<Rightarrow> cs)"
    using 3(2) s by auto
  have "\<forall>l \<in> set r. \<not> fence l" using md_step_suffix [of nfd line rest] 3(3) s by auto
  then have "headings cs = map (\<lambda>(n, t). heading_block nfd n t) (heading_lines r)"
    using 3(1) [OF s [symmetric] cs(1)] by simp
  moreover have "headings bs = headings (case b of Some x \<Rightarrow> [x] | None \<Rightarrow> []) @ headings cs"
    by (simp add: cs(2) headings_def split: option.split)
  ultimately show ?case using md_step_headings [OF s] 3(3) by simp
qed (simp_all add: headings_def)

text \<open>A slug does not depend on what surrounds the text, as long as it has no letter or digit.\<close>

definition bare :: "jstr \<Rightarrow> bool" where
  "bare s \<longleftrightarrow> list_all (\<lambda>c. \<not> alnum c) s"

definition drop_dash :: "jstr \<Rightarrow> jstr" where
  "drop_dash x = (if x \<noteq> [] \<and> last x = 45 then butlast x else x)"

lemma alnum_dash [simp]: "\<not> alnum 45"
  by (simp add: alnum_def is_digit_def)

lemma bare_drop: "bare u \<Longrightarrow> dropWhile (\<lambda>x. \<not> alnum x) (u @ z) = dropWhile (\<lambda>x. \<not> alnum x) z"
  by (induction u) (auto simp: bare_def)

lemma slug_drop: "strip_dashes (dash_runs z) = drop_dash (dash_runs (dropWhile (\<lambda>x. \<not> alnum x) z))"
  by (cases z) (auto simp: strip_dashes_def drop_dash_def Let_def)

lemma dash_runs_bare: "bare v \<Longrightarrow> v \<noteq> [] \<Longrightarrow> dash_runs v = [45]"
  by (cases v) (auto simp: bare_def list_all_iff dropWhile_eq_Nil_conv [THEN iffD2])

lemma last_dash_runs: "y \<noteq> [] \<Longrightarrow> alnum (last y) \<Longrightarrow> dash_runs y \<noteq> [] \<and> last (dash_runs y) = last y"
proof (induction y rule: dash_runs.induct)
  case (2 c cs)
  show ?case
  proof (cases "alnum c")
    case True
    then show ?thesis using 2 by (cases cs) auto
  next
    case False
    let ?d = "dropWhile (\<lambda>x. \<not> alnum x) cs"
    have ne: "cs \<noteq> []" "alnum (last cs)" using 2(4) False by (auto split: if_splits)
    then have "\<exists>x \<in> set cs. alnum x" by (metis last_in_set)
    then have d: "?d \<noteq> []" by (simp add: dropWhile_eq_Nil_conv)
    have l: "last ?d = last cs" using d by (metis last_appendR takeWhile_dropWhile_id)
    have "dash_runs ?d \<noteq> [] \<and> last (dash_runs ?d) = last ?d"
      using 2(2) [OF False d] ne(2) unfolding l .
    then show ?thesis using ne(1) False by (simp add: l)
  qed
qed simp

lemma dash_runs_end:
  assumes "bare v"
  shows "drop_dash (dash_runs (y @ v)) = drop_dash (dash_runs y)"
proof (cases "v = []")
  case False
  have "dash_runs (y @ v) = dash_runs y @ (if y \<noteq> [] \<and> \<not> alnum (last y) then [] else [45])"
  proof (induction y rule: dash_runs.induct)
    case 1
    then show ?case using dash_runs_bare [OF assms False] by simp
  next
    case (2 c cs)
    show ?case
    proof (cases "alnum c")
      case True
      then show ?thesis using 2(1) by (cases cs) auto
    next
      case False
      let ?d = "dropWhile (\<lambda>x. \<not> alnum x) cs"
      show ?thesis
      proof (cases "\<exists>x \<in> set cs. alnum x")
        case True
        then have d: "?d \<noteq> []" "last ?d = last cs" "cs \<noteq> []"
          by (auto simp: dropWhile_eq_Nil_conv) (metis dropWhile_eq_Nil_conv last_appendR takeWhile_dropWhile_id)
        have "dropWhile (\<lambda>x. \<not> alnum x) (cs @ v) = ?d @ v" using True by (auto simp: dropWhile_append1)
        then show ?thesis using 2(2) [OF False] False d by simp
      next
        case none: False
        then have w: "dropWhile (\<lambda>x. \<not> alnum x) (cs @ v) = []" "?d = []" "\<not> alnum (last (c # cs))"
          using assms False by (auto simp: dropWhile_eq_Nil_conv bare_def list_all_iff)
        have "dash_runs ((c # cs) @ v) = [45]" "dash_runs (c # cs) = [45]"
          by (simp_all only: append_Cons dash_runs.simps False if_False w)
        then show ?thesis using w(3) by (simp only: append_Nil2) simp
      qed
    qed
  qed
  moreover have "alnum (last y) \<Longrightarrow> last y \<noteq> 45" using alnum_dash by metis
  ultimately show ?thesis
    using last_dash_runs [of y] by (cases "y = []") (auto simp: drop_dash_def split: if_splits)
qed simp

lemma slug_bare:
  assumes "bare u" "bare v"
  shows "strip_dashes (dash_runs (u @ z @ v)) = strip_dashes (dash_runs z)"
proof -
  let ?D = "dropWhile (\<lambda>x. \<not> alnum x)"
  have "drop_dash (dash_runs (?D (z @ v))) = drop_dash (dash_runs (?D z))"
  proof (cases "\<exists>x \<in> set z. alnum x")
    case True
    then have "?D (z @ v) = ?D z @ v" by (auto simp: dropWhile_append1)
    then show ?thesis using dash_runs_end [OF assms(2)] by simp
  next
    case False
    then have w: "?D (z @ v) = []" "?D z = []"
      using assms(2) by (auto simp: dropWhile_eq_Nil_conv bare_def list_all_iff)
    show ?thesis by (simp only: w)
  qed
  then show ?thesis unfolding slug_drop using bare_drop [OF assms(1)] by simp
qed

text \<open>Links are replaced inside white space.\<close>

definition blank :: "jstr \<Rightarrow> bool" where
  "blank s \<longleftrightarrow> list_all is_ws s"

lemma takeWhile_blank:
  assumes "blank v" "\<not> is_ws k"
  shows "k \<in> set t \<Longrightarrow> takeWhile (\<lambda>c. c \<noteq> k) (t @ v) = takeWhile (\<lambda>c. c \<noteq> k) t
      \<and> dropWhile (\<lambda>c. c \<noteq> k) (t @ v) = dropWhile (\<lambda>c. c \<noteq> k) t @ v"
    "k \<notin> set t \<Longrightarrow> dropWhile (\<lambda>c. c \<noteq> k) (t @ v) = [] \<and> dropWhile (\<lambda>c. c \<noteq> k) t = []"
proof -
  show "k \<in> set t \<Longrightarrow> takeWhile (\<lambda>c. c \<noteq> k) (t @ v) = takeWhile (\<lambda>c. c \<noteq> k) t
      \<and> dropWhile (\<lambda>c. c \<noteq> k) (t @ v) = dropWhile (\<lambda>c. c \<noteq> k) t @ v"
    by (auto simp: takeWhile_append1 dropWhile_append1)
  show "k \<notin> set t \<Longrightarrow> dropWhile (\<lambda>c. c \<noteq> k) (t @ v) = [] \<and> dropWhile (\<lambda>c. c \<noteq> k) t = []"
    using assms by (auto simp: dropWhile_eq_Nil_conv blank_def list_all_iff)
qed


lemma take2_blank:
  assumes "blank v" "\<not> is_ws a" "\<not> is_ws b"
  shows "take 2 (r @ v) = [a, b] \<longleftrightarrow> take 2 r = [a, b]"
proof (cases r)
  case Nil
  then show ?thesis using assms by (cases v) (auto simp: blank_def)
next
  case (Cons x r')
  then show ?thesis using assms by (cases r'; cases v) (auto simp: blank_def)
qed

lemma link_here_open: "dropWhile (\<lambda>c. c \<noteq> 93) (drop 1 s) = [] \<Longrightarrow> link_here s = None"
  unfolding link_here_def Let_def by (simp only:) simp

lemma link_here_unclosed:
  assumes "dropWhile (\<lambda>c. c \<noteq> 93) (drop 1 s) = 93 # 40 # u" "dropWhile (\<lambda>c. c \<noteq> 41) u = []"
  shows "link_here s = None"
proof -
  have "drop 2 (93 # 40 # u) = u" by simp
  then show ?thesis unfolding link_here_def Let_def assms(1) by (simp only: assms(2)) simp
qed

lemma link_here_blank:
  assumes v: "blank v"
  shows "link_here (s @ v) = map_option (\<lambda>(l, h, r). (l, h, r @ v)) (link_here s)"
proof (cases "take 1 s = [91]")
  case False
  then have "take 1 (s @ v) \<noteq> [91]"
    using v by (cases s; cases v) (auto simp: blank_def is_ws_def)
  then show ?thesis using False by (simp only: link_here_def) simp
next
  case True
  then obtain t where s: "s = 91 # t" by (cases s) auto
  have k: "\<not> is_ws 93" "\<not> is_ws 40" "\<not> is_ws 41" by (simp_all add: is_ws_def)
  let ?r = "dropWhile (\<lambda>c. c \<noteq> 93) t"
  show ?thesis
  proof (cases "93 \<in> set t")
    case False
    then have "link_here (s @ v) = None" "link_here s = None"
      using takeWhile_blank(2) [OF v k(1) False] by (intro link_here_open; simp add: s)+
    then show ?thesis by simp
  next
    case in93: True
    note t = takeWhile_blank(1) [OF v k(1) in93]
    show ?thesis
    proof (cases "take 2 ?r = [93, 40]")
      case False
      then show ?thesis using t take2_blank [OF v k(1,2), of ?r] by (simp add: s link_here_def)
    next
      case True
      then obtain u where r: "?r = 93 # 40 # u" by (metis append_take_drop_id append_Cons append_Nil)
      show ?thesis
      proof (cases "41 \<in> set u")
        case False
        have "link_here (s @ v) = None"
          by (rule link_here_unclosed [of _ "u @ v"]) (use t r takeWhile_blank(2) [OF v k(3) False] in \<open>simp_all add: s\<close>)
        moreover have "link_here s = None"
          by (rule link_here_unclosed [of _ u]) (use r takeWhile_blank(2) [OF v k(3) False] in \<open>simp_all add: s\<close>)
        ultimately show ?thesis by simp
      next
        case in41: True
        then have "dropWhile (\<lambda>c. c \<noteq> 41) u \<noteq> []" by (auto simp: dropWhile_eq_Nil_conv)
        then show ?thesis using t r takeWhile_blank(1) [OF v k(3) in41] in41
          by (cases "dropWhile (\<lambda>c. c \<noteq> 41) u") (auto simp: s link_here_def Let_def)
      qed
    qed
  qed
qed

lemma strip_links_ws: "is_ws c \<Longrightarrow> strip_links (c # s) = c # strip_links s"
  by (auto simp: link_here_def is_ws_def)

lemma strip_links_blank_left: "blank u \<Longrightarrow> strip_links (u @ s) = u @ strip_links s"
  by (induction u) (auto simp: blank_def strip_links_ws simp del: strip_links.simps(2))

lemma strip_links_blank_right: "blank v \<Longrightarrow> strip_links (s @ v) = strip_links s @ v"
proof (induction s rule: strip_links.induct)
  case 1
  then show ?case using strip_links_blank_left [of v "[]"] by simp
next
  case (2 c cs)
  show ?case
  proof (cases "link_here (c # cs)")
    case None
    then show ?thesis using 2 link_here_blank [of v "c # cs"] by simp
  next
    case (Some x)
    then obtain l h r where x: "link_here (c # cs) = Some (l, h, r)" by (cases x) auto
    then show ?thesis using 2 link_here_blank [of v "c # cs"] by simp
  qed
qed

lemma trim_blank: "\<exists>u v. s = u @ trim s @ v \<and> blank u \<and> blank v"
proof -
  have "s = takeWhile is_ws s @ trim_start s" by (simp add: trim_start_def)
  moreover have "t = trim_end t @ rev (takeWhile is_ws (rev t))" for t
    by (metis trim_end_def rev_append rev_rev_ident takeWhile_dropWhile_id)
  moreover have "blank (takeWhile is_ws s)" "blank (rev (takeWhile is_ws (rev t)))" for t
    by (auto simp: blank_def list_all_iff dest: set_takeWhileD)
  ultimately show ?thesis unfolding trim_def by (metis append.assoc)
qed

lemma blank_trim: "blank u \<Longrightarrow> blank v \<Longrightarrow> trim (u @ y @ v) = trim y"
proof -
  assume b: "blank u" "blank v"
  have "trim_start (u @ z) = trim_start z" for z
    using b(1) by (simp add: trim_start_def dropWhile_append blank_def dropWhile_eq_Nil_conv list_all_iff)
  moreover have "trim_end (z @ v) = trim_end z" for z
    using b(2) by (simp add: trim_end_def dropWhile_append blank_def dropWhile_eq_Nil_conv list_all_iff)
  moreover have "trim_start (y @ v) = trim_start y @ v \<or> (trim_start y = [] \<and> blank (trim_start (y @ v)))"
    using b(2) by (auto simp: trim_start_def dropWhile_append blank_def list_all_iff dest: set_dropWhileD)
  moreover have "blank z \<Longrightarrow> trim_end z = []" for z
    by (auto simp: trim_end_def dropWhile_eq_Nil_conv blank_def list_all_iff)
  ultimately show ?thesis
    by (auto simp: trim_def) (simp add: trim_end_def)
qed


text \<open>What the slugs need of the Unicode step: white space around a text stays outside it.\<close>

definition keeps_margins :: "(jstr \<Rightarrow> jstr) \<Rightarrow> bool" where
  "keeps_margins nfd \<longleftrightarrow> (\<forall>u y v. blank u \<and> blank v \<longrightarrow>
     (\<exists>u' v'. nfd (u @ y @ v) = u' @ nfd y @ v' \<and> bare u' \<and> bare v'))"

lemma slug_label:
  assumes "keeps_margins nfd"
  shows "slugify nfd (strip_links (trim t)) = strip_dashes (dash_runs (nfd (trim (strip_links t))))"
proof -
  let ?y = "strip_links (trim t)"
  obtain u v where t: "t = u @ trim t @ v" "blank u" "blank v" using trim_blank by blast
  have "strip_links t = u @ ?y @ v"
    using strip_links_blank_left [OF t(2)] strip_links_blank_right [OF t(3)] t(1) by metis
  then have e: "trim (strip_links t) = trim ?y" using blank_trim [OF t(2,3)] by metis
  obtain u2 v2 where y: "?y = u2 @ trim ?y @ v2" "blank u2" "blank v2" using trim_blank by blast
  obtain u' v' where "nfd (u2 @ trim ?y @ v2) = u' @ nfd (trim ?y) @ v'" "bare u'" "bare v'"
    using assms y(2,3) unfolding keeps_margins_def by blast
  then have "strip_dashes (dash_runs (nfd ?y)) = strip_dashes (dash_runs (nfd (trim ?y)))"
    using slug_bare y(1) by metis
  then show ?thesis by (simp add: slugify_def e)
qed

lemma toc_entry_heading:
  assumes "keeps_margins nfd"
  shows "map_option fst (toc_entry nfd line) = (case heading line of
    Some (n, t) \<Rightarrow> if n = 2 then Some (slugify nfd (strip_links (trim t))) else None | None \<Rightarrow> None)"
proof (cases "take 2 line = [35, 35]")
  case False
  then have "heading line = Some (n, t) \<Longrightarrow> n \<noteq> 2" for n t
    by (cases line; cases "tl line") (auto simp: heading_def hashes_def Let_def split: if_splits)
  then show ?thesis using False by (auto simp: toc_entry_def split: option.split)
next
  case True
  then obtain r where l: "line = 35 # 35 # r" by (metis append_take_drop_id append_Cons append_Nil)
  show ?thesis
  proof (cases "after_ws r")
    case None
    have "heading line = Some (n, t) \<Longrightarrow> n \<noteq> 2" for n t
      using None by (cases r) (auto simp: l heading_def hashes_def Let_def split: if_splits)
    then show ?thesis using None by (auto simp: toc_entry_def l split: option.split)
  next
    case (Some t)
    then obtain c q where "r = c # q" "is_ws c" using after_ws_head by blast
    then have "hashes line = 2" by (auto simp: hashes_def l is_ws_def)
    then have "heading line = Some (2, t)" using Some by (simp add: heading_def l)
    then show ?thesis using Some slug_label [OF assms] by (simp add: toc_entry_def l Let_def)
  qed
qed

lemma crlf_none: "13 \<notin> set s \<Longrightarrow> crlf_to_lf s = s"
  by (induction s rule: crlf_to_lf.induct) auto


subsection \<open>Properties\<close>

text \<open>
  C34. The main loop ends, within as many turns as the source has lines, whenever no line is
  stuck: one that begins with three dashes without being a rule, or with one to four hashes and a
  space without being a heading. Any line the other tests take, or blank, or plain, is consumed.
\<close>

theorem markdown_ends:
  assumes "\<forall>l \<in> set (split_on 10 (crlf_to_lf source)).
      \<not> (take 3 l = js ''---'' \<and> \<not> hr_line (trim l)) \<and> \<not> (hash_ws l \<and> heading l = None)"
    and "length (split_on 10 (crlf_to_lf source)) \<le> n"
  shows "\<exists>bs. MarkdownLite n nfd source = Some bs"
  using md_loop_ends [of "split_on 10 (crlf_to_lf source)" n nfd] assms
  by (auto simp: MarkdownLite_def stuck_def js_eval)

theorem markdown_ends_witness:
  "\<exists>bs. MarkdownLite 1 (\<lambda>s. s) (js ''## The token'') = Some bs"
proof -
  have l: "split_on 10 (crlf_to_lf (js ''## The token'')) = [js ''## The token'']" by (simp add: js_eval)
  show ?thesis
    by (rule markdown_ends)
      (simp_all add: l, simp_all add: js_eval heading_def hashes_def after_ws_def is_ws_def is_dot_def Let_def)
qed

text \<open>
  A stuck line at which a block would begin is never passed: however many turns are given,
  the loop does not end (and the code pushes an empty paragraph at each).
\<close>

theorem markdown_hangs:
  assumes "take 3 l = js ''---''" "\<not> hr_line (trim l)"
  shows "md_loop n nfd (l # rest) = None"
  using md_loop_stuck [of l n nfd rest] assms by (simp add: stuck_def js_eval)

theorem markdown_hangs_witness: "MarkdownLite 1000 nfd (js ''---draft'') = None"
proof -
  have l: "split_on 10 (crlf_to_lf (js ''---draft'')) = [js ''---draft'']" by (simp add: js_eval)
  show ?thesis
    unfolding MarkdownLite_def l
    by (rule markdown_hangs) (simp_all add: js_eval hr_line_def trim_def trim_start_def trim_end_def is_ws_def)
qed




end
