(* ===== verification/WalletApp.thy ===== *)
theory WalletApp
  imports Wallet Json
begin

section \<open>The wallet's screens (\<open>components/wallet/wallet-app.tsx\<close>)\<close>

text \<open>
  \<open>WalletApp\<close> shows one of three screens: the account, the unlock form when a vault exists, and
  the onboarding otherwise. The account screen's own forms are in \<open>SendFlow\<close> and \<open>StakePanel\<close>;
  here it is what its lock and wipe buttons do. A handler that awaits the browser's cryptography
  or the wasm module leaves a job, with what it captured; jobs end in any order, after whatever
  the user did meanwhile. A screen that is left is unmounted: what a job then sets in it is lost,
  while what it sets in \<open>WalletApp\<close>, and in \<open>localStorage\<close>, is not. \<open>wa_mount\<close> numbers the
  screens mounted so far. \<open>of_priv\<close> is the wasm module's derivation of an account from a key.
\<close>

datatype stage = Choose | Create | Import

record unlock_view =
  uv_pw :: jstr
  uv_err :: jstr
  uv_busy :: bool

record onboarding =
  ob_stage :: stage
  ob_draft :: "account option"
  ob_priv :: jstr
  ob_pw :: jstr
  ob_pw2 :: jstr
  ob_saved :: bool
  ob_revealed :: bool
  ob_err :: jstr
  ob_busy :: bool

datatype wallet_view = AccountScreen | UnlockScreen unlock_view | OnboardScreen onboarding

datatype wallet_job =
    Unlocking nat "account res"
  | Drafting nat "account res"
  | Reading nat jstr jstr "account res"
  | Saving nat account jstr "nat list" "nat list"

record wallet_app =
  wa_ls :: storage
  wa_account :: "account option"
  wa_vaultExists :: bool
  wa_view :: wallet_view
  wa_mount :: nat
  wa_jobs :: "wallet_job list"
  wa_files :: "(jstr \<times> json) list"

definition fresh_unlock :: unlock_view where
  "fresh_unlock = \<lparr>uv_pw = [], uv_err = [], uv_busy = False\<rparr>"

definition fresh_onboarding :: onboarding where
  "fresh_onboarding = \<lparr>ob_stage = Choose, ob_draft = None, ob_priv = [], ob_pw = [], ob_pw2 = [],
     ob_saved = False, ob_revealed = False, ob_err = [], ob_busy = False\<rparr>"


subsection \<open>Which screen is shown\<close>

definition wanted_view :: "account option \<Rightarrow> bool \<Rightarrow> wallet_view" where
  "wanted_view acct vaultExists = (if acct \<noteq> None then AccountScreen
     else if vaultExists then UnlockScreen fresh_unlock else OnboardScreen fresh_onboarding)"

fun same_screen :: "wallet_view \<Rightarrow> wallet_view \<Rightarrow> bool" where
  "same_screen AccountScreen AccountScreen = True"
| "same_screen (UnlockScreen _) (UnlockScreen _) = True"
| "same_screen (OnboardScreen _) (OnboardScreen _) = True"
| "same_screen _ _ = False"

text \<open>React keeps the state of a screen that stays and mounts afresh one of another kind.\<close>

definition render :: "wallet_app \<Rightarrow> wallet_app" where
  "render w = (let v = wanted_view (wa_account w) (wa_vaultExists w)
     in if same_screen (wa_view w) v then w else w\<lparr>wa_view := v, wa_mount := Suc (wa_mount w)\<rparr>)"

definition wallet_start :: "storage \<Rightarrow> wallet_app" where
  "wallet_start ls = \<lparr>wa_ls = ls, wa_account = None, wa_vaultExists = hasVault ls,
     wa_view = wanted_view None (hasVault ls), wa_mount = 0, wa_jobs = [], wa_files = []\<rparr>"

text \<open>A state update of the unlock form, or of the onboarding, mounted as number \<open>m\<close>.\<close>

definition on_unlock :: "nat \<Rightarrow> (unlock_view \<Rightarrow> unlock_view) \<Rightarrow> wallet_app \<Rightarrow> wallet_app" where
  "on_unlock m f w = (case wa_view w of
       UnlockScreen u \<Rightarrow> if wa_mount w = m then w\<lparr>wa_view := UnlockScreen (f u)\<rparr> else w
     | _ \<Rightarrow> w)"

definition on_onboard :: "nat \<Rightarrow> (onboarding \<Rightarrow> onboarding) \<Rightarrow> wallet_app \<Rightarrow> wallet_app" where
  "on_onboard m f w = (case wa_view w of
       OnboardScreen ob \<Rightarrow> if wa_mount w = m then w\<lparr>wa_view := OnboardScreen (f ob)\<rparr> else w
     | _ \<Rightarrow> w)"

definition begin_job :: "wallet_job \<Rightarrow> wallet_app \<Rightarrow> wallet_app" where
  "begin_job j w = w\<lparr>wa_jobs := wa_jobs w @ [j]\<rparr>"


subsection \<open>WalletApp's own handlers\<close>

definition on_lock :: "wallet_app \<Rightarrow> wallet_app" where
  "on_lock w = (if wa_view w = AccountScreen then render (w\<lparr>wa_account := None\<rparr>) else w)"

definition wipe_account :: "wallet_app \<Rightarrow> wallet_app" where
  "wipe_account w = (if wa_view w = AccountScreen then (case clearVault (wa_ls w) of
       (Inl _, ls) \<Rightarrow> w\<lparr>wa_ls := ls\<rparr>
     | (Inr _, ls) \<Rightarrow> render (w\<lparr>wa_ls := ls, wa_vaultExists := False, wa_account := None\<rparr>)) else w)"

definition wipe_unlock :: "wallet_app \<Rightarrow> wallet_app" where
  "wipe_unlock w = (case wa_view w of
       UnlockScreen _ \<Rightarrow> (case clearVault (wa_ls w) of
           (Inl _, ls) \<Rightarrow> w\<lparr>wa_ls := ls\<rparr>
         | (Inr _, ls) \<Rightarrow> render (w\<lparr>wa_ls := ls, wa_vaultExists := False\<rparr>))
     | _ \<Rightarrow> w)"

definition on_ready :: "account \<Rightarrow> wallet_app \<Rightarrow> wallet_app" where
  "on_ready acct w = render (w\<lparr>wa_account := Some acct, wa_vaultExists := True\<rparr>)"


subsection \<open>The unlock form\<close>

definition accountFromPrivate :: "(jstr \<Rightarrow> account res) \<Rightarrow> jstr \<Rightarrow> account res" where
  "accountFromPrivate of_priv privHex = of_priv (trim privHex)"

definition type_unlock_pw :: "jstr \<Rightarrow> wallet_app \<Rightarrow> wallet_app" where
  "type_unlock_pw p w = on_unlock (wa_mount w) (uv_pw_update (\<lambda>_. p)) w"

definition unlock :: "webcrypto option \<Rightarrow> (jstr \<Rightarrow> account res) \<Rightarrow> wallet_app \<Rightarrow> wallet_app" where
  "unlock subtle of_priv w = (case wa_view w of
       UnlockScreen u \<Rightarrow> if uv_busy u \<or> uv_pw u = [] then w else
         begin_job (Unlocking (wa_mount w)
             (bind_res (unlockVault subtle (uv_pw u) (wa_ls w)) (accountFromPrivate of_priv)))
           (on_unlock (wa_mount w) (\<lambda>u. u\<lparr>uv_busy := True, uv_err := []\<rparr>) w)
     | _ \<Rightarrow> w)"

definition WRONG_PASSWORD :: jstr where
  "WRONG_PASSWORD = js ''wallet_app.unlock.error_wrong_password''"

definition unlock_settled :: "nat \<Rightarrow> account res \<Rightarrow> wallet_app \<Rightarrow> wallet_app" where
  "unlock_settled m r w = (case r of
       Inr acct \<Rightarrow> render ((on_unlock m (uv_busy_update (\<lambda>_. False)) w)\<lparr>wa_account := Some acct\<rparr>)
     | Inl _ \<Rightarrow> on_unlock m (\<lambda>u. u\<lparr>uv_err := WRONG_PASSWORD, uv_busy := False\<rparr>) w)"


subsection \<open>Onboarding\<close>

text \<open>Typing, the buttons that only change the form, and the backup file of the drafted key.\<close>

definition with_onboard :: "(onboarding \<Rightarrow> onboarding) \<Rightarrow> wallet_app \<Rightarrow> wallet_app" where
  "with_onboard f w = on_onboard (wa_mount w) f w"

definition type_priv :: "jstr \<Rightarrow> onboarding \<Rightarrow> onboarding" where
  "type_priv p ob = (if ob_stage ob = Import then ob\<lparr>ob_priv := p\<rparr> else ob)"

definition type_pw :: "jstr \<Rightarrow> onboarding \<Rightarrow> onboarding" where
  "type_pw p ob = (if ob_stage ob = Choose then ob else ob\<lparr>ob_pw := p\<rparr>)"

definition type_pw2 :: "jstr \<Rightarrow> onboarding \<Rightarrow> onboarding" where
  "type_pw2 p ob = (if ob_stage ob = Choose then ob else ob\<lparr>ob_pw2 := p\<rparr>)"

definition choose_import :: "onboarding \<Rightarrow> onboarding" where
  "choose_import ob = (if ob_stage ob = Choose then ob\<lparr>ob_stage := Import\<rparr> else ob)"

definition drafted :: "onboarding \<Rightarrow> account option" where
  "drafted ob = (if ob_stage ob = Create then ob_draft ob else None)"

definition go_back :: "onboarding \<Rightarrow> onboarding" where
  "go_back ob = (if ob_stage ob = Import \<or> drafted ob \<noteq> None then ob\<lparr>ob_stage := Choose\<rparr> else ob)"

definition toggle_saved :: "onboarding \<Rightarrow> onboarding" where
  "toggle_saved ob = (if drafted ob \<noteq> None then ob\<lparr>ob_saved := \<not> ob_saved ob\<rparr> else ob)"

definition toggle_revealed :: "onboarding \<Rightarrow> onboarding" where
  "toggle_revealed ob = (if drafted ob \<noteq> None then ob\<lparr>ob_revealed := \<not> ob_revealed ob\<rparr> else ob)"

definition backup_file :: "account \<Rightarrow> jstr \<times> json" where
  "backup_file acct = (js ''eav7-'' @ take 10 (eav7 acct) @ js ''.json'',
     JObj [(js ''chain'', JStr (js ''EAV7'')), (js ''privateKey'', JStr (privateKey acct)),
       (js ''evm'', JStr (evm acct)), (js ''eav7'', JStr (eav7 acct))])"

definition downloadBackup :: "wallet_app \<Rightarrow> wallet_app" where
  "downloadBackup w = (case wa_view w of
       OnboardScreen ob \<Rightarrow> (case drafted ob of None \<Rightarrow> w
         | Some acct \<Rightarrow> with_onboard (ob_saved_update (\<lambda>_. True)) (w\<lparr>wa_files := wa_files w @ [backup_file acct]\<rparr>))
     | _ \<Rightarrow> w)"

text \<open>Creating, importing and storing; \<open>finalize\<close> sees the passwords of the click.\<close>

definition startCreate :: "account res \<Rightarrow> wallet_app \<Rightarrow> wallet_app" where
  "startCreate made w = (case wa_view w of
       OnboardScreen ob \<Rightarrow> if ob_stage ob = Choose then begin_job (Drafting (wa_mount w) made) w else w
     | _ \<Rightarrow> w)"

definition draft_settled :: "nat \<Rightarrow> account res \<Rightarrow> wallet_app \<Rightarrow> wallet_app" where
  "draft_settled m made w = (case made of Inl _ \<Rightarrow> w
     | Inr acct \<Rightarrow> on_onboard m (\<lambda>ob. ob\<lparr>ob_draft := Some acct, ob_err := [], ob_stage := Create\<rparr>) w)"

definition PASSWORD_MIN :: jstr where "PASSWORD_MIN = js ''wallet_app.errors.password_min''"
definition PASSWORD_MISMATCH :: jstr where "PASSWORD_MISMATCH = js ''wallet_app.errors.password_mismatch''"
definition INVALID_KEY :: jstr where "INVALID_KEY = js ''wallet_app.import.error_invalid_key''"

definition finalize :: "nat \<Rightarrow> jstr \<Rightarrow> jstr \<Rightarrow> nat list \<Rightarrow> nat list \<Rightarrow> account \<Rightarrow> wallet_app \<Rightarrow> wallet_app" where
  "finalize m pw pw2 salt iv acct w =
     (if length pw < 6 then on_onboard m (ob_err_update (\<lambda>_. PASSWORD_MIN)) w
      else if pw \<noteq> pw2 then on_onboard m (ob_err_update (\<lambda>_. PASSWORD_MISMATCH)) w
      else begin_job (Saving m acct pw salt iv) (on_onboard m (\<lambda>ob. ob\<lparr>ob_busy := True, ob_err := []\<rparr>) w))"

definition save_settled :: "webcrypto option \<Rightarrow> nat \<Rightarrow> account \<Rightarrow> jstr \<Rightarrow> nat list \<Rightarrow> nat list \<Rightarrow> wallet_app \<Rightarrow> wallet_app" where
  "save_settled subtle m acct pw salt iv w = (case saveVault subtle salt iv (privateKey acct) pw (wa_ls w) of
       (Inr _, ls) \<Rightarrow> on_ready acct (w\<lparr>wa_ls := ls\<rparr>)
     | (Inl e, ls) \<Rightarrow> on_onboard m (\<lambda>ob. ob\<lparr>ob_err := e, ob_busy := False\<rparr>) (w\<lparr>wa_ls := ls\<rparr>))"

definition click_create :: "nat list \<Rightarrow> nat list \<Rightarrow> wallet_app \<Rightarrow> wallet_app" where
  "click_create salt iv w = (case wa_view w of
       OnboardScreen ob \<Rightarrow> (case drafted ob of None \<Rightarrow> w
         | Some acct \<Rightarrow> if \<not> ob_saved ob \<or> ob_busy ob then w
             else finalize (wa_mount w) (ob_pw ob) (ob_pw2 ob) salt iv acct w)
     | _ \<Rightarrow> w)"

definition submitImport :: "(jstr \<Rightarrow> account res) \<Rightarrow> wallet_app \<Rightarrow> wallet_app" where
  "submitImport of_priv w = (case wa_view w of
       OnboardScreen ob \<Rightarrow> if ob_stage ob \<noteq> Import \<or> ob_busy ob then w
         else begin_job (Reading (wa_mount w) (ob_pw ob) (ob_pw2 ob)
           (accountFromPrivate of_priv (trim (ob_priv ob)))) w
     | _ \<Rightarrow> w)"

definition import_settled :: "nat \<Rightarrow> jstr \<Rightarrow> jstr \<Rightarrow> nat list \<Rightarrow> nat list \<Rightarrow> account res \<Rightarrow> wallet_app \<Rightarrow> wallet_app" where
  "import_settled m pw pw2 salt iv r w = (case r of
       Inl _ \<Rightarrow> on_onboard m (ob_err_update (\<lambda>_. INVALID_KEY)) w
     | Inr acct \<Rightarrow> finalize m pw pw2 salt iv acct w)"

text \<open>The strength meter under the password field.\<close>

definition pwScore :: "jstr \<Rightarrow> nat" where
  "pwScore pw = min 4 (of_bool (6 \<le> length pw) + of_bool (10 \<le> length pw)
     + of_bool ((\<exists>c \<in> set pw. 65 \<le> c \<and> c \<le> 90) \<and> (\<exists>c \<in> set pw. 97 \<le> c \<and> c \<le> 122))
     + of_bool (\<exists>c \<in> set pw. is_digit c)
     + of_bool (\<exists>c \<in> set pw. \<not> (65 \<le> c \<and> c \<le> 90 \<or> 97 \<le> c \<and> c \<le> 122 \<or> is_digit c)))"


subsection \<open>Jobs and steps\<close>

fun settle_job :: "webcrypto option \<Rightarrow> nat list \<Rightarrow> nat list \<Rightarrow> wallet_job \<Rightarrow> wallet_app \<Rightarrow> wallet_app" where
  "settle_job subtle salt iv (Unlocking m r) w = unlock_settled m r w"
| "settle_job subtle salt iv (Drafting m made) w = draft_settled m made w"
| "settle_job subtle salt iv (Reading m pw pw2 r) w = import_settled m pw pw2 salt iv r w"
| "settle_job subtle salt iv (Saving m acct pw salt0 iv0) w = save_settled subtle m acct pw salt0 iv0 w"

definition end_job :: "webcrypto option \<Rightarrow> nat list \<Rightarrow> nat list \<Rightarrow> wallet_job \<Rightarrow> wallet_app \<Rightarrow> wallet_app" where
  "end_job subtle salt iv j w = settle_job subtle salt iv j (w\<lparr>wa_jobs := remove1 j (wa_jobs w)\<rparr>)"

definition onboard_edits :: "(onboarding \<Rightarrow> onboarding) set" where
  "onboard_edits = range type_priv \<union> range type_pw \<union> range type_pw2
     \<union> {choose_import, go_back, toggle_saved, toggle_revealed}"

inductive wallet_step :: "webcrypto option \<Rightarrow> (jstr \<Rightarrow> account res) \<Rightarrow> wallet_app \<Rightarrow> wallet_app \<Rightarrow> bool"
  for subtle of_priv where
  lock: "wallet_step subtle of_priv w (on_lock w)"
| wipe: "wallet_step subtle of_priv w (wipe_account w)"
| forget: "wallet_step subtle of_priv w (wipe_unlock w)"
| unlock_pw: "wallet_step subtle of_priv w (type_unlock_pw p w)"
| unlock: "wallet_step subtle of_priv w (unlock subtle of_priv w)"
| edit: "f \<in> onboard_edits \<Longrightarrow> wallet_step subtle of_priv w (with_onboard f w)"
| download: "wallet_step subtle of_priv w (downloadBackup w)"
| draft: "wallet_step subtle of_priv w (startCreate made w)"
| create: "wallet_step subtle of_priv w (click_create salt iv w)"
| submit_key: "wallet_step subtle of_priv w (submitImport of_priv w)"
| job_ends: "j \<in> set (wa_jobs w) \<Longrightarrow> wallet_step subtle of_priv w (end_job subtle salt iv j w)"

definition wallet_reach :: "webcrypto option \<Rightarrow> (jstr \<Rightarrow> account res) \<Rightarrow> storage \<Rightarrow> wallet_app \<Rightarrow> bool" where
  "wallet_reach subtle of_priv ls w \<longleftrightarrow> (wallet_step subtle of_priv)\<^sup>*\<^sup>* (wallet_start ls) w"


subsection \<open>The vault as a store with a flag\<close>

text \<open>
  \<open>WalletApp\<close> remembers whether there is a vault instead of asking again. What keeps the memory
  right is the contract of the store: a write that returns leaves a vault, a removal that returns
  leaves none, and a write or a removal that throws leaves the store alone.
\<close>

locale vault_store =
  fixes has :: "'s \<Rightarrow> bool"
    and put :: "'a \<Rightarrow> 's \<Rightarrow> unit res \<times> 's"
    and drop_it :: "'s \<Rightarrow> unit res \<times> 's"
  assumes put_ok: "put a s = (Inr u, s') \<Longrightarrow> has s'"
    and put_err: "put a s = (Inl e, s') \<Longrightarrow> s' = s"
    and drop_ok: "drop_it s = (Inr u, s') \<Longrightarrow> \<not> has s'"
    and drop_err: "drop_it s = (Inl e, s') \<Longrightarrow> s' = s"
begin

lemma flag_after_put: "flag = has s \<Longrightarrow> put a s = (r, s') \<Longrightarrow> (case r of Inr _ \<Rightarrow> True | Inl _ \<Rightarrow> flag) = has s'"
  by (cases r) (auto dest: put_ok put_err)

lemma flag_after_drop: "flag = has s \<Longrightarrow> drop_it s = (r, s') \<Longrightarrow> (case r of Inr _ \<Rightarrow> False | Inl _ \<Rightarrow> flag) = has s'"
  by (cases r) (auto dest: drop_ok drop_err)

end

interpretation browser: vault_store hasVault
  "\<lambda>(subtle, salt, iv, key, pw). saveVault subtle salt iv key pw" clearVault
  by unfold_locales (auto simp: saveVault_def clearVault_def hasVault_def split: sum.splits if_splits)

lemmas flag_after_save = browser.flag_after_put [of _ _ "(subtle, salt, iv, key, pw)" for subtle salt iv key pw, simplified]


subsection \<open>What every step keeps\<close>

definition saved_vault :: "webcrypto option \<Rightarrow> vault_item option \<Rightarrow> bool" where
  "saved_vault subtle v \<longleftrightarrow> (\<exists>key pw salt iv blob. v = Some (Vault blob) \<and> 6 \<le> length pw
     \<and> encryptKey subtle salt iv key pw = Inr blob)"

definition vault_known :: "webcrypto option \<Rightarrow> storage \<Rightarrow> storage \<Rightarrow> bool" where
  "vault_known subtle ls0 ls \<longleftrightarrow> ls_vault ls = ls_vault ls0 \<or> ls_vault ls = None \<or> saved_vault subtle (ls_vault ls)"

fun job_ok :: "wallet_job \<Rightarrow> bool" where
  "job_ok (Saving _ _ pw _ _) = (6 \<le> length pw)"
| "job_ok _ = True"

text \<open>A form that shows itself busy waits for a job of its own.\<close>

fun view_waits :: "nat \<Rightarrow> wallet_job list \<Rightarrow> wallet_view \<Rightarrow> bool" where
  "view_waits m jobs (UnlockScreen u) = (uv_busy u \<longrightarrow> (\<exists>r. Unlocking m r \<in> set jobs))"
| "view_waits m jobs (OnboardScreen ob) = (ob_busy ob \<longrightarrow> (\<exists>acct pw salt iv. Saving m acct pw salt iv \<in> set jobs))"
| "view_waits m jobs AccountScreen = True"

definition waits :: "wallet_job list \<Rightarrow> wallet_app \<Rightarrow> bool" where
  "waits jobs w \<longleftrightarrow> view_waits (wa_mount w) jobs (wa_view w)"

definition screen_shown :: "wallet_app \<Rightarrow> bool" where
  "screen_shown w \<longleftrightarrow> same_screen (wa_view w) (wanted_view (wa_account w) (wa_vaultExists w))"

definition wallet_ok :: "webcrypto option \<Rightarrow> storage \<Rightarrow> wallet_app \<Rightarrow> bool" where
  "wallet_ok subtle ls0 w \<longleftrightarrow> wa_vaultExists w = hasVault (wa_ls w) \<and> vault_known subtle ls0 (wa_ls w)
     \<and> (\<forall>j \<in> set (wa_jobs w). job_ok j) \<and> screen_shown w \<and> waits (wa_jobs w) w"

lemma same_screen_refl [simp]: "same_screen v v"
  by (cases v) simp_all

lemma screen_shown_iff: "screen_shown w \<longleftrightarrow> (if wa_account w \<noteq> None then wa_view w = AccountScreen
    else if wa_vaultExists w then \<exists>u. wa_view w = UnlockScreen u else \<exists>ob. wa_view w = OnboardScreen ob)"
  by (cases "wa_view w") (auto simp: screen_shown_def wanted_view_def)

lemma render_sel [simp]:
  "wa_ls (render w) = wa_ls w" "wa_account (render w) = wa_account w" "wa_jobs (render w) = wa_jobs w"
  "wa_vaultExists (render w) = wa_vaultExists w" "wa_files (render w) = wa_files w"
  by (simp_all add: render_def Let_def)

lemma render_shown [simp]: "screen_shown (render w)"
  by (simp add: render_def Let_def screen_shown_def)

lemma wanted_waits: "view_waits m jobs (wanted_view a v)"
  by (simp add: wanted_view_def fresh_unlock_def fresh_onboarding_def)

lemma render_waits [simp]: "waits jobs w \<Longrightarrow> waits jobs (render w)"
  by (simp add: waits_def render_def Let_def wanted_waits)

lemma render_account: "wa_account w \<noteq> None \<Longrightarrow> wa_view (render w) = AccountScreen"
  by (cases "wa_view w") (simp_all add: render_def Let_def wanted_view_def)

lemma render_account_waits [simp]: "wa_account w \<noteq> None \<Longrightarrow> waits jobs (render w)"
  by (simp add: waits_def render_account)

lemma on_sel [simp]:
  "wa_ls (on_unlock m f w) = wa_ls w" "wa_account (on_unlock m f w) = wa_account w" "wa_jobs (on_unlock m f w) = wa_jobs w"
  "wa_vaultExists (on_unlock m f w) = wa_vaultExists w" "wa_mount (on_unlock m f w) = wa_mount w"
  "wa_ls (on_onboard m g w) = wa_ls w" "wa_account (on_onboard m g w) = wa_account w" "wa_jobs (on_onboard m g w) = wa_jobs w"
  "wa_vaultExists (on_onboard m g w) = wa_vaultExists w" "wa_mount (on_onboard m g w) = wa_mount w"
  by (simp_all add: on_unlock_def on_onboard_def split: wallet_view.splits)

lemma on_shown [simp]: "screen_shown (on_unlock m f w) = screen_shown w" "screen_shown (on_onboard m g w) = screen_shown w"
  by (auto simp: screen_shown_iff on_unlock_def on_onboard_def split: wallet_view.splits)


lemma on_waits [simp]:
  "waits jobs w \<Longrightarrow> (\<forall>u. uv_busy (f u) \<longrightarrow> uv_busy u) \<Longrightarrow> waits jobs (on_unlock m f w)"
  "waits jobs w \<Longrightarrow> (\<forall>ob. ob_busy (g ob) \<longrightarrow> ob_busy ob) \<Longrightarrow> waits jobs (on_onboard m g w)"
  by (auto simp: waits_def on_unlock_def on_onboard_def split: wallet_view.splits)

lemma waits_append [simp]: "waits jobs w \<Longrightarrow> waits (jobs @ jobs') w"
  unfolding waits_def by (cases "wa_view w") auto

lemma waits_mono: "set jobs \<subseteq> set jobs' \<Longrightarrow> waits jobs w \<Longrightarrow> waits jobs' w"
  unfolding waits_def by (cases "wa_view w") (simp_all, blast+)

lemma waits_own_job [simp]:
  "waits jobs w \<Longrightarrow> waits (jobs @ [Unlocking m r]) (on_unlock m f w)"
  "waits jobs w \<Longrightarrow> waits (jobs @ [Saving m acct pw salt iv]) (on_onboard m g w)"
  by (auto simp: waits_def on_unlock_def on_onboard_def split: wallet_view.splits)

lemma upd_sel [simp]:
  "waits jobs (w\<lparr>wa_ls := ls\<rparr>) = waits jobs w" "waits jobs (w\<lparr>wa_account := a\<rparr>) = waits jobs w"
  "waits jobs (w\<lparr>wa_vaultExists := v\<rparr>) = waits jobs w" "waits jobs (w\<lparr>wa_jobs := jobs'\<rparr>) = waits jobs w"
  "waits jobs (w\<lparr>wa_files := fs\<rparr>) = waits jobs w"
  "screen_shown (w\<lparr>wa_ls := ls\<rparr>) = screen_shown w" "screen_shown (w\<lparr>wa_jobs := jobs'\<rparr>) = screen_shown w"
  "screen_shown (w\<lparr>wa_files := fs\<rparr>) = screen_shown w"
  by (simp_all add: waits_def screen_shown_def)

lemma on_lock_ok: "wallet_ok subtle ls0 w \<Longrightarrow> wallet_ok subtle ls0 (on_lock w)"
  by (simp add: wallet_ok_def on_lock_def)

lemma vault_known_clear: "vault_known subtle ls0 ls \<Longrightarrow> clearVault ls = (r, ls') \<Longrightarrow> vault_known subtle ls0 ls'"
  by (auto simp: clearVault_def vault_known_def split: if_splits)

lemma vault_known_save: "vault_known subtle ls0 ls \<Longrightarrow> 6 \<le> length pw \<Longrightarrow> saveVault subtle salt iv key pw ls = (r, ls')
    \<Longrightarrow> vault_known subtle ls0 ls'"
  by (auto simp: saveVault_def vault_known_def saved_vault_def split: if_splits sum.splits)

lemma cleared:
  assumes "wallet_ok subtle ls0 w" "clearVault (wa_ls w) = (r, ls)"
  shows "vault_known subtle ls0 ls \<and> (case r of Inr _ \<Rightarrow> False | Inl _ \<Rightarrow> wa_vaultExists w) = hasVault ls"
proof -
  have "vault_known subtle ls0 (wa_ls w)" "wa_vaultExists w = hasVault (wa_ls w)"
    using assms(1) by (simp_all add: wallet_ok_def)
  then show ?thesis
    using vault_known_clear [OF _ assms(2)] browser.flag_after_drop [OF _ assms(2)] by blast
qed

lemma wipe_account_ok:
  assumes "wallet_ok subtle ls0 w"
  shows "wallet_ok subtle ls0 (wipe_account w)"
proof (cases "clearVault (wa_ls w)")
  case (Pair r ls)
  then show ?thesis
    using assms cleared [OF assms Pair] by (cases r) (simp_all add: wallet_ok_def wipe_account_def)
qed

lemma wipe_unlock_ok:
  assumes "wallet_ok subtle ls0 w"
  shows "wallet_ok subtle ls0 (wipe_unlock w)"
proof (cases "clearVault (wa_ls w)")
  case (Pair r ls)
  then show ?thesis
    using assms cleared [OF assms Pair] by (cases r) (simp_all add: wallet_ok_def wipe_unlock_def split: wallet_view.splits)
qed

lemma type_unlock_pw_ok: "wallet_ok subtle ls0 w \<Longrightarrow> wallet_ok subtle ls0 (type_unlock_pw p w)"
  by (simp add: wallet_ok_def type_unlock_pw_def)

lemma begin_sel [simp]:
  "wa_ls (begin_job j w) = wa_ls w" "wa_account (begin_job j w) = wa_account w"
  "wa_jobs (begin_job j w) = wa_jobs w @ [j]" "wa_view (begin_job j w) = wa_view w"
  "wa_vaultExists (begin_job j w) = wa_vaultExists w" "wa_mount (begin_job j w) = wa_mount w"
  "screen_shown (begin_job j w) = screen_shown w" "waits jobs (begin_job j w) = waits jobs w"
  by (simp_all add: begin_job_def)

lemma begin_ok: "wallet_ok subtle ls0 w \<Longrightarrow> job_ok j \<Longrightarrow> wallet_ok subtle ls0 (begin_job j w)"
  by (auto simp: wallet_ok_def)

lemma unlock_ok: "wallet_ok subtle ls0 w \<Longrightarrow> wallet_ok subtle ls0 (unlock subtle of_priv w)"
  by (auto simp: wallet_ok_def unlock_def split: wallet_view.split)

lemma onboard_ok:
  "wallet_ok subtle ls0 w \<Longrightarrow> (\<forall>ob. ob_busy (g ob) \<longrightarrow> ob_busy ob) \<Longrightarrow> wallet_ok subtle ls0 (on_onboard m g w)"
  by (simp add: wallet_ok_def)

lemma edit_busy: "f \<in> onboard_edits \<Longrightarrow> ob_busy (f ob) = ob_busy ob"
  unfolding onboard_edits_def
  by (auto simp: type_priv_def type_pw_def type_pw2_def choose_import_def go_back_def
      toggle_saved_def toggle_revealed_def split: if_splits)

lemma edit_ok: "wallet_ok subtle ls0 w \<Longrightarrow> f \<in> onboard_edits \<Longrightarrow> wallet_ok subtle ls0 (with_onboard f w)"
  unfolding with_onboard_def by (rule onboard_ok) (auto dest: edit_busy)

lemma files_ok [simp]: "wallet_ok subtle ls0 (w\<lparr>wa_files := fs\<rparr>) = wallet_ok subtle ls0 w"
  by (simp add: wallet_ok_def)

lemma download_ok: "wallet_ok subtle ls0 w \<Longrightarrow> wallet_ok subtle ls0 (downloadBackup w)"
  by (auto simp: downloadBackup_def with_onboard_def intro!: onboard_ok split: wallet_view.split option.split)

lemma startCreate_ok: "wallet_ok subtle ls0 w \<Longrightarrow> wallet_ok subtle ls0 (startCreate made w)"
  by (simp add: startCreate_def begin_ok split: wallet_view.split)

lemma finalize_ok: "wallet_ok subtle ls0 w \<Longrightarrow> wallet_ok subtle ls0 (finalize m pw pw2 salt iv acct w)"
  by (auto simp: finalize_def wallet_ok_def)

lemma click_create_ok: "wallet_ok subtle ls0 w \<Longrightarrow> wallet_ok subtle ls0 (click_create salt iv w)"
  by (simp add: click_create_def finalize_ok split: wallet_view.split option.split)

lemma submitImport_ok: "wallet_ok subtle ls0 w \<Longrightarrow> wallet_ok subtle ls0 (submitImport of_priv w)"
  by (simp add: submitImport_def begin_ok split: wallet_view.split)

text \<open>A job that ends is no longer waited for: what it does frees its own form.\<close>

lemma wallet_ok_remove1:
  assumes "wallet_ok subtle ls0 w" "j \<in> set (wa_jobs w)"
  defines "w' \<equiv> w\<lparr>wa_jobs := remove1 j (wa_jobs w)\<rparr>"
  shows "wa_vaultExists w' = hasVault (wa_ls w') \<and> vault_known subtle ls0 (wa_ls w')
    \<and> (\<forall>j \<in> set (wa_jobs w'). job_ok j) \<and> screen_shown w' \<and> waits (j # wa_jobs w') w' \<and> job_ok j"
proof -
  have sub: "set (remove1 j (wa_jobs w)) \<subseteq> set (wa_jobs w)" by (rule set_remove1_subset)
  have "set (wa_jobs w) \<subseteq> set (j # remove1 j (wa_jobs w))"
    using set_remove1_cover by simp
  then have "waits (j # remove1 j (wa_jobs w)) w"
    using assms(1) waits_mono unfolding wallet_ok_def by blast
  then show ?thesis
    using assms(1,2) sub by (auto simp: w'_def wallet_ok_def)
qed

lemma waits_settled:
  "waits (Unlocking m r # jobs) w \<Longrightarrow> (\<forall>u. \<not> uv_busy (f u)) \<Longrightarrow> waits jobs (on_unlock m f w)"
  "waits (Saving m acct pw salt iv # jobs) w \<Longrightarrow> (\<forall>ob. \<not> ob_busy (g ob)) \<Longrightarrow> waits jobs (on_onboard m g w)"
  "waits (Drafting m made # jobs) w = waits jobs w" "waits (Reading m pw pw2 r # jobs) w = waits jobs w"
  by (auto simp: waits_def on_unlock_def on_onboard_def split: wallet_view.splits) (cases "wa_view w"; auto)+


lemma draft_settled_ok: "wallet_ok subtle ls0 w \<Longrightarrow> wallet_ok subtle ls0 (draft_settled m made w)"
  by (auto simp: draft_settled_def intro!: onboard_ok split: sum.split)

lemma import_settled_ok: "wallet_ok subtle ls0 w \<Longrightarrow> wallet_ok subtle ls0 (import_settled m pw pw2 salt iv r w)"
  by (auto simp: import_settled_def intro!: onboard_ok finalize_ok split: sum.split)

lemma save_settled_ok:
  assumes "wa_vaultExists w = hasVault (wa_ls w)" "vault_known subtle ls0 (wa_ls w)" "6 \<le> length pw"
    and "\<forall>j \<in> set (wa_jobs w). job_ok j" "screen_shown w" "waits (Saving m acct pw salt iv # wa_jobs w) w"
  shows "wallet_ok subtle ls0 (save_settled subtle m acct pw salt iv w)"
proof (cases "saveVault subtle salt iv (privateKey acct) pw (wa_ls w)")
  case (Pair r ls)
  have known: "vault_known subtle ls0 ls"
    by (rule vault_known_save [OF assms(2,3) Pair])
  have flag: "(case r of Inr _ \<Rightarrow> True | Inl _ \<Rightarrow> wa_vaultExists w) = hasVault ls"
    by (rule flag_after_save [OF assms(1) Pair])
  show ?thesis
  proof (cases r)
    case (Inl e)
    have "waits (wa_jobs w) (on_onboard m (\<lambda>ob. ob\<lparr>ob_err := e, ob_busy := False\<rparr>) (w\<lparr>wa_ls := ls\<rparr>))"
      by (rule waits_settled(2)) (use assms(6) in simp_all)
    then show ?thesis
      using assms known flag Pair Inl by (simp add: wallet_ok_def save_settled_def)
  next
    case (Inr u)
    then show ?thesis
      using assms known flag Pair by (simp add: wallet_ok_def save_settled_def on_ready_def)
  qed
qed


lemma unlock_settled_ok:
  assumes "wa_vaultExists w = hasVault (wa_ls w)" "vault_known subtle ls0 (wa_ls w)"
    and "\<forall>j \<in> set (wa_jobs w). job_ok j" "screen_shown w" "waits (Unlocking m r # wa_jobs w) w"
  shows "wallet_ok subtle ls0 (unlock_settled m r w)"
proof (cases r)
  case (Inl e)
  have "waits (wa_jobs w) (on_unlock m (\<lambda>u. u\<lparr>uv_err := WRONG_PASSWORD, uv_busy := False\<rparr>) w)"
    by (rule waits_settled(1)) (use assms(5) in simp_all)
  then show ?thesis
    using assms Inl by (simp add: wallet_ok_def unlock_settled_def)
next
  case (Inr acct)
  then show ?thesis
    using assms by (simp add: wallet_ok_def unlock_settled_def)
qed

lemma end_job_ok:
  assumes "wallet_ok subtle ls0 w" "j \<in> set (wa_jobs w)"
  shows "wallet_ok subtle ls0 (end_job subtle salt iv j w)"
proof (cases j)
  case (Unlocking m r)
  then show ?thesis
    using wallet_ok_remove1 [OF assms] by (simp add: end_job_def unlock_settled_ok)
next
  case (Saving m acct pw salt0 iv0)
  then show ?thesis
    using wallet_ok_remove1 [OF assms] unfolding end_job_def settle_job.simps by (auto intro!: save_settled_ok)
next
  case (Drafting m made)
  then have "wallet_ok subtle ls0 (w\<lparr>wa_jobs := remove1 j (wa_jobs w)\<rparr>)"
    using wallet_ok_remove1 [OF assms] by (simp add: wallet_ok_def waits_settled)
  then show ?thesis
    using Drafting by (simp add: end_job_def draft_settled_ok)
next
  case (Reading m pw pw2 r)
  then have "wallet_ok subtle ls0 (w\<lparr>wa_jobs := remove1 j (wa_jobs w)\<rparr>)"
    using wallet_ok_remove1 [OF assms] by (simp add: wallet_ok_def waits_settled)
  then show ?thesis
    using Reading by (simp add: end_job_def import_settled_ok)
qed

lemma wallet_start_ok: "wallet_ok subtle ls (wallet_start ls)"
  by (simp add: wallet_ok_def wallet_start_def vault_known_def screen_shown_def waits_def wanted_waits)

lemma wallet_step_ok:
  assumes "wallet_step subtle of_priv w w'" "wallet_ok subtle ls0 w"
  shows "wallet_ok subtle ls0 w'"
  using assms
  by cases (simp_all add: on_lock_ok wipe_account_ok wipe_unlock_ok type_unlock_pw_ok unlock_ok edit_ok
      download_ok startCreate_ok click_create_ok submitImport_ok end_job_ok)

lemma wallet_reach_ok: "wallet_reach subtle of_priv ls w \<Longrightarrow> wallet_ok subtle ls w"
  unfolding wallet_reach_def
  by (induction rule: rtranclp_induct) (auto intro: wallet_start_ok wallet_step_ok)


subsection \<open>Creating, locking, opening again\<close>

definition end_last :: "webcrypto option \<Rightarrow> wallet_app \<Rightarrow> wallet_app" where
  "end_last subtle w = end_job subtle [] [] (last (wa_jobs w)) w"

lemma click_create_saves:
  assumes "wa_view w = OnboardScreen ob" "drafted ob = Some acct" "ob_saved ob" "\<not> ob_busy ob"
    and "ob_pw2 ob = ob_pw ob" "6 \<le> length (ob_pw ob)"
  shows "\<exists>w'. click_create salt iv w = begin_job (Saving (wa_mount w) acct (ob_pw ob) salt iv) w'
    \<and> wa_ls w' = wa_ls w"
  using assms by (intro exI [of _ "on_onboard (wa_mount w) (\<lambda>ob. ob\<lparr>ob_busy := True, ob_err := []\<rparr>) w"])
    (simp add: click_create_def finalize_def)

lemma saved_and_shown:
  assumes "saveVault subtle salt iv (privateKey acct) pw (wa_ls w) = (Inr (), ls)"
    and "w' = end_last subtle (begin_job (Saving m acct pw salt iv) w)"
  shows "wa_account w' = Some acct" "wa_view w' = AccountScreen" "wa_ls w' = ls" "wa_vaultExists w'"
  using assms by (simp_all add: end_last_def end_job_def save_settled_def on_ready_def render_account)

lemma lock_shows_unlock:
  assumes "wa_view w = AccountScreen" "wa_vaultExists w"
  shows "wa_view (on_lock w) = UnlockScreen fresh_unlock" "wa_ls (on_lock w) = wa_ls w" "wa_account (on_lock w) = None"
  using assms by (simp_all add: on_lock_def render_def wanted_view_def)

lemma unlock_opens:
  assumes "wa_view w = UnlockScreen u" "\<not> uv_busy u" "pw \<noteq> []"
    and "unlockVault subtle pw (wa_ls w) = Inr key" "of_priv (trim key) = Inr acct"
  shows "wa_account (end_last subtle (unlock subtle of_priv (type_unlock_pw pw w))) = Some acct"
  using assms
  by (simp add: type_unlock_pw_def on_unlock_def unlock_def end_last_def end_job_def accountFromPrivate_def
      bind_res_def unlock_settled_def begin_job_def)

text \<open>The strength meter stays in its five colours, and an accepted password never scores zero.\<close>

lemma pwScore_bounds: "pwScore pw \<le> 4 \<and> (6 \<le> length pw \<longrightarrow> 1 \<le> pwScore pw)"
  by (simp add: pwScore_def)

text \<open>
  C20. Whatever the user does and in whatever order the jobs end, the screen is the account when one is
  open, the unlock form exactly when the browser holds a vault, and the onboarding otherwise; a
  vault that was not there at the start is the encryption of a key under a password of at least six
  characters; and a form that is busy has a job of its own under way.
\<close>

theorem wallet_screen_and_vault:
  assumes "wallet_reach subtle of_priv ls0 w"
  shows "wa_vaultExists w = hasVault (wa_ls w)
    \<and> (if wa_account w \<noteq> None then wa_view w = AccountScreen
       else if hasVault (wa_ls w) then \<exists>u. wa_view w = UnlockScreen u else \<exists>ob. wa_view w = OnboardScreen ob)
    \<and> (ls_vault (wa_ls w) = ls_vault ls0 \<or> ls_vault (wa_ls w) = None
       \<or> (\<exists>key pw salt iv blob. ls_vault (wa_ls w) = Some (Vault blob) \<and> 6 \<le> length pw
            \<and> encryptKey subtle salt iv key pw = Inr blob))
    \<and> view_waits (wa_mount w) (wa_jobs w) (wa_view w)"
proof -
  have ok: "wallet_ok subtle ls0 w"
    by (rule wallet_reach_ok [OF assms])
  then have "if wa_account w \<noteq> None then wa_view w = AccountScreen
      else if wa_vaultExists w then \<exists>u. wa_view w = UnlockScreen u else \<exists>ob. wa_view w = OnboardScreen ob"
    unfolding wallet_ok_def screen_shown_iff by blast
  then show ?thesis
    using ok unfolding wallet_ok_def vault_known_def saved_vault_def waits_def by simp
qed

definition demo_vault :: storage where
  "demo_vault = snd (saveVault (Some demo_crypto) [1, 2] [3] (js ''0x1f2e'') (js ''secret'') demo_storage)"

definition demo_of_priv :: "jstr \<Rightarrow> account res" where
  "demo_of_priv key = Inr \<lparr>privateKey = key, evm = js ''0xab'', eav7 = js ''E7AB''\<rparr>"

lemma demo_vault_unlocks: "unlockVault (Some demo_crypto) (js ''secret'') demo_vault = Inr (js ''0x1f2e'')"
  "hasVault demo_vault" "\<not> ls_blocked demo_vault"
  by (rule saved_unlocks [OF demo_crypto_ok, of "js ''0x1f2e''" "[1, 2]" "[3]" demo_storage "js ''secret''"];
      simp add: demo_vault_def demo_storage_def js_eval)+

definition demo_unlocking :: wallet_app where
  "demo_unlocking = unlock (Some demo_crypto) demo_of_priv (type_unlock_pw (js ''secret'') (wallet_start demo_vault))"

lemma demo_unlocking_reach: "wallet_reach (Some demo_crypto) demo_of_priv demo_vault demo_unlocking"
  unfolding wallet_reach_def demo_unlocking_def
  by (rule rtranclp.rtrancl_into_rtrancl, rule r_into_rtranclp, rule wallet_step.unlock_pw, rule wallet_step.unlock)

theorem wallet_screen_and_vault_witness:
  "wa_vaultExists demo_unlocking = hasVault (wa_ls demo_unlocking)
    \<and> view_waits (wa_mount demo_unlocking) (wa_jobs demo_unlocking) (wa_view demo_unlocking)
    \<and> wa_view demo_unlocking = UnlockScreen \<lparr>uv_pw = js ''secret'', uv_err = [], uv_busy = True\<rparr>"
  using wallet_screen_and_vault [OF demo_unlocking_reach]
  by (simp add: demo_unlocking_def unlock_def type_unlock_pw_def on_unlock_def wallet_start_def wanted_view_def
      fresh_unlock_def demo_vault_unlocks begin_job_def js_eval)

text \<open>
  C26. A wallet created behind a password opens again with it: once its key is stored the account is
  shown; locking leaves no account on the page and asks for the password; and that password gives
  back the same account, whatever else was pending, in any browser whose storage and cryptography
  work.
\<close>

theorem created_wallet_reopens:
  assumes "wa_view w = OnboardScreen ob" "drafted ob = Some acct" "ob_saved ob" "\<not> ob_busy ob"
    and "ob_pw2 ob = ob_pw ob" "6 \<le> length (ob_pw ob)"
    and "\<not> ls_blocked (wa_ls w)" "\<not> ls_full (wa_ls w)" "crypto_ok s"
    and "list_all (\<lambda>c. c < 128) (privateKey acct)" "of_priv (trim (privateKey acct)) = Inr acct"
    and "\<forall>b \<in> set salt. b < 256" "\<forall>b \<in> set iv. b < 256"
  shows "let w1 = end_last (Some s) (click_create salt iv w); w2 = on_lock w1;
           w3 = end_last (Some s) (unlock (Some s) of_priv (type_unlock_pw (ob_pw ob) w2))
         in wa_account w1 = Some acct \<and> wa_view w1 = AccountScreen
           \<and> wa_account w2 = None \<and> wa_view w2 = UnlockScreen fresh_unlock \<and> wa_account w3 = Some acct"
proof -
  obtain w' where w': "click_create salt iv w = begin_job (Saving (wa_mount w) acct (ob_pw ob) salt iv) w'"
    "wa_ls w' = wa_ls w"
    using click_create_saves [OF assms(1-6)] by blast
  obtain ls where ls: "saveVault (Some s) salt iv (privateKey acct) (ob_pw ob) (wa_ls w') = (Inr (), ls)"
    "unlockVault (Some s) (ob_pw ob) ls = Inr (privateKey acct)"
    using saved_unlocks [OF assms(9,10,12,13,7,8), of "ob_pw ob"] w'(2) by metis
  define w1 where "w1 = end_last (Some s) (click_create salt iv w)"
  have w1: "wa_account w1 = Some acct" "wa_view w1 = AccountScreen" "wa_ls w1 = ls" "wa_vaultExists w1"
    using saved_and_shown [OF ls(1) w1_def [unfolded w'(1)]] by simp_all
  note locked = lock_shows_unlock [OF w1(2,4)]
  have "wa_account (end_last (Some s) (unlock (Some s) of_priv (type_unlock_pw (ob_pw ob) (on_lock w1)))) = Some acct"
    by (rule unlock_opens [OF locked(1)]) (use assms(6,11) ls(2) locked(2) w1(3) in \<open>auto simp: fresh_unlock_def\<close>)
  then show ?thesis
    using w1(1,2) locked by (simp add: w1_def Let_def)
qed

definition demo_draft :: account where
  "demo_draft = \<lparr>privateKey = js ''0x1f2e'', evm = js ''0xab'', eav7 = js ''E7AB''\<rparr>"

definition demo_onboarding :: onboarding where
  "demo_onboarding = fresh_onboarding\<lparr>ob_stage := Create, ob_draft := Some demo_draft, ob_saved := True,
     ob_pw := js ''secret'', ob_pw2 := js ''secret''\<rparr>"

definition demo_wallet :: wallet_app where
  "demo_wallet = (wallet_start demo_storage)\<lparr>wa_view := OnboardScreen demo_onboarding\<rparr>"

theorem created_wallet_reopens_witness:
  "wa_account (end_last (Some demo_crypto) (unlock (Some demo_crypto) demo_of_priv (type_unlock_pw (js ''secret'')
     (on_lock (end_last (Some demo_crypto) (click_create [1, 2] [3] demo_wallet)))))) = Some demo_draft"
  using created_wallet_reopens [of demo_wallet demo_onboarding demo_draft demo_crypto demo_of_priv "[1, 2]" "[3]"]
  by (simp add: demo_wallet_def demo_onboarding_def demo_draft_def wallet_start_def demo_storage_def drafted_def
      fresh_onboarding_def demo_crypto_ok demo_of_priv_def js_eval trim_def trim_start_def trim_end_def is_ws_def Let_def)


subsection \<open>Two things the screens do not prevent\<close>

text \<open>
  Wiping does not stop an unlock under way: the vault is gone and the account opens all the same,
  with nothing left to unlock it again.
\<close>

theorem wipe_does_not_stop_unlock:
  assumes "wa_view w = UnlockScreen u" "\<not> uv_busy u" "uv_pw u \<noteq> []" "\<not> ls_blocked (wa_ls w)" "wa_account w = None"
    and "unlockVault subtle (uv_pw u) (wa_ls w) = Inr key" "of_priv (trim key) = Inr acct"
  shows "let w' = wipe_unlock (unlock subtle of_priv w); w'' = end_last subtle w'
    in (\<exists>ob. wa_view w' = OnboardScreen ob) \<and> wa_account w'' = Some acct \<and> \<not> hasVault (wa_ls w'')"
  using assms
  by (simp add: unlock_def on_unlock_def begin_job_def wipe_unlock_def clearVault_def end_last_def end_job_def
      unlock_settled_def accountFromPrivate_def bind_res_def hasVault_def render_def wanted_view_def Let_def)

text \<open>
  The mark that the key is backed up belongs to the form, not to the key: going back and drafting
  another account keeps it, so the second key can be stored with no backup made of it.
\<close>

theorem backup_mark_outlives_draft:
  assumes "wa_view w = OnboardScreen ob" "drafted ob \<noteq> None" "ob_saved ob"
  shows "\<exists>ob'. (let w' = end_last subtle (startCreate (Inr acct) (with_onboard go_back w))
    in wa_view w' = OnboardScreen ob' \<and> drafted ob' = Some acct \<and> ob_saved ob' \<and> wa_files w' = wa_files w)"
  using assms
  by (simp add: with_onboard_def on_onboard_def go_back_def startCreate_def end_last_def end_job_def draft_settled_def
      begin_job_def drafted_def)

end
