(* ===== verification/Search.thy ===== *)
theory Search
  imports Api
begin

section \<open>Searching the explorer (\<open>components/ui/explorer-search.tsx\<close>, \<open>app/search/page.tsx\<close>)\<close>

text \<open>
  The search box is its text, the hits it shows and what it waits for. An effect of the text starts
  a timer of 180 ms; the timer asks the node; replies come in any order, and \<open>sb_seq\<close> tells the
  latest question from older ones. \<open>sb_timer\<close> and \<open>sb_flights\<close> are the timer set and the requests
  under way, with the number and the text each was made for; \<open>sb_pushed\<close> are the pages the box went
  to. \<open>answers v r\<close> says that the node may answer \<open>r\<close> to the text \<open>v\<close>; a request or a body that
  fails is an error.
\<close>

record hit =
  ht_kind :: jstr
  ht_label :: jstr
  ht_detail :: "jstr option"
  ht_to :: jstr

record search_box =
  sb_q :: jstr
  sb_hits :: "hit list"
  sb_open :: bool
  sb_loading :: bool
  sb_sel :: int
  sb_seq :: nat
  sb_timer :: "(nat \<times> jstr) option"
  sb_flights :: "(nat \<times> jstr) list"
  sb_pushed :: "jstr list"

definition fresh_box :: search_box where
  "fresh_box = \<lparr>sb_q = [], sb_hits = [], sb_open = False, sb_loading = False, sb_sel = -1, sb_seq = 0,
     sb_timer = None, sb_flights = [], sb_pushed = []\<rparr>"


subsection \<open>The effect of the text, the timer and the replies\<close>

definition search_effect :: "search_box \<Rightarrow> search_box" where
  "search_effect s = (let v = trim (sb_q s) in
     if length v < 2 then s\<lparr>sb_hits := [], sb_open := False, sb_loading := False\<rparr>
     else s\<lparr>sb_loading := True, sb_seq := Suc (sb_seq s), sb_timer := Some (Suc (sb_seq s), v)\<rparr>)"

text \<open>React runs the effect when the text changed, after the clean-up of the one before.\<close>

definition setQ :: "jstr \<Rightarrow> search_box \<Rightarrow> search_box" where
  "setQ q s = (if q = sb_q s then s else search_effect (s\<lparr>sb_q := q, sb_timer := None\<rparr>))"

definition timer_fires :: "search_box \<Rightarrow> search_box" where
  "timer_fires s = (case sb_timer s of None \<Rightarrow> s
     | Some f \<Rightarrow> s\<lparr>sb_timer := None, sb_flights := sb_flights s @ [f]\<rparr>)"

definition hits_of :: "hit list option res \<Rightarrow> hit list" where
  "hits_of r = (case r of Inl _ \<Rightarrow> [] | Inr None \<Rightarrow> [] | Inr (Some hs) \<Rightarrow> take 12 hs)"

definition search_reply :: "nat \<Rightarrow> hit list option res \<Rightarrow> search_box \<Rightarrow> search_box" where
  "search_reply seq r s = (if seq \<noteq> sb_seq s then s else (case r of
       Inl _ \<Rightarrow> s\<lparr>sb_hits := hits_of r, sb_loading := False\<rparr>
     | Inr _ \<Rightarrow> s\<lparr>sb_hits := hits_of r, sb_open := True, sb_sel := -1, sb_loading := False\<rparr>))"


subsection \<open>What the user does\<close>

definition go :: "hit \<Rightarrow> search_box \<Rightarrow> search_box" where
  "go h s = (let s1 = setQ [] (s\<lparr>sb_open := False\<rparr>) in s1\<lparr>sb_pushed := sb_pushed s @ [ht_to h]\<rparr>)"

definition search_url :: "(jstr \<Rightarrow> nat list) \<Rightarrow> jstr \<Rightarrow> jstr" where
  "search_url utf8 v = js ''/search?q='' @ encodeURIComponent utf8 v"

definition goSearch :: "(jstr \<Rightarrow> nat list) \<Rightarrow> search_box \<Rightarrow> search_box" where
  "goSearch utf8 s = (let v = trim (sb_q s) in if v = [] then s
     else (let s1 = setQ [] (s\<lparr>sb_open := False\<rparr>) in s1\<lparr>sb_pushed := sb_pushed s @ [search_url utf8 v]\<rparr>))"

definition search_submit :: "(jstr \<Rightarrow> nat list) \<Rightarrow> search_box \<Rightarrow> search_box" where
  "search_submit utf8 s =
     (if 0 \<le> sb_sel s \<and> nat (sb_sel s) < length (sb_hits s) then go (sb_hits s ! nat (sb_sel s)) s
      else if trim (sb_q s) = [] then s
      else if length (sb_hits s) = 1 then go (hd (sb_hits s)) s
      else goSearch utf8 s)"

datatype search_key = ArrowDown | ArrowUp | Escape | OtherKey

definition onKey :: "search_key \<Rightarrow> search_box \<Rightarrow> search_box" where
  "onKey k s = (if \<not> sb_open s \<or> sb_hits s = [] then s else (case k of
       ArrowDown \<Rightarrow> s\<lparr>sb_sel := (sb_sel s + 1) mod int (length (sb_hits s))\<rparr>
     | ArrowUp \<Rightarrow> s\<lparr>sb_sel := (if sb_sel s \<le> 0 then int (length (sb_hits s)) - 1 else sb_sel s - 1)\<rparr>
     | Escape \<Rightarrow> s\<lparr>sb_open := False\<rparr>
     | OtherKey \<Rightarrow> s))"

definition onFocus :: "search_box \<Rightarrow> search_box" where
  "onFocus s = (if sb_hits s = [] then s else s\<lparr>sb_open := True\<rparr>)"

definition click_outside :: "search_box \<Rightarrow> search_box" where
  "click_outside s = s\<lparr>sb_open := False\<rparr>"

text \<open>The rows exist while the list is open: the pointer on row \<open>i\<close>, a press on it, and a press on the
  row of an empty list.\<close>

definition hover_row :: "nat \<Rightarrow> search_box \<Rightarrow> search_box" where
  "hover_row i s = (if sb_open s \<and> i < length (sb_hits s) then s\<lparr>sb_sel := int i\<rparr> else s)"

definition press_row :: "nat \<Rightarrow> search_box \<Rightarrow> search_box" where
  "press_row i s = (if sb_open s \<and> i < length (sb_hits s) then go (sb_hits s ! i) s else s)"

definition press_search_for :: "(jstr \<Rightarrow> nat list) \<Rightarrow> search_box \<Rightarrow> search_box" where
  "press_search_for utf8 s = (if sb_open s \<and> sb_hits s = [] then goSearch utf8 s else s)"

inductive search_step :: "(jstr \<Rightarrow> nat list) \<Rightarrow> (jstr \<Rightarrow> hit list option res \<Rightarrow> bool) \<Rightarrow> search_box \<Rightarrow> search_box \<Rightarrow> bool"
  for utf8 answers where
  typed: "search_step utf8 answers s (setQ q s)"
| timer: "search_step utf8 answers s (timer_fires s)"
| reply: "(seq, v) \<in> set (sb_flights s) \<Longrightarrow> answers v r
    \<Longrightarrow> search_step utf8 answers s (search_reply seq r (s\<lparr>sb_flights := remove1 (seq, v) (sb_flights s)\<rparr>))"
| submit: "search_step utf8 answers s (search_submit utf8 s)"
| key: "search_step utf8 answers s (onKey k s)"
| focus: "search_step utf8 answers s (onFocus s)"
| outside: "search_step utf8 answers s (click_outside s)"
| hover: "search_step utf8 answers s (hover_row i s)"
| press: "search_step utf8 answers s (press_row i s)"
| press_empty: "search_step utf8 answers s (press_search_for utf8 s)"

definition search_reach :: "(jstr \<Rightarrow> nat list) \<Rightarrow> (jstr \<Rightarrow> hit list option res \<Rightarrow> bool) \<Rightarrow> search_box \<Rightarrow> bool" where
  "search_reach utf8 answers s \<longleftrightarrow> (search_step utf8 answers)\<^sup>*\<^sup>* fresh_box s"


subsection \<open>The rows, by kind\<close>

text \<open>
  The kinds of the table, what an unknown label gives, and a member of \<open>Object.prototype\<close>, which the
  look-up of a label such as \<open>constructor\<close> finds. \<open>lower\<close> is \<open>toLowerCase\<close>, whose Unicode tables are
  not in the program.
\<close>

datatype kind_id = KAddress | KAccount | KValidator | KTx | KBlock | KToken | KName | KContract | KUnknown | KInherited jstr

definition OBJECT_MEMBERS :: "jstr list" where
  "OBJECT_MEMBERS = map js [''constructor'', ''toString'', ''valueOf'', ''hasOwnProperty'', ''isPrototypeOf'',
     ''propertyIsEnumerable'', ''toLocaleString'', ''__proto__'', ''__defineGetter__'', ''__defineSetter__'',
     ''__lookupGetter__'', ''__lookupSetter__'']"

definition KIND_ID_BY_LABEL :: "(jstr \<times> kind_id) list" where
  "KIND_ID_BY_LABEL =
    [(js ''address'', KAddress), (js ''account'', KAccount), (js ''validator'', KValidator), (js ''tx'', KTx),
     (js ''transaction'', KTx), (js ''block'', KBlock), (js ''token'', KToken), (js ''name'', KName),
     (js ''contract'', KContract), (js ''Endere'' @ [231] @ js ''o'', KAddress), (js ''MetaMask'', KAddress),
     (js ''Conta'', KAccount), (js ''Validador'', KValidator), (js ''Transa'' @ [231, 227] @ js ''o'', KTx),
     (js ''Bloco'', KBlock), (js ''Token'', KToken), (js ''Nome'', KName), (js ''Contrato'', KContract),
     (js ''Address'', KAddress), (js ''Account'', KAccount), (js ''Validator'', KValidator),
     (js ''Transaction'', KTx), (js ''Block'', KBlock), (js ''Name'', KName), (js ''Contract'', KContract)]"

definition kind_member :: "jstr \<Rightarrow> kind_id option" where
  "kind_member k = (case map_of KIND_ID_BY_LABEL k of Some i \<Rightarrow> Some i
     | None \<Rightarrow> if k \<in> set OBJECT_MEMBERS then Some (KInherited k) else None)"

definition kindIdOf :: "(jstr \<Rightarrow> jstr) \<Rightarrow> jstr \<Rightarrow> kind_id" where
  "kindIdOf lower kind = (case kind_member kind of Some i \<Rightarrow> i
     | None \<Rightarrow> (case kind_member (lower kind) of Some i \<Rightarrow> i | None \<Rightarrow> KUnknown))"

fun kindLabelKey :: "kind_id \<Rightarrow> jstr res" where
  "kindLabelKey KAddress = Inr (js ''ui_explorerSearch.kindAddress'')"
| "kindLabelKey KAccount = Inr (js ''ui_explorerSearch.kindAccount'')"
| "kindLabelKey KValidator = Inr (js ''ui_explorerSearch.kindValidator'')"
| "kindLabelKey KTx = Inr (js ''ui_explorerSearch.kindTx'')"
| "kindLabelKey KBlock = Inr (js ''ui_explorerSearch.kindBlock'')"
| "kindLabelKey KToken = Inr (js ''ui_explorerSearch.kindToken'')"
| "kindLabelKey KName = Inr (js ''ui_explorerSearch.kindName'')"
| "kindLabelKey KContract = Inr (js ''ui_explorerSearch.kindContract'')"
| "kindLabelKey KUnknown = Inr (js ''ui_explorerSearch.kindUnknown'')"
| "kindLabelKey (KInherited _) = Inl (js ''TypeError'')"

fun add_to_group :: "kind_id \<Rightarrow> hit \<Rightarrow> (kind_id \<times> hit list) list \<Rightarrow> (kind_id \<times> hit list) list" where
  "add_to_group k h [] = [(k, [h])]"
| "add_to_group k h ((k', hs) # gs) = (if k' = k then (k', hs @ [h]) # gs else (k', hs) # add_to_group k h gs)"

definition groups :: "(jstr \<Rightarrow> jstr) \<Rightarrow> hit list \<Rightarrow> (kind_id \<times> hit list) list" where
  "groups lower hits = foldl (\<lambda>gs h. add_to_group (kindIdOf lower (ht_kind h)) h gs) [] hits"

text \<open>The part of a label that is highlighted.\<close>

fun index_of :: "jstr \<Rightarrow> jstr \<Rightarrow> nat option" where
  "index_of q [] = (if q = [] then Some 0 else None)"
| "index_of q (c # cs) = (if take (length q) (c # cs) = q then Some 0 else map_option Suc (index_of q cs))"

definition highlight :: "(jstr \<Rightarrow> jstr) \<Rightarrow> jstr \<Rightarrow> jstr \<Rightarrow> jstr \<times> jstr \<times> jstr" where
  "highlight lower label q = (case (if q = [] then None else index_of (lower q) (lower label)) of
       None \<Rightarrow> (label, [], [])
     | Some i \<Rightarrow> (take i label, take (length q) (drop i label), drop (i + length q) label))"


subsection \<open>The search page\<close>

datatype search_page = Redirect jstr | NotRecognized jstr

definition searchPage :: "(jstr \<Rightarrow> jstr) \<Rightarrow> jstr option \<Rightarrow> search_page" where
  "searchPage upper q = (let raw = trim (case q of Some s \<Rightarrow> s | None \<Rightarrow> []); up = upper raw in
     if raw = [] then NotRecognized raw
     else if is_digits raw then Redirect (js ''/block/'' @ raw)
     else if isE7Hash up then Redirect (js ''/tx/'' @ up)
     else if isE7Address up then Redirect (js ''/address/'' @ up)
     else if isEvm raw then Redirect (js ''/address/'' @ raw)
     else NotRecognized raw)"


subsection \<open>What every step keeps\<close>

definition pending :: "search_box \<Rightarrow> (nat \<times> jstr) set" where
  "pending s = set_option (sb_timer s) \<union> set (sb_flights s)"

definition search_ok :: "(jstr \<Rightarrow> hit list option res \<Rightarrow> bool) \<Rightarrow> search_box \<Rightarrow> bool" where
  "search_ok answers s \<longleftrightarrow> -1 \<le> sb_sel s \<and> (\<forall>(n, v) \<in> pending s. n \<le> sb_seq s)
     \<and> (if length (trim (sb_q s)) < 2 then \<not> sb_loading s
        else (\<forall>(n, v) \<in> pending s. n = sb_seq s \<longrightarrow> v = trim (sb_q s))
          \<and> (if sb_loading s then \<exists>v. (sb_seq s, v) \<in> pending s
             else \<exists>r. answers (trim (sb_q s)) r \<and> sb_hits s = hits_of r))"

lemma pending_upd [simp]:
  "pending (s\<lparr>sb_open := b\<rparr>) = pending s" "pending (s\<lparr>sb_pushed := ps\<rparr>) = pending s"
  "pending (s\<lparr>sb_sel := i\<rparr>) = pending s" "pending (s\<lparr>sb_hits := hs\<rparr>) = pending s"
  "pending (s\<lparr>sb_loading := b\<rparr>) = pending s" "pending (s\<lparr>sb_q := q\<rparr>) = pending s"
  "pending (s\<lparr>sb_seq := n\<rparr>) = pending s"
  by (simp_all add: pending_def)

lemma fresh_ok: "search_ok answers fresh_box"
  by (simp add: search_ok_def fresh_box_def pending_def trim_def trim_start_def trim_end_def)

lemma unrelated_ok [simp]:
  "search_ok answers (s\<lparr>sb_open := b\<rparr>) = search_ok answers s"
  "search_ok answers (s\<lparr>sb_pushed := ps\<rparr>) = search_ok answers s"
  by (simp_all add: search_ok_def)

lemma sel_ok: "search_ok answers s \<Longrightarrow> -1 \<le> i \<Longrightarrow> search_ok answers (s\<lparr>sb_sel := i\<rparr>)"
  by (simp add: search_ok_def)

lemma setQ_ok:
  assumes "search_ok answers s"
  shows "search_ok answers (setQ q s)"
proof (cases "q = sb_q s")
  case False
  let ?s = "s\<lparr>sb_q := q, sb_timer := None\<rparr>"
  have old: "n \<le> sb_seq s" if "(n, v) \<in> pending ?s" for n v
    using assms that by (auto simp: search_ok_def pending_def)
  show ?thesis
  proof (cases "length (trim q) < 2")
    case True
    then show ?thesis
      using False assms old by (auto simp: setQ_def search_effect_def search_ok_def)
  next
    case long: False
    have "pending (setQ q s) = insert (Suc (sb_seq s), trim q) (pending ?s)"
      using False long by (auto simp: setQ_def search_effect_def pending_def)
    then show ?thesis
      using False long assms old unfolding search_ok_def
      by (auto simp: setQ_def search_effect_def le_SucI) (use old Suc_n_not_le_n in blast)
  qed
qed (simp add: setQ_def assms)

lemma timer_fires_ok: "search_ok answers s \<Longrightarrow> search_ok answers (timer_fires s)"
proof (cases "sb_timer s")
  case (Some f)
  then have "pending (timer_fires s) = pending s"
    by (auto simp: pending_def timer_fires_def)
  then show "search_ok answers s \<Longrightarrow> search_ok answers (timer_fires s)"
    using Some by (simp add: search_ok_def timer_fires_def)
qed (simp add: timer_fires_def)

lemma landed:
  assumes "(n, v) \<in> set (sb_flights s)"
  defines "s' \<equiv> s\<lparr>sb_flights := remove1 (n, v) (sb_flights s)\<rparr>"
  shows "pending s' \<subseteq> pending s" "pending s \<subseteq> insert (n, v) (pending s')"
  using set_remove1_subset [of "(n, v)" "sb_flights s"] set_remove1_cover [of "sb_flights s" "(n, v)"]
  unfolding s'_def pending_def by auto

lemma stale_ok:
  assumes ok: "search_ok answers s" and f: "(n, v) \<in> set (sb_flights s)" and n: "n \<noteq> sb_seq s"
  shows "search_ok answers (s\<lparr>sb_flights := remove1 (n, v) (sb_flights s)\<rparr>)"
proof -
  let ?s = "s\<lparr>sb_flights := remove1 (n, v) (sb_flights s)\<rparr>"
  have "(sb_seq s, v') \<in> pending ?s" if "(sb_seq s, v') \<in> pending s" for v'
    using landed(2) [OF f] that n by auto
  then show ?thesis
    using ok landed(1) [OF f] unfolding search_ok_def by (auto split: if_splits)
qed

lemma current_ok:
  assumes ok: "search_ok answers s" and f: "(sb_seq s, v) \<in> set (sb_flights s)" and a: "answers v r"
  shows "search_ok answers (search_reply (sb_seq s) r (s\<lparr>sb_flights := remove1 (sb_seq s, v) (sb_flights s)\<rparr>))"
proof -
  let ?s = "s\<lparr>sb_flights := remove1 (sb_seq s, v) (sb_flights s)\<rparr>"
  let ?t = "search_reply (sb_seq s) r ?s"
  have t: "pending ?t = pending ?s" "sb_q ?t = sb_q s" "sb_seq ?t = sb_seq s" "\<not> sb_loading ?t" "sb_hits ?t = hits_of r"
    "-1 \<le> sb_sel s \<Longrightarrow> -1 \<le> sb_sel ?t"
    by (simp_all add: search_reply_def split: sum.split)
  have "v = trim (sb_q s)" if "\<not> length (trim (sb_q s)) < 2"
    using ok f that by (auto simp: search_ok_def pending_def)
  then show ?thesis
    using ok a landed(1) [OF f] t unfolding search_ok_def by (auto split: if_splits)
qed

lemma reply_ok:
  assumes "search_ok answers s" "(n, v) \<in> set (sb_flights s)" "answers v r"
  shows "search_ok answers (search_reply n r (s\<lparr>sb_flights := remove1 (n, v) (sb_flights s)\<rparr>))"
proof (cases "n = sb_seq s")
  case False
  then show ?thesis
    using stale_ok [OF assms(1,2)] by (simp add: search_reply_def)
qed (use assms current_ok in simp)

lemma go_ok: "search_ok answers s \<Longrightarrow> search_ok answers (go h s)"
  by (simp add: go_def Let_def setQ_ok)

lemma goSearch_ok: "search_ok answers s \<Longrightarrow> search_ok answers (goSearch utf8 s)"
  by (simp add: goSearch_def Let_def setQ_ok)

lemma submit_ok: "search_ok answers s \<Longrightarrow> search_ok answers (search_submit utf8 s)"
  by (simp add: search_submit_def go_ok goSearch_ok)

lemma onKey_ok: "search_ok answers s \<Longrightarrow> search_ok answers (onKey k s)"
proof (cases k)
  case ArrowDown
  have "-1 \<le> (sb_sel s + 1) mod int (length (sb_hits s))" if "sb_hits s \<noteq> []"
    using that pos_mod_sign [of "int (length (sb_hits s))" "sb_sel s + 1"] by (smt (verit) length_greater_0_conv of_nat_0_less_iff)
  then show "search_ok answers s \<Longrightarrow> search_ok answers (onKey k s)"
    using ArrowDown by (simp add: onKey_def sel_ok)
qed (auto simp: onKey_def intro!: sel_ok)

lemma search_step_ok:
  assumes "search_step utf8 answers s s'" "search_ok answers s"
  shows "search_ok answers s'"
  using assms
  by cases (simp_all add: setQ_ok timer_fires_ok reply_ok submit_ok onKey_ok onFocus_def click_outside_def
      hover_row_def press_row_def press_search_for_def go_ok goSearch_ok sel_ok)

lemma search_reach_ok: "search_reach utf8 answers s \<Longrightarrow> search_ok answers s"
  unfolding search_reach_def
  by (induction rule: rtranclp_induct) (auto intro: fresh_ok search_step_ok)

text \<open>
  C24. Whatever is typed and pressed and in whatever order the replies come: a box that is not loading,
  with two characters or more in it, shows the first twelve hits of an answer to exactly that text,
  or none after a failure; and one that is loading has the request for that text still to come.
\<close>

theorem idle_hits_answer_text:
  assumes "search_reach utf8 answers s" "2 \<le> length (trim (sb_q s))"
  shows "if sb_loading s then (sb_seq s, trim (sb_q s)) \<in> pending s
    else \<exists>r. answers (trim (sb_q s)) r \<and> sb_hits s = hits_of r"
  using search_reach_ok [OF assms(1)] assms(2) unfolding search_ok_def by (fastforce split: if_splits)


text \<open>
  The latest question, asked with two characters or more, outlives the text: emptying the box does
  not make it old, so its reply fills and opens the list of an empty box.
\<close>

theorem cleared_box_reopens:
  assumes "(sb_seq s, v) \<in> set (sb_flights s)" "sb_q s \<noteq> []"
  shows "let s1 = setQ [] s; s2 = search_reply (sb_seq s) (Inr (Some hs)) (s1\<lparr>sb_flights := remove1 (sb_seq s, v) (sb_flights s1)\<rparr>)
    in (sb_seq s, v) \<in> set (sb_flights s1) \<and> sb_hits s1 = [] \<and> \<not> sb_open s1
      \<and> sb_q s2 = [] \<and> sb_hits s2 = take 12 hs \<and> sb_open s2"
  using assms
  by (simp add: setQ_def search_effect_def trim_def trim_start_def trim_end_def search_reply_def hits_of_def Let_def)

text \<open>
  While the answer to a new text is awaited the hits are those of the text before. When there is
  exactly one, Enter goes to it, whatever the new text is.
\<close>

theorem enter_opens_previous_hit:
  assumes "search_reach utf8 answers s" "sb_hits s = [h]" "sb_sel s = -1" "q \<noteq> sb_q s" "2 \<le> length (trim q)"
  shows "search_reach utf8 answers (search_submit utf8 (setQ q s))
    \<and> sb_pushed (search_submit utf8 (setQ q s)) = sb_pushed s @ [ht_to h]"
proof
  show "search_reach utf8 answers (search_submit utf8 (setQ q s))"
    using assms(1) unfolding search_reach_def
    by (meson rtranclp.rtrancl_into_rtrancl search_step.typed search_step.submit)
  have "trim q \<noteq> []" using assms(5) by auto
  then show "sb_pushed (search_submit utf8 (setQ q s)) = sb_pushed s @ [ht_to h]"
    using assms(2-5) by (simp add: search_submit_def setQ_def search_effect_def go_def Let_def)
qed


subsection \<open>The rows of the list\<close>

lemma add_to_group_keys: "fst ` set (add_to_group k h gs) = insert k (fst ` set gs)"
  by (induction gs rule: add_to_group.induct [where ?a0.0 = k and ?a1.0 = h]) auto

lemma add_to_group_distinct: "distinct (map fst gs) \<Longrightarrow> distinct (map fst (add_to_group k h gs))"
proof (induction gs)
  case (Cons g gs)
  then show ?case
    using add_to_group_keys [of k h gs] by (cases g) (auto simp: image_iff)
qed simp

lemma map_of_add_to_group:
  "map_of (add_to_group k h gs) = (map_of gs)(k \<mapsto> (case map_of gs k of None \<Rightarrow> [h] | Some hs \<Rightarrow> hs @ [h]))"
  by (induction gs) (auto simp: fun_eq_iff)

definition grouped :: "(jstr \<Rightarrow> jstr) \<Rightarrow> hit list \<Rightarrow> (kind_id \<times> hit list) list \<Rightarrow> bool" where
  "grouped lower hits gs \<longleftrightarrow> distinct (map fst gs)
     \<and> (\<forall>k. map_of gs k = (let hs = filter (\<lambda>h. kindIdOf lower (ht_kind h) = k) hits in if hs = [] then None else Some hs))"

lemma grouped_snoc:
  assumes "grouped lower hits gs"
  shows "grouped lower (hits @ [h]) (add_to_group (kindIdOf lower (ht_kind h)) h gs)"
  using assms unfolding grouped_def
  by (auto simp: add_to_group_distinct map_of_add_to_group Let_def)

lemma groups_grouped: "grouped lower hits (groups lower hits)"
proof (induction hits rule: rev_induct)
  case (snoc h hits)
  then show ?case using grouped_snoc [OF snoc] by (simp add: groups_def)
qed (simp add: groups_def grouped_def)

text \<open>
  The list shows every hit under the heading of its kind and nothing else: no kind has two headings,
  no heading is empty, and under each the hits of that kind stand in the order of the index.
\<close>

theorem groups_partition_hits:
  "distinct (map fst (groups lower hits))
    \<and> (\<forall>(k, hs) \<in> set (groups lower hits). hs \<noteq> [] \<and> hs = filter (\<lambda>h. kindIdOf lower (ht_kind h) = k) hits)
    \<and> (\<Union>(k, hs) \<in> set (groups lower hits). set hs) = set hits"
proof -
  have d: "distinct (map fst (groups lower hits))"
    and m: "map_of (groups lower hits) k = (let hs = filter (\<lambda>h. kindIdOf lower (ht_kind h) = k) hits in if hs = [] then None else Some hs)" for k
    using groups_grouped [of lower hits] by (simp_all add: grouped_def)
  have g: "(k, hs) \<in> set (groups lower hits) \<longleftrightarrow> hs \<noteq> [] \<and> hs = filter (\<lambda>h. kindIdOf lower (ht_kind h) = k) hits" for k hs
    using map_of_eq_Some_iff [OF d, of k hs] m [of k] by (auto simp: Let_def split: if_splits)
  have "h \<in> set hits \<longleftrightarrow> (\<exists>(k, hs) \<in> set (groups lower hits). h \<in> set hs)" for h
  proof
    assume "h \<in> set hits"
    then have "(kindIdOf lower (ht_kind h), filter (\<lambda>h'. kindIdOf lower (ht_kind h') = kindIdOf lower (ht_kind h)) hits)
        \<in> set (groups lower hits)"
      unfolding g by (simp add: filter_empty_conv) blast
    then show "\<exists>(k, hs) \<in> set (groups lower hits). h \<in> set hs"
      using \<open>h \<in> set hits\<close> by (intro bexI) auto
  qed (auto simp: g)
  then have "(\<Union>(k, hs) \<in> set (groups lower hits). set hs) = set hits"
    by (simp add: set_eq_iff case_prod_unfold)
  then show ?thesis
    using d g by auto
qed

text \<open>The pieces of a label make up the label.\<close>

lemma highlight_whole: "highlight lower label q = (a, b, c) \<Longrightarrow> a @ b @ c = label"
  by (auto simp: highlight_def add.commute [of _ "length q"] simp flip: drop_drop split: option.splits if_splits)


subsection \<open>From the box to the page\<close>

definition page_of :: "jstr \<Rightarrow> jstr option" where
  "page_of v = (if is_digits v then Some (js ''/block/'' @ v)
     else if re_e7 62 (to_upper v) then Some (js ''/tx/'' @ to_upper v)
     else if re_e7 32 (to_upper v) then Some (js ''/address/'' @ to_upper v)
     else if re_evm v then Some (js ''/address/'' @ v) else None)"

lemma upper_char_ascii: "upper_char c < 128 \<longleftrightarrow> c < 128"
  by (auto simp: upper_char_def)

lemma to_upper_ascii: "list_all (\<lambda>c. c < 128) (to_upper v) \<longleftrightarrow> list_all (\<lambda>c. c < 128) v"
  by (simp add: to_upper_def list_all_iff upper_char_ascii)

lemma re_e7_plain: "re_e7 k s \<Longrightarrow> list_all (\<lambda>c. is_digit c \<or> 65 \<le> c \<and> c \<le> 90) s"
proof -
  assume r: "re_e7 k s"
  then have "list_all (\<lambda>c. is_digit c \<or> 65 \<le> c \<and> c \<le> 90) (take 2 s @ drop 2 s)"
    unfolding list_all_append by (auto simp: re_e7_def js_eval list_all_iff char_class_defs)
  then show ?thesis by simp
qed

lemma re_evm_plain: "re_evm s \<Longrightarrow> list_all uri_plain s"
proof -
  assume r: "re_evm s"
  then have "list_all uri_plain (take 2 s @ drop 2 s)"
    unfolding list_all_append by (auto simp: re_evm_def js_eval list_all_iff char_class_defs uri_plain_def)
  then show ?thesis by simp
qed

lemma page_of_plain: "page_of v = Some p \<Longrightarrow> list_all uri_plain v"
proof -
  have up: "list_all uri_plain v" if "re_e7 k (to_upper v)" for k
    using re_e7_plain [OF that] by (auto simp: list_all_iff to_upper_def upper_char_def uri_plain_def char_class_defs split: if_splits)
  assume "page_of v = Some p"
  then show ?thesis
    using up re_evm_plain by (auto simp: page_of_def is_digits_def list_all_iff uri_plain_def split: if_splits)
qed

lemma uri_plain_facts: "uri_plain c \<Longrightarrow> c < 128 \<and> \<not> is_ws c"
  by (auto simp: uri_plain_def char_class_defs)

lemma page_of_ne: "page_of v = Some p \<Longrightarrow> v \<noteq> []"
  by (auto simp: page_of_def is_digits_def to_upper_def re_e7_def re_evm_def split: if_splits)

text \<open>
  What \<open>toUpperCase\<close> and the encoding of a text do to ASCII.
\<close>

definition ascii_ok :: "(jstr \<Rightarrow> jstr) \<Rightarrow> (jstr \<Rightarrow> nat list) \<Rightarrow> bool" where
  "ascii_ok upper utf8 \<longleftrightarrow> (\<forall>s. list_all (\<lambda>c. c < 128) s \<longrightarrow> upper s = to_upper s \<and> utf8 s = s)"

lemma searchPage_page_of:
  assumes "ascii_ok upper utf8" "page_of v = Some p"
  shows "searchPage upper (Some v) = Redirect p"
proof -
  have a: "list_all (\<lambda>c. c < 128) v" and "trim v = v"
    using page_of_plain [OF assms(2)] uri_plain_facts by (auto simp: list_all_iff intro: trim_no_ws)
  then show ?thesis
    using assms page_of_ne [OF assms(2)]
    by (auto simp: searchPage_def page_of_def ascii_ok_def isE7Hash_def isE7Address_def isEvm_def Let_def split: if_splits)
qed

lemma concat_plain: "list_all uri_plain v \<Longrightarrow> concat (map (\<lambda>b. if uri_plain b then [b] else percent_byte b) v) = v"
  by (induction v) simp_all

lemma encode_plain: "list_all uri_plain v \<Longrightarrow> utf8 v = v \<Longrightarrow> encodeURIComponent utf8 v = v"
  by (simp add: encodeURIComponent_def concat_plain)

text \<open>
  A block height, a transaction id, an E7 address or a 0x address is found however the node's index
  answers: with no row to go to, Enter asks the search page for exactly the text typed, and the page
  sends it on to the block, the transaction or the account, E7 ids in any letter case.
\<close>

theorem typed_identifier_found:
  assumes "ascii_ok upper utf8" "page_of (trim (sb_q s)) = Some p" "sb_hits s = []"
  shows "sb_pushed (search_submit utf8 s) = sb_pushed s @ [js ''/search?q='' @ trim (sb_q s)]
    \<and> searchPage upper (Some (trim (sb_q s))) = Redirect p
    \<and> sb_q (search_submit utf8 s) = [] \<and> \<not> sb_open (search_submit utf8 s)"
proof -
  have v: "list_all uri_plain (trim (sb_q s))" "trim (sb_q s) \<noteq> []"
    using page_of_plain [OF assms(2)] page_of_ne [OF assms(2)] by simp_all
  then have "list_all (\<lambda>c. c < 128) (trim (sb_q s))"
    using uri_plain_facts by (auto simp: list_all_iff)
  then have "search_url utf8 (trim (sb_q s)) = js ''/search?q='' @ trim (sb_q s)"
    using assms(1) v(1) by (simp add: search_url_def encode_plain ascii_ok_def)
  moreover have "sb_q s \<noteq> []" using v(2) by (auto simp: trim_def trim_start_def trim_end_def)
  ultimately show ?thesis
    using assms(3) v(2) searchPage_page_of [OF assms(1,2)]
    by (simp add: search_submit_def goSearch_def setQ_def search_effect_def trim_def trim_start_def trim_end_def Let_def)
qed


text \<open>A node that answers every text with one hit, and a box that asked it for \<open>12\<close>.\<close>

definition hit12 :: hit where
  "hit12 = \<lparr>ht_kind = js ''Bloco'', ht_label = js ''12'', ht_detail = None, ht_to = js ''/block/12''\<rparr>"

definition one_answer :: "jstr \<Rightarrow> hit list option res \<Rightarrow> bool" where
  "one_answer v r \<longleftrightarrow> r = Inr (Some [hit12])"

definition box12 :: search_box where
  "box12 = search_reply 1 (Inr (Some [hit12]))
     ((timer_fires (setQ (js ''12'') fresh_box))\<lparr>sb_flights := remove1 (1, js ''12'') (sb_flights (timer_fires (setQ (js ''12'') fresh_box)))\<rparr>)"

lemma asked12: "timer_fires (setQ (js ''12'') fresh_box) = fresh_box\<lparr>sb_q := js ''12'', sb_loading := True, sb_seq := 1,
    sb_flights := [(1, js ''12'')]\<rparr>"
  by (simp add: setQ_def search_effect_def timer_fires_def fresh_box_def js_eval Let_def)

lemma box12: "box12 = fresh_box\<lparr>sb_q := js ''12'', sb_seq := 1, sb_hits := [hit12], sb_open := True\<rparr>"
  unfolding box12_def asked12 by (simp add: search_reply_def hits_of_def fresh_box_def)

lemma box12_reach: "search_reach utf8 one_answer box12"
proof -
  have "search_reach utf8 one_answer (timer_fires (setQ (js ''12'') fresh_box))"
    unfolding search_reach_def
    by (rule rtranclp.rtrancl_into_rtrancl, rule r_into_rtranclp, rule search_step.typed, rule search_step.timer)
  moreover have "search_step utf8 one_answer (timer_fires (setQ (js ''12'') fresh_box)) box12"
    unfolding box12_def by (rule search_step.reply) (simp_all add: asked12 one_answer_def)
  ultimately show ?thesis
    unfolding search_reach_def by (rule rtranclp.rtrancl_into_rtrancl)
qed

theorem idle_hits_answer_text_witness:
  "sb_hits box12 = [hit12] \<and> (\<exists>r. one_answer (js ''12'') r \<and> sb_hits box12 = hits_of r)"
  using idle_hits_answer_text [OF box12_reach [of "\<lambda>s. s"]]
  by (simp add: box12 fresh_box_def js_eval)

theorem enter_opens_previous_hit_witness:
  "sb_pushed (search_submit (\<lambda>s. s) (setQ (js ''123'') box12)) = [js ''/block/12'']"
  using enter_opens_previous_hit [OF box12_reach [of "\<lambda>s. s"], of hit12 "js ''123''"]
  by (simp add: box12 fresh_box_def hit12_def js_eval)

lemma demo_ascii: "ascii_ok to_upper (\<lambda>s. s)"
  by (simp add: ascii_ok_def)

theorem typed_identifier_found_witness:
  "searchPage to_upper (Some (js ''4218530'')) = Redirect (js ''/block/4218530'')
    \<and> sb_pushed (search_submit (\<lambda>s. s) (fresh_box\<lparr>sb_q := js ''4218530''\<rparr>)) = [js ''/search?q=4218530'']"
  using typed_identifier_found [OF demo_ascii, of "fresh_box\<lparr>sb_q := js ''4218530''\<rparr>" "js ''/block/4218530''"]
  by (simp add: fresh_box_def page_of_def is_digits_def js_eval)

end
