(* ===== verification/Lists.thy ===== *)
theory Lists
  imports Api
begin

section \<open>The explorer's lists (\<open>components/scan/lists\<close>)\<close>

text \<open>
  The block list asks for a range of heights per page, the transaction list for what is below a
  cursor and remembers the cursors it passed. The queries are the API client's functions, given as
  arguments; what the lists rely on is stated by the locales \<open>block_source\<close> and \<open>tx_source\<close>. The
  query library keeps what it fetched by key and, while a new key loads, shows the rows of the key
  before (\<open>keepPreviousData\<close>).
\<close>

definition POR_PAGINA :: nat where "POR_PAGINA = 25"


subsection \<open>Blocks (\<open>blocks-list.tsx\<close>)\<close>

record block_page =
  bp_linhas :: "block list"
  bp_temMais :: bool

definition fetch_block_page :: "(nat \<Rightarrow> int option \<Rightarrow> block list res) \<Rightarrow> int option \<Rightarrow> nat \<Rightarrow> block_page res" where
  "fetch_block_page get altura pagina = (case altura of
       None \<Rightarrow> bind_res (get (POR_PAGINA + 1) None) (\<lambda>recent.
         Inr \<lparr>bp_linhas = take POR_PAGINA recent, bp_temMais = POR_PAGINA < length recent\<rparr>)
     | Some h \<Rightarrow> (let from = max 0 (h - (int pagina + 1) * int POR_PAGINA + 1) in
         bind_res (get (POR_PAGINA + 1) (Some from)) (\<lambda>faixa.
           Inr \<lparr>bp_linhas = take POR_PAGINA (rev faixa), bp_temMais = 0 < from\<rparr>)))"

definition first_block_page :: "block list \<Rightarrow> block_page" where
  "first_block_page inicial = \<lparr>bp_linhas = take POR_PAGINA inicial, bp_temMais = POR_PAGINA < length inicial\<rparr>"

text \<open>The range in the label, and the two buttons.\<close>

definition block_range :: "nat \<Rightarrow> block_page \<Rightarrow> nat \<times> nat" where
  "block_range pagina p = (let de = pagina * POR_PAGINA + 1 in (de, de + (length (bp_linhas p) - 1)))"

definition block_anterior :: "nat \<Rightarrow> nat option" where
  "block_anterior pagina = (if 0 < pagina then Some (pagina - 1) else None)"

definition block_proxima :: "block_page option \<Rightarrow> nat \<Rightarrow> nat option" where
  "block_proxima shown pagina = (case shown of Some p \<Rightarrow> if bp_temMais p then Some (pagina + 1) else None | None \<Rightarrow> None)"

definition premio :: "jstr option \<Rightarrow> block \<Rightarrow> jstr" where
  "premio recompensa b = (if bk_height b = 0 \<or> recompensa = None \<or> recompensa = Some [] then [8212]
     else [43] @ fmt (BStr (the recompensa)) @ js '' EAV7'')"


subsection \<open>Transactions (\<open>txs-list.tsx\<close>)\<close>

record tx_list =
  tl_pilha :: "int list"
  tl_cache :: "int option \<Rightarrow> tx_page option"
  tl_before :: "tx_page option"

definition tx_cursor :: "tx_list \<Rightarrow> int option" where
  "tx_cursor s = (if tl_pilha s = [] then None else Some (last (tl_pilha s)))"

text \<open>The page rendered: the data of the cursor, or else what was rendered before.\<close>

definition tx_shown :: "tx_list \<Rightarrow> tx_page option" where
  "tx_shown s = (case tl_cache s (tx_cursor s) of Some p \<Rightarrow> Some p | None \<Rightarrow> tl_before s)"

definition tx_start :: "tx_page option \<Rightarrow> tx_list" where
  "tx_start inicial = \<lparr>tl_pilha = [], tl_cache = Map.empty (None := inicial), tl_before = None\<rparr>"

definition tx_proxima :: "tx_list \<Rightarrow> tx_list" where
  "tx_proxima s = (case tx_shown s of None \<Rightarrow> s
     | Some p \<Rightarrow> (case tp_nextBefore p of None \<Rightarrow> s
         | Some n \<Rightarrow> if tp_txs p = [] then s else s\<lparr>tl_pilha := tl_pilha s @ [n], tl_before := tx_shown s\<rparr>))"

definition tx_anterior :: "tx_list \<Rightarrow> tx_list" where
  "tx_anterior s = (if tl_pilha s = [] then s else s\<lparr>tl_pilha := butlast (tl_pilha s), tl_before := tx_shown s\<rparr>)"

text \<open>\<open>replies c p\<close>: the node may answer page \<open>p\<close> to the cursor \<open>c\<close>. Answers are kept by their cursor,
  and the library may drop what is not shown.\<close>

definition tx_loaded :: "int option \<Rightarrow> tx_page \<Rightarrow> tx_list \<Rightarrow> tx_list" where
  "tx_loaded c p s = s\<lparr>tl_cache := (tl_cache s)(c := Some p)\<rparr>"

definition tx_dropped :: "int option \<Rightarrow> tx_list \<Rightarrow> tx_list" where
  "tx_dropped c s = (if c = tx_cursor s then s else s\<lparr>tl_cache := (tl_cache s)(c := None)\<rparr>)"

inductive tx_list_step :: "(int option \<Rightarrow> tx_page \<Rightarrow> bool) \<Rightarrow> tx_list \<Rightarrow> tx_list \<Rightarrow> bool" for replies where
  proxima: "tx_list_step replies s (tx_proxima s)"
| anterior: "tx_list_step replies s (tx_anterior s)"
| loaded: "replies c p \<Longrightarrow> tx_list_step replies s (tx_loaded c p s)"
| dropped: "tx_list_step replies s (tx_dropped c s)"

definition tx_list_reach :: "(int option \<Rightarrow> tx_page \<Rightarrow> bool) \<Rightarrow> tx_list \<Rightarrow> bool" where
  "tx_list_reach replies s \<longleftrightarrow> (\<exists>inicial. (\<forall>p. inicial = Some p \<longrightarrow> replies None p)
     \<and> (tx_list_step replies)\<^sup>*\<^sup>* (tx_start inicial) s)"

text \<open>The estimate of the number of pages, the amount of a row and its status.\<close>

definition totalPaginas :: "int option \<Rightarrow> int option" where
  "totalPaginas txs = map_option (\<lambda>n. max 1 (- ((- n) div int POR_PAGINA))) txs"

definition valorDe :: "tx \<Rightarrow> jstr" where
  "valorDe x = (let plain = (if tx_amount x = [] \<or> tx_amount x = js ''0'' then [8212] else fmt (BStr (tx_amount x)) @ js '' EAV7'')
     in case tx_asset x of None \<Rightarrow> plain
     | Some a \<Rightarrow>
         if as_kind a = js ''EAV721'' then trim ([35] @ (case as_tokenId a of Some i \<Rightarrow> i | None \<Rightarrow> js ''?'') @ [32]
             @ (case as_symbol a of Some y \<Rightarrow> y | None \<Rightarrow> []))
         else if as_kind a = js ''EAV20'' then fmtToken (BStr (tx_amount x)) (case as_decimals a of Some d \<Rightarrow> nat d | None \<Rightarrow> 0)
             @ [32] @ (case as_symbol a of Some y \<Rightarrow> y | None \<Rightarrow> js ''EAV20'')
         else plain)"

definition tx_falhou :: "tx \<Rightarrow> bool" where
  "tx_falhou x = (case tx_receipt x of Some r \<Rightarrow> \<not> rc_success r | None \<Rightarrow> False)"


subsection \<open>What the block list shows\<close>

locale block_source =
  fixes get :: "nat \<Rightarrow> int option \<Rightarrow> block list res" and top_height :: int
  assumes range: "0 \<le> f \<Longrightarrow> \<exists>bs. get n (Some f) = Inr bs \<and> map bk_height bs = [f..min (f + int n - 1) top_height]"
begin

definition from_height :: "int \<Rightarrow> nat \<Rightarrow> int" where
  "from_height h p = max 0 (h - 25 * int p - 24)"

lemma page:
  "\<exists>pg. fetch_block_page get (Some h) p = Inr pg \<and> bp_temMais pg = (0 < from_height h p)
    \<and> map bk_height (bp_linhas pg) = take 25 (rev [from_height h p..min (from_height h p + 25) top_height])"
proof -
  have f: "from_height h p = max 0 (h - (int p + 1) * int POR_PAGINA + 1)"
    by (simp add: from_height_def POR_PAGINA_def)
  obtain bs where bs: "get 26 (Some (from_height h p)) = Inr bs"
    "map bk_height bs = [from_height h p..min (from_height h p + 25) top_height]"
    using range [of "from_height h p" 26] by (auto simp: from_height_def add.commute)
  have "fetch_block_page get (Some h) p = Inr \<lparr>bp_linhas = take 25 (rev bs), bp_temMais = 0 < from_height h p\<rparr>"
    using bs(1) by (simp add: fetch_block_page_def f [symmetric] Let_def bind_res_def) (simp add: POR_PAGINA_def)
  then show ?thesis
    by (simp add: bs(2) [symmetric] take_map rev_map)
qed


lemma shown_heights:
  assumes "h \<le> top_height"
  shows "set (take 25 (rev [from_height h p..min (from_height h p + 25) top_height]))
    = (if from_height h p + 25 \<le> top_height then {from_height h p + 1..from_height h p + 25}
       else {from_height h p..top_height})"
proof (cases "from_height h p + 25 \<le> top_height")
  case True
  have "[from_height h p..from_height h p + 25] = from_height h p # [from_height h p + 1..from_height h p + 25]"
    by (simp add: upto_rec1)
  then show ?thesis
    using True by (simp add: min_def)
next
  case False
  then show ?thesis
    by (simp add: min_def)
qed

end

text \<open>The heights on page \<open>p\<close> of the list, and whether the page has a next one.\<close>

definition page_heights :: "(nat \<Rightarrow> int option \<Rightarrow> block list res) \<Rightarrow> int \<Rightarrow> nat \<Rightarrow> int set" where
  "page_heights get h p = (case fetch_block_page get (Some h) p of Inl _ \<Rightarrow> {} | Inr pg \<Rightarrow> bk_height ` set (bp_linhas pg))"

definition page_more :: "(nat \<Rightarrow> int option \<Rightarrow> block list res) \<Rightarrow> int \<Rightarrow> nat \<Rightarrow> bool" where
  "page_more get h p = (case fetch_block_page get (Some h) p of Inl _ \<Rightarrow> False | Inr pg \<Rightarrow> bp_temMais pg)"

context block_source
begin

lemma heights:
  assumes "h \<le> top_height"
  shows "page_heights get h p = (if from_height h p + 25 \<le> top_height then {from_height h p + 1..from_height h p + 25}
       else {from_height h p..top_height})"
proof -
  obtain pg where "fetch_block_page get (Some h) p = Inr pg"
    "map bk_height (bp_linhas pg) = take 25 (rev [from_height h p..min (from_height h p + 25) top_height])"
    using page [of h p] by blast
  then show ?thesis
    using shown_heights [OF assms, of p] by (simp add: page_heights_def flip: set_map)
qed

lemma more: "page_more get h p = (0 < from_height h p)"
  using page [of h p] by (auto simp: page_more_def)

lemma covered:
  assumes "1 \<le> n" "n \<le> h" "25 \<le> h" "h \<le> top_height"
  defines "p \<equiv> nat ((h + 1 - n) div 25)"
  shows "n \<in> page_heights get h p" "\<forall>q < p. page_more get h q"
proof -
  define k where "k = (h + 1 - n) div 25"
  have p: "int p = k" using assms by (simp add: p_def k_def)
  have k: "25 * k \<le> h + 1 - n" "h + 1 - n < 25 * k + 25"
    unfolding k_def by presburger+
  show "n \<in> page_heights get h p"
    using assms(1-4) k unfolding heights [OF assms(4)] from_height_def p by auto
  show "\<forall>q < p. page_more get h q"
    using assms(1) k p unfolding more from_height_def by auto
qed

lemma genesis_absent: "25 \<le> h \<Longrightarrow> h \<le> top_height \<Longrightarrow> 0 \<notin> page_heights get h p"
  unfolding heights from_height_def by auto

end

text \<open>
  Paging through the blocks of a chain of 26 blocks or more shows every block down to height 1, each
  on a page the next button leads to, and the genesis block on no page at all: every page but the
  newest asks for one block more than it shows and drops the lowest.
\<close>

theorem block_pages_all_but_genesis:
  assumes "block_source get top_height" "25 \<le> h" "h \<le> top_height" "0 \<le> n" "n \<le> h"
  shows "(\<exists>p. n \<in> page_heights get h p \<and> (\<forall>q < p. page_more get h q)) \<longleftrightarrow> n \<noteq> 0"
proof
  assume "\<exists>p. n \<in> page_heights get h p \<and> (\<forall>q < p. page_more get h q)"
  then show "n \<noteq> 0"
    using block_source.genesis_absent [OF assms(1-3)] by metis
next
  assume "n \<noteq> 0"
  then have "1 \<le> n" using assms(4) by simp
  then show "\<exists>p. n \<in> page_heights get h p \<and> (\<forall>q < p. page_more get h q)"
    using block_source.covered [OF assms(1) _ assms(5,2,3)] by blast
qed

text \<open>The mock node is such a source.\<close>

lemma takeWhile_upto: "map (\<lambda>i. f + int i) (takeWhile (\<lambda>i. f + int i \<le> h) [0..<n]) = [f..min (f + int n - 1) h]"
proof (induction n)
  case (Suc n)
  show ?case
  proof (cases "f + int n \<le> h")
    case True
    then have "takeWhile (\<lambda>i. f + int i \<le> h) [0..<m] = [0..<m]" if "m \<le> Suc n" for m
      using that by (auto intro: takeWhile_eq_all_conv [THEN iffD2])
    from this [of n] this [of "Suc n"] show ?thesis
      using Suc True by (simp add: upto_rec2 min_def del: takeWhile_eq_all_conv)
  next
    case False
    have "takeWhile (\<lambda>i. f + int i \<le> h) ([0..<n] @ [n]) = takeWhile (\<lambda>i. f + int i \<le> h) [0..<n]"
      by (rule takeWhile_tail) (use False in simp)
    moreover have "min (f + int n - 1) h = h" "min (f + int (Suc n) - 1) h = h"
      using False by auto
    ultimately show ?thesis
      using Suc by simp
  qed
qed simp

definition mock_env :: web_env where
  "mock_env = \<lparr>we_API_BASE = None, we_NODE_ENV = js ''development'', we_USE_MOCK = Some (js ''true''),
     we_API_ORIGIN = None, we_browser = True, we_NETWORK = None\<rparr>"

lemma mock_heights: "map bk_height (mockBlocks c n (Some f)) = [f..min (f + int n - 1) (currentHeight c)]"
  using takeWhile_upto [of f "currentHeight c" n] by (simp add: mockBlocks_def mockBlock_def Let_def comp_def)

interpretation mock_blocks: block_source "getBlocks mock_env c fetch" "currentHeight c" for c fetch
  by unfold_locales (simp add: getBlocks_def USE_MOCK_def mock_env_def mock_heights)

theorem block_pages_all_but_genesis_witness:
  "\<not> (\<exists>p. 0 \<in> page_heights (getBlocks mock_env demo_clock (\<lambda>_. Inl [])) 4218530 p
      \<and> (\<forall>q < p. page_more (getBlocks mock_env demo_clock (\<lambda>_. Inl [])) 4218530 q))
    \<and> (\<exists>p. 1 \<in> page_heights (getBlocks mock_env demo_clock (\<lambda>_. Inl [])) 4218530 p
      \<and> (\<forall>q < p. page_more (getBlocks mock_env demo_clock (\<lambda>_. Inl [])) 4218530 q))"
  using block_pages_all_but_genesis [OF mock_blocks.block_source_axioms, of 4218530 demo_clock 0 "\<lambda>_. Inl []"]
    block_pages_all_but_genesis [OF mock_blocks.block_source_axioms, of 4218530 demo_clock 1 "\<lambda>_. Inl []"]
  by (simp add: currentHeight_def demo_clock_def BASE_HEIGHT_def)


subsection \<open>What the transaction list shows\<close>

text \<open>
  The node's cursor is a height: what a cursor gives lies at heights up to it (the node leaves the
  height itself out, the mock takes it in: \<open>d\<close> is 1 or 0), and what the next cursor gives lies below.
\<close>

locale tx_source =
  fixes replies :: "int option \<Rightarrow> tx_page \<Rightarrow> bool" and d :: int
  assumes at_most: "replies (Some b) p \<Longrightarrow> t \<in> set (tp_txs p) \<Longrightarrow> tx_blockHeight t \<le> b - d"
    and above_next: "replies c p \<Longrightarrow> t \<in> set (tp_txs p) \<Longrightarrow> tp_nextBefore p = Some n \<Longrightarrow> n - d < tx_blockHeight t"
begin

text \<open>A page has its next cursor below what the list is at.\<close>

definition next_below :: "int list \<Rightarrow> tx_page \<Rightarrow> bool" where
  "next_below pilha p \<longleftrightarrow> (\<forall>n. tp_nextBefore p = Some n \<and> tp_txs p \<noteq> [] \<and> pilha \<noteq> [] \<longrightarrow> n \<le> last pilha)"

definition list_ok :: "tx_list \<Rightarrow> bool" where
  "list_ok s \<longleftrightarrow> sorted_wrt (\<ge>) (tl_pilha s) \<and> (\<forall>c p. tl_cache s c = Some p \<longrightarrow> replies c p)
     \<and> (\<forall>p. tl_before s = Some p \<longrightarrow> next_below (tl_pilha s) p)"

lemma next_lt:
  assumes "replies (Some b) p" "tp_txs p \<noteq> []" "tp_nextBefore p = Some n"
  shows "n < b"
proof -
  obtain t where "t \<in> set (tp_txs p)" using assms(2) by (cases "tp_txs p") auto
  then show ?thesis
    using at_most [OF assms(1)] above_next [OF assms(1) _ assms(3)] by fastforce
qed

lemma shown_next_below: "list_ok s \<Longrightarrow> tx_shown s = Some p \<Longrightarrow> next_below (tl_pilha s) p"
  using next_lt unfolding list_ok_def tx_shown_def tx_cursor_def next_below_def
  by (fastforce split: option.splits if_splits)

lemma sorted_butlast: "sorted_wrt (\<ge>) xs \<Longrightarrow> sorted_wrt (\<ge>) (butlast xs) \<and> (butlast xs \<noteq> [] \<longrightarrow> last xs \<le> last (butlast xs))"
  for xs :: "int list"
  by (cases xs rule: rev_cases) (auto simp: sorted_wrt_append)

lemma sorted_snoc: "sorted_wrt (\<ge>) xs \<Longrightarrow> (xs \<noteq> [] \<Longrightarrow> n \<le> last xs) \<Longrightarrow> sorted_wrt (\<ge>) (xs @ [n])"
  for xs :: "int list"
  by (cases xs rule: rev_cases) (auto simp: sorted_wrt_append)

lemma proxima_ok:
  assumes "list_ok s"
  shows "list_ok (tx_proxima s)"
proof (cases "\<exists>p n. tx_shown s = Some p \<and> tp_nextBefore p = Some n \<and> tp_txs p \<noteq> []")
  case True
  then obtain p n where p: "tx_shown s = Some p" "tp_nextBefore p = Some n" "tp_txs p \<noteq> []" by blast
  have "tl_pilha s \<noteq> [] \<Longrightarrow> n \<le> last (tl_pilha s)"
    using shown_next_below [OF assms p(1)] p by (simp add: next_below_def)
  then show ?thesis
    using assms p sorted_snoc by (simp add: list_ok_def tx_proxima_def next_below_def)
next
  case False
  then have "tx_proxima s = s"
    by (auto simp: tx_proxima_def split: option.split)
  then show ?thesis using assms by simp
qed

lemma anterior_ok:
  assumes "list_ok s"
  shows "list_ok (tx_anterior s)"
proof (cases "tl_pilha s = []")
  case False
  have "next_below (butlast (tl_pilha s)) p" if "tx_shown s = Some p" for p
    using shown_next_below [OF assms that] sorted_butlast [of "tl_pilha s"] assms
    unfolding next_below_def list_ok_def by (metis butlast.simps(1) order_trans)
  then show ?thesis
    using assms False sorted_butlast [of "tl_pilha s"] by (simp add: list_ok_def tx_anterior_def)
qed (simp add: tx_anterior_def assms)

lemma step_ok: "tx_list_step replies s s' \<Longrightarrow> list_ok s \<Longrightarrow> list_ok s'"
proof (induction rule: tx_list_step.induct)
  case (loaded c p s)
  then show ?case by (simp add: list_ok_def tx_loaded_def)
next
  case (dropped s c)
  then show ?case by (simp add: list_ok_def tx_dropped_def)
qed (simp_all add: proxima_ok anterior_ok)

lemma reach_ok: "tx_list_reach replies s \<Longrightarrow> list_ok s"
proof -
  assume "tx_list_reach replies s"
  then obtain i where i: "\<forall>p. i = Some p \<longrightarrow> replies None p" "(tx_list_step replies)\<^sup>*\<^sup>* (tx_start i) s"
    by (auto simp: tx_list_reach_def)
  have "list_ok (tx_start i)"
    using i(1) by (simp add: list_ok_def tx_start_def)
  with i(2) show ?thesis
    by (induction rule: rtranclp_induct) (auto intro: step_ok)
qed

lemma disjoint:
  assumes "replies c p" "tp_nextBefore p = Some n" "replies (Some m) p'" "m \<le> n"
  shows "set (tp_txs p) \<inter> set (tp_txs p') = {}"
  using above_next [OF assms(1) _ assms(2)] at_most [OF assms(3)] assms(4) by fastforce

end

text \<open>
  However the buttons are pressed and the pages come and go, paging never goes up: the cursors passed
  never increase, a page that is the answer to its cursor has its next cursor strictly below, and
  shares no transaction with what that cursor gives.
\<close>

theorem tx_paging_goes_down:
  assumes "tx_source replies d" "tx_list_reach replies s" "tl_cache s (tx_cursor s) = Some p"
    and "tp_txs p \<noteq> []" "tp_nextBefore p = Some n" "replies (Some n) p'"
  shows "sorted_wrt (\<ge>) (tl_pilha (tx_proxima s)) \<and> tx_cursor (tx_proxima s) = Some n
    \<and> (\<forall>b. tx_cursor s = Some b \<longrightarrow> n < b) \<and> set (tp_txs p) \<inter> set (tp_txs p') = {}"
proof -
  have ok: "tx_source.list_ok replies s"
    by (rule tx_source.reach_ok [OF assms(1,2)])
  then have r: "replies (tx_cursor s) p"
    using assms(3) by (simp add: tx_source.list_ok_def [OF assms(1)])
  have "sorted_wrt (\<ge>) (tl_pilha (tx_proxima s))"
    using tx_source.proxima_ok [OF assms(1) ok] by (simp add: tx_source.list_ok_def [OF assms(1)])
  moreover have "tx_cursor (tx_proxima s) = Some n"
    using assms(3-5) by (simp add: tx_proxima_def tx_shown_def tx_cursor_def)
  moreover have "n < b" if "tx_cursor s = Some b" for b
    using tx_source.next_lt [OF assms(1)] r assms(4,5) that by metis
  ultimately show ?thesis
    using tx_source.disjoint [OF assms(1) r assms(5,6)] by simp
qed


text \<open>The pages of the mock, at whatever time they are asked for.\<close>

definition mock_replies :: "int option \<Rightarrow> tx_page \<Rightarrow> bool" where
  "mock_replies c p \<longleftrightarrow> (\<exists>clk. getTxs mock_env clk (\<lambda>_. Inl []) POR_PAGINA c = Inr p)"

lemma mock_replies_iff: "mock_replies c p \<longleftrightarrow> (\<exists>clk. p = mockTxs clk POR_PAGINA c)"
  by (auto simp: mock_replies_def getTxs_def USE_MOCK_def mock_env_def)

lemma mockTxs_at: "mockTxs clk n c = mockTxs clk n (Some (case c of Some b \<Rightarrow> b | None \<Rightarrow> currentHeight clk))"
  by (simp add: mockTxs_def split: option.split)

interpretation mock_pages: tx_source mock_replies 0
proof unfold_locales
  fix b p t assume "mock_replies (Some b) p" "t \<in> set (tp_txs p)"
  then show "tx_blockHeight t \<le> b - 0"
    using mockTxs_shape(2) [OF refl] by (auto simp: mock_replies_iff)
next
  fix c p t n assume "mock_replies c p" "t \<in> set (tp_txs p)" "tp_nextBefore p = Some n"
  then show "n - 0 < tx_blockHeight t"
    using mockTxs_shape(3) [OF refl] mockTxs_at unfolding mock_replies_iff by (metis diff_zero)
qed

text \<open>
  The rows shown while a page loads are those of the page before, and with them their next cursor: a
  second press on the button before the page arrives passes the same cursor again, so the page that
  follows repeats the rows under the next page number.
\<close>

theorem second_press_repeats_page:
  assumes "tl_cache s (tx_cursor s) = Some p" "tp_txs p \<noteq> []" "tp_nextBefore p = Some n" "tl_cache s (Some n) = None"
  shows "tl_pilha (tx_proxima (tx_proxima s)) = tl_pilha s @ [n, n]
    \<and> tx_shown (tx_loaded (Some n) q (tx_proxima (tx_proxima s))) = Some q
    \<and> tx_shown (tx_anterior (tx_loaded (Some n) q (tx_proxima (tx_proxima s)))) = Some q"
  using assms by (simp add: tx_proxima_def tx_shown_def tx_cursor_def tx_loaded_def tx_anterior_def butlast_append)


text \<open>A node with one transaction at height 10.\<close>

definition one_tx :: tx_page where
  "one_tx = \<lparr>tp_txs = [mockTxAt demo_clock 10 0], tp_nextBefore = Some 9, tp_height = 10\<rparr>"

definition no_tx :: tx_page where
  "no_tx = \<lparr>tp_txs = [], tp_nextBefore = None, tp_height = 10\<rparr>"

definition two_pages :: "int option \<Rightarrow> tx_page \<Rightarrow> bool" where
  "two_pages c p \<longleftrightarrow> c = None \<and> p = one_tx \<or> c = Some 9 \<and> p = no_tx"

lemma two_pages: "tx_source two_pages 0"
  by unfold_locales (auto simp: two_pages_def one_tx_def no_tx_def)

lemma two_pages_start: "tx_list_reach two_pages (tx_start (Some one_tx))"
  unfolding tx_list_reach_def by (intro exI [of _ "Some one_tx"]) (simp add: two_pages_def)

lemma two_pages_shown:
  "tl_cache (tx_start (Some one_tx)) (tx_cursor (tx_start (Some one_tx))) = Some one_tx" "tp_txs one_tx \<noteq> []"
  "tp_nextBefore one_tx = Some 9" "two_pages (Some 9) no_tx"
  by (simp_all add: tx_start_def tx_cursor_def one_tx_def two_pages_def)

theorem tx_paging_goes_down_witness:
  "tx_cursor (tx_proxima (tx_start (Some one_tx))) = Some 9 \<and> set (tp_txs one_tx) \<inter> set (tp_txs no_tx) = {}"
  using tx_paging_goes_down [OF two_pages two_pages_start two_pages_shown] by blast

end
