(* ===== verification/SalePage.thy ===== *)
theory SalePage
  imports SaleRoutes SaleBook
begin

section \<open>The sale page (\<open>components/sale/sale-experience.tsx\<close>)\<close>

text \<open>
  The page keeps a form, the intent it made and the last quote. What it awaits are jobs: a request,
  then the reply the server gave to it, which arrives whenever it does. Polling is an effect of the
  intent's id and status: when either changes, the replies to older polls are dropped, which
  \<open>pg_gen\<close>, the number of the effect, stands for. The server is the book of intents under their ids;
  \<open>evolves\<close> is what its other writers do to one of them. Network failures are replies that are errors.
  The random id of a new intent is taken to be a new one.
\<close>

datatype page_job =
    Creating create_input
  | Created "sale_intent res"
  | Quoting bool
  | Polling nat jstr
  | Polled nat "sale_intent res"

record sale_page =
  pg_railId :: jstr
  pg_usd :: jstr
  pg_beneficiary :: jstr
  pg_intent :: "sale_intent option"
  pg_quote :: "sale_quote option"
  pg_busy :: bool
  pg_error :: "jstr option"
  pg_gen :: nat
  pg_jobs :: "page_job list"

definition fresh_page :: sale_page where
  "fresh_page = \<lparr>pg_railId = js ''eth-usdt'', pg_usd = js ''1000'', pg_beneficiary = [], pg_intent = None,
     pg_quote = None, pg_busy = False, pg_error = None, pg_gen = 0, pg_jobs = [Quoting False]\<rparr>"


subsection \<open>What the form computes\<close>

definition num_max :: "jsnum \<Rightarrow> jsnum \<Rightarrow> jsnum" where
  "num_max a b = (if a = NaN \<or> b = NaN then NaN else if num_le a b then b else a)"

definition page_rail :: "sale_page \<Rightarrow> sale_rail" where
  "page_rail s = (case find (\<lambda>r. rail_id r = pg_railId s) SALE_RAILS of Some r \<Rightarrow> r | None \<Rightarrow> hd SALE_RAILS)"

definition usdNum :: "sale_page \<Rightarrow> jsnum" where
  "usdNum s = (let x = num_of_str (pg_usd s) in num_max (Num 0) (if x = NaN then Num 0 else x))"

definition livePrice :: "sale_page \<Rightarrow> jsnum" where
  "livePrice s = (case pg_quote s of Some q \<Rightarrow> q_price q | None \<Rightarrow> SALE_PRICE_USD_PER_EAV7)"

definition eav7Out :: "sale_page \<Rightarrow> jsnum" where
  "eav7Out s = num_div (usdNum s) (livePrice s)"

definition addrOk :: "sale_page \<Rightarrow> bool" where
  "addrOk s = re_evm (pg_beneficiary s)"

definition can_create :: "bool \<Rightarrow> sale_page \<Rightarrow> bool" where
  "can_create allocateEnabled s \<longleftrightarrow> pg_intent s = None \<and> \<not> pg_busy s \<and> allocateEnabled
     \<and> \<not> num_lt (usdNum s) (Num 100) \<and> addrOk s"

definition statusLabel :: "jstr \<Rightarrow> bool \<Rightarrow> jstr" where
  "statusLabel status liquid =
     (if status = js ''granted'' then (if liquid then js ''sale_experience.statusGrantedLiquid''
        else js ''sale_experience.statusGrantedVesting'')
      else if status = js ''paid'' then js ''sale_experience.statusPaid'' else js ''sale_experience.statusPending'')"

definition scarcity_pct :: "sale_quote \<Rightarrow> jsnum" where
  "scarcity_pct q = num_round (num_mul (q_progressInTier q) (Num 100))"


subsection \<open>Handlers and replies\<close>

definition add_job :: "page_job \<Rightarrow> sale_page \<Rightarrow> sale_page" where
  "add_job j s = s\<lparr>pg_jobs := pg_jobs s @ [j]\<rparr>"

text \<open>The polling effect runs again when the id or the status of the intent changes.\<close>

definition effect_key :: "sale_intent option \<Rightarrow> (jstr \<times> jstr) option" where
  "effect_key i = map_option (\<lambda>i. (it_id i, it_status i)) i"

definition set_intent :: "sale_intent option \<Rightarrow> sale_page \<Rightarrow> sale_page" where
  "set_intent i s = s\<lparr>pg_intent := i, pg_gen := (if effect_key i = effect_key (pg_intent s) then pg_gen s else Suc (pg_gen s))\<rparr>"

definition select_rail :: "jstr \<Rightarrow> sale_page \<Rightarrow> sale_page" where
  "select_rail r s = set_intent None (s\<lparr>pg_railId := r, pg_error := None\<rparr>)"

definition type_usd :: "jstr \<Rightarrow> sale_page \<Rightarrow> sale_page" where
  "type_usd u s = (if pg_intent s \<noteq> None then s else s\<lparr>pg_usd := u\<rparr>)"

definition type_beneficiary :: "bool \<Rightarrow> jstr \<Rightarrow> sale_page \<Rightarrow> sale_page" where
  "type_beneficiary allocateEnabled b s =
     (if pg_intent s \<noteq> None \<or> \<not> allocateEnabled then s else s\<lparr>pg_beneficiary := trim b\<rparr>)"

definition onCreate :: "bool \<Rightarrow> sale_page \<Rightarrow> sale_page" where
  "onCreate allocateEnabled s = (if \<not> can_create allocateEnabled s then s
     else add_job (Creating \<lparr>ci_beneficiary0x = pg_beneficiary s, ci_rail = pg_railId s, ci_usdAmount = usdNum s\<rparr>)
       (s\<lparr>pg_error := None, pg_busy := True\<rparr>))"

definition create_reply :: "sale_intent res \<Rightarrow> sale_page \<Rightarrow> sale_page" where
  "create_reply r s = (case r of
       Inr created \<Rightarrow> add_job (Quoting True) (set_intent (Some created) s)
     | Inl e \<Rightarrow> s\<lparr>pg_error := Some e, pg_busy := False\<rparr>)"

definition start_over :: "sale_page \<Rightarrow> sale_page" where
  "start_over s = (if pg_intent s = None then s
     else add_job (Quoting False) (set_intent None (s\<lparr>pg_error := None\<rparr>)))"

definition quote_timer :: "sale_page \<Rightarrow> sale_page" where
  "quote_timer s = add_job (Quoting False) s"

definition quote_reply :: "bool \<Rightarrow> sale_quote res \<Rightarrow> sale_page \<Rightarrow> sale_page" where
  "quote_reply ends r s = (let s1 = (case r of Inr q \<Rightarrow> s\<lparr>pg_quote := Some q\<rparr> | Inl _ \<Rightarrow> s)
     in if ends then s1\<lparr>pg_busy := False\<rparr> else s1)"

definition poll_timer :: "sale_page \<Rightarrow> sale_page" where
  "poll_timer s = (case pg_intent s of None \<Rightarrow> s
     | Some i \<Rightarrow> if it_status i = js ''granted'' then s else add_job (Polling (pg_gen s) (it_id i)) s)"

definition poll_reply :: "nat \<Rightarrow> sale_intent res \<Rightarrow> sale_page \<Rightarrow> sale_page" where
  "poll_reply g r s = (case r of Inr i \<Rightarrow> if g = pg_gen s then set_intent (Some i) s else s | Inl _ \<Rightarrow> s)"

definition end_job :: "page_job \<Rightarrow> sale_page \<Rightarrow> sale_page" where
  "end_job j s = s\<lparr>pg_jobs := remove1 j (pg_jobs s)\<rparr>"


subsection \<open>The page and the server\<close>

record sale_world =
  sw_page :: sale_page
  sw_book :: "jstr \<Rightarrow> stored_intent option"

definition on_page :: "(sale_page \<Rightarrow> sale_page) \<Rightarrow> sale_world \<Rightarrow> sale_world" where
  "on_page f w = w\<lparr>sw_page := f (sw_page w)\<rparr>"

definition asked :: "create_input \<Rightarrow> stored_intent \<Rightarrow> bool" where
  "asked inp k \<longleftrightarrow> si_status k = js ''pending'' \<and> si_rail k = ci_rail inp
     \<and> si_beneficiary0x k = to_lower (ci_beneficiary0x inp) \<and> si_usdAmount k = num_str (ci_usdAmount inp)"

inductive page_step :: "bool \<Rightarrow> (stored_intent \<Rightarrow> stored_intent \<Rightarrow> bool) \<Rightarrow> sale_world \<Rightarrow> sale_world \<Rightarrow> bool"
  for allocateEnabled evolves where
  rail: "page_step allocateEnabled evolves w (on_page (select_rail r) w)"
| usd: "page_step allocateEnabled evolves w (on_page (type_usd u) w)"
| beneficiary: "page_step allocateEnabled evolves w (on_page (type_beneficiary allocateEnabled b) w)"
| create: "page_step allocateEnabled evolves w (on_page (onCreate allocateEnabled) w)"
| over: "page_step allocateEnabled evolves w (on_page start_over w)"
| quote_tick: "page_step allocateEnabled evolves w (on_page quote_timer w)"
| poll_tick: "page_step allocateEnabled evolves w (on_page poll_timer w)"
| lost_create: "Creating inp \<in> set (pg_jobs (sw_page w))
    \<Longrightarrow> page_step allocateEnabled evolves w (on_page (\<lambda>s. add_job (Created (Inl e)) (end_job (Creating inp) s)) w)"
| served_create: "Creating inp \<in> set (pg_jobs (sw_page w)) \<Longrightarrow> sw_book w (si_id k) = None \<Longrightarrow> asked inp k
    \<Longrightarrow> page_step allocateEnabled evolves w
      (on_page (\<lambda>s. add_job (Created (toPublic k)) (end_job (Creating inp) s)) (w\<lparr>sw_book := (sw_book w)(si_id k \<mapsto> k)\<rparr>))"
| create_answer: "Created r \<in> set (pg_jobs (sw_page w))
    \<Longrightarrow> page_step allocateEnabled evolves w (on_page (\<lambda>s. create_reply r (end_job (Created r) s)) w)"
| quote_answer: "Quoting ends \<in> set (pg_jobs (sw_page w))
    \<Longrightarrow> page_step allocateEnabled evolves w (on_page (\<lambda>s. quote_reply ends q (end_job (Quoting ends) s)) w)"
| lost_poll: "Polling g iid \<in> set (pg_jobs (sw_page w))
    \<Longrightarrow> page_step allocateEnabled evolves w (on_page (end_job (Polling g iid)) w)"
| served_poll: "Polling g iid \<in> set (pg_jobs (sw_page w)) \<Longrightarrow> sw_book w iid = Some k
    \<Longrightarrow> page_step allocateEnabled evolves w (on_page (\<lambda>s. add_job (Polled g (toPublic k)) (end_job (Polling g iid) s)) w)"
| poll_answer: "Polled g r \<in> set (pg_jobs (sw_page w))
    \<Longrightarrow> page_step allocateEnabled evolves w (on_page (\<lambda>s. poll_reply g r (end_job (Polled g r) s)) w)"
| other_create: "sw_book w (si_id k) = None \<Longrightarrow> page_step allocateEnabled evolves w (w\<lparr>sw_book := (sw_book w)(si_id k \<mapsto> k)\<rparr>)"
| settled: "sw_book w iid = Some k \<Longrightarrow> evolves k k'
    \<Longrightarrow> page_step allocateEnabled evolves w (w\<lparr>sw_book := (sw_book w)(iid \<mapsto> k')\<rparr>)"

definition page_reach :: "bool \<Rightarrow> (stored_intent \<Rightarrow> stored_intent \<Rightarrow> bool) \<Rightarrow> sale_world \<Rightarrow> bool" where
  "page_reach allocateEnabled evolves w \<longleftrightarrow> (\<exists>book. (\<forall>i k. book i = Some k \<longrightarrow> si_id k = i)
     \<and> (page_step allocateEnabled evolves)\<^sup>*\<^sup>* \<lparr>sw_page = fresh_page, sw_book = book\<rparr> w)"


subsection \<open>How an intent of the server evolves\<close>

definition stage_of :: "jstr \<Rightarrow> nat" where
  "stage_of status = (if status = js ''granted'' then 2 else if status = js ''paid'' then 1 else 0)"

text \<open>What the buyer agreed to: everything but the status and what was paid and granted.\<close>

definition terms :: "stored_intent \<Rightarrow> stored_intent" where
  "terms i = i\<lparr>si_status := [], si_paymentTx := None, si_paymentId := None, si_grantTx := None\<rparr>"

definition later :: "stored_intent \<Rightarrow> stored_intent \<Rightarrow> bool" where
  "later i k \<longleftrightarrow> terms k = terms i \<and> stage_of (si_status i) \<le> stage_of (si_status k)"

text \<open>A page shows an intent of the book as it is or was.\<close>

definition was_in :: "(jstr \<Rightarrow> stored_intent option) \<Rightarrow> sale_intent \<Rightarrow> bool" where
  "was_in book i \<longleftrightarrow> (\<exists>k0 k. toPublic k0 = Inr i \<and> book (it_id i) = Some k \<and> later k0 k)"

definition holds :: "page_job \<Rightarrow> bool" where
  "holds j = (case j of Creating _ \<Rightarrow> True | Created _ \<Rightarrow> True | Quoting ends \<Rightarrow> ends | _ \<Rightarrow> False)"

definition creates :: "page_job \<Rightarrow> bool" where
  "creates j = (case j of Creating _ \<Rightarrow> True | Created _ \<Rightarrow> True | _ \<Rightarrow> False)"

definition job_ok :: "(jstr \<Rightarrow> stored_intent option) \<Rightarrow> sale_intent option \<Rightarrow> nat \<Rightarrow> page_job \<Rightarrow> bool" where
  "job_ok book shown gen j = (case j of
       Created (Inr i) \<Rightarrow> was_in book i
     | Polling g iid \<Rightarrow> g \<le> gen \<and> (g = gen \<longrightarrow> (\<exists>i. shown = Some i \<and> it_id i = iid))
     | Polled g (Inr i) \<Rightarrow> was_in book i \<and> g \<le> gen
         \<and> (g = gen \<longrightarrow> (\<exists>s. shown = Some s \<and> it_id s = it_id i \<and> stage_of (it_status s) \<le> stage_of (it_status i)))
     | _ \<Rightarrow> True)"

definition page_ok :: "(jstr \<Rightarrow> stored_intent option) \<Rightarrow> sale_page \<Rightarrow> bool" where
  "page_ok book s \<longleftrightarrow> length (filter holds (pg_jobs s)) = (if pg_busy s then 1 else 0)
     \<and> ((\<exists>j \<in> set (pg_jobs s). creates j) \<longrightarrow> pg_intent s = None)
     \<and> (\<forall>i. pg_intent s = Some i \<longrightarrow> was_in book i)
     \<and> (\<forall>j \<in> set (pg_jobs s). job_ok book (pg_intent s) (pg_gen s) j)"

definition book_named :: "(jstr \<Rightarrow> stored_intent option) \<Rightarrow> bool" where
  "book_named book \<longleftrightarrow> (\<forall>i k. book i = Some k \<longrightarrow> si_id k = i)"

definition sw_ok :: "sale_world \<Rightarrow> bool" where
  "sw_ok w \<longleftrightarrow> book_named (sw_book w) \<and> page_ok (sw_book w) (sw_page w)"

lemma later_refl [simp]: "later i i"
  by (simp add: later_def)

lemma later_trans: "later i j \<Longrightarrow> later j k \<Longrightarrow> later i k"
  by (simp add: later_def)

lemma terms_id: "terms k = terms i \<Longrightarrow> si_id k = si_id i"
  by (cases k; cases i) (simp add: terms_def)

lemma toPublic_sel: "toPublic k = Inr i \<Longrightarrow> it_id i = si_id k \<and> it_status i = si_status k"
  by (auto simp: toPublic_def bind_res_eq_Inr)

lemma filter_remove1_length:
  "x \<in> set xs \<Longrightarrow> length (filter P (remove1 x xs)) = length (filter P xs) - (if P x then 1 else 0)"
proof (induction xs)
  case (Cons y xs)
  have "P x \<Longrightarrow> x \<in> set xs \<Longrightarrow> 0 < length (filter P xs)"
    by (auto simp: filter_empty_conv)
  then show ?case using Cons by auto
qed simp

subsection \<open>The book only moves forward\<close>

lemma was_in_update:
  assumes "was_in book i" "book iid = Some k" "later k k'"
  shows "was_in (book(iid \<mapsto> k')) i"
  using assms later_trans unfolding was_in_def by fastforce

lemma was_in_new: "was_in book i \<Longrightarrow> book iid = None \<Longrightarrow> was_in (book(iid \<mapsto> k)) i"
  unfolding was_in_def by fastforce

lemma page_ok_book:
  assumes "page_ok book s" "\<And>i. was_in book i \<Longrightarrow> was_in book' i"
  shows "page_ok book' s"
proof -
  have "job_ok book' a g j" if "job_ok book a g j" for a g j
    using that assms(2) by (auto simp: job_ok_def split: page_job.splits sum.splits)
  then show ?thesis
    using assms by (simp add: page_ok_def)
qed


subsection \<open>What the page does\<close>

lemma page_ok_fields [simp]:
  "page_ok book (s\<lparr>pg_railId := r\<rparr>) = page_ok book s" "page_ok book (s\<lparr>pg_usd := u\<rparr>) = page_ok book s"
  "page_ok book (s\<lparr>pg_beneficiary := b\<rparr>) = page_ok book s" "page_ok book (s\<lparr>pg_quote := q\<rparr>) = page_ok book s"
  "page_ok book (s\<lparr>pg_error := e\<rparr>) = page_ok book s"
  by (simp_all add: page_ok_def)

lemma page_sel [simp]:
  "pg_jobs (set_intent i s) = pg_jobs s" "pg_busy (set_intent i s) = pg_busy s" "pg_intent (set_intent i s) = i"
  "pg_jobs (add_job j s) = pg_jobs s @ [j]" "pg_busy (add_job j s) = pg_busy s" "pg_intent (add_job j s) = pg_intent s"
  "pg_gen (add_job j s) = pg_gen s"
  "pg_jobs (end_job j s) = remove1 j (pg_jobs s)" "pg_busy (end_job j s) = pg_busy s" "pg_intent (end_job j s) = pg_intent s"
  "pg_gen (end_job j s) = pg_gen s"
  by (simp_all add: set_intent_def add_job_def end_job_def)

lemma job_kinds [simp]:
  "holds (Creating inp)" "holds (Created r)" "holds (Quoting ends) = ends" "\<not> holds (Polling g iid)" "\<not> holds (Polled g r)"
  "creates (Creating inp)" "creates (Created r)" "\<not> creates (Quoting ends)" "\<not> creates (Polling g iid)" "\<not> creates (Polled g r)"
  by (simp_all add: holds_def creates_def)

lemma creating_none: "page_ok book s \<Longrightarrow> j \<in> set (pg_jobs s) \<Longrightarrow> creates j \<Longrightarrow> pg_intent s = None"
  by (auto simp: page_ok_def)

lemma creates_holds: "creates j \<Longrightarrow> holds j"
  by (simp add: creates_def holds_def split: page_job.splits)

lemma one_holder:
  assumes "page_ok book s" "j \<in> set (pg_jobs s)" "holds j" "j' \<in> set (pg_jobs s)" "holds j'"
  shows "j' = j" "pg_busy s"
proof -
  have ne: "j \<in> set (filter holds (pg_jobs s))" "j' \<in> set (filter holds (pg_jobs s))"
    using assms by simp_all
  then have "length (filter holds (pg_jobs s)) \<noteq> 0"
    by (metis empty_iff empty_set length_0_conv)
  then show "pg_busy s"
    using assms(1) by (simp add: page_ok_def split: if_splits)
  then obtain x where "filter holds (pg_jobs s) = [x]"
    using assms(1) by (auto simp: page_ok_def length_Suc_conv)
  then show "j' = j" using ne by simp
qed

lemma add_job_ok:
  assumes "page_ok book s" "\<not> holds j" "job_ok book (pg_intent s) (pg_gen s) j"
  shows "page_ok book (add_job j s)"
  using assms creates_holds by (auto simp: page_ok_def)

lemma stop_job_ok:
  assumes "page_ok book s" "j \<in> set (pg_jobs s)" "\<not> holds j"
  shows "page_ok book (end_job j s)"
  using assms filter_remove1_length [OF assms(2), of holds] set_remove1_subset [of j "pg_jobs s"]
  unfolding page_ok_def by (auto simp del: filter_remove1)

lemma swap_job_ok:
  assumes "page_ok book s" "j \<in> set (pg_jobs s)" "holds j" "holds j'" "creates j' \<longrightarrow> pg_intent s = None"
    and "job_ok book (pg_intent s) (pg_gen s) j'"
  shows "page_ok book (add_job j' (end_job j s))"
  using assms one_holder [OF assms(1-3,2,3)] filter_remove1_length [OF assms(2), of holds] set_remove1_subset [of j "pg_jobs s"]
  unfolding page_ok_def by (auto simp del: filter_remove1)

lemma release_ok:
  assumes "page_ok book s" "j \<in> set (pg_jobs s)" "holds j"
  shows "page_ok book ((end_job j s)\<lparr>pg_busy := False\<rparr>)"
  using assms one_holder [OF assms(1-3,2,3)] filter_remove1_length [OF assms(2), of holds] set_remove1_subset [of j "pg_jobs s"]
  unfolding page_ok_def by (auto simp del: filter_remove1)

lemma job_ok_set_intent:
  assumes "job_ok book (pg_intent s) (pg_gen s) j"
  shows "job_ok book i (pg_gen (set_intent i s)) j"
proof (cases "effect_key i = effect_key (pg_intent s)")
  case True
  then show ?thesis
    using assms by (fastforce simp: job_ok_def set_intent_def effect_key_def split: page_job.splits sum.splits)
next
  case False
  then show ?thesis
    using assms by (auto simp: job_ok_def set_intent_def split: page_job.splits sum.splits)
qed

lemma set_intent_ok:
  assumes "page_ok book s" "i \<noteq> None \<Longrightarrow> \<forall>j \<in> set (pg_jobs s). \<not> creates j" "\<And>v. i = Some v \<Longrightarrow> was_in book v"
  shows "page_ok book (set_intent i s)"
proof -
  have "\<forall>j \<in> set (pg_jobs s). job_ok book i (pg_gen (set_intent i s)) j"
    using assms(1) job_ok_set_intent unfolding page_ok_def by blast
  then show ?thesis
    using assms unfolding page_ok_def page_sel by blast
qed

lemma select_rail_ok: "page_ok book s \<Longrightarrow> page_ok book (select_rail r s)"
  unfolding select_rail_def by (rule set_intent_ok) simp_all

lemma start_over_ok: "page_ok book s \<Longrightarrow> page_ok book (start_over s)"
  by (auto simp: start_over_def holds_def job_ok_def intro!: add_job_ok set_intent_ok)

lemma onCreate_ok:
  assumes "page_ok book s"
  shows "page_ok book (onCreate a s)"
proof (cases "can_create a s")
  case True
  then have "\<not> pg_busy s" "pg_intent s = None" by (simp_all add: can_create_def)
  then show ?thesis
    using assms True by (auto simp: onCreate_def page_ok_def add_job_def holds_def job_ok_def)
qed (simp add: onCreate_def assms)

lemma poll_timer_ok: "page_ok book s \<Longrightarrow> page_ok book (poll_timer s)"
  by (auto simp: poll_timer_def holds_def job_ok_def intro!: add_job_ok split: option.split)

lemma quote_reply_ok:
  assumes "page_ok book s" "Quoting ends \<in> set (pg_jobs s)"
  shows "page_ok book (quote_reply ends q (end_job (Quoting ends) s))"
proof (cases ends)
  case True
  have "page_ok book ((end_job (Quoting ends) s)\<lparr>pg_busy := False\<rparr>)"
    by (rule release_ok [OF assms]) (simp add: holds_def True)
  then show ?thesis
    using True by (simp add: quote_reply_def Let_def page_ok_def split: sum.split)
next
  case False
  have "page_ok book (end_job (Quoting ends) s)"
    by (rule stop_job_ok [OF assms]) (simp add: holds_def False)
  then show ?thesis
    using False by (simp add: quote_reply_def Let_def split: sum.split)
qed

lemma add_set_intent: "add_job j (set_intent i s) = set_intent i (add_job j s)"
  by (simp add: add_job_def set_intent_def)

lemma create_reply_ok:
  assumes "page_ok book s" "Created r \<in> set (pg_jobs s)"
  shows "page_ok book (create_reply r (end_job (Created r) s))"
proof (cases r)
  case (Inl e)
  have "page_ok book ((end_job (Created r) s)\<lparr>pg_busy := False\<rparr>)"
    by (rule release_ok [OF assms]) (simp add: holds_def)
  then show ?thesis
    using Inl by (simp add: create_reply_def page_ok_def)
next
  case (Inr i)
  have i: "was_in book i"
    using assms Inr by (auto simp: page_ok_def job_ok_def)
  let ?s = "add_job (Quoting True) (end_job (Created r) s)"
  have ok: "page_ok book ?s"
    by (rule swap_job_ok [OF assms]) (simp_all add: holds_def creates_def job_ok_def)
  have "\<not> creates j" if "j \<in> set (pg_jobs ?s)" for j
    using one_holder(1) [OF ok, of "Quoting True" j] that creates_holds [of j] by (auto simp: holds_def creates_def)
  then have "page_ok book (set_intent (Some i) ?s)"
    by (intro set_intent_ok [OF ok]) (use i in auto)
  then show ?thesis
    using Inr by (simp add: create_reply_def add_set_intent)
qed

lemma poll_reply_ok:
  assumes "page_ok book s" "Polled g r \<in> set (pg_jobs s)"
  shows "page_ok book (poll_reply g r (end_job (Polled g r) s))"
proof -
  let ?s = "end_job (Polled g r) s"
  have ok: "page_ok book ?s"
    by (rule stop_job_ok [OF assms]) (simp add: holds_def)
  show ?thesis
  proof (cases "\<exists>i. r = Inr i \<and> g = pg_gen s")
    case True
    then obtain i where r: "r = Inr i" "g = pg_gen s" by blast
    then have "job_ok book (pg_intent s) (pg_gen s) (Polled g (Inr i))"
      using assms by (auto simp: page_ok_def)
    then have j: "was_in book i" "pg_intent s \<noteq> None"
      using r by (auto simp: job_ok_def)
    then have "\<forall>j \<in> set (pg_jobs ?s). \<not> creates j"
      using ok by (auto simp: page_ok_def)
    then have "page_ok book (set_intent (Some i) ?s)"
      by (intro set_intent_ok [OF ok]) (use j in auto)
    then show ?thesis using r by (simp add: poll_reply_def)
  next
    case False
    then show ?thesis using ok by (auto simp: poll_reply_def split: sum.split)
  qed
qed


subsection \<open>What the steps keep\<close>

text \<open>
  The contract of the server's other writers, which is all the page relies on: they leave the terms
  of an intent alone and move its status forward.
\<close>

locale intent_service =
  fixes evolves :: "stored_intent \<Rightarrow> stored_intent \<Rightarrow> bool"
  assumes keeps_terms: "evolves k k' \<Longrightarrow> terms k' = terms k"
    and forward: "evolves k k' \<Longrightarrow> stage_of (si_status k) \<le> stage_of (si_status k')"
begin

lemma evolves_later: "evolves k k' \<Longrightarrow> later k k'"
  by (simp add: later_def keeps_terms forward)

lemma served_was_in: "book_named book \<Longrightarrow> book iid = Some k \<Longrightarrow> toPublic k = Inr i \<Longrightarrow> was_in book i \<and> it_id i = iid"
  using toPublic_sel [of k i] unfolding was_in_def book_named_def by fastforce

lemma served_poll_ok:
  assumes "page_ok book s" "book_named book" "Polling g iid \<in> set (pg_jobs s)" "book iid = Some k"
  shows "page_ok book (add_job (Polled g (toPublic k)) (end_job (Polling g iid) s))"
proof (rule add_job_ok)
  show "page_ok book (end_job (Polling g iid) s)"
    by (rule stop_job_ok [OF assms(1,3)]) (simp add: holds_def)
  have p: "job_ok book (pg_intent s) (pg_gen s) (Polling g iid)"
    using assms(1,3) by (auto simp: page_ok_def)
  have "stage_of (it_status v) \<le> stage_of (it_status i)"
    if "toPublic k = Inr i" "pg_intent s = Some v" "it_id v = iid" for i v
  proof -
    note v = that
    have "was_in book v" using assms(1) v(2) by (simp add: page_ok_def)
    then obtain k0 where k0: "toPublic k0 = Inr v" "later k0 k"
      using v(3) assms(4) by (auto simp: was_in_def)
    then show ?thesis
      using toPublic_sel [OF k0(1)] toPublic_sel [OF v(1)] by (simp add: later_def)
  qed
  then show "job_ok book (pg_intent (end_job (Polling g iid) s)) (pg_gen (end_job (Polling g iid) s)) (Polled g (toPublic k))"
    using p served_was_in [OF assms(2,4)] by (cases "toPublic k") (auto simp: job_ok_def)
qed simp

lemma served_create_ok:
  assumes "page_ok book s" "book_named book" "Creating inp \<in> set (pg_jobs s)" "book (si_id k) = None"
  shows "page_ok (book(si_id k \<mapsto> k)) (add_job (Created (toPublic k)) (end_job (Creating inp) s))"
proof (rule swap_job_ok)
  show "page_ok (book(si_id k \<mapsto> k)) s"
    using page_ok_book [OF assms(1)] was_in_new assms(4) by metis
  have "book_named (book(si_id k \<mapsto> k))" using assms(2) by (auto simp: book_named_def)
  then show "job_ok (book(si_id k \<mapsto> k)) (pg_intent s) (pg_gen s) (Created (toPublic k))"
    using served_was_in [of "book(si_id k \<mapsto> k)" "si_id k" k] by (auto simp: job_ok_def split: sum.split)
  show "creates (Created (toPublic k)) \<longrightarrow> pg_intent s = None"
    using creating_none [OF assms(1,3)] by simp
qed (use assms(3) in simp_all)

lemma lost_create_ok:
  assumes "page_ok book s" "Creating inp \<in> set (pg_jobs s)"
  shows "page_ok book (add_job (Created (Inl e)) (end_job (Creating inp) s))"
  by (rule swap_job_ok [OF assms]) (use creating_none [OF assms] in \<open>simp_all add: job_ok_def\<close>)

lemma lost_poll_ok: "page_ok book s \<Longrightarrow> Polling g iid \<in> set (pg_jobs s) \<Longrightarrow> page_ok book (end_job (Polling g iid) s)"
  by (rule stop_job_ok) (simp_all add: holds_def)

lemma step_ok:
  assumes "page_step a evolves w w'" "sw_ok w"
  shows "sw_ok w'"
proof -
  have w: "book_named (sw_book w)" "page_ok (sw_book w) (sw_page w)"
    using assms(2) by (simp_all add: sw_ok_def)
  have q: "page_ok (sw_book w) (add_job (Quoting False) (sw_page w))"
    by (rule add_job_ok [OF w(2)]) (simp_all add: holds_def job_ok_def)
  show ?thesis
    using assms(1)
  proof cases
    case (served_create inp k)
    then show ?thesis
      using w served_create_ok [OF w(2,1)] by (auto simp: sw_ok_def on_page_def book_named_def)
  next
    case (other_create k)
    then show ?thesis
      using w page_ok_book [OF w(2) was_in_new] by (auto simp: sw_ok_def book_named_def)
  next
    case (settled iid k k')
    then have "later k k'" "si_id k' = iid"
      using evolves_later terms_id keeps_terms w(1) unfolding book_named_def by metis+
    then show ?thesis
      using settled w page_ok_book [OF w(2) was_in_update] by (auto simp: sw_ok_def book_named_def)
  qed (use w q in \<open>simp_all add: sw_ok_def on_page_def select_rail_ok start_over_ok onCreate_ok poll_timer_ok quote_reply_ok
      create_reply_ok poll_reply_ok served_poll_ok lost_create_ok lost_poll_ok type_usd_def type_beneficiary_def quote_timer_def\<close>)
qed

lemma reach_ok:
  assumes "page_reach a evolves w"
  shows "sw_ok w"
proof -
  obtain book where b: "\<forall>i k. book i = Some k \<longrightarrow> si_id k = i"
    "(page_step a evolves)\<^sup>*\<^sup>* \<lparr>sw_page = fresh_page, sw_book = book\<rparr> w"
    using assms by (auto simp: page_reach_def)
  have "sw_ok \<lparr>sw_page = fresh_page, sw_book = book\<rparr>"
    using b(1) by (simp add: sw_ok_def book_named_def page_ok_def fresh_page_def holds_def creates_def job_ok_def)
  with b(2) show ?thesis
    by (induction rule: rtranclp_induct) (auto intro: step_ok)
qed

lemma step_forward:
  assumes "page_step a evolves w w'" "sw_ok w" "pg_intent (sw_page w) = Some i" "pg_intent (sw_page w') = Some i'"
  shows "it_id i' = it_id i \<and> stage_of (it_status i) \<le> stage_of (it_status i')"
proof -
  have w: "page_ok (sw_book w) (sw_page w)" using assms(2) by (simp add: sw_ok_def)
  show ?thesis
    using assms(1)
  proof cases
    case (create_answer r)
    then have "pg_intent (sw_page w) = None"
      using creating_none [OF w] by simp
    then show ?thesis using assms(3) by simp
  next
    case (poll_answer g r)
    then have "job_ok (sw_book w) (pg_intent (sw_page w)) (pg_gen (sw_page w)) (Polled g r)"
      using w by (auto simp: page_ok_def)
    then show ?thesis
      using poll_answer assms(3,4) by (auto simp: on_page_def poll_reply_def job_ok_def split: sum.splits if_splits)
  qed (use assms(3,4) in \<open>auto simp: on_page_def select_rail_def start_over_def onCreate_def quote_timer_def poll_timer_def
      type_usd_def type_beneficiary_def quote_reply_def Let_def split: if_splits sum.splits\<close>)
qed

end


lemma marked_terms: "terms (snd (markPaidAndGrant sha tx n g k)) = terms k"
  by (cases g) (simp_all add: markPaidAndGrant_def mark_paid_def mark_granted_def terms_def)

lemma settles_keep: "relayer_settles k k' \<Longrightarrow> terms k' = terms k"
  unfolding relayer_settles_def by (metis marked_terms snd_conv)

lemma settles_forward: "relayer_settles k k' \<Longrightarrow> stage_of (si_status k) \<le> stage_of (si_status k')"
  by (auto simp: relayer_settles_def stage_of_def js_eval)

interpretation watcher: intent_service relayer_settles
  by unfold_locales (rule settles_keep settles_forward; assumption)+

lemma terms_sel:
  assumes "terms k = terms k0"
  shows "si_rail k = si_rail k0" "si_payAmount k = si_payAmount k0" "si_receive k = si_receive k0" "si_e7Amount k = si_e7Amount k0"
    "si_beneficiary0x k = si_beneficiary0x k0" "si_price k = si_price k0" "si_usdAmount k = si_usdAmount k0" "si_chain k = si_chain k0"
  using assms by (cases k; cases k0; simp add: terms_def)+

lemma was_in_terms:
  assumes "was_in book i"
  shows "\<exists>k. book (it_id i) = Some k \<and> it_rail i = si_rail k \<and> it_payAmount i = si_payAmount k \<and> it_receive i = si_receive k
    \<and> it_e7Amount i = si_e7Amount k \<and> it_beneficiary0x i = si_beneficiary0x k \<and> it_usdAmount i = si_usdAmount k
    \<and> it_priceUsdPerEav7 i = Some (si_price k) \<and> stage_of (it_status i) \<le> stage_of (si_status k)"
proof -
  obtain k0 k where k: "toPublic k0 = Inr i" "book (it_id i) = Some k" "later k0 k"
    using assms by (auto simp: was_in_def)
  then have "terms k = terms k0" by (simp add: later_def)
  note t = terms_sel [OF this]
  show ?thesis
    using k t by (intro exI [of _ k]) (auto simp: toPublic_def bind_res_eq_Inr later_def)
qed


subsection \<open>Properties\<close>


text \<open>
  C14. The status on the page never goes back: from one moment to the next the page either leaves the
  intent or shows the same one at the same or a later stage (pending, paid, granted), although the
  replies to its polls may overtake one another.
\<close>

theorem page_status_never_regresses:
  assumes "page_reach a relayer_settles w" "page_step a relayer_settles w w'"
    and "pg_intent (sw_page w) = Some i" "pg_intent (sw_page w') = Some i'"
  shows "it_id i' = it_id i \<and> stage_of (it_status i) \<le> stage_of (it_status i')"
  by (rule watcher.step_forward [OF assms(2) watcher.reach_ok [OF assms(1)] assms(3,4)])

text \<open>
  C31. The tokens the page announces are those the server books: when the quote on the page is the
  server's, creating the intent of the form books its estimate rounded to the token's six places, at
  the price shown.
\<close>

theorem estimate_is_booked:
  assumes "pg_quote s = Some q" "getSaleQuoteSnapshot ch sv = Inr q"
    and "createLocalIntent \<lparr>ci_beneficiary0x = pg_beneficiary s, ci_rail = pg_railId s, ci_usdAmount = usdNum s\<rparr> ch sv = (Inr view, sv')"
  shows "\<exists>e7. bigint_of_num (num_round (num_mul (eav7Out s) (Num 1000000))) = Inr e7 \<and> it_e7Amount view = big_str e7
    \<and> it_priceUsdPerEav7 view = Some (num_str (livePrice s)) \<and> it_usdAmount view = num_str (usdNum s)"
  using assms(3)
proof (rule createLocalIntent_Inr)
  fix rail st pay e7 rnd created r
  assume l: "loadState ch sv = Inr st"
    and e7: "bigint_of_num (num_round (num_mul (num_div (ci_usdAmount \<lparr>ci_beneficiary0x = pg_beneficiary s, ci_rail = pg_railId s, ci_usdAmount = usdNum s\<rparr>)
       (q_price (buildSaleQuote (progress_view st) (server_cfg ch sv)))) (Num 1000000))) = Inr e7"
    and v: "toPublic (new_intent \<lparr>ci_beneficiary0x = pg_beneficiary s, ci_rail = pg_railId s, ci_usdAmount = usdNum s\<rparr> ch rail
       (buildSaleQuote (progress_view st) (server_cfg ch sv)) pay e7 rnd created) = Inr view"
  have "buildSaleQuote (progress_view st) (server_cfg ch sv) = q"
    using assms(2) l by (simp add: getSaleQuoteSnapshot_def)
  then show ?thesis
    using e7 v assms(1) by (auto simp: eav7Out_def livePrice_def toPublic_def new_intent_def bind_res_eq_Inr)
qed

text \<open>
  Choosing another rail does not cancel a create under way: its intent comes up on the page with the
  chip of the other rail lit.
\<close>

theorem rail_choice_keeps_old_create:
  assumes "can_create a s" "r \<noteq> pg_railId s"
  shows "let s1 = onCreate a s; inp = \<lparr>ci_beneficiary0x = pg_beneficiary s, ci_rail = pg_railId s, ci_usdAmount = usdNum s\<rparr>;
           s2 = select_rail r s1; s3 = create_reply (Inr i) s2
    in Creating inp \<in> set (pg_jobs s2) \<and> pg_railId s3 = r \<and> pg_intent s3 = Some i \<and> ci_rail inp \<noteq> r"
  using assms by (simp add: onCreate_def select_rail_def create_reply_def add_job_def set_intent_def)


subsection \<open>A page to evaluate on\<close>

definition demo_start :: sale_world where
  "demo_start = \<lparr>sw_page = fresh_page, sw_book = Map.empty\<rparr>"

definition demo_form :: sale_world where
  "demo_form = on_page (type_beneficiary True (ci_beneficiary0x inp0)) demo_start"

definition demo_asked :: sale_world where
  "demo_asked = on_page (onCreate True) demo_form"

definition demo_intent :: stored_intent where
  "demo_intent = int1\<lparr>si_rail := js ''eth-usdt''\<rparr>"

definition demo_served :: sale_world where
  "demo_served = on_page (\<lambda>s. add_job (Created (toPublic demo_intent)) (end_job (Creating inp0) s))
     (demo_asked\<lparr>sw_book := (sw_book demo_asked)(si_id demo_intent \<mapsto> demo_intent)\<rparr>)"

definition demo_paying :: sale_world where
  "demo_paying = on_page (\<lambda>s. create_reply (toPublic demo_intent) (end_job (Created (toPublic demo_intent)) s)) demo_served"

lemma fresh_usd: "usdNum (fresh_page\<lparr>pg_beneficiary := b\<rparr>) = Num 1000"
  by (simp add: usdNum_def fresh_page_def num_eval js_eval num_max_def)

lemma demo_form: "demo_form = \<lparr>sw_page = fresh_page\<lparr>pg_beneficiary := ci_beneficiary0x inp0\<rparr>, sw_book = Map.empty\<rparr>"
  using trim_evm [OF addr0] by (simp add: demo_form_def demo_start_def on_page_def type_beneficiary_def fresh_page_def)

lemma demo_asked: "demo_asked = \<lparr>sw_page = fresh_page\<lparr>pg_beneficiary := ci_beneficiary0x inp0, pg_busy := True,
    pg_jobs := [Quoting False, Creating inp0]\<rparr>, sw_book = Map.empty\<rparr>"
proof -
  have "can_create True (fresh_page\<lparr>pg_beneficiary := ci_beneficiary0x inp0\<rparr>)"
    using addr0 by (simp add: can_create_def fresh_usd addrOk_def) (simp add: fresh_page_def)
  then show ?thesis
    by (simp add: demo_asked_def demo_form on_page_def onCreate_def fresh_usd add_job_def) (simp add: fresh_page_def inp0_def)
qed

lemma demo_asked_intent: "asked inp0 demo_intent"
  by (simp add: asked_def demo_intent_def int1_def new_intent_def inp0_def)

lemma demo_public: "\<exists>v. toPublic demo_intent = Inr v"
  using rail0 by (simp add: toPublic_def demo_intent_def)

lemma demo_reach: "page_reach True evolves demo_paying"
proof -
  let ?step = "page_step True evolves"
  have "?step demo_start demo_form" unfolding demo_form_def by (rule page_step.beneficiary)
  moreover have "?step demo_form demo_asked" unfolding demo_asked_def by (rule page_step.create)
  moreover have "?step demo_asked demo_served"
    unfolding demo_served_def by (rule page_step.served_create [OF _ _ demo_asked_intent]) (simp_all add: demo_asked)
  moreover have "?step demo_served demo_paying"
    unfolding demo_paying_def by (rule page_step.create_answer) (simp add: demo_served_def on_page_def add_job_def)
  ultimately have "?step\<^sup>*\<^sup>* demo_start demo_paying"
    by (meson rtranclp.rtrancl_into_rtrancl rtranclp.rtrancl_refl)
  then show ?thesis
    unfolding page_reach_def demo_start_def by (intro exI [of _ Map.empty]) simp
qed

lemma demo_shown: "\<exists>v. pg_intent (sw_page demo_paying) = Some v \<and> toPublic demo_intent = Inr v"
proof -
  obtain v where "toPublic demo_intent = Inr v" using demo_public by blast
  then show ?thesis
    by (simp add: demo_paying_def on_page_def create_reply_def)
qed


theorem page_status_never_regresses_witness:
  "\<exists>v v'. pg_intent (sw_page demo_paying) = Some v \<and> pg_intent (sw_page (on_page poll_timer demo_paying)) = Some v'
     \<and> it_id v' = it_id v \<and> stage_of (it_status v) \<le> stage_of (it_status v')"
proof -
  obtain v where v: "pg_intent (sw_page demo_paying) = Some v" using demo_shown by blast
  have v': "pg_intent (sw_page (on_page poll_timer demo_paying)) = Some v"
    using v by (simp add: on_page_def poll_timer_def)
  show ?thesis
    using page_status_never_regresses [OF demo_reach page_step.poll_tick v v'] v v' by blast
qed

theorem estimate_is_booked_witness:
  "\<exists>(view :: sale_intent) e7. bigint_of_num (num_round (num_mul (eav7Out (fresh_page\<lparr>pg_beneficiary := ci_beneficiary0x inp0,
      pg_quote := Some (buildSaleQuote [] EMBEDDED_CFG)\<rparr>)) (Num 1000000))) = Inr e7 \<and> it_e7Amount view = big_str e7"
proof -
  let ?s = "fresh_page\<lparr>pg_beneficiary := ci_beneficiary0x inp0, pg_quote := Some (buildSaleQuote [] EMBEDDED_CFG)\<rparr>"
  have q: "getSaleQuoteSnapshot Private sv0 = Inr (buildSaleQuote [] EMBEDDED_CFG)"
    using state0 cfg0 by (simp add: getSaleQuoteSnapshot_def progress_view_def)
  have "usdNum ?s = Num 1000"
    using fresh_usd by (simp add: usdNum_def)
  then have "\<lparr>ci_beneficiary0x = pg_beneficiary ?s, ci_rail = pg_railId ?s, ci_usdAmount = usdNum ?s\<rparr> = inp0"
    by (simp add: inp0_def fresh_page_def)
  then obtain view sv' where c: "createLocalIntent \<lparr>ci_beneficiary0x = pg_beneficiary ?s, ci_rail = pg_railId ?s, ci_usdAmount = usdNum ?s\<rparr>
      Private sv0 = (Inr view, sv')"
    using create0 by auto
  have "pg_quote ?s = Some (buildSaleQuote [] EMBEDDED_CFG)" by simp
  from estimate_is_booked [OF this q c] show ?thesis by blast
qed

end
