(* ===== verification/I18nText.thy ===== *)
theory I18nText
  imports Prelude
begin

section \<open>The texts of the site's frame and the languages\<close>

text \<open>
  The data of \<open>i18n/locales.ts\<close> (the twelve languages) and of \<open>i18n/dictionary.ts\<close>: the texts
  of the header, the menus and the footer, one nested object per language, as they stand in the
  file. A string is its UTF-16 code units, so letters outside ASCII are written as numbers.
  A message is a text or an object of messages: the two files hold nothing else.
  \<open>pt\<close> sets the shape, as the file's head says, and the others have to mirror its names.
\<close>

datatype message = Text jstr | Names "(jstr \<times> message) list"

type_synonym messages = "(jstr \<times> message) list"

record locale_row =
  lc_code :: jstr
  lc_name :: jstr
  lc_english :: jstr
  lc_flag :: jstr
  lc_dir :: jstr

definition LOCALES :: "locale_row list" where
  "LOCALES = [
    \<lparr>lc_code = js ''pt'', lc_name = js ''Portugu'' @ [234] @ js ''s'', lc_english = js ''Portuguese'', lc_flag = [55356, 56807, 55356, 56823], lc_dir = js ''ltr''\<rparr>,
    \<lparr>lc_code = js ''en'', lc_name = js ''English'', lc_english = js ''English'', lc_flag = [55356, 56826, 55356, 56824], lc_dir = js ''ltr''\<rparr>,
    \<lparr>lc_code = js ''es'', lc_name = js ''Espa'' @ [241] @ js ''ol'', lc_english = js ''Spanish'', lc_flag = [55356, 56810, 55356, 56824], lc_dir = js ''ltr''\<rparr>,
    \<lparr>lc_code = js ''zh'', lc_name = [20013, 25991], lc_english = js ''Chinese'', lc_flag = [55356, 56808, 55356, 56819], lc_dir = js ''ltr''\<rparr>,
    \<lparr>lc_code = js ''fr'', lc_name = js ''Fran'' @ [231] @ js ''ais'', lc_english = js ''French'', lc_flag = [55356, 56811, 55356, 56823], lc_dir = js ''ltr''\<rparr>,
    \<lparr>lc_code = js ''de'', lc_name = js ''Deutsch'', lc_english = js ''German'', lc_flag = [55356, 56809, 55356, 56810], lc_dir = js ''ltr''\<rparr>,
    \<lparr>lc_code = js ''ja'', lc_name = [26085, 26412, 35486], lc_english = js ''Japanese'', lc_flag = [55356, 56815, 55356, 56821], lc_dir = js ''ltr''\<rparr>,
    \<lparr>lc_code = js ''ru'', lc_name = [1056, 1091, 1089, 1089, 1082, 1080, 1081], lc_english = js ''Russian'', lc_flag = [55356, 56823, 55356, 56826], lc_dir = js ''ltr''\<rparr>,
    \<lparr>lc_code = js ''ar'', lc_name = [1575, 1604, 1593, 1585, 1576, 1610, 1577], lc_english = js ''Arabic'', lc_flag = [55356, 56824, 55356, 56806], lc_dir = js ''rtl''\<rparr>,
    \<lparr>lc_code = js ''hi'', lc_name = [2361, 2367, 2344, 2381, 2342, 2368], lc_english = js ''Hindi'', lc_flag = [55356, 56814, 55356, 56819], lc_dir = js ''ltr''\<rparr>,
    \<lparr>lc_code = js ''ko'', lc_name = [54620, 44397, 50612], lc_english = js ''Korean'', lc_flag = [55356, 56816, 55356, 56823], lc_dir = js ''ltr''\<rparr>,
    \<lparr>lc_code = js ''it'', lc_name = js ''Italiano'', lc_english = js ''Italian'', lc_flag = [55356, 56814, 55356, 56825], lc_dir = js ''ltr''\<rparr>]"

definition DEFAULT_LOCALE :: jstr where "DEFAULT_LOCALE = js ''en''"
definition LOCALE_COOKIE :: jstr where "LOCALE_COOKIE = js ''eav7-locale''"


subsection \<open>One object per language\<close>

definition pt :: messages where
  "pt = [
    (js ''terms'', Names [
      (js ''home'', Text (js ''In'' @ [237] @ js ''cio'')),
      (js ''blocks'', Text (js ''Blocos'')),
      (js ''txs'', Text (js ''Transa'' @ [231, 245] @ js ''es'')),
      (js ''tokens'', Text (js ''Tokens'')),
      (js ''tokensEav20'', Text (js ''Tokens EAV20'')),
      (js ''validators'', Text (js ''Validadores'')),
      (js ''mining'', Text (js ''Minera'' @ [231, 227] @ js ''o'')),
      (js ''wallet'', Text (js ''Carteira'')),
      (js ''walletWeb'', Text (js ''Carteira web'')),
      (js ''staking'', Text (js ''Staking & recompensas'')),
      (js ''consensusDpos'', Text (js ''Consenso DPoS'')),
      (js ''tokenStandard'', Text (js ''Padr'' @ [227] @ js ''o EAV20'')),
      (js ''tokenStandardFull'', Text (js ''Padr'' @ [227] @ js ''o de token EAV20'')),
      (js ''bridge'', Text (js ''Ponte cross-chain'')),
      (js ''eavm'', Text (js ''EAVM '' @ [183] @ js '' MetaMask'')),
      (js ''apiRest'', Text (js ''API REST'')),
      (js ''aboutProtocol'', Text (js ''Sobre o protocolo'')),
      (js ''aboutEav20'', Text (js ''Sobre o eav20'')),
      (js ''security24'', Text (js ''Seguran'' @ [231] @ js ''a & IA 24h'')),
      (js ''privacyPolicy'', Text (js ''Pol'' @ [237] @ js ''tica de Privacidade'')),
      (js ''livePanel'', Text (js ''Painel ao vivo''))]),
    (js ''actions'', Names [
      (js ''openWallet'', Text (js ''Abrir carteira'')),
      (js ''menu'', Text (js ''Menu'')),
      (js ''changeLanguage'', Text (js ''Mudar idioma'')),
      (js ''viewLivePanel'', Text (js ''Ver painel ao vivo'')),
      (js ''runNode'', Text (js ''Como rodar um n'' @ [243])),
      (js ''startOverview'', Text (js ''Come'' @ [231] @ js ''ar pela vis'' @ [227] @ js ''o geral''))]),
    (js ''menu'', Names [
      (js ''explore'', Text (js ''Explorar'')),
      (js ''network'', Text (js ''Rede'')),
      (js ''protocol'', Text (js ''Protocolo'')),
      (js ''h'', Names [
        (js ''chain'', Text (js ''cadeia'')),
        (js ''assets'', Text (js ''ativos & contas'')),
        (js ''consensus'', Text (js ''consenso'')),
        (js ''learn'', Text (js ''aprender'')),
        (js ''fundamentals'', Text (js ''fundamentos'')),
        (js ''security'', Text (js ''seguran'' @ [231] @ js ''a & rede''))]),
      (js ''d'', Names [
        (js ''blocks'', Text ([218] @ js ''ltimos blocos, a cada 1s'')),
        (js ''txs'', Text (js ''Fluxo de transa'' @ [231, 245] @ js ''es da rede'')),
        (js ''tokens'', Text (js ''Tokens nativos do protocolo'')),
        (js ''livePanel'', Text (js ''M'' @ [233] @ js ''tricas da rede em tempo real'')),
        (js ''validators'', Text (js ''Conjunto DPoS ativo e produ'' @ [231, 227] @ js ''o'')),
        (js ''mining'', Text (js ''Stake, recompensas e n'' @ [243] @ js ''s'')),
        (js ''consensus'', Text (js ''Como os blocos s'' @ [227] @ js ''o produzidos'')),
        (js ''staking'', Text (js ''Trave EAV7 para minerar'')),
        (js ''about'', Text (js ''Vis'' @ [227] @ js ''o geral do eav20'')),
        (js ''standard'', Text (js ''Tokens nativos (EAV20)'')),
        (js ''bridge'', Text (js ''Lock-and-release entre redes'')),
        (js ''security'', Text (js ''P'' @ [243] @ js ''s-qu'' @ [226] @ js ''ntica + vigil'' @ [226] @ js ''ncia'')),
        (js ''eavm'', Text (js ''Usar a rede em carteiras EVM'')),
        (js ''api'', Text (js ''Endpoints p'' @ [250] @ js ''blicos do n'' @ [243]))])]),
    (js ''live'', Names [
      (js ''network'', Text (js ''rede ao vivo'')),
      (js ''blockHeight'', Text (js ''altura do bloco'')),
      (js ''valShort'', Text (js ''val.''))]),
    (js ''footer'', Names [
      (js ''securityDev'', Text (js ''Seguran'' @ [231] @ js ''a & Dev'')),
      (js ''tagline'', Text (js ''O explorador oficial da blockchain EAV7. Protocolo eav20, consenso DPoS, seguran'' @ [231] @ js ''a p'' @ [243] @ js ''s-qu'' @ [226] @ js ''ntica e camada nativa de IA '' @ [8212] @ js '' em tempo real.'')),
      (js ''networkActive'', Text (js ''rede ativa''))])]"

definition en :: messages where
  "en = [
    (js ''terms'', Names [
      (js ''home'', Text (js ''Home'')),
      (js ''blocks'', Text (js ''Blocks'')),
      (js ''txs'', Text (js ''Transactions'')),
      (js ''tokens'', Text (js ''Tokens'')),
      (js ''tokensEav20'', Text (js ''EAV20 Tokens'')),
      (js ''validators'', Text (js ''Validators'')),
      (js ''mining'', Text (js ''Mining'')),
      (js ''wallet'', Text (js ''Wallet'')),
      (js ''walletWeb'', Text (js ''Web wallet'')),
      (js ''staking'', Text (js ''Staking & rewards'')),
      (js ''consensusDpos'', Text (js ''DPoS consensus'')),
      (js ''tokenStandard'', Text (js ''EAV20 standard'')),
      (js ''tokenStandardFull'', Text (js ''EAV20 token standard'')),
      (js ''bridge'', Text (js ''Cross-chain bridge'')),
      (js ''eavm'', Text (js ''EAVM '' @ [183] @ js '' MetaMask'')),
      (js ''apiRest'', Text (js ''REST API'')),
      (js ''aboutProtocol'', Text (js ''About the protocol'')),
      (js ''aboutEav20'', Text (js ''About eav20'')),
      (js ''security24'', Text (js ''24/7 Security & AI'')),
      (js ''livePanel'', Text (js ''Live panel'')),
      (js ''privacyPolicy'', Text (js ''Privacy Policy''))]),
    (js ''actions'', Names [
      (js ''openWallet'', Text (js ''Open wallet'')),
      (js ''menu'', Text (js ''Menu'')),
      (js ''changeLanguage'', Text (js ''Change language'')),
      (js ''viewLivePanel'', Text (js ''View live panel'')),
      (js ''runNode'', Text (js ''How to run a node'')),
      (js ''startOverview'', Text (js ''Start with the overview''))]),
    (js ''menu'', Names [
      (js ''explore'', Text (js ''Explore'')),
      (js ''network'', Text (js ''Network'')),
      (js ''protocol'', Text (js ''Protocol'')),
      (js ''h'', Names [
        (js ''chain'', Text (js ''chain'')),
        (js ''assets'', Text (js ''assets & accounts'')),
        (js ''consensus'', Text (js ''consensus'')),
        (js ''learn'', Text (js ''learn'')),
        (js ''fundamentals'', Text (js ''fundamentals'')),
        (js ''security'', Text (js ''security & network''))]),
      (js ''d'', Names [
        (js ''blocks'', Text (js ''Latest blocks, every 1s'')),
        (js ''txs'', Text (js ''Network transaction flow'')),
        (js ''tokens'', Text (js ''Native protocol tokens'')),
        (js ''livePanel'', Text (js ''Real-time network metrics'')),
        (js ''validators'', Text (js ''Active DPoS set and production'')),
        (js ''mining'', Text (js ''Stake, rewards and nodes'')),
        (js ''consensus'', Text (js ''How blocks are produced'')),
        (js ''staking'', Text (js ''Lock EAV7 to mine'')),
        (js ''about'', Text (js ''eav20 overview'')),
        (js ''standard'', Text (js ''Native tokens (EAV20)'')),
        (js ''bridge'', Text (js ''Lock-and-release across chains'')),
        (js ''security'', Text (js ''Post-quantum + surveillance'')),
        (js ''eavm'', Text (js ''Use the network in EVM wallets'')),
        (js ''api'', Text (js ''Public node endpoints''))])]),
    (js ''live'', Names [
      (js ''network'', Text (js ''live network'')),
      (js ''blockHeight'', Text (js ''block height'')),
      (js ''valShort'', Text (js ''val.''))]),
    (js ''footer'', Names [
      (js ''securityDev'', Text (js ''Security & Dev'')),
      (js ''tagline'', Text (js ''The official explorer of the EAV7 blockchain. eav20 protocol, DPoS consensus, post-quantum security and a native AI layer '' @ [8212] @ js '' in real time.'')),
      (js ''networkActive'', Text (js ''network active''))])]"

definition es :: messages where
  "es = [
    (js ''terms'', Names [
      (js ''home'', Text (js ''Inicio'')),
      (js ''blocks'', Text (js ''Bloques'')),
      (js ''txs'', Text (js ''Transacciones'')),
      (js ''tokens'', Text (js ''Tokens'')),
      (js ''tokensEav20'', Text (js ''Tokens EAV20'')),
      (js ''validators'', Text (js ''Validadores'')),
      (js ''mining'', Text (js ''Miner'' @ [237] @ js ''a'')),
      (js ''wallet'', Text (js ''Billetera'')),
      (js ''walletWeb'', Text (js ''Billetera web'')),
      (js ''staking'', Text (js ''Staking y recompensas'')),
      (js ''consensusDpos'', Text (js ''Consenso DPoS'')),
      (js ''tokenStandard'', Text (js ''Est'' @ [225] @ js ''ndar EAV20'')),
      (js ''tokenStandardFull'', Text (js ''Est'' @ [225] @ js ''ndar de token EAV20'')),
      (js ''bridge'', Text (js ''Puente cross-chain'')),
      (js ''eavm'', Text (js ''EAVM '' @ [183] @ js '' MetaMask'')),
      (js ''apiRest'', Text (js ''API REST'')),
      (js ''aboutProtocol'', Text (js ''Sobre el protocolo'')),
      (js ''aboutEav20'', Text (js ''Sobre eav20'')),
      (js ''security24'', Text (js ''Seguridad e IA 24h'')),
      (js ''livePanel'', Text (js ''Panel en vivo'')),
      (js ''privacyPolicy'', Text (js ''Pol'' @ [237] @ js ''tica de Privacidad''))]),
    (js ''actions'', Names [
      (js ''openWallet'', Text (js ''Abrir billetera'')),
      (js ''menu'', Text (js ''Men'' @ [250])),
      (js ''changeLanguage'', Text (js ''Cambiar idioma'')),
      (js ''viewLivePanel'', Text (js ''Ver panel en vivo'')),
      (js ''runNode'', Text (js ''C'' @ [243] @ js ''mo ejecutar un nodo'')),
      (js ''startOverview'', Text (js ''Empezar por la visi'' @ [243] @ js ''n general''))]),
    (js ''menu'', Names [
      (js ''explore'', Text (js ''Explorar'')),
      (js ''network'', Text (js ''Red'')),
      (js ''protocol'', Text (js ''Protocolo'')),
      (js ''h'', Names [
        (js ''chain'', Text (js ''cadena'')),
        (js ''assets'', Text (js ''activos y cuentas'')),
        (js ''consensus'', Text (js ''consenso'')),
        (js ''learn'', Text (js ''aprender'')),
        (js ''fundamentals'', Text (js ''fundamentos'')),
        (js ''security'', Text (js ''seguridad y red''))]),
      (js ''d'', Names [
        (js ''blocks'', Text ([218] @ js ''ltimos bloques, cada 1s'')),
        (js ''txs'', Text (js ''Flujo de transacciones de la red'')),
        (js ''tokens'', Text (js ''Tokens nativos del protocolo'')),
        (js ''livePanel'', Text (js ''M'' @ [233] @ js ''tricas de red en tiempo real'')),
        (js ''validators'', Text (js ''Conjunto DPoS activo y producci'' @ [243] @ js ''n'')),
        (js ''mining'', Text (js ''Stake, recompensas y nodos'')),
        (js ''consensus'', Text (js ''C'' @ [243] @ js ''mo se producen los bloques'')),
        (js ''staking'', Text (js ''Bloquea EAV7 para minar'')),
        (js ''about'', Text (js ''Visi'' @ [243] @ js ''n general de eav20'')),
        (js ''standard'', Text (js ''Tokens nativos (EAV20)'')),
        (js ''bridge'', Text (js ''Lock-and-release entre redes'')),
        (js ''security'', Text (js ''Poscu'' @ [225] @ js ''ntica + vigilancia'')),
        (js ''eavm'', Text (js ''Usa la red en billeteras EVM'')),
        (js ''api'', Text (js ''Endpoints p'' @ [250] @ js ''blicos del nodo''))])]),
    (js ''live'', Names [
      (js ''network'', Text (js ''red en vivo'')),
      (js ''blockHeight'', Text (js ''altura del bloque'')),
      (js ''valShort'', Text (js ''val.''))]),
    (js ''footer'', Names [
      (js ''securityDev'', Text (js ''Seguridad y Dev'')),
      (js ''tagline'', Text (js ''El explorador oficial de la blockchain EAV7. Protocolo eav20, consenso DPoS, seguridad poscu'' @ [225] @ js ''ntica y capa nativa de IA '' @ [8212] @ js '' en tiempo real.'')),
      (js ''networkActive'', Text (js ''red activa''))])]"

definition zh :: messages where
  "zh = [
    (js ''terms'', Names [
      (js ''home'', Text ([39318, 39029])),
      (js ''blocks'', Text ([21306, 22359])),
      (js ''txs'', Text ([20132, 26131])),
      (js ''tokens'', Text ([20195, 24065])),
      (js ''tokensEav20'', Text (js ''EAV20 '' @ [20195, 24065])),
      (js ''validators'', Text ([39564, 35777, 32773])),
      (js ''mining'', Text ([25366, 30719])),
      (js ''wallet'', Text ([38065, 21253])),
      (js ''walletWeb'', Text ([32593, 39029, 38065, 21253])),
      (js ''staking'', Text ([36136, 25276, 19982, 22870, 21169])),
      (js ''consensusDpos'', Text (js ''DPoS '' @ [20849, 35782])),
      (js ''tokenStandard'', Text (js ''EAV20 '' @ [26631, 20934])),
      (js ''tokenStandardFull'', Text (js ''EAV20 '' @ [20195, 24065, 26631, 20934])),
      (js ''bridge'', Text ([36328, 38142, 26725])),
      (js ''eavm'', Text (js ''EAVM '' @ [183] @ js '' MetaMask'')),
      (js ''apiRest'', Text (js ''REST API'')),
      (js ''aboutProtocol'', Text ([20851, 20110, 21327, 35758])),
      (js ''aboutEav20'', Text ([20851, 20110] @ js '' eav20'')),
      (js ''security24'', Text (js ''7'' @ [215] @ js ''24 '' @ [23433, 20840, 19982] @ js '' AI'')),
      (js ''livePanel'', Text ([23454, 26102, 38754, 26495])),
      (js ''privacyPolicy'', Text ([38544, 31169, 25919, 31574]))]),
    (js ''actions'', Names [
      (js ''openWallet'', Text ([25171, 24320, 38065, 21253])),
      (js ''menu'', Text ([33756, 21333])),
      (js ''changeLanguage'', Text ([20999, 25442, 35821, 35328])),
      (js ''viewLivePanel'', Text ([26597, 30475, 23454, 26102, 38754, 26495])),
      (js ''runNode'', Text ([22914, 20309, 36816, 34892, 33410, 28857])),
      (js ''startOverview'', Text ([20174, 27010, 35272, 24320, 22987]))]),
    (js ''menu'', Names [
      (js ''explore'', Text ([27983, 35272])),
      (js ''network'', Text ([32593, 32476])),
      (js ''protocol'', Text ([21327, 35758])),
      (js ''h'', Names [
        (js ''chain'', Text ([38142])),
        (js ''assets'', Text ([36164, 20135, 19982, 36134, 25143])),
        (js ''consensus'', Text ([20849, 35782])),
        (js ''learn'', Text ([23398, 20064])),
        (js ''fundamentals'', Text ([22522, 30784])),
        (js ''security'', Text ([23433, 20840, 19982, 32593, 32476]))]),
      (js ''d'', Names [
        (js ''blocks'', Text ([26368, 26032, 21306, 22359, 65292, 27599] @ js '' 1 '' @ [31186])),
        (js ''txs'', Text ([32593, 32476, 20132, 26131, 27969])),
        (js ''tokens'', Text ([21327, 35758, 21407, 29983, 20195, 24065])),
        (js ''livePanel'', Text ([23454, 26102, 32593, 32476, 25351, 26631])),
        (js ''validators'', Text ([27963, 36291] @ js '' DPoS '' @ [38598, 21512, 19982, 20986, 22359])),
        (js ''mining'', Text ([36136, 25276, 12289, 22870, 21169, 19982, 33410, 28857])),
        (js ''consensus'', Text ([21306, 22359, 22914, 20309, 20135, 29983])),
        (js ''staking'', Text ([38145, 23450] @ js '' EAV7 '' @ [36827, 34892, 25366, 30719])),
        (js ''about'', Text (js ''eav20 '' @ [27010, 35272])),
        (js ''standard'', Text ([21407, 29983, 20195, 24065, 65288] @ js ''EAV20'' @ [65289])),
        (js ''bridge'', Text ([36328, 38142, 38145, 23450, 19982, 37322, 25918])),
        (js ''security'', Text ([25239, 37327, 23376] @ js '' + '' @ [30417, 25511])),
        (js ''eavm'', Text ([22312] @ js '' EVM '' @ [38065, 21253, 20013, 20351, 29992, 32593, 32476])),
        (js ''api'', Text ([33410, 28857, 20844, 20849, 25509, 21475]))])]),
    (js ''live'', Names [
      (js ''network'', Text ([23454, 26102, 32593, 32476])),
      (js ''blockHeight'', Text ([21306, 22359, 39640, 24230])),
      (js ''valShort'', Text ([39564, 35777, 32773]))]),
    (js ''footer'', Names [
      (js ''securityDev'', Text ([23433, 20840, 19982, 24320, 21457])),
      (js ''tagline'', Text (js ''EAV7 '' @ [21306, 22359, 38142, 30340, 23448, 26041, 27983, 35272, 22120, 12290] @ js ''eav20 '' @ [21327, 35758, 12289] @ js ''DPoS '' @ [20849, 35782, 12289, 25239, 37327, 23376, 23433, 20840, 21644, 21407, 29983] @ js '' AI '' @ [23618, 8212, 8212, 23454, 26102, 21576, 29616, 12290])),
      (js ''networkActive'', Text ([32593, 32476, 27963, 36291]))])]"

definition fr :: messages where
  "fr = [
    (js ''terms'', Names [
      (js ''home'', Text (js ''Accueil'')),
      (js ''blocks'', Text (js ''Blocs'')),
      (js ''txs'', Text (js ''Transactions'')),
      (js ''tokens'', Text (js ''Jetons'')),
      (js ''tokensEav20'', Text (js ''Jetons EAV20'')),
      (js ''validators'', Text (js ''Validateurs'')),
      (js ''mining'', Text (js ''Minage'')),
      (js ''wallet'', Text (js ''Portefeuille'')),
      (js ''walletWeb'', Text (js ''Portefeuille web'')),
      (js ''staking'', Text (js ''Staking et r'' @ [233] @ js ''compenses'')),
      (js ''consensusDpos'', Text (js ''Consensus DPoS'')),
      (js ''tokenStandard'', Text (js ''Standard EAV20'')),
      (js ''tokenStandardFull'', Text (js ''Standard de jeton EAV20'')),
      (js ''bridge'', Text (js ''Pont cross-chain'')),
      (js ''eavm'', Text (js ''EAVM '' @ [183] @ js '' MetaMask'')),
      (js ''apiRest'', Text (js ''API REST'')),
      (js ''aboutProtocol'', Text ([192] @ js '' propos du protocole'')),
      (js ''aboutEav20'', Text ([192] @ js '' propos d'' @ [39] @ js ''eav20'')),
      (js ''security24'', Text (js ''S'' @ [233] @ js ''curit'' @ [233] @ js '' et IA 24h/24'')),
      (js ''livePanel'', Text (js ''Panneau en direct'')),
      (js ''privacyPolicy'', Text (js ''Politique de confidentialit'' @ [233]))]),
    (js ''actions'', Names [
      (js ''openWallet'', Text (js ''Ouvrir le portefeuille'')),
      (js ''menu'', Text (js ''Menu'')),
      (js ''changeLanguage'', Text (js ''Changer de langue'')),
      (js ''viewLivePanel'', Text (js ''Voir le panneau en direct'')),
      (js ''runNode'', Text (js ''Comment ex'' @ [233] @ js ''cuter un n'' @ [339] @ js ''ud'')),
      (js ''startOverview'', Text (js ''Commencer par la vue d'' @ [39] @ js ''ensemble''))]),
    (js ''menu'', Names [
      (js ''explore'', Text (js ''Explorer'')),
      (js ''network'', Text (js ''R'' @ [233] @ js ''seau'')),
      (js ''protocol'', Text (js ''Protocole'')),
      (js ''h'', Names [
        (js ''chain'', Text (js ''cha'' @ [238] @ js ''ne'')),
        (js ''assets'', Text (js ''actifs et comptes'')),
        (js ''consensus'', Text (js ''consensus'')),
        (js ''learn'', Text (js ''apprendre'')),
        (js ''fundamentals'', Text (js ''fondamentaux'')),
        (js ''security'', Text (js ''s'' @ [233] @ js ''curit'' @ [233] @ js '' et r'' @ [233] @ js ''seau''))]),
      (js ''d'', Names [
        (js ''blocks'', Text (js ''Derniers blocs, toutes les 1s'')),
        (js ''txs'', Text (js ''Flux de transactions du r'' @ [233] @ js ''seau'')),
        (js ''tokens'', Text (js ''Jetons natifs du protocole'')),
        (js ''livePanel'', Text (js ''M'' @ [233] @ js ''triques r'' @ [233] @ js ''seau en temps r'' @ [233] @ js ''el'')),
        (js ''validators'', Text (js ''Ensemble DPoS actif et production'')),
        (js ''mining'', Text (js ''Stake, r'' @ [233] @ js ''compenses et n'' @ [339] @ js ''uds'')),
        (js ''consensus'', Text (js ''Comment les blocs sont produits'')),
        (js ''staking'', Text (js ''Bloquez EAV7 pour miner'')),
        (js ''about'', Text (js ''Vue d'' @ [39] @ js ''ensemble d'' @ [39] @ js ''eav20'')),
        (js ''standard'', Text (js ''Jetons natifs (EAV20)'')),
        (js ''bridge'', Text (js ''Lock-and-release entre r'' @ [233] @ js ''seaux'')),
        (js ''security'', Text (js ''Post-quantique + surveillance'')),
        (js ''eavm'', Text (js ''Utiliser le r'' @ [233] @ js ''seau dans les portefeuilles EVM'')),
        (js ''api'', Text (js ''Points de terminaison publics du n'' @ [339] @ js ''ud''))])]),
    (js ''live'', Names [
      (js ''network'', Text (js ''r'' @ [233] @ js ''seau en direct'')),
      (js ''blockHeight'', Text (js ''hauteur du bloc'')),
      (js ''valShort'', Text (js ''val.''))]),
    (js ''footer'', Names [
      (js ''securityDev'', Text (js ''S'' @ [233] @ js ''curit'' @ [233] @ js '' et Dev'')),
      (js ''tagline'', Text (js ''L'' @ [39] @ js ''explorateur officiel de la blockchain EAV7. Protocole eav20, consensus DPoS, s'' @ [233] @ js ''curit'' @ [233] @ js '' post-quantique et couche d'' @ [39] @ js ''IA native '' @ [8212] @ js '' en temps r'' @ [233] @ js ''el.'')),
      (js ''networkActive'', Text (js ''r'' @ [233] @ js ''seau actif''))])]"

definition de :: messages where
  "de = [
    (js ''terms'', Names [
      (js ''home'', Text (js ''Start'')),
      (js ''blocks'', Text (js ''Bl'' @ [246] @ js ''cke'')),
      (js ''txs'', Text (js ''Transaktionen'')),
      (js ''tokens'', Text (js ''Token'')),
      (js ''tokensEav20'', Text (js ''EAV20-Token'')),
      (js ''validators'', Text (js ''Validatoren'')),
      (js ''mining'', Text (js ''Mining'')),
      (js ''wallet'', Text (js ''Wallet'')),
      (js ''walletWeb'', Text (js ''Web-Wallet'')),
      (js ''staking'', Text (js ''Staking & Belohnungen'')),
      (js ''consensusDpos'', Text (js ''DPoS-Konsens'')),
      (js ''tokenStandard'', Text (js ''EAV20-Standard'')),
      (js ''tokenStandardFull'', Text (js ''EAV20-Token-Standard'')),
      (js ''bridge'', Text (js ''Cross-Chain-Bridge'')),
      (js ''eavm'', Text (js ''EAVM '' @ [183] @ js '' MetaMask'')),
      (js ''apiRest'', Text (js ''REST-API'')),
      (js ''aboutProtocol'', Text ([220] @ js ''ber das Protokoll'')),
      (js ''aboutEav20'', Text ([220] @ js ''ber eav20'')),
      (js ''security24'', Text (js ''Sicherheit & KI rund um die Uhr'')),
      (js ''livePanel'', Text (js ''Live-Panel'')),
      (js ''privacyPolicy'', Text (js ''Datenschutzerkl'' @ [228] @ js ''rung''))]),
    (js ''actions'', Names [
      (js ''openWallet'', Text (js ''Wallet '' @ [246] @ js ''ffnen'')),
      (js ''menu'', Text (js ''Men'' @ [252])),
      (js ''changeLanguage'', Text (js ''Sprache '' @ [228] @ js ''ndern'')),
      (js ''viewLivePanel'', Text (js ''Live-Panel ansehen'')),
      (js ''runNode'', Text (js ''Node betreiben'')),
      (js ''startOverview'', Text (js ''Mit der '' @ [220] @ js ''bersicht beginnen''))]),
    (js ''menu'', Names [
      (js ''explore'', Text (js ''Entdecken'')),
      (js ''network'', Text (js ''Netzwerk'')),
      (js ''protocol'', Text (js ''Protokoll'')),
      (js ''h'', Names [
        (js ''chain'', Text (js ''Kette'')),
        (js ''assets'', Text (js ''Assets & Konten'')),
        (js ''consensus'', Text (js ''Konsens'')),
        (js ''learn'', Text (js ''Lernen'')),
        (js ''fundamentals'', Text (js ''Grundlagen'')),
        (js ''security'', Text (js ''Sicherheit & Netzwerk''))]),
      (js ''d'', Names [
        (js ''blocks'', Text (js ''Neueste Bl'' @ [246] @ js ''cke, jede Sekunde'')),
        (js ''txs'', Text (js ''Transaktionsfluss des Netzwerks'')),
        (js ''tokens'', Text (js ''Native Protokoll-Token'')),
        (js ''livePanel'', Text (js ''Netzwerkmetriken in Echtzeit'')),
        (js ''validators'', Text (js ''Aktives DPoS-Set und Produktion'')),
        (js ''mining'', Text (js ''Stake, Belohnungen und Nodes'')),
        (js ''consensus'', Text (js ''Wie Bl'' @ [246] @ js ''cke erzeugt werden'')),
        (js ''staking'', Text (js ''EAV7 sperren, um zu minen'')),
        (js ''about'', Text (js ''eav20-'' @ [220] @ js ''berblick'')),
        (js ''standard'', Text (js ''Native Token (EAV20)'')),
        (js ''bridge'', Text (js ''Lock-and-Release zwischen Netzwerken'')),
        (js ''security'', Text (js ''Post-Quanten + '' @ [220] @ js ''berwachung'')),
        (js ''eavm'', Text (js ''Netzwerk in EVM-Wallets nutzen'')),
        (js ''api'', Text ([214] @ js ''ffentliche Node-Endpunkte''))])]),
    (js ''live'', Names [
      (js ''network'', Text (js ''Live-Netzwerk'')),
      (js ''blockHeight'', Text (js ''Blockh'' @ [246] @ js ''he'')),
      (js ''valShort'', Text (js ''Val.''))]),
    (js ''footer'', Names [
      (js ''securityDev'', Text (js ''Sicherheit & Dev'')),
      (js ''tagline'', Text (js ''Der offizielle Explorer der EAV7-Blockchain. eav20-Protokoll, DPoS-Konsens, Post-Quanten-Sicherheit und native KI-Schicht '' @ [8212] @ js '' in Echtzeit.'')),
      (js ''networkActive'', Text (js ''Netzwerk aktiv''))])]"

definition ja :: messages where
  "ja = [
    (js ''terms'', Names [
      (js ''home'', Text ([12507, 12540, 12512])),
      (js ''blocks'', Text ([12502, 12525, 12483, 12463])),
      (js ''txs'', Text ([12488, 12521, 12531, 12470, 12463, 12471, 12519, 12531])),
      (js ''tokens'', Text ([12488, 12540, 12463, 12531])),
      (js ''tokensEav20'', Text (js ''EAV20 '' @ [12488, 12540, 12463, 12531])),
      (js ''validators'', Text ([12496, 12522, 12487, 12540, 12479])),
      (js ''mining'', Text ([12510, 12452, 12491, 12531, 12464])),
      (js ''wallet'', Text ([12454, 12457, 12524, 12483, 12488])),
      (js ''walletWeb'', Text ([12454, 12455, 12502, 12454, 12457, 12524, 12483, 12488])),
      (js ''staking'', Text ([12473, 12486, 12540, 12461, 12531, 12464, 12392, 22577, 37228])),
      (js ''consensusDpos'', Text (js ''DPoS '' @ [12467, 12531, 12475, 12531, 12469, 12473])),
      (js ''tokenStandard'', Text (js ''EAV20 '' @ [35215, 26684])),
      (js ''tokenStandardFull'', Text (js ''EAV20 '' @ [12488, 12540, 12463, 12531, 35215, 26684])),
      (js ''bridge'', Text ([12463, 12525, 12473, 12481, 12455, 12540, 12531, 12502, 12522, 12483, 12472])),
      (js ''eavm'', Text (js ''EAVM '' @ [183] @ js '' MetaMask'')),
      (js ''apiRest'', Text (js ''REST API'')),
      (js ''aboutProtocol'', Text ([12503, 12525, 12488, 12467, 12523, 12395, 12388, 12356, 12390])),
      (js ''aboutEav20'', Text (js ''eav20 '' @ [12395, 12388, 12356, 12390])),
      (js ''security24'', Text (js ''24'' @ [26178, 38291] @ js '' '' @ [12475, 12461, 12517, 12522, 12486, 12451] @ js '' & AI'')),
      (js ''livePanel'', Text ([12521, 12452, 12502, 12497, 12493, 12523])),
      (js ''privacyPolicy'', Text ([12503, 12521, 12452, 12496, 12471, 12540, 12509, 12522, 12471, 12540]))]),
    (js ''actions'', Names [
      (js ''openWallet'', Text ([12454, 12457, 12524, 12483, 12488, 12434, 38283, 12367])),
      (js ''menu'', Text ([12513, 12491, 12517, 12540])),
      (js ''changeLanguage'', Text ([35328, 35486, 12434, 22793, 26356])),
      (js ''viewLivePanel'', Text ([12521, 12452, 12502, 12497, 12493, 12523, 12434, 35211, 12427])),
      (js ''runNode'', Text ([12494, 12540, 12489, 12398, 23455, 34892, 26041, 27861])),
      (js ''startOverview'', Text ([27010, 35201, 12363, 12425, 22987, 12417, 12427]))]),
    (js ''menu'', Names [
      (js ''explore'', Text ([25506, 32034])),
      (js ''network'', Text ([12493, 12483, 12488, 12527, 12540, 12463])),
      (js ''protocol'', Text ([12503, 12525, 12488, 12467, 12523])),
      (js ''h'', Names [
        (js ''chain'', Text ([12481, 12455, 12540, 12531])),
        (js ''assets'', Text ([36039, 29987, 12392, 12450, 12459, 12454, 12531, 12488])),
        (js ''consensus'', Text ([12467, 12531, 12475, 12531, 12469, 12473])),
        (js ''learn'', Text ([23398, 12406])),
        (js ''fundamentals'', Text ([22522, 30990])),
        (js ''security'', Text ([12475, 12461, 12517, 12522, 12486, 12451, 12392, 12493, 12483, 12488, 12527, 12540, 12463]))]),
      (js ''d'', Names [
        (js ''blocks'', Text ([26368, 26032, 12502, 12525, 12483, 12463, 12289, 27598, 31186])),
        (js ''txs'', Text ([12493, 12483, 12488, 12527, 12540, 12463, 12398, 12488, 12521, 12531, 12470, 12463, 12471, 12519, 12531, 12501, 12525, 12540])),
        (js ''tokens'', Text ([12503, 12525, 12488, 12467, 12523, 12398, 12493, 12452, 12486, 12451, 12502, 12488, 12540, 12463, 12531])),
        (js ''livePanel'', Text ([12522, 12450, 12523, 12479, 12452, 12512, 12398, 12493, 12483, 12488, 12527, 12540, 12463, 25351, 27161])),
        (js ''validators'', Text ([12450, 12463, 12486, 12451, 12502, 12394] @ js '' DPoS '' @ [12475, 12483, 12488, 12392, 29983, 25104])),
        (js ''mining'', Text ([12473, 12486, 12540, 12463, 12539, 22577, 37228, 12539, 12494, 12540, 12489])),
        (js ''consensus'', Text ([12502, 12525, 12483, 12463, 12398, 29983, 25104, 26041, 27861])),
        (js ''staking'', Text (js ''EAV7 '' @ [12434, 12525, 12483, 12463, 12375, 12390, 12510, 12452, 12491, 12531, 12464])),
        (js ''about'', Text (js ''eav20 '' @ [12398, 27010, 35201])),
        (js ''standard'', Text ([12493, 12452, 12486, 12451, 12502, 12488, 12540, 12463, 12531, 65288] @ js ''EAV20'' @ [65289])),
        (js ''bridge'', Text ([12493, 12483, 12488, 12527, 12540, 12463, 38291, 12398, 12525, 12483, 12463, 65286, 12522, 12522, 12540, 12473])),
        (js ''security'', Text ([32784, 37327, 23376] @ js '' + '' @ [30435, 35222])),
        (js ''eavm'', Text (js ''EVM '' @ [12454, 12457, 12524, 12483, 12488, 12391, 12493, 12483, 12488, 12527, 12540, 12463, 12434, 21033, 29992])),
        (js ''api'', Text ([12494, 12540, 12489, 12398, 20844, 38283, 12456, 12531, 12489, 12509, 12452, 12531, 12488]))])]),
    (js ''live'', Names [
      (js ''network'', Text ([12521, 12452, 12502, 12493, 12483, 12488, 12527, 12540, 12463])),
      (js ''blockHeight'', Text ([12502, 12525, 12483, 12463, 39640])),
      (js ''valShort'', Text ([12496, 12522]))]),
    (js ''footer'', Names [
      (js ''securityDev'', Text ([12475, 12461, 12517, 12522, 12486, 12451] @ js '' & '' @ [38283, 30330])),
      (js ''tagline'', Text (js ''EAV7 '' @ [12502, 12525, 12483, 12463, 12481, 12455, 12540, 12531, 12398, 20844, 24335, 12456, 12463, 12473, 12503, 12525, 12540, 12521, 12540, 12290] @ js ''eav20 '' @ [12503, 12525, 12488, 12467, 12523, 12289] @ js ''DPoS '' @ [12467, 12531, 12475, 12531, 12469, 12473, 12289, 32784, 37327, 23376, 12475, 12461, 12517, 12522, 12486, 12451, 12289, 12493, 12452, 12486, 12451, 12502] @ js '' AI '' @ [12524, 12452, 12516, 12540] @ js '' '' @ [8212] @ js '' '' @ [12522, 12450, 12523, 12479, 12452, 12512, 12391, 12290])),
      (js ''networkActive'', Text ([12493, 12483, 12488, 12527, 12540, 12463, 31292, 20685, 20013]))])]"

definition ru :: messages where
  "ru = [
    (js ''terms'', Names [
      (js ''home'', Text ([1043, 1083, 1072, 1074, 1085, 1072, 1103])),
      (js ''blocks'', Text ([1041, 1083, 1086, 1082, 1080])),
      (js ''txs'', Text ([1058, 1088, 1072, 1085, 1079, 1072, 1082, 1094, 1080, 1080])),
      (js ''tokens'', Text ([1058, 1086, 1082, 1077, 1085, 1099])),
      (js ''tokensEav20'', Text ([1058, 1086, 1082, 1077, 1085, 1099] @ js '' EAV20'')),
      (js ''validators'', Text ([1042, 1072, 1083, 1080, 1076, 1072, 1090, 1086, 1088, 1099])),
      (js ''mining'', Text ([1052, 1072, 1081, 1085, 1080, 1085, 1075])),
      (js ''wallet'', Text ([1050, 1086, 1096, 1077, 1083, 1105, 1082])),
      (js ''walletWeb'', Text ([1042, 1077, 1073] @ js ''-'' @ [1082, 1086, 1096, 1077, 1083, 1105, 1082])),
      (js ''staking'', Text ([1057, 1090, 1077, 1081, 1082, 1080, 1085, 1075] @ js '' '' @ [1080] @ js '' '' @ [1085, 1072, 1075, 1088, 1072, 1076, 1099])),
      (js ''consensusDpos'', Text ([1050, 1086, 1085, 1089, 1077, 1085, 1089, 1091, 1089] @ js '' DPoS'')),
      (js ''tokenStandard'', Text ([1057, 1090, 1072, 1085, 1076, 1072, 1088, 1090] @ js '' EAV20'')),
      (js ''tokenStandardFull'', Text ([1057, 1090, 1072, 1085, 1076, 1072, 1088, 1090] @ js '' '' @ [1090, 1086, 1082, 1077, 1085, 1072] @ js '' EAV20'')),
      (js ''bridge'', Text ([1050, 1088, 1086, 1089, 1089] @ js ''-'' @ [1095, 1077, 1081, 1085] @ js '' '' @ [1084, 1086, 1089, 1090])),
      (js ''eavm'', Text (js ''EAVM '' @ [183] @ js '' MetaMask'')),
      (js ''apiRest'', Text (js ''REST API'')),
      (js ''aboutProtocol'', Text ([1054] @ js '' '' @ [1087, 1088, 1086, 1090, 1086, 1082, 1086, 1083, 1077])),
      (js ''aboutEav20'', Text ([1054, 1073] @ js '' eav20'')),
      (js ''security24'', Text ([1041, 1077, 1079, 1086, 1087, 1072, 1089, 1085, 1086, 1089, 1090, 1100] @ js '' '' @ [1080] @ js '' '' @ [1048, 1048] @ js '' 24/7'')),
      (js ''livePanel'', Text ([1046, 1080, 1074, 1072, 1103] @ js '' '' @ [1087, 1072, 1085, 1077, 1083, 1100])),
      (js ''privacyPolicy'', Text ([1055, 1086, 1083, 1080, 1090, 1080, 1082, 1072] @ js '' '' @ [1082, 1086, 1085, 1092, 1080, 1076, 1077, 1085, 1094, 1080, 1072, 1083, 1100, 1085, 1086, 1089, 1090, 1080]))]),
    (js ''actions'', Names [
      (js ''openWallet'', Text ([1054, 1090, 1082, 1088, 1099, 1090, 1100] @ js '' '' @ [1082, 1086, 1096, 1077, 1083, 1105, 1082])),
      (js ''menu'', Text ([1052, 1077, 1085, 1102])),
      (js ''changeLanguage'', Text ([1057, 1084, 1077, 1085, 1080, 1090, 1100] @ js '' '' @ [1103, 1079, 1099, 1082])),
      (js ''viewLivePanel'', Text ([1057, 1084, 1086, 1090, 1088, 1077, 1090, 1100] @ js '' '' @ [1078, 1080, 1074, 1091, 1102] @ js '' '' @ [1087, 1072, 1085, 1077, 1083, 1100])),
      (js ''runNode'', Text ([1050, 1072, 1082] @ js '' '' @ [1079, 1072, 1087, 1091, 1089, 1090, 1080, 1090, 1100] @ js '' '' @ [1091, 1079, 1077, 1083])),
      (js ''startOverview'', Text ([1053, 1072, 1095, 1072, 1090, 1100] @ js '' '' @ [1089] @ js '' '' @ [1086, 1073, 1079, 1086, 1088, 1072]))]),
    (js ''menu'', Names [
      (js ''explore'', Text ([1054, 1073, 1079, 1086, 1088])),
      (js ''network'', Text ([1057, 1077, 1090, 1100])),
      (js ''protocol'', Text ([1055, 1088, 1086, 1090, 1086, 1082, 1086, 1083])),
      (js ''h'', Names [
        (js ''chain'', Text ([1094, 1077, 1087, 1086, 1095, 1082, 1072])),
        (js ''assets'', Text ([1072, 1082, 1090, 1080, 1074, 1099] @ js '' '' @ [1080] @ js '' '' @ [1089, 1095, 1077, 1090, 1072])),
        (js ''consensus'', Text ([1082, 1086, 1085, 1089, 1077, 1085, 1089, 1091, 1089])),
        (js ''learn'', Text ([1086, 1073, 1091, 1095, 1077, 1085, 1080, 1077])),
        (js ''fundamentals'', Text ([1086, 1089, 1085, 1086, 1074, 1099])),
        (js ''security'', Text ([1073, 1077, 1079, 1086, 1087, 1072, 1089, 1085, 1086, 1089, 1090, 1100] @ js '' '' @ [1080] @ js '' '' @ [1089, 1077, 1090, 1100]))]),
      (js ''d'', Names [
        (js ''blocks'', Text ([1055, 1086, 1089, 1083, 1077, 1076, 1085, 1080, 1077] @ js '' '' @ [1073, 1083, 1086, 1082, 1080] @ js '', '' @ [1082, 1072, 1078, 1076, 1091, 1102] @ js '' 1'' @ [1089])),
        (js ''txs'', Text ([1055, 1086, 1090, 1086, 1082] @ js '' '' @ [1090, 1088, 1072, 1085, 1079, 1072, 1082, 1094, 1080, 1081] @ js '' '' @ [1089, 1077, 1090, 1080])),
        (js ''tokens'', Text ([1053, 1072, 1090, 1080, 1074, 1085, 1099, 1077] @ js '' '' @ [1090, 1086, 1082, 1077, 1085, 1099] @ js '' '' @ [1087, 1088, 1086, 1090, 1086, 1082, 1086, 1083, 1072])),
        (js ''livePanel'', Text ([1052, 1077, 1090, 1088, 1080, 1082, 1080] @ js '' '' @ [1089, 1077, 1090, 1080] @ js '' '' @ [1074] @ js '' '' @ [1088, 1077, 1072, 1083, 1100, 1085, 1086, 1084] @ js '' '' @ [1074, 1088, 1077, 1084, 1077, 1085, 1080])),
        (js ''validators'', Text ([1040, 1082, 1090, 1080, 1074, 1085, 1099, 1081] @ js '' '' @ [1085, 1072, 1073, 1086, 1088] @ js '' DPoS '' @ [1080] @ js '' '' @ [1087, 1088, 1086, 1080, 1079, 1074, 1086, 1076, 1089, 1090, 1074, 1086])),
        (js ''mining'', Text ([1057, 1090, 1077, 1081, 1082] @ js '', '' @ [1085, 1072, 1075, 1088, 1072, 1076, 1099] @ js '' '' @ [1080] @ js '' '' @ [1091, 1079, 1083, 1099])),
        (js ''consensus'', Text ([1050, 1072, 1082] @ js '' '' @ [1089, 1086, 1079, 1076, 1072, 1102, 1090, 1089, 1103] @ js '' '' @ [1073, 1083, 1086, 1082, 1080])),
        (js ''staking'', Text ([1047, 1072, 1073, 1083, 1086, 1082, 1080, 1088, 1091, 1081, 1090, 1077] @ js '' EAV7 '' @ [1076, 1083, 1103] @ js '' '' @ [1084, 1072, 1081, 1085, 1080, 1085, 1075, 1072])),
        (js ''about'', Text ([1054, 1073, 1079, 1086, 1088] @ js '' eav20'')),
        (js ''standard'', Text ([1053, 1072, 1090, 1080, 1074, 1085, 1099, 1077] @ js '' '' @ [1090, 1086, 1082, 1077, 1085, 1099] @ js '' (EAV20)'')),
        (js ''bridge'', Text (js ''Lock-and-release '' @ [1084, 1077, 1078, 1076, 1091] @ js '' '' @ [1089, 1077, 1090, 1103, 1084, 1080])),
        (js ''security'', Text ([1055, 1086, 1089, 1090, 1082, 1074, 1072, 1085, 1090, 1086, 1074, 1072, 1103] @ js '' + '' @ [1085, 1072, 1073, 1083, 1102, 1076, 1077, 1085, 1080, 1077])),
        (js ''eavm'', Text ([1048, 1089, 1087, 1086, 1083, 1100, 1079, 1086, 1074, 1072, 1090, 1100] @ js '' '' @ [1089, 1077, 1090, 1100] @ js '' '' @ [1074] @ js '' EVM-'' @ [1082, 1086, 1096, 1077, 1083, 1100, 1082, 1072, 1093])),
        (js ''api'', Text ([1055, 1091, 1073, 1083, 1080, 1095, 1085, 1099, 1077] @ js '' '' @ [1101, 1085, 1076, 1087, 1086, 1080, 1085, 1090, 1099] @ js '' '' @ [1091, 1079, 1083, 1072]))])]),
    (js ''live'', Names [
      (js ''network'', Text ([1078, 1080, 1074, 1072, 1103] @ js '' '' @ [1089, 1077, 1090, 1100])),
      (js ''blockHeight'', Text ([1074, 1099, 1089, 1086, 1090, 1072] @ js '' '' @ [1073, 1083, 1086, 1082, 1072])),
      (js ''valShort'', Text ([1074, 1072, 1083] @ js ''.''))]),
    (js ''footer'', Names [
      (js ''securityDev'', Text ([1041, 1077, 1079, 1086, 1087, 1072, 1089, 1085, 1086, 1089, 1090, 1100] @ js '' '' @ [1080] @ js '' Dev'')),
      (js ''tagline'', Text ([1054, 1092, 1080, 1094, 1080, 1072, 1083, 1100, 1085, 1099, 1081] @ js '' '' @ [1086, 1073, 1086, 1079, 1088, 1077, 1074, 1072, 1090, 1077, 1083, 1100] @ js '' '' @ [1073, 1083, 1086, 1082, 1095, 1077, 1081, 1085, 1072] @ js '' EAV7. '' @ [1055, 1088, 1086, 1090, 1086, 1082, 1086, 1083] @ js '' eav20, '' @ [1082, 1086, 1085, 1089, 1077, 1085, 1089, 1091, 1089] @ js '' DPoS, '' @ [1087, 1086, 1089, 1090, 1082, 1074, 1072, 1085, 1090, 1086, 1074, 1072, 1103] @ js '' '' @ [1073, 1077, 1079, 1086, 1087, 1072, 1089, 1085, 1086, 1089, 1090, 1100] @ js '' '' @ [1080] @ js '' '' @ [1085, 1072, 1090, 1080, 1074, 1085, 1099, 1081] @ js '' '' @ [1089, 1083, 1086, 1081] @ js '' '' @ [1048, 1048] @ js '' '' @ [8212] @ js '' '' @ [1074] @ js '' '' @ [1088, 1077, 1072, 1083, 1100, 1085, 1086, 1084] @ js '' '' @ [1074, 1088, 1077, 1084, 1077, 1085, 1080] @ js ''.'')),
      (js ''networkActive'', Text ([1089, 1077, 1090, 1100] @ js '' '' @ [1072, 1082, 1090, 1080, 1074, 1085, 1072]))])]"

definition ar :: messages where
  "ar = [
    (js ''terms'', Names [
      (js ''home'', Text ([1575, 1604, 1585, 1574, 1610, 1587, 1610, 1577])),
      (js ''blocks'', Text ([1575, 1604, 1603, 1578, 1604])),
      (js ''txs'', Text ([1575, 1604, 1605, 1593, 1575, 1605, 1604, 1575, 1578])),
      (js ''tokens'', Text ([1575, 1604, 1585, 1605, 1608, 1586])),
      (js ''tokensEav20'', Text ([1585, 1605, 1608, 1586] @ js '' EAV20'')),
      (js ''validators'', Text ([1575, 1604, 1605, 1583, 1602, 1602, 1608, 1606])),
      (js ''mining'', Text ([1575, 1604, 1578, 1593, 1583, 1610, 1606])),
      (js ''wallet'', Text ([1575, 1604, 1605, 1581, 1601, 1592, 1577])),
      (js ''walletWeb'', Text ([1605, 1581, 1601, 1592, 1577] @ js '' '' @ [1575, 1604, 1608, 1610, 1576])),
      (js ''staking'', Text ([1575, 1604, 1585, 1607, 1606] @ js '' '' @ [1608, 1575, 1604, 1605, 1603, 1575, 1601, 1570, 1578])),
      (js ''consensusDpos'', Text ([1573, 1580, 1605, 1575, 1593] @ js '' DPoS'')),
      (js ''tokenStandard'', Text ([1605, 1593, 1610, 1575, 1585] @ js '' EAV20'')),
      (js ''tokenStandardFull'', Text ([1605, 1593, 1610, 1575, 1585] @ js '' '' @ [1585, 1605, 1586] @ js '' EAV20'')),
      (js ''bridge'', Text ([1580, 1587, 1585] @ js '' '' @ [1593, 1576, 1585] @ js '' '' @ [1575, 1604, 1587, 1604, 1575, 1587, 1604])),
      (js ''eavm'', Text (js ''EAVM '' @ [183] @ js '' MetaMask'')),
      (js ''apiRest'', Text ([1608, 1575, 1580, 1607, 1577] @ js '' REST'')),
      (js ''aboutProtocol'', Text ([1581, 1608, 1604] @ js '' '' @ [1575, 1604, 1576, 1585, 1608, 1578, 1608, 1603, 1608, 1604])),
      (js ''aboutEav20'', Text ([1581, 1608, 1604] @ js '' eav20'')),
      (js ''security24'', Text ([1575, 1604, 1571, 1605, 1606] @ js '' '' @ [1608, 1575, 1604, 1584, 1603, 1575, 1569] @ js '' '' @ [1575, 1604, 1575, 1589, 1591, 1606, 1575, 1593, 1610] @ js '' 24 '' @ [1587, 1575, 1593, 1577])),
      (js ''livePanel'', Text ([1575, 1604, 1604, 1608, 1581, 1577] @ js '' '' @ [1575, 1604, 1605, 1576, 1575, 1588, 1585, 1577])),
      (js ''privacyPolicy'', Text ([1587, 1610, 1575, 1587, 1577] @ js '' '' @ [1575, 1604, 1582, 1589, 1608, 1589, 1610, 1577]))]),
    (js ''actions'', Names [
      (js ''openWallet'', Text ([1601, 1578, 1581] @ js '' '' @ [1575, 1604, 1605, 1581, 1601, 1592, 1577])),
      (js ''menu'', Text ([1575, 1604, 1602, 1575, 1574, 1605, 1577])),
      (js ''changeLanguage'', Text ([1578, 1594, 1610, 1610, 1585] @ js '' '' @ [1575, 1604, 1604, 1594, 1577])),
      (js ''viewLivePanel'', Text ([1593, 1585, 1590] @ js '' '' @ [1575, 1604, 1604, 1608, 1581, 1577] @ js '' '' @ [1575, 1604, 1605, 1576, 1575, 1588, 1585, 1577])),
      (js ''runNode'', Text ([1603, 1610, 1601, 1610, 1577] @ js '' '' @ [1578, 1588, 1594, 1610, 1604] @ js '' '' @ [1593, 1602, 1583, 1577])),
      (js ''startOverview'', Text ([1575, 1576, 1583, 1571] @ js '' '' @ [1576, 1606, 1592, 1585, 1577] @ js '' '' @ [1593, 1575, 1605, 1577]))]),
    (js ''menu'', Names [
      (js ''explore'', Text ([1575, 1587, 1578, 1603, 1588, 1575, 1601])),
      (js ''network'', Text ([1575, 1604, 1588, 1576, 1603, 1577])),
      (js ''protocol'', Text ([1575, 1604, 1576, 1585, 1608, 1578, 1608, 1603, 1608, 1604])),
      (js ''h'', Names [
        (js ''chain'', Text ([1575, 1604, 1587, 1604, 1587, 1604, 1577])),
        (js ''assets'', Text ([1575, 1604, 1571, 1589, 1608, 1604] @ js '' '' @ [1608, 1575, 1604, 1581, 1587, 1575, 1576, 1575, 1578])),
        (js ''consensus'', Text ([1575, 1604, 1573, 1580, 1605, 1575, 1593])),
        (js ''learn'', Text ([1578, 1593, 1604, 1617, 1605])),
        (js ''fundamentals'', Text ([1575, 1604, 1571, 1587, 1575, 1587, 1610, 1575, 1578])),
        (js ''security'', Text ([1575, 1604, 1571, 1605, 1606] @ js '' '' @ [1608, 1575, 1604, 1588, 1576, 1603, 1577]))]),
      (js ''d'', Names [
        (js ''blocks'', Text ([1571, 1581, 1583, 1579] @ js '' '' @ [1575, 1604, 1603, 1578, 1604, 1548] @ js '' '' @ [1603, 1604] @ js '' '' @ [1579, 1575, 1606, 1610, 1577])),
        (js ''txs'', Text ([1578, 1583, 1601, 1602] @ js '' '' @ [1605, 1593, 1575, 1605, 1604, 1575, 1578] @ js '' '' @ [1575, 1604, 1588, 1576, 1603, 1577])),
        (js ''tokens'', Text ([1575, 1604, 1585, 1605, 1608, 1586] @ js '' '' @ [1575, 1604, 1571, 1589, 1604, 1610, 1577] @ js '' '' @ [1604, 1604, 1576, 1585, 1608, 1578, 1608, 1603, 1608, 1604])),
        (js ''livePanel'', Text ([1605, 1602, 1575, 1610, 1610, 1587] @ js '' '' @ [1575, 1604, 1588, 1576, 1603, 1577] @ js '' '' @ [1601, 1610] @ js '' '' @ [1575, 1604, 1608, 1602, 1578] @ js '' '' @ [1575, 1604, 1601, 1593, 1604, 1610])),
        (js ''validators'', Text ([1605, 1580, 1605, 1608, 1593, 1577] @ js '' DPoS '' @ [1575, 1604, 1606, 1588, 1591, 1577] @ js '' '' @ [1608, 1575, 1604, 1573, 1606, 1578, 1575, 1580])),
        (js ''mining'', Text ([1575, 1604, 1585, 1607, 1606] @ js '' '' @ [1608, 1575, 1604, 1605, 1603, 1575, 1601, 1570, 1578] @ js '' '' @ [1608, 1575, 1604, 1593, 1602, 1583])),
        (js ''consensus'', Text ([1603, 1610, 1601] @ js '' '' @ [1578, 1615, 1606, 1578, 1614, 1580] @ js '' '' @ [1575, 1604, 1603, 1578, 1604])),
        (js ''staking'', Text ([1575, 1602, 1601, 1604] @ js '' EAV7 '' @ [1604, 1604, 1578, 1593, 1583, 1610, 1606])),
        (js ''about'', Text ([1606, 1592, 1585, 1577] @ js '' '' @ [1593, 1575, 1605, 1577] @ js '' '' @ [1593, 1604, 1609] @ js '' eav20'')),
        (js ''standard'', Text ([1585, 1605, 1608, 1586] @ js '' '' @ [1571, 1589, 1604, 1610, 1577] @ js '' (EAV20)'')),
        (js ''bridge'', Text ([1575, 1604, 1602, 1601, 1604] @ js '' '' @ [1608, 1575, 1604, 1573, 1591, 1604, 1575, 1602] @ js '' '' @ [1576, 1610, 1606] @ js '' '' @ [1575, 1604, 1588, 1576, 1603, 1575, 1578])),
        (js ''security'', Text ([1605, 1575] @ js '' '' @ [1576, 1593, 1583] @ js '' '' @ [1575, 1604, 1603, 1605] @ js '' + '' @ [1575, 1604, 1605, 1585, 1575, 1602, 1576, 1577])),
        (js ''eavm'', Text ([1575, 1587, 1578, 1582, 1583, 1605] @ js '' '' @ [1575, 1604, 1588, 1576, 1603, 1577] @ js '' '' @ [1601, 1610] @ js '' '' @ [1605, 1581, 1575, 1601, 1592] @ js '' EVM'')),
        (js ''api'', Text ([1606, 1602, 1575, 1591] @ js '' '' @ [1575, 1604, 1606, 1607, 1575, 1610, 1577] @ js '' '' @ [1575, 1604, 1593, 1575, 1605, 1577] @ js '' '' @ [1604, 1604, 1593, 1602, 1583, 1577]))])]),
    (js ''live'', Names [
      (js ''network'', Text ([1588, 1576, 1603, 1577] @ js '' '' @ [1605, 1576, 1575, 1588, 1585, 1577])),
      (js ''blockHeight'', Text ([1575, 1585, 1578, 1601, 1575, 1593] @ js '' '' @ [1575, 1604, 1603, 1578, 1604, 1577])),
      (js ''valShort'', Text ([1605, 1583, 1602, 1602]))]),
    (js ''footer'', Names [
      (js ''securityDev'', Text ([1575, 1604, 1571, 1605, 1606] @ js '' '' @ [1608, 1575, 1604, 1578, 1591, 1608, 1610, 1585])),
      (js ''tagline'', Text ([1575, 1604, 1605, 1587, 1578, 1603, 1588, 1601] @ js '' '' @ [1575, 1604, 1585, 1587, 1605, 1610] @ js '' '' @ [1604, 1576, 1604, 1608, 1603, 1578, 1588, 1610, 1606] @ js '' EAV7. '' @ [1576, 1585, 1608, 1578, 1608, 1603, 1608, 1604] @ js '' eav20'' @ [1548] @ js '' '' @ [1573, 1580, 1605, 1575, 1593] @ js '' DPoS'' @ [1548] @ js '' '' @ [1571, 1605, 1606] @ js '' '' @ [1605, 1575] @ js '' '' @ [1576, 1593, 1583] @ js '' '' @ [1575, 1604, 1603, 1605] @ js '' '' @ [1608, 1591, 1576, 1602, 1577] @ js '' '' @ [1584, 1603, 1575, 1569] @ js '' '' @ [1575, 1589, 1591, 1606, 1575, 1593, 1610] @ js '' '' @ [1571, 1589, 1604, 1610, 1577] @ js '' '' @ [8212] @ js '' '' @ [1601, 1610] @ js '' '' @ [1575, 1604, 1608, 1602, 1578] @ js '' '' @ [1575, 1604, 1601, 1593, 1604, 1610] @ js ''.'')),
      (js ''networkActive'', Text ([1575, 1604, 1588, 1576, 1603, 1577] @ js '' '' @ [1606, 1588, 1591, 1577]))])]"

definition hi :: messages where
  "hi = [
    (js ''terms'', Names [
      (js ''home'', Text ([2361, 2379, 2350])),
      (js ''blocks'', Text ([2348, 2381, 2354, 2377, 2325])),
      (js ''txs'', Text ([2354, 2375, 2344, 2342, 2375, 2344])),
      (js ''tokens'', Text ([2335, 2379, 2325, 2344])),
      (js ''tokensEav20'', Text (js ''EAV20 '' @ [2335, 2379, 2325, 2344])),
      (js ''validators'', Text ([2357, 2376, 2354, 2367, 2337, 2375, 2335, 2352])),
      (js ''mining'', Text ([2350, 2366, 2311, 2344, 2367, 2306, 2327])),
      (js ''wallet'', Text ([2357, 2377, 2354, 2375, 2335])),
      (js ''walletWeb'', Text ([2357, 2375, 2348] @ js '' '' @ [2357, 2377, 2354, 2375, 2335])),
      (js ''staking'', Text ([2360, 2381, 2335, 2375, 2325, 2367, 2306, 2327] @ js '' '' @ [2324, 2352] @ js '' '' @ [2352, 2367, 2357, 2377, 2352, 2381, 2337])),
      (js ''consensusDpos'', Text (js ''DPoS '' @ [2360, 2352, 2381, 2357, 2360, 2350, 2381, 2350, 2340, 2367])),
      (js ''tokenStandard'', Text (js ''EAV20 '' @ [2350, 2366, 2344, 2325])),
      (js ''tokenStandardFull'', Text (js ''EAV20 '' @ [2335, 2379, 2325, 2344] @ js '' '' @ [2350, 2366, 2344, 2325])),
      (js ''bridge'', Text ([2325, 2381, 2352, 2377, 2360] @ js ''-'' @ [2330, 2375, 2344] @ js '' '' @ [2348, 2381, 2352, 2367, 2332])),
      (js ''eavm'', Text (js ''EAVM '' @ [183] @ js '' MetaMask'')),
      (js ''apiRest'', Text (js ''REST API'')),
      (js ''aboutProtocol'', Text ([2346, 2381, 2352, 2379, 2335, 2379, 2325, 2377, 2354] @ js '' '' @ [2325, 2375] @ js '' '' @ [2348, 2366, 2352, 2375] @ js '' '' @ [2350, 2375, 2306])),
      (js ''aboutEav20'', Text (js ''eav20 '' @ [2325, 2375] @ js '' '' @ [2348, 2366, 2352, 2375] @ js '' '' @ [2350, 2375, 2306])),
      (js ''security24'', Text (js ''24 '' @ [2328, 2306, 2335, 2375] @ js '' '' @ [2360, 2369, 2352, 2325, 2381, 2359, 2366] @ js '' '' @ [2324, 2352] @ js '' AI'')),
      (js ''livePanel'', Text ([2354, 2366, 2311, 2357] @ js '' '' @ [2346, 2376, 2344, 2354])),
      (js ''privacyPolicy'', Text ([2327, 2379, 2346, 2344, 2368, 2351, 2340, 2366] @ js '' '' @ [2344, 2368, 2340, 2367]))]),
    (js ''actions'', Names [
      (js ''openWallet'', Text ([2357, 2377, 2354, 2375, 2335] @ js '' '' @ [2326, 2379, 2354, 2375, 2306])),
      (js ''menu'', Text ([2350, 2375, 2344, 2381, 2351, 2370])),
      (js ''changeLanguage'', Text ([2349, 2366, 2359, 2366] @ js '' '' @ [2348, 2342, 2354, 2375, 2306])),
      (js ''viewLivePanel'', Text ([2354, 2366, 2311, 2357] @ js '' '' @ [2346, 2376, 2344, 2354] @ js '' '' @ [2342, 2375, 2326, 2375, 2306])),
      (js ''runNode'', Text ([2344, 2379, 2337] @ js '' '' @ [2325, 2376, 2360, 2375] @ js '' '' @ [2330, 2354, 2366, 2319, 2305])),
      (js ''startOverview'', Text ([2309, 2357, 2354, 2379, 2325, 2344] @ js '' '' @ [2360, 2375] @ js '' '' @ [2358, 2369, 2352, 2370] @ js '' '' @ [2325, 2352, 2375, 2306]))]),
    (js ''menu'', Names [
      (js ''explore'', Text ([2319, 2325, 2381, 2360, 2346, 2381, 2354, 2379, 2352])),
      (js ''network'', Text ([2344, 2375, 2335, 2357, 2352, 2381, 2325])),
      (js ''protocol'', Text ([2346, 2381, 2352, 2379, 2335, 2379, 2325, 2377, 2354])),
      (js ''h'', Names [
        (js ''chain'', Text ([2330, 2375, 2344])),
        (js ''assets'', Text ([2319, 2360, 2375, 2335] @ js '' '' @ [2324, 2352] @ js '' '' @ [2326, 2366, 2340, 2375])),
        (js ''consensus'', Text ([2360, 2352, 2381, 2357, 2360, 2350, 2381, 2350, 2340, 2367])),
        (js ''learn'', Text ([2360, 2368, 2326, 2375, 2306])),
        (js ''fundamentals'', Text ([2350, 2370, 2354] @ js '' '' @ [2348, 2366, 2340, 2375, 2306])),
        (js ''security'', Text ([2360, 2369, 2352, 2325, 2381, 2359, 2366] @ js '' '' @ [2324, 2352] @ js '' '' @ [2344, 2375, 2335, 2357, 2352, 2381, 2325]))]),
      (js ''d'', Names [
        (js ''blocks'', Text ([2344, 2357, 2368, 2344, 2340, 2350] @ js '' '' @ [2348, 2381, 2354, 2377, 2325] @ js '', '' @ [2361, 2352] @ js '' 1 '' @ [2360, 2375, 2325, 2306, 2337])),
        (js ''txs'', Text ([2344, 2375, 2335, 2357, 2352, 2381, 2325] @ js '' '' @ [2354, 2375, 2344, 2342, 2375, 2344] @ js '' '' @ [2346, 2381, 2352, 2357, 2366, 2361])),
        (js ''tokens'', Text ([2346, 2381, 2352, 2379, 2335, 2379, 2325, 2377, 2354] @ js '' '' @ [2325, 2375] @ js '' '' @ [2350, 2370, 2354] @ js '' '' @ [2335, 2379, 2325, 2344])),
        (js ''livePanel'', Text ([2352, 2367, 2351, 2354] @ js ''-'' @ [2335, 2366, 2311, 2350] @ js '' '' @ [2344, 2375, 2335, 2357, 2352, 2381, 2325] @ js '' '' @ [2350, 2375, 2335, 2381, 2352, 2367, 2325, 2381, 2360])),
        (js ''validators'', Text ([2360, 2325, 2381, 2352, 2367, 2351] @ js '' DPoS '' @ [2360, 2375, 2335] @ js '' '' @ [2324, 2352] @ js '' '' @ [2313, 2340, 2381, 2346, 2366, 2342, 2344])),
        (js ''mining'', Text ([2360, 2381, 2335, 2375, 2325] @ js '', '' @ [2352, 2367, 2357, 2377, 2352, 2381, 2337] @ js '' '' @ [2324, 2352] @ js '' '' @ [2344, 2379, 2337])),
        (js ''consensus'', Text ([2348, 2381, 2354, 2377, 2325] @ js '' '' @ [2325, 2376, 2360, 2375] @ js '' '' @ [2348, 2344, 2340, 2375] @ js '' '' @ [2361, 2376, 2306])),
        (js ''staking'', Text ([2350, 2366, 2311, 2344] @ js '' '' @ [2325, 2352, 2344, 2375] @ js '' '' @ [2325, 2375] @ js '' '' @ [2354, 2367, 2319] @ js '' EAV7 '' @ [2354, 2377, 2325] @ js '' '' @ [2325, 2352, 2375, 2306])),
        (js ''about'', Text (js ''eav20 '' @ [2309, 2357, 2354, 2379, 2325, 2344])),
        (js ''standard'', Text ([2350, 2370, 2354] @ js '' '' @ [2335, 2379, 2325, 2344] @ js '' (EAV20)'')),
        (js ''bridge'', Text ([2344, 2375, 2335, 2357, 2352, 2381, 2325, 2379, 2306] @ js '' '' @ [2325, 2375] @ js '' '' @ [2348, 2368, 2330] @ js '' '' @ [2354, 2377, 2325] @ js ''-'' @ [2319, 2306, 2337] @ js ''-'' @ [2352, 2367, 2354, 2368, 2332, 2364])),
        (js ''security'', Text ([2346, 2379, 2360, 2381, 2335] @ js ''-'' @ [2325, 2381, 2357, 2366, 2306, 2335, 2350] @ js '' + '' @ [2344, 2367, 2327, 2352, 2366, 2344, 2368])),
        (js ''eavm'', Text (js ''EVM '' @ [2357, 2377, 2354, 2375, 2335] @ js '' '' @ [2350, 2375, 2306] @ js '' '' @ [2344, 2375, 2335, 2357, 2352, 2381, 2325] @ js '' '' @ [2313, 2346, 2351, 2379, 2327] @ js '' '' @ [2325, 2352, 2375, 2306])),
        (js ''api'', Text ([2344, 2379, 2337] @ js '' '' @ [2325, 2375] @ js '' '' @ [2360, 2366, 2352, 2381, 2357, 2332, 2344, 2367, 2325] @ js '' '' @ [2319, 2306, 2337, 2346, 2377, 2311, 2306, 2335]))])]),
    (js ''live'', Names [
      (js ''network'', Text ([2354, 2366, 2311, 2357] @ js '' '' @ [2344, 2375, 2335, 2357, 2352, 2381, 2325])),
      (js ''blockHeight'', Text ([2348, 2381, 2354, 2377, 2325] @ js '' '' @ [2314, 2305, 2330, 2366, 2312])),
      (js ''valShort'', Text ([2357, 2376, 2354] @ js ''.''))]),
    (js ''footer'', Names [
      (js ''securityDev'', Text ([2360, 2369, 2352, 2325, 2381, 2359, 2366] @ js '' '' @ [2324, 2352] @ js '' Dev'')),
      (js ''tagline'', Text (js ''EAV7 '' @ [2348, 2381, 2354, 2377, 2325, 2330, 2375, 2344] @ js '' '' @ [2325, 2366] @ js '' '' @ [2310, 2343, 2367, 2325, 2366, 2352, 2367, 2325] @ js '' '' @ [2319, 2325, 2381, 2360, 2346, 2381, 2354, 2379, 2352, 2352, 2404] @ js '' eav20 '' @ [2346, 2381, 2352, 2379, 2335, 2379, 2325, 2377, 2354] @ js '', DPoS '' @ [2360, 2352, 2381, 2357, 2360, 2350, 2381, 2350, 2340, 2367] @ js '', '' @ [2346, 2379, 2360, 2381, 2335] @ js ''-'' @ [2325, 2381, 2357, 2366, 2306, 2335, 2350] @ js '' '' @ [2360, 2369, 2352, 2325, 2381, 2359, 2366] @ js '' '' @ [2324, 2352] @ js '' '' @ [2344, 2375, 2335, 2367, 2357] @ js '' AI '' @ [2346, 2352, 2340] @ js '' '' @ [8212] @ js '' '' @ [2352, 2367, 2351, 2354] @ js ''-'' @ [2335, 2366, 2311, 2350] @ js '' '' @ [2350, 2375, 2306, 2404])),
      (js ''networkActive'', Text ([2344, 2375, 2335, 2357, 2352, 2381, 2325] @ js '' '' @ [2360, 2325, 2381, 2352, 2367, 2351]))])]"

definition ko :: messages where
  "ko = [
    (js ''terms'', Names [
      (js ''home'', Text ([54856])),
      (js ''blocks'', Text ([48660, 47197])),
      (js ''txs'', Text ([53944, 47004, 51117, 49496])),
      (js ''tokens'', Text ([53664, 53360])),
      (js ''tokensEav20'', Text (js ''EAV20 '' @ [53664, 53360])),
      (js ''validators'', Text ([44160, 51613, 51088])),
      (js ''mining'', Text ([52292, 44404])),
      (js ''wallet'', Text ([51648, 44049])),
      (js ''walletWeb'', Text ([50937] @ js '' '' @ [51648, 44049])),
      (js ''staking'', Text ([49828, 53580, 51060, 53433] @ js '' '' @ [48143] @ js '' '' @ [48372, 49345])),
      (js ''consensusDpos'', Text (js ''DPoS '' @ [54633, 51032])),
      (js ''tokenStandard'', Text (js ''EAV20 '' @ [54364, 51456])),
      (js ''tokenStandardFull'', Text (js ''EAV20 '' @ [53664, 53360] @ js '' '' @ [54364, 51456])),
      (js ''bridge'', Text ([53356, 47196, 49828, 52404, 51064] @ js '' '' @ [48652, 47532, 51648])),
      (js ''eavm'', Text (js ''EAVM '' @ [183] @ js '' MetaMask'')),
      (js ''apiRest'', Text (js ''REST API'')),
      (js ''aboutProtocol'', Text ([54532, 47196, 53664, 53084] @ js '' '' @ [49548, 44060])),
      (js ''aboutEav20'', Text (js ''eav20 '' @ [49548, 44060])),
      (js ''security24'', Text (js ''24'' @ [49884, 44036] @ js '' '' @ [48372, 50504] @ js '' & AI'')),
      (js ''livePanel'', Text ([46972, 51060, 48652] @ js '' '' @ [54056, 45328])),
      (js ''privacyPolicy'', Text ([44060, 51064, 51221, 48372] @ js '' '' @ [52376, 47532, 48169, 52840]))]),
    (js ''actions'', Names [
      (js ''openWallet'', Text ([51648, 44049] @ js '' '' @ [50676, 44592])),
      (js ''menu'', Text ([47700, 45684])),
      (js ''changeLanguage'', Text ([50616, 50612] @ js '' '' @ [48320, 44221])),
      (js ''viewLivePanel'', Text ([46972, 51060, 48652] @ js '' '' @ [54056, 45328] @ js '' '' @ [48372, 44592])),
      (js ''runNode'', Text ([45432, 46300] @ js '' '' @ [49892, 54665] @ js '' '' @ [48169, 48277])),
      (js ''startOverview'', Text ([44060, 50836, 48512, 53552] @ js '' '' @ [49884, 51089]))]),
    (js ''menu'', Names [
      (js ''explore'', Text ([53456, 49353])),
      (js ''network'', Text ([45348, 53944, 50892, 53356])),
      (js ''protocol'', Text ([54532, 47196, 53664, 53084])),
      (js ''h'', Names [
        (js ''chain'', Text ([52404, 51064])),
        (js ''assets'', Text ([51088, 49328] @ js '' '' @ [48143] @ js '' '' @ [44228, 51221])),
        (js ''consensus'', Text ([54633, 51032])),
        (js ''learn'', Text ([54617, 49845])),
        (js ''fundamentals'', Text ([44592, 52488])),
        (js ''security'', Text ([48372, 50504] @ js '' '' @ [48143] @ js '' '' @ [45348, 53944, 50892, 53356]))]),
      (js ''d'', Names [
        (js ''blocks'', Text ([52572, 49888] @ js '' '' @ [48660, 47197] @ js '', 1'' @ [52488, 47560, 45796])),
        (js ''txs'', Text ([45348, 53944, 50892, 53356] @ js '' '' @ [53944, 47004, 51117, 49496] @ js '' '' @ [55120, 47492])),
        (js ''tokens'', Text ([54532, 47196, 53664, 53084] @ js '' '' @ [45348, 51060, 54000, 48652] @ js '' '' @ [53664, 53360])),
        (js ''livePanel'', Text ([49892, 49884, 44036] @ js '' '' @ [45348, 53944, 50892, 53356] @ js '' '' @ [51648, 54364])),
        (js ''validators'', Text ([54876, 49457] @ js '' DPoS '' @ [49464, 53944] @ js '' '' @ [48143] @ js '' '' @ [49373, 49457])),
        (js ''mining'', Text ([49828, 53580, 51060, 53356] @ js '', '' @ [48372, 49345] @ js '' '' @ [48143] @ js '' '' @ [45432, 46300])),
        (js ''consensus'', Text ([48660, 47197] @ js '' '' @ [49373, 49457] @ js '' '' @ [48169, 49885])),
        (js ''staking'', Text ([52292, 44404, 51012] @ js '' '' @ [50948, 54644] @ js '' EAV7 '' @ [51104, 44552])),
        (js ''about'', Text (js ''eav20 '' @ [44060, 50836])),
        (js ''standard'', Text ([45348, 51060, 54000, 48652] @ js '' '' @ [53664, 53360] @ js ''(EAV20)'')),
        (js ''bridge'', Text ([45348, 53944, 50892, 53356] @ js '' '' @ [44036] @ js '' '' @ [46973, 50532, 47540, 47532, 49828])),
        (js ''security'', Text ([54252, 49828, 53944] @ js '' '' @ [50577, 51088] @ js '' + '' @ [44048, 49884])),
        (js ''eavm'', Text (js ''EVM '' @ [51648, 44049, 50640, 49436] @ js '' '' @ [45348, 53944, 50892, 53356] @ js '' '' @ [49324, 50857])),
        (js ''api'', Text ([45432, 46300] @ js '' '' @ [44277, 44060] @ js '' '' @ [50644, 46300, 54252, 51064, 53944]))])]),
    (js ''live'', Names [
      (js ''network'', Text ([46972, 51060, 48652] @ js '' '' @ [45348, 53944, 50892, 53356])),
      (js ''blockHeight'', Text ([48660, 47197] @ js '' '' @ [45458, 51060])),
      (js ''valShort'', Text ([44160, 51613]))]),
    (js ''footer'', Names [
      (js ''securityDev'', Text ([48372, 50504] @ js '' & '' @ [44060, 48156])),
      (js ''tagline'', Text (js ''EAV7 '' @ [48660, 47197, 52404, 51064, 51032] @ js '' '' @ [44277, 49885] @ js '' '' @ [51061, 49828, 54540, 47196, 47084] @ js ''. eav20 '' @ [54532, 47196, 53664, 53084] @ js '', DPoS '' @ [54633, 51032] @ js '', '' @ [54252, 49828, 53944] @ js '' '' @ [50577, 51088] @ js '' '' @ [48372, 50504] @ js '' '' @ [48143] @ js '' '' @ [45348, 51060, 54000, 48652] @ js '' AI '' @ [47112, 51060, 50612] @ js '' '' @ [8212] @ js '' '' @ [49892, 49884, 44036, 51004, 47196] @ js ''.'')),
      (js ''networkActive'', Text ([45348, 53944, 50892, 53356] @ js '' '' @ [54876, 49457]))])]"

definition it :: messages where
  "it = [
    (js ''terms'', Names [
      (js ''home'', Text (js ''Home'')),
      (js ''blocks'', Text (js ''Blocchi'')),
      (js ''txs'', Text (js ''Transazioni'')),
      (js ''tokens'', Text (js ''Token'')),
      (js ''tokensEav20'', Text (js ''Token EAV20'')),
      (js ''validators'', Text (js ''Validatori'')),
      (js ''mining'', Text (js ''Mining'')),
      (js ''wallet'', Text (js ''Wallet'')),
      (js ''walletWeb'', Text (js ''Wallet web'')),
      (js ''staking'', Text (js ''Staking e ricompense'')),
      (js ''consensusDpos'', Text (js ''Consenso DPoS'')),
      (js ''tokenStandard'', Text (js ''Standard EAV20'')),
      (js ''tokenStandardFull'', Text (js ''Standard del token EAV20'')),
      (js ''bridge'', Text (js ''Bridge cross-chain'')),
      (js ''eavm'', Text (js ''EAVM '' @ [183] @ js '' MetaMask'')),
      (js ''apiRest'', Text (js ''API REST'')),
      (js ''aboutProtocol'', Text (js ''Informazioni sul protocollo'')),
      (js ''aboutEav20'', Text (js ''Informazioni su eav20'')),
      (js ''security24'', Text (js ''Sicurezza e IA 24 ore'')),
      (js ''livePanel'', Text (js ''Pannello live'')),
      (js ''privacyPolicy'', Text (js ''Informativa sulla privacy''))]),
    (js ''actions'', Names [
      (js ''openWallet'', Text (js ''Apri wallet'')),
      (js ''menu'', Text (js ''Menu'')),
      (js ''changeLanguage'', Text (js ''Cambia lingua'')),
      (js ''viewLivePanel'', Text (js ''Vedi pannello live'')),
      (js ''runNode'', Text (js ''Come eseguire un nodo'')),
      (js ''startOverview'', Text (js ''Inizia dalla panoramica''))]),
    (js ''menu'', Names [
      (js ''explore'', Text (js ''Esplora'')),
      (js ''network'', Text (js ''Rete'')),
      (js ''protocol'', Text (js ''Protocollo'')),
      (js ''h'', Names [
        (js ''chain'', Text (js ''catena'')),
        (js ''assets'', Text (js ''asset e account'')),
        (js ''consensus'', Text (js ''consenso'')),
        (js ''learn'', Text (js ''impara'')),
        (js ''fundamentals'', Text (js ''fondamenti'')),
        (js ''security'', Text (js ''sicurezza e rete''))]),
      (js ''d'', Names [
        (js ''blocks'', Text (js ''Ultimi blocchi, ogni 1s'')),
        (js ''txs'', Text (js ''Flusso di transazioni della rete'')),
        (js ''tokens'', Text (js ''Token nativi del protocollo'')),
        (js ''livePanel'', Text (js ''Metriche di rete in tempo reale'')),
        (js ''validators'', Text (js ''Set DPoS attivo e produzione'')),
        (js ''mining'', Text (js ''Stake, ricompense e nodi'')),
        (js ''consensus'', Text (js ''Come vengono prodotti i blocchi'')),
        (js ''staking'', Text (js ''Blocca EAV7 per minare'')),
        (js ''about'', Text (js ''Panoramica di eav20'')),
        (js ''standard'', Text (js ''Token nativi (EAV20)'')),
        (js ''bridge'', Text (js ''Lock-and-release tra reti'')),
        (js ''security'', Text (js ''Post-quantistica + sorveglianza'')),
        (js ''eavm'', Text (js ''Usa la rete in wallet EVM'')),
        (js ''api'', Text (js ''Endpoint pubblici del nodo''))])]),
    (js ''live'', Names [
      (js ''network'', Text (js ''rete live'')),
      (js ''blockHeight'', Text (js ''altezza del blocco'')),
      (js ''valShort'', Text (js ''val.''))]),
    (js ''footer'', Names [
      (js ''securityDev'', Text (js ''Sicurezza e Dev'')),
      (js ''tagline'', Text (js ''L'' @ [39] @ js ''explorer ufficiale della blockchain EAV7. Protocollo eav20, consenso DPoS, sicurezza post-quantistica e livello IA nativo '' @ [8212] @ js '' in tempo reale.'')),
      (js ''networkActive'', Text (js ''rete attiva''))])]"

definition base :: "(jstr \<times> messages) list" where
  "base = [(js ''pt'', pt), (js ''en'', en), (js ''es'', es), (js ''zh'', zh), (js ''fr'', fr), (js ''de'', de),
    (js ''ja'', ja), (js ''ru'', ru), (js ''ar'', ar), (js ''hi'', hi), (js ''ko'', ko), (js ''it'', it)]"

end
