(* ===== verification/I18n.thy ===== *)
theory I18n
  imports I18nText JsText "HOL-Library.AList"
begin

section \<open>Messages and locales\<close>

text \<open>
  \<open>i18n/dictionary.ts\<close> (\<open>deepMerge\<close>, \<open>dictionaries\<close>), \<open>i18n/resolve.ts\<close> (\<open>walk\<close>,
  \<open>resolve\<close>, \<open>makeT\<close>), \<open>i18n/locales.ts\<close> (\<open>isLocale\<close>, \<open>dirOf\<close>), \<open>i18n/server.ts\<close>
  (\<open>getLocale\<close>) and \<open>i18n/provider.tsx\<close> (\<open>setLocale\<close>).

  The texts of the inner screens, \<open>messages/generated.ts\<close>, are written by
  \<open>scripts/merge-i18n.mjs\<close> from the JSON parts: they are the argument \<open>gen\<close>, one object per
  language or none. An object is the list of its names and values in the order of the object, and
  \<open>out[key] = v\<close> is \<open>AList.update\<close>. What an object inherits (\<open>constructor\<close> and the like) is
  never a string nor an object with strings, so a look-up that meets it ends where one that finds
  nothing ends: at the key itself.
\<close>

subsection \<open>Locales\<close>

definition isLocale :: "jstr \<Rightarrow> bool" where
  "isLocale value = list_ex (\<lambda>l. lc_code l = value) LOCALES"

definition dirOf :: "jstr \<Rightarrow> jstr" where
  "dirOf code = (case find (\<lambda>l. lc_code l = code) LOCALES of Some l \<Rightarrow> lc_dir l | None \<Rightarrow> js ''ltr'')"

text \<open>\<open>getLocale\<close> of \<open>server.ts\<close>, and the same lines of the root layout: the language of a request.\<close>

definition getLocale :: "jstr option \<Rightarrow> jstr" where
  "getLocale cookie = (case cookie of Some value \<Rightarrow> if isLocale value then value else DEFAULT_LOCALE
     | None \<Rightarrow> DEFAULT_LOCALE)"


subsection \<open>The dictionaries\<close>

fun deepMerge :: "messages \<Rightarrow> messages \<Rightarrow> messages" where
  "deepMerge out [] = out"
| "deepMerge out ((key, bv) # bs) =
    deepMerge (AList.update key
      (case (map_of out key, bv) of (Some (Names av), Names b) \<Rightarrow> Names (deepMerge av b) | _ \<Rightarrow> bv) out) bs"

definition dictionaries :: "(jstr \<Rightarrow> messages option) \<Rightarrow> jstr \<Rightarrow> message option" where
  "dictionaries gen code = map_option (\<lambda>m. Names (deepMerge m (case gen code of None \<Rightarrow> [] | Some g \<Rightarrow> g)))
     (map_of base code)"


subsection \<open>Looking a key up\<close>

definition walk_step :: "message option \<Rightarrow> jstr \<Rightarrow> message option" where
  "walk_step acc key = (case acc of Some (Names m) \<Rightarrow> map_of m key | _ \<Rightarrow> None)"

definition walk :: "message option \<Rightarrow> jstr \<Rightarrow> message option" where
  "walk obj path = foldl walk_step obj (split_on 46 path)"

text \<open>The loop over the candidates, which leaves the value of the last dictionary it asked.\<close>

fun first_text :: "jstr \<Rightarrow> message option \<Rightarrow> message option list \<Rightarrow> message option" where
  "first_text key value [] = value"
| "first_text key value (dict # dicts) = (case walk dict key of
     Some (Text s) \<Rightarrow> Some (Text s) | v \<Rightarrow> first_text key v dicts)"

text \<open>\<open>GetSubstitution\<close> of the standard, for a search text: what \<open>$$\<close>, \<open>$&\<close>, \<open>$`\<close> and \<open>$'\<close>
  stand for in the replacement; any other \<open>$\<close> is itself.\<close>

fun substitution :: "jstr \<Rightarrow> jstr \<Rightarrow> jstr \<Rightarrow> jstr \<Rightarrow> jstr" where
  "substitution before matched after [] = []"
| "substitution before matched after [c] = [c]"
| "substitution before matched after (c # d # t) =
    (if c = 36 \<and> d = 36 then 36 # substitution before matched after t
     else if c = 36 \<and> d = 38 then matched @ substitution before matched after t
     else if c = 36 \<and> d = 96 then before @ substitution before matched after t
     else if c = 36 \<and> d = 39 then after @ substitution before matched after t
     else c # substitution before matched after (d # t))"

text \<open>\<open>s.replaceAll(pat, rep)\<close> for a search text that is not empty: \<open>before\<close> is what was passed.\<close>

function replace_from :: "jstr \<Rightarrow> jstr \<Rightarrow> jstr \<Rightarrow> jstr \<Rightarrow> jstr" where
  "replace_from pat rep before s =
    (if s = [] then []
     else if pat \<noteq> [] \<and> take (length pat) s = pat
       then substitution before pat (drop (length pat) s) rep
              @ replace_from pat rep (before @ pat) (drop (length pat) s)
     else hd s # replace_from pat rep (before @ [hd s]) (tl s))"
  by pat_completeness auto
termination
  by (relation "measure (\<lambda>(pat, rep, before, s). length s)") auto

declare replace_from.simps [simp del]

definition replaceAll :: "jstr \<Rightarrow> jstr \<Rightarrow> jstr \<Rightarrow> jstr" where
  "replaceAll s pat rep = replace_from pat rep [] s"

datatype tvar = StrVar jstr | NumVar jsnum

fun var_str :: "tvar \<Rightarrow> jstr" where
  "var_str (StrVar s) = s"
| "var_str (NumVar n) = num_str n"

definition fill_var :: "jstr \<Rightarrow> jstr \<times> tvar \<Rightarrow> jstr" where
  "fill_var value nr = replaceAll value (123 # fst nr @ [125]) (var_str (snd nr))"

definition resolve :: "(jstr \<Rightarrow> messages option) \<Rightarrow> jstr \<Rightarrow> jstr \<Rightarrow> (jstr \<times> tvar) list option \<Rightarrow> jstr" where
  "resolve gen locale key vars =
    (case first_text key None [dictionaries gen locale, dictionaries gen (js ''en''), dictionaries gen (js ''pt'')] of
       Some (Text s) \<Rightarrow> (case vars of None \<Rightarrow> s | Some vs \<Rightarrow> foldl fill_var s vs)
     | _ \<Rightarrow> key)"

definition makeT :: "(jstr \<Rightarrow> messages option) \<Rightarrow> jstr \<Rightarrow> jstr \<Rightarrow> (jstr \<times> tvar) list option \<Rightarrow> jstr" where
  "makeT gen locale = (\<lambda>key vars. resolve gen locale key vars)"

text \<open>The label of an alert in \<open>docs/security-sentinel.tsx\<close>: \<open>t(...) || a.severity\<close>.\<close>

definition severity_label :: "(jstr \<Rightarrow> (jstr \<times> tvar) list option \<Rightarrow> jstr) \<Rightarrow> jstr \<Rightarrow> jstr" where
  "severity_label t severity = (let s = t (js ''secSentinel.sev.'' @ severity) None in
     if s = [] then severity else s)"

definition getT :: "(jstr \<Rightarrow> messages option) \<Rightarrow> jstr option \<Rightarrow> jstr \<Rightarrow> (jstr \<times> tvar) list option \<Rightarrow> jstr" where
  "getT gen cookie = makeT gen (getLocale cookie)"


subsection \<open>The page's language\<close>

text \<open>
  The provider's state with what the document says of it, the browser's cookie and its storage.
  Writing the cookie may be dropped silently or may throw; what throws ends the \<open>try\<close> block.
\<close>

record i18n_page =
  pg_locale :: jstr
  pg_lang :: jstr
  pg_dir :: jstr

record i18n_world =
  shown_page :: i18n_page
  cookie :: "jstr option"
  stored :: "jstr option"

datatype cookie_write = Kept | Dropped | Threw

definition page_in :: "jstr \<Rightarrow> i18n_page" where
  "page_in locale = \<lparr>pg_locale = locale, pg_lang = locale, pg_dir = dirOf locale\<rparr>"

definition setLocale :: "jstr \<Rightarrow> cookie_write \<Rightarrow> bool \<Rightarrow> i18n_world \<Rightarrow> i18n_world" where
  "setLocale nxt cw storage w =
    (let w1 = w\<lparr>shown_page := (shown_page w)\<lparr>pg_locale := nxt\<rparr>\<rparr>;
         w2 = (case cw of
                 Kept \<Rightarrow> w1\<lparr>cookie := Some nxt, stored := (if storage then Some nxt else stored w)\<rparr>
               | Dropped \<Rightarrow> w1\<lparr>stored := (if storage then Some nxt else stored w)\<rparr>
               | Threw \<Rightarrow> w1)
     in w2\<lparr>shown_page := (shown_page w2)\<lparr>pg_lang := nxt, pg_dir := dirOf nxt\<rparr>\<rparr>)"

text \<open>A request: the root layout reads the cookie, writes the \<open>html\<close> element and starts the provider.\<close>

definition load_page :: "i18n_world \<Rightarrow> i18n_world" where
  "load_page w = w\<lparr>shown_page := page_in (getLocale (cookie w))\<rparr>"

text \<open>The page, with other tabs and other hands on the cookie.\<close>

inductive i18n_step :: "i18n_world \<Rightarrow> i18n_world \<Rightarrow> bool" where
  choose: "isLocale nxt \<Longrightarrow> i18n_step w (setLocale nxt cw storage w)"
| reload: "i18n_step w (load_page w)"
| elsewhere: "i18n_step w (w\<lparr>cookie := c\<rparr>)"

inductive i18n_reach :: "i18n_world \<Rightarrow> i18n_world \<Rightarrow> bool" where
  start: "i18n_reach w (load_page w)"
| step: "i18n_reach w v \<Longrightarrow> i18n_step v v' \<Longrightarrow> i18n_reach w v'"


section \<open>Lemmas\<close>

subsection \<open>Merging\<close>

definition merged_value :: "message option \<Rightarrow> message \<Rightarrow> message" where
  "merged_value old new = (case (old, new) of (Some (Names av), Names b) \<Rightarrow> Names (deepMerge av b) | _ \<Rightarrow> new)"

lemma deepMerge_Cons:
  "deepMerge out ((key, bv) # bs) = deepMerge (AList.update key (merged_value (map_of out key) bv) out) bs"
  by (simp add: merged_value_def)

lemma merged_value_simps [simp]:
  "merged_value old (Text s) = Text s"
  "merged_value None new = new"
  "merged_value (Some (Text t)) new = new"
  "merged_value (Some (Names a)) (Names b) = Names (deepMerge a b)"
  by (auto simp: merged_value_def split: message.splits option.splits)

lemma map_of_deepMerge_other: "k \<notin> fst ` set b \<Longrightarrow> map_of (deepMerge a b) k = map_of a k"
proof (induction b arbitrary: a)
  case (Cons x b)
  then show ?case by (cases x) (simp add: deepMerge_Cons update_conv del: deepMerge.simps)
qed simp

lemma map_of_deepMerge:
  "distinct (map fst b) \<Longrightarrow> map_of b k = Some v \<Longrightarrow>
    map_of (deepMerge a b) k = Some (merged_value (map_of a k) v)"
proof (induction b arbitrary: a)
  case (Cons x b)
  obtain key bv where x: "x = (key, bv)" by (cases x)
  show ?case
  proof (cases "k = key")
    case True
    then have "k \<notin> fst ` set b" "v = bv" using Cons.prems x by auto
    then show ?thesis using True
      by (simp add: x deepMerge_Cons map_of_deepMerge_other update_conv del: deepMerge.simps)
  next
    case False
    then show ?thesis using Cons
      by (simp add: x deepMerge_Cons update_conv del: deepMerge.simps)
  qed
qed simp

text \<open>No name twice, at any depth; and the texts of an object, each with the names that lead to it.\<close>

fun well_named :: "messages \<Rightarrow> bool" where
  "well_named [] = True"
| "well_named ((k, Text s) # m) = (k \<notin> fst ` set m \<and> well_named m)"
| "well_named ((k, Names c) # m) = (k \<notin> fst ` set m \<and> well_named c \<and> well_named m)"

fun leaves :: "messages \<Rightarrow> (jstr list \<times> jstr) list" where
  "leaves [] = []"
| "leaves ((k, Text s) # m) = ([k], s) # leaves m"
| "leaves ((k, Names c) # m) = map (apfst (Cons k)) (leaves c) @ leaves m"

text \<open>The names that another object answers for on the way, with a text or with an object.\<close>

fun shadowed :: "messages \<Rightarrow> jstr list \<Rightarrow> bool" where
  "shadowed m [] = True"
| "shadowed m (k # ks) = (case map_of m k of None \<Rightarrow> False | Some (Text s) \<Rightarrow> True
     | Some (Names c) \<Rightarrow> shadowed c ks)"

abbreviation found :: "message option \<Rightarrow> jstr list \<Rightarrow> message option" where
  "found obj ks \<equiv> foldl walk_step obj ks"

lemma walk_step_simps [simp]:
  "walk_step None k = None"
  "walk_step (Some (Text s)) k = None"
  "walk_step (Some (Names m)) k = map_of m k"
  by (simp_all add: walk_step_def)

lemma found_None [simp]: "found None ks = None"
  by (induction ks) simp_all

lemma found_Text: "found (Some (Text s)) ks = (if ks = [] then Some (Text s) else None)"
  by (cases ks) simp_all

lemma well_named_distinct: "well_named m \<Longrightarrow> distinct (map fst m)"
  by (induction m rule: well_named.induct) auto

lemma well_named_sub: "well_named m \<Longrightarrow> map_of m k = Some (Names c) \<Longrightarrow> well_named c"
  by (induction m rule: well_named.induct) (auto split: if_splits)

lemma well_named_tl: "well_named (x # m) \<Longrightarrow> well_named m \<and> fst x \<notin> fst ` set m"
  by (cases "x # m" rule: well_named.cases) auto

lemma leaves_names: "(p, s) \<in> set (leaves m) \<Longrightarrow> p \<noteq> [] \<and> hd p \<in> fst ` set m"
  by (induction m rule: leaves.induct) auto

lemma found_skip:
  assumes "found (Some (Names m)) p = Some (Text s)" "p = k' # ks" "k' \<in> fst ` set m" "k \<notin> fst ` set m"
  shows "found (Some (Names ((k, v) # m))) p = Some (Text s)"
proof -
  have "k' \<noteq> k" using assms(3,4) by blast
  then show ?thesis using assms(1,2) by simp
qed

lemma leaves_found: "well_named m \<Longrightarrow> (p, s) \<in> set (leaves m) \<Longrightarrow> found (Some (Names m)) p = Some (Text s)"
proof (induction m arbitrary: p rule: leaves.induct)
  case (2 k t m)
  show ?case
  proof (cases "p = [k]")
    case True
    then show ?thesis using 2 leaves_names [of p s m] by auto
  next
    case False
    then have l: "(p, s) \<in> set (leaves m)" using 2 by auto
    then obtain k' ks where p: "p = k' # ks" "k' \<in> fst ` set m" using leaves_names by (cases p) force+
    have "found (Some (Names m)) p = Some (Text s)" using 2 l by simp
    then show ?thesis using found_skip p 2 by auto
  qed
next
  case (3 k c m)
  show ?case
  proof (cases "(p, s) \<in> set (leaves m)")
    case True
    then obtain k' ks where p: "p = k' # ks" "k' \<in> fst ` set m" using leaves_names by (cases p) force+
    have "found (Some (Names m)) p = Some (Text s)" using 3 True by simp
    then show ?thesis using found_skip p 3 by auto
  next
    case False
    then show ?thesis using 3 by auto
  qed
qed simp

lemma found_deepMerge:
  "well_named b \<Longrightarrow> found (Some (Names (deepMerge a b))) ks = Some (Text s) \<longleftrightarrow>
     found (Some (Names b)) ks = Some (Text s) \<or> found (Some (Names a)) ks = Some (Text s) \<and> \<not> shadowed b ks"
proof (induction ks arbitrary: a b)
  case (Cons k ks)
  show ?case
  proof (cases "map_of b k")
    case None
    then have "k \<notin> fst ` set b" by (simp add: map_of_eq_None_iff)
    then show ?thesis by (simp add: None map_of_deepMerge_other)
  next
    case (Some v)
    have m: "map_of (deepMerge a b) k = Some (merged_value (map_of a k) v)"
      using map_of_deepMerge [OF well_named_distinct Some] Cons.prems .
    show ?thesis
    proof (cases v)
      case (Text t)
      then show ?thesis by (simp add: Some m)
    next
      case (Names c)
      have w: "well_named c" using well_named_sub Cons.prems Some Names by blast
      show ?thesis
        using Cons.IH [OF w]
        by (cases "map_of a k"; cases "the (map_of a k)") (auto simp: Some m Names found_Text)
    qed
  qed
qed simp


subsection \<open>Filling placeholders\<close>

datatype piece = Plain jstr | Hole jstr

fun piece_str :: "piece \<Rightarrow> jstr" where
  "piece_str (Plain s) = s"
| "piece_str (Hole n) = 123 # n @ [125]"

text \<open>A message as its author means it: texts without an opening brace, and placeholders.\<close>

fun piece_ok :: "piece \<Rightarrow> bool" where
  "piece_ok (Plain s) = (123 \<notin> set s)"
| "piece_ok (Hole n) = (123 \<notin> set n \<and> 125 \<notin> set n)"

definition printed :: "piece list \<Rightarrow> jstr" where
  "printed ps = concat (map piece_str ps)"

fun filled :: "(jstr \<times> tvar) list \<Rightarrow> piece \<Rightarrow> piece" where
  "filled vs (Plain s) = Plain s"
| "filled vs (Hole n) = (case map_of vs n of Some v \<Rightarrow> Plain (var_str v) | None \<Rightarrow> Hole n)"

lemma substitution_plain: "36 \<notin> set t \<Longrightarrow> substitution before matched after t = t"
  by (induction before matched after t rule: substitution.induct) auto

lemma replace_from_skip:
  "123 \<notin> set s \<Longrightarrow> replace_from (123 # p) rep before (s @ rest) = s @ replace_from (123 # p) rep (before @ s) rest"
proof (induction s arbitrary: before)
  case (Cons c s)
  then show ?case by (subst replace_from.simps) simp
qed simp

lemma hole_match:
  fixes n m rest :: jstr
  assumes "125 \<notin> set n" "125 \<notin> set m" "take (length n + 1) (m @ 125 # rest) = n @ [125]"
  shows "n = m"
proof -
  have "takeWhile (\<lambda>c. c \<noteq> 125) (m @ 125 # rest) = m"
    using assms(2) by (subst takeWhile_append2) auto
  moreover have "m @ 125 # rest = (n @ [125]) @ drop (length n + 1) (m @ 125 # rest)"
    using assms(3) by (metis append_take_drop_id)
  then have "takeWhile (\<lambda>c. c \<noteq> 125) (m @ 125 # rest) = takeWhile (\<lambda>c. c \<noteq> 125) (n @ 125 # drop (length n + 1) (m @ 125 # rest))"
    by simp
  moreover have "takeWhile (\<lambda>c. c \<noteq> 125) (n @ 125 # x) = n" for x
    using assms(1) by (subst takeWhile_append2) auto
  ultimately show ?thesis by simp
qed

lemma replace_hole:
  "replace_from (123 # n @ [125]) rep before (123 # n @ 125 # rest)
     = substitution before (123 # n @ [125]) rest rep
         @ replace_from (123 # n @ [125]) rep (before @ 123 # n @ [125]) rest"
  by (subst replace_from.simps) simp

lemma replace_other_hole:
  assumes "125 \<notin> set n" "125 \<notin> set m" "123 \<notin> set m" "n \<noteq> m"
  shows "replace_from (123 # n @ [125]) rep before (123 # m @ 125 # rest)
    = 123 # m @ 125 # replace_from (123 # n @ [125]) rep (before @ 123 # m @ [125]) rest"
proof -
  have "take (length n + 1) (m @ 125 # rest) \<noteq> n @ [125]" using hole_match assms by blast
  then have "replace_from (123 # n @ [125]) rep before (123 # m @ 125 # rest)
      = 123 # replace_from (123 # n @ [125]) rep (before @ [123]) ((m @ [125]) @ rest)"
    by (subst replace_from.simps) simp
  then show ?thesis using replace_from_skip [of "m @ [125]"] assms by simp
qed

lemma replace_printed:
  assumes n: "125 \<notin> set n" and v: "36 \<notin> set (var_str v)"
  shows "list_all piece_ok ps \<Longrightarrow> replace_from (123 # n @ [125]) (var_str v) before (printed ps)
     = printed (map (filled [(n, v)]) ps)"
proof (induction ps arbitrary: before)
  case Nil
  then show ?case by (simp add: printed_def replace_from.simps)
next
  case (Cons p ps)
  have IH: "replace_from (123 # n @ [125]) (var_str v) b (printed ps) = printed (map (filled [(n, v)]) ps)" for b
    using Cons by simp
  have c: "printed (x # xs) = piece_str x @ printed xs" for x xs by (simp add: printed_def)
  show ?case
  proof (cases p)
    case (Plain s)
    then show ?thesis using Cons.prems by (simp add: c replace_from_skip IH)
  next
    case (Hole m)
    then have m: "123 \<notin> set m" "125 \<notin> set m" using Cons.prems by simp_all
    show ?thesis
    proof (cases "n = m")
      case True
      then show ?thesis using IH [of "before @ 123 # n @ [125]"] v
        by (simp add: c Hole replace_hole substitution_plain)
    next
      case False
      then show ?thesis using replace_other_hole [OF n m(2) m(1) False] by (simp add: c Hole IH)
    qed
  qed
qed

lemma fill_var_printed:
  "125 \<notin> set n \<Longrightarrow> 36 \<notin> set (var_str v) \<Longrightarrow> list_all piece_ok ps \<Longrightarrow>
    fill_var (printed ps) (n, v) = printed (map (filled [(n, v)]) ps)"
  by (simp add: fill_var_def replaceAll_def replace_printed)

lemma filled_one_ok: "piece_ok p \<Longrightarrow> 123 \<notin> set (var_str v) \<Longrightarrow> piece_ok (filled [(n, v)] p)"
  by (cases p) auto

lemma filled_Cons: "filled vs (filled [(n, v)] p) = filled ((n, v) # vs) p"
  by (cases p) auto

lemma fill_vars_printed:
  "list_all piece_ok ps \<Longrightarrow> (\<forall>(n, v) \<in> set vs. 125 \<notin> set n \<and> 36 \<notin> set (var_str v) \<and> 123 \<notin> set (var_str v)) \<Longrightarrow>
    foldl fill_var (printed ps) vs = printed (map (filled vs) ps)"
proof (induction vs arbitrary: ps)
  case Nil
  have "filled [] p = p" for p by (cases p) auto
  then show ?case by (simp cong: map_cong)
next
  case (Cons nv vs)
  obtain n v where nv: "nv = (n, v)" by (cases nv)
  have "list_all piece_ok (map (filled [(n, v)]) ps)"
    using Cons.prems nv filled_one_ok by (auto simp: list_all_iff)
  then show ?case
    using Cons nv by (simp add: fill_var_printed comp_def filled_Cons del: filled.simps)
qed


subsection \<open>Paths\<close>

definition dotted :: "jstr list \<Rightarrow> jstr" where
  "dotted ks = (case ks of [] \<Rightarrow> [] | k # r \<Rightarrow> k @ concat (map (\<lambda>x. 46 # x) r))"

lemma split_on_last: "k \<notin> set s \<Longrightarrow> split_on k s = [s]"
  by (induction s) auto

lemma split_on_cons: "k \<notin> set s \<Longrightarrow> split_on k (s @ k # rest) = s # split_on k rest"
  by (induction s) auto

lemma dotted_Cons2: "dotted (k # k' # ks) = k @ 46 # dotted (k' # ks)"
  by (simp add: dotted_def)

lemma split_on_dotted: "ks \<noteq> [] \<Longrightarrow> \<forall>k \<in> set ks. 46 \<notin> set k \<Longrightarrow> split_on 46 (dotted ks) = ks"
proof (induction ks rule: induct_list012)
  case (3 k k' ks)
  then show ?case by (simp add: dotted_Cons2 split_on_cons)
qed (simp_all add: dotted_def split_on_last)

lemma walk_dotted: "ks \<noteq> [] \<Longrightarrow> \<forall>k \<in> set ks. 46 \<notin> set k \<Longrightarrow> walk obj (dotted ks) = found obj ks"
  by (simp add: walk_def split_on_dotted)

lemma resolve_first:
  "walk (dictionaries gen locale) key = Some (Text s) \<Longrightarrow>
    resolve gen locale key vars = (case vars of None \<Rightarrow> s | Some vs \<Rightarrow> foldl fill_var s vs)"
  by (simp add: resolve_def)


subsection \<open>The frame's texts\<close>

lemmas language_defs = es_def zh_def fr_def de_def ja_def ru_def ar_def hi_def ko_def it_def

fun skeleton :: "messages \<Rightarrow> messages" where
  "skeleton [] = []"
| "skeleton ((k, Text s) # m) = (k, Text []) # skeleton m"
| "skeleton ((k, Names c) # m) = (k, Names (skeleton c)) # skeleton m"

lemma skeleton_keys [simp]: "fst ` set (skeleton m) = fst ` set m"
  by (induction m rule: skeleton.induct) auto

lemma well_named_skeleton: "well_named (skeleton m) = well_named m"
  by (induction m rule: skeleton.induct) auto

lemma map_fst_apfst: "map fst (map (apfst f) xs) = map f (map fst xs)"
  by (induction xs) auto

lemma leaves_skeleton: "map fst (leaves (skeleton m)) = map fst (leaves m)"
  by (induction m rule: skeleton.induct) (simp_all add: map_fst_apfst del: map_map)

lemma same_skeleton:
  "skeleton es = skeleton en" "skeleton zh = skeleton en" "skeleton fr = skeleton en" "skeleton de = skeleton en"
  "skeleton ja = skeleton en" "skeleton ru = skeleton en" "skeleton ar = skeleton en" "skeleton hi = skeleton en"
  "skeleton ko = skeleton en" "skeleton it = skeleton en"
  by (simp_all add: language_defs en_def)

lemma pt_names: "set (map fst (leaves pt)) = set (map fst (leaves en))"
  by (simp add: pt_def en_def insert_commute)

lemma pt_en_named: "well_named pt" "well_named en"
  by (simp_all add: en_def pt_def)

lemma en_no_dots: "list_all (\<lambda>p. list_all (\<lambda>k. 46 \<notin> set k) p) (map fst (leaves en))"
  by (simp add: en_def js_eval)

lemma language_ok:
  assumes "m = pt \<or> skeleton m = skeleton en"
  shows "well_named m \<and> set (map fst (leaves m)) = set (map fst (leaves pt))"
  using assms pt_en_named pt_names
  by (metis well_named_skeleton leaves_skeleton)

lemma languages_ok:
  "list_all (\<lambda>m. m = pt \<or> skeleton m = skeleton en) [pt, en, es, zh, fr, de, ja, ru, ar, hi, ko, it]"
  by (simp add: same_skeleton)

lemma base_facts:
  assumes "(c, m) \<in> set base"
  shows "well_named m \<and> set (map fst (leaves m)) = set (map fst (leaves pt)) \<and> map_of base c = Some m"
proof -
  have "map snd base = [pt, en, es, zh, fr, de, ja, ru, ar, hi, ko, it]" by (simp add: base_def)
  moreover have "m \<in> set (map snd base)" using assms by force
  moreover have "distinct (map fst base)" by (simp add: base_def)
  ultimately show ?thesis using assms languages_ok language_ok [of m]
    by (simp only: list_all_iff map_of_eq_Some_iff simp_thms)
qed

lemma pt_no_dots: "(p, s) \<in> set (leaves pt) \<Longrightarrow> \<forall>k \<in> set p. 46 \<notin> set k"
proof -
  assume "(p, s) \<in> set (leaves pt)"
  then have "p \<in> set (map fst (leaves en))" using pt_names by force
  then show ?thesis using en_no_dots by (auto simp: list_all_iff)
qed


section \<open>Properties\<close>

text \<open>
  A key finds, in the dictionary of a language, the text that the inner screens' object gives it, and
  else the text of the frame, unless the screens' object has a text or an object of its own on the
  way: no text of either is lost by the merge.
\<close>

theorem merged_text:
  assumes "(c, m) \<in> set base" "gen c = Some g" "well_named g"
  shows "walk (dictionaries gen c) key = Some (Text s) \<longleftrightarrow>
    walk (Some (Names g)) key = Some (Text s)
      \<or> walk (Some (Names m)) key = Some (Text s) \<and> \<not> shadowed g (split_on 46 key)"
  using base_facts [OF assms(1)] assms(2,3) by (simp add: dictionaries_def walk_def found_deepMerge)

definition demo_gen :: "jstr \<Rightarrow> messages option" where
  "demo_gen c = Some [(js ''scan'', Names [(js ''title'', Text (js ''Blocks {n}''))])]"

lemma demo_walk: "walk (dictionaries demo_gen (js ''it'')) (js ''scan.title'') = Some (Text (js ''Blocks {n}''))"
  (is "walk ?d ?k = _")
proof -
  have w: "well_named [(js ''scan'', Names [(js ''title'', Text (js ''Blocks {n}''))])]" by simp
  have k: "split_on 46 ?k = [js ''scan'', js ''title'']" by (simp add: js_eval)
  have d: "?d = Some (Names (deepMerge it [(js ''scan'', Names [(js ''title'', Text (js ''Blocks {n}''))])]))"
    by (simp add: dictionaries_def base_def demo_gen_def)
  show ?thesis unfolding d walk_def k by (simp add: found_deepMerge [OF w] del: deepMerge.simps foldl_Cons) simp
qed

theorem merged_text_witness:
  "walk (dictionaries demo_gen (js ''it'')) (js ''scan.title'') = Some (Text (js ''Blocks {n}''))"
proof -
  have k: "split_on 46 (js ''scan.title'') = [js ''scan'', js ''title'']" by (simp add: js_eval)
  show ?thesis
    using merged_text [of "js ''it''" it demo_gen "[(js ''scan'', Names [(js ''title'', Text (js ''Blocks {n}''))])]"
        "js ''scan.title''" "js ''Blocks {n}''"]
    by (simp add: base_def demo_gen_def walk_def k)
qed

text \<open>
  C36. The frame speaks every language: as long as the screens' objects have names of their own, every
  text of the Portuguese object has its counterpart in each of the twelve languages, and looking
  its key up gives that counterpart, never the English or the Portuguese one nor the key.
\<close>

theorem frame_in_every_language:
  assumes "\<And>c g. gen c = Some g \<Longrightarrow> fst ` set g \<inter> fst ` set pt = {}"
    and "(c, m) \<in> set base" "(p, s) \<in> set (leaves pt)"
  shows "\<exists>t. (p, t) \<in> set (leaves m) \<and> resolve gen c (dotted p) None = t"
proof -
  note m = base_facts [OF assms(2)]
  have "p \<in> set (map fst (leaves m))" using m assms(3) by force
  then obtain t where t: "(p, t) \<in> set (leaves m)" by force
  obtain k ks where p: "p = k # ks" "k \<in> fst ` set pt" using leaves_names [OF assms(3)] by (cases p) auto
  define g where "g = (case gen c of None \<Rightarrow> [] | Some g \<Rightarrow> g)"
  have "k \<notin> fst ` set g" using assms(1) [of c] p(2) by (cases "gen c") (auto simp: g_def)
  then have "found (Some (Names (deepMerge m g))) p = found (Some (Names m)) p"
    by (simp add: p(1) map_of_deepMerge_other)
  also have "\<dots> = Some (Text t)" using leaves_found m t by blast
  finally have "walk (dictionaries gen c) (dotted p) = Some (Text t)"
    using m pt_no_dots [OF assms(3)] by (simp add: dictionaries_def g_def walk_dotted p(1))
  then show ?thesis using t by (auto simp: resolve_first)
qed

theorem frame_in_every_language_witness:
  "\<exists>t. ([js ''menu'', js ''d'', js ''api''], t) \<in> set (leaves ko)
     \<and> resolve demo_gen (js ''ko'') (dotted [js ''menu'', js ''d'', js ''api'']) None = t"
proof (rule frame_in_every_language)
  show "fst ` set g \<inter> fst ` set pt = {}" if "demo_gen c = Some g" for c g
    using that by (auto simp: demo_gen_def pt_def)
  show "(js ''ko'', ko) \<in> set base" by (simp add: base_def)
  show "([js ''menu'', js ''d'', js ''api''], js ''Endpoints p'' @ [250] @ js ''blicos do n'' @ [243]) \<in> set (leaves pt)"
    by (simp add: pt_def)
qed

text \<open>
  Filling the placeholders one after the other is filling them all at once: in a message whose braces
  are placeholders, each placeholder with a value is replaced by it and the others stay, in whatever
  order the values are listed, as long as no value has a dollar sign or an opening brace.
\<close>

theorem placeholders_filled_at_once:
  assumes "walk (dictionaries gen locale) key = Some (Text (printed ps))" "list_all piece_ok ps"
    and "\<forall>(n, v) \<in> set vs. 125 \<notin> set n \<and> 36 \<notin> set (var_str v) \<and> 123 \<notin> set (var_str v)"
  shows "resolve gen locale key (Some vs) = printed (map (filled vs) ps)"
  using assms(2,3) by (simp add: resolve_first [OF assms(1)] fill_vars_printed)

theorem placeholders_filled_at_once_witness:
  "resolve demo_gen (js ''it'') (js ''scan.title'') (Some [(js ''n'', StrVar (js ''7''))]) = js ''Blocks 7''"
proof -
  have p: "js ''Blocks {n}'' = printed [Plain (js ''Blocks ''), Hole (js ''n'')]"
    by (simp add: printed_def js_eval)
  show ?thesis
    using placeholders_filled_at_once [of demo_gen "js ''it''" "js ''scan.title''"
        "[Plain (js ''Blocks ''), Hole (js ''n'')]" "[(js ''n'', StrVar (js ''7''))]"] demo_walk
    unfolding p by (simp add: printed_def js_eval)
qed

text \<open>The provisos are needed: \<open>page_token.metaTitle\<close> prints a token's symbol and name.\<close>

lemma token_title_rewritten:
  assumes "walk (dictionaries gen locale) key = Some (Text (js ''{symbol} - {name}''))"
  shows "resolve gen locale key (Some [(js ''symbol'', StrVar (js ''US$$'')), (js ''name'', StrVar (js ''Dollar''))])
      = js ''US$ - Dollar''"
    and "resolve gen locale key (Some [(js ''symbol'', StrVar (js ''{name}'')), (js ''name'', StrVar (js ''Dollar''))])
      = js ''Dollar - Dollar''"
  by (simp_all add: resolve_first [OF assms] fill_var_def replaceAll_def replace_from.simps js_eval)

text \<open>A key without a text comes back as it is, so an empty result never is.\<close>

lemma first_text_none:
  "(\<forall>d \<in> set dicts. \<forall>s. walk d key \<noteq> Some (Text s)) \<Longrightarrow> (\<forall>s. v \<noteq> Some (Text s)) \<Longrightarrow>
    first_text key v dicts \<noteq> Some (Text s)"
  by (induction dicts arbitrary: v) (auto split: option.splits message.splits)

lemma missing_key_shown:
  assumes "\<And>c s. walk (dictionaries gen c) key \<noteq> Some (Text s)"
  shows "resolve gen locale key vars = key"
  using first_text_none [of "[dictionaries gen locale, dictionaries gen (js ''en''), dictionaries gen (js ''pt'')]" key None] assms
  by (auto simp: resolve_def split: option.splits message.splits)

lemma unknown_severity_shows_key:
  assumes "\<And>c s. walk (dictionaries gen c) (js ''secSentinel.sev.'' @ sev) \<noteq> Some (Text s)"
  shows "severity_label (makeT gen locale) sev = js ''secSentinel.sev.'' @ sev"
  by (simp add: severity_label_def makeT_def missing_key_shown [OF assms])

lemma getLocale_ok: "isLocale (getLocale c)"
  by (auto simp: getLocale_def isLocale_def LOCALES_def DEFAULT_LOCALE_def split: option.splits)

lemma setLocale_page: "shown_page (setLocale nxt cw st w) = page_in nxt"
  by (simp add: setLocale_def page_in_def Let_def split: cookie_write.splits)

lemma i18n_step_page:
  "i18n_step w v \<Longrightarrow> shown_page w = page_in l \<and> isLocale l \<Longrightarrow> \<exists>l. shown_page v = page_in l \<and> isLocale l"
  by (induction rule: i18n_step.induct) (auto simp: setLocale_page load_page_def getLocale_ok)

lemma i18n_reach_page: "i18n_reach w v \<Longrightarrow> \<exists>l. shown_page v = page_in l \<and> isLocale l"
proof (induction rule: i18n_reach.induct)
  case (start w)
  then show ?case by (auto simp: load_page_def getLocale_ok)
next
  case (step w v v')
  then show ?case using i18n_step_page by blast
qed

text \<open>
  Whatever is chosen, reloaded or written to the cookie elsewhere, the page is in one of the twelve
  languages, and the document says the same language and its writing direction; and a choice whose
  cookie was kept outlives a reload: the page that comes back is the one that was left.
\<close>

theorem page_language:
  assumes "i18n_reach w v"
  shows "(\<exists>l. isLocale l \<and> shown_page v = \<lparr>pg_locale = l, pg_lang = l, pg_dir = dirOf l\<rparr>)
    \<and> (isLocale nxt \<longrightarrow> load_page (setLocale nxt Kept storage v) = setLocale nxt Kept storage v)"
proof -
  have "load_page (setLocale nxt Kept storage v) = setLocale nxt Kept storage v" if "isLocale nxt"
    using that by (simp add: load_page_def setLocale_def page_in_def getLocale_def Let_def)
  then show ?thesis using i18n_reach_page [OF assms] by (auto simp: page_in_def)
qed

definition demo_world :: i18n_world where
  "demo_world = \<lparr>shown_page = page_in (js ''en''), cookie = Some (js ''xx''), stored = None\<rparr>"

theorem page_language_witness:
  "pg_dir (shown_page (setLocale (js ''ar'') Kept True (load_page demo_world))) = js ''rtl''
    \<and> load_page (setLocale (js ''ar'') Kept True (load_page demo_world))
        = setLocale (js ''ar'') Kept True (load_page demo_world)"
proof -
  have a: "isLocale (js ''ar'')" by (simp add: isLocale_def LOCALES_def)
  have r: "i18n_reach demo_world (load_page demo_world)" by (rule i18n_reach.start)
  have "load_page (setLocale (js ''ar'') Kept True (load_page demo_world))
      = setLocale (js ''ar'') Kept True (load_page demo_world)"
    using page_language [OF r, of "js ''ar''" True] a by blast
  then show ?thesis by (simp add: setLocale_page page_in_def dirOf_def LOCALES_def)
qed

end
