(* ===== verification/Validators.thy ===== *)
theory Validators
  imports StakePanel ApiTypes "HOL-Library.Multiset"
begin

section \<open>The lists of validators and of tokens\<close>

text \<open>
  \<open>components/scan/lists/validators-list.tsx\<close> and \<open>tokens-list.tsx\<close>, and the older screen
  \<open>components/validators/validators-live.tsx\<close>, which orders the validators by the same rule.

  \<open>Array.prototype.sort\<close> calls the comparator in an order of its own choice and keeps the order of
  elements that compare equal; here it is an insertion from the right, whose result is the one of
  every stable sort when the comparator is consistent, which is proved. The comparator may throw:
  \<open>BigInt\<close> refuses a weight that is not a number. \<open>localeCompare\<close> is the argument \<open>lc\<close>; the laws
  that \<open>collation\<close> asks of it are the standard's (a total order on the strings it tells apart).
\<close>

subsection \<open>Sorting with a comparator\<close>

fun insert_by :: "('a \<Rightarrow> 'a \<Rightarrow> jsnum res) \<Rightarrow> 'a \<Rightarrow> 'a list \<Rightarrow> 'a list res" where
  "insert_by cmp x [] = Inr [x]"
| "insert_by cmp x (y # ys) = bind_res (cmp x y) (\<lambda>v.
     if num_lt (Num 0) v then bind_res (insert_by cmp x ys) (\<lambda>r. Inr (y # r)) else Inr (x # y # ys))"

fun js_sort :: "('a \<Rightarrow> 'a \<Rightarrow> jsnum res) \<Rightarrow> 'a list \<Rightarrow> 'a list res" where
  "js_sort cmp [] = Inr []"
| "js_sort cmp (x # xs) = bind_res (js_sort cmp xs) (insert_by cmp x)"


subsection \<open>The order of the validators\<close>

definition pesoDe :: "validator \<Rightarrow> int res" where
  "pesoDe v = bind_res (big_of_str (vl_staked v)) (\<lambda>s.
     bind_res (big_of_str (case vl_votes v of None \<Rightarrow> js ''0'' | Some n \<Rightarrow> n)) (\<lambda>n. Inr (s + n)))"

definition porPeso :: "(jstr \<Rightarrow> jstr \<Rightarrow> int) \<Rightarrow> validator \<Rightarrow> validator \<Rightarrow> jsnum res" where
  "porPeso lc a b = bind_res (pesoDe a) (\<lambda>pa. bind_res (pesoDe b) (\<lambda>pb. Inr
     (if pa < pb then Num 1 else if pb < pa then Num (- 1)
      else Num (of_int (lc (vl_address a) (vl_address b))))))"

definition porAncoraDepoisPeso :: "(jstr \<Rightarrow> jstr \<Rightarrow> int) \<Rightarrow> validator \<Rightarrow> validator \<Rightarrow> jsnum res" where
  "porAncoraDepoisPeso lc a b = (case (ancoraIndex (vl_name a), ancoraIndex (vl_name b)) of
       (Some ia, Some ib) \<Rightarrow> if ia \<noteq> ib \<or> ia = NaN then Inr (num_sub ia ib) else porPeso lc a b
     | (Some _, None) \<Rightarrow> Inr (Num (- 1))
     | (None, Some _) \<Rightarrow> Inr (Num 1)
     | (None, None) \<Rightarrow> porPeso lc a b)"

datatype aba = ActiveTab | BankTab

definition aba_of :: "jstr option \<Rightarrow> aba" where
  "aba_of tab = (if tab = Some (js ''bank'') then BankTab else ActiveTab)"

definition total_of :: "('a \<Rightarrow> int res) \<Rightarrow> 'a list \<Rightarrow> int res" where
  "total_of f xs = foldl (\<lambda>acc x. bind_res acc (\<lambda>a. bind_res (f x) (\<lambda>p. Inr (a + p)))) (Inr 0) xs"

definition perf_by_address :: "validators \<Rightarrow> jstr \<Rightarrow> validator_perf option" where
  "perf_by_address v = map_of (rev (map (\<lambda>p. (vp_address p, p))
     (case vs_performance v of None \<Rightarrow> [] | Some ps \<Rightarrow> ps)))"

definition peso_pct :: "int \<Rightarrow> int \<Rightarrow> jsnum" where
  "peso_pct peso tot = (if 0 < tot then num_div (num_of_int (big_div (peso * 10000) tot)) (Num 100) else Num 0)"

definition taxaStake :: "status option \<Rightarrow> int \<Rightarrow> jstr res" where
  "taxaStake st tot = bind_res (case st of None \<Rightarrow> Inr 0
       | Some s \<Rightarrow> big_of_str (if st_circulating s = [] then js ''0'' else st_circulating s)) (\<lambda>circulante.
     Inr (if 0 < circulante then num (num_div (num_of_int (big_div (tot * 10000) circulante)) (Num 100)) @ js ''%''
          else [8212]))"

datatype selo = Producing | Standby | Health validator_health jsnum | ActiveMark

record validator_row =
  vr_validator :: validator
  vr_posicao :: int
  vr_selo :: selo
  vr_pct :: jstr
  vr_perf :: "validator_perf option"

record validator_screen =
  vc_ativos :: "validator list"
  vc_banco :: "validator list"
  vc_pesoTotal :: int
  vc_produtor :: jstr
  vc_taxa :: jstr
  vc_colunas :: nat
  vc_rows :: "validator_row list"

definition validator_row_of ::
    "validators \<Rightarrow> aba \<Rightarrow> jstr \<Rightarrow> int \<Rightarrow> nat \<times> validator \<Rightarrow> validator_row res" where
  "validator_row_of v aba produtor tot ix = (case ix of (i, x) \<Rightarrow>
     bind_res (pesoDe x) (\<lambda>peso.
       let perf = perf_by_address v (vl_address x); standby = (aba = BankTab) in
       Inr \<lparr>vr_validator = x,
         vr_posicao = (if aba = ActiveTab then int i + 1 else vs_maxValidators v + int i + 1),
         vr_selo = (if aba = ActiveTab \<and> vl_address x = produtor then Producing else if standby then Standby
           else case perf of Some p \<Rightarrow> Health (vp_status p) (vp_score p) | None \<Rightarrow> ActiveMark),
         vr_pct = (if standby then [8212] else num (peso_pct peso tot) @ js ''%''),
         vr_perf = perf\<rparr>))"

fun map_res :: "('a \<Rightarrow> 'b res) \<Rightarrow> 'a list \<Rightarrow> 'b list res" where
  "map_res f [] = Inr []"
| "map_res f (x # xs) = bind_res (f x) (\<lambda>y. bind_res (map_res f xs) (\<lambda>ys. Inr (y # ys)))"

definition validatorsList ::
    "(jstr \<Rightarrow> jstr \<Rightarrow> int) \<Rightarrow> jstr option \<Rightarrow> validators \<Rightarrow> status option \<Rightarrow> validator_screen res" where
  "validatorsList lc tab v st =
    bind_res (js_sort (porAncoraDepoisPeso lc) (vs_current v)) (\<lambda>ativos.
    bind_res (js_sort (porAncoraDepoisPeso lc) (case vs_bank v of None \<Rightarrow> [] | Some b \<Rightarrow> b)) (\<lambda>banco.
    bind_res (total_of pesoDe ativos) (\<lambda>pesoTotal.
    bind_res (taxaStake st pesoTotal) (\<lambda>taxa.
      let aba = aba_of tab;
          lista = (if aba = ActiveTab then ativos else banco);
          produtor = (case st of Some s \<Rightarrow> st_producer s | None \<Rightarrow> vs_slotProducer v);
          temPerf = (aba = ActiveTab \<and> (case vs_performance v of None \<Rightarrow> False | Some ps \<Rightarrow> ps \<noteq> []))
      in bind_res (map_res (validator_row_of v aba produtor pesoTotal) (enumerate 0 lista)) (\<lambda>rows.
        Inr \<lparr>vc_ativos = ativos, vc_banco = banco, vc_pesoTotal = pesoTotal, vc_produtor = produtor,
          vc_taxa = taxa, vc_colunas = (if temPerf then 8 else 6), vc_rows = rows\<rparr>)))))"


subsection \<open>The older screen\<close>

record live_screen =
  lv_sorted :: "validator list"
  lv_totalStaked :: int
  lv_totalWeight :: int
  lv_maxWeight :: int

definition max_weight :: "validator list \<Rightarrow> int res" where
  "max_weight xs = foldl (\<lambda>m x. bind_res m (\<lambda>a. bind_res (pesoDe x) (\<lambda>w. Inr (if a < w then w else a)))) (Inr 0) xs"

definition validatorsLive :: "(jstr \<Rightarrow> jstr \<Rightarrow> int) \<Rightarrow> validators \<Rightarrow> live_screen res" where
  "validatorsLive lc v =
    bind_res (js_sort (porAncoraDepoisPeso lc) (vs_current v)) (\<lambda>sorted_list.
    bind_res (total_of (\<lambda>x. big_of_str (vl_staked x)) (vs_current v)) (\<lambda>staked.
    bind_res (total_of pesoDe (vs_current v)) (\<lambda>weight.
    bind_res (max_weight (vs_current v)) (\<lambda>mx.
      Inr \<lparr>lv_sorted = sorted_list, lv_totalStaked = staked, lv_totalWeight = weight, lv_maxWeight = mx\<rparr>))))"

definition live_share :: "int \<Rightarrow> int \<Rightarrow> jsnum" where
  "live_share weight tot = (if 0 < tot then num_div (num_of_int (big_div (weight * 1000) tot)) (Num 10) else Num 0)"

definition barPct :: "int \<Rightarrow> int \<Rightarrow> jsnum" where
  "barPct weight mx = (if 0 < mx then num_of_int (big_div (weight * 100) mx) else Num 0)"


subsection \<open>The tokens\<close>

definition num_or_zero :: "jsnum \<Rightarrow> jsnum" where
  "num_or_zero n = (if n = NaN then Num 0 else n)"

definition totalHolders :: "token_summary list \<Rightarrow> jsnum" where
  "totalHolders tokens = foldl (\<lambda>s x. num_add s (num_of_int (tk_holders x))) (Num 0) tokens"

definition totalSupply :: "token_summary list \<Rightarrow> jsnum" where
  "totalSupply tokens = foldl (\<lambda>s x. num_add s (num_or_zero (num_of_str (tk_totalSupply x)))) (Num 0) tokens"

definition statsSupply :: "token_summary list \<Rightarrow> jstr" where
  "statsSupply tokens = numCompact (totalSupply tokens)"

definition supply_cell :: "token_summary \<Rightarrow> jstr" where
  "supply_cell k = fmtToken (BStr (tk_totalSupply k)) (nat (tk_decimals k)) @ js '' '' @ tk_symbol k"


section \<open>Lemmas\<close>

subsection \<open>Consistent comparators\<close>

definition not_after :: "('a \<Rightarrow> 'a \<Rightarrow> jsnum res) \<Rightarrow> 'a \<Rightarrow> 'a \<Rightarrow> bool" where
  "not_after cmp a b \<longleftrightarrow> (\<exists>v. cmp a b = Inr v \<and> \<not> num_lt (Num 0) v)"

text \<open>What a sort asks of its comparator, on the values where it does not throw.\<close>

locale js_compare =
  fixes cmp :: "'a \<Rightarrow> 'a \<Rightarrow> jsnum res" and ok :: "'a \<Rightarrow> bool"
  assumes returns: "ok a \<Longrightarrow> ok b \<Longrightarrow> \<exists>v. cmp a b = Inr v"
    and total_order: "ok a \<Longrightarrow> ok b \<Longrightarrow> not_after cmp a b \<or> not_after cmp b a"
    and transitive: "ok a \<Longrightarrow> ok b \<Longrightarrow> ok c \<Longrightarrow> not_after cmp a b \<Longrightarrow> not_after cmp b c \<Longrightarrow> not_after cmp a c"
begin

lemma insert_by_sorted:
  "ok x \<Longrightarrow> list_all ok ys \<Longrightarrow> sorted_wrt (not_after cmp) ys \<Longrightarrow>
    \<exists>zs. insert_by cmp x ys = Inr zs \<and> mset zs = add_mset x (mset ys) \<and> sorted_wrt (not_after cmp) zs"
proof (induction ys)
  case (Cons y ys)
  obtain v where v: "cmp x y = Inr v" using returns [of x y] Cons.prems by auto
  show ?case
  proof (cases "num_lt (Num 0) v")
    case True
    then have yx: "not_after cmp y x" using total_order [of x y] Cons.prems v by (auto simp: not_after_def)
    obtain zs where zs: "insert_by cmp x ys = Inr zs" "mset zs = add_mset x (mset ys)" "sorted_wrt (not_after cmp) zs"
      using Cons by auto
    have "set zs = insert x (set ys)" using zs(2) by (metis set_mset_mset set_mset_add_mset_insert)
    then show ?thesis using True v zs yx Cons.prems by auto
  next
    case False
    then have xy: "not_after cmp x y" using v by (auto simp: not_after_def)
    have "not_after cmp x z" if "z \<in> set ys" for z
      using transitive [OF _ _ _ xy, of z] that Cons.prems by (auto simp: list_all_iff)
    then show ?thesis using False v xy Cons.prems by auto
  qed
qed simp

lemma js_sort_sorted:
  "list_all ok xs \<Longrightarrow> \<exists>zs. js_sort cmp xs = Inr zs \<and> mset zs = mset xs \<and> sorted_wrt (not_after cmp) zs"
proof (induction xs)
  case (Cons x xs)
  then obtain zs where zs: "js_sort cmp xs = Inr zs" "mset zs = mset xs" "sorted_wrt (not_after cmp) zs" by auto
  have "list_all ok zs" using Cons.prems mset_eq_setD [OF zs(2)] by (auto simp: list_all_iff)
  then show ?case using insert_by_sorted [of x zs] Cons.prems zs by auto
qed simp

text \<open>Where no two values tie, the result does not depend on the order they come in.\<close>

lemma sorted_unique:
  "mset xs = mset ys \<Longrightarrow> sorted_wrt (not_after cmp) xs \<Longrightarrow> sorted_wrt (not_after cmp) ys \<Longrightarrow>
   (\<And>a b. a \<in> set xs \<Longrightarrow> b \<in> set xs \<Longrightarrow> not_after cmp a b \<Longrightarrow> not_after cmp b a \<Longrightarrow> a = b) \<Longrightarrow> xs = ys"
proof (induction xs arbitrary: ys)
  case (Cons x xs)
  then obtain y ys' where ys: "ys = y # ys'" by (cases ys) auto
  have s: "set (x # xs) = set (y # ys')" using mset_eq_setD [OF Cons.prems(1)] ys by simp
  have "x = y"
  proof (rule ccontr)
    assume ne: "x \<noteq> y"
    then have "y \<in> set xs" "x \<in> set ys'" using s by auto
    then have "not_after cmp x y" "not_after cmp y x" using Cons.prems(2,3) ys by auto
    then show False using Cons.prems(4) [of x y] \<open>y \<in> set xs\<close> ne by auto
  qed
  moreover have "xs = ys'"
    using Cons.prems ys \<open>x = y\<close> by (intro Cons.IH) auto
  ultimately show ?case using ys by simp
qed simp

lemma js_sort_permuted:
  assumes "list_all ok xs" "mset xs = mset ys"
    and "\<And>a b. a \<in> set xs \<Longrightarrow> b \<in> set xs \<Longrightarrow> not_after cmp a b \<Longrightarrow> not_after cmp b a \<Longrightarrow> a = b"
  shows "js_sort cmp xs = js_sort cmp ys"
proof -
  have "list_all ok ys" using assms(1) mset_eq_setD [OF assms(2)] by (simp add: list_all_iff)
  then obtain zs zs' where z: "js_sort cmp xs = Inr zs" "mset zs = mset xs" "sorted_wrt (not_after cmp) zs"
      "js_sort cmp ys = Inr zs'" "mset zs' = mset ys" "sorted_wrt (not_after cmp) zs'"
    using js_sort_sorted assms(1) by blast
  have "set zs = set xs" using mset_eq_setD [OF z(2)] .
  then have "zs = zs'" using sorted_unique [of zs zs'] z assms(2,3) by auto
  then show ?thesis using z by simp
qed

end


subsection \<open>Collation\<close>

locale collation =
  fixes lc :: "jstr \<Rightarrow> jstr \<Rightarrow> int"
  assumes sign: "0 < lc a b \<longleftrightarrow> lc b a < 0"
    and trans_le: "lc a b \<le> 0 \<Longrightarrow> lc b c \<le> 0 \<Longrightarrow> lc a c \<le> 0"
begin

lemma le_total: "lc a b \<le> 0 \<or> lc b a \<le> 0"
  using sign [of a b] by auto

lemma tie_sym: "lc a b \<le> 0 \<Longrightarrow> lc b a \<le> 0 \<Longrightarrow> lc a b = 0"
  using sign [of a b] sign [of b a] by auto

end

text \<open>The order of the code units is one: on the digits and capitals of an address it is the collation.\<close>

fun lex_cmp :: "jstr \<Rightarrow> jstr \<Rightarrow> int" where
  "lex_cmp [] [] = 0"
| "lex_cmp [] (y # ys) = - 1"
| "lex_cmp (x # xs) [] = 1"
| "lex_cmp (x # xs) (y # ys) = (if x < y then - 1 else if y < x then 1 else lex_cmp xs ys)"

lemma lex_cmp_sign: "0 < lex_cmp a b \<longleftrightarrow> lex_cmp b a < 0"
  by (induction a b rule: lex_cmp.induct) auto

lemma lex_cmp_le_Cons:
  "lex_cmp (x # xs) (y # ys) \<le> 0 \<longleftrightarrow> x < y \<or> x = y \<and> lex_cmp xs ys \<le> 0"
  by simp

lemma lex_cmp_trans: "lex_cmp a b \<le> 0 \<Longrightarrow> lex_cmp b c \<le> 0 \<Longrightarrow> lex_cmp a c \<le> 0"
proof (induction a arbitrary: b c)
  case Nil
  then show ?case by (cases c) simp_all
next
  case (Cons x xs)
  then obtain y ys where b: "b = y # ys" by (cases b) auto
  then obtain z zs where c: "c = z # zs" using Cons.prems by (cases c) auto
  show ?case using Cons unfolding b c lex_cmp_le_Cons by fastforce
qed

lemma lex_cmp_eq: "lex_cmp a b = 0 \<longleftrightarrow> a = b"
  by (induction a b rule: lex_cmp.induct) auto

interpretation code_units: collation lex_cmp
  by unfold_locales (rule lex_cmp_sign, rule lex_cmp_trans)


subsection \<open>Differences of numbers\<close>

lemma f64_tiny:
  assumes "is_f64 v"
  shows "\<exists>k::int. v = of_int k * 2 powi (- 1074)"
proof -
  obtain m e :: int where v: "v = of_int m * 2 powi e" "- 1074 \<le> e" using assms by (auto simp: is_f64_def)
  have "(2::rat) powi e = of_int (2 ^ nat (e + 1074)) * 2 powi (- 1074)"
    using powi_int_quotient [OF v(2)] by (simp add: divide_eq_eq)
  then have "v = of_int (m * 2 ^ nat (e + 1074)) * 2 powi (- 1074)" by (simp add: v(1))
  then show ?thesis by blast
qed

lemma fl_positive:
  assumes "is_f64 a" "is_f64 b" "b < a"
  shows "0 < fl (a - b)"
proof -
  obtain k l :: int where kl: "a = of_int k * 2 powi (- 1074)" "b = of_int l * 2 powi (- 1074)"
    using f64_tiny assms(1,2) by metis
  have p: "(0::rat) < 2 powi (- 1074)" by simp
  have "l < k" using assms(3) p unfolding kl by (simp add: mult_less_cancel_right)
  then have "(1::rat) \<le> of_int (k - l)" by simp
  then have "1 * 2 powi (- 1074) \<le> (of_int (k - l) :: rat) * 2 powi (- 1074)"
    by (intro mult_right_mono) simp_all
  then have "2 powi (- 1074) \<le> a - b" unfolding kl by (simp add: left_diff_distrib)
  moreover have "is_f64 (2 powi (- 1074))"
    unfolding is_f64_def by (intro exI [of _ 1] exI [of _ "- 1074"]) simp
  ultimately have "2 powi (- 1074) \<le> fl (a - b)" by (rule fl_ge_f64)
  then show ?thesis using p by linarith
qed

lemma overflow_sign: "num_lt (Num 0) (overflow q) \<longleftrightarrow> 0 < q"
proof -
  have "(0::rat) < 2 ^ 1024" by simp
  then show ?thesis by (auto simp: overflow_def)
qed

lemma num_sub_sign:
  assumes "num_wf i" "num_wf j" "i \<noteq> NaN" "j \<noteq> NaN" "i \<noteq> j"
  shows "num_lt (Num 0) (num_sub i j) \<longleftrightarrow> num_lt j i"
proof (cases i; cases j)
  fix a b
  assume n: "i = Num a" "j = Num b"
  have "0 < fl (a - b) \<longleftrightarrow> b < a"
    using fl_positive [of a b] fl_positive [of b a] fl_minus [of "b - a"] assms n by force
  then show ?thesis by (simp add: n num_sub_def to_num_def overflow_sign)
qed (use assms in \<open>simp_all add: num_sub_def\<close>)


subsection \<open>The validators' order is consistent\<close>

definition readable :: "validator \<Rightarrow> bool" where
  "readable v \<longleftrightarrow> (\<exists>p. pesoDe v = Inr p)"

definition peso :: "validator \<Rightarrow> int" where
  "peso v = (case pesoDe v of Inr p \<Rightarrow> p | Inl e \<Rightarrow> 0)"

text \<open>Who stands before whom: the rule in words, with no comparator in it.\<close>

definition weightier :: "(jstr \<Rightarrow> jstr \<Rightarrow> int) \<Rightarrow> validator \<Rightarrow> validator \<Rightarrow> bool" where
  "weightier lc a b \<longleftrightarrow> peso b < peso a \<or> peso a = peso b \<and> lc (vl_address a) (vl_address b) \<le> 0"

definition listed_before :: "(jstr \<Rightarrow> jstr \<Rightarrow> int) \<Rightarrow> validator \<Rightarrow> validator \<Rightarrow> bool" where
  "listed_before lc a b \<longleftrightarrow> (case (ancoraIndex (vl_name a), ancoraIndex (vl_name b)) of
       (Some i, Some j) \<Rightarrow> num_lt i j \<or> i = j \<and> weightier lc a b
     | (Some i, None) \<Rightarrow> True
     | (None, Some j) \<Rightarrow> False
     | (None, None) \<Rightarrow> weightier lc a b)"

lemma readable_peso: "readable v \<Longrightarrow> pesoDe v = Inr (peso v)"
  by (auto simp: readable_def peso_def)

lemma digits_number:
  assumes "is_digits w"
  shows "num_of_str w = to_num (of_nat (undec w))"
proof -
  have "num_of_str w = num_of_lit (udec_lit w)"
    using number_text [of w "[]"] assms by (simp add: trim_digits is_digits_def)
  also have "udec_lit w = Some (of_nat (undec w))"
    using assms by (simp add: udec_lit_def is_digits_def takeWhile_digits dropWhile_digits exp_part_def)
  finally show ?thesis by (simp add: num_of_lit_def)
qed

lemma ancora_number:
  assumes "ancoraIndex n = Some i"
  shows "num_wf i \<and> i \<noteq> NaN"
proof -
  obtain w where "is_digits w" "i = num_of_str w"
    using assms by (auto simp: ancoraIndex_def ancora_match_def Let_def split: option.splits if_splits)
  then show ?thesis by (simp add: digits_number)
qed

lemma num_lt_trans: "num_lt a b \<Longrightarrow> num_lt b c \<Longrightarrow> num_lt a c"
  by (cases a; cases b; cases c) auto

lemma num_lt_irrefl: "\<not> num_lt a a"
  by (cases a) auto

lemma num_lt_linear: "a \<noteq> NaN \<Longrightarrow> b \<noteq> NaN \<Longrightarrow> num_lt a b \<or> a = b \<or> num_lt b a"
  by (cases a; cases b) auto

lemma porPeso_before:
  "readable a \<Longrightarrow> readable b \<Longrightarrow> not_after (porPeso lc) a b \<longleftrightarrow> weightier lc a b"
  by (auto simp: not_after_def porPeso_def readable_peso weightier_def)

lemma porPeso_returns: "readable a \<Longrightarrow> readable b \<Longrightarrow> \<exists>v. porPeso lc a b = Inr v"
  by (simp add: porPeso_def readable_peso)

lemma ancora_before:
  assumes "readable a" "readable b"
  shows "not_after (porAncoraDepoisPeso lc) a b \<longleftrightarrow> listed_before lc a b"
proof (cases "ancoraIndex (vl_name a)"; cases "ancoraIndex (vl_name b)")
  fix i j
  assume ij: "ancoraIndex (vl_name a) = Some i" "ancoraIndex (vl_name b) = Some j"
  have w: "num_wf i" "i \<noteq> NaN" "num_wf j" "j \<noteq> NaN" using ancora_number ij by blast+
  show ?thesis
  proof (cases "i = j")
    case True
    then show ?thesis using porPeso_before [OF assms] ij w
      by (simp add: not_after_def porAncoraDepoisPeso_def listed_before_def num_lt_irrefl)
  next
    case False
    then have "\<not> num_lt (Num 0) (num_sub i j) \<longleftrightarrow> num_lt i j"
      using num_sub_sign [OF w(1,3,2,4) False] num_lt_linear [OF w(2,4)] num_lt_trans num_lt_irrefl by metis
    then show ?thesis using False ij by (simp add: not_after_def porAncoraDepoisPeso_def listed_before_def)
  qed
qed (use porPeso_before [OF assms, of lc] in
  \<open>simp_all add: not_after_def porAncoraDepoisPeso_def listed_before_def\<close>)

lemma weightier_total: "collation lc \<Longrightarrow> weightier lc a b \<or> weightier lc b a"
  using collation.le_total [of lc "vl_address a" "vl_address b"] by (auto simp: weightier_def)

lemma weightier_trans: "collation lc \<Longrightarrow> weightier lc a b \<Longrightarrow> weightier lc b c \<Longrightarrow> weightier lc a c"
  using collation.trans_le [of lc "vl_address a" "vl_address b" "vl_address c"] by (auto simp: weightier_def)

lemma listed_total: "collation lc \<Longrightarrow> listed_before lc a b \<or> listed_before lc b a"
  using weightier_total [of lc a b] ancora_number [of "vl_name a"] ancora_number [of "vl_name b"] num_lt_linear
  by (auto simp: listed_before_def split: option.split)

lemma listed_trans:
  assumes "collation lc" "listed_before lc a b" "listed_before lc b c"
  shows "listed_before lc a c"
  using assms weightier_trans [of lc a b c] num_lt_trans
  by (auto simp: listed_before_def split: option.splits)

lemma porAncora_compare:
  assumes "collation lc"
  shows "js_compare (porAncoraDepoisPeso lc) readable"
proof
  show "\<exists>v. porAncoraDepoisPeso lc a b = Inr v" if "readable a" "readable b" for a b
    using porPeso_returns [OF that] by (simp add: porAncoraDepoisPeso_def split: option.split)
  show "not_after (porAncoraDepoisPeso lc) a b \<or> not_after (porAncoraDepoisPeso lc) b a"
    if "readable a" "readable b" for a b
    using that listed_total [OF assms] by (simp add: ancora_before)
  show "not_after (porAncoraDepoisPeso lc) a c"
    if "readable a" "readable b" "readable c" "not_after (porAncoraDepoisPeso lc) a b"
      "not_after (porAncoraDepoisPeso lc) b c" for a b c
    using that listed_trans [OF assms] by (simp add: ancora_before)
qed

interpretation by_code_units: js_compare "porAncoraDepoisPeso lex_cmp" readable
  by (rule porAncora_compare) (rule code_units.collation_axioms)

lemma validators_sorted:
  assumes "collation lc" "list_all readable xs"
  shows "\<exists>ys. js_sort (porAncoraDepoisPeso lc) xs = Inr ys \<and> mset ys = mset xs \<and> sorted_wrt (listed_before lc) ys"
proof -
  obtain ys where y: "js_sort (porAncoraDepoisPeso lc) xs = Inr ys" "mset ys = mset xs"
      "sorted_wrt (not_after (porAncoraDepoisPeso lc)) ys"
    using js_compare.js_sort_sorted [OF porAncora_compare [OF assms(1)] assms(2)] by blast
  have r: "readable a" if "a \<in> set ys" for a
    using that assms(2) mset_eq_setD [OF y(2)] by (simp add: list_all_iff)
  have "sorted_wrt (listed_before lc) ys"
    using sorted_wrt_mono_rel [OF _ y(3)] r ancora_before by blast
  then show ?thesis using y by blast
qed

lemma validators_permuted:
  assumes "collation lc" "list_all readable xs" "mset xs = mset ys"
    and "\<And>a b. a \<in> set xs \<Longrightarrow> b \<in> set xs \<Longrightarrow> lc (vl_address a) (vl_address b) = 0 \<Longrightarrow> a = b"
  shows "js_sort (porAncoraDepoisPeso lc) xs = js_sort (porAncoraDepoisPeso lc) ys"
proof (rule js_compare.js_sort_permuted [OF porAncora_compare [OF assms(1)] assms(2,3)])
  fix a b
  assume ab: "a \<in> set xs" "b \<in> set xs" "not_after (porAncoraDepoisPeso lc) a b" "not_after (porAncoraDepoisPeso lc) b a"
  then have "listed_before lc a b" "listed_before lc b a"
    using assms(2) by (simp_all add: list_all_iff ancora_before)
  then have "weightier lc a b \<and> weightier lc b a"
    using num_lt_trans num_lt_irrefl by (auto simp: listed_before_def split: option.splits)
  then have "lc (vl_address a) (vl_address b) = 0"
    using collation.tie_sym [OF assms(1)] by (auto simp: weightier_def)
  then show "a = b" using assms(4) ab by blast
qed


subsection \<open>Totals, rows and shares\<close>

lemma total_of_from:
  "list_all (\<lambda>x. f x = Inr (g x)) xs \<Longrightarrow>
    foldl (\<lambda>acc x. bind_res acc (\<lambda>a. bind_res (f x) (\<lambda>p. Inr (a + p)))) (Inr a) xs = Inr (a + sum_list (map g xs))"
  by (induction xs arbitrary: a) (simp_all add: add.assoc)

lemma total_of_reads: "list_all (\<lambda>x. f x = Inr (g x)) xs \<Longrightarrow> total_of f xs = Inr (sum_list (map g xs))"
  by (simp add: total_of_def total_of_from)

lemma total_weight: "list_all readable xs \<Longrightarrow> total_of pesoDe xs = Inr (sum_list (map peso xs))"
  by (rule total_of_reads) (simp add: list_all_iff readable_peso)

lemma map_res_reads: "list_all (\<lambda>x. f x = Inr (g x)) xs \<Longrightarrow> map_res f xs = Inr (map g xs)"
  by (induction xs) simp_all

definition row_at :: "validators \<Rightarrow> aba \<Rightarrow> jstr \<Rightarrow> int \<Rightarrow> nat \<times> validator \<Rightarrow> validator_row" where
  "row_at v ab produtor tot ix = projr (validator_row_of v ab produtor tot ix)"

lemma row_reads: "readable (snd ix) \<Longrightarrow> validator_row_of v ab produtor tot ix = Inr (row_at v ab produtor tot ix)"
  by (cases ix) (simp add: row_at_def validator_row_of_def readable_peso Let_def)

lemma row_pct:
  "readable (snd ix) \<Longrightarrow> vr_pct (row_at v ActiveTab produtor tot ix) = num (peso_pct (peso (snd ix)) tot) @ js ''%''"
  by (cases ix) (simp add: row_at_def validator_row_of_def readable_peso Let_def)

lemma row_validator: "readable (snd ix) \<Longrightarrow> vr_validator (row_at v ab produtor tot ix) = snd ix"
  by (cases ix) (simp add: row_at_def validator_row_of_def readable_peso Let_def)

lemma rows_read:
  "list_all readable xs \<Longrightarrow>
    map_res (validator_row_of v ab produtor tot) (enumerate n xs) = Inr (map (row_at v ab produtor tot) (enumerate n xs))"
  by (rule map_res_reads) (auto simp: list_all_iff row_reads in_set_enumerate_eq)

definition circulating_reads :: "status option \<Rightarrow> bool" where
  "circulating_reads st \<longleftrightarrow> (case st of None \<Rightarrow> True | Some s \<Rightarrow> \<exists>c. big_of_str (st_circulating s) = Inr c)"

lemma zero_reads: "big_of_str (js ''0'') = Inr 0"
  by (simp add: big_of_str_digits js_eval is_digits_def is_digit_def of_base_def)

lemma taxa_returns: "circulating_reads st \<Longrightarrow> \<exists>t. taxaStake st tot = Inr t"
  by (cases st) (auto simp: circulating_reads_def taxaStake_def zero_reads)

definition bank_of :: "validators \<Rightarrow> validator list" where
  "bank_of v = (case vs_bank v of None \<Rightarrow> [] | Some b \<Rightarrow> b)"

lemma screen_built:
  assumes "collation lc" "list_all readable (vs_current v)" "list_all readable (bank_of v)" "circulating_reads st"
  shows "\<exists>s. validatorsList lc tab v st = Inr s
    \<and> mset (vc_ativos s) = mset (vs_current v) \<and> sorted_wrt (listed_before lc) (vc_ativos s)
    \<and> mset (vc_banco s) = mset (bank_of v) \<and> sorted_wrt (listed_before lc) (vc_banco s)
    \<and> vc_pesoTotal s = sum_list (map peso (vc_ativos s))
    \<and> vc_rows s = map (row_at v (aba_of tab) (vc_produtor s) (vc_pesoTotal s))
         (enumerate 0 (if aba_of tab = ActiveTab then vc_ativos s else vc_banco s))"
proof -
  obtain as bs where a: "js_sort (porAncoraDepoisPeso lc) (vs_current v) = Inr as" "mset as = mset (vs_current v)"
      "sorted_wrt (listed_before lc) as"
    and b: "js_sort (porAncoraDepoisPeso lc) (bank_of v) = Inr bs" "mset bs = mset (bank_of v)"
      "sorted_wrt (listed_before lc) bs"
    using validators_sorted [OF assms(1)] assms(2,3) by blast
  have r: "list_all readable as" "list_all readable bs"
    using assms(2,3) mset_eq_setD [OF a(2)] mset_eq_setD [OF b(2)] by (simp_all add: list_all_iff)
  obtain t where t: "taxaStake st (sum_list (map peso as)) = Inr t" using taxa_returns [OF assms(4)] by blast
  define total_w where "total_w = sum_list (map peso as)"
  define pr where "pr = (case st of Some s \<Rightarrow> st_producer s | None \<Rightarrow> vs_slotProducer v)"
  define xs where "xs = (if aba_of tab = ActiveTab then as else bs)"
  have rows: "map_res (validator_row_of v (aba_of tab) pr total_w) (enumerate 0 xs)
      = Inr (map (row_at v (aba_of tab) pr total_w) (enumerate 0 xs))"
    using r by (intro rows_read) (simp add: xs_def)
  have "\<exists>n. validatorsList lc tab v st = Inr \<lparr>vc_ativos = as, vc_banco = bs, vc_pesoTotal = total_w, vc_produtor = pr,
      vc_taxa = t, vc_colunas = n, vc_rows = map (row_at v (aba_of tab) pr total_w) (enumerate 0 xs)\<rparr>"
    using a(1) b(1) t total_weight [OF r(1)] rows
    by (simp add: validatorsList_def Let_def bank_of_def pr_def [symmetric] xs_def [symmetric] total_w_def [symmetric])
  then obtain n where n: "validatorsList lc tab v st = Inr \<lparr>vc_ativos = as, vc_banco = bs, vc_pesoTotal = total_w,
      vc_produtor = pr, vc_taxa = t, vc_colunas = n, vc_rows = map (row_at v (aba_of tab) pr total_w) (enumerate 0 xs)\<rparr>" ..
  show ?thesis
    by (rule exI, rule conjI, rule n) (simp add: a b xs_def total_w_def)
qed

lemma shares_sum:
  fixes ps :: "int list"
  assumes "0 < tot"
  shows "sum_list (map (\<lambda>p. p * 10000 div tot) ps) \<le> sum_list ps * 10000 div tot"
proof -
  have "sum_list (map (\<lambda>p. p * 10000 div tot) ps) * tot \<le> sum_list ps * 10000"
  proof (induction ps)
    case (Cons p ps)
    have "p * 10000 div tot * tot \<le> p * 10000"
      using assms minus_mod_eq_div_mult [of "p * 10000" tot] pos_mod_sign [of tot "p * 10000"] by linarith
    then show ?case using Cons by (simp add: distrib_right)
  qed simp
  then show ?thesis using assms by (metis zdiv_mono1 nonzero_mult_div_cancel_right less_irrefl)
qed

lemma share_le: "0 \<le> p \<Longrightarrow> p \<le> tot \<Longrightarrow> 0 < (tot :: int) \<Longrightarrow> p * 10000 div tot \<le> 10000"
  by (metis mult.commute mult_right_mono nonzero_mult_div_cancel_left zdiv_mono1 zero_le_numeral less_irrefl)


section \<open>Properties\<close>

text \<open>
  C38. The validators of both tabs are those of the node, in the announced order: the anchors first, by
  their number; then the others, and anchors of one number, by weight with the heaviest first, and
  equal weights by address.
\<close>

theorem validators_listed_in_order:
  assumes "collation lc" "list_all readable (vs_current v)" "list_all readable (bank_of v)" "circulating_reads st"
  shows "\<exists>s. validatorsList lc tab v st = Inr s
    \<and> mset (vc_ativos s) = mset (vs_current v) \<and> sorted_wrt (listed_before lc) (vc_ativos s)
    \<and> mset (vc_banco s) = mset (bank_of v) \<and> sorted_wrt (listed_before lc) (vc_banco s)
    \<and> map vr_validator (vc_rows s) = (if tab = Some (js ''bank'') then vc_banco s else vc_ativos s)"
proof -
  obtain s where s: "validatorsList lc tab v st = Inr s"
    "mset (vc_ativos s) = mset (vs_current v)" "sorted_wrt (listed_before lc) (vc_ativos s)"
    "mset (vc_banco s) = mset (bank_of v)" "sorted_wrt (listed_before lc) (vc_banco s)"
    "vc_rows s = map (row_at v (aba_of tab) (vc_produtor s) (vc_pesoTotal s))
         (enumerate 0 (if aba_of tab = ActiveTab then vc_ativos s else vc_banco s))"
    using screen_built [OF assms] by blast
  define xs where "xs = (if aba_of tab = ActiveTab then vc_ativos s else vc_banco s)"
  have "\<forall>x \<in> set xs. readable x"
    using assms(2,3) mset_eq_setD [OF s(2)] mset_eq_setD [OF s(4)] by (simp add: xs_def list_all_iff)
  then have "map vr_validator (map (row_at v (aba_of tab) (vc_produtor s) (vc_pesoTotal s)) (enumerate n xs)) = xs" for n
    by (induction xs arbitrary: n) (simp_all add: row_validator)
  then have "map vr_validator (vc_rows s) = xs" by (simp add: s(6) xs_def)
  then show ?thesis using s by (auto simp: xs_def aba_of_def)
qed

text \<open>
  The list does not jump from one refetch to the next: however the node orders the validators of the
  two sets, the screen is the same, row by row, as long as no two of them have addresses that collate
  alike.
\<close>

theorem validator_order_kept:
  assumes "collation lc" "list_all readable (vs_current v)" "list_all readable (bank_of v)"
    and "mset current = mset (vs_current v)" "mset bank = mset (bank_of v)"
    and "\<And>a b. lc (vl_address a) (vl_address b) = 0 \<Longrightarrow> a \<in> set current \<and> b \<in> set current \<or> a \<in> set bank \<and> b \<in> set bank \<Longrightarrow> a = b"
  shows "validatorsList lc tab (v\<lparr>vs_current := current, vs_bank := Some bank\<rparr>) st = validatorsList lc tab v st"
proof -
  have "js_sort (porAncoraDepoisPeso lc) (vs_current v) = js_sort (porAncoraDepoisPeso lc) current"
    using assms(6) mset_eq_setD [OF assms(4)]
    by (intro validators_permuted [OF assms(1,2) assms(4) [symmetric]]) auto
  moreover have "js_sort (porAncoraDepoisPeso lc) (bank_of v) = js_sort (porAncoraDepoisPeso lc) bank"
    using assms(6) mset_eq_setD [OF assms(5)]
    by (intro validators_permuted [OF assms(1,3) assms(5) [symmetric]]) auto
  moreover have "validator_row_of (v\<lparr>vs_current := current, vs_bank := Some bank\<rparr>) = validator_row_of v"
    by (intro ext) (simp add: validator_row_of_def perf_by_address_def split: prod.split)
  ultimately show ?thesis by (cases st) (simp_all add: validatorsList_def bank_of_def Let_def)
qed

text \<open>
  The weight column never shows more than a whole: with weights that are not negative each row shows
  a number of hundredths of a percent between none and ten thousand, and together they are at most
  ten thousand.
\<close>

theorem weight_shares_bounded:
  assumes "collation lc" "list_all readable (vs_current v)" "list_all readable (bank_of v)" "circulating_reads st"
    and "list_all (\<lambda>x. 0 \<le> peso x) (vs_current v)" "tab \<noteq> Some (js ''bank'')"
  shows "\<exists>s hs. validatorsList lc tab v st = Inr s
    \<and> map vr_pct (vc_rows s) = map (\<lambda>h. num (num_div (num_of_int h) (Num 100)) @ js ''%'') hs
    \<and> list_all (\<lambda>h. 0 \<le> h \<and> h \<le> 10000) hs \<and> sum_list hs \<le> 10000"
proof -
  obtain s where s: "validatorsList lc tab v st = Inr s" "mset (vc_ativos s) = mset (vs_current v)"
    "vc_pesoTotal s = sum_list (map peso (vc_ativos s))"
    "vc_rows s = map (row_at v ActiveTab (vc_produtor s) (vc_pesoTotal s)) (enumerate 0 (vc_ativos s))"
    using screen_built [OF assms(1-4), of tab] assms(6) by (auto simp: aba_of_def)
  define tot where "tot = vc_pesoTotal s"
  define share where "share = (\<lambda>p. if 0 < tot then p * 10000 div tot else 0)"
  define hs where "hs = map (share \<circ> peso) (vc_ativos s)"
  have r: "\<forall>x \<in> set (vc_ativos s). readable x \<and> 0 \<le> peso x"
    using assms(2,5) mset_eq_setD [OF s(2)] by (simp add: list_all_iff)
  have le: "peso x \<le> tot" if "x \<in> set (vc_ativos s)" for x
    using member_le_sum_list [of "peso x" "map peso (vc_ativos s)"] r that by (auto simp: tot_def s(3))
  have p: "peso_pct (peso x) tot = num_div (num_of_int (share (peso x))) (Num 100)" if "0 \<le> peso x" for x
    using that by (simp add: peso_pct_def share_def num_of_int_small num_eval)
  have "map vr_pct (map (row_at v ActiveTab pr tot) (enumerate n xs))
      = map (\<lambda>h. num (num_div (num_of_int h) (Num 100)) @ js ''%'') (map (share \<circ> peso) xs)"
    if "\<forall>x \<in> set xs. readable x \<and> 0 \<le> peso x" for xs n pr
    using that by (induction xs arbitrary: n) (simp_all add: row_pct p)
  then have m: "map vr_pct (vc_rows s) = map (\<lambda>h. num (num_div (num_of_int h) (Num 100)) @ js ''%'') hs"
    unfolding hs_def s(4) tot_def [symmetric] using r by blast
  have b: "list_all (\<lambda>h. 0 \<le> h \<and> h \<le> 10000) hs"
    using r le share_le by (auto simp: hs_def share_def list_all_iff pos_imp_zdiv_nonneg_iff)
  have "sum_list hs \<le> 10000"
  proof (cases "0 < tot")
    case True
    then have "sum_list hs \<le> tot * 10000 div tot"
      using shares_sum [OF True, of "map peso (vc_ativos s)"] by (simp add: hs_def share_def comp_def s(3) tot_def)
    then show ?thesis using True by simp
  next
    case False
    then have "hs = map (\<lambda>_. 0) (vc_ativos s)" by (simp add: hs_def share_def)
    then show ?thesis by (simp add: sum_list_0)
  qed
  then show ?thesis using s(1) m b by blast
qed


subsection \<open>Witnesses\<close>

definition demo_validator :: "string \<Rightarrow> nat \<Rightarrow> jstr option \<Rightarrow> validator" where
  "demo_validator a n nm = \<lparr>vl_address = js a, vl_staked = dec n, vl_votes = None, vl_name = nm\<rparr>"

definition demo_current :: "validator list" where
  "demo_current = [demo_validator ''E7B'' 900 None, demo_validator ''E7A'' 900 None,
     demo_validator ''E7C'' 5 (Some (js ''eav7-labs-ancora-1''))]"

definition demo_validators :: validators where
  "demo_validators = \<lparr>vs_maxValidators = 27, vs_minStake = dec 1000, vs_blockReward = dec 1,
     vs_current = demo_current, vs_bank = None, vs_bankSize = None, vs_slotProducer = js ''E7A'',
     vs_performance = None, vs_performanceSummary = None, vs_performanceWindow = None\<rparr>"

lemma demo_peso: "pesoDe (demo_validator a n nm) = Inr (int n)"
  by (simp add: pesoDe_def demo_validator_def zero_reads)

lemma demo_facts:
  "list_all readable (vs_current demo_validators)" "list_all readable (bank_of demo_validators)"
  "circulating_reads None" "list_all (\<lambda>x. 0 \<le> peso x) (vs_current demo_validators)"
  by (simp_all add: demo_validators_def demo_current_def readable_def demo_peso bank_of_def circulating_reads_def peso_def)

theorem validators_listed_in_order_witness:
  "\<exists>s. validatorsList lex_cmp None demo_validators None = Inr s
    \<and> map vr_validator (vc_rows s) = vc_ativos s \<and> sorted_wrt (listed_before lex_cmp) (vc_ativos s)
    \<and> mset (vc_ativos s) = mset demo_current"
proof -
  have c: "vs_current demo_validators = demo_current" by (simp add: demo_validators_def)
  show ?thesis
    using validators_listed_in_order [OF code_units.collation_axioms demo_facts(1,2,3), of None] unfolding c by auto
qed

theorem validator_order_kept_witness:
  "validatorsList lex_cmp tab (demo_validators\<lparr>vs_current := rev demo_current, vs_bank := Some []\<rparr>) None
     = validatorsList lex_cmp tab demo_validators None"
proof (rule validator_order_kept [OF code_units.collation_axioms demo_facts(1,2)])
  show "mset (rev demo_current) = mset (vs_current demo_validators)" by (simp add: demo_validators_def)
  show "mset [] = mset (bank_of demo_validators)" by (simp add: demo_validators_def bank_of_def)
  show "a = b" if "lex_cmp (vl_address a) (vl_address b) = 0"
    "a \<in> set (rev demo_current) \<and> b \<in> set (rev demo_current) \<or> a \<in> set [] \<and> b \<in> set []" for a b
    using that by (auto simp: lex_cmp_eq demo_current_def demo_validator_def)
qed

theorem weight_shares_bounded_witness:
  "\<exists>s hs. validatorsList lex_cmp None demo_validators None = Inr s
    \<and> map vr_pct (vc_rows s) = map (\<lambda>h. num (num_div (num_of_int h) (Num 100)) @ js ''%'') hs \<and> sum_list hs \<le> 10000"
  using weight_shares_bounded [OF code_units.collation_axioms demo_facts(1,2,3,4), of None] by auto

text \<open>The supply card adds the smallest units of tokens of different decimals: one token of six is a million.\<close>

definition demo_token :: token_summary where
  "demo_token = \<lparr>tk_id = js ''T1'', tk_symbol = js ''USDX'', tk_name = js ''X'', tk_standard = js ''eav20'', tk_decimals = 6,
     tk_totalSupply = dec 1000000, tk_holders = 1, tk_creator = [], tk_owner = [], tk_mintable = False, tk_paused = False,
     tk_createdAt = 0\<rparr>"

lemma supply_card_adds_units:
  "supply_cell demo_token = js ''1 USDX'' \<and> statsSupply [demo_token] = js ''1 mi''"
proof
  show "supply_cell demo_token = js ''1 USDX''"
    by (simp add: supply_cell_def demo_token_def fmtToken_def Let_def int_locale_def comma_frac_def num_of_int_def num_eval js_eval)
  have "num_of_str (dec 1000000) = Num 1000000"
    unfolding digits_number [OF is_digits_dec] undec_dec by (simp add: num_eval)
  moreover have "num_add (Num 0) (Num 1000000) = Num 1000000" by (simp add: num_eval)
  ultimately have "totalSupply [demo_token] = Num 1000000"
    by (simp add: totalSupply_def demo_token_def num_or_zero_def)
  then show "statsSupply [demo_token] = js ''1 mi''"
    by (simp add: statsSupply_def numCompact_def num_eval js_eval)
qed

end
