(* ===== verification/Csv.thy ===== *)
theory Csv
  imports Json
begin

section \<open>The CSV export\<close>

text \<open>
  \<open>components/scan/detail/csv-button.tsx\<close>: the text that \<open>baixar\<close> puts into the file. The reader
  that says what the file holds is that of RFC 4180 for quoted fields; it is the specification and
  not code of the repository.
\<close>

datatype csv_cell = CText jstr | CNum jsnum

fun cell_str :: "csv_cell \<Rightarrow> jstr" where
  "cell_str (CText s) = s"
| "cell_str (CNum n) = num_str n"

text \<open>\<open>String(v).replaceAll('"', '""')\<close> and \<open>/^[=+\-@]/\<close>.\<close>

definition doubled :: "jstr \<Rightarrow> jstr" where
  "doubled s = concat (map (\<lambda>c. if c = 34 then [34, 34] else [c]) s)"

definition formula_head :: "jstr \<Rightarrow> bool" where
  "formula_head s \<longleftrightarrow> s \<noteq> [] \<and> (hd s = 61 \<or> hd s = 43 \<or> hd s = 45 \<or> hd s = 64)"

definition escapa :: "csv_cell \<Rightarrow> jstr" where
  "escapa v = (let s = doubled (cell_str v); g = (if formula_head s then 39 # s else s) in 34 # g @ [34])"

definition csv_text :: "jstr list \<Rightarrow> csv_cell list list \<Rightarrow> jstr" where
  "csv_text headers rows = join_with [10] (map (\<lambda>r. join_with [44] (map escapa r)) (map CText headers # rows))"


section \<open>Reading it back\<close>

fun quoted :: "jstr \<Rightarrow> (jstr \<times> jstr) option" where
  "quoted [] = None"
| "quoted [c] = (if c = 34 then Some ([], []) else None)"
| "quoted (c # d # r) =
    (if c = 34 \<and> d = 34 then map_option (apfst (Cons 34)) (quoted r)
     else if c = 34 then Some ([], d # r)
     else map_option (apfst (Cons c)) (quoted (d # r)))"

lemma quoted_shorter: "quoted s = Some (f, r) \<Longrightarrow> length r < length s"
  by (induction s arbitrary: f r rule: quoted.induct) (force split: if_splits)+

function csv_parse :: "jstr \<Rightarrow> jstr list list option" where
  "csv_parse s = (if s = [] \<or> hd s \<noteq> 34 then None else
     (case quoted (tl s) of
        None \<Rightarrow> None
      | Some (f, r) \<Rightarrow>
          if r = [] then Some [[f]]
          else if hd r = 44 then
            (case csv_parse (tl r) of Some (row # rows) \<Rightarrow> Some ((f # row) # rows) | _ \<Rightarrow> None)
          else if hd r = 10 then map_option (Cons [f]) (csv_parse (tl r))
          else None))"
  by pat_completeness auto
termination
proof (relation "measure length")
  fix s :: jstr and x f r
  assume "\<not> (s = [] \<or> hd s \<noteq> 34)" "quoted (tl s) = Some x" "(f, r) = x" "r \<noteq> []"
  then have "length (tl r) < length s" using quoted_shorter [of "tl s" f r] by (cases s; cases r) auto
  then show "(tl r, s) \<in> measure length" "(tl r, s) \<in> measure length" by simp_all
qed simp

declare csv_parse.simps [simp del]

text \<open>What a spreadsheet shows of a cell.\<close>

definition guarded :: "csv_cell \<Rightarrow> jstr" where
  "guarded v = (if formula_head (cell_str v) then 39 # cell_str v else cell_str v)"

lemma doubled_Nil [simp]: "doubled [] = []"
  by (simp add: doubled_def)

lemma doubled_Cons: "doubled (c # s) = (if c = 34 then 34 # 34 # doubled s else c # doubled s)"
  by (simp add: doubled_def)

lemma formula_head_doubled: "formula_head (doubled s) = formula_head s"
  by (cases s) (simp_all add: formula_head_def doubled_Cons)

lemma escapa_guarded: "escapa v = 34 # doubled (guarded v) @ [34]"
  by (simp add: escapa_def guarded_def formula_head_doubled doubled_Cons Let_def)

lemma quoted_doubled:
  assumes "r = [] \<or> hd r \<noteq> 34"
  shows "quoted (doubled s @ 34 # r) = Some (s, r)"
proof (induction s)
  case Nil
  then show ?case using assms by (cases r) auto
next
  case (Cons c s)
  have "quoted (c # x) = map_option (apfst (Cons c)) (quoted x)" if "c \<noteq> 34" "x \<noteq> []" for x
    using that by (cases x) auto
  then show ?case using Cons by (simp add: doubled_Cons)
qed

lemma join_with_Cons: "join_with sep (p # q # ps) = p @ sep @ join_with sep (q # ps)"
  by (simp add: join_with_def)

lemma join_with_one [simp]: "join_with sep [p] = p"
  by (simp add: join_with_def)

text \<open>A row, followed by the end of the text or by a line feed and the rows that are left.\<close>

lemma csv_parse_row:
  assumes "r \<noteq> []" "rest = [] \<and> after = Some [] \<or> (\<exists>t. rest = 10 # t \<and> csv_parse t = after)"
  shows "csv_parse (join_with [44] (map escapa r) @ rest) = map_option (Cons (map guarded r)) after"
  using assms(1)
proof (induction r)
  case (Cons v r)
  show ?case
  proof (cases r)
    case Nil
    have q: "quoted (doubled (guarded v) @ 34 # rest) = Some (guarded v, rest)"
      using assms(2) by (intro quoted_doubled) auto
    then show ?thesis using assms(2) Nil
      by (subst csv_parse.simps) (auto simp: escapa_guarded)
  next
    case (Cons w r')
    define x where "x = join_with [44] (map escapa r) @ rest"
    have IH: "csv_parse x = map_option (Cons (map guarded r)) after" using Cons Cons.IH by (simp add: x_def)
    have q: "quoted (doubled (guarded v) @ 34 # 44 # x) = Some (guarded v, 44 # x)" by (rule quoted_doubled) simp
    have "join_with [44] (map escapa (v # r)) @ rest = 34 # doubled (guarded v) @ 34 # 44 # x"
      by (simp add: x_def Cons join_with_Cons escapa_guarded)
    then show ?thesis using q IH by (subst csv_parse.simps) (auto split: option.splits)
  qed
qed simp

lemma csv_parse_rows:
  "(\<forall>r \<in> set rows. r \<noteq> []) \<Longrightarrow> rows \<noteq> [] \<Longrightarrow>
    csv_parse (join_with [10] (map (\<lambda>r. join_with [44] (map escapa r)) rows)) = Some (map (map guarded) rows)"
proof (induction rows)
  case (Cons r rows)
  show ?case
  proof (cases rows)
    case Nil
    then show ?thesis using Cons.prems csv_parse_row [of r "[]" "Some []"] by simp
  next
    case (Cons r' rows')
    define t where "t = join_with [10] (map (\<lambda>r. join_with [44] (map escapa r)) rows)"
    have "csv_parse t = Some (map (map guarded) rows)" using Cons Cons.IH Cons.prems by (simp add: t_def)
    then show ?thesis
      using Cons.prems csv_parse_row [of r "10 # t" "Some (map (map guarded) rows)"]
      by (simp add: t_def Cons join_with_Cons)
  qed
qed simp

lemma csv_text_reads_back:
  "headers \<noteq> [] \<Longrightarrow> (\<forall>r \<in> set rows. r \<noteq> []) \<Longrightarrow>
    csv_parse (csv_text headers rows) = Some (map (map guarded) (map CText headers # rows))"
  unfolding csv_text_def by (rule csv_parse_rows) auto

lemma guarded_no_formula: "\<not> formula_head (guarded v)"
  by (simp add: guarded_def formula_head_def)

end
