(* ===== verification/AddressPage.thy ===== *)
theory AddressPage
  imports Csv PriceMarket Api "HOL-Library.Multiset"
begin

section \<open>The address page\<close>

text \<open>
  \<open>app/address/[addr]/page.tsx\<close> (the tab and what it fetches), \<open>components/scan/detail/address-view.tsx\<close>
  (the two lists of transactions, their filters and rows, the export, the permissions and the chart),
  \<open>address-holdings.tsx\<close> (the panel of holdings with its search) and the functions of \<open>shell.tsx\<close>
  that they use. The markup is not modelled; texts of \<open>t\<close> and \<open>toLowerCase\<close> outside ASCII are
  arguments.
\<close>

subsection \<open>The tab and its data\<close>

datatype query_param = QOne jstr | QMany "jstr list"

definition um :: "query_param option \<Rightarrow> jstr option" where
  "um v = (case v of None \<Rightarrow> None | Some (QOne s) \<Rightarrow> Some s
     | Some (QMany ss) \<Rightarrow> (case ss of [] \<Rightarrow> None | s # r \<Rightarrow> Some s))"

definition ADDRESS_TABS :: "jstr list" where
  "ADDRESS_TABS = map js [''txs'', ''transfers'', ''internal'', ''stake'', ''contracts'', ''perm'', ''analysis'']"

definition address_tab :: "query_param option \<Rightarrow> jstr" where
  "address_tab q = (let bruta = (case um q of None \<Rightarrow> [] | Some s \<Rightarrow> s) in
     if bruta \<in> set ADDRESS_TABS then bruta else js ''txs'')"

definition or_all :: "query_param option \<Rightarrow> jstr" where
  "or_all q = (case um q of None \<Rightarrow> js ''all'' | Some s \<Rightarrow> s)"

definition precisaTxs :: "jstr \<Rightarrow> bool" where
  "precisaTxs tab \<longleftrightarrow> tab = js ''txs'' \<or> tab = js ''transfers'' \<or> tab = js ''contracts''"

record address_fetches =
  af_info :: "address_info fetch"
  af_txs :: "tx list fetch"
  af_internal :: "internal_transfer list fetch"
  af_analysis :: "address_analysis fetch"
  af_contract :: "verified_contract fetch"

record address_data =
  ad_info :: address_info
  ad_tab :: jstr
  ad_dir :: jstr
  ad_std :: jstr
  ad_txs :: "tx list"
  ad_internal :: "internal_transfer list"
  ad_analysis :: "address_analysis option"
  ad_contract :: "verified_contract option"

text \<open>None is the page that nothing was found.\<close>

definition addressPage ::
    "(jstr \<Rightarrow> nat list) \<Rightarrow> web_env \<Rightarrow> mock_clock \<Rightarrow> address_fetches \<Rightarrow> jstr
     \<Rightarrow> query_param option \<Rightarrow> query_param option \<Rightarrow> query_param option \<Rightarrow> address_data option" where
  "addressPage utf8 e c f addr qtab qdir qstd =
    (let tab = address_tab qtab in
     case get_option (getAddress e (af_info f) addr) of
       None \<Rightarrow> None
     | Some info \<Rightarrow>
        if (case ai_error info of Some x \<Rightarrow> x \<noteq> [] | None \<Rightarrow> False) \<or> ai_address info = [] then None
        else Some \<lparr>ad_info = info, ad_tab = tab, ad_dir = or_all qdir, ad_std = or_all qstd,
          ad_txs = (if precisaTxs tab then catch [] (getAddressTxs e c (af_txs f) addr 1000) else []),
          ad_internal = (if tab = js ''internal''
             then getInternal utf8 e (af_internal f) (Some (ai_address info)) (Some 500) else []),
          ad_analysis = (if tab = js ''analysis'' then getAddressAnalysis e (af_analysis f) addr else None),
          ad_contract = (case ai_contract info of
             Some k \<Rightarrow> if tab = js ''contracts'' then getContract e (af_contract f) (ci_address k) else None
           | None \<Rightarrow> None)\<rparr>)"


subsection \<open>Transactions and transfers\<close>

definition EAV20_TX :: "tx_type list" where
  "EAV20_TX = [TOKEN_TRANSFER, TOKEN_TRANSFER_FROM, TOKEN_MINT, TOKEN_BURN]"

definition EAV721_TX :: "tx_type list" where
  "EAV721_TX = [NFT_TRANSFER, NFT_MINT, NFT_BURN]"

definition ehAtivo :: "tx_type \<Rightarrow> bool" where
  "ehAtivo k \<longleftrightarrow> k \<in> set EAV20_TX \<or> k \<in> set EAV721_TX"

definition txOk :: "tx \<Rightarrow> bool" where
  "txOk x = (case tx_receipt x of Some r \<Rightarrow> rc_success r | None \<Rightarrow> True)"

definition destOf :: "tx \<Rightarrow> jstr option" where
  "destOf x = (case tx_to x of
       Some (c # s) \<Rightarrow> Some (c # s)
     | _ \<Rightarrow> (case tx_data x of None \<Rightarrow> None
         | Some d \<Rightarrow> (case map_of d (js ''to'') of Some (JStr s) \<Rightarrow> Some s | _ \<Rightarrow> None)))"

definition transacoes :: "tx list \<Rightarrow> tx list" where
  "transacoes txs = filter (\<lambda>x. \<not> ehAtivo (tx_type x)) txs"

definition todasTransferencias :: "tx list \<Rightarrow> tx list" where
  "todasTransferencias txs = filter (\<lambda>x. ehAtivo (tx_type x)) txs"

definition of_standard :: "jstr \<Rightarrow> tx \<Rightarrow> bool" where
  "of_standard std x = (if std = js ''all'' then True
     else if std = js ''eav20'' then tx_type x \<in> set EAV20_TX else tx_type x \<in> set EAV721_TX)"

definition of_direction :: "jstr \<Rightarrow> jstr \<Rightarrow> tx \<Rightarrow> bool" where
  "of_direction self d x = (if d = js ''all'' then True
     else if d = js ''out'' then tx_from x = self else tx_to x = Some self)"

definition transferencias :: "jstr \<Rightarrow> jstr \<Rightarrow> jstr \<Rightarrow> tx list \<Rightarrow> tx list" where
  "transferencias self std d txs = filter (of_direction self d) (filter (of_standard std) (todasTransferencias txs))"

definition publicados :: "tx list \<Rightarrow> (jstr \<times> int) list" where
  "publicados txs = List.map_filter (\<lambda>x. if tx_type x = EAVM_DEPLOY then
      (case tx_receipt x of Some r \<Rightarrow> (case rc_contract r of Some (c # a) \<Rightarrow> Some (c # a, tx_timestamp x) | _ \<Rightarrow> None)
       | None \<Rightarrow> None) else None) txs"

text \<open>The counts on the tabs: of what was loaded when the tab loads transactions, else of the index.\<close>

definition tab_counts :: "address_data \<Rightarrow> (jstr \<times> int option) list" where
  "tab_counts d = (let carregou = precisaTxs (ad_tab d) in
    [(js ''txs'', if carregou then Some (int (length (transacoes (ad_txs d)))) else map_option ac_txCount (ai_activity (ad_info d))),
     (js ''transfers'', if carregou then Some (int (length (todasTransferencias (ad_txs d))))
        else map_option ac_transfers (ai_activity (ad_info d))),
     (js ''internal'', if ad_tab d = js ''internal'' then Some (int (length (ad_internal d))) else None),
     (js ''stake'', None), (js ''contracts'', None), (js ''perm'', None), (js ''analysis'', None)])"

text \<open>The amount of a row of the first list, and of one of the second with its sign.\<close>

definition amount_text :: "tx \<Rightarrow> jstr" where
  "amount_text x = (case tx_asset x of
       Some a \<Rightarrow>
         if as_kind a = js ''EAV721'' then 35 # (case as_tokenId a of Some i \<Rightarrow> i | None \<Rightarrow> [8212])
         else if as_kind a = js ''EAV20'' then
           fmtToken (BStr (tx_amount x)) (nat (case as_decimals a of Some n \<Rightarrow> n | None \<Rightarrow> 0)) @ [32]
             @ (case as_symbol a of Some s \<Rightarrow> s | None \<Rightarrow> js ''EAV20'')
         else if tx_amount x = [] \<or> tx_amount x = js ''0'' then [8212]
         else fmt (BStr (tx_amount x)) @ js '' EAV7''
     | None \<Rightarrow> if tx_amount x = [] \<or> tx_amount x = js ''0'' then [8212]
         else fmt (BStr (tx_amount x)) @ js '' EAV7'')"

definition asset_amount :: "tx \<Rightarrow> jstr" where
  "asset_amount x = fmtToken (BStr (tx_amount x))
     (nat (case tx_asset x of Some a \<Rightarrow> (case as_decimals a of Some n \<Rightarrow> n | None \<Rightarrow> 0) | None \<Rightarrow> 0))"

definition entrou :: "jstr \<Rightarrow> tx \<Rightarrow> bool" where
  "entrou self x \<longleftrightarrow> tx_to x = Some self"

definition signed_amount :: "jstr \<Rightarrow> tx \<Rightarrow> jstr" where
  "signed_amount self x = (if entrou self x then 43 else 8722) #
     (case tx_asset x of
        Some a \<Rightarrow> if as_kind a = js ''EAV721'' then 35 # (case as_tokenId a of Some i \<Rightarrow> i | None \<Rightarrow> js ''undefined'')
          else asset_amount x
      | None \<Rightarrow> asset_amount x)"


subsection \<open>The export\<close>

definition csv_headers :: "jstr list" where
  "csv_headers = map js [''hash'', ''block'', ''timestamp'', ''from'', ''to'', ''amount'', ''token'']"

definition csv_row :: "tx \<Rightarrow> csv_cell list res" where
  "csv_row x = bind_res (iso_string (tx_timestamp x)) (\<lambda>ts. Inr
     [CText (tx_id x), CNum (num_of_int (tx_blockHeight x)), CText ts, CText (tx_from x),
      CText (case destOf x of Some s \<Rightarrow> s | None \<Rightarrow> []),
      CText (case tx_asset x of
          Some a \<Rightarrow> if as_kind a = js ''EAV721'' then (case as_tokenId a of Some i \<Rightarrow> i | None \<Rightarrow> []) else asset_amount x
        | None \<Rightarrow> asset_amount x),
      CText (case tx_asset x of
          Some a \<Rightarrow> (case as_symbol a of Some s \<Rightarrow> s | None \<Rightarrow> asset_id a)
        | None \<Rightarrow> js ''EAV7'')])"

fun csv_rows :: "tx list \<Rightarrow> csv_cell list list res" where
  "csv_rows [] = Inr []"
| "csv_rows (x # xs) = bind_res (csv_row x) (\<lambda>r. bind_res (csv_rows xs) (\<lambda>rs. Inr (r # rs)))"

definition csv_filename :: "jstr \<Rightarrow> jstr" where
  "csv_filename self = js ''eav7-transfers-'' @ take 10 self @ js ''.csv''"

text \<open>The button writes the file when it is not disabled; a time out of range fails the page before.\<close>

definition baixar :: "jstr \<Rightarrow> tx list \<Rightarrow> (jstr \<times> jstr) option res" where
  "baixar self shown_txs = bind_res (csv_rows shown_txs) (\<lambda>rows. Inr
     (if rows = [] then None else Some (csv_filename self, csv_text csv_headers rows)))"


subsection \<open>Permissions, quota and chart\<close>

definition perm_rows :: "jstr \<Rightarrow> jstr \<Rightarrow> permissions \<Rightarrow> (jstr \<times> jstr \<times> jstr) list" where
  "perm_rows t_owner t_active p =
    (let owner = (case pm_owner p of Some o' \<Rightarrow> Some o'
           | None \<Rightarrow> (case pm_keys p of
               Some ks \<Rightarrow> Some \<lparr>ks_threshold = (case pm_threshold p of Some n \<Rightarrow> n | None \<Rightarrow> 1), ks_keys = ks\<rparr>
             | None \<Rightarrow> None));
         weight = (\<lambda>w th. big_str w @ js '' / '' @ big_str th)
     in (case owner of None \<Rightarrow> []
           | Some o' \<Rightarrow> map (\<lambda>(a, w). (t_owner, a, weight w (ks_threshold o'))) (ks_keys o'))
        @ concat (map (\<lambda>a. map (\<lambda>(k, w).
              ((case ap_name a of Some n \<Rightarrow> n | None \<Rightarrow> t_active @ js '' #'' @ big_str (ap_id a)), k, weight w (ap_threshold a)))
            (ap_keys a)) (case pm_actives p of None \<Rightarrow> [] | Some as \<Rightarrow> as)))"

definition gbPct :: "address_info \<Rightarrow> jsnum" where
  "gbPct info = (case ai_gb info of
       Some g \<Rightarrow> if num_lt (Num 0) (gb_max g)
         then num_min (Num 100) (num_round (num_mul (num_div (gb_available g) (gb_max g)) (Num 100))) else Num 0
     | None \<Rightarrow> Num 0)"

definition dias_of :: "address_analysis \<Rightarrow> (jstr \<times> int) list" where
  "dias_of a = drop (length (aa_daily a) - 30) (aa_daily a)"

definition maior_of :: "(jstr \<times> int) list \<Rightarrow> jsnum" where
  "maior_of dias = foldl (\<lambda>m d. num_max m (num_of_int (snd d))) (Num 1) dias"

definition bar_height :: "jsnum \<Rightarrow> int \<Rightarrow> jsnum" where
  "bar_height maior n = num_max (Num 2) (num_mul (num_div (num_of_int n) maior) (Num 128))"

definition chart :: "address_analysis \<Rightarrow> (jsnum \<times> jsnum) list" where
  "chart a = (let dias = dias_of a; maior = maior_of dias in
     map (\<lambda>d. let h = bar_height maior (snd d) in (num_sub (Num 138) h, h)) dias)"


subsection \<open>The panel of holdings\<close>

record holding =
  hd_key :: jstr
  hd_name :: jstr
  hd_sub :: jstr
  hd_amount :: jstr
  hd_value :: "jstr option"
  hd_href :: "jstr option"

type_synonym holding_group = "jstr \<times> holding list"

definition or_short :: "jstr option \<Rightarrow> jstr \<Rightarrow> jstr" where
  "or_short s i = (case s of Some x \<Rightarrow> x | None \<Rightarrow> shortHash (Some i) 8 4)"

definition grupos :: "address_info \<Rightarrow> market_price option \<Rightarrow> holding_group list" where
  "grupos info price =
    (let px = (case price of Some p \<Rightarrow> mp_priceUsd p | None \<Rightarrow> Num 0);
         balUsd = (if num_lt (Num 0) px then Some (usdValue (BStr (ai_balance info)) px) else None)
     in
     [(js ''tokens'',
        \<lparr>hd_key = js ''EAV7'', hd_name = js ''EAV7'', hd_sub = js ''EAV7'',
          hd_amount = fmtCompact (BStr (ai_balance info)) @ js '' EAV7'',
          hd_value = map_option (\<lambda>u. fmtUsd (Some u) 2) balUsd, hd_href = None\<rparr>
        # map (\<lambda>(i, tk).
            \<lparr>hd_key = i,
              hd_name = (case tb_name tk of Some n \<Rightarrow> n | None \<Rightarrow> or_short (tb_symbol tk) i),
              hd_sub = or_short (tb_symbol tk) i,
              hd_amount = fmtToken (BStr (case tb_balance tk of Some b \<Rightarrow> b | None \<Rightarrow> js ''0''))
                (nat (case tb_decimals tk of Some n \<Rightarrow> n | None \<Rightarrow> 0)),
              hd_value = None, hd_href = Some (js ''/token/'' @ i)\<rparr>) (ai_tokens info)),
      (js ''nfts'',
        map (\<lambda>n. \<lparr>hd_key = no_collection n @ [45] @ no_tokenId n, hd_name = no_symbol n @ js '' #'' @ no_tokenId n,
            hd_sub = shortHash (Some (no_collection n)) 10 6, hd_amount = js ''1'', hd_value = None,
            hd_href = Some (js ''/address/'' @ no_collection n)\<rparr>)
          (case ai_nfts info of None \<Rightarrow> [] | Some ns \<Rightarrow> ns)),
      (js ''approvals'',
        map (\<lambda>(i, token, symbol, spender, amount).
            \<lparr>hd_key = token @ [45] @ spender @ [45] @ dec i, hd_name = or_short symbol token,
              hd_sub = [8594, 32] @ shortHash (Some spender) 8 6, hd_amount = amount, hd_value = None,
              hd_href = Some (js ''/token/'' @ token)\<rparr>)
          (enumerate 0 (case ai_approvals info of None \<Rightarrow> [] | Some as \<Rightarrow> as))),
      (js ''names'',
        map (\<lambda>(n, target). \<lparr>hd_key = n, hd_name = n, hd_sub = shortHash (Some target) 10 6, hd_amount = [8212],
            hd_value = None, hd_href = None\<rparr>)
          (case ai_names info of None \<Rightarrow> [] | Some ns \<Rightarrow> ns))])"

record holdings_panel =
  hp_ativa :: jstr
  hp_busca :: jstr

definition fresh_panel :: "holding_group list \<Rightarrow> holdings_panel" where
  "fresh_panel groups = \<lparr>hp_ativa = (case groups of [] \<Rightarrow> [] | g # r \<Rightarrow> fst g), hp_busca = []\<rparr>"

definition shown_group :: "holding_group list \<Rightarrow> holdings_panel \<Rightarrow> holding_group option" where
  "shown_group groups p = (case find (\<lambda>g. fst g = hp_ativa p) groups of Some g \<Rightarrow> Some g
     | None \<Rightarrow> (case groups of [] \<Rightarrow> None | g # r \<Rightarrow> Some g))"

fun includes_text :: "jstr \<Rightarrow> jstr \<Rightarrow> bool" where
  "includes_text q [] = (q = [])"
| "includes_text q (c # s) = (take (length q) (c # s) = q \<or> includes_text q s)"

definition shown_items :: "(jstr \<Rightarrow> jstr) \<Rightarrow> holding_group list \<Rightarrow> holdings_panel \<Rightarrow> holding list" where
  "shown_items lower groups p = (let q = lower (trim (hp_busca p)) in
     case shown_group groups p of None \<Rightarrow> []
     | Some g \<Rightarrow> if q = [] then snd g
         else filter (\<lambda>i. includes_text q (lower (hd_name i @ [32] @ hd_sub i))) (snd g))"

datatype tab_key = ArrowRight | ArrowLeft | HomeKey | EndKey | OtherKey

definition key_target :: "nat \<Rightarrow> tab_key \<Rightarrow> nat \<Rightarrow> int" where
  "key_target n k i = (let passo = (case k of ArrowRight \<Rightarrow> 1 | ArrowLeft \<Rightarrow> - 1 | _ \<Rightarrow> 0) in
     if passo \<noteq> 0 then (int i + passo + int n) mod int n
     else (case k of HomeKey \<Rightarrow> 0 | EndKey \<Rightarrow> int n - 1 | _ \<Rightarrow> - 1))"

inductive panel_step :: "holding_group list \<Rightarrow> holdings_panel \<Rightarrow> holdings_panel \<Rightarrow> bool" where
  click: "i < length groups \<Longrightarrow> panel_step groups p (p\<lparr>hp_ativa := fst (groups ! i)\<rparr>)"
| search: "panel_step groups p (p\<lparr>hp_busca := s\<rparr>)"
| keydown: "i < length groups \<Longrightarrow> 0 \<le> key_target (length groups) k i \<Longrightarrow>
    panel_step groups p (p\<lparr>hp_ativa := fst (groups ! nat (key_target (length groups) k i))\<rparr>)"



section \<open>Lemmas\<close>

lemma standards_disjoint: "k \<in> set EAV20_TX \<Longrightarrow> k \<notin> set EAV721_TX"
  by (auto simp: EAV20_TX_def EAV721_TX_def)

lemma mset_filter_split: "mset (filter P xs) + mset (filter (\<lambda>x. \<not> P x) xs) = mset xs"
  by (induction xs) auto

lemma mset_filter_cover:
  "list_all (\<lambda>x. P x \<or> Q x) xs \<Longrightarrow>
    mset (filter P xs) + mset (filter Q xs) = mset xs + mset (filter (\<lambda>x. P x \<and> Q x) xs)"
  by (induction xs) auto

lemma mset_filter_disjoint:
  "(\<And>x. x \<in> set xs \<Longrightarrow> R x \<longleftrightarrow> P x \<or> Q x) \<Longrightarrow> (\<And>x. \<not> (P x \<and> Q x)) \<Longrightarrow>
    mset (filter P xs) + mset (filter Q xs) = mset (filter R xs)"
  by (induction xs) auto

lemma csv_rows_reads:
  "list_all (\<lambda>x. valid_time (tx_timestamp x)) xs \<Longrightarrow>
    \<exists>rows. csv_rows xs = Inr rows \<and> length rows = length xs \<and> (\<forall>r \<in> set rows. r \<noteq> [])"
proof (induction xs)
  case (Cons x xs)
  then obtain rows where "csv_rows xs = Inr rows" "length rows = length xs" "\<forall>r \<in> set rows. r \<noteq> []" by auto
  then show ?case using Cons.prems by (auto simp: csv_row_def iso_string_def)
qed simp

lemma headers_plain: "map guarded (map CText csv_headers) = csv_headers"
  by (simp add: csv_headers_def guarded_def formula_head_def js_eval)

subsection \<open>The chart\<close>

lemma num_max_upper: "m \<noteq> NaN \<Longrightarrow> n \<noteq> NaN \<Longrightarrow> num_le m (num_max m n) \<and> num_le n (num_max m n) \<and> num_max m n \<noteq> NaN"
  by (cases m; cases n) (auto simp: num_max_def)

lemma maior_from:
  "m \<noteq> NaN \<Longrightarrow> list_all (\<lambda>d. num_of_int (snd d) \<noteq> NaN) ds \<Longrightarrow>
    foldl (\<lambda>m d. num_max m (num_of_int (snd d))) m ds \<noteq> NaN
    \<and> num_le m (foldl (\<lambda>m d. num_max m (num_of_int (snd d))) m ds)
    \<and> (\<forall>d \<in> set ds. num_le (num_of_int (snd d)) (foldl (\<lambda>m d. num_max m (num_of_int (snd d))) m ds))"
proof (induction ds arbitrary: m)
  case Nil
  then show ?case by (cases m) auto
next
  case (Cons d ds)
  let ?m = "num_max m (num_of_int (snd d))"
  have "num_le m ?m" "num_le (num_of_int (snd d)) ?m" "?m \<noteq> NaN"
    using num_max_upper Cons.prems by auto
  then show ?case using Cons.IH [of ?m] Cons.prems num_le_trans by fastforce
qed

lemma maior_value:
  assumes "list_all (\<lambda>d. 0 \<le> snd d \<and> snd d \<le> 2 ^ 53) ds" "1 \<le> j" "j \<le> (2::int) ^ 53"
  shows "\<exists>k. 1 \<le> k \<and> k \<le> 2 ^ 53 \<and> foldl (\<lambda>m d. num_max m (num_of_int (snd d))) (Num (of_int j)) ds = Num (of_int k)"
  using assms
proof (induction ds arbitrary: j)
  case (Cons d ds)
  have "num_max (Num (of_int j)) (num_of_int (snd d)) = Num (of_int (max j (snd d)))"
    using Cons.prems by (simp add: num_of_int_small num_max_def max_def)
  then show ?case using Cons.IH [of "max j (snd d)"] Cons.prems by simp
qed auto

lemma bar_height_bounds:
  assumes "0 \<le> n" "n \<le> k" "1 \<le> k" "k \<le> (2::int) ^ 53"
  shows "num_le (Num 2) (bar_height (Num (of_int k)) n) \<and> num_le (bar_height (Num (of_int k)) n) (Num 128)"
proof -
  define q where "q = (of_int n :: rat) / of_int k"
  have q: "0 \<le> q" "q \<le> 1" using assms by (simp_all add: q_def divide_le_eq_1)
  have f: "0 \<le> fl q" "fl q \<le> 1" using fl_nonneg [OF q(1)] fl_le_f64 [OF q(2)] by simp_all
  have d: "num_div (num_of_int n) (Num (of_int k)) = Num (fl q)"
  proof -
    have "fl q < 2 ^ 1024" "- (2 ^ 1024) < fl q" using f by (simp_all add: le_less_trans less_le_trans)
    then show ?thesis using assms by (simp add: num_of_int_small q_def to_num_def overflow_def)
  qed
  define x where "x = fl q * 128"
  have x: "0 \<le> x" "x \<le> 128" using f by (simp_all add: x_def)
  have m: "num_mul (num_div (num_of_int n) (Num (of_int k))) (Num 128) = to_num x" by (simp add: d x_def)
  have lo: "num_le (Num 0) (to_num x)" using num_le_to_num_f64 [OF x(1)] by simp
  have "is_f64 128" by (rule is_f64_numeral) simp
  then have hi: "num_le (to_num x) (Num 128)" using to_num_le_num_f64 [OF x(2)] by simp
  show ?thesis using lo hi unfolding bar_height_def m by (cases "to_num x") (auto simp: num_max_def)
qed


section \<open>Properties\<close>

text \<open>
  Every transaction of an account is on exactly one of the two lists. Without filters the second
  shows all transfers; the two standards split them, and, of transfers the account is a side of, the
  received and the sent ones cover them, with only a transfer to oneself in both. A row of the
  received ones carries the plus sign; a row of the sent ones the minus unless it is to oneself.
\<close>

theorem address_lists_partition:
  assumes "list_all (\<lambda>x. tx_from x = self \<or> tx_to x = Some self) txs"
  shows "mset (transacoes txs) + mset (todasTransferencias txs) = mset txs
    \<and> transferencias self (js ''all'') (js ''all'') txs = todasTransferencias txs
    \<and> mset (transferencias self (js ''eav20'') d txs) + mset (transferencias self (js ''eav721'') d txs)
        = mset (transferencias self (js ''all'') d txs)
    \<and> mset (transferencias self std (js ''in'') txs) + mset (transferencias self std (js ''out'') txs)
        = mset (transferencias self std (js ''all'') txs)
          + mset (filter (\<lambda>x. tx_from x = self \<and> tx_to x = Some self) (transferencias self std (js ''all'') txs))
    \<and> list_all (entrou self) (transferencias self std (js ''in'') txs)
    \<and> list_all (\<lambda>x. entrou self x \<longrightarrow> tx_from x = self \<and> tx_to x = Some self) (transferencias self std (js ''out'') txs)"
proof (intro conjI)
  show "mset (transacoes txs) + mset (todasTransferencias txs) = mset txs"
    using mset_filter_split [of "\<lambda>x. ehAtivo (tx_type x)" txs]
    by (simp add: transacoes_def todasTransferencias_def add.commute)
  show "transferencias self (js ''all'') (js ''all'') txs = todasTransferencias txs"
    by (simp add: transferencias_def of_standard_def of_direction_def)
  show "mset (transferencias self (js ''eav20'') d txs) + mset (transferencias self (js ''eav721'') d txs)
        = mset (transferencias self (js ''all'') d txs)"
    unfolding transferencias_def todasTransferencias_def filter_filter
    by (rule mset_filter_disjoint) (auto simp: of_standard_def ehAtivo_def dest: standards_disjoint)
  have o: "of_direction self (js ''all'') = (\<lambda>x. True)" "of_direction self (js ''in'') = (\<lambda>x. tx_to x = Some self)"
    "of_direction self (js ''out'') = (\<lambda>x. tx_from x = self)"
    by (auto simp: of_direction_def)
  show "mset (transferencias self std (js ''in'') txs) + mset (transferencias self std (js ''out'') txs)
        = mset (transferencias self std (js ''all'') txs)
          + mset (filter (\<lambda>x. tx_from x = self \<and> tx_to x = Some self) (transferencias self std (js ''all'') txs))"
  proof -
    have "list_all (\<lambda>x. tx_to x = Some self \<or> tx_from x = self) (filter (of_standard std) (todasTransferencias txs))"
      using assms by (auto simp: list_all_iff todasTransferencias_def)
    from mset_filter_cover [OF this] show ?thesis
      unfolding transferencias_def o by (simp add: conj_commute del: filter_filter mset_filter)
  qed
  show "list_all (entrou self) (transferencias self std (js ''in'') txs)"
    by (simp add: transferencias_def o list_all_iff entrou_def)
  show "list_all (\<lambda>x. entrou self x \<longrightarrow> tx_from x = self \<and> tx_to x = Some self) (transferencias self std (js ''out'') txs)"
    by (simp add: transferencias_def o list_all_iff entrou_def)
qed


text \<open>
  The bars of the chart stay in their frame: with day counts from none to 2^53 every bar is between 2
  and 128 units high.
\<close>

theorem chart_in_frame:
  assumes "list_all (\<lambda>d. 0 \<le> snd d \<and> snd d \<le> 2 ^ 53) (aa_daily a)"
  shows "length (chart a) \<le> 30 \<and> list_all (\<lambda>(y, h). num_le (Num 2) h \<and> num_le h (Num 128)) (chart a)"
proof -
  have w: "list_all (\<lambda>d. 0 \<le> snd d \<and> snd d \<le> 2 ^ 53) (dias_of a)"
    using assms by (auto simp: dias_of_def list_all_iff dest: in_set_dropD)
  obtain k where k: "1 \<le> k" "k \<le> 2 ^ 53" "maior_of (dias_of a) = Num (of_int k)"
    using maior_value [OF w, of 1] by (auto simp: maior_of_def)
  have n: "list_all (\<lambda>d. num_of_int (snd d) \<noteq> NaN) (dias_of a)" by (simp add: list_all_iff num_of_int_def)
  have "snd d \<le> k" if "d \<in> set (dias_of a)" for d
  proof -
    have "num_le (num_of_int (snd d)) (maior_of (dias_of a))"
      using maior_from [OF _ n, of "Num 1"] that by (simp add: maior_of_def)
    then show ?thesis using w that k by (auto simp: list_all_iff num_of_int_small)
  qed
  then have "list_all (\<lambda>(y, h). num_le (Num 2) h \<and> num_le h (Num 128)) (chart a)"
    using bar_height_bounds w k by (auto simp: chart_def Let_def list_all_iff)
  then show ?thesis by (simp add: chart_def Let_def dias_of_def)
qed


subsection \<open>Where the filters and the signs mislead\<close>

text \<open>An unknown direction in the address line filters as the received ones, an unknown standard as EAV721.\<close>

lemma unknown_filter_is_received:
  assumes "d \<noteq> js ''all''" "d \<noteq> js ''out''"
  shows "transferencias self std d txs = transferencias self std (js ''in'') txs"
proof -
  have "of_direction self d = of_direction self (js ''in'')" using assms by (auto simp: of_direction_def)
  then show ?thesis by (simp add: transferencias_def)
qed

text \<open>
  A \<open>TOKEN_TRANSFER_FROM\<close> is signed by the spender while the tokens are those of \<open>data.owner\<close>: on the
  spender's page it is among the sent ones, with the minus sign.
\<close>

lemma spender_row_is_outflow:
  assumes "x \<in> set txs" "tx_type x = TOKEN_TRANSFER_FROM" "tx_from x = spender" "tx_to x \<noteq> Some spender"
  shows "x \<in> set (transferencias spender (js ''eav20'') (js ''out'') txs) \<and> hd (signed_amount spender x) = 8722"
  using assms
  by (simp add: transferencias_def todasTransferencias_def of_standard_def of_direction_def ehAtivo_def EAV20_TX_def
      signed_amount_def entrou_def)

text \<open>A token of a collection without a number is printed as undefined, and as a dash on the first list.\<close>

lemma unnumbered_token_undefined:
  assumes "tx_asset x = Some a" "as_kind a = js ''EAV721''" "as_tokenId a = None"
  shows "tl (signed_amount self x) = js ''#undefined'' \<and> amount_text x = [35, 8212]"
  using assms by (simp add: signed_amount_def amount_text_def js_eval)


subsection \<open>The panel of holdings\<close>

inductive panel_reach :: "holding_group list \<Rightarrow> holdings_panel \<Rightarrow> bool" where
  start: "panel_reach groups (fresh_panel groups)"
| step: "panel_reach groups p \<Longrightarrow> panel_step groups p p' \<Longrightarrow> panel_reach groups p'"

lemma key_target_range: "0 < n \<Longrightarrow> i < n \<Longrightarrow> 0 \<le> key_target n k i \<longrightarrow> nat (key_target n k i) < n"
  by (cases k) (auto simp: key_target_def Let_def nat_less_iff)

lemma key_right_left:
  assumes "i < n"
  shows "key_target n ArrowLeft (nat (key_target n ArrowRight i)) = int i"
    and "key_target n ArrowRight (nat (key_target n ArrowLeft i)) = int i"
proof -
  have m: "(int i + 1 + int n) mod int n = (int i + 1) mod int n" by simp
  show "key_target n ArrowLeft (nat (key_target n ArrowRight i)) = int i"
    using assms by (simp add: key_target_def m mod_simps)
  show "key_target n ArrowRight (nat (key_target n ArrowLeft i)) = int i"
    using assms by (simp add: key_target_def mod_simps)
qed

lemma panel_active: "panel_reach groups p \<Longrightarrow> groups \<noteq> [] \<Longrightarrow> hp_ativa p \<in> fst ` set groups"
proof (induction rule: panel_reach.induct)
  case (start groups)
  then show ?case by (cases groups) (simp_all add: fresh_panel_def)
next
  case (step groups p p')
  from step.hyps(2) show ?case
    by cases (use step key_target_range [of "length groups"] in auto)
qed

lemma find_group:
  "k \<in> fst ` set groups \<Longrightarrow> \<exists>items. find (\<lambda>g. fst g = k) groups = Some (k, items) \<and> (k, items) \<in> set groups"
  by (induction groups) auto

text \<open>
  Whatever is clicked, typed and pressed, the panel shows the group that was chosen last, and of it
  the items that the search finds; with white space or nothing in the search it shows all of them.
\<close>

theorem panel_shows_chosen_group:
  assumes "panel_reach groups p" "groups \<noteq> []"
  shows "\<exists>items. (hp_ativa p, items) \<in> set groups
    \<and> shown_group groups p = Some (hp_ativa p, items)
    \<and> set (shown_items lower groups p) \<subseteq> set items
    \<and> (lower (trim (hp_busca p)) = [] \<longrightarrow> shown_items lower groups p = items)"
proof -
  obtain items where g: "find (\<lambda>g. fst g = hp_ativa p) groups = Some (hp_ativa p, items)" "(hp_ativa p, items) \<in> set groups"
    using find_group [OF panel_active [OF assms]] by (elim exE conjE)
  have s: "shown_group groups p = Some (hp_ativa p, items)" by (simp add: shown_group_def g(1))
  have e: "shown_items lower groups p = (if lower (trim (hp_busca p)) = [] then items
      else filter (\<lambda>i. includes_text (lower (trim (hp_busca p))) (lower (hd_name i @ [32] @ hd_sub i))) items)"
    by (simp add: shown_items_def s Let_def)
  show ?thesis
  proof (intro exI conjI)
    show "set (shown_items lower groups p) \<subseteq> set items" unfolding e by simp
    show "lower (trim (hp_busca p)) = [] \<longrightarrow> shown_items lower groups p = items" unfolding e by simp
  qed (fact g(2), fact s)
qed


subsection \<open>Witnesses\<close>

definition demo_transfer :: tx where
  "demo_transfer = \<lparr>tx_id = js ''E7F'', tx_type = TOKEN_TRANSFER, tx_from = js ''E7A'', tx_to = Some (js ''E7B''),
     tx_amount = dec 5, tx_fee = dec 1, tx_nonce = 0, tx_timestamp = 1784160063000, tx_blockHeight = 7, tx_blockHash = None,
     tx_scheme = None, tx_data = None, tx_receipt = None,
     tx_asset = Some \<lparr>as_kind = js ''EAV20'', asset_id = js ''T1'', as_symbol = Some (js ''=1+1''), as_name = None,
       as_decimals = None, as_tokenId = None\<rparr>\<rparr>"

lemma demo_listed: "transferencias (js ''E7A'') (js ''all'') (js ''out'') [demo_transfer] = [demo_transfer]"
  by (simp add: transferencias_def todasTransferencias_def of_standard_def of_direction_def ehAtivo_def EAV20_TX_def
      demo_transfer_def)

theorem address_lists_partition_witness:
  "mset (transferencias (js ''E7A'') (js ''all'') (js ''in'') [demo_transfer])
     + mset (transferencias (js ''E7A'') (js ''all'') (js ''out'') [demo_transfer])
   = mset (transferencias (js ''E7A'') (js ''all'') (js ''all'') [demo_transfer])"
proof -
  have "list_all (\<lambda>x. tx_from x = js ''E7A'' \<or> tx_to x = Some (js ''E7A'')) [demo_transfer]"
    by (simp add: demo_transfer_def)
  then have "mset (transferencias (js ''E7A'') (js ''all'') (js ''in'') [demo_transfer])
      + mset (transferencias (js ''E7A'') (js ''all'') (js ''out'') [demo_transfer])
    = mset (transferencias (js ''E7A'') (js ''all'') (js ''all'') [demo_transfer])
      + mset (filter (\<lambda>x. tx_from x = js ''E7A'' \<and> tx_to x = Some (js ''E7A''))
          (transferencias (js ''E7A'') (js ''all'') (js ''all'') [demo_transfer]))"
    using address_lists_partition by blast
  moreover have "filter (\<lambda>x. tx_from x = js ''E7A'' \<and> tx_to x = Some (js ''E7A''))
      (transferencias (js ''E7A'') (js ''all'') (js ''all'') [demo_transfer]) = []"
    by (auto simp: filter_empty_conv transferencias_def todasTransferencias_def demo_transfer_def)
  ultimately show ?thesis by (simp only: mset.simps add_0_right)
qed


definition demo_analysis :: address_analysis where
  "demo_analysis = \<lparr>aa_address = js ''E7A'', aa_txCount = 3, aa_truncated = False, aa_firstSeen = None, aa_lastSeen = None,
     aa_sent = dec 0, aa_received = dec 0, aa_feesPaid = dec 0, aa_byType = [], aa_topCounterparties = [],
     aa_daily = [(js ''2026-07-15'', 0), (js ''2026-07-16'', 3)]\<rparr>"

theorem chart_in_frame_witness:
  "length (chart demo_analysis) = 2 \<and> list_all (\<lambda>(y, h). num_le (Num 2) h \<and> num_le h (Num 128)) (chart demo_analysis)"
proof -
  have "list_all (\<lambda>d. 0 \<le> snd d \<and> snd d \<le> 2 ^ 53) (aa_daily demo_analysis)" by (simp add: demo_analysis_def)
  then have "list_all (\<lambda>(y, h). num_le (Num 2) h \<and> num_le h (Num 128)) (chart demo_analysis)"
    using chart_in_frame by blast
  moreover have "length (chart demo_analysis) = 2" by (simp add: chart_def dias_of_def demo_analysis_def Let_def)
  ultimately show ?thesis by simp
qed

theorem panel_shows_chosen_group_witness:
  "shown_items to_lower [(js ''tokens'', []), (js ''names'', [])] (fresh_panel [(js ''tokens'', []), (js ''names'', [])]) = []"
  using panel_shows_chosen_group [OF panel_reach.start [of "[(js ''tokens'', []), (js ''names'', [])]"], of to_lower]
  by (auto simp: fresh_panel_def)

end
