(* ===== verification/DetailPages.thy ===== *)
theory DetailPages
  imports Faucet PriceMarket ApiTypes
begin

section \<open>The pages of a transaction and of a token\<close>

text \<open>
  What \<open>components/scan/detail/tx-view.tsx\<close> and \<open>token-view.tsx\<close> compute from the node's answers:
  confirmations, finality, the validators listed as confirming, the bars of the resources; the
  concentration of a token, its restricted accounts and the row of a holder. The markup is not
  modelled.
\<close>

subsection \<open>A transaction\<close>

definition FEE_LIMIT_E7 :: jsnum where "FEE_LIMIT_E7 = Num 100"
definition GB_BAR_DENOM :: jsnum where "GB_BAR_DENOM = Num 64000"
definition GAS_BAR_DENOM :: jsnum where "GAS_BAR_DENOM = Num 480000"

definition estimateWeightedBytes :: "tx \<Rightarrow> int" where
  "estimateWeightedBytes x = (case tx_data x of
       Some d \<Rightarrow> (case map_of d (js ''raw'') of
           Some (JStr raw) \<Rightarrow> if take 2 raw = js ''0x'' \<and> 2 < length raw then max 1 ((int (length raw) - 2) div 2)
             else max 800 (energyCost (tx_type_str (tx_type x)) * 400)
         | _ \<Rightarrow> max 800 (energyCost (tx_type_str (tx_type x)) * 400))
     | None \<Rightarrow> max 800 (energyCost (tx_type_str (tx_type x)) * 400))"

definition bar_pct :: "jsnum \<Rightarrow> jsnum \<Rightarrow> jsnum" where
  "bar_pct part whole = num_min (Num 100) (num_round (num_mul (num_div part whole) (Num 100)))"

definition gas_of :: "tx \<Rightarrow> jsnum option" where
  "gas_of x = (case tx_receipt x of Some r \<Rightarrow> (case rc_gasUsed r of Some g \<Rightarrow>
       if is_finite (num_of_str g) then Some (num_of_str g) else None | None \<Rightarrow> None) | None \<Rightarrow> None)"

definition resource_bar :: "jsnum \<Rightarrow> jsnum" where
  "resource_bar pct = num_max (Num 0) (num_min (Num 100) pct)"

record fee_resources =
  fr_feeUsd :: jsnum
  fr_gbBytes :: int
  fr_gbBar :: jsnum
  fr_burnBar :: jsnum
  fr_gasBar :: "jsnum option"

definition feeResources :: "jsnum \<Rightarrow> tx \<Rightarrow> fee_resources" where
  "feeResources priceUsd x = (let feeHuman = e7ToHuman (BStr (tx_fee x)); gb = estimateWeightedBytes x in
     \<lparr>fr_feeUsd = num_mul feeHuman priceUsd, fr_gbBytes = gb,
       fr_gbBar = resource_bar (bar_pct (num_of_int gb) GB_BAR_DENOM),
       fr_burnBar = resource_bar (bar_pct feeHuman FEE_LIMIT_E7),
       fr_gasBar = map_option (\<lambda>g. resource_bar (bar_pct g GAS_BAR_DENOM)) (gas_of x)\<rparr>)"

definition tx_altura :: "tx_detail \<Rightarrow> int" where
  "tx_altura d = (case td_blockHeight d of Some h \<Rightarrow> h | None \<Rightarrow> tx_blockHeight (td_tx d))"

definition tx_quando :: "tx_detail \<Rightarrow> int" where
  "tx_quando d = (case td_blockTime d of Some h \<Rightarrow> h | None \<Rightarrow> tx_timestamp (td_tx d))"

definition confirmacoes :: "status option \<Rightarrow> tx_detail \<Rightarrow> int option" where
  "confirmacoes st d = map_option (\<lambda>s. max 1 (st_height s - tx_altura d + 1)) st"

definition finalizado :: "status option \<Rightarrow> tx_detail \<Rightarrow> bool" where
  "finalizado st d \<longleftrightarrow> (case st of None \<Rightarrow> False
     | Some s \<Rightarrow> 0 \<le> st_finalizedHeight s \<and> tx_altura d \<le> st_finalizedHeight s)"

definition prefix_len :: "nat \<Rightarrow> jsnum" where
  "prefix_len n = num_max (Num 1) (num_min (num_of_int (int n)) (num_ceil (num_div (num_mul (num_of_int (int n)) (Num 2)) (Num 3))))"

definition slice_to :: "jsnum \<Rightarrow> 'a list \<Rightarrow> 'a list" where
  "slice_to k xs = (case k of PosInf \<Rightarrow> xs
     | Num q \<Rightarrow> if 0 \<le> q then take (nat \<lfloor>q\<rfloor>) xs else take (length xs - nat \<lfloor>- q\<rfloor>) xs
     | _ \<Rightarrow> [])"

definition confVals :: "status option \<Rightarrow> tx_detail \<Rightarrow> validator list \<Rightarrow> validator list" where
  "confVals st d vs = (if vs = [] then [] else if finalizado st d then vs else slice_to (prefix_len (length vs)) vs)"

definition EAVM_KEYS :: "jstr list" where
  "EAVM_KEYS = map js [''eavmFrom'', ''eavmTo'', ''eavmHash'']"

definition dados :: "tx \<Rightarrow> (jstr \<times> json) list" where
  "dados x = filter (\<lambda>(k, v). k \<notin> set EAVM_KEYS \<and> v \<noteq> JNull \<and> v \<noteq> JStr [])
     (case tx_data x of None \<Rightarrow> [] | Some d \<Rightarrow> d)"

definition temValor :: "tx \<Rightarrow> bool" where
  "temValor x \<longleftrightarrow> tx_asset x \<noteq> None \<or> tx_amount x \<noteq> js ''0''"

definition quantia :: "tx \<Rightarrow> jstr" where
  "quantia x = (case tx_asset x of
       Some a \<Rightarrow>
         if as_kind a = js ''EAV721'' then 35 # (case as_tokenId a of Some i \<Rightarrow> i | None \<Rightarrow> [8212])
         else if as_kind a = js ''EAV20'' then fmtToken (BStr (tx_amount x)) (nat (case as_decimals a of Some n \<Rightarrow> n | None \<Rightarrow> 0))
         else fmt (BStr (tx_amount x))
     | None \<Rightarrow> fmt (BStr (tx_amount x)))"

definition simbolo :: "tx \<Rightarrow> jstr" where
  "simbolo x = (case tx_asset x of
       Some a \<Rightarrow> if as_kind a = js ''EAV20'' then (case as_symbol a of Some s \<Rightarrow> s | None \<Rightarrow> js ''EAV20'') else js ''EAV7''
     | None \<Rightarrow> js ''EAV7'')"


subsection \<open>A block (\<open>block-view.tsx\<close>)\<close>

definition block_txs :: "block_detail \<Rightarrow> tx list" where
  "block_txs b = (case bd_transactions b of Some xs \<Rightarrow> xs | None \<Rightarrow> [])"

definition block_finalizado :: "status option \<Rightarrow> block_detail \<Rightarrow> bool" where
  "block_finalizado st b \<longleftrightarrow> (case st of None \<Rightarrow> False
     | Some s \<Rightarrow> 0 \<le> st_finalizedHeight s \<and> bk_height (bd_block b) \<le> st_finalizedHeight s)"

definition energia :: "block_detail \<Rightarrow> jsnum" where
  "energia b = foldl (\<lambda>s x. num_add s (num_of_int (energyCost (tx_type_str (tx_type x))))) (Num 0) (block_txs b)"

definition gasEavm :: "block_detail \<Rightarrow> jsnum" where
  "gasEavm b = foldl (\<lambda>s x. num_add s (case tx_receipt x of None \<Rightarrow> Num 0
     | Some r \<Rightarrow> (case rc_gasUsed r of None \<Rightarrow> Num 0 | Some g \<Rightarrow> num_of_str g))) (Num 0) (block_txs b)"

definition taxas :: "block_detail \<Rightarrow> int" where
  "taxas b = foldl (\<lambda>s x. case big_of_str (if tx_fee x = [] then js ''0'' else tx_fee x) of
     Inr n \<Rightarrow> s + n | Inl e \<Rightarrow> s) 0 (block_txs b)"

text \<open>The height the parent links to, and the gas when it is shown.\<close>

definition block_parent :: "block_detail \<Rightarrow> int option" where
  "block_parent b = (if bk_previousHash (bd_block b) \<noteq> [] \<and> 0 < bk_height (bd_block b)
     then Some (bk_height (bd_block b) - 1) else None)"

definition gas_shown :: "block_detail \<Rightarrow> jsnum option" where
  "gas_shown b = (if num_lt (Num 0) (gasEavm b) then Some (gasEavm b) else None)"


subsection \<open>A token\<close>

definition bloqueados :: "token_detail \<Rightarrow> jstr list" where
  "bloqueados k = map fst (filter snd (case tt_blacklist k of None \<Rightarrow> [] | Some b \<Rightarrow> b))"

definition congelados :: "token_detail \<Rightarrow> (jstr \<times> jstr \<times> int) list" where
  "congelados k = filter (\<lambda>(a, amount, u). case big_of_str amount of Inr n \<Rightarrow> 0 < n | Inl e \<Rightarrow> False)
     (case tt_frozen k of None \<Rightarrow> [] | Some f \<Rightarrow> f)"

definition topo :: "token_holder list \<Rightarrow> nat \<Rightarrow> jsnum" where
  "topo holders n = num_div (foldl (\<lambda>a h. num_add a (num_of_int (th_shareBps h))) (Num 0) (take n holders)) (Num 100)"

definition point_to_comma :: "jstr \<Rightarrow> jstr" where
  "point_to_comma s = (if 46 \<in> set s then takeWhile (\<lambda>c. c \<noteq> 46) s @ 44 # tl (dropWhile (\<lambda>c. c \<noteq> 46) s) else s)"

definition pct_text :: "jsnum \<Rightarrow> jstr" where
  "pct_text v = point_to_comma (to_fixed 2 v) @ js ''%''"

definition holder_pct :: "token_holder \<Rightarrow> jstr" where
  "holder_pct h = (let p = num_div (num_of_int (th_shareBps h)) (Num 100) in
     (if num_lt p (num_of_str (js ''0.01'')) then js ''<0,01'' else point_to_comma (to_fixed 2 p)) @ js ''%'')"

definition holder_bar :: "token_holder \<Rightarrow> jsnum" where
  "holder_bar h = num_max (num_div (num_of_int (th_shareBps h)) (Num 100)) (num_of_str (js ''0.4''))"

definition concentration_bar :: "token_holder list \<Rightarrow> nat \<Rightarrow> jsnum" where
  "concentration_bar holders n = num_min (topo holders n) (Num 100)"



section \<open>Lemmas\<close>

lemma is_f64_quarter: "\<bar>k\<bar> \<le> 2 ^ 53 \<Longrightarrow> is_f64 (of_int k / 4)"
  unfolding is_f64_def by (rule exI [of _ k], rule exI [of _ "- 2"]) (simp add: power_int_def power_divide)

lemma is_f64_256: "\<bar>k\<bar> \<le> 2 ^ 53 \<Longrightarrow> is_f64 (of_int k / 256)"
  unfolding is_f64_def by (rule exI [of _ k], rule exI [of _ "- 8"]) (simp add: power_int_def power_divide)

lemma to_num_small:
  assumes "0 \<le> q" "q \<le> of_int k" "k \<le> 2 ^ 53"
  shows "to_num q = Num (fl q)"
proof -
  have k: "0 \<le> k" using assms(1,2) by (metis of_int_0_le_iff order_trans)
  have "fl q \<le> of_int k" using fl_le_f64 [OF assms(2)] is_f64_of_int [of k] k assms(3) by simp
  moreover have "(of_int k :: rat) \<le> of_int (2 ^ 53)" using assms(3) by (simp only: of_int_le_iff)
  moreover have "(of_int (2 ^ 53) :: rat) < 2 ^ 1024" by simp
  ultimately have "fl q < 2 ^ 1024" by linarith
  moreover have "- (2 ^ 1024) < fl q" using fl_nonneg [OF assms(1)] by (simp add: less_le_trans)
  ultimately show ?thesis by (auto simp: to_num_def overflow_def)
qed

lemma prefix_len_value:
  assumes "1 \<le> n" "int n \<le> 2 ^ 50"
  shows "prefix_len n = Num (of_int ((2 * int n + 2) div 3))"
proof -
  define c where "c = (2 * int n + 2) div 3"
  have c: "3 * c \<le> 2 * int n + 2" "2 * int n \<le> 3 * c" by (simp_all add: c_def)
  have c1: "1 \<le> c" "c \<le> int n" "c \<le> 2 ^ 50" using c assms by simp_all
  define q where "q = (2 * of_int (int n) :: rat) / 3"
  have qu: "q \<le> of_int c" using c(2) by (simp add: q_def)
  have "(of_int (3 * c - 2) :: rat) \<le> of_int (2 * int n)" using c(1) by (simp only: of_int_le_iff)
  then have ql: "of_int (4 * c - 3) / 4 \<le> q" by (simp add: q_def)
  have fu: "fl q \<le> of_int c" using fl_le_f64 [OF qu] is_f64_of_int [of c] c1 by simp
  have fl: "of_int (4 * c - 3) / 4 \<le> fl q" using fl_ge_f64 [OF ql] is_f64_quarter [of "4 * c - 3"] c1 by simp
  have ce: "\<lceil>fl q\<rceil> = c" using fu fl by (intro ceiling_unique) simp_all
  have "num_of_int (int n) = Num (of_int (int n))" using assms by (simp add: num_of_int_small)
  moreover have "to_num (of_int (int n) * 2) = Num (of_int (2 * int n))"
    using num_of_int_small [of "2 * int n"] assms by (simp add: num_of_int_def mult.commute)
  moreover have "to_num q = Num (fl q)" using to_num_small [of q c] qu c1 by (simp add: q_def)
  ultimately have "num_div (num_mul (num_of_int (int n)) (Num 2)) (Num 3) = Num (fl q)" by (simp add: q_def)
  then have "num_ceil (num_div (num_mul (num_of_int (int n)) (Num 2)) (Num 3)) = Num (of_int c)"
    using ce by (simp add: num_ceil_def ceiling_def)
  then show ?thesis using c1 assms by (simp add: prefix_len_def num_min_def num_max_def num_of_int_small c_def [symmetric])
qed

lemma hundredths:
  assumes "0 \<le> k" "k \<le> 10 ^ 9"
  shows "num_div (num_of_int k) (Num 100) = Num (fl (of_int k / 100))"
    and "scaled 2 (fl (of_int k / 100)) = nat k" and "0 \<le> fl (of_int k / 100)" and "fl (of_int k / 100) < 10 ^ 21"
proof -
  define q where "q = (of_int k :: rat) / 100"
  define l where "l = k * 256 div 100"
  have l: "l * 100 \<le> k * 256" "k * 256 < (l + 1) * 100" by (simp_all add: l_def)
  have lb: "0 \<le> l" "l \<le> 2 ^ 40" using l assms by simp_all
  have "(of_int (l * 100) :: rat) \<le> of_int (k * 256)" "(of_int (k * 256) :: rat) < of_int ((l + 1) * 100)"
    using l by (simp_all only: of_int_le_iff of_int_less_iff)
  then have ql: "of_int l / 256 \<le> q" and qu: "q \<le> of_int (l + 1) / 256" and q2: "q < of_int l / 256 + 1 / 256"
    and q3: "of_int (l + 1) / 256 \<le> q + 1 / 256"
    by (simp_all add: q_def)
  have f: "of_int l / 256 \<le> fl q" "fl q \<le> of_int (l + 1) / 256"
    using fl_ge_f64 [OF ql] fl_le_f64 [OF qu] is_f64_256 [of l] is_f64_256 [of "l + 1"] lb by simp_all
  have "of_int k - 1 / 2 < fl q * 100" "fl q * 100 < of_int k + 1 / 2"
    using f q2 q3 by (simp_all add: q_def)
  then have "\<lfloor>fl q * 100 + 1 / 2\<rfloor> = k" by linarith
  then show "scaled 2 (fl (of_int k / 100)) = nat k" by (simp add: scaled_def q_def)
  have q0: "0 \<le> q" using assms by (simp add: q_def)
  then show "0 \<le> fl (of_int k / 100)" using fl_nonneg [of q] by (simp add: q_def)
  have "fl q \<le> of_int (2 ^ 40 + 1) / 256" using f(2) lb by (simp add: divide_right_mono order_trans)
  then show "fl (of_int k / 100) < 10 ^ 21" by (simp add: q_def)
  have "q \<le> of_int k" using assms by (simp add: q_def)
  then have "to_num q = Num (fl q)" using to_num_small [of q k] q0 assms by simp
  then show "num_div (num_of_int k) (Num 100) = Num (fl (of_int k / 100))"
    using assms by (simp add: num_of_int_small q_def)
qed


definition percent_text :: "int \<Rightarrow> jstr" where
  "percent_text k = dec (nat (k div 100)) @ [44] @ pad_start 2 48 (dec (nat (k mod 100))) @ [37]"

lemma dec_no_point: "46 \<notin> set (dec n)"
  using dec_digits [of n] by (auto simp: list_all_iff is_digit_def)

lemma point_to_comma_at: "46 \<notin> set w \<Longrightarrow> point_to_comma (w @ 46 # f) = w @ 44 # f"
proof -
  assume w: "46 \<notin> set w"
  have "takeWhile (\<lambda>c. c \<noteq> 46) (w @ 46 # f) = w" "dropWhile (\<lambda>c. c \<noteq> 46) (w @ 46 # f) = 46 # f"
    using w by (induction w) auto
  then show ?thesis by (simp add: point_to_comma_def)
qed

lemma pct_text_hundredths:
  assumes "0 \<le> k" "k \<le> 10 ^ 9"
  shows "pct_text (num_div (num_of_int k) (Num 100)) = percent_text k"
proof -
  note h = hundredths [OF assms]
  have n: "nat k div 100 = nat (k div 100)" "nat k mod 100 = nat (k mod 100)"
    using assms(1) by (simp_all add: nat_div_distrib nat_mod_distrib)
  have ne: "pad_start 2 48 (dec (nat (k mod 100))) \<noteq> []"
    using to_base_nonempty [of 10 "nat (k mod 100)"] by (simp add: pad_start_def)
  have "to_fixed 2 (Num (fl (of_int k / 100)))
      = dec (nat (k div 100)) @ [46] @ pad_start 2 48 (dec (nat (k mod 100)))"
    using h ne by (simp add: with_frac_def int_part_def frac_part_def n abs_of_nonneg del: fl_zero)
  then show ?thesis
    using point_to_comma_at [OF dec_no_point] by (simp add: pct_text_def percent_text_def h(1) js_eval)
qed

lemma nonneg_sum: "list_all (\<lambda>h. 0 \<le> f h) hs \<Longrightarrow> 0 \<le> sum_list (map f hs)" for f :: "'a \<Rightarrow> int"
  by (induction hs) simp_all

lemma energy_nonneg [simp]: "0 \<le> energyCost k"
proof -
  have "list_all (\<lambda>c. 0 \<le> snd c) ENERGY_COST" by (simp add: ENERGY_COST_def)
  then show ?thesis by (auto simp: energyCost_def list_all_iff dest!: map_of_SomeD split: option.split)
qed

text \<open>A sum of integers is exact while it stays below 2^53.\<close>

lemma int_sum_from:
  fixes f :: "'a \<Rightarrow> int"
  shows "list_all (\<lambda>h. 0 \<le> f h) hs \<Longrightarrow> 0 \<le> a \<Longrightarrow> a + sum_list (map f hs) \<le> 2 ^ 53 \<Longrightarrow>
    foldl (\<lambda>a h. num_add a (num_of_int (f h))) (Num (of_int a)) hs = Num (of_int (a + sum_list (map f hs)))"
proof (induction hs arbitrary: a)
  case (Cons h hs)
  have s: "0 \<le> sum_list (map f hs)" using Cons.prems(1) nonneg_sum [of f hs] by simp
  have "num_add (Num (of_int a)) (num_of_int (f h)) = num_of_int (a + f h)"
  proof -
    have "num_of_int (f h) = Num (of_int (f h))" using Cons.prems s by (simp add: num_of_int_small)
    then show ?thesis by (simp add: num_of_int_def)
  qed
  also have "\<dots> = Num (of_int (a + f h))" using Cons.prems s by (simp add: num_of_int_small)
  finally show ?case using Cons.IH [of "a + f h"] Cons.prems by (simp add: add.assoc)
qed simp

lemma int_sum_exact:
  fixes f :: "'a \<Rightarrow> int"
  shows "list_all (\<lambda>h. 0 \<le> f h) hs \<Longrightarrow> sum_list (map f hs) \<le> 2 ^ 53 \<Longrightarrow>
    foldl (\<lambda>a h. num_add a (num_of_int (f h))) (Num 0) hs = Num (of_int (sum_list (map f hs)))"
  using int_sum_from [of f hs 0] by simp

lemma dec_filled: "dec n \<noteq> [] \<and> [] \<noteq> dec n"
proof -
  have "dec n \<noteq> []" using to_base_nonempty [of 10 n] by simp
  then show ?thesis by metis
qed

lemma fees_from:
  "list_all (\<lambda>x. \<exists>n. tx_fee x = dec n) xs \<Longrightarrow>
    foldl (\<lambda>s x. case big_of_str (if tx_fee x = [] then js ''0'' else tx_fee x) of Inr n \<Rightarrow> s + n | Inl e \<Rightarrow> s) a xs
      = a + sum_list (map (\<lambda>x. int (undec (tx_fee x))) xs)"
  using dec_filled by (induction xs arbitrary: a) fastforce+


section \<open>Properties\<close>

text \<open>
  The validators listed as confirming are the whole set once the block is final, and before that
  always the first two thirds of it, rounded up: at least one, and the same ones whatever the number
  of confirmations.
\<close>

theorem confirming_validators:
  assumes "vs \<noteq> []" "int (length vs) \<le> 2 ^ 50"
  shows "confVals st d vs = (if finalizado st d then vs else take (nat ((2 * int (length vs) + 2) div 3)) vs)
    \<and> 1 \<le> length (confVals st d vs)"
proof -
  have n: "1 \<le> length vs" using assms(1) by (cases vs) simp_all
  have p: "1 \<le> (2 * int (length vs) + 2) div 3" using n by linarith
  have "confVals st d vs = (if finalizado st d then vs else take (nat ((2 * int (length vs) + 2) div 3)) vs)"
    using assms(1) p prefix_len_value [OF n assms(2)] by (simp add: confVals_def slice_to_def)
  then show ?thesis using n p by (simp add: le_nat_iff)
qed

text \<open>
  The concentration loses no precision: for holders whose shares are whole basis points, at most 10^9
  together, the percentage of the first n is printed with exactly the two decimals of their sum.
\<close>

theorem concentration_exact:
  assumes "list_all (\<lambda>h. 0 \<le> th_shareBps h) holders" "sum_list (map th_shareBps holders) \<le> 10 ^ 9"
  shows "pct_text (topo holders n) = percent_text (sum_list (map th_shareBps (take n holders)))
    \<and> sum_list (map th_shareBps (take n holders)) \<le> sum_list (map th_shareBps holders)"
proof -
  define S where "S = sum_list (map th_shareBps (take n holders))"
  have p: "list_all (\<lambda>h. 0 \<le> th_shareBps h) (take n holders)" "list_all (\<lambda>h. 0 \<le> th_shareBps h) (drop n holders)"
    using assms(1) by (auto simp: list_all_iff dest: in_set_takeD in_set_dropD)
  have "sum_list (map th_shareBps holders) = S + sum_list (map th_shareBps (drop n holders))"
    unfolding S_def by (metis append_take_drop_id map_append sum_list_append)
  moreover have "0 \<le> sum_list (map th_shareBps (drop n holders))" "0 \<le> S"
    using nonneg_sum [OF p(1)] nonneg_sum [OF p(2)] by (simp_all add: S_def)
  ultimately have S: "0 \<le> S" "S \<le> sum_list (map th_shareBps holders)" "S \<le> 10 ^ 9" using assms(2) by simp_all
  have "topo holders n = num_div (num_of_int S) (Num 100)"
    using int_sum_from [OF p(1), of 0] S by (simp add: topo_def S_def [symmetric] num_of_int_small)
  then show ?thesis using pct_text_hundredths [OF S(1,3)] S(2) by (simp add: S_def)
qed

text \<open>
  The bars of the resources stay between empty and full: for a number of bytes or of gas from none to
  2^53 the bar is a percentage from 0 to 100.
\<close>

theorem resource_bar_bounds:
  assumes "p \<noteq> NaN"
  shows "num_le (Num 0) (resource_bar p) \<and> num_le (resource_bar p) (Num 100)"
  using assms by (cases p) (auto simp: resource_bar_def num_max_def num_min_def)


text \<open>
  The totals of a block are those of its transactions: the energy is the exact sum of their costs while
  it stays below 2^53, and the fees are the exact sum of the fees when every one is written in digits.
\<close>

theorem block_totals_exact:
  assumes "sum_list (map (\<lambda>x. energyCost (tx_type_str (tx_type x))) (block_txs b)) \<le> 2 ^ 53"
    and "list_all (\<lambda>x. \<exists>n. tx_fee x = dec n) (block_txs b)"
  shows "energia b = Num (of_int (sum_list (map (\<lambda>x. energyCost (tx_type_str (tx_type x))) (block_txs b))))
    \<and> taxas b = sum_list (map (\<lambda>x. int (undec (tx_fee x))) (block_txs b))"
  using assms int_sum_exact [of "\<lambda>x. energyCost (tx_type_str (tx_type x))" "block_txs b"] energy_nonneg fees_from [of "block_txs b" 0]
  by (simp add: energia_def taxas_def list_all_iff)


subsection \<open>Witnesses\<close>

definition demo_block :: block_detail where
  "demo_block = \<lparr>bd_block = \<lparr>bk_height = 7, bk_timestamp = 0, bk_previousHash = js ''ab'', bk_txRoot = [], bk_txCount = 1, bk_producer = [],
       bk_hash = None, bk_protocol = None, bk_scheme = None, bk_size = None\<rparr>, bd_version = None, bd_publicKey = None, bd_pqPublicKey = None,
     bd_transactions = Some [\<lparr>tx_id = [], tx_type = TRANSFER, tx_from = [], tx_to = None, tx_amount = dec 5, tx_fee = dec 3, tx_nonce = 0,
       tx_timestamp = 0, tx_blockHeight = 7, tx_blockHash = None, tx_scheme = None, tx_data = None, tx_receipt = None, tx_asset = None\<rparr>],
     bd_error = None\<rparr>"

theorem block_totals_exact_witness: "taxas demo_block = 3 \<and> block_parent demo_block = Some 6"
proof -
  have t: "list_all (\<lambda>x. \<exists>n. tx_fee x = dec n) (block_txs demo_block)"
    by (simp add: demo_block_def block_txs_def exI [of _ 3])
  have e: "(\<Sum>x\<leftarrow>block_txs demo_block. energyCost (tx_type_str (tx_type x))) \<le> 2 ^ 53"
    by (simp add: demo_block_def block_txs_def energyCost_def ENERGY_COST_def)
  have "taxas demo_block = (\<Sum>x\<leftarrow>block_txs demo_block. int (undec (tx_fee x)))" using block_totals_exact [OF e t] by blast
  then show ?thesis by (simp add: demo_block_def block_txs_def block_parent_def)
qed

definition demo_holder :: "nat \<Rightarrow> int \<Rightarrow> token_holder" where
  "demo_holder r bps = \<lparr>th_rank = int r, th_address = js ''E7A'', th_balance = dec 1, th_shareBps = bps, th_frozen = dec 0,
     th_blacklisted = False\<rparr>"

theorem concentration_exact_witness:
  "pct_text (topo [demo_holder 1 6505, demo_holder 2 3495] 1) = js ''65,05%''"
proof -
  have "pct_text (topo [demo_holder 1 6505, demo_holder 2 3495] 1) = percent_text 6505"
    using concentration_exact [of "[demo_holder 1 6505, demo_holder 2 3495]" 1] by (simp add: demo_holder_def)
  also have "\<dots> = js ''65,05%''" by (simp add: percent_text_def pad_start_def js_eval to_base.simps digit_char_def)
  finally show ?thesis .
qed

definition demo_active :: validator where
  "demo_active = \<lparr>vl_address = js ''E7A'', vl_staked = dec 1, vl_votes = None, vl_name = None\<rparr>"

theorem confirming_validators_witness:
  "\<forall>d :: tx_detail. length (confVals None d [demo_active, demo_active, demo_active]) = 2"
  using confirming_validators [of "[demo_active, demo_active, demo_active]" None] by (simp add: finalizado_def)

theorem resource_bar_bounds_witness:
  "num_le (Num 0) (resource_bar PosInf) \<and> num_le (resource_bar PosInf) (Num 100)"
  using resource_bar_bounds [of PosInf] by simp

end
