(* ===== verification/AccountPage.thy ===== *)
theory AccountPage
  imports AddressPage DetailPages StakePanel PartnerTranche
begin

section \<open>The open wallet (\<open>components/wallet/account-view.tsx\<close>)\<close>

text \<open>
  The page of an open wallet: its tabs and floating panels, the question before the wallet is wiped,
  the claim at the faucet, and what it computes from the node's answer: the composition of the
  balance, the progress to the next tier, the rows of the activity and of the tokens
  (\<open>components/tx-value.tsx\<close>). The query that refreshes the answer is an argument, the texts of
  \<open>t\<close> are left out, and the panels are the models of \<open>SendFlow\<close>, \<open>StakePanel\<close> and \<open>PartnerTranche\<close>.
\<close>

subsection \<open>The state of the page\<close>

datatype acct_panel = NoPanel | SendPanel | StakingPanel | ReceivePanel | PartnerPanel
datatype acct_tab = PortfolioTab | ActivityTab | AddressesTab | SecurityTab
datatype claim_state = ClaimIdle | ClaimLoading | ClaimOk | ClaimError jstr
datatype account_call = CallLock | CallWipe

text \<open>
  \<open>ac_claims\<close> counts the requests to the faucet under way, \<open>ac_refetch\<close> the timers set to refresh;
  \<open>ac_calls\<close> are the calls of \<open>onLock\<close> and \<open>onWipe\<close>, \<open>ac_files\<close> the downloads.
\<close>

record account_page =
  ac_panel :: acct_panel
  ac_tab :: acct_tab
  ac_showWipe :: bool
  ac_faucet :: claim_state
  ac_claims :: nat
  ac_refetch :: nat
  ac_calls :: "account_call list"
  ac_files :: "(jstr \<times> json) list"

definition open_account :: account_page where
  "open_account = \<lparr>ac_panel = NoPanel, ac_tab = PortfolioTab, ac_showWipe = False, ac_faucet = ClaimIdle,
     ac_claims = 0, ac_refetch = 0, ac_calls = [], ac_files = []\<rparr>"

definition partner_offered :: "jstr option \<Rightarrow> jstr option \<Rightarrow> account \<Rightarrow> bool" where
  "partner_offered vaultEnv ownerEnv acct \<longleftrightarrow> PARTNER_TRANCHE_ENABLED vaultEnv \<and> isPartnerOwner ownerEnv (evm acct)"

definition account_file :: "account \<Rightarrow> jstr \<times> json" where
  "account_file acct = (js ''eav7-'' @ take 10 (eav7 acct) @ js ''.json'',
     JObj [(js ''chain'', JStr (js ''EAV7'')), (js ''privateKey'', JStr (privateKey acct)),
       (js ''evm'', JStr (evm acct)), (js ''eav7'', JStr (eav7 acct))])"

definition claimFaucet :: "account_page \<Rightarrow> account_page" where
  "claimFaucet p = p\<lparr>ac_faucet := ClaimLoading, ac_claims := ac_claims p + 1\<rparr>"

definition claim_settled :: "(jstr option \<times> jstr option) res \<Rightarrow> account_page \<Rightarrow> account_page" where
  "claim_settled r p = (let q = p\<lparr>ac_claims := ac_claims p - 1\<rparr> in
     case r of Inl e \<Rightarrow> q\<lparr>ac_faucet := ClaimError e\<rparr>
     | Inr x \<Rightarrow> q\<lparr>ac_faucet := ClaimOk, ac_refetch := ac_refetch p + 1\<rparr>)"

definition confirm_wipe :: "account_page \<Rightarrow> account_page" where
  "confirm_wipe p = p\<lparr>ac_showWipe := False, ac_calls := ac_calls p @ [CallWipe]\<rparr>"

text \<open>A handler runs where its button is rendered and not disabled.\<close>

inductive account_step ::
    "web_env \<Rightarrow> (jstr \<Rightarrow> jstr \<Rightarrow> (nat \<times> Api.faucet_reply option) res) \<Rightarrow> bool \<Rightarrow> account \<Rightarrow> account_page \<Rightarrow> account_page \<Rightarrow> bool"
  for e post partner acct where
  choose_tab: "account_step e post partner acct p (p\<lparr>ac_tab := t\<rparr>)"
| open_panel: "ac_tab p = PortfolioTab \<Longrightarrow> k \<in> {SendPanel, ReceivePanel, StakingPanel} \<Longrightarrow>
    account_step e post partner acct p (p\<lparr>ac_panel := k\<rparr>)"
| open_partner: "ac_tab p = PortfolioTab \<Longrightarrow> partner \<Longrightarrow>
    account_step e post partner acct p (p\<lparr>ac_panel := PartnerPanel\<rparr>)"
| close_panel: "ac_panel p \<noteq> NoPanel \<Longrightarrow> account_step e post partner acct p (p\<lparr>ac_panel := NoPanel\<rparr>)"
| lock: "account_step e post partner acct p (p\<lparr>ac_calls := ac_calls p @ [CallLock]\<rparr>)"
| ask_wipe: "account_step e post partner acct p (p\<lparr>ac_showWipe := True\<rparr>)"
| cancel_wipe: "ac_showWipe p \<Longrightarrow> account_step e post partner acct p (p\<lparr>ac_showWipe := False\<rparr>)"
| wipe: "ac_showWipe p \<Longrightarrow> account_step e post partner acct p (confirm_wipe p)"
| download: "ac_tab p = SecurityTab \<or> ac_showWipe p \<Longrightarrow>
    account_step e post partner acct p (p\<lparr>ac_files := ac_files p @ [account_file acct]\<rparr>)"
| claim: "ac_tab p = PortfolioTab \<Longrightarrow> FAUCET_URL e \<noteq> None \<Longrightarrow> ac_faucet p \<noteq> ClaimLoading \<Longrightarrow>
    account_step e post partner acct p (claimFaucet p)"
| settled: "0 < ac_claims p \<Longrightarrow>
    account_step e post partner acct p (claim_settled (requestFaucet e post (eav7 acct)) p)"
| refetched: "0 < ac_refetch p \<Longrightarrow> account_step e post partner acct p (p\<lparr>ac_refetch := ac_refetch p - 1\<rparr>)"


subsection \<open>What it shows\<close>

text \<open>\<open>BigInt(info?.balance ?? "0")\<close> and the like: a text the node did not write as an integer throws.\<close>

record account_figures =
  fg_balance :: int
  fg_staked :: int
  fg_total :: int
  fg_stakedEav7 :: jsnum
  fg_tier :: stake_tier

definition account_figures :: "address_info option \<Rightarrow> account_figures res" where
  "account_figures info =
    bind_res (big_of_str (case info of Some i \<Rightarrow> ai_balance i | None \<Rightarrow> js ''0'')) (\<lambda>b.
    bind_res (big_of_str (case info of Some i \<Rightarrow> ai_staked i | None \<Rightarrow> js ''0'')) (\<lambda>s.
      Inr \<lparr>fg_balance = b, fg_staked = s, fg_total = b + s, fg_stakedEav7 = stakedEav7 s, fg_tier = tierOf (stakedEav7 s)\<rparr>))"

definition balPct :: "account_figures \<Rightarrow> jsnum" where
  "balPct g = (if 0 < fg_total g
     then num_div (num_of_int (big_div (fg_balance g * 10000) (fg_total g))) (Num 100) else Num 100)"

definition stkPct :: "account_figures \<Rightarrow> jsnum" where
  "stkPct g = (if 0 < fg_total g
     then num_div (num_of_int (big_div (fg_staked g * 10000) (fg_total g))) (Num 100) else Num 0)"

text \<open>The texts beside the bar: \<open>balPct.toFixed(0)\<close> and \<open>stkPct.toFixed(0)\<close>.\<close>

definition composition_text :: "account_figures \<Rightarrow> jstr \<times> jstr" where
  "composition_text g = (to_fixed 0 (balPct g) @ [37], to_fixed 0 (stkPct g) @ [37])"

fun tier_next :: "stake_tier \<Rightarrow> int option" where
  "tier_next Validator = None"
| "tier_next FeeZero = Some 1000"
| "tier_next Standard = Some 100"

text \<open>The width of the bar and what remains to the tier it names.\<close>

definition tier_progress :: "jsnum \<Rightarrow> (jsnum \<times> jsnum \<times> stake_tier) option" where
  "tier_progress staked = map_option (\<lambda>next.
      (num_min (Num 100) (num_mul (num_div staked (num_of_int next)) (Num 100)),
       num_max (Num 0) (num_sub (num_of_int next) staked),
       if next = 100 then FeeZero else Validator)) (tier_next (tierOf staked))"

definition VALUE_TYPES :: "tx_type list" where
  "VALUE_TYPES = [TRANSFER, EAVM_TRANSFER, STAKE, UNSTAKE, AI_TASK, BRIDGE_OUT, BRIDGE_IN, VESTING_CREATE,
     VESTING_CLAIM, CLAIM_VOTER_REWARD, META_TX, DELEGATE_RESOURCE, UNDELEGATE_RESOURCE]"

definition TOKEN_AMOUNT_TYPES :: "tx_type list" where
  "TOKEN_AMOUNT_TYPES = [TOKEN_TRANSFER, TOKEN_TRANSFER_FROM, TOKEN_MINT, TOKEN_BURN]"

definition data_field :: "tx \<Rightarrow> jstr \<Rightarrow> json option" where
  "data_field x k = (case tx_data x of Some d \<Rightarrow> (case map_of d k of Some JNull \<Rightarrow> None | v \<Rightarrow> v) | None \<Rightarrow> None)"

text \<open>\<open>TxValue\<close>: the name of a \<open>NAME_\<close> transaction is a text in the node's answer.\<close>

definition tx_other_value :: "tx \<Rightarrow> jstr" where
  "tx_other_value x =
    (if tx_type x \<in> set TOKEN_AMOUNT_TYPES then tx_amount x @ js '' token''
     else if take 4 (tx_type_str (tx_type x)) = js ''NFT_'' then
       (case data_field x (js ''tokenId'') of Some v \<Rightarrow> 35 # json_str v @ js '' nft'' | None \<Rightarrow> js ''nft'')
     else if take 5 (tx_type_str (tx_type x)) = js ''NAME_'' then
       (case data_field x (js ''name'') of Some (JStr (c # s)) \<Rightarrow> c # s | _ \<Rightarrow> [8212])
     else [8212])"

definition tx_value :: "tx \<Rightarrow> jstr res" where
  "tx_value x = (if tx_type x \<in> set VALUE_TYPES
     then bind_res (big_of_str (if tx_amount x = [] then js ''0'' else tx_amount x)) (\<lambda>n.
       Inr (if 0 < n then fmt (BStr (tx_amount x)) @ js '' EAV7'' else tx_other_value x))
     else Inr (tx_other_value x))"

text \<open>A row of the activity: whether the account sent it, and its value.\<close>

definition activity_rows :: "(jstr \<Rightarrow> jstr) \<Rightarrow> account \<Rightarrow> tx list \<Rightarrow> (bool \<times> jstr res) list" where
  "activity_rows upper acct txs = map (\<lambda>x. (upper (tx_from x) = upper (eav7 acct), tx_value x)) txs"

definition token_rows :: "address_info \<Rightarrow> (jstr \<times> jstr) list" where
  "token_rows info = map (\<lambda>(i, tk). (case tb_symbol tk of Some s \<Rightarrow> s | None \<Rightarrow> [8212],
     case tb_balance tk of Some b \<Rightarrow> b | None \<Rightarrow> js ''0'')) (ai_tokens info)"


subsection \<open>The network (\<open>lib/eavm-chain.ts\<close>, \<open>add-network-button.tsx\<close>, \<open>use-account-info.ts\<close>)\<close>

definition IS_TESTNET :: "web_env \<Rightarrow> bool" where
  "IS_TESTNET e \<longleftrightarrow> we_NETWORK e = Some (js ''testnet'')"

definition EAVM_CHAIN_ID_DEC :: "web_env \<Rightarrow> int" where
  "EAVM_CHAIN_ID_DEC e = (if IS_TESTNET e then 72021 else 72020)"
definition EAVM_CHAIN_ID_HEX :: "web_env \<Rightarrow> jstr" where
  "EAVM_CHAIN_ID_HEX e = (if IS_TESTNET e then js ''0x11955'' else js ''0x11954'')"
definition EAVM_RPC_URL :: "web_env \<Rightarrow> jstr" where
  "EAVM_RPC_URL e = (if IS_TESTNET e then js ''https://rpc-testnet.eavscan.com'' else js ''https://rpc.eavscan.com'')"
definition EAVM_EXPLORER_URL :: "web_env \<Rightarrow> jstr" where
  "EAVM_EXPLORER_URL e = (if IS_TESTNET e then js ''https://testnet.eavscan.com'' else js ''https://eavscan.com'')"

record chain_params =
  cp_chainId :: jstr
  cp_chainName :: jstr
  cp_currency :: "jstr \<times> jstr \<times> nat"
  cp_rpcUrls :: "jstr list"
  cp_blockExplorerUrls :: "jstr list"
  cp_iconUrls :: "jstr list"

definition EAVM_CHAIN_PARAMS :: "web_env \<Rightarrow> chain_params" where
  "EAVM_CHAIN_PARAMS e = \<lparr>cp_chainId = EAVM_CHAIN_ID_HEX e,
     cp_chainName = (if IS_TESTNET e then js ''EAV7 Testnet'' else js ''EAV7''),
     cp_currency = (js ''EAV7'', js ''EAV7'', 18), cp_rpcUrls = [EAVM_RPC_URL e],
     cp_blockExplorerUrls = [EAVM_EXPLORER_URL e], cp_iconUrls = [EAVM_EXPLORER_URL e @ js ''/icon-512.png'']\<rparr>"

definition EAVM_MANUAL_NETWORK :: "web_env \<Rightarrow> jstr" where
  "EAVM_MANUAL_NETWORK e =
     js ''Nome da rede   '' @ cp_chainName (EAVM_CHAIN_PARAMS e) @ [10]
     @ js ''RPC            '' @ EAVM_RPC_URL e @ [10]
     @ js ''Chain ID       '' @ big_str (EAVM_CHAIN_ID_DEC e) @ js ''            ('' @ EAVM_CHAIN_ID_HEX e @ [41, 10]
     @ js ''S'' @ [237] @ js ''mbolo        EAV7'' @ [10]
     @ js ''Decimais       18               (a superf'' @ [237] @ js ''cie EAVM assume 18)'' @ [10]
     @ js ''Explorador     '' @ EAVM_EXPLORER_URL e @ [10]
     @ [205] @ js ''cone          '' @ EAVM_EXPLORER_URL e @ js ''/icon-512.png''"

datatype add_state = AddIdle | AddLoading | AddOk | NoProvider | AddError

text \<open>
  \<open>add\<close> up to its await and after it: the provider of the browser is asked for the method and the
  parameters, and its answer is an argument. None is a browser without a provider.
\<close>

definition add_network :: "web_env \<Rightarrow> bool \<Rightarrow> add_state \<times> (jstr \<times> chain_params) option" where
  "add_network e provider = (if provider then (AddLoading, Some (js ''wallet_addEthereumChain'', EAVM_CHAIN_PARAMS e))
     else (NoProvider, None))"

definition add_settled :: "unit res \<Rightarrow> add_state" where
  "add_settled r = (case r of Inr u \<Rightarrow> AddOk | Inl x \<Rightarrow> AddError)"

text \<open>The chain the forms sign for: the status of the node, or the number of the main chain.\<close>

definition useChainId :: "status option \<Rightarrow> int" where
  "useChainId st = (case st of Some s \<Rightarrow> vm_chainId (st_eavm s) | None \<Rightarrow> 72020)"


section \<open>Lemmas\<close>

inductive_cases account_stepE: "account_step e post partner acct p q"

definition account_ok :: "web_env \<Rightarrow> bool \<Rightarrow> account \<Rightarrow> account_page \<Rightarrow> bool" where
  "account_ok e partner acct p \<longleftrightarrow> ac_claims p = (if ac_faucet p = ClaimLoading then 1 else 0)
     \<and> (FAUCET_URL e = None \<longrightarrow> ac_faucet p = ClaimIdle) \<and> (ac_panel p = PartnerPanel \<longrightarrow> partner)
     \<and> list_all (\<lambda>f. f = account_file acct) (ac_files p)"

lemma open_account_ok: "account_ok e partner acct open_account"
  by (simp add: account_ok_def open_account_def)

lemma account_step_ok: "account_step e post partner acct p q \<Longrightarrow> account_ok e partner acct p \<Longrightarrow> account_ok e partner acct q"
  by (induction rule: account_step.induct)
    (auto simp: account_ok_def confirm_wipe_def claimFaucet_def claim_settled_def Let_def split: if_splits sum.splits)

definition account_reach :: "web_env \<Rightarrow> (jstr \<Rightarrow> jstr \<Rightarrow> (nat \<times> Api.faucet_reply option) res) \<Rightarrow> bool \<Rightarrow> account \<Rightarrow> account_page \<Rightarrow> bool" where
  "account_reach e post partner acct p \<longleftrightarrow> (account_step e post partner acct)\<^sup>*\<^sup>* open_account p"

lemma account_reach_ok: "account_reach e post partner acct p \<Longrightarrow> account_ok e partner acct p"
  unfolding account_reach_def by (induction rule: rtranclp_induct) (auto intro: open_account_ok account_step_ok)

lemma wipe_confirmed:
  "account_step e post partner acct p q \<Longrightarrow> count_list (ac_calls p) CallWipe < count_list (ac_calls q) CallWipe \<Longrightarrow>
    ac_showWipe p \<and> q = confirm_wipe p"
  by (induction rule: account_step.induct)
    (auto simp: confirm_wipe_def claimFaucet_def claim_settled_def Let_def split: sum.splits)

lemma tier_next_at:
  "0 \<le> st \<Longrightarrow> st < 2 ^ 33 * 10 ^ 6 \<Longrightarrow> tier_next (tierOf (stakedEav7 st)) =
    (if 1000 * 10 ^ 6 \<le> st then None else if 100 * 10 ^ 6 \<le> st then Some 1000 else Some 100)"
  by (simp add: tierOf_exact tier_of_e7_def)


lemma hundredths_rounded:
  assumes "0 \<le> k" "k \<le> 10 ^ 9"
  shows "scaled 0 (fl (of_int k / 100)) = nat ((k + 50) div 100)"
proof -
  define q where "q = (of_int k :: rat) / 100"
  define d where "d = (k + 50) div 100"
  define r where "r = (k + 50) mod 100"
  have k: "k = 100 * d + r - 50" "0 \<le> r" "r < 100" by (simp_all add: d_def r_def)
  have k': "(of_int k :: rat) = 100 * of_int d + of_int r - 50" by (subst k(1)) simp
  have "\<lfloor>fl q + 1 / 2\<rfloor> = d"
  proof (cases "r = 0")
    case True
    have q: "q = of_int (k * 256 div 100) / 256"
    proof -
      have "k * 256 div 100 = 256 * d - 128" using k(1) True by simp
      then have "(of_int (k * 256 div 100) :: rat) = 256 * of_int d - 128" by simp
      then show ?thesis using k' True by (simp add: q_def)
    qed
    have "is_f64 q" unfolding q by (rule is_f64_256) (use assms in simp_all)
    then have f: "fl q = q" by (rule fl_f64)
    have "q = of_int d - 1 / 2" using k' True by (simp add: q_def field_simps)
    then show ?thesis unfolding f by simp
  next
    case False
    define l where "l = k * 256 div 100"
    have l: "l * 100 \<le> k * 256" "k * 256 < (l + 1) * 100" by (simp_all add: l_def)
    have lb: "0 \<le> l" "l \<le> 2 ^ 40" using l assms by simp_all
    have "(of_int (l * 100) :: rat) \<le> of_int (k * 256)" "(of_int (k * 256) :: rat) < of_int ((l + 1) * 100)"
      using l by (simp_all only: of_int_le_iff of_int_less_iff)
    then have ql: "of_int l / 256 \<le> q" and qu: "q \<le> of_int (l + 1) / 256" and q2: "q < of_int l / 256 + 1 / 256"
      and q3: "of_int (l + 1) / 256 \<le> q + 1 / 256"
      by (simp_all add: q_def)
    have f: "of_int l / 256 \<le> fl q" "fl q \<le> of_int (l + 1) / 256"
      using fl_ge_f64 [OF ql] fl_le_f64 [OF qu] is_f64_256 [of l] is_f64_256 [of "l + 1"] lb by simp_all
    have r: "(1 :: rat) \<le> of_int r" "(of_int r :: rat) \<le> 99" using k False by simp_all
    have "q + 1 / 2 = of_int d + of_int r / 100" using k' by (simp add: q_def field_simps)
    then have "of_int d < fl q + 1 / 2" "fl q + 1 / 2 < of_int d + 1" using f q2 q3 r by simp_all
    then show ?thesis by linarith
  qed
  then show ?thesis by (simp add: scaled_def q_def d_def)
qed

lemma printed_percent:
  assumes "0 \<le> k" "k \<le> 10 ^ 9"
  shows "to_fixed 0 (num_div (num_of_int k) (Num 100)) = dec (nat ((k + 50) div 100))"
  using hundredths [OF assms] hundredths_rounded [OF assms]
  by (simp add: with_frac_def int_part_def frac_part_def abs_of_nonneg del: fl_zero)

text \<open>Two parts of a whole in hundredths of a percent, and the whole percents they are printed as.\<close>

lemma parts_of_whole:
  fixes T :: int
  assumes "0 < T" "0 \<le> b" "0 \<le> s" "b + s = T"
  shows "b * 10000 div T + s * 10000 div T \<in> {9999, 10000}" "b * 10000 div T \<in> {0..10000}" "s * 10000 div T \<in> {0..10000}"
proof -
  let ?r = "b * 10000 mod T + s * 10000 mod T"
  have "(b * 10000 div T) * T + b * 10000 mod T = b * 10000" "(s * 10000 div T) * T + s * 10000 mod T = s * 10000"
    by simp_all
  then have e: "(b * 10000 div T + s * 10000 div T) * T + ?r = 10000 * T" using assms(4) by (simp add: algebra_simps)
  have r: "0 \<le> ?r" "?r < 2 * T" using assms(1) pos_mod_bound [of T "b * 10000"] pos_mod_bound [of T "s * 10000"]
      pos_mod_sign [of T "b * 10000"] pos_mod_sign [of T "s * 10000"] by linarith+
  have "(b * 10000 div T + s * 10000 div T) * T \<le> 10000 * T" using e r by linarith
  then have u: "b * 10000 div T + s * 10000 div T \<le> 10000" using assms(1) by simp
  have "9998 * T < (b * 10000 div T + s * 10000 div T) * T" using e r by linarith
  then have l: "9998 < b * 10000 div T + s * 10000 div T" using assms(1) by simp
  show "b * 10000 div T + s * 10000 div T \<in> {9999, 10000}" using u l by auto
  have n: "0 \<le> b * 10000 div T" "0 \<le> s * 10000 div T" using assms by (simp_all add: pos_imp_zdiv_nonneg_iff)
  then show "b * 10000 div T \<in> {0..10000}" "s * 10000 div T \<in> {0..10000}" using u by auto
qed

lemma half_up:
  fixes q r :: int
  assumes "0 \<le> r" "r < 100"
  shows "(100 * q + r + 50) div 100 = q + (if 50 \<le> r then 1 else 0)"
proof -
  have "(100 * q + r + 50) div 100 = ((r + 50) + q * 100) div 100" by (simp add: algebra_simps)
  also have "\<dots> = q + (r + 50) div 100" by simp
  also have "(r + 50) div 100 = (if 50 \<le> r then 1 else 0)" using assms by (auto simp: int_div_pos_eq)
  finally show ?thesis .
qed

lemma printed_parts:
  fixes b s :: int
  assumes "b + s \<in> {9999, 10000}"
  shows "(b + 50) div 100 + (s + 50) div 100 = (if b + s = 10000 \<and> b mod 100 = 50 then 101 else 100)"
proof -
  define q where "q = b div 100"
  define r where "r = b mod 100"
  have r: "0 \<le> r" "r < 100" and b: "b = 100 * q + r" by (simp_all add: q_def r_def)
  have hb: "(b + 50) div 100 = q + (if 50 \<le> r then 1 else 0)" unfolding b by (rule half_up [OF r])
  consider "b + s = 9999" | "b + s = 10000" "r = 0" | "b + s = 10000" "r \<noteq> 0" using assms by auto
  then show ?thesis
  proof cases
    case 1
    then have s: "s = 100 * (99 - q) + (99 - r)" using b by simp
    have "(s + 50) div 100 = 99 - q + (if 50 \<le> 99 - r then 1 else 0)" unfolding s by (rule half_up) (use r in simp_all)
    then show ?thesis using hb 1 by simp
  next
    case 2
    then have s: "s = 100 * (100 - q) + 0" using b by simp
    have "(s + 50) div 100 = 100 - q + (if 50 \<le> (0 :: int) then 1 else 0)" unfolding s by (rule half_up) simp_all
    then show ?thesis using hb 2 by (simp add: r_def)
  next
    case 3
    then have s: "s = 100 * (99 - q) + (100 - r)" using b by simp
    have "(s + 50) div 100 = 99 - q + (if 50 \<le> 100 - r then 1 else 0)" unfolding s by (rule half_up) (use r 3 in simp_all)
    then show ?thesis using hb 3 by (simp add: r_def)
  qed
qed


lemma nonneg_percent:
  assumes "0 \<le> k" "0 < n"
  shows "num_le (Num 0) (num_min (Num 100) (num_mul (num_div (Num (of_int k)) (Num (of_int n))) (Num 100)))
    \<and> num_le (num_min (Num 100) (num_mul (num_div (Num (of_int k)) (Num (of_int n))) (Num 100))) (Num 100)"
proof -
  have d: "nn_num (num_div (Num (of_int k)) (Num (of_int n)))" using assms nn_num_to_num [of "of_int k / of_int n"] by simp
  have "nn_num (num_mul x (Num 100))" if "nn_num x" for x
    using that by (cases x) (simp_all add: nn_num_to_num inf_of_sign_def)
  from this [OF d] show ?thesis
    by (cases "num_mul (num_div (Num (of_int k)) (Num (of_int n))) (Num 100)") (auto simp: num_min_def)
qed


section \<open>Properties\<close>

text \<open>
  In every reachable state of the page at most one request to the faucet is under way, and only while
  the button shows it is loading; without a faucet none is made; the partner's panel opens only for
  the partner's account; every downloaded file is the key of the open account; and a step that wipes the
  wallet is the confirmation of the question on the screen, which it closes.
\<close>

theorem account_page_guarded:
  assumes "account_reach e post (partner_offered vaultEnv ownerEnv acct) acct p"
  shows "ac_claims p = (if ac_faucet p = ClaimLoading then 1 else 0)
    \<and> (FAUCET_URL e = None \<longrightarrow> ac_faucet p = ClaimIdle)
    \<and> (ac_panel p = PartnerPanel \<longrightarrow> PARTNER_TRANCHE_ENABLED vaultEnv \<and> isPartnerOwner ownerEnv (evm acct))
    \<and> list_all (\<lambda>f. f = account_file acct) (ac_files p)
    \<and> (\<forall>q. account_step e post (partner_offered vaultEnv ownerEnv acct) acct p q \<and>
         count_list (ac_calls p) CallWipe < count_list (ac_calls q) CallWipe \<longrightarrow> ac_showWipe p \<and> \<not> ac_showWipe q)"
  using account_reach_ok [OF assms] wipe_confirmed
  by (fastforce simp: account_ok_def partner_offered_def confirm_wipe_def)

text \<open>
  The two percentages under the composition bar are the available and the staked part of the total, cut
  to hundredths of a percent and printed to the nearest whole one. The hundredths add to 10000 or to one
  less, and the printed percentages add to 100, except where the available part ends exactly in a half
  percent: then they add to 101.
\<close>

theorem composition_adds_up:
  assumes "account_figures info = Inr g" "0 \<le> fg_balance g" "0 \<le> fg_staked g" "0 < fg_total g"
  shows "\<exists>b s. composition_text g = (dec (nat ((b + 50) div 100)) @ [37], dec (nat ((s + 50) div 100)) @ [37])
    \<and> b * fg_total g \<le> fg_balance g * 10000 \<and> fg_balance g * 10000 < (b + 1) * fg_total g
    \<and> 0 \<le> b \<and> 0 \<le> s \<and> b + s \<in> {9999, 10000}
    \<and> (b + 50) div 100 + (s + 50) div 100 = (if b + s = 10000 \<and> b mod 100 = 50 then 101 else 100)"
proof -
  let ?T = "fg_total g"
  define b s where "b = fg_balance g * 10000 div ?T" and "s = fg_staked g * 10000 div ?T"
  have t: "fg_balance g + fg_staked g = ?T" using assms(1) by (auto simp: account_figures_def bind_res_eq_Inr)
  note parts = parts_of_whole [OF assms(4,2,3) t, folded b_def s_def]
  have "balPct g = num_div (num_of_int b) (Num 100)" "stkPct g = num_div (num_of_int s) (Num 100)"
    using assms by (simp_all add: balPct_def stkPct_def big_div_nonneg b_def s_def)
  then have "composition_text g = (dec (nat ((b + 50) div 100)) @ [37], dec (nat ((s + 50) div 100)) @ [37])"
    using parts printed_percent [of b] printed_percent [of s] by (simp add: composition_text_def)
  moreover have "b * ?T \<le> fg_balance g * 10000" "fg_balance g * 10000 < (b + 1) * ?T"
  proof -
    have "b * ?T + fg_balance g * 10000 mod ?T = fg_balance g * 10000" by (simp add: b_def)
    moreover have "0 \<le> fg_balance g * 10000 mod ?T" "fg_balance g * 10000 mod ?T < ?T" using assms(4) by simp_all
    ultimately show "b * ?T \<le> fg_balance g * 10000" "fg_balance g * 10000 < (b + 1) * ?T"
      by (simp_all only: distrib_right mult_1)
  qed
  ultimately show ?thesis using parts printed_parts [OF parts(1)]
    by (intro exI [of _ b] exI [of _ s]) (simp only: atLeastAtMost_iff)
qed

text \<open>
  C40. The progress card tells what is missing: staking as many more whole coins as it says reaches the tier
  it names, staking any smaller number of them leaves the tier as it is, and the bar stays in its frame.
\<close>

theorem tier_progress_exact:
  assumes "0 \<le> st" "st < 2 ^ 32 * 10 ^ 6" "tier_progress (stakedEav7 st) = Some (w, rem, t)"
  shows "\<exists>n. rem = Num (of_int n) \<and> 0 < n \<and> tierOf (stakedEav7 (st + n * 10 ^ 6)) = t
    \<and> (\<forall>m. 0 \<le> m \<and> m < n \<longrightarrow> tierOf (stakedEav7 (st + m * 10 ^ 6)) = tierOf (stakedEav7 st))
    \<and> num_le (Num 0) w \<and> num_le w (Num 100)"
proof -
  let ?k = "st div 10 ^ 6"
  obtain N where N: "tier_next (tierOf (stakedEav7 st)) = Some N"
    and w: "w = num_min (Num 100) (num_mul (num_div (stakedEav7 st) (num_of_int N)) (Num 100))"
    and r: "rem = num_max (Num 0) (num_sub (num_of_int N) (stakedEav7 st))" and t: "t = (if N = 100 then FeeZero else Validator)"
    using assms(3) by (auto simp: tier_progress_def)
  have cases: "N = 1000 \<and> 100 * 10 ^ 6 \<le> st \<and> st < 1000 * 10 ^ 6 \<or> N = 100 \<and> st < 100 * 10 ^ 6"
    using N tier_next_at [of st] assms by (auto split: if_splits)
  have k: "0 \<le> ?k" "?k < N" using cases assms(1) by auto
  have sk: "stakedEav7 st = Num (of_int ?k)" using assms stakedEav7_eq [of st] by simp
  have n: "num_of_int N = Num (of_int N)" using cases by (auto simp: num_of_int_small)
  have "num_sub (num_of_int N) (stakedEav7 st) = num_of_int (N - ?k)"
    unfolding n sk by (simp add: num_of_int_def num_sub_def)
  also have "\<dots> = Num (of_int (N - ?k))" using cases k by (auto simp: num_of_int_small)
  finally have rem: "rem = Num (of_int (N - ?k))" using r k by (simp add: num_max_def)
  have at: "tierOf (stakedEav7 (st + m * 10 ^ 6)) = tier_of_e7 (st + m * 10 ^ 6)" if "0 \<le> m" "m \<le> N - ?k" for m
  proof (rule tierOf_exact)
    have "m * 10 ^ 6 \<le> 1000 * 10 ^ 6" using that cases k by auto
    then show "st + m * 10 ^ 6 < 2 ^ 33 * 10 ^ 6" using assms(2) by simp
  qed (use assms that in simp)
  have "st + (N - ?k) * 10 ^ 6 = N * 10 ^ 6 + st mod 10 ^ 6" by (simp add: algebra_simps minus_mod_eq_mult_div [symmetric])
  then have up: "tierOf (stakedEav7 (st + (N - ?k) * 10 ^ 6)) = t"
    using at [of "N - ?k"] k cases t by (auto simp: tier_of_e7_def)
  have stay: "tierOf (stakedEav7 (st + m * 10 ^ 6)) = tierOf (stakedEav7 st)" if "0 \<le> m" "m < N - ?k" for m
  proof -
    have "(?k + m) * 10 ^ 6 + st mod 10 ^ 6 < N * 10 ^ 6" using that by simp
    then have "st + m * 10 ^ 6 < N * 10 ^ 6" by (simp add: algebra_simps)
    then show ?thesis using at [of m] at [of 0] that k cases by (auto simp: tier_of_e7_def)
  qed
  have "num_le (Num 0) w \<and> num_le w (Num 100)" unfolding w n sk using nonneg_percent [of ?k N] k by simp
  then show ?thesis using rem up stay k by (intro exI [of _ "N - ?k"]) simp
qed

text \<open>
  The list of tokens shows the balance in the token's smallest unit, where the address page shows the same
  balance with its decimals.
\<close>

lemma raw_token_balance:
  assumes "ai_tokens info = [(i, tk)]" "tb_symbol tk = Some sy" "tb_balance tk = Some (js ''1500000'')" "tb_decimals tk = Some 6"
  shows "token_rows info = [(sy, js ''1500000'')] \<and> hd_amount (snd (hd (grupos info price)) ! 1) = js ''1,5''"
  using assms by (simp add: token_rows_def grupos_def Let_def fmtToken_def comma_frac_def int_locale_def strip_zeros_def
      big_mod_def big_div_def num_of_int_def num_eval js_eval)

text \<open>The number of the chain is the same in both notations.\<close>

lemma chain_id_hex: "of_base 16 (drop 2 (EAVM_CHAIN_ID_HEX e)) = nat (EAVM_CHAIN_ID_DEC e)"
  by (simp add: EAVM_CHAIN_ID_HEX_def EAVM_CHAIN_ID_DEC_def js_eval of_base_def digit_val_def)

text \<open>Until the node has answered, a wallet of the test network signs for the main chain.\<close>

lemma testnet_signs_for_main_chain:
  "IS_TESTNET e \<Longrightarrow> useChainId None \<noteq> EAVM_CHAIN_ID_DEC e \<and> useChainId None = EAVM_CHAIN_ID_DEC prod_env"
  by (simp add: useChainId_def EAVM_CHAIN_ID_DEC_def IS_TESTNET_def prod_env_def)

lemma composition_prints_101:
  "composition_text \<lparr>fg_balance = 101, fg_staked = 99, fg_total = 200, fg_stakedEav7 = x, fg_tier = y\<rparr>
    = (js ''51%'', js ''50%'')"
  using printed_percent [of 5050] printed_percent [of 4950]
  by (simp add: composition_text_def balPct_def stkPct_def big_div_def js_eval)


subsection \<open>Witnesses\<close>

definition testnet_env :: web_env where
  "testnet_env = prod_env\<lparr>we_NETWORK := Some (js ''testnet'')\<rparr>"

definition demo_claim :: account_page where
  "demo_claim = claimFaucet (open_account\<lparr>ac_showWipe := True\<rparr>)"

theorem account_page_guarded_witness:
  "ac_claims demo_claim = 1 \<and> ac_faucet demo_claim = ClaimLoading
    \<and> (\<forall>p q. p = demo_claim \<and> account_step testnet_env (\<lambda>u a. Inl []) (partner_offered None None demo_account) demo_account p q
           \<and> ac_calls q = [CallWipe] \<longrightarrow> \<not> ac_showWipe q)"
proof -
  have u: "FAUCET_URL testnet_env \<noteq> None" by (simp add: FAUCET_URL_def testnet_env_def)
  let ?S = "account_step testnet_env (\<lambda>u a. Inl []) (partner_offered None None demo_account) demo_account"
  have 1: "?S open_account (open_account\<lparr>ac_showWipe := True\<rparr>)" by (rule account_step.ask_wipe)
  have 2: "?S (open_account\<lparr>ac_showWipe := True\<rparr>) demo_claim" unfolding demo_claim_def
    by (rule account_step.claim [OF _ u]) (simp_all add: open_account_def)
  have r: "account_reach testnet_env (\<lambda>u a. Inl []) (partner_offered None None demo_account) demo_account demo_claim"
    unfolding account_reach_def using rtranclp.rtrancl_into_rtrancl [OF r_into_rtranclp [of ?S, OF 1] 2] .
  show ?thesis using account_page_guarded [OF r] by (auto simp: demo_claim_def claimFaucet_def open_account_def)
qed

theorem composition_adds_up_witness:
  "\<exists>b s. composition_text \<lparr>fg_balance = 2, fg_staked = 1, fg_total = 3, fg_stakedEav7 = stakedEav7 1, fg_tier = tierOf (stakedEav7 1)\<rparr>
      = (dec (nat ((b + 50) div 100)) @ [37], dec (nat ((s + 50) div 100)) @ [37])
    \<and> b * 3 \<le> 20000 \<and> 20000 < (b + 1) * 3"
proof -
  let ?i = "(mockAddress [])\<lparr>ai_balance := dec 2, ai_staked := dec 1\<rparr>"
  have "account_figures (Some ?i)
      = Inr \<lparr>fg_balance = 2, fg_staked = 1, fg_total = 3, fg_stakedEav7 = stakedEav7 1, fg_tier = tierOf (stakedEav7 1)\<rparr>"
    by (simp add: account_figures_def)
  from composition_adds_up [OF this] show ?thesis by auto
qed

theorem tier_progress_exact_witness:
  "\<exists>n. tierOf (stakedEav7 (40 * 10 ^ 6 + n * 10 ^ 6)) = FeeZero \<and> 0 < n"
proof -
  have "stakedEav7 (40 * 10 ^ 6) = Num 40" using stakedEav7_eq [of "40 * 10 ^ 6"] by simp
  then have "\<exists>w r. tier_progress (stakedEav7 (40 * 10 ^ 6)) = Some (w, r, FeeZero)"
    by (simp add: tier_progress_def tierOf_def)
  then obtain w r where "tier_progress (stakedEav7 (40 * 10 ^ 6)) = Some (w, r, FeeZero)" by blast
  from tier_progress_exact [OF _ _ this] show ?thesis by auto
qed

end
