(* ===== verification/Merkle.thy ===== *)
theory Merkle
  imports Json "HOL-Library.Word"
begin

section \<open>The Merkle tree of the sale's allocations (\<open>contracts/scripts/sale-merkle.mjs\<close>)\<close>

text \<open>
  The script reads the allocations, hashes one leaf for each and builds the tree whose root the sale's
  vault stores; each holder then claims with the proof the script printed. A buffer is a list of
  bytes; keccak256 is an argument, of which only that it returns 32 bytes is used. A row is any JSON
  value, read as JavaScript reads it. \<open>toLowerCase\<close> is left out beyond ASCII.
\<close>

type_synonym byte = "8 word"

subsection \<open>Leaves\<close>

text \<open>\<open>BigInt(v)\<close> of a property.\<close>

definition big_int :: "json option \<Rightarrow> int res" where
  "big_int v = (case v of
       None \<Rightarrow> Inl (js ''Cannot convert undefined to a BigInt'')
     | Some JNull \<Rightarrow> Inl (js ''Cannot convert null to a BigInt'')
     | Some (JBool b) \<Rightarrow> Inr (if b then 1 else 0)
     | Some (JNum x) \<Rightarrow> bigint_of_num x
     | Some (JStr s) \<Rightarrow> big_of_str s
     | Some w \<Rightarrow> big_of_str (json_str w))"

text \<open>The loops of \<open>pad32\<close> and \<open>u64be\<close> write the low byte last and shift.\<close>

fun be_bytes :: "nat \<Rightarrow> int \<Rightarrow> byte list" where
  "be_bytes 0 x = []"
| "be_bytes (Suc n) x = be_bytes n (x div 256) @ [word_of_int x]"

definition pad32 :: "json option \<Rightarrow> byte list res" where
  "pad32 v = bind_res (big_int v) (\<lambda>x. Inr (be_bytes 32 x))"

definition u64be :: "json option \<Rightarrow> byte list res" where
  "u64be v = bind_res (big_int v) (\<lambda>x. Inr (be_bytes 8 x))"

text \<open>\<open>Buffer.from(h, "hex")\<close> stops at the first pair that is not hexadecimal.\<close>

fun hex_bytes :: "jstr \<Rightarrow> byte list" where
  "hex_bytes (c # d # s) = (if is_hex c \<and> is_hex d
     then word_of_int (int (16 * digit_val c + digit_val d)) # hex_bytes s else [])"
| "hex_bytes s = []"

definition addr20 :: "json option \<Rightarrow> byte list res" where
  "addr20 v = (let s = (case v of None \<Rightarrow> js ''undefined'' | Some w \<Rightarrow> json_str w);
       h = to_lower (if take 2 s = js ''0x'' \<or> take 2 s = js ''0X'' then drop 2 s else s)
     in if length h \<noteq> 40 then Inl (js ''address inv'' @ [225] @ js ''lido: '' @ s) else Inr (hex_bytes h))"

definition leafOf :: "(byte list \<Rightarrow> byte list) \<Rightarrow> json \<Rightarrow> byte list res" where
  "leafOf hash row =
    bind_res (json_prop row (js ''index'')) (\<lambda>v. bind_res (pad32 v) (\<lambda>i.
    bind_res (json_prop row (js ''account'')) (\<lambda>v. bind_res (addr20 v) (\<lambda>a.
    bind_res (json_prop row (js ''amount'')) (\<lambda>v. bind_res (pad32 v) (\<lambda>m.
    bind_res (json_prop row (js ''cliff'')) (\<lambda>v. bind_res (u64be v) (\<lambda>c.
    bind_res (json_prop row (js ''duration'')) (\<lambda>v. bind_res (u64be v) (\<lambda>d.
      Inr (hash (i @ a @ m @ c @ d))))))))))))"

fun leaves_of :: "(byte list \<Rightarrow> byte list) \<Rightarrow> json list \<Rightarrow> byte list list res" where
  "leaves_of hash [] = Inr []"
| "leaves_of hash (row # rows) = bind_res (leafOf hash row) (\<lambda>x. bind_res (leaves_of hash rows) (\<lambda>xs. Inr (x # xs)))"


subsection \<open>The tree and its proofs\<close>

text \<open>\<open>Buffer.compare(a, b) <= 0\<close>.\<close>

fun buf_le :: "byte list \<Rightarrow> byte list \<Rightarrow> bool" where
  "buf_le [] b = True"
| "buf_le (x # a) [] = False"
| "buf_le (x # a) (y # b) = (x < y \<or> x = y \<and> buf_le a b)"

definition sortedParent :: "(byte list \<Rightarrow> byte list) \<Rightarrow> byte list \<Rightarrow> byte list \<Rightarrow> byte list" where
  "sortedParent hash a b = (if buf_le a b then hash (a @ b) else hash (b @ a))"

fun next_layer :: "(byte list \<Rightarrow> byte list) \<Rightarrow> byte list list \<Rightarrow> byte list list" where
  "next_layer hash (a # b # r) = sortedParent hash a b # next_layer hash r"
| "next_layer hash l = l"

lemma length_next_layer [simp]: "length (next_layer hash l) = (length l + 1) div 2"
  by (induction hash l rule: next_layer.induct) simp_all

function build :: "(byte list \<Rightarrow> byte list) \<Rightarrow> byte list list \<Rightarrow> byte list list list" where
  "build hash layer = (if 1 < length layer then layer # build hash (next_layer hash layer) else [layer])"
  by pat_completeness auto

termination
  by (relation "measure (\<lambda>(h, l). length l)") auto

declare build.simps [simp del]

unbundle bit_operations_syntax

fun proofFor :: "byte list list list \<Rightarrow> nat \<Rightarrow> byte list list" where
  "proofFor (l # l' # ls) i = (let pair = i XOR 1 in
     (if pair < length l then [l ! pair] else []) @ proofFor (l' # ls) (drop_bit 1 i))"
| "proofFor ls i = []"

record merkle_claim =
  mc_row :: json
  mc_leaf :: "byte list"
  mc_proof :: "byte list list"

record merkle_tree =
  mt_root :: "byte list"
  mt_claims :: "merkle_claim list"

definition merkle :: "(byte list \<Rightarrow> byte list) \<Rightarrow> json \<Rightarrow> merkle_tree res" where
  "merkle hash file = (case file of
       JArr rows \<Rightarrow> bind_res (leaves_of hash rows) (\<lambda>leaves. let layers = build hash leaves in
         case last layers of [] \<Rightarrow> Inl (js ''Cannot read properties of undefined'')
         | rt # r \<Rightarrow> Inr \<lparr>mt_root = rt, mt_claims = map (\<lambda>(i, row).
             \<lparr>mc_row = row, mc_leaf = leaves ! i, mc_proof = proofFor layers i\<rparr>) (enumerate 0 rows)\<rparr>)
     | JNull \<Rightarrow> Inl (js ''Cannot read properties of null'')
     | _ \<Rightarrow> Inl (js ''rows.map is not a function''))"

text \<open>\<open>"0x" + buf.toString("hex")\<close>, as which the root, the leaves and the proofs are printed.\<close>

definition hex_text :: "byte list \<Rightarrow> jstr" where
  "hex_text b = js ''0x'' @ concat (map (\<lambda>x. pad_start 2 48 (to_base 16 (unat x))) b)"


subsection \<open>Specification: what the vault checks\<close>

text \<open>
  \<open>SaleVault.claim\<close> packs the typed arguments and the caller's address, and folds the proof over the
  leaf, smaller half first. The contract itself is not modelled.
\<close>

definition packed :: "256 word \<Rightarrow> byte list \<Rightarrow> 256 word \<Rightarrow> 64 word \<Rightarrow> 64 word \<Rightarrow> byte list" where
  "packed idx acct amount cliff dur =
     be_bytes 32 (uint idx) @ acct @ be_bytes 32 (uint amount) @ be_bytes 8 (uint cliff) @ be_bytes 8 (uint dur)"

definition verifies :: "(byte list \<Rightarrow> byte list) \<Rightarrow> byte list \<Rightarrow> byte list \<Rightarrow> byte list list \<Rightarrow> bool" where
  "verifies hash rt leaf proof \<longleftrightarrow> foldl (sortedParent hash) leaf proof = rt"

definition collision :: "(byte list \<Rightarrow> byte list) \<Rightarrow> bool" where
  "collision hash \<longleftrightarrow> (\<exists>a b. a \<noteq> b \<and> hash a = hash b)"

text \<open>The row grants the arguments: its fields, at the width of the contract, are these.\<close>

definition grants_claim :: "json \<Rightarrow> 256 word \<Rightarrow> byte list \<Rightarrow> 256 word \<Rightarrow> 64 word \<Rightarrow> 64 word \<Rightarrow> bool" where
  "grants_claim row idx acct amount cliff dur \<longleftrightarrow>
    (\<exists>v w x y z i m c d. json_prop row (js ''index'') = Inr v \<and> big_int v = Inr i \<and> word_of_int i = idx
      \<and> json_prop row (js ''account'') = Inr w \<and> addr20 w = Inr acct
      \<and> json_prop row (js ''amount'') = Inr x \<and> big_int x = Inr m \<and> word_of_int m = amount
      \<and> json_prop row (js ''cliff'') = Inr y \<and> big_int y = Inr c \<and> word_of_int c = cliff
      \<and> json_prop row (js ''duration'') = Inr z \<and> big_int z = Inr d \<and> word_of_int d = dur)"


section \<open>Lemmas\<close>

subsection \<open>Bytes of a number\<close>

lemma length_be_bytes [simp]: "length (be_bytes n x) = n"
  by (induction n arbitrary: x) simp_all

definition be_value :: "byte list \<Rightarrow> int" where
  "be_value = foldl (\<lambda>a b. a * 256 + uint b) 0"

lemma be_value_bytes: "be_value (be_bytes n x) = x mod 256 ^ n"
proof (induction n arbitrary: x)
  case (Suc n)
  have "be_value (be_bytes (Suc n) x) = be_value (be_bytes n (x div 256)) * 256 + x mod 256"
    by (simp add: be_value_def uint_word_of_int)
  also have "\<dots> = (x div 256 mod 256 ^ n) * 256 + x mod 256" using Suc.IH by simp
  also have "\<dots> = x mod (256 * 256 ^ n)" by (simp add: zmod_zmult2_eq mult.commute)
  finally show ?case by simp
qed (simp add: be_value_def)

lemma be_bytes_word:
  assumes "be_bytes n x = be_bytes n (uint (w :: 'a :: len word))" "(2 :: int) ^ LENGTH('a) = 256 ^ n"
  shows "word_of_int x = w"
proof -
  have "x mod 256 ^ n = uint w mod 256 ^ n" using arg_cong [OF assms(1), of be_value] by (simp add: be_value_bytes)
  then have "x mod 2 ^ LENGTH('a) = uint w mod 2 ^ LENGTH('a)" using assms(2) by simp
  then have "uint (word_of_int x :: 'a word) = uint w" by (simp add: uint_word_of_int)
  then show ?thesis by (simp add: word_uint_eq_iff)
qed

text \<open>A number too large for its field is cut to it, so the leaf is that of another amount.\<close>

lemma amount_wraps: "pad32 (Some (JNum x)) = Inr b \<Longrightarrow> bigint_of_num x = Inr m \<Longrightarrow>
    big_int (Some v) = Inr (m + 256 ^ 32) \<Longrightarrow> pad32 (Some v) = Inr b"
proof -
  have cut: "be_bytes n (x + 256 ^ n * k) = be_bytes n x" for n and x k :: int
  proof (induction n arbitrary: x)
    case (Suc n)
    have "(x + 256 ^ Suc n * k) div 256 = x div 256 + 256 ^ n * k" by simp
    moreover have "(word_of_int (x + 256 ^ Suc n * k) :: byte) = word_of_int x"
      unfolding word_of_int_eq_iff take_bit_eq_mod by (simp add: mod_mult_right_eq [of 256] mult.assoc)
    ultimately show ?case using Suc.IH [of "x div 256"] by simp
  qed simp
  assume "pad32 (Some (JNum x)) = Inr b" "bigint_of_num x = Inr m" "big_int (Some v) = Inr (m + 256 ^ 32)"
  then show "pad32 (Some v) = Inr b" using cut [of 32 m 1] by (simp add: pad32_def big_int_def)
qed


subsection \<open>Leaves and layers\<close>

lemma leafOf_Inr:
  assumes "leafOf hash row = Inr x"
  obtains v w y z u i a m c d where
    "json_prop row (js ''index'') = Inr v" "big_int v = Inr i" "json_prop row (js ''account'') = Inr w" "addr20 w = Inr a"
    "json_prop row (js ''amount'') = Inr y" "big_int y = Inr m" "json_prop row (js ''cliff'') = Inr z" "big_int z = Inr c"
    "json_prop row (js ''duration'') = Inr u" "big_int u = Inr d"
    "x = hash (be_bytes 32 i @ a @ be_bytes 32 m @ be_bytes 8 c @ be_bytes 8 d)"
  using assms unfolding leafOf_def pad32_def u64be_def bind_res_eq_Inr by blast

lemma leaves_of_Inr:
  "leaves_of hash rows = Inr xs \<Longrightarrow> length xs = length rows \<and> (\<forall>i < length rows. leafOf hash (rows ! i) = Inr (xs ! i))"
proof (induction rows arbitrary: xs)
  case (Cons row rows)
  then obtain x ys where x: "leafOf hash row = Inr x" and ys: "leaves_of hash rows = Inr ys" and xs: "xs = x # ys"
    by (auto simp: bind_res_eq_Inr)
  show ?case using Cons.IH [OF ys] x by (auto simp: xs less_Suc_eq_0_disj)
qed simp

lemma buf_le_total: "buf_le a b \<or> buf_le b a"
  by (induction a b rule: buf_le.induct) (auto simp: not_less_iff_gr_or_eq)

lemma buf_le_antisym: "buf_le a b \<Longrightarrow> buf_le b a \<Longrightarrow> a = b"
proof (induction a b rule: buf_le.induct)
  case (1 b)
  then show ?case by (cases b) simp_all
qed auto

lemma sortedParent_commute: "sortedParent hash a b = sortedParent hash b a"
  using buf_le_total [of a b] buf_le_antisym [of a b] by (auto simp: sortedParent_def)

definition sibling :: "nat \<Rightarrow> nat" where
  "sibling i = (if even i then Suc i else i - 1)"

lemma xor_one [simp]: "i XOR Suc 0 = sibling i"
  by (simp add: sibling_def xor_Suc_0_eq)

lemma sibling_simps [simp]: "sibling 0 = 1" "sibling (Suc 0) = 0" "sibling (Suc (Suc i)) = Suc (Suc (sibling i))"
  by (auto simp: sibling_def elim: oddE)

lemma next_layer_at:
  "i < length l \<Longrightarrow> next_layer hash l ! (i div 2)
    = (if sibling i < length l then sortedParent hash (l ! i) (l ! sibling i) else l ! i)"
proof (induction hash l arbitrary: i rule: next_layer.induct)
  case (1 hash a b r)
  show ?case
  proof (cases i)
    case (Suc j)
    show ?thesis
    proof (cases j)
      case 0
      then show ?thesis using Suc by (simp add: sortedParent_commute)
    next
      case (Suc k)
      then show ?thesis using 1 \<open>i = Suc j\<close> by simp
    qed
  qed simp
qed (auto simp: sibling_def)

lemma build_ne [simp]: "build hash l \<noteq> []"
  by (subst build.simps) simp

lemma build_hd: "\<exists>ls. build hash l = l # ls"
  by (subst build.simps) simp

lemma last_build: "last (build hash l) = (if 1 < length l then last (build hash (next_layer hash l)) else l)"
  by (subst build.simps) simp

lemma proofFor_build:
  "proofFor (build hash l) i = (if 1 < length l then (if sibling i < length l then [l ! sibling i] else [])
     @ proofFor (build hash (next_layer hash l)) (i div 2) else [])"
proof (cases "1 < length l")
  case True
  obtain ls where "build hash (next_layer hash l) = next_layer hash l # ls" using build_hd by blast
  then show ?thesis using True by (simp add: build.simps [of hash l] drop_bit_Suc Let_def)
next
  case False
  then show ?thesis by (simp add: build.simps [of hash l])
qed

lemma last_build_single: "l \<noteq> [] \<Longrightarrow> \<exists>x. last (build hash l) = [x]"
proof (induction hash l rule: build.induct)
  case (1 hash l)
  show ?case
  proof (cases "1 < length l")
    case True
    then have "next_layer hash l \<noteq> []" by (cases "next_layer hash l") (use length_next_layer [of hash l] in auto)
    then show ?thesis using 1(1) [OF True] True by (simp add: last_build [of hash l])
  next
    case False
    then show ?thesis using 1(2) by (cases l) (auto simp: last_build [of hash])
  qed
qed

text \<open>Folding the proof of a leaf over it climbs to the last layer.\<close>

lemma proof_climbs: "i < length l \<Longrightarrow> foldl (sortedParent hash) (l ! i) (proofFor (build hash l) i) = hd (last (build hash l))"
proof (induction hash l arbitrary: i rule: build.induct)
  case (1 hash l)
  show ?case
  proof (cases "1 < length l")
    case True
    have "i div 2 < length (next_layer hash l)" using 1(2) by simp
    from 1(1) [OF True this] show ?thesis
      using True next_layer_at [OF 1(2), of hash]
      by (cases "sibling i < length l") (simp_all add: proofFor_build [of hash l] last_build [of hash l])
  next
    case False
    then show ?thesis using 1(2) by (cases l) (auto simp: last_build [of hash] proofFor_build [of hash])
  qed
qed


subsection \<open>The nodes of a tree\<close>

text \<open>What the hash of the leaves can be combined to; all the layers are in it.\<close>

inductive_set nodes :: "(byte list \<Rightarrow> byte list) \<Rightarrow> byte list set \<Rightarrow> byte list set" for hash L where
  leaf: "x \<in> L \<Longrightarrow> x \<in> nodes hash L"
| pair: "a \<in> nodes hash L \<Longrightarrow> b \<in> nodes hash L \<Longrightarrow> hash (a @ b) \<in> nodes hash L"

lemma sortedParent_nodes: "a \<in> nodes hash L \<Longrightarrow> b \<in> nodes hash L \<Longrightarrow> sortedParent hash a b \<in> nodes hash L"
  by (auto simp: sortedParent_def intro: nodes.pair)

lemma next_layer_nodes: "set l \<subseteq> nodes hash L \<Longrightarrow> set (next_layer hash l) \<subseteq> nodes hash L"
  by (induction hash l rule: next_layer.induct) (auto intro: sortedParent_nodes)

lemma last_build_nodes: "set l \<subseteq> nodes hash L \<Longrightarrow> set (last (build hash l)) \<subseteq> nodes hash L"
proof (induction hash l rule: build.induct)
  case (1 hash l)
  then show ?case using next_layer_nodes [of l hash L] by (cases "1 < length l") (auto simp: last_build [of hash l])
qed

lemma nodes_length:
  assumes "x \<in> nodes hash L" "\<And>b. length (hash b) = n" "\<And>y. y \<in> L \<Longrightarrow> length y = n"
  shows "length x = n"
  using assms by (induction rule: nodes.induct) simp_all

text \<open>Backwards along a proof: below a node there is only a node, unless two inputs collide.\<close>

lemma below_node:
  assumes h: "\<And>b. length (hash b) = 32" and L: "\<And>y. y \<in> L \<Longrightarrow> \<exists>c. y = hash c \<and> length c \<noteq> 64"
  shows "length x = 32 \<Longrightarrow> list_all (\<lambda>p. length p = 32) ps \<Longrightarrow> foldl (sortedParent hash) x ps \<in> nodes hash L \<Longrightarrow>
    x \<in> nodes hash L \<or> collision hash"
proof (induction ps rule: rev_induct)
  case (snoc s ps)
  define y where "y = foldl (sortedParent hash) x ps"
  have y: "length y = 32" unfolding y_def using snoc.prems(1) h by (cases ps rule: rev_cases) (simp_all add: sortedParent_def)
  have s: "length s = 32" using snoc.prems(2) by simp
  obtain c where c: "sortedParent hash y s = hash c" "c = y @ s \<or> c = s @ y"
    by (cases "buf_le y s") (simp_all add: sortedParent_def)
  have "hash c \<in> nodes hash L" using snoc.prems(3) c(1) by (simp add: y_def)
  then have "y \<in> nodes hash L \<or> collision hash"
  proof (cases rule: nodes.cases)
    case leaf
    then obtain c' where "hash c = hash c'" "length c' \<noteq> 64" using L by blast
    moreover have "length c = 64" using c(2) y s by auto
    ultimately show ?thesis unfolding collision_def by metis
  next
    case (pair a b)
    have ab: "length a = 32" "length b = 32"
      using nodes_length [OF pair(2) h] nodes_length [OF pair(3) h] L h by metis+
    show ?thesis
    proof (cases "c = a @ b")
      case True
      then have "y = a \<or> y = b" using c(2) y s ab by auto
      then show ?thesis using pair by blast
    next
      case False
      then show ?thesis using pair(1) unfolding collision_def by blast
    qed
  qed
  then show ?case using snoc.IH snoc.prems by (auto simp: y_def)
qed simp


lemma merkle_Inr:
  assumes "merkle hash (JArr rows) = Inr t"
  obtains leaves where "leaves_of hash rows = Inr leaves" "last (build hash leaves) = [mt_root t]" "leaves \<noteq> []"
    "mt_claims t = map (\<lambda>(i, row). \<lparr>mc_row = row, mc_leaf = leaves ! i, mc_proof = proofFor (build hash leaves) i\<rparr>) (enumerate 0 rows)"
proof -
  obtain leaves where l: "leaves_of hash rows = Inr leaves"
    and t: "(case last (build hash leaves) of [] \<Rightarrow> Inl (js ''Cannot read properties of undefined'')
         | rt # r \<Rightarrow> Inr \<lparr>mt_root = rt, mt_claims = map (\<lambda>(i, row).
             \<lparr>mc_row = row, mc_leaf = leaves ! i, mc_proof = proofFor (build hash leaves) i\<rparr>) (enumerate 0 rows)\<rparr>) = Inr t"
    using assms by (auto simp: merkle_def bind_res_eq_Inr Let_def)
  have ne: "leaves \<noteq> []" using t by (auto simp: last_build [of hash])
  obtain x where "last (build hash leaves) = [x]" using last_build_single [OF ne] by blast
  then show ?thesis using that l t ne by auto
qed


section \<open>Properties\<close>

text \<open>
  C7. Every row of the file gets a claim with its own leaf, and the proof printed with it leads from that leaf
  to the printed root, whatever the number of rows and wherever layers of odd length promote a node.
\<close>

theorem merkle_proofs_verify:
  assumes "merkle hash (JArr rows) = Inr t" "i < length rows"
  shows "length (mt_claims t) = length rows \<and> mc_row (mt_claims t ! i) = rows ! i
    \<and> leafOf hash (rows ! i) = Inr (mc_leaf (mt_claims t ! i))
    \<and> verifies hash (mt_root t) (mc_leaf (mt_claims t ! i)) (mc_proof (mt_claims t ! i))"
proof -
  obtain leaves where l: "leaves_of hash rows = Inr leaves" and r: "last (build hash leaves) = [mt_root t]"
    and c: "mt_claims t = map (\<lambda>(i, row). \<lparr>mc_row = row, mc_leaf = leaves ! i, mc_proof = proofFor (build hash leaves) i\<rparr>)
      (enumerate 0 rows)"
    using merkle_Inr [OF assms(1)] .
  have n: "length leaves = length rows" "leafOf hash (rows ! i) = Inr (leaves ! i)" using leaves_of_Inr [OF l] assms(2) by auto
  have at: "mt_claims t ! i = \<lparr>mc_row = rows ! i, mc_leaf = leaves ! i, mc_proof = proofFor (build hash leaves) i\<rparr>"
    using assms(2) by (simp add: c nth_enumerate_eq)
  then show ?thesis using proof_climbs [of i leaves hash] n assms(2) r by (simp add: c verifies_def)
qed



text \<open>
  An address of 40 characters that are not all hexadecimal is taken for a shorter one instead of being refused,
  and an empty file is an error of the script's own.
\<close>

lemma bad_address_shortens_leaf: "addr20 (Some (JStr (replicate 40 122))) = Inr []"
  by (simp add: addr20_def js_eval to_lower_def lower_char_def is_hex_def is_lower_hex_def is_upper_hex_def
      numeral_eq_Suc)

lemma empty_file_fails: "merkle hash (JArr []) = Inl (js ''Cannot read properties of undefined'')"
  by (simp add: merkle_def build.simps [of hash "[]"])


subsection \<open>Witnesses\<close>

definition demo_hash :: "byte list \<Rightarrow> byte list" where
  "demo_hash b = take 32 (b @ replicate 32 0)"

definition demo_row :: json where
  "demo_row = JObj [(js ''index'', JNum (Num 0)), (js ''account'', JStr (js ''0x'' @ replicate 40 48)),
     (js ''amount'', JStr (js ''5'')), (js ''cliff'', JNum (Num 1)), (js ''duration'', JNum (Num 2))]"

definition demo_code :: "byte list" where
  "demo_code = packed 0 (replicate 20 0) 5 1 2"

lemma length_demo_hash: "length (demo_hash b) = 32"
  by (simp add: demo_hash_def)

lemma demo_address: "addr20 (Some (JStr (js ''0x'' @ replicate 40 48))) = Inr (replicate 20 0)"
  by (simp add: addr20_def js_eval to_lower_def lower_char_def is_hex_def is_lower_hex_def is_upper_hex_def
      digit_val_def is_digit_def numeral_eq_Suc)

lemma demo_leaf: "leafOf demo_hash demo_row = Inr (demo_hash demo_code)"
proof -
  have "json_prop demo_row (js ''index'') = Inr (Some (JNum (Num 0)))"
    "json_prop demo_row (js ''account'') = Inr (Some (JStr (js ''0x'' @ replicate 40 48)))"
    "json_prop demo_row (js ''amount'') = Inr (Some (JStr (js ''5'')))"
    "json_prop demo_row (js ''cliff'') = Inr (Some (JNum (Num 1)))"
    "json_prop demo_row (js ''duration'') = Inr (Some (JNum (Num 2)))"
    by (simp_all add: json_prop_def demo_row_def js_eq_iff)
  moreover have "big_int (Some (JNum (Num 0))) = Inr 0" "big_int (Some (JNum (Num 1))) = Inr 1" "big_int (Some (JNum (Num 2))) = Inr 2"
    "big_int (Some (JStr (js ''5''))) = Inr 5"
    using big_of_str_dec [of 5] by (simp_all add: big_int_def bigint_of_num_def js_eval)
  ultimately show ?thesis
    by (simp add: leafOf_def pad32_def u64be_def demo_address demo_code_def packed_def)
qed

theorem merkle_proofs_verify_witness:
  "\<exists>t. merkle demo_hash (JArr [demo_row, demo_row, demo_row]) = Inr t
    \<and> verifies demo_hash (mt_root t) (demo_hash demo_code) (mc_proof (mt_claims t ! 2))"
proof -
  have "\<exists>t. merkle demo_hash (JArr [demo_row, demo_row, demo_row]) = Inr t"
    by (simp add: merkle_def demo_leaf build.simps [of demo_hash])
  then obtain t where t: "merkle demo_hash (JArr [demo_row, demo_row, demo_row]) = Inr t" by blast
  show ?thesis using merkle_proofs_verify [OF t, of 2] t demo_leaf by simp
qed


end
