(* ===== verification/Genesis.thy ===== *)
theory Genesis
  imports Json "HOL-Library.AList"
begin

section \<open>The buckets of the genesis (\<open>contracts/scripts/genesis-buckets.mjs\<close>)\<close>

text \<open>
  The script divides the supply into the public, private and partner vaults, the stakes of the launch
  anchors and the vesting of the foundation, and prints the document the chain starts from. The
  parsed options and the anchors file are arguments (None: no file; an error: not JSON); leaving
  with a message is \<open>Inl\<close>. An object literal with a computed key that occurs twice keeps the later
  value, as \<open>AList.update\<close> does; addresses are not array indices, so keys keep their order.
  The comments in the document and its empty list of bridge relayers are left out.
\<close>

definition GENESIS_SUPPLY :: int where "GENESIS_SUPPLY = 100000000000000000"
definition GENESIS_STAKE :: int where "GENESIS_STAKE = 10000000000"
definition DEFAULT_FOUNDATION_TREASURY :: jstr where
  "DEFAULT_FOUNDATION_TREASURY = js ''E7F2906EA4B2CD23D20180C8E813F2D126''"
definition PUBLIC :: int where "PUBLIC = big_div (GENESIS_SUPPLY * 45) 100"
definition FOUNDATION :: int where "FOUNDATION = big_div (GENESIS_SUPPLY * 3025) 10000"
definition PRIVATE :: int where "PRIVATE = big_div (GENESIS_SUPPLY * 1475) 10000"
definition PARTNER :: int where "PARTNER = big_div (GENESIS_SUPPLY * 10) 100"
definition CLIFF_12M :: int where "CLIFF_12M = 31536000"
definition DUR_FOUNDATION_FROM_START :: int where "DUR_FOUNDATION_FROM_START = 157680000"

record genesis_args =
  ga_public_vault :: "jstr option"
  ga_sale_vault :: "jstr option"
  ga_partner_vault :: "jstr option"
  ga_ecosystem_vault :: "jstr option"
  ga_partner :: "jstr option"
  ga_foundation :: "jstr option"
  ga_founder :: "jstr option"

record genesis_vesting =
  gv_id :: jstr
  gv_beneficiary :: json
  gv_total :: jstr
  gv_cliff :: int
  gv_duration :: int

record genesis_doc =
  gd_balances :: "(jstr \<times> jstr) list"
  gd_stakes :: "(jstr \<times> jstr) list"
  gd_vesting :: "genesis_vesting list"
  gd_meta :: "(jstr \<times> json) list"

definition or_text :: "jstr option \<Rightarrow> jstr option \<Rightarrow> jstr option" where
  "or_text v w = (case v of Some (c # s) \<Rightarrow> Some (c # s) | _ \<Rightarrow> w)"

definition req :: "string \<Rightarrow> jstr option \<Rightarrow> jstr res" where
  "req name v = (case v of Some (c # s) \<Rightarrow> Inr (c # s) | _ \<Rightarrow> Inl (js ''missing --'' @ js name))"

text \<open>\<open>v?.k\<close> on a value that may be absent.\<close>

definition opt_prop :: "json option \<Rightarrow> string \<Rightarrow> json option" where
  "opt_prop v k = (case v of Some (JObj kvs) \<Rightarrow> map_of (rev kvs) (js k) | _ \<Rightarrow> None)"

fun anchor_keys :: "json list \<Rightarrow> json list res" where
  "anchor_keys [] = Inr []"
| "anchor_keys (a # as) = bind_res (json_prop a (js ''e7'')) (\<lambda>v. bind_res (anchor_keys as) (\<lambda>ks.
     Inr (case v of Some k \<Rightarrow> if truthy k then k # ks else ks | None \<Rightarrow> ks)))"

text \<open>The anchors, and the beneficiary the file names.\<close>

definition read_anchors :: "genesis_args \<Rightarrow> json res option \<Rightarrow> (json list \<times> json option) res" where
  "read_anchors a file = (case file of
       Some r \<Rightarrow> bind_res r (\<lambda>reg. bind_res (json_prop reg (js ''anchors'')) (\<lambda>v.
         bind_res (case or_else v (Some (JArr [])) of Some (JArr xs) \<Rightarrow> anchor_keys xs
             | _ \<Rightarrow> Inl (js ''map is not a function'')) (\<lambda>ks.
           Inr (ks, or_else (opt_prop (opt_prop (Some reg) ''treasury'') ''e7'')
             (or_else (opt_prop (opt_prop (opt_prop (Some reg) ''genesis'') ''vestingFoundation'') ''beneficiary'') None)))))
     | None \<Rightarrow> (case ga_founder a of Some (c # s) \<Rightarrow> Inr ([JStr (c # s)], None)
         | _ \<Rightarrow> Inl (js ''missing anchors file'')))"

definition eav7_whole :: "int \<Rightarrow> jstr" where
  "eav7_whole atomic = big_str (big_div atomic 1000000)"

definition stakes_of :: "json list \<Rightarrow> (jstr \<times> jstr) list" where
  "stakes_of anchors = foldl (\<lambda>m k. AList.update (json_str k) (big_str GENESIS_STAKE) m) [] anchors"

definition balances_of :: "jstr \<Rightarrow> jstr \<Rightarrow> jstr \<Rightarrow> (jstr \<times> jstr) list" where
  "balances_of publicVault saleVault partnerVault =
    AList.update partnerVault (big_str PARTNER) (AList.update saleVault (big_str PRIVATE) [(publicVault, big_str PUBLIC)])"

definition foundation_of :: "genesis_args \<Rightarrow> json option \<Rightarrow> json" where
  "foundation_of a fromFile = (case ga_foundation a of Some (c # s) \<Rightarrow> JStr (c # s)
     | _ \<Rightarrow> (case or_else fromFile None of Some v \<Rightarrow> v | None \<Rightarrow> JStr DEFAULT_FOUNDATION_TREASURY))"

definition genesis_meta :: "json \<Rightarrow> nat \<Rightarrow> int \<Rightarrow> int \<Rightarrow> (jstr \<times> json) list" where
  "genesis_meta foundation n stakeTotal vested = [
     (js ''publicEav7'', JStr (eav7_whole PUBLIC)), (js ''privateSaleEav7'', JStr (eav7_whole PRIVATE)),
     (js ''partnerEav7'', JStr (eav7_whole PARTNER)), (js ''foundationBucketEav7'', JStr (eav7_whole FOUNDATION)),
     (js ''foundationStakeToAnchorsEav7'', JStr (eav7_whole stakeTotal)),
     (js ''foundationVestedToTreasuryEav7'', JStr (eav7_whole vested)), (js ''foundationTreasury'', foundation),
     (js ''anchors'', JNum (num_of_int (int n))), (js ''stakeEachEav7'', JStr (eav7_whole GENESIS_STAKE)),
     (js ''trancheEachEav7'', JStr (eav7_whole (big_div PARTNER 4)))]"

definition genesis :: "genesis_args \<Rightarrow> json res option \<Rightarrow> genesis_doc res" where
  "genesis a file =
    bind_res (req ''public-vault'' (ga_public_vault a)) (\<lambda>publicVault.
    bind_res (req ''sale-vault'' (ga_sale_vault a)) (\<lambda>saleVault.
    bind_res (req ''partner-vault'' (or_text (ga_partner_vault a) (or_text (ga_ecosystem_vault a) (ga_partner a)))) (\<lambda>partnerVault.
    bind_res (read_anchors a file) (\<lambda>(anchors, fromFile).
      let foundation = foundation_of a fromFile; n = length anchors;
          stakeTotal = GENESIS_STAKE * int n; vested = FOUNDATION - stakeTotal in
      if n < 5 \<or> 7 < n then Inl (js ''launch anchors must be 5..7, got '' @ dec n)
      else if vested \<le> 0 then Inl (js ''FOUNDATION <= N'' @ [215] @ js ''STAKE'')
      else if PUBLIC + PRIVATE + vested + PARTNER + stakeTotal \<noteq> GENESIS_SUPPLY then Inl (js ''supply mismatch'')
      else Inr \<lparr>gd_balances = balances_of publicVault saleVault partnerVault, gd_stakes = stakes_of anchors,
        gd_vesting = [\<lparr>gv_id = js ''foundation'', gv_beneficiary = foundation, gv_total = big_str vested,
          gv_cliff = CLIFF_12M, gv_duration = DUR_FOUNDATION_FROM_START\<rparr>],
        gd_meta = genesis_meta foundation n stakeTotal vested\<rparr>))))"

text \<open>Specification: what a document hands out.\<close>

definition handed_out :: "genesis_doc \<Rightarrow> int" where
  "handed_out d = sum_list (map (int \<circ> undec \<circ> snd) (gd_balances d)) + sum_list (map (int \<circ> undec \<circ> snd) (gd_stakes d))
     + sum_list (map (int \<circ> undec \<circ> gv_total) (gd_vesting d))"


section \<open>Lemmas\<close>

lemma bucket_values: "PUBLIC = 45000000000000000" "PRIVATE = 14750000000000000" "FOUNDATION = 30250000000000000"
  "PARTNER = 10000000000000000"
  by (simp_all add: PUBLIC_def PRIVATE_def FOUNDATION_def PARTNER_def GENESIS_SUPPLY_def big_div_def)

lemma undec_big_str: "0 \<le> k \<Longrightarrow> int (undec (big_str k)) = k"
  by (simp add: big_str_nonneg)

lemma update_keys: "distinct (map fst m) \<Longrightarrow> distinct (map fst (AList.update k v m))
    \<and> set (map fst (AList.update k v m)) = insert k (set (map fst m))"
  by (simp add: distinct_update dom_update)

lemma update_values: "set (map snd m) \<subseteq> {v} \<Longrightarrow> set (map snd (AList.update k v m)) \<subseteq> {v}"
  by (induction m) auto

lemma stakes_from:
  "distinct (map fst m) \<Longrightarrow> set (map snd m) \<subseteq> {v} \<Longrightarrow>
    distinct (map fst (foldl (\<lambda>m k. AList.update (json_str k) v m) m ks))
    \<and> set (map fst (foldl (\<lambda>m k. AList.update (json_str k) v m) m ks)) = set (map fst m) \<union> json_str ` set ks
    \<and> set (map snd (foldl (\<lambda>m k. AList.update (json_str k) v m) m ks)) \<subseteq> {v}"
proof (induction ks arbitrary: m)
  case (Cons k ks)
  then show ?case using update_keys [of m "json_str k" v] update_values [of m v "json_str k"] by simp
qed simp

lemma stakes_count: "length (stakes_of ks) = card (json_str ` set ks)"
proof -
  have "distinct (map fst (stakes_of ks))" "set (map fst (stakes_of ks)) = json_str ` set ks"
    using stakes_from [of "[]" "big_str GENESIS_STAKE" ks] by (simp_all add: stakes_of_def)
  then show ?thesis using distinct_card [of "map fst (stakes_of ks)"] by simp
qed

lemma constant_sum: "set (map snd m) \<subseteq> {v} \<Longrightarrow> sum_list (map (int \<circ> undec \<circ> snd) m) = int (undec v) * int (length m)"
  by (induction m) (auto simp: algebra_simps)

lemma stakes_sum: "sum_list (map (int \<circ> undec \<circ> snd) (stakes_of ks)) = GENESIS_STAKE * int (card (json_str ` set ks))"
proof -
  have "set (map snd (stakes_of ks)) \<subseteq> {big_str GENESIS_STAKE}"
    using stakes_from [of "[]" "big_str GENESIS_STAKE" ks] by (simp add: stakes_of_def)
  from constant_sum [OF this] show ?thesis using stakes_count [of ks] undec_big_str [of GENESIS_STAKE] by (simp add: GENESIS_STAKE_def)
qed

lemma req_Inr: "req n x = Inr y \<longleftrightarrow> x = Some y \<and> y \<noteq> []"
  by (auto simp: req_def split: option.splits list.splits)

lemma genesis_Inr:
  assumes "genesis a file = Inr d"
  obtains p s q anchors v where "ga_public_vault a = Some p" "ga_sale_vault a = Some s"
    "or_text (ga_partner_vault a) (or_text (ga_ecosystem_vault a) (ga_partner a)) = Some q"
    "read_anchors a file = Inr (anchors, v)" "5 \<le> length anchors" "length anchors \<le> 7"
    "gd_balances d = balances_of p s q" "gd_stakes d = stakes_of anchors"
    "map gv_total (gd_vesting d) = [big_str (FOUNDATION - GENESIS_STAKE * int (length anchors))]"
    "0 < FOUNDATION - GENESIS_STAKE * int (length anchors)"
proof -
  obtain p s q w where e: "req ''public-vault'' (ga_public_vault a) = Inr p" "req ''sale-vault'' (ga_sale_vault a) = Inr s"
    "req ''partner-vault'' (or_text (ga_partner_vault a) (or_text (ga_ecosystem_vault a) (ga_partner a))) = Inr q"
    "read_anchors a file = Inr w"
    using assms unfolding genesis_def bind_res_eq_Inr by blast
  obtain anchors v where w: "w = (anchors, v)" by (cases w)
  have "5 \<le> length anchors" "length anchors \<le> 7" "gd_balances d = balances_of p s q" "gd_stakes d = stakes_of anchors"
    "map gv_total (gd_vesting d) = [big_str (FOUNDATION - GENESIS_STAKE * int (length anchors))]"
    "0 < FOUNDATION - GENESIS_STAKE * int (length anchors)"
    using assms e w by (auto simp: genesis_def Let_def split: if_splits)
  then show ?thesis using e unfolding w req_Inr by (intro that [of p s q anchors v]) simp_all
qed


section \<open>Properties\<close>

text \<open>
  C8. The document accounts for the whole supply: with three different vaults, the balances, the stakes and
  the vesting add to the supply, less one stake for every repetition among the anchors. There are five
  to seven anchors, counted with their repetitions, and the foundation keeps a positive rest.
\<close>

theorem genesis_accounts_for_supply:
  assumes "genesis a file = Inr d" "read_anchors a file = Inr (anchors, v)" "ga_public_vault a = Some p" "ga_sale_vault a = Some s"
    "or_text (ga_partner_vault a) (or_text (ga_ecosystem_vault a) (ga_partner a)) = Some q" "distinct [p, s, q]"
  shows "handed_out d = GENESIS_SUPPLY - GENESIS_STAKE * (int (length anchors) - int (card (json_str ` set anchors)))
    \<and> length (gd_stakes d) = card (json_str ` set anchors) \<and> 5 \<le> length anchors \<and> length anchors \<le> 7
    \<and> (\<forall>x \<in> set (gd_vesting d). 0 < undec (gv_total x))"
proof -
  let ?vest = "FOUNDATION - GENESIS_STAKE * int (length anchors)"
  have d: "gd_balances d = balances_of p s q" "gd_stakes d = stakes_of anchors" "map gv_total (gd_vesting d) = [big_str ?vest]"
    and n: "5 \<le> length anchors" "length anchors \<le> 7" and pos: "0 < ?vest"
    using genesis_Inr [OF assms(1)] assms(2-5) by (metis option.inject prod.inject sum.inject(2))+
  have b: "balances_of p s q = [(p, big_str PUBLIC), (s, big_str PRIVATE), (q, big_str PARTNER)]"
    using assms(6) by (auto simp: balances_of_def)
  have "sum_list (map (int \<circ> undec \<circ> gv_total) (gd_vesting d)) = ?vest"
  proof -
    have "map (int \<circ> undec \<circ> gv_total) (gd_vesting d) = map (int \<circ> undec) (map gv_total (gd_vesting d))" by simp
    then show ?thesis using d(3) pos undec_big_str [of ?vest] by simp
  qed
  moreover have "\<forall>x \<in> set (gd_vesting d). 0 < undec (gv_total x)"
  proof
    fix x assume "x \<in> set (gd_vesting d)"
    then have "gv_total x \<in> set (map gv_total (gd_vesting d))" by simp
    then have "gv_total x = big_str ?vest" using d(3) by simp
    then show "0 < undec (gv_total x)" using undec_big_str [of ?vest] pos by simp
  qed
  ultimately show ?thesis using n d(1,2) b undec_big_str [of PUBLIC] undec_big_str [of PRIVATE] undec_big_str [of PARTNER]
    by (simp add: handed_out_def stakes_sum stakes_count bucket_values GENESIS_SUPPLY_def algebra_simps)
qed

text \<open>
  The check of the supply compares constants: an anchor that is listed twice, or a vault given for two
  buckets, passes it, and the document hands out less than the supply. The \<open>--founder\<close> option
  stands in for the anchors file and then fails on the number of anchors.
\<close>

lemma same_vault_loses_bucket: "balances_of p p q = [(p, big_str PRIVATE), (q, big_str PARTNER)] \<or> p = q"
  by (simp add: balances_of_def)

lemma founder_never_enough:
  assumes "ga_public_vault a = Some (c # p)" "ga_sale_vault a = Some (d # s)" "ga_partner_vault a = Some (e # q)"
    "ga_founder a = Some (x # f)"
  shows "genesis a None = Inl (js ''launch anchors must be 5..7, got 1'')"
  using assms by (simp add: genesis_def req_def or_text_def read_anchors_def js_eval)


subsection \<open>Witnesses\<close>

definition demo_args :: genesis_args where
  "demo_args = \<lparr>ga_public_vault = Some (js ''E7A''), ga_sale_vault = Some (js ''E7B''), ga_partner_vault = Some (js ''E7C''),
     ga_ecosystem_vault = None, ga_partner = None, ga_foundation = None, ga_founder = None\<rparr>"

definition demo_anchors :: "string list \<Rightarrow> json" where
  "demo_anchors ks = JObj [(js ''anchors'', JArr (map (\<lambda>k. JObj [(js ''e7'', JStr (js k))]) ks))]"

theorem genesis_accounts_for_supply_witness:
  "\<exists>d. genesis demo_args (Some (Inr (demo_anchors [''a'', ''b'', ''c'', ''d'', ''a'']))) = Inr d
    \<and> handed_out d = GENESIS_SUPPLY - GENESIS_STAKE"
proof -
  let ?f = "Some (Inr (demo_anchors [''a'', ''b'', ''c'', ''d'', ''a'']))"
  have r: "read_anchors demo_args ?f = Inr (map (\<lambda>k. JStr (js k)) [''a'', ''b'', ''c'', ''d'', ''a''], None)"
    by (simp add: read_anchors_def demo_anchors_def json_prop_def or_else_def opt_prop_def js_eq_iff)
  have "\<exists>d. genesis demo_args ?f = Inr d"
  proof -
    have "req ''public-vault'' (ga_public_vault demo_args) = Inr (js ''E7A'')"
      "req ''sale-vault'' (ga_sale_vault demo_args) = Inr (js ''E7B'')"
      "req ''partner-vault'' (or_text (ga_partner_vault demo_args) (or_text (ga_ecosystem_vault demo_args) (ga_partner demo_args)))
        = Inr (js ''E7C'')"
      by (simp_all add: demo_args_def req_def or_text_def js_eval)
    then show ?thesis by (simp add: genesis_def r bucket_values GENESIS_SUPPLY_def GENESIS_STAKE_def Let_def)
  qed
  then obtain d where d: "genesis demo_args ?f = Inr d" by blast
  have "handed_out d = GENESIS_SUPPLY - GENESIS_STAKE * (5 - int (card (json_str ` set (map (\<lambda>k. JStr (js k)) [''a'', ''b'', ''c'', ''d'', ''a'']))))"
    using genesis_accounts_for_supply [OF d r, of "js ''E7A''" "js ''E7B''" "js ''E7C''"]
    by (simp add: demo_args_def or_text_def js_eval)
  also have "card (json_str ` set (map (\<lambda>k. JStr (js k)) [''a'', ''b'', ''c'', ''d'', ''a''])) = 4"
    by (simp add: js_eval card_insert_if)
  finally show ?thesis using d by simp
qed

end
