(* ===== verification/LbpScripts.thy ===== *)
theory LbpScripts
  imports Merkle PublicLbp Format PartnerTranche
begin

section \<open>The scripts of the public sale (\<open>contracts/scripts\<close>)\<close>

text \<open>
  \<open>prepare-public-lbp-wallets.mjs\<close>, \<open>deploy-public-lbp.mjs\<close>, \<open>native-deploy-public-lbp.mjs\<close>,
  \<open>fund-public-vault.mjs\<close>, \<open>open-public-lbp.mjs\<close> and \<open>finalize-public-keeper.mjs\<close> make the keys of the public
  sale, deploy its vault, fund it, open its window and close it, one after the other; what they share is \<open>public-lbp-addresses.json\<close>, which the site reads too
  (\<open>PublicLbp\<close>). A script is a function of a world: the file, what it sent to the chain (commands of the
  node's command line and calls through the Ethereum library), the files of the relayer's \<open>.secrets\<close>, and everything outside, which is an abstract state with
  the operations of \<open>outside\<close>. A loop that polls until a deadline asks as often as \<open>ou_polls\<close> says, any
  number of times. Console output is left out; leaving with a message is \<open>Inl\<close>.
\<close>

subsection \<open>The file, the world and its operations\<close>

record lbp_file = lbp_addresses +
  lf_deployerE7 :: "jstr option"
  lf_adminKind :: "jstr option"
  lf_deployMode :: "jstr option"
  lf_deployedAt :: "jstr option"
  lf_vaultE7 :: "jstr option"
  lf_fundedEav7 :: "jstr option"
  lf_fundedAt :: "jstr option"
  lf_finalizedAt :: "jstr option"
  lf_walletsPreparedAt :: "jstr option"
  lf_deployedAtHeight :: "int option"

record lbp_cfg =
  lc_lbp :: jstr
  lc_lpSeed :: jstr
  lc_buffer :: jstr
  lc_incentives :: jstr
  lc_totalPublic :: jstr
  lc_windowHours :: "jsnum option"
  lc_blocksPerHour :: "jsnum option"

record lbp_env =
  le_live :: bool
  le_setup :: bool
  le_stakeOnly :: bool
  le_skipStake :: bool
  le_native :: bool
  le_hours :: "jstr option"
  le_node :: "jstr option"
  le_relayer :: "jstr option"
  le_sweep :: "jstr option"
  le_fund :: "jstr option"
  le_adminKey :: "jstr option"
  le_wallet :: jstr
  le_keeperKey :: "jstr option"
  le_vault :: "jstr option"
  le_custodyWallet :: "jstr option"
  le_has :: "jstr \<Rightarrow> bool"
  le_cli :: jstr
  le_once :: bool
  le_force :: bool

record lbp_account =
  lx_balance :: jstr
  lx_staked :: jstr
  lx_nonce :: jsnum

record vault_state =
  vs_lbpOpen :: bool
  vs_finalized :: bool
  vs_deadline :: int
  vs_allocated :: int
  vs_sold :: int
  vs_seeder :: jstr

record 'e lbp_world =
  lw_file :: lbp_file
  lw_sent :: "jstr list list"
  lw_codes :: "(jstr \<times> jstr) list"
  lw_ext :: 'e

record 'e outside =
  ou_cli :: "(jstr \<times> jstr) list \<Rightarrow> jstr list \<Rightarrow> 'e \<Rightarrow> (nat \<times> jstr) \<times> 'e"
  ou_account :: "jstr \<Rightarrow> 'e \<Rightarrow> lbp_account res \<times> 'e"
  ou_tx :: "jstr \<Rightarrow> 'e \<Rightarrow> (jstr \<times> int option) option res \<times> 'e"
  ou_code :: "jstr \<Rightarrow> 'e \<Rightarrow> jstr res \<times> 'e"
  ou_polls :: "int \<Rightarrow> 'e \<Rightarrow> nat \<times> 'e"
  ou_height :: "'e \<Rightarrow> int res \<times> 'e"
  ou_vault :: "'e \<Rightarrow> vault_state res \<times> 'e"
  ou_finalize :: "'e \<Rightarrow> unit res \<times> 'e"
  ou_openLbp :: "jstr \<Rightarrow> int \<Rightarrow> 'e \<Rightarrow> unit res \<times> 'e"
  ou_create :: "jstr \<Rightarrow> jstr \<Rightarrow> jstr list \<Rightarrow> 'e \<Rightarrow> jstr res \<times> 'e"
  ou_call :: "jstr \<Rightarrow> jstr \<Rightarrow> jstr \<Rightarrow> jstr list \<Rightarrow> 'e \<Rightarrow> unit res \<times> 'e"
  ou_newKey :: "'e \<Rightarrow> jstr \<times> 'e"
  ou_address :: "jstr \<Rightarrow> jstr res"
  ou_now :: "'e \<Rightarrow> jstr"
  ou_keccak :: "byte list \<Rightarrow> byte list"
  ou_artifact :: "jstr \<Rightarrow> jstr"

type_synonym ('e, 'a) script = "'e lbp_world \<Rightarrow> 'a res \<times> 'e lbp_world"

definition ret :: "'a \<Rightarrow> ('e, 'a) script" where "ret x w = (Inr x, w)"
definition quit :: "jstr \<Rightarrow> ('e, 'a) script" where "quit e w = (Inl e, w)"
definition after :: "('e, 'a) script \<Rightarrow> ('a \<Rightarrow> ('e, 'b) script) \<Rightarrow> ('e, 'b) script" where
  "after m f w = (case m w of (Inl e, w') \<Rightarrow> (Inl e, w') | (Inr x, w') \<Rightarrow> f x w')"
definition need :: "bool \<Rightarrow> jstr \<Rightarrow> ('e, unit) script" where
  "need b e = (if b then ret () else quit e)"
definition pure_res :: "'a res \<Rightarrow> ('e, 'a) script" where "pure_res r w = (r, w)"
definition ask :: "('e \<Rightarrow> 'a res \<times> 'e) \<Rightarrow> ('e, 'a) script" where
  "ask f w = (let (r, x) = f (lw_ext w) in (r, w\<lparr>lw_ext := x\<rparr>))"
definition the_file :: "('e, lbp_file) script" where "the_file w = (Inr (lw_file w), w)"
definition write_file :: "lbp_file \<Rightarrow> ('e, unit) script" where "write_file f w = (Inr (), w\<lparr>lw_file := f\<rparr>)"
definition write_code :: "jstr \<Rightarrow> jstr \<Rightarrow> ('e, unit) script" where
  "write_code p c w = (Inr (), w\<lparr>lw_codes := (p, c) # lw_codes w\<rparr>)"
definition the_codes :: "('e, (jstr \<times> jstr) list) script" where "the_codes w = (Inr (lw_codes w), w)"
definition eth_send :: "jstr list \<Rightarrow> ('e \<Rightarrow> 'a res \<times> 'e) \<Rightarrow> ('e, 'a) script" where
  "eth_send args f w = ask f (w\<lparr>lw_sent := lw_sent w @ [args]\<rparr>)"
definition now :: "'e outside \<Rightarrow> ('e, jstr) script" where "now ou w = (Inr (ou_now ou (lw_ext w)), w)"


subsection \<open>The output of the command line\<close>

text \<open>\<open>label\s*:\s*\<close> at the start of a text, with or without case, and the first match in it.\<close>

definition same_char :: "bool \<Rightarrow> nat \<Rightarrow> nat \<Rightarrow> bool" where
  "same_char ci a b \<longleftrightarrow> a = b \<or> (ci \<and> (lower_char a = lower_char b \<or> {a, b} = {199, 231}))"

definition skip_ws :: "jstr \<Rightarrow> jstr" where "skip_ws s = dropWhile is_ws s"

definition label_at :: "bool \<Rightarrow> jstr \<Rightarrow> jstr \<Rightarrow> jstr option" where
  "label_at ci l s = (if length l \<le> length s \<and> list_all2 (same_char ci) l (take (length l) s)
     then (case skip_ws (drop (length l) s) of c # r \<Rightarrow> if c = 58 then Some (skip_ws r) else None | [] \<Rightarrow> None)
     else None)"

fun first_match :: "(jstr \<Rightarrow> 'a option) \<Rightarrow> jstr \<Rightarrow> 'a option" where
  "first_match f [] = f []"
| "first_match f (c # s) = (case f (c # s) of Some x \<Rightarrow> Some x | None \<Rightarrow> first_match f s)"

definition e7_here :: "jstr \<Rightarrow> jstr option" where
  "e7_here s = (let h = takeWhile is_hex (drop 2 s) in
     if list_all2 (same_char True) (js ''E7'') (take 2 s) \<and> h \<noteq> [] then Some (take 2 s @ h) else None)"

definition e7_after :: "jstr \<Rightarrow> jstr \<Rightarrow> jstr option" where
  "e7_after l = first_match (\<lambda>s. case label_at True l s of Some r \<Rightarrow> e7_here r | None \<Rightarrow> None)"

definition shown_address :: "jstr \<Rightarrow> jstr option" where
  "shown_address = e7_after (js ''endere'' @ [231] @ js ''o'')"

definition txid_line :: "jstr \<Rightarrow> jstr option" where
  "txid_line = first_match (\<lambda>s. case label_at False (js ''txId'') s of
     Some r \<Rightarrow> (case takeWhile (\<lambda>c. \<not> is_ws c) r of [] \<Rightarrow> None | t \<Rightarrow> Some t) | None \<Rightarrow> None)"

definition id_field :: "jstr \<Rightarrow> jstr option" where
  "id_field = first_match (\<lambda>s. case label_at False (js [CHR 0x22, CHR ''i'', CHR ''d'', CHR 0x22]) s of
     Some (c # r) \<Rightarrow> (let t = takeWhile (\<lambda>c. c \<noteq> 34) r in
       if c = 34 \<and> t \<noteq> [] \<and> length t < length r then Some t else None)
   | _ \<Rightarrow> None)"

definition or_match :: "'a option \<Rightarrow> 'a option \<Rightarrow> 'a option" where
  "or_match a b = (case a of Some x \<Rightarrow> Some x | None \<Rightarrow> b)"

definition node_url :: "lbp_env \<Rightarrow> jstr" where
  "node_url e = (let u = (case le_node e of Some (c # s) \<Rightarrow> c # s | _ \<Rightarrow> js ''http://api.eavscan.com'') in
     if to_lower (take 23 u) = js ''https://api.eavscan.com'' then js ''http://api.eavscan.com'' @ drop 23 u else u)"

text \<open>\<open>spawnSync\<close> of a command that only shows something, and \<open>cliRun\<close> of one that sends.\<close>

definition cli_show :: "'e outside \<Rightarrow> jstr list \<Rightarrow> ('e, nat \<times> jstr) script" where
  "cli_show ou args w = (let (r, x) = ou_cli ou (lw_codes w) args (lw_ext w) in (Inr r, w\<lparr>lw_ext := x\<rparr>))"

definition cli_send :: "'e outside \<Rightarrow> jstr list \<Rightarrow> ('e, nat \<times> jstr) script" where
  "cli_send ou args w = cli_show ou args (w\<lparr>lw_sent := lw_sent w @ [args]\<rparr>)"

definition cliRun :: "'e outside \<Rightarrow> lbp_env \<Rightarrow> (jstr \<Rightarrow> jstr option) \<Rightarrow> jstr list \<Rightarrow> ('e, jstr option) script" where
  "cliRun ou e txid args = after (cli_send ou (args @ [js ''--node'', node_url e])) (\<lambda>(st, out).
     if st \<noteq> 0 then quit (js ''eav7-cli exit '' @ dec st) else ret (txid out))"

definition txid_or_id :: "jstr \<Rightarrow> jstr option" where "txid_or_id out = or_match (txid_line out) (id_field out)"
definition id_or_txid :: "jstr \<Rightarrow> jstr option" where "id_or_txid out = or_match (id_field out) (txid_line out)"


subsection \<open>Calldata\<close>

definition ascii :: "jstr \<Rightarrow> byte list" where "ascii s = map (\<lambda>c. word_of_int (int c)) s"

definition padAddr :: "jstr \<Rightarrow> byte list res" where
  "padAddr addr = (let l = to_lower addr; h = (if take 2 l = js ''0x'' then drop 2 l else l) in
     if length h \<noteq> 40 then Inl (js ''bad addr '' @ addr) else Inr (replicate 12 0 @ hex_bytes h))"

definition padU128 :: "int \<Rightarrow> byte list" where "padU128 n = replicate 16 0 @ be_bytes 16 n"

definition fn_selector :: "(byte list \<Rightarrow> byte list) \<Rightarrow> string \<Rightarrow> byte list" where
  "fn_selector keccak sig = take 4 (keccak (ascii (js sig)))"

definition hex_of :: "byte list \<Rightarrow> jstr" where "hex_of b = drop 2 (hex_text b)"

text \<open>The nonce is printed into the preimage of the address.\<close>

definition createAddress :: "(byte list \<Rightarrow> byte list) \<Rightarrow> jstr \<Rightarrow> jsnum \<Rightarrow> jstr" where
  "createAddress keccak sender nonce = hex_text (drop 12 (keccak (ascii (to_lower sender @ [58] @ num_str nonce))))"

definition setBuckets_input :: "(byte list \<Rightarrow> byte list) \<Rightarrow> int \<Rightarrow> int \<Rightarrow> int \<Rightarrow> byte list" where
  "setBuckets_input keccak lbp lpSeed buffer =
     fn_selector keccak ''setBuckets(uint128,uint128,uint128)'' @ padU128 lbp @ padU128 lpSeed @ padU128 buffer"

definition setLpSeeder_input :: "(byte list \<Rightarrow> byte list) \<Rightarrow> byte list \<Rightarrow> byte list" where
  "setLpSeeder_input keccak seeder = fn_selector keccak ''setLpSeeder(address)'' @ seeder"

text \<open>The loop of \<open>encodeOpenLbp\<close> stops when nothing is left; of a negative number nothing is written.\<close>

definition encodeOpenLbp :: "(byte list \<Rightarrow> byte list) \<Rightarrow> int \<Rightarrow> jstr" where
  "encodeOpenLbp keccak deadline = hex_text (fn_selector keccak ''openLbp(uint64)'' @ be_bytes 32 (max 0 deadline))"


subsection \<open>Deploying\<close>

definition or_set :: "jstr option \<Rightarrow> jstr option \<Rightarrow> jstr option" where
  "or_set v w = (case v of Some (c # s) \<Rightarrow> Some (c # s) | _ \<Rightarrow> w)"

definition big_or_zero :: "jstr \<Rightarrow> int res" where
  "big_or_zero s = big_of_str (if s = [] then js ''0'' else s)"

fun waitAccount :: "'e outside \<Rightarrow> jstr \<Rightarrow> (lbp_account \<Rightarrow> bool res) \<Rightarrow> jstr \<Rightarrow> nat \<Rightarrow> ('e, lbp_account) script" where
  "waitAccount ou e7 pred label 0 = quit (js ''timeout waiting '' @ label)"
| "waitAccount ou e7 pred label (Suc n) = after (ask (ou_account ou e7)) (\<lambda>a. after (pure_res (pred a)) (\<lambda>ok.
     if ok then ret a else waitAccount ou e7 pred label n))"

fun confirm_loop :: "'e outside \<Rightarrow> jstr \<Rightarrow> nat \<Rightarrow> ('e, unit) script" where
  "confirm_loop ou tx 0 = quit (js ''timeout confirm '' @ tx)"
| "confirm_loop ou tx (Suc n) = after (ask (ou_tx ou tx)) (\<lambda>r. case r of
     Some (st, Some h) \<Rightarrow> if st = js ''CONFIRMED'' then ret () else confirm_loop ou tx n
   | _ \<Rightarrow> confirm_loop ou tx n)"

definition tx_text :: "jstr option \<Rightarrow> jstr" where
  "tx_text t = (case t of Some s \<Rightarrow> s | None \<Rightarrow> js ''null'')"

definition polls :: "'e outside \<Rightarrow> int \<Rightarrow> ('e, nat) script" where
  "polls ou ms = ask (\<lambda>x. let (n, x') = ou_polls ou ms x in (Inr n, x'))"

definition waitConfirmed :: "'e outside \<Rightarrow> jstr option \<Rightarrow> ('e, unit) script" where
  "waitConfirmed ou t = after (polls ou 180000) (confirm_loop ou (tx_text t))"

definition encodeDest :: "'e outside \<Rightarrow> jstr \<Rightarrow> ('e, jstr) script" where
  "encodeDest ou e7 = after (cli_show ou [js ''eavm'', js ''encode-dest'', e7]) (\<lambda>(st, out).
     if st \<noteq> 0 then quit (js ''encode-dest failed'') else ret (trim out))"

definition STAKE_EAV7 :: jstr where "STAKE_EAV7 = js ''7000''"

definition stake_first :: "'e outside \<Rightarrow> lbp_env \<Rightarrow> jstr \<Rightarrow> ('e, unit) script" where
  "stake_first ou e e7 = after (ask (ou_account ou e7)) (\<lambda>acct. if le_skipStake e then ret () else
     after (pure_res (big_or_zero (lx_staked acct))) (\<lambda>st.
       if big_div st 1000000 < 7000 then
         after (cliRun ou e txid_or_id [js ''stake'', js ''--wallet'', le_wallet e, js ''--amount'', STAKE_EAV7]) (\<lambda>t.
         after (polls ou 120000) (\<lambda>n.
         after (waitAccount ou e7 (\<lambda>a. bind_res (big_or_zero (lx_staked a)) (\<lambda>x. Inr (7000 * 1000000 \<le> x)))
             (js ''stake confirm'') n) (\<lambda>a. ret ())))
       else ret ()))"

text \<open>
  One contract: the address its creation will have, the creation, and the check that code is there. The
  script has these lines twice.
\<close>

definition deploy_contract :: "'e outside \<Rightarrow> lbp_env \<Rightarrow> jstr \<Rightarrow> jstr \<Rightarrow> string \<Rightarrow> jstr \<Rightarrow> ('e, jstr) script" where
  "deploy_contract ou e e7 admin name creation = after (ask (ou_account ou e7)) (\<lambda>acct.
     let a = createAddress (ou_keccak ou) admin (lx_nonce acct); p = js ''relayer/.secrets/'' @ js name in
     after (write_code p creation) (\<lambda>_.
     after (cliRun ou e txid_or_id [js ''eavm'', js ''deploy'', js ''--wallet'', le_wallet e, js ''--code'', p]) (\<lambda>t.
     after (waitConfirmed ou t) (\<lambda>_.
     after (ask (ou_code ou a)) (\<lambda>code.
       if code = [] \<or> code = js ''0x'' \<or> code = js ''0x0'' then quit (js ''sem c'' @ [243] @ js ''digo em '' @ a)
       else ret a)))))"

definition call_vault :: "'e outside \<Rightarrow> lbp_env \<Rightarrow> jstr \<Rightarrow> byte list \<Rightarrow> ('e, unit) script" where
  "call_vault ou e vault input = after (cliRun ou e txid_or_id [js ''eavm'', js ''call'', js ''--wallet'', le_wallet e,
     js ''--to'', vault, js ''--input'', js ''0x'' @ hex_of input]) (waitConfirmed ou)"

definition setup_vault :: "'e outside \<Rightarrow> lbp_env \<Rightarrow> lbp_cfg \<Rightarrow> jstr \<Rightarrow> jstr \<Rightarrow> ('e, unit) script" where
  "setup_vault ou e cfg vault seeder =
     after (pure_res (big_of_str (lc_lbp cfg))) (\<lambda>a. after (pure_res (big_of_str (lc_lpSeed cfg))) (\<lambda>b.
     after (pure_res (big_of_str (lc_buffer cfg))) (\<lambda>c. after (pure_res (padAddr seeder)) (\<lambda>s.
     after (call_vault ou e vault (setBuckets_input (ou_keccak ou) a b c)) (\<lambda>_.
       call_vault ou e vault (setLpSeeder_input (ou_keccak ou) s))))))"

definition record_deploy :: "lbp_env \<Rightarrow> lbp_file \<Rightarrow> jstr \<Rightarrow> jstr \<Rightarrow> jstr \<Rightarrow> jstr \<Rightarrow> jstr \<Rightarrow> jstr \<Rightarrow> lbp_file" where
  "record_deploy e f e7 admin relayer vault seeder t = f\<lparr>la_status := (if le_setup e then js ''deployed-setup'' else js ''deployed''),
     lf_deployerE7 := Some e7, la_admin0x := Some admin, lf_adminKind := Some (js ''encode-e7-dest''), la_relayer0x := Some relayer,
     la_sweepTo0x := or_set (le_sweep e) (or_set (la_sweepTo0x f) (Some relayer)), la_publicVault0x := Some vault,
     la_timelockLpSeeder0x := Some seeder, lf_deployedAt := Some t, lf_deployMode := Some (js ''native-hybrid'')\<rparr>"

definition deploy_live :: "'e outside \<Rightarrow> lbp_env \<Rightarrow> lbp_cfg \<Rightarrow> lbp_file \<Rightarrow> jstr \<Rightarrow> jstr \<Rightarrow> jstr \<Rightarrow> ('e, unit) script" where
  "deploy_live ou e cfg f relayer e7 admin = after (stake_first ou e e7) (\<lambda>_. if le_stakeOnly e then ret () else
     after (pure_res (padAddr admin)) (\<lambda>pa. after (pure_res (padAddr relayer)) (\<lambda>pr.
     after (deploy_contract ou e e7 admin ''publicvault.creation.hex''
         (ou_artifact ou (js ''PublicVault'') @ hex_of pa @ hex_of pr)) (\<lambda>vault.
     after (pure_res (padAddr vault)) (\<lambda>pv.
     after (deploy_contract ou e e7 admin ''timelock.creation.hex''
         (ou_artifact ou (js ''TimelockLpSeeder'') @ hex_of pa @ hex_of pv)) (\<lambda>seeder.
     after (if le_setup e then setup_vault ou e cfg vault seeder else ret ()) (\<lambda>_.
     after (now ou) (\<lambda>t. write_file (record_deploy e f e7 admin relayer vault seeder t)))))))))"

definition native_deploy :: "'e outside \<Rightarrow> lbp_env \<Rightarrow> lbp_cfg \<Rightarrow> ('e, unit) script" where
  "native_deploy ou e cfg = after the_file (\<lambda>f.
     after (need (le_has e (le_cli e)) (js ''missing eav7-cli'')) (\<lambda>_.
     after (need (le_has e (le_wallet e)) (js ''missing wallet'')) (\<lambda>_.
     case or_set (le_relayer e) (la_relayer0x f) of None \<Rightarrow> quit (js ''RELAYER_ADDRESS'')
     | Some relayer \<Rightarrow> after (need (re_evm relayer) (js ''RELAYER_ADDRESS'')) (\<lambda>_.
       after (cli_show ou [js ''wallet'', js ''show'', le_wallet e]) (\<lambda>(st, out).
       case shown_address out of None \<Rightarrow> quit (js ''wallet show failed'')
       | Some e7 \<Rightarrow> after (encodeDest ou e7) (\<lambda>admin.
           if \<not> le_live e then ret () else deploy_live ou e cfg f relayer e7 admin))))))"


subsection \<open>Deploying through the Ethereum library (\<open>deploy-public-lbp.mjs\<close>)\<close>

definition lbp_buckets :: "lbp_cfg \<Rightarrow> (int \<times> int \<times> int) res" where
  "lbp_buckets cfg = bind_res (big_of_str (lc_lbp cfg)) (\<lambda>a. bind_res (big_of_str (lc_lpSeed cfg)) (\<lambda>b.
     bind_res (big_of_str (lc_buffer cfg)) (\<lambda>c. bind_res (big_of_str (lc_incentives cfg)) (\<lambda>d.
     bind_res (big_of_str (lc_totalPublic cfg)) (\<lambda>t. Inr (a, b, c))))))"

definition eth_call :: "'e outside \<Rightarrow> jstr \<Rightarrow> jstr \<Rightarrow> string \<Rightarrow> jstr list \<Rightarrow> ('e, unit) script" where
  "eth_call ou pk vault m args = eth_send (js m # vault # args) (ou_call ou pk vault (js m) args)"

definition eth_create :: "'e outside \<Rightarrow> jstr \<Rightarrow> string \<Rightarrow> jstr list \<Rightarrow> ('e, jstr) script" where
  "eth_create ou pk name args = eth_send (js name # args) (ou_create ou pk (js name) args)"

definition record_eth :: "lbp_env \<Rightarrow> lbp_file \<Rightarrow> jstr \<Rightarrow> jstr \<Rightarrow> jstr \<Rightarrow> jstr \<Rightarrow> jstr \<Rightarrow> jstr \<Rightarrow> int \<Rightarrow> lbp_file" where
  "record_eth e f admin relayer sweepTo vault seeder t h = f\<lparr>la_status := (if le_setup e then js ''deployed-setup'' else js ''deployed''),
     la_admin0x := Some admin, la_relayer0x := Some relayer, la_sweepTo0x := Some sweepTo, la_publicVault0x := Some vault,
     la_timelockLpSeeder0x := Some seeder, lf_deployedAt := Some t, lf_deployedAtHeight := Some h\<rparr>"

definition eth_deploy_live :: "'e outside \<Rightarrow> lbp_env \<Rightarrow> int \<times> int \<times> int \<Rightarrow> lbp_file \<Rightarrow> jstr \<Rightarrow> jstr \<Rightarrow> ('e, unit) script" where
  "eth_deploy_live ou e b f relayer sweepTo = after (ask (ou_height ou)) (\<lambda>_. case or_set (le_adminKey e) None of
     None \<Rightarrow> quit (js ''ADMIN_PRIVATE_KEY'')
   | Some pk \<Rightarrow> after (pure_res (ou_address ou pk)) (\<lambda>admin.
       after (eth_create ou pk ''PublicVault'' [admin, relayer]) (\<lambda>vault.
       after (eth_create ou pk ''TimelockLpSeeder'' [admin, vault]) (\<lambda>seeder.
       after (if le_setup e then after (eth_call ou pk vault ''setBuckets'' [big_str (fst b), big_str (fst (snd b)), big_str (snd (snd b))])
           (\<lambda>_. eth_call ou pk vault ''setLpSeeder'' [seeder]) else ret ()) (\<lambda>_.
       after (now ou) (\<lambda>t. after (ask (ou_height ou)) (\<lambda>h.
         write_file (record_eth e f admin relayer sweepTo vault seeder t h))))))))"

definition eth_deploy :: "'e outside \<Rightarrow> lbp_env \<Rightarrow> lbp_cfg \<Rightarrow> ('e, unit) script" where
  "eth_deploy ou e cfg = after the_file (\<lambda>f. case or_set (le_relayer e) None of None \<Rightarrow> quit (js ''RELAYER_ADDRESS'')
     | Some relayer \<Rightarrow> after (need (re_evm relayer) (js ''RELAYER_ADDRESS'')) (\<lambda>_.
       case or_set (le_sweep e) (Some relayer) of None \<Rightarrow> quit (js ''SWEEP_TO_ADDRESS'')
       | Some sweepTo \<Rightarrow> after (need (re_evm sweepTo) (js ''SWEEP_TO_ADDRESS'')) (\<lambda>_.
         after (pure_res (lbp_buckets cfg)) (\<lambda>b.
           if \<not> le_live e then ret () else eth_deploy_live ou e b f relayer sweepTo))))"

text \<open>
  \<open>fund-public-lbp-admin.mjs\<close> prints how much the deploying account needs: the gas of two creations and a
  margin, in energy, less the free energy, burnt at a fixed price.
\<close>

definition GAS_NEEDED :: int where "GAS_NEEDED = 32000 + 200 * 2880 + 32000 + 200 * 1232 + 200000"

definition suggested_EAV7 :: int where
  "suggested_EAV7 = (let energy = - (- GAS_NEEDED div 100) + 2 * 10 + 2 * 5; paid = max 0 (energy - 10) in
     - (- (paid * 20000) div 1000000) + 20)"


subsection \<open>The keys (\<open>prepare-public-lbp-wallets.mjs\<close>)\<close>

definition new_key :: "'e outside \<Rightarrow> ('e, jstr) script" where
  "new_key ou = ask (\<lambda>x. let (k, x') = ou_newKey ou x in (Inr k, x'))"

definition writeSecret :: "'e outside \<Rightarrow> lbp_env \<Rightarrow> string \<Rightarrow> ('e, jstr) script" where
  "writeSecret ou e name = after (new_key ou) (\<lambda>k. after the_codes (\<lambda>fs. let p = js ''relayer/.secrets/'' @ js name in
     case (if le_force e then None else map_of fs p) of
       Some t \<Rightarrow> pure_res (ou_address ou (trim t))
     | None \<Rightarrow> after (write_code p (k @ [10])) (\<lambda>_. pure_res (ou_address ou k))))"

definition prepared_notes :: jstr where
  "prepared_notes = js ''Public 0x only. Private keys in contracts/sale/relayer/.secrets/ (gitignored). transferAdmin to multisig before funding 45B.''"

definition prepare_wallets :: "'e outside \<Rightarrow> lbp_env \<Rightarrow> ('e, unit) script" where
  "prepare_wallets ou e = after (writeSecret ou e ''admin.private.key'') (\<lambda>admin.
     after (writeSecret ou e ''relayer.private.key'') (\<lambda>relayer. after the_file (\<lambda>f.
       if text_set (la_publicVault0x f) \<and> \<not> le_force e then quit (js ''Vault j'' @ [225] @ js '' deployado'')
       else after (now ou) (\<lambda>t. write_file (f\<lparr>la_status := js ''wallets-prepared'', la_admin0x := Some admin,
         la_relayer0x := Some relayer, la_sweepTo0x := Some admin, la_notes := Some prepared_notes, lf_walletsPreparedAt := Some t\<rparr>)))))"


subsection \<open>Funding\<close>

definition fund_amount :: "lbp_env \<Rightarrow> lbp_cfg \<Rightarrow> jstr res" where
  "fund_amount e cfg = bind_res (big_of_str (lc_lbp cfg)) (\<lambda>a. bind_res (big_of_str (lc_lpSeed cfg)) (\<lambda>b.
     bind_res (big_of_str (lc_buffer cfg)) (\<lambda>c.
       Inr (case le_fund e of Some (d # s) \<Rightarrow> d # s | _ \<Rightarrow> big_str (big_div (a + b + c) 1000000)))))"

fun balance_loop :: "'e outside \<Rightarrow> jstr \<Rightarrow> int \<Rightarrow> nat \<Rightarrow> ('e, unit) script" where
  "balance_loop ou e7 amount 0 = quit (js ''timeout vault funded'')"
| "balance_loop ou e7 amount (Suc n) = after (ask (ou_account ou e7)) (\<lambda>a.
     after (pure_res (big_or_zero (lx_balance a))) (\<lambda>b. if amount \<le> b then ret () else balance_loop ou e7 amount n))"

definition waitBalance :: "'e outside \<Rightarrow> jstr \<Rightarrow> jstr \<Rightarrow> ('e, unit) script" where
  "waitBalance ou e7 minE7 = after (pure_res (big_of_str minE7)) (\<lambda>m. balance_loop ou e7 (m * 1000000) 60)"

definition fund_live :: "'e outside \<Rightarrow> lbp_env \<Rightarrow> jstr \<Rightarrow> jstr \<Rightarrow> lbp_account \<Rightarrow> ('e, unit) script" where
  "fund_live ou e amount vaultE7 custody = after the_file (\<lambda>f.
     case le_custodyWallet e of None \<Rightarrow> quit (js ''CUSTODY_WALLET'')
     | Some wallet \<Rightarrow> after (need (wallet \<noteq> [] \<and> le_has e wallet) (js ''CUSTODY_WALLET'')) (\<lambda>_.
       after (cli_show ou [js ''wallet'', js ''show'', wallet]) (\<lambda>(st, out).
       after (need (shown_address out = Some (la_publicCustodyEoa f)) (js ''carteira'')) (\<lambda>_.
       after (pure_res (big_or_zero (lx_balance custody))) (\<lambda>have.
       after (pure_res (big_of_str amount)) (\<lambda>want.
       after (need (want * 1000000 + 1000000 \<le> have) (js ''saldo insuficiente'')) (\<lambda>_.
       after (cliRun ou e id_or_txid [js ''send'', js ''--wallet'', wallet, js ''--to'', vaultE7, js ''--amount'', amount]) (\<lambda>t.
       after (waitBalance ou vaultE7 amount) (\<lambda>_.
       after (now ou) (\<lambda>ts. write_file (f\<lparr>la_status := js ''vault-funded'', lf_vaultE7 := Some vaultE7,
         lf_fundedEav7 := Some amount, lf_fundedAt := Some ts\<rparr>)))))))))))"

definition fund_vault :: "'e outside \<Rightarrow> lbp_env \<Rightarrow> lbp_cfg \<Rightarrow> ('e, unit) script" where
  "fund_vault ou e cfg = after (pure_res (fund_amount e cfg)) (\<lambda>amount. after the_file (\<lambda>f.
     case or_set (la_publicVault0x f) None of None \<Rightarrow> quit (js ''publicVault0x ausente'')
     | Some vault \<Rightarrow> after (cli_show ou [js ''eavm'', js ''address'', vault, js ''--node'', node_url e]) (\<lambda>(st, out).
       case e7_after (js ''EAV7'') out of None \<Rightarrow> quit (js ''falha a mapear vault 0x'')
       | Some vaultE7 \<Rightarrow> after (ask (ou_account ou (la_publicCustodyEoa f))) (\<lambda>custody.
         after (ask (ou_account ou vaultE7)) (\<lambda>va.
           if \<not> le_live e then ret () else fund_live ou e amount vaultE7 custody)))))"


subsection \<open>Opening and finalizing\<close>

definition or_num :: "jsnum \<Rightarrow> jsnum \<Rightarrow> jsnum" where
  "or_num x y = (if x = NaN \<or> x = Num 0 then y else x)"

definition hours_eff :: "lbp_env \<Rightarrow> lbp_cfg \<Rightarrow> jsnum" where
  "hours_eff e cfg = or_num (case le_hours e of Some (c # s) \<Rightarrow> num_of_str (c # s) | _ \<Rightarrow> Num 72)
     (case lc_windowHours cfg of Some h \<Rightarrow> or_num h (Num 72) | None \<Rightarrow> Num 72)"

text \<open>What \<open>JSON.stringify\<close> writes of \<open>Number(deadline)\<close>, \<open>null\<close> when it is too large to be finite.\<close>

definition json_height :: "int \<Rightarrow> int option" where
  "json_height d = (case num_of_int d of Num q \<Rightarrow> Some \<lfloor>q\<rfloor> | _ \<Rightarrow> None)"

definition window_blocks :: "lbp_env \<Rightarrow> lbp_cfg \<Rightarrow> int res" where
  "window_blocks e cfg = bigint_of_num (num_round (num_mul (hours_eff e cfg)
     (case lc_blocksPerHour cfg of Some b \<Rightarrow> or_num b (Num 3600) | None \<Rightarrow> Num 3600)))"

definition use_native :: "lbp_env \<Rightarrow> lbp_file \<Rightarrow> bool" where
  "use_native e f \<longleftrightarrow> le_native e \<or> lf_adminKind f = Some (js ''encode-e7-dest'') \<or> lf_deployMode f = Some (js ''native-hybrid'')"

definition open_live :: "'e outside \<Rightarrow> lbp_env \<Rightarrow> lbp_file \<Rightarrow> jstr \<Rightarrow> int \<Rightarrow> int \<Rightarrow> ('e, unit) script" where
  "open_live ou e f vault height deadline = after
     (if use_native e f then after (need (le_has e (le_wallet e)) (js ''DEPLOYER_WALLET ausente'')) (\<lambda>_.
        after (cli_send ou [js ''eavm'', js ''call'', js ''--wallet'', le_wallet e, js ''--to'', vault,
            js ''--input'', encodeOpenLbp (ou_keccak ou) deadline, js ''--node'', node_url e]) (\<lambda>(st, out).
          if st \<noteq> 0 then quit (js ''exit'') else ret ()))
      else case or_set (le_adminKey e) None of None \<Rightarrow> quit (js ''ADMIN_PRIVATE_KEY'')
        | Some pk \<Rightarrow> eth_send [js ''openLbp'', vault, big_str deadline] (ou_openLbp ou pk deadline))
     (\<lambda>_. write_file (f\<lparr>la_openedAtHeight := Some height, la_lbpDeadlineHeight := json_height deadline, la_status := js ''lbp-open''\<rparr>))"

definition open_lbp :: "'e outside \<Rightarrow> lbp_env \<Rightarrow> lbp_cfg \<Rightarrow> ('e, unit) script" where
  "open_lbp ou e cfg = after the_file (\<lambda>f. case or_set (la_publicVault0x f) None of
       None \<Rightarrow> if \<not> le_live e then ret () else quit (js ''publicVault0x ausente'')
     | Some vault \<Rightarrow> after (ask (ou_height ou)) (\<lambda>height.
         after (pure_res (window_blocks e cfg)) (\<lambda>window.
           if \<not> le_live e then ret () else open_live ou e f vault height (height + window))))"


text \<open>
  The keeper reads the file once and then looks at the vault until it has finalized it; \<open>f\<close> is the file as
  it was read, and the number of looks is the time it is left running.
\<close>

definition ZERO_ADDRESS :: jstr where "ZERO_ADDRESS = js ''0x'' @ replicate 40 48"

definition keeper_ready :: "int \<Rightarrow> vault_state \<Rightarrow> bool" where
  "keeper_ready height s \<longleftrightarrow> vs_lbpOpen s \<and> \<not> vs_finalized s \<and> vs_seeder s \<noteq> ZERO_ADDRESS
     \<and> (0 < vs_deadline s \<and> vs_deadline s < height \<or> vs_allocated s \<le> vs_sold s)"

definition keeper_tick :: "'e outside \<Rightarrow> lbp_env \<Rightarrow> lbp_file \<Rightarrow> ('e, bool) script" where
  "keeper_tick ou e f = after (ask (ou_height ou)) (\<lambda>height. after (ask (ou_vault ou)) (\<lambda>s.
     if \<not> keeper_ready height s then ret False
     else if \<not> le_live e \<or> or_set (le_keeperKey e) (or_set (le_adminKey e) None) = None then ret True
     else after (eth_send [js ''finalizeToLp''] (ou_finalize ou)) (\<lambda>_. after (now ou) (\<lambda>t.
       after (write_file (f\<lparr>la_status := js ''finalized'', lf_finalizedAt := Some t\<rparr>)) (\<lambda>_. ret True)))))"

fun keeper_watch :: "'e outside \<Rightarrow> lbp_env \<Rightarrow> lbp_file \<Rightarrow> nat \<Rightarrow> ('e, unit) script" where
  "keeper_watch ou e f 0 = ret ()"
| "keeper_watch ou e f (Suc n) = after (keeper_tick ou e f) (\<lambda>d. if d \<and> le_live e then ret () else keeper_watch ou e f n)"

definition keeper :: "'e outside \<Rightarrow> lbp_env \<Rightarrow> nat \<Rightarrow> ('e, unit) script" where
  "keeper ou e n = after the_file (\<lambda>f. case or_set (le_vault e) (or_set (la_publicVault0x f) None) of
     None \<Rightarrow> quit (js ''PUBLIC_VAULT_ADDRESS'') | Some v \<Rightarrow> after (case or_set (le_keeperKey e) (or_set (le_adminKey e) None) of
         None \<Rightarrow> ret () | Some pk \<Rightarrow> after (pure_res (ou_address ou pk)) (\<lambda>a. ret ()))
       (\<lambda>_. keeper_watch ou e f (if le_once e then 1 else n)))"


section \<open>Lemmas\<close>

subsection \<open>Runs of scripts\<close>

text \<open>
  \<open>frames\<close>: the file is not touched. \<open>quiet\<close>: neither is it, nor is a command sent. \<open>ends_in F Q\<close>: started on
  the file \<open>F\<close>, the run leaves it as it is, or ends well with a file that has \<open>Q\<close>.
\<close>

named_theorems script_rules \<open>rules that follow the structure of a script\<close>

definition frames :: "('e, 'a) script \<Rightarrow> bool" where
  "frames m \<longleftrightarrow> (\<forall>w. lw_file (snd (m w)) = lw_file w)"

definition quiet :: "('e, 'a) script \<Rightarrow> bool" where
  "quiet m \<longleftrightarrow> (\<forall>w. lw_file (snd (m w)) = lw_file w \<and> lw_sent (snd (m w)) = lw_sent w)"

definition ends_in :: "lbp_file \<Rightarrow> (lbp_file \<Rightarrow> bool) \<Rightarrow> ('e, 'a) script \<Rightarrow> bool" where
  "ends_in F Q m \<longleftrightarrow> (\<forall>w. lw_file w = F \<longrightarrow> lw_file (snd (m w)) = F
     \<or> (\<exists>x. fst (m w) = Inr x) \<and> Q (lw_file (snd (m w))))"

lemmas script_defs = ret_def quit_def need_def pure_res_def ask_def the_file_def write_file_def write_code_def now_def
  cli_show_def cli_send_def the_codes_def eth_send_def Let_def

lemma quiet_basic [script_rules]:
  "quiet (ret x)" "quiet (quit e)" "quiet (need b e)" "quiet (pure_res r)" "quiet (ask f)" "quiet the_file" "quiet (now ou)" "quiet the_codes"
  "quiet (cli_show ou args)"
  by (simp_all add: quiet_def script_defs split: prod.split)

lemma frames_basic [script_rules]:
  "frames (ret x)" "frames (quit e)" "frames (need b e)" "frames (pure_res r)" "frames (ask f)" "frames the_file" "frames (now ou)"
  "frames (cli_show ou args)" "frames (write_code p c)" "frames (cli_send ou args)"
  "frames (eth_send args g)" "frames the_codes"
  by (simp_all add: frames_def script_defs split: prod.split)

lemma quiet_after [script_rules]: "quiet m \<Longrightarrow> (\<And>x. quiet (f x)) \<Longrightarrow> quiet (after m f)"
  by (simp add: quiet_def after_def split: prod.split sum.split) (metis prod.collapse snd_conv)

lemma frames_after [script_rules]: "frames m \<Longrightarrow> (\<And>x. frames (f x)) \<Longrightarrow> frames (after m f)"
  by (simp add: frames_def after_def split: prod.split sum.split) (metis prod.collapse snd_conv)

lemma quiet_if [script_rules]: "(b \<Longrightarrow> quiet m) \<Longrightarrow> (\<not> b \<Longrightarrow> quiet m') \<Longrightarrow> quiet (if b then m else m')"
  and frames_if [script_rules]: "(b \<Longrightarrow> frames m) \<Longrightarrow> (\<not> b \<Longrightarrow> frames m') \<Longrightarrow> frames (if b then m else m')"
  and quiet_option [script_rules]: "quiet m \<Longrightarrow> (\<And>x. quiet (f x)) \<Longrightarrow> quiet (case_option m f r)"
  and frames_option [script_rules]: "frames m \<Longrightarrow> (\<And>x. frames (f x)) \<Longrightarrow> frames (case_option m f r)"
  and quiet_prod [script_rules]: "(\<And>x y. quiet (g x y)) \<Longrightarrow> quiet (case_prod g p)"
  and frames_prod [script_rules]: "(\<And>x y. frames (g x y)) \<Longrightarrow> frames (case_prod g p)"
  by (simp_all split: option.split prod.split)

lemma ends_ret [script_rules]: "ends_in F Q (ret x)" and ends_quit [script_rules]: "ends_in F Q (quit e)"
  by (simp_all add: ends_in_def script_defs)

lemma ends_write [script_rules]: "Q G \<Longrightarrow> ends_in F Q (write_file G)"
  by (simp add: ends_in_def script_defs)

lemma ends_file: "ends_in F Q (f F) \<Longrightarrow> ends_in F Q (after the_file f)"
  by (simp add: ends_in_def after_def script_defs)

lemma ends_after: "frames m \<Longrightarrow> (\<And>x. ends_in F Q (f x)) \<Longrightarrow> ends_in F Q (after m f)"
  by (simp add: ends_in_def frames_def after_def split: prod.split sum.split) (metis prod.collapse fst_conv snd_conv)

lemma ends_if [script_rules]: "(b \<Longrightarrow> ends_in F Q m) \<Longrightarrow> (\<not> b \<Longrightarrow> ends_in F Q m') \<Longrightarrow> ends_in F Q (if b then m else m')"
  and ends_option [script_rules]: "(r = None \<Longrightarrow> ends_in F Q m) \<Longrightarrow> (\<And>x. r = Some x \<Longrightarrow> ends_in F Q (f x)) \<Longrightarrow>
    ends_in F Q (case_option m f r)"
  and ends_prod [script_rules]: "(\<And>x y. ends_in F Q (g x y)) \<Longrightarrow> ends_in F Q (case_prod g p)"
  by (simp_all split: option.split prod.split)


text \<open>What a script that ends well answers with.\<close>

definition yields :: "('a \<Rightarrow> bool) \<Rightarrow> ('e, 'a) script \<Rightarrow> bool" where
  "yields P m \<longleftrightarrow> (\<forall>w x. fst (m w) = Inr x \<longrightarrow> P x)"

lemma ends_yields: "frames m \<Longrightarrow> yields P m \<Longrightarrow> (\<And>x. P x \<Longrightarrow> ends_in F Q (f x)) \<Longrightarrow> ends_in F Q (after m f)"
  by (simp add: ends_in_def frames_def yields_def after_def split: prod.split sum.split) (metis prod.collapse fst_conv snd_conv)

lemma yields_after: "(\<And>x. yields P (f x)) \<Longrightarrow> yields P (after m f)"
  by (auto simp: yields_def after_def split: prod.split sum.split)

lemma yields_need: "yields (\<lambda>_. b) (need b e)"
  by (simp add: yields_def script_defs)

lemma after_need: "after (need b e) f = (if b then f () else quit e)"
  by (rule ext) (simp add: after_def script_defs)

lemma yields_pure: "yields (\<lambda>x. r = Inr x) (pure_res r)"
  by (simp add: yields_def script_defs)

lemma cliRun_frames [script_rules]: "frames (cliRun ou e txid args)"
  unfolding cliRun_def by (intro script_rules)

lemma waitAccount_frames [script_rules]: "frames (waitAccount ou e7 pred label n)"
  by (induction n) (auto intro!: script_rules)

lemma confirm_frames [script_rules]: "frames (confirm_loop ou tx n)"
  by (induction n) (auto intro!: script_rules split: option.split)

lemma balance_frames [script_rules]: "frames (balance_loop ou e7 amount n)"
  by (induction n) (auto intro!: script_rules)

lemma wait_frames [script_rules]: "frames (waitConfirmed ou t)" "frames (waitBalance ou e7 m)" "frames (encodeDest ou e7)"
  "frames (stake_first ou e e7)" "frames (call_vault ou e v input)" "frames (setup_vault ou e cfg v sd)"
  "frames (deploy_contract ou e e7 admin name creation)" "frames (eth_call ou pk v mt args)" "frames (eth_create ou pk cn as)"
  "frames (writeSecret ou e cn)"
  unfolding waitConfirmed_def polls_def waitBalance_def encodeDest_def stake_first_def call_vault_def setup_vault_def
    deploy_contract_def eth_call_def eth_create_def writeSecret_def new_key_def Let_def by (intro script_rules)+

lemma deploy_yields: "yields (\<lambda>a. \<exists>nonce. a = createAddress (ou_keccak ou) admin nonce) (deploy_contract ou e e7 admin name creation)"
  unfolding deploy_contract_def Let_def
  by (intro yields_after) (auto simp: yields_def script_defs)

lemma encodeDest_quiet [script_rules]: "quiet (encodeDest ou e7)"
  unfolding encodeDest_def by (intro script_rules)


subsection \<open>What each script does to the file\<close>

definition deploy_result :: "'e outside \<Rightarrow> lbp_env \<Rightarrow> lbp_file \<Rightarrow> lbp_file \<Rightarrow> bool" where
  "deploy_result ou e F G \<longleftrightarrow> le_live e \<and> \<not> le_stakeOnly e
     \<and> (\<exists>e7 admin relayer n1 n2 t. re_evm relayer \<and> G = record_deploy e F e7 admin relayer
          (createAddress (ou_keccak ou) admin n1) (createAddress (ou_keccak ou) admin n2) t)"

definition fund_result :: "lbp_env \<Rightarrow> lbp_file \<Rightarrow> lbp_file \<Rightarrow> bool" where
  "fund_result e F G \<longleftrightarrow> le_live e \<and> text_set (la_publicVault0x F)
     \<and> (\<exists>v a t. G = F\<lparr>la_status := js ''vault-funded'', lf_vaultE7 := Some v, lf_fundedEav7 := Some a, lf_fundedAt := Some t\<rparr>)"

definition open_result :: "lbp_env \<Rightarrow> lbp_cfg \<Rightarrow> lbp_file \<Rightarrow> lbp_file \<Rightarrow> bool" where
  "open_result e cfg F G \<longleftrightarrow> le_live e \<and> text_set (la_publicVault0x F)
     \<and> (\<exists>h b. window_blocks e cfg = Inr b
       \<and> G = F\<lparr>la_openedAtHeight := Some h, la_lbpDeadlineHeight := json_height (h + b), la_status := js ''lbp-open''\<rparr>)"

definition eth_result :: "'e outside \<Rightarrow> lbp_env \<Rightarrow> lbp_file \<Rightarrow> lbp_file \<Rightarrow> bool" where
  "eth_result ou e F G \<longleftrightarrow> le_live e \<and> (\<exists>pk admin relayer sweepTo vault seeder t h args x.
     or_set (le_adminKey e) None = Some pk \<and> ou_address ou pk = Inr admin \<and> re_evm relayer \<and> re_evm sweepTo
     \<and> fst (ou_create ou pk (js ''PublicVault'') args x) = Inr vault
     \<and> G = record_eth e F admin relayer sweepTo vault seeder t h)"

definition prepare_result :: "lbp_env \<Rightarrow> lbp_file \<Rightarrow> lbp_file \<Rightarrow> bool" where
  "prepare_result e F G \<longleftrightarrow> (text_set (la_publicVault0x F) \<longrightarrow> le_force e)
     \<and> (\<exists>a r t. G = F\<lparr>la_status := js ''wallets-prepared'', la_admin0x := Some a, la_relayer0x := Some r,
         la_sweepTo0x := Some a, la_notes := Some prepared_notes, lf_walletsPreparedAt := Some t\<rparr>)"

definition keeper_result :: "lbp_env \<Rightarrow> lbp_file \<Rightarrow> lbp_file \<Rightarrow> bool" where
  "keeper_result e F G \<longleftrightarrow> le_live e \<and> (\<exists>t. G = F\<lparr>la_status := js ''finalized'', lf_finalizedAt := Some t\<rparr>)"

lemma or_set_None: "or_set v None = Some x \<Longrightarrow> text_set v \<and> v = Some x"
  by (auto simp: or_set_def text_set_def split: option.splits list.splits)

lemmas ends_straight = ends_after [OF frames_basic(4)] ends_after [OF frames_basic(7)] ends_after [OF wait_frames(4)]
  ends_after [OF frames_if [OF wait_frames(6) frames_basic(1)]]

lemma ends_deploy: "(\<And>n. ends_in F Q (f (createAddress (ou_keccak ou) admin n))) \<Longrightarrow>
    ends_in F Q (after (deploy_contract ou e e7 admin name creation) f)"
  by (rule ends_yields [OF wait_frames(7) deploy_yields]) blast

lemma deploy_live_ends:
  "le_live e \<Longrightarrow> re_evm relayer \<Longrightarrow> ends_in F (deploy_result ou e F) (deploy_live ou e cfg F relayer e7 admin)"
  unfolding deploy_live_def
  by (intro ends_straight ends_deploy ends_if ends_ret ends_write) (unfold deploy_result_def, blast)

lemma deploy_ends: "ends_in F (deploy_result ou e F) (native_deploy ou e cfg)"
  unfolding native_deploy_def after_need
  by (rule ends_file) (intro script_rules ends_after deploy_live_ends; simp)

lemma fund_live_ends: "le_live e \<Longrightarrow> text_set (la_publicVault0x F) \<Longrightarrow> ends_in F (fund_result e F) (fund_live ou e amount v c)"
  unfolding fund_live_def
  by (rule ends_file) (intro script_rules ends_after; auto simp: fund_result_def)

lemma fund_ends: "ends_in F (fund_result e F) (fund_vault ou e cfg)"
  unfolding fund_vault_def
  by (rule ends_after, intro script_rules, rule ends_file)
    (intro script_rules ends_after fund_live_ends; auto dest: or_set_None)

lemma open_live_ends:
  "le_live e \<Longrightarrow> text_set (la_publicVault0x F) \<Longrightarrow> window_blocks e cfg = Inr b \<Longrightarrow>
    ends_in F (open_result e cfg F) (open_live ou e F v h (h + b))"
  unfolding open_live_def
  by (intro script_rules ends_after; auto simp: open_result_def)

lemma open_ends: "ends_in F (open_result e cfg F) (open_lbp ou e cfg)"
  unfolding open_lbp_def
  by (rule ends_file) (intro ends_option ends_if ends_ret ends_quit ends_after [OF frames_basic(5)] ends_yields [OF frames_basic(4) yields_pure]
      open_live_ends; auto dest: or_set_None)

lemma eth_create_yields: "yields (\<lambda>a. \<exists>args x. fst (ou_create ou pk (js n) args x) = Inr a) (eth_create ou pk n as)"
  by (auto simp: yields_def eth_create_def script_defs split: prod.splits) (metis fst_conv)

lemma eth_live_ends:
  assumes "le_live e" "re_evm relayer" "re_evm sweepTo"
  shows "ends_in F (eth_result ou e F) (eth_deploy_live ou e b F relayer sweepTo)"
  unfolding eth_deploy_live_def
  by (intro ends_after [OF frames_basic(5)] ends_after [OF frames_basic(7)] ends_option ends_quit ends_write
      ends_yields [OF frames_basic(4) yields_pure] ends_yields [OF wait_frames(9) eth_create_yields]
      ends_after [OF frames_if [OF frames_after [OF wait_frames(8) wait_frames(8)] frames_basic(1)]])
    (use assms in \<open>unfold eth_result_def, blast\<close>)

lemma eth_ends: "ends_in F (eth_result ou e F) (eth_deploy ou e cfg)"
  unfolding eth_deploy_def after_need
  by (rule ends_file) (intro script_rules ends_after eth_live_ends; simp)

lemma prepare_ends: "ends_in F (prepare_result e F) (prepare_wallets ou e)"
  unfolding prepare_wallets_def
  by (intro ends_after [OF wait_frames(10)] ends_file ends_after [OF frames_basic(7)] ends_if ends_quit ends_write)
    (auto simp: prepare_result_def)

lemma keeper_tick_cases:
  obtains (kept) "lw_file (snd (keeper_tick ou e f w)) = lw_file w"
  | (wrote) t where "fst (keeper_tick ou e f w) = Inr True" "le_live e"
      "lw_file (snd (keeper_tick ou e f w)) = f\<lparr>la_status := js ''finalized'', lf_finalizedAt := Some t\<rparr>"
proof -
  obtain h x where h: "ou_height ou (lw_ext w) = (h, x)" by fastforce
  obtain v y where v: "ou_vault ou x = (v, y)" by fastforce
  obtain d z where d: "ou_finalize ou y = (d, z)" by fastforce
  note run = keeper_tick_def after_def script_defs h v d
  show ?thesis
  proof (cases h)
    case (Inl er) then show ?thesis by (intro kept) (simp add: run)
  next
    case (Inr ht)
    note hi = Inr
    show ?thesis
    proof (cases v)
      case (Inl er) then show ?thesis by (intro kept) (simp add: run hi)
    next
      case (Inr st)
      consider "\<not> keeper_ready ht st" | "keeper_ready ht st" "\<not> le_live e \<or> or_set (le_keeperKey e) (or_set (le_adminKey e) None) = None"
        | "keeper_ready ht st" "le_live e" "or_set (le_keeperKey e) (or_set (le_adminKey e) None) \<noteq> None" by blast
      then show ?thesis
      proof cases
        case 3
        show ?thesis
        proof (cases d)
          case Inl with 3 show ?thesis by (intro kept) (simp add: run hi Inr)
        next
          case (Inr u) with 3 show ?thesis by (intro wrote [of "ou_now ou z"]) (auto simp: run hi \<open>v = Inr st\<close>)
        qed
      qed (intro kept; simp add: run hi Inr)+
    qed
  qed
qed

lemma keeper_watch_ends: "lw_file w = F \<Longrightarrow> lw_file (snd (keeper_watch ou e F n w)) = F
    \<or> (\<exists>x. fst (keeper_watch ou e F n w) = Inr x) \<and> keeper_result e F (lw_file (snd (keeper_watch ou e F n w)))"
proof (induction n arbitrary: w)
  case (Suc n)
  obtain r w' where r: "keeper_tick ou e F w = (r, w')" by (cases "keeper_tick ou e F w")
  show ?case
  proof (rule keeper_tick_cases [of ou e F w])
    assume k: "lw_file (snd (keeper_tick ou e F w)) = lw_file w"
    then have "lw_file w' = F" using r Suc.prems by simp
    then show ?thesis using Suc.IH [of w'] r by (auto simp: after_def ret_def split: sum.split)
  next
    fix t assume "fst (keeper_tick ou e F w) = Inr True" "le_live e"
      "lw_file (snd (keeper_tick ou e F w)) = F\<lparr>la_status := js ''finalized'', lf_finalizedAt := Some t\<rparr>"
    then show ?thesis using r by (auto simp: after_def ret_def keeper_result_def)
  qed
qed (simp add: ret_def)

lemma keeper_ends: "ends_in F (keeper_result e F) (keeper ou e n)"
  unfolding keeper_def
  by (rule ends_file, rule ends_option, rule ends_quit, rule ends_after, intro script_rules)
    (unfold ends_in_def, intro allI impI keeper_watch_ends)

lemma keeper_tick_quiet: "\<not> le_live e \<Longrightarrow> quiet (keeper_tick ou e f)"
  unfolding keeper_tick_def by (simp, intro script_rules)

lemma dry_quiet:
  assumes "\<not> le_live e"
  shows "quiet (native_deploy ou e cfg)" "quiet (fund_vault ou e cfg)" "quiet (open_lbp ou e cfg)" "quiet (keeper ou e n)"
    "quiet (eth_deploy ou e cfg)"
proof -
  have k: "quiet (keeper_watch ou e f i)" for f i
    using keeper_tick_quiet [OF assms] by (induction i) (auto intro!: script_rules)
  show "quiet (keeper ou e n)" unfolding keeper_def by (intro script_rules k)
qed (use assms in \<open>simp_all add: native_deploy_def fund_vault_def open_lbp_def eth_deploy_def Let_def\<close>; intro script_rules)+


subsection \<open>The contract of a script\<close>

definition site_file :: "lbp_file \<Rightarrow> lbp_addresses option" where
  "site_file F = Some (lbp_addresses.truncate F)"

text \<open>
  What the site relies on: a status that says the vault is there has its address, and one that says the window
  is open has the height at which it was opened.
\<close>

definition file_ok :: "lbp_file \<Rightarrow> bool" where
  "file_ok F \<longleftrightarrow> (la_status F \<in> {js ''deployed'', js ''deployed-setup'', js ''vault-funded'', js ''lbp-open''}
       \<longrightarrow> text_set (la_publicVault0x F))
     \<and> (la_status F = js ''lbp-open'' \<longrightarrow> la_openedAtHeight F \<noteq> None)"

text \<open>A contract created through the Ethereum library has an address.\<close>

definition create_ok :: "'e outside \<Rightarrow> bool" where
  "create_ok ou \<longleftrightarrow> (\<forall>pk name args x a. fst (ou_create ou pk name args x) = Inr a \<longrightarrow> a \<noteq> [])"

locale lbp_script =
  fixes run :: "lbp_env \<Rightarrow> ('e, unit) script"
    and result :: "lbp_env \<Rightarrow> lbp_file \<Rightarrow> lbp_file \<Rightarrow> bool"
    and trusted :: bool
  assumes ends: "ends_in F (result e F) (run e)"
    and keeps: "trusted \<Longrightarrow> file_ok F \<Longrightarrow> result e F G \<Longrightarrow> file_ok G"
begin

lemma outcome: "lw_file (snd (run e w)) = lw_file w
    \<or> fst (run e w) = Inr () \<and> result e (lw_file w) (lw_file (snd (run e w)))"
  using ends [of "lw_file w" e] by (auto simp: ends_in_def)

lemma failed_keeps_file: "fst (run e w) = Inl x \<Longrightarrow> lw_file (snd (run e w)) = lw_file w"
  using outcome [of e w] by auto

lemma file_kept_ok: "trusted \<Longrightarrow> file_ok (lw_file w) \<Longrightarrow> file_ok (lw_file (snd (run e w)))"
  using outcome [of e w] keeps [of "lw_file w" e] by auto

end

locale lbp_live_script = lbp_script +
  assumes dry: "\<not> le_live e \<Longrightarrow> quiet (run e)"
begin

lemma dry_run: "\<not> le_live e \<Longrightarrow> lw_file (snd (run e w)) = lw_file w \<and> lw_sent (snd (run e w)) = lw_sent w"
  using dry [of e] by (simp add: quiet_def)

end

lemma createAddress_nonempty [simp]: "createAddress k a n \<noteq> []"
  by (simp add: createAddress_def hex_text_def)

lemma deployed_ok: "v \<noteq> [] \<Longrightarrow> la_status G = (if b then js ''deployed-setup'' else js ''deployed'') \<Longrightarrow>
    la_publicVault0x G = Some v \<Longrightarrow> file_ok G"
  by (auto simp: file_ok_def text_set_def js_eval split: list.splits if_splits)

lemma deploy_keeps: "deploy_result ou e F G \<Longrightarrow> file_ok G"
  unfolding deploy_result_def
  by (elim conjE exE) (rule deployed_ok [OF createAddress_nonempty], simp_all add: record_deploy_def)

lemma create_nonempty: "create_ok ou \<Longrightarrow> fst (ou_create ou pk name args x) = Inr a \<Longrightarrow> a \<noteq> []"
  by (auto simp: create_ok_def)

lemma eth_keeps: "create_ok ou \<Longrightarrow> eth_result ou e F G \<Longrightarrow> file_ok G"
  unfolding eth_result_def
  by (elim conjE exE) (rule deployed_ok [OF create_nonempty], assumption, assumption, simp_all add: record_eth_def)

lemmas file_ok_defs = file_ok_def text_set_def fund_result_def open_result_def prepare_result_def keeper_result_def js_eval

interpretation deploying: lbp_live_script "\<lambda>e. native_deploy ou e cfg" "deploy_result ou" True for ou cfg
  by unfold_locales (rule deploy_ends, rule deploy_keeps, simp, rule dry_quiet)

interpretation eth_deploying: lbp_live_script "\<lambda>e. eth_deploy ou e cfg" "eth_result ou" "create_ok ou" for ou cfg
  by unfold_locales (rule eth_ends, rule eth_keeps, simp, simp, rule dry_quiet)

interpretation funding: lbp_live_script "\<lambda>e. fund_vault ou e cfg" fund_result True for ou cfg
  by unfold_locales (rule fund_ends, auto simp: file_ok_defs intro: dry_quiet)

interpretation lbp_opening: lbp_live_script "\<lambda>e. open_lbp ou e cfg" "\<lambda>e. open_result e cfg" True for ou cfg
  by unfold_locales (rule open_ends, auto simp: file_ok_defs intro: dry_quiet)

interpretation keeping: lbp_live_script "\<lambda>e. keeper ou e n" keeper_result True for ou n
  by unfold_locales (rule keeper_ends, auto simp: file_ok_defs intro: dry_quiet)

interpretation preparing: lbp_script "\<lambda>e. prepare_wallets ou e" prepare_result True for ou
  by unfold_locales (rule prepare_ends, auto simp: file_ok_defs)

text \<open>Any order of the scripts, under any arguments, with anything happening outside in between.\<close>

inductive lbp_step :: "'e outside \<Rightarrow> 'e lbp_world \<Rightarrow> 'e lbp_world \<Rightarrow> bool" for ou where
  prepare: "lbp_step ou w (snd (prepare_wallets ou e w))"
| native: "lbp_step ou w (snd (native_deploy ou e cfg w))"
| eth: "lbp_step ou w (snd (eth_deploy ou e cfg w))"
| fund: "lbp_step ou w (snd (fund_vault ou e cfg w))"
| opened: "lbp_step ou w (snd (open_lbp ou e cfg w))"
| kept: "lbp_step ou w (snd (keeper ou e n w))"
| elsewhere: "lbp_step ou w (w\<lparr>lw_ext := x\<rparr>)"

lemma lbp_step_ok: "lbp_step ou w w' \<Longrightarrow> create_ok ou \<Longrightarrow> file_ok (lw_file w) \<Longrightarrow> file_ok (lw_file w')"
  by (induction rule: lbp_step.induct)
    (simp_all add: preparing.file_kept_ok deploying.file_kept_ok eth_deploying.file_kept_ok funding.file_kept_ok
      lbp_opening.file_kept_ok keeping.file_kept_ok)

lemma lbp_reach_ok: "(lbp_step ou)\<^sup>*\<^sup>* w w' \<Longrightarrow> create_ok ou \<Longrightarrow> file_ok (lw_file w) \<Longrightarrow> file_ok (lw_file w')"
  by (induction rule: rtranclp_induct) (auto intro: lbp_step_ok)

lemma site_file_simps [simp]:
  "isLbpOpen (site_file F) \<longleftrightarrow> la_status F = js ''lbp-open''"
  "isPublicVaultDeployed (site_file F) \<longleftrightarrow> text_set (la_publicVault0x F) \<and> la_status F \<noteq> js ''not-deployed''"
  "isLbpPreparedOnChain (site_file F) \<longleftrightarrow> height_set (la_openedAtHeight F) \<and> height_set (la_lbpDeadlineHeight F)"
  by (auto simp: site_file_def isLbpOpen_def isPublicVaultDeployed_def isLbpPreparedOnChain_def lbp_addresses.defs)


subsection \<open>Calldata\<close>

lemma byte_hex: "n < 256 \<Longrightarrow> pad_start 2 48 (to_base 16 n) = [digit_char (n div 16), digit_char (n mod 16)]"
  by (cases "n < 16") (simp_all add: pad_start_def to_base_less to_base_ge less_mult_imp_div_less digit_char_def)

lemma is_hex_digit_char: "d < 16 \<Longrightarrow> is_hex (digit_char d)"
  by (auto simp: digit_char_def char_class_defs)

lemma unat_byte: "n < 256 \<Longrightarrow> unat (word_of_int (int n) :: byte) = n"
  by (simp only: unat_eq_nat_uint uint_word_of_int) simp

lemma hex_bytes_text: "hex_bytes (concat (map (\<lambda>x. pad_start 2 48 (to_base 16 (unat x))) b)) = b"
proof (induction b)
  case (Cons x b)
  have x: "unat x < 256" using unsigned_less [of x, where 'a = nat] by simp
  have v: "16 * int (unat x div 16) + int (unat x mod 16) = int (unat x)"
    by (metis mult_div_mod_eq of_nat_add of_nat_mult of_nat_numeral)
  show ?case using Cons x v by (simp add: byte_hex is_hex_digit_char less_mult_imp_div_less)
qed simp

lemma hex_bytes_hex_text [simp]: "hex_bytes (drop 2 (hex_text b)) = b"
  using hex_bytes_text [of b] by (simp add: hex_text_def js_eval)

lemma lower_hex_digit: "is_lower_hex c \<Longrightarrow> digit_val c < 16 \<and> digit_char (digit_val c) = c \<and> is_hex c"
  by (auto simp: char_class_defs digit_val_def digit_char_def)

lemma be_value_zeros: "be_value (replicate k 0 @ b) = be_value b"
  by (induction k) (simp_all add: be_value_def)

lemma padU128_value: "0 \<le> a \<Longrightarrow> a < 2 ^ 128 \<Longrightarrow> be_value (padU128 a) = a"
  by (simp add: padU128_def be_value_zeros be_value_bytes)

lemma length_padU128 [simp]: "length (padU128 a) = 32"
  by (simp add: padU128_def)

lemma padAddr_evm:
  assumes "re_evm s"
  obtains p where "padAddr s = Inr p" "length p = 32" "hex_text (drop 12 p) = to_lower s"
proof -
  define h where "h = to_lower (drop 2 s)"
  have s: "to_lower s = js ''0x'' @ h" using to_lower_evm [OF assms] by (simp add: h_def)
  have h: "length h = 40" "list_all is_lower_hex h"
    using assms evm_lower [OF assms] s by (auto simp: re_evm_def h_def to_lower_def js_eval)
  have bytes: "length (hex_bytes t) = length t div 2
      \<and> concat (map (\<lambda>x. pad_start 2 48 (to_base 16 (unat x))) (hex_bytes t)) = t"
    if "list_all is_lower_hex t" "even (length t)" for t
    using that
  proof (induction t rule: hex_bytes.induct)
    case (1 c d t)
    then have cd: "is_lower_hex c" "is_lower_hex d" by simp_all
    define n where "n = 16 * digit_val c + digit_val d"
    have n: "n < 256" "n div 16 = digit_val c" "n mod 16 = digit_val d"
      using lower_hex_digit [OF cd(1)] lower_hex_digit [OF cd(2)] by (auto simp: n_def)
    note u = unat_byte [OF n(1)]
    then show ?case
      using 1 cd n lower_hex_digit [OF cd(1)] lower_hex_digit [OF cd(2)] byte_hex [OF n(1)] u by (simp flip: n_def)
  qed simp_all
  show thesis
  proof
    show "padAddr s = Inr (replicate 12 0 @ hex_bytes h)" using s h by (simp add: padAddr_def js_eval)
  qed (use bytes [OF h(2)] h s in \<open>simp_all add: hex_text_def\<close>)
qed

lemma fn_selector_length: "(\<forall>b. length (keccak b) = 32) \<Longrightarrow> length (fn_selector keccak sig) = 4"
  by (simp add: fn_selector_def)


subsection \<open>Opening\<close>

lemma after_write: "fst (after m (\<lambda>_. write_file g) w) = Inr x \<Longrightarrow> lw_file (snd (after m (\<lambda>_. write_file g) w)) = g"
  by (auto simp: after_def write_file_def split: sum.splits prod.splits)

lemma open_live_file: "fst (open_live ou e f v h d w) = Inr x \<Longrightarrow> lw_file (snd (open_live ou e f v h d w))
    = f\<lparr>la_openedAtHeight := Some h, la_lbpDeadlineHeight := json_height d, la_status := js ''lbp-open''\<rparr>"
  unfolding open_live_def by (rule after_write)

lemma shipped_window:
  assumes "le_hours e = None" "lc_windowHours cfg = Some (Num 72)" "lc_blocksPerHour cfg = Some (Num 3600)"
  shows "window_blocks e cfg = Inr 259200"
  using assms by (simp add: window_blocks_def hours_eff_def or_num_def num_eval bigint_of_num_def js_eval)

lemma json_height_small: "\<bar>d\<bar> \<le> 2 ^ 53 \<Longrightarrow> json_height d = Some d"
  by (simp add: json_height_def num_of_int_small)

lemma open_run:
  assumes "le_live e" "la_publicVault0x (lw_file w) = Some v" "v \<noteq> []" "ou_height ou (lw_ext w) = (Inr h, x)" "window_blocks e cfg = Inr b"
  shows "open_lbp ou e cfg w = open_live ou e (lw_file w) v h (h + b) (w\<lparr>lw_ext := x\<rparr>)"
  using assms by (cases v) (simp_all add: open_lbp_def or_set_def after_def script_defs)

text \<open>
  With the wallet of the node the window counts as open as soon as the command line has taken the call; that the
  call was put into a block, and that the vault accepted it, is not asked.
\<close>

lemma open_native_unconfirmed:
  assumes "le_live e" "la_publicVault0x (lw_file w) = Some v" "v \<noteq> []" "ou_height ou (lw_ext w) = (Inr h, x)" "window_blocks e cfg = Inr b"
    and "use_native e (lw_file w)" "le_has e (le_wallet e)" "\<And>c a. fst (ou_cli ou c a x) = (0, out)"
  shows "fst (open_lbp ou e cfg w) = Inr ()" "lw_file (snd (open_lbp ou e cfg w)) = (lw_file w)\<lparr>la_openedAtHeight := Some h,
    la_lbpDeadlineHeight := json_height (h + b), la_status := js ''lbp-open''\<rparr>"
proof -
  show "fst (open_lbp ou e cfg w) = Inr ()"
    by (simp add: open_run [OF assms(1-5)] open_live_def assms(6-8) after_def script_defs split_beta)
  then show "lw_file (snd (open_lbp ou e cfg w)) = (lw_file w)\<lparr>la_openedAtHeight := Some h,
      la_lbpDeadlineHeight := json_height (h + b), la_status := js ''lbp-open''\<rparr>"
    unfolding open_run [OF assms(1-5)] by (rule open_live_file)
qed


subsection \<open>What goes wrong\<close>

text \<open>
  A second deployment keeps the heights of the window of the first vault, and what was paid into it: a vault that was
  never opened counts as prepared on the chain.
\<close>

lemma redeployed_still_prepared:
  "deploy_result ou e F G \<Longrightarrow> isLbpPreparedOnChain (site_file G) = isLbpPreparedOnChain (site_file F)
    \<and> lf_vaultE7 G = lf_vaultE7 F \<and> lf_fundedEav7 G = lf_fundedEav7 F"
  by (auto simp: deploy_result_def record_deploy_def)

text \<open>Nor does a deployment through the Ethereum library take back that the admin is a native account.\<close>

lemma eth_redeploy_opens_native: "eth_result ou e F G \<Longrightarrow> use_native e' F \<Longrightarrow> use_native e' G"
  by (auto simp: eth_result_def record_eth_def use_native_def)

text \<open>What the vault held before counts as the arrival of the funds.\<close>

lemma fund_counts_old_balance:
  assumes "ou_account ou v (lw_ext w) = (Inr a, x)" "big_or_zero (lx_balance a) = Inr b" "m * 1000000 \<le> b" "big_of_str amount = Inr m"
  shows "fst (waitBalance ou v amount w) = Inr ()"
  using assms by (simp add: waitBalance_def numeral_eq_Suc after_def script_defs)

text \<open>The keeper writes the file as it was when it started, whatever the file has become since.\<close>

lemma keeper_restores_file:
  assumes "ou_height ou (lw_ext w) = (Inr h, x)" "ou_vault ou x = (Inr s, y)" "keeper_ready h s" "le_live e"
    and "or_set (le_keeperKey e) (or_set (le_adminKey e) None) = Some k" "ou_finalize ou y = (Inr (), z)"
  shows "la_publicVault0x (lw_file (snd (keeper_tick ou e f w))) = la_publicVault0x f"
  using assms by (simp add: keeper_tick_def after_def script_defs)

text \<open>Preparing wallets by force over a deployed vault: the site goes on saying that the vault is deployed.\<close>

lemma prepared_over_vault:
  "prepare_result e F G \<Longrightarrow> text_set (la_publicVault0x F) \<Longrightarrow> le_force e \<and> isPublicVaultDeployed (site_file G)"
  by (auto simp: prepare_result_def js_eval)

lemma suggested_238: "suggested_EAV7 = 238"
  by (simp add: suggested_EAV7_def GAS_NEEDED_def)


subsection \<open>Properties\<close>

text \<open>The file as the repository ships it, less its note, the shipped settings, and an outside that answers every question.\<close>

definition shipped_file :: lbp_file where
  "shipped_file = \<lparr>la_version = 1, la_status = js ''lbp-prepared'', la_network = js ''eavm-72020'', la_rpc = js ''https://rpc.eavscan.com'',
     la_publicCustodyEoa = js ''E7AADB9206205894E8C8D7A9B6FE6C8320'', la_admin0x = Some (js ''0xe70000008ef2f3c0ac82e4ac65c7cde63573204d''),
     la_relayer0x = Some (js ''0xDDBEAC8217C4C785Bcc5db23135a7629f5028ffc''), la_sweepTo0x = Some (js ''0xee119238a7E770690663AD30D44b52FDe06546cb''),
     la_publicVault0x = Some (js ''0x892a7e28d78c2bbff16cbc14c5b5712b8d1f97b0''),
     la_timelockLpSeeder0x = Some (js ''0xb6ee4ba0ccf77d04f3ca6b409fc5345f6ce2bbeb''), la_ammRouter0x = None, la_pairToken0x = None,
     la_openedAtHeight = Some 3403, la_lbpDeadlineHeight = Some 262603, la_notes = None,
     lf_deployerE7 = Some (js ''E78EF2F3C0AC82E4AC65C7CDE63573204D''), lf_adminKind = Some (js ''encode-e7-dest''),
     lf_deployMode = Some (js ''native-hybrid''), lf_deployedAt = Some (js ''2026-08-12T17:24:50.326Z''),
     lf_vaultE7 = Some (js ''E7F27692A901B85A20A2B85F9BDF058A87''), lf_fundedEav7 = Some (js ''42750000000''),
     lf_fundedAt = Some (js ''2026-08-12T17:25:15.689Z''), lf_finalizedAt = None,
     lf_walletsPreparedAt = Some (js ''2026-08-11T20:53:41.117Z''), lf_deployedAtHeight = None\<rparr>"

definition shipped_cfg :: lbp_cfg where
  "shipped_cfg = \<lparr>lc_lbp = js ''13500000000000000'', lc_lpSeed = js ''22500000000000000'', lc_buffer = js ''6750000000000000'',
     lc_incentives = js ''2250000000000000'', lc_totalPublic = js ''45000000000000000'',
     lc_windowHours = Some (Num 72), lc_blocksPerHour = Some (Num 3600)\<rparr>"

definition live_env :: lbp_env where
  "live_env = \<lparr>le_live = True, le_setup = True, le_stakeOnly = False, le_skipStake = False, le_native = False, le_hours = None,
     le_node = None, le_relayer = None, le_sweep = None, le_fund = None, le_adminKey = None, le_wallet = js ''deployer.wallet.json'',
     le_keeperKey = None, le_vault = None, le_custodyWallet = None, le_has = (\<lambda>_. True), le_cli = js ''eav7-cli'',
     le_once = True, le_force = False\<rparr>"

definition still_outside :: "int \<Rightarrow> unit outside" where
  "still_outside h = \<lparr>ou_cli = (\<lambda>_ _ x. ((0, []), x)), ou_account = (\<lambda>_ x. (Inl [], x)), ou_tx = (\<lambda>_ x. (Inr None, x)),
     ou_code = (\<lambda>_ x. (Inr [], x)), ou_polls = (\<lambda>_ x. (0, x)), ou_height = (\<lambda>x. (Inr h, x)), ou_vault = (\<lambda>x. (Inl [], x)),
     ou_finalize = (\<lambda>x. (Inr (), x)), ou_openLbp = (\<lambda>_ _ x. (Inr (), x)), ou_create = (\<lambda>_ _ _ x. (Inr (js ''0x''), x)),
     ou_call = (\<lambda>_ _ _ _ x. (Inr (), x)), ou_newKey = (\<lambda>x. ([], x)), ou_address = Inr, ou_now = (\<lambda>_. []),
     ou_keccak = (\<lambda>_. replicate 32 0), ou_artifact = (\<lambda>_. [])\<rparr>"

definition shipped_world :: "unit lbp_world" where
  "shipped_world = \<lparr>lw_file = shipped_file, lw_sent = [], lw_codes = [], lw_ext = ()\<rparr>"

lemmas shipped_defs = shipped_file_def shipped_cfg_def live_env_def still_outside_def shipped_world_def

lemma create_ok_still: "create_ok (still_outside h)"
  by (simp add: create_ok_def still_outside_def js_eval)

lemma shipped_opened: "fst (open_lbp (still_outside 4000) live_env shipped_cfg shipped_world) = Inr ()"
  "lw_file (snd (open_lbp (still_outside 4000) live_env shipped_cfg shipped_world)) = shipped_file\<lparr>la_openedAtHeight := Some 4000,
     la_lbpDeadlineHeight := Some 263200, la_status := js ''lbp-open''\<rparr>"
proof -
  have w: "window_blocks live_env shipped_cfg = Inr 259200" by (rule shipped_window) (simp_all add: shipped_defs)
  note run = open_native_unconfirmed [where w = shipped_world and ou = "still_outside 4000" and h = 4000 and x = "()"
      and v = "js ''0x892a7e28d78c2bbff16cbc14c5b5712b8d1f97b0''" and out = "[]", OF _ _ _ _ w]
  show "fst (open_lbp (still_outside 4000) live_env shipped_cfg shipped_world) = Inr ()"
    by (rule run) (simp_all add: shipped_defs use_native_def js_eval)
  show "lw_file (snd (open_lbp (still_outside 4000) live_env shipped_cfg shipped_world)) = shipped_file\<lparr>la_openedAtHeight := Some 4000,
     la_lbpDeadlineHeight := Some 263200, la_status := js ''lbp-open''\<rparr>"
    by (subst run) (simp_all add: shipped_defs use_native_def js_eval json_height_small)
qed

text \<open>
  C9. However the scripts are run, in any order and with any arguments, whatever happens on the chain in between: while
  the file says that the window is open, the site finds a deployed vault and the height of the opening in it.
\<close>

theorem lbp_file_consistent:
  assumes "create_ok ou" "file_ok (lw_file w)" "(lbp_step ou)\<^sup>*\<^sup>* w w'"
  shows "file_ok (lw_file w') \<and> (isLbpOpen (site_file (lw_file w')) \<longrightarrow>
      isPublicVaultDeployed (site_file (lw_file w')) \<and> la_openedAtHeight (lw_file w') \<noteq> None)"
  using lbp_reach_ok [OF assms(3,1,2)] by (auto simp: file_ok_def js_eval)

theorem lbp_file_consistent_witness:
  "isPublicVaultDeployed (site_file (lw_file (snd (open_lbp (still_outside 4000) live_env shipped_cfg shipped_world))))"
proof -
  have r: "(lbp_step (still_outside 4000))\<^sup>*\<^sup>* shipped_world (snd (open_lbp (still_outside 4000) live_env shipped_cfg shipped_world))"
    by (rule r_into_rtranclp) (rule lbp_step.opened)
  have f: "file_ok (lw_file shipped_world)" by (simp add: shipped_defs file_ok_def text_set_def js_eval)
  show ?thesis using lbp_file_consistent [OF create_ok_still f r] by (simp add: shipped_opened)
qed


text \<open>
  C11. What the native deployment sends to the vault can be read back from the calldata: the three amounts of
  \<open>setBuckets\<close>, the address of \<open>setLpSeeder\<close> and the deadline of \<open>openLbp\<close>, each after its selector.
\<close>

theorem setup_calldata_decodes:
  assumes "\<forall>b. length (keccak b) = 32" "0 \<le> a" "a < 2 ^ 128" "0 \<le> b" "b < 2 ^ 128" "0 \<le> c" "c < 2 ^ 128"
    and "re_evm s" "padAddr s = Inr p" "0 \<le> d" "d < 2 ^ 64"
  shows "map be_value [take 32 (drop 4 (setBuckets_input keccak a b c)), take 32 (drop 36 (setBuckets_input keccak a b c)),
        drop 68 (setBuckets_input keccak a b c)] = [a, b, c]
      \<and> hex_text (drop 16 (setLpSeeder_input keccak p)) = to_lower s \<and> length (setLpSeeder_input keccak p) = 36
      \<and> be_value (drop 4 (hex_bytes (drop 2 (encodeOpenLbp keccak d)))) = d"
proof -
  note sel = fn_selector_length [OF assms(1)]
  obtain q where q: "padAddr s = Inr q" "length q = 32" "hex_text (drop 12 q) = to_lower s" by (rule padAddr_evm [OF assms(8)])
  have "d mod 256 ^ 32 = d" using assms(10,11) by simp
  then show ?thesis
    using assms q sel by (simp add: setBuckets_input_def setLpSeeder_input_def encodeOpenLbp_def padU128_value be_value_bytes)
qed

theorem setup_calldata_decodes_witness:
  "be_value (drop 4 (hex_bytes (drop 2 (encodeOpenLbp (\<lambda>_. replicate 32 0) 262603)))) = 262603"
proof -
  have e: "re_evm (js ''0x892a7e28d78c2bbff16cbc14c5b5712b8d1f97b0'')" by (simp add: re_evm_def js_eval char_class_defs)
  obtain p where p: "padAddr (js ''0x892a7e28d78c2bbff16cbc14c5b5712b8d1f97b0'') = Inr p" by (rule padAddr_evm [OF e])
  show ?thesis
    using setup_calldata_decodes [where keccak = "\<lambda>_. replicate 32 0" and a = 13500000000000000 and b = 22500000000000000
        and c = 6750000000000000 and d = 262603, OF _ _ _ _ _ _ _ e p] by simp
qed

text \<open>
  C12. With the window the repository ships, 72 hours of 3600 blocks, a live run that ends well from height \<open>h\<close> records
  the opening at \<open>h\<close> and a deadline 259200 blocks later, and the site finds the window open and prepared on the chain.
\<close>

theorem open_records_window:
  assumes "le_live e" "le_hours e = None" "lc_windowHours cfg = Some (Num 72)" "lc_blocksPerHour cfg = Some (Num 3600)"
    and "la_publicVault0x (lw_file w) = Some v" "v \<noteq> []" "ou_height ou (lw_ext w) = (Inr h, x)" "0 < h" "h \<le> 2 ^ 52"
    and "fst (open_lbp ou e cfg w) = Inr ()"
  shows "la_openedAtHeight (lw_file (snd (open_lbp ou e cfg w))) = Some h
    \<and> la_lbpDeadlineHeight (lw_file (snd (open_lbp ou e cfg w))) = Some (h + 259200)
    \<and> isLbpOpen (site_file (lw_file (snd (open_lbp ou e cfg w))))
    \<and> isLbpPreparedOnChain (site_file (lw_file (snd (open_lbp ou e cfg w))))"
proof -
  note run = open_run [OF assms(1,5-7) shipped_window [OF assms(2-4)]]
  have "json_height (h + 259200) = Some (h + 259200)" using assms(8,9) by (intro json_height_small) simp
  moreover have "lw_file (snd (open_lbp ou e cfg w)) = (lw_file w)\<lparr>la_openedAtHeight := Some h,
      la_lbpDeadlineHeight := json_height (h + 259200), la_status := js ''lbp-open''\<rparr>"
    using assms(10) unfolding run by (rule open_live_file)
  ultimately show ?thesis using assms(8) by (simp add: height_set_def)
qed

theorem open_records_window_witness:
  "la_lbpDeadlineHeight (lw_file (snd (open_lbp (still_outside 4000) live_env shipped_cfg shipped_world))) = Some 263200"
  using open_records_window [where w = shipped_world and ou = "still_outside 4000" and h = 4000 and x = "()"
      and v = "js ''0x892a7e28d78c2bbff16cbc14c5b5712b8d1f97b0''", OF _ _ _ _ _ _ _ _ _ shipped_opened(1)]
  by (simp add: shipped_defs js_eval)

end
