(* ===== verification/HomePages.thy ===== *)
theory HomePages
  imports Validators PriceMarket Api
begin

section \<open>The home page, the pages of governance, AI and mining, and the header\<close>

text \<open>
  What \<open>components/scan/home.tsx\<close>, \<open>charts.tsx\<close>, \<open>latest.tsx\<close>, \<open>gov-view.tsx\<close>, \<open>ai-view.tsx\<close>,
  \<open>components/mining/mining-live.tsx\<close> and the pages of \<open>app/\<close> that feed them compute: the charts with their
  coordinates, the figures of the ribbon, the rows, the quorum, the ranking of the oracles, the emission; and
  the menus of \<open>header.tsx\<close> as a step relation. Markup and styles are not modelled.
\<close>

subsection \<open>The charts (\<open>charts.tsx\<close>)\<close>

definition list_max :: "jsnum list \<Rightarrow> jsnum" where "list_max xs = foldl num_max NegInf xs"
definition list_min :: "jsnum list \<Rightarrow> jsnum" where "list_min xs = foldl num_min PosInf xs"

definition price_span :: "jsnum list \<Rightarrow> jsnum" where
  "price_span vals = (let mn = list_min vals; mx = list_max vals in
     list_max [num_sub mx mn, num_mul mx (to_num (1 / 1000)), to_num (1 / 10 ^ 9)])"

definition chart_y :: "jsnum \<Rightarrow> jsnum" where "chart_y q = num_sub (Num 152) (num_mul q (Num 140))"

definition chart_coords :: "jsnum list \<Rightarrow> (jsnum \<times> jsnum) list" where
  "chart_coords ys = (let passo = num_div (Num 600) (num_of_int (int (length ys) - 1)) in
     map (\<lambda>(i, y). (num_mul (num_of_int (int i)) passo, y)) (enumerate 0 ys))"

definition price_coords :: "jsnum list \<Rightarrow> (jsnum \<times> jsnum) list" where
  "price_coords vals = chart_coords
     (map (\<lambda>p. chart_y (num_div (num_sub p (list_min vals)) (price_span vals))) vals)"

definition chart_line :: "(jsnum \<times> jsnum) list \<Rightarrow> jstr" where
  "chart_line cs = join_with (js '' '') (map (\<lambda>(i, x, y). js (if i = 0 then ''M'' else ''L'')
     @ to_fixed 1 x @ js '','' @ to_fixed 1 y) (enumerate 0 cs))"

definition chart_area :: "(jsnum \<times> jsnum) list \<Rightarrow> jstr" where
  "chart_area cs = chart_line cs @ js '' L600,160 L0,160 Z''"

datatype chart_right = WindowText | Shown jstr "jstr option" bool

datatype chart = NoData chart_right | Drawn chart_right jstr jstr

definition is_rise :: "jsnum option \<Rightarrow> bool" where
  "is_rise ch \<longleftrightarrow> num_le (Num 0) (case ch of Some c \<Rightarrow> c | None \<Rightarrow> Num 0)"

definition PriceChart :: "price_point list \<Rightarrow> jsnum option \<Rightarrow> jsnum option \<Rightarrow> jstr option \<Rightarrow> jstr option \<Rightarrow> chart" where
  "PriceChart points priceUsd changePct priceFmt changeFmt = (let vals = map pt_priceUsd points in
     if length points < 2 then NoData (case priceFmt of
         Some (c # s) \<Rightarrow> Shown (c # s) (case changeFmt of Some (d # f) \<Rightarrow> Some (d # f) | _ \<Rightarrow> None) (is_rise changePct)
       | _ \<Rightarrow> WindowText)
     else (let ultimo = (case priceUsd of Some p \<Rightarrow> p | None \<Rightarrow> last vals);
         ch = (case changePct of Some c \<Rightarrow> c | None \<Rightarrow> Num 0) in
       Drawn (Shown (case priceFmt of Some s \<Rightarrow> s | None \<Rightarrow> fmtUsd (Some ultimo) 4)
           (Some (case changeFmt of Some s \<Rightarrow> s | None \<Rightarrow> js (if num_le (Num 0) ch then ''+'' else '''') @ to_fixed 2 ch @ js ''%''))
           (num_le (Num 0) ch))
         (chart_line (price_coords vals)) (chart_area (price_coords vals))))"

definition num_total :: "jsnum list \<Rightarrow> jsnum" where "num_total xs = foldl num_add (Num 0) xs"

definition activity_coords :: "jsnum list \<Rightarrow> (jsnum \<times> jsnum) list" where
  "activity_coords series = chart_coords (map (\<lambda>v. chart_y (num_div v (list_max (series @ [Num 1])))) series)"

definition ActivityChart :: "jsnum list \<Rightarrow> chart" where
  "ActivityChart series = (if length series < 2 \<or> num_total series = Num 0 then NoData WindowText
     else Drawn (Shown (numCompact (last series) @ js ''/h'') None True)
       (chart_line (activity_coords series)) (chart_area (activity_coords series)))"

text \<open>The bars of the transactions: left edge, upper edge, width and height.\<close>

definition bar_height :: "jsnum \<Rightarrow> jsnum \<Rightarrow> jsnum" where
  "bar_height mx v = (if v = Num 0 then Num 0 else num_max (Num 2) (num_mul (num_div v mx) (Num 148)))"

definition tx_bars :: "jsnum list \<Rightarrow> (jsnum \<times> jsnum \<times> jsnum \<times> jsnum) list" where
  "tx_bars series = (let mx = list_max series; larg = num_div (Num 600) (num_of_int (int (length series)));
       vao = num_min (Num 4) (num_mul larg (Num (1 / 4))) in
     map (\<lambda>(i, v). (num_add (num_mul (num_of_int (int i)) larg) (num_div vao (Num 2)), num_sub (Num 156) (bar_height mx v),
       num_max (Num 1) (num_sub larg vao), bar_height mx v)) (enumerate 0 series))"

definition TxChart :: "jsnum list \<Rightarrow> (jstr \<times> (jsnum \<times> jsnum \<times> jsnum \<times> jsnum) list) option" where
  "TxChart series = (if series = [] \<or> num_total series = Num 0 then None
     else Some (numCompact (num_total series), tx_bars series))"


subsection \<open>The home page (\<open>app/page.tsx\<close>, \<open>home.tsx\<close>)\<close>

text \<open>The names by address: an entry is replaced as long as its name is empty.\<close>

definition put_name :: "(jstr \<Rightarrow> jstr option) \<Rightarrow> name_entry \<Rightarrow> jstr \<Rightarrow> jstr option" where
  "put_name m n = (if ne_target n \<noteq> [] \<and> (m (ne_target n) = None \<or> m (ne_target n) = Some [])
     then m(ne_target n \<mapsto> ne_name n) else m)"

definition porEndereco :: "name_entry list \<Rightarrow> jstr \<Rightarrow> jstr option" where
  "porEndereco nomes = foldl put_name (\<lambda>_. None) nomes"

definition strip_tail_zeros :: "jstr \<Rightarrow> jstr" where
  "strip_tail_zeros s = (let r = rev (dropWhile (\<lambda>c. c = 48) (rev s)) in
     if r \<noteq> [] \<and> last r = 46 then butlast r else r)"

definition stats_tps :: "network_stats option \<Rightarrow> jsnum" where
  "stats_tps st = (case st of Some s \<Rightarrow> ns_tps s | None \<Rightarrow> Num 0)"

definition tps_text :: "jsnum \<Rightarrow> jstr" where
  "tps_text v = (if num_le v (Num 0) then js ''0'' else if num_le (Num 1) v then to_fixed 1 v
     else strip_tail_zeros (to_fixed 3 v))"

definition tpsPct :: "jsnum \<Rightarrow> jsnum" where
  "tpsPct v = num_min (Num 100) (num_round (num_mul (num_div v (Num 500)) (Num 100)))"

definition stakedPct :: "status option \<Rightarrow> network_stats option \<Rightarrow> jstr" where
  "stakedPct status stats = (let supply = (case status of Some s \<Rightarrow> num_of_str (st_circulating s) | None \<Rightarrow> Num 0);
       staked = (case stats of Some s \<Rightarrow> num_of_str (ns_staked s) | None \<Rightarrow> Num 0) in
     if num_lt (Num 0) supply then to_fixed 1 (num_mul (num_div staked supply) (Num 100)) @ js ''%'' else [8212])"

definition exemplos :: "block list \<Rightarrow> tx list \<Rightarrow> (jstr \<times> jstr) list" where
  "exemplos blocks txs =
     (case blocks of b # _ \<Rightarrow> [(js ''/block/'' @ big_str (bk_height b), js ''#'' @ big_str (bk_height b))] | [] \<Rightarrow> [])
     @ (case txs of x # _ \<Rightarrow> if tx_id x \<noteq> [] then [(js ''/tx/'' @ tx_id x, take 10 (tx_id x) @ [8230])] else [] | [] \<Rightarrow> [])
     @ (case blocks of b # _ \<Rightarrow> if bk_producer b \<noteq> [] then [(js ''/address/'' @ bk_producer b, take 10 (bk_producer b) @ [8230])] else [] | [] \<Rightarrow> [])"

record home_screen =
  hs_height :: jstr
  hs_tps :: jstr
  hs_tpsPct :: jsnum
  hs_burned :: jstr
  hs_stakedPct :: jstr
  hs_circulating :: jstr
  hs_transactions :: jstr
  hs_accounts :: jstr
  hs_samples :: "(jstr \<times> jstr) list"
  hs_price :: chart
  hs_txs :: "(jstr \<times> (jsnum \<times> jsnum \<times> jsnum \<times> jsnum) list) option"

definition ScanHome :: "status option \<Rightarrow> network_stats option \<Rightarrow> block list \<Rightarrow> tx list \<Rightarrow> market_price option \<Rightarrow>
    price_point list \<Rightarrow> home_screen" where
  "ScanHome status stats blocks txs price hist = \<lparr>
     hs_height = num (num_of_int (case status of Some s \<Rightarrow> st_height s | None \<Rightarrow> 0)),
     hs_tps = tps_text (stats_tps stats), hs_tpsPct = tpsPct (stats_tps stats),
     hs_burned = fmtCompact (BStr (case status of Some s \<Rightarrow> st_burned s | None \<Rightarrow> js ''0'')),
     hs_stakedPct = stakedPct status stats,
     hs_circulating = fmtCompact (case status of Some s \<Rightarrow> BStr (st_circulating s) | None \<Rightarrow> BNum (Num 0)),
     hs_transactions = numCompact (num_of_int (case stats of Some s \<Rightarrow> ns_transactions s | None \<Rightarrow> 0)),
     hs_accounts = numCompact (num_of_int (case stats of Some s \<Rightarrow> ns_accounts s | None \<Rightarrow> 0)),
     hs_samples = exemplos blocks txs,
     hs_price = PriceChart hist (map_option mp_priceUsd price) (map_option mp_change24hPct price)
       (map_option mp_priceUsdFormatted price) (map_option mp_change24hFormatted price),
     hs_txs = TxChart (map num_of_int (case stats of Some s \<Rightarrow> (case ns_txSeries s of Some xs \<Rightarrow> xs | None \<Rightarrow> []) | None \<Rightarrow> []))\<rparr>"


subsection \<open>The latest blocks and transactions (\<open>latest.tsx\<close>, \<open>identity.tsx\<close>)\<close>

definition avatar_hue :: "jstr \<Rightarrow> nat" where "avatar_hue s = foldl (\<lambda>h c. (h * 31 + c) mod 360) 0 s"

definition avatarTone :: "jstr \<Rightarrow> jstr" where
  "avatarTone s = js ''linear-gradient(135deg, hsl('' @ dec (avatar_hue s) @ js '' 62% 58%), hsl('' @ dec ((avatar_hue s + 42) mod 360)
     @ js '' 56% 40%))''"

definition initials :: "jstr \<Rightarrow> jstr" where
  "initials s = to_upper (take 2 (filter (\<lambda>c. is_digit c \<or> 65 \<le> c \<and> c \<le> 90 \<or> 97 \<le> c \<and> c \<le> 122) (if s = [] then js ''?'' else s)))"

definition falhou :: "tx \<Rightarrow> bool" where
  "falhou x \<longleftrightarrow> (case tx_receipt x of Some r \<Rightarrow> \<not> rc_success r | None \<Rightarrow> False)"

definition cadencia :: "int option \<Rightarrow> jstr" where
  "cadencia ms = (case ms of None \<Rightarrow> [] | Some m \<Rightarrow> if m = 0 then []
     else js ''~'' @ num_str (num_round (num_div (num_of_int m) (Num 1000))) @ js ''s'')"

definition block_row :: "int \<Rightarrow> (jstr \<Rightarrow> jstr option) \<Rightarrow> jstr option \<Rightarrow> block \<Rightarrow> jstr list" where
  "block_row nw nomes reward b = [js ''#'' @ num (num_of_int (bk_height b)), ago nw (num_of_int (bk_timestamp b)),
     (case nomes (bk_producer b) of Some n \<Rightarrow> n | None \<Rightarrow> addrLink (Some (bk_producer b))), hashLink (bk_hash b),
     big_str (bk_txCount b), (case reward of Some (c # s) \<Rightarrow> js ''+'' @ fmt (BStr (c # s)) @ js '' EAV7'' | _ \<Rightarrow> [])]"

definition LatestBlocks :: "int \<Rightarrow> (jstr \<Rightarrow> jstr option) \<Rightarrow> jstr option \<Rightarrow> block list \<Rightarrow> jstr list list" where
  "LatestBlocks nw nomes reward blocks = map (block_row nw nomes reward) (take 8 blocks)"

definition tx_row :: "int \<Rightarrow> tx \<Rightarrow> jstr list \<times> bool" where
  "tx_row nw x = ([hashLink (Some (tx_id x)), to_lower (tx_type_str (tx_type x)),
     (if tx_timestamp x = 0 then [] else ago nw (num_of_int (tx_timestamp x))), addrTight (Some (tx_from x)),
     (case tx_to x of Some (c # s) \<Rightarrow> addrTight (Some (c # s)) | _ \<Rightarrow> [8212]),
     (if tx_amount x \<noteq> [] \<and> tx_amount x \<noteq> js ''0'' then fmt (BStr (tx_amount x)) @ js '' EAV7'' else [8212])], falhou x)"

definition LatestTxs :: "int \<Rightarrow> tx list \<Rightarrow> (jstr list \<times> bool) list" where
  "LatestTxs nw txs = map (tx_row nw) (take 8 txs)"


subsection \<open>Governance (\<open>gov-view.tsx\<close>)\<close>

text \<open>\<open>JSON.stringify\<close>: quoting, and the order of the properties of an object.\<close>

definition esc_u :: "nat \<Rightarrow> jstr" where "esc_u c = [92, 117] @ pad_start 4 48 (to_base 16 c)"

definition is_high :: "nat \<Rightarrow> bool" where "is_high c \<longleftrightarrow> 55296 \<le> c \<and> c \<le> 56319"
definition is_low :: "nat \<Rightarrow> bool" where "is_low c \<longleftrightarrow> 56320 \<le> c \<and> c \<le> 57343"

definition esc_char :: "nat \<Rightarrow> jstr" where
  "esc_char c = (if c = 34 then [92, 34] else if c = 92 then [92, 92] else if c = 8 then [92, 98] else if c = 12 then [92, 102]
     else if c = 10 then [92, 110] else if c = 13 then [92, 114] else if c = 9 then [92, 116]
     else if c < 32 \<or> is_high c \<or> is_low c then esc_u c else [c])"

fun esc_text :: "jstr \<Rightarrow> jstr" where
  "esc_text (c # d # s) = (if is_high c \<and> is_low d then c # d # esc_text s else esc_char c @ esc_text (d # s))"
| "esc_text [c] = esc_char c"
| "esc_text [] = []"

definition quoted :: "jstr \<Rightarrow> jstr" where "quoted s = [34] @ esc_text s @ [34]"

definition is_index_key :: "jstr \<Rightarrow> bool" where
  "is_index_key k \<longleftrightarrow> k \<noteq> [] \<and> list_all is_digit k \<and> (hd k \<noteq> 48 \<or> k = [48]) \<and> of_base 10 k < 4294967295"

definition in_key_order :: "(jstr \<times> 'a) list \<Rightarrow> (jstr \<times> 'a) list" where
  "in_key_order kvs = (let ks = rev (remdups (rev (map fst kvs))) in
     map (\<lambda>k. (k, the (map_of (rev kvs) k))) (sort_key (of_base 10) (filter is_index_key ks) @ filter (\<lambda>k. \<not> is_index_key k) ks))"

fun stringify :: "json \<Rightarrow> jstr" where
  "stringify JNull = js ''null''"
| "stringify (JBool b) = js (if b then ''true'' else ''false'')"
| "stringify (JNum x) = (if is_finite x then num_str x else js ''null'')"
| "stringify (JStr s) = quoted s"
| "stringify (JArr vs) = [91] @ join_with [44] (map stringify vs) @ [93]"
| "stringify (JObj kvs) = [123] @ join_with [44]
     (map (\<lambda>(k, t). quoted k @ [58] @ t) (in_key_order (map (\<lambda>(k, v). (k, stringify v)) kvs))) @ [125]"

definition E7_PARAMS :: "jstr list" where
  "E7_PARAMS = [js ''BLOCK_REWARD'', js ''MIN_VALIDATOR_STAKE'', js ''FEE_EXEMPT_STAKE'', js ''MIN_ORACLE_STAKE'']"

definition govValue :: "jstr \<Rightarrow> json \<Rightarrow> jstr" where
  "govValue param v = (case v of
       JStr s \<Rightarrow> if param \<in> set E7_PARAMS then fmt (BStr s) @ js '' EAV7'' else s
     | JNum x \<Rightarrow> if param \<in> set E7_PARAMS then fmt (BStr (num_str x)) @ js '' EAV7'' else num_str x
     | JArr _ \<Rightarrow> stringify v | JObj _ \<Rightarrow> stringify v | _ \<Rightarrow> json_str v)"

datatype gov_tone = Ok | Gold | Red | Faint

definition statusStyle :: "jstr \<Rightarrow> gov_tone" where
  "statusStyle status = (let s = to_upper status in
     if s = js ''PASSED'' \<or> s = js ''APPLIED'' \<or> s = js ''QUEUED'' then Ok
     else if s = js ''VOTING'' then Gold else if s = js ''DEFEATED'' then Red else Faint)"

definition gov_quorum :: "governance \<Rightarrow> jsnum" where
  "gov_quorum g = (case gs_quorum g of Some q \<Rightarrow> num_of_int q
     | None \<Rightarrow> num_add (num_floor (num_div (num_mul (Num 2) (num_of_int (gs_validators g))) (Num 3))) (Num 1))"

definition no_governance :: governance where
  "no_governance = \<lparr>gs_params = [], gs_governable = Some [], gs_proposals = [], gs_validators = 0, gs_quorum = None,
     gs_governanceActive = Some False\<rparr>"

record gov_screen =
  gx_active :: bool
  gx_treasury :: jstr
  gx_validators :: jstr
  gx_quorum :: jsnum
  gx_treasuryPct :: jstr
  gx_params :: "(jstr \<times> bool \<times> jstr \<times> jstr) list"
  gx_proposals :: "(jstr \<times> jstr \<times> jstr \<times> jstr \<times> gov_tone \<times> jstr) list"

definition param_row :: "governable \<Rightarrow> jstr \<times> bool \<times> jstr \<times> jstr" where
  "param_row g = (gv_param g, gv_overridden g, govValue (gv_param g) (gv_value g),
     govValue (gv_param g) (gv_min g) @ [32, 8211, 32] @ govValue (gv_param g) (gv_max g))"

definition proposal_row :: "gov_proposal \<Rightarrow> jstr \<times> jstr \<times> jstr \<times> jstr \<times> gov_tone \<times> jstr" where
  "proposal_row p = (gp_param p, govValue (gp_param p) (gp_value p), addrTight (Some (gp_proposer p)),
     js ''#'' @ num (num_of_int (gp_deadline p)), statusStyle (gp_status p), big_str (gp_voteCount p))"

definition ScanGovView :: "governance \<Rightarrow> treasury option \<Rightarrow> gov_screen" where
  "ScanGovView g ty = \<lparr>gx_active = (gs_governanceActive g \<noteq> Some False),
     gx_treasury = (case ty of Some x \<Rightarrow> fmtCompact (BStr (ty_balance x)) | None \<Rightarrow> [8212]),
     gx_validators = num (num_of_int (gs_validators g)), gx_quorum = gov_quorum g,
     gx_treasuryPct = num_str (case ty of Some x \<Rightarrow> ty_treasuryPct x | None \<Rightarrow> Num 0) @ js ''%'',
     gx_params = map param_row (case gs_governable g of Some xs \<Rightarrow> xs | None \<Rightarrow> []),
     gx_proposals = map proposal_row (gs_proposals g)\<rparr>"

definition GovernancePage :: "governance res \<Rightarrow> treasury res \<Rightarrow> gov_screen" where
  "GovernancePage g ty = ScanGovView (catch no_governance g) (get_option ty)"


subsection \<open>AI (\<open>ai-view.tsx\<close>)\<close>

definition reputation_or :: "rat \<Rightarrow> ai_oracle \<Rightarrow> jsnum" where
  "reputation_or d u = (case ao_reputation u of Some r \<Rightarrow> r | None \<Rightarrow> Num d)"

definition by_reputation :: "ai_oracle \<Rightarrow> ai_oracle \<Rightarrow> jsnum res" where
  "by_reputation a b = Inr (num_sub (reputation_or 0 b) (reputation_or 0 a))"

definition tasks24 :: "jsnum \<Rightarrow> ai_task list \<Rightarrow> nat" where
  "tasks24 nw tasks = (let n = length (filter (\<lambda>k. num_lt (num_sub nw (Num 86400000))
       (num_of_int (case at_createdAt k of Some c \<Rightarrow> c | None \<Rightarrow> 0))) tasks) in
     if n = 0 then length tasks else n)"

definition stakeTotal :: "ai_oracle list \<Rightarrow> int res" where
  "stakeTotal = total_of (\<lambda>u. big_of_str (case ao_stake u of Some s \<Rightarrow> s | None \<Rightarrow> js ''0''))"

definition avgRep :: "ai_oracle list \<Rightarrow> jsnum" where
  "avgRep os = (if os = [] then Num 0
     else num_round (num_div (num_total (map (reputation_or 50) os)) (num_of_int (int (length os)))))"

definition rep_shown :: "ai_oracle \<Rightarrow> jsnum" where
  "rep_shown u = num_max (Num 0) (num_min (Num 100) (reputation_or 50 u))"

datatype rep_tone = High | Middle | Low

definition repColor :: "jsnum \<Rightarrow> rep_tone" where
  "repColor r = (if num_le (Num 70) r then High else if num_le (Num 40) r then Middle else Low)"

datatype task_badge = Done | Refunded | Challenge | Bidding | Pending

definition statusMeta :: "jstr \<Rightarrow> task_badge" where
  "statusMeta status = (let s = to_upper status in if s = js ''DONE'' then Done else if s = js ''REFUNDED'' then Refunded
     else if s = js ''DISPUTED'' \<or> s = js ''CHALLENGE_PERIOD'' then Challenge else if s = js ''BIDDING'' then Bidding else Pending)"

definition oracle_row :: "nat \<times> ai_oracle \<Rightarrow> nat \<times> nat \<times> jstr \<times> jsnum \<times> rep_tone \<times> jstr \<times> jstr" where
  "oracle_row p = (case p of (i, u) \<Rightarrow> (i + 1, i mod 8, addrLink (Some (ao_address u)), rep_shown u, repColor (rep_shown u),
     num (num_of_int (case ao_completed u of Some c \<Rightarrow> c | None \<Rightarrow> 0)),
     fmtCompact (BStr (case ao_stake u of Some s \<Rightarrow> s | None \<Rightarrow> js ''0''))))"

definition task_row :: "int \<Rightarrow> ai_task \<Rightarrow> jstr \<times> jstr \<times> jstr \<times> jstr \<times> task_badge" where
  "task_row nw k = (hashLink (Some (at_id k)), (case at_verified k of Some v \<Rightarrow> v | None \<Rightarrow> js ''oracle''),
     (case at_createdAt k of Some c \<Rightarrow> if c = 0 then [8212] else ago nw (num_of_int c) | None \<Rightarrow> [8212]),
     fmt (BStr (case at_reward k of Some r \<Rightarrow> r | None \<Rightarrow> js ''0'')) @ js '' EAV7'', statusMeta (at_status k))"

record ai_screen =
  ax_oracles :: jstr
  ax_stake :: jstr
  ax_tasks24 :: jstr
  ax_avgRep :: jsnum
  ax_rows :: "(nat \<times> nat \<times> jstr \<times> jsnum \<times> rep_tone \<times> jstr \<times> jstr) list"
  ax_tasks :: "(jstr \<times> jstr \<times> jstr \<times> jstr \<times> task_badge) list"

definition ScanAiView :: "int \<Rightarrow> ai_oracle list \<Rightarrow> ai_task list \<Rightarrow> ai_screen res" where
  "ScanAiView nw os tasks = bind_res (stakeTotal os) (\<lambda>st. bind_res (js_sort by_reputation os) (\<lambda>sorted.
     Inr \<lparr>ax_oracles = num (num_of_int (int (length os))), ax_stake = fmtCompact (BStr (big_str st)),
       ax_tasks24 = num (num_of_int (int (tasks24 (num_of_int nw) tasks))), ax_avgRep = avgRep os,
       ax_rows = map oracle_row (enumerate 0 sorted), ax_tasks = map (task_row nw) (take 12 tasks)\<rparr>))"


subsection \<open>Mining (\<open>mining-live.tsx\<close>)\<close>

definition BLOCKS_PER_DAY :: int where "BLOCKS_PER_DAY = 86400"

definition rewardE7 :: "status option \<Rightarrow> int res" where
  "rewardE7 st = (case st of Some s \<Rightarrow> big_of_str (st_blockReward s) | None \<Rightarrow> Inr 0)"

definition dailyE7 :: "int \<Rightarrow> int" where "dailyE7 reward = reward * BLOCKS_PER_DAY"
definition annualE7 :: "int \<Rightarrow> int" where "annualE7 reward = dailyE7 reward * 365"

definition totalStaked :: "validators option \<Rightarrow> int res" where
  "totalStaked v = (case v of Some x \<Rightarrow> total_of (\<lambda>y. big_of_str (vl_staked y)) (vs_current x) | None \<Rightarrow> Inr 0)"

record mining_screen =
  mx_reward :: jstr
  mx_daily :: jstr
  mx_annual :: jstr
  mx_minted :: jstr
  mx_next :: jstr
  mx_miners :: jstr
  mx_staked :: jstr
  mx_blockTime :: jstr
  mx_alerts :: int
  mx_oracles :: int
  mx_pending :: int

definition MiningLive :: "status option \<Rightarrow> validators option \<Rightarrow> mining_screen res" where
  "MiningLive st v = bind_res (rewardE7 st) (\<lambda>r. bind_res (totalStaked v) (\<lambda>tot. Inr \<lparr>
     mx_reward = (case st of Some s \<Rightarrow> fmt (BStr (st_blockReward s)) | None \<Rightarrow> [8212]),
     mx_daily = fmtCompact (BBig (dailyE7 r)), mx_annual = fmtCompact (BBig (annualE7 r)),
     mx_minted = (case st of Some s \<Rightarrow> fmtCompact (BStr (st_minted s)) | None \<Rightarrow> [8212]),
     mx_next = js ''#'' @ (case st of Some s \<Rightarrow> num (num_add (num_of_int (st_height s)) (Num 1)) | None \<Rightarrow> [8212]),
     mx_miners = (case v of Some x \<Rightarrow> dec (length (vs_current x)) | None \<Rightarrow> [8212]),
     mx_staked = fmtCompact (BBig tot),
     mx_blockTime = num_str (case st of Some s \<Rightarrow> num_div (num_of_int (st_blockTimeMs s)) (Num 1000) | None \<Rightarrow> Num 1) @ js ''s'',
     mx_alerts = (case st of Some s \<Rightarrow> st_security_alerts s | None \<Rightarrow> 0),
     mx_oracles = (case st of Some s \<Rightarrow> snd (st_ai s) | None \<Rightarrow> 0),
     mx_pending = (case st of Some s \<Rightarrow> fst (st_ai s) | None \<Rightarrow> 0)\<rparr>))"


subsection \<open>The header (\<open>header.tsx\<close>)\<close>

text \<open>
  The menu of networks, the menu of the chain with its focus, and the drawer. A key is handled by the element it
  is pressed on and then, for Escape, by the listeners of the document, which are there while the menu of networks
  or the drawer is open. Focus is put on the first item in the next frame.
\<close>

definition BLOCKCHAIN :: "jstr list" where "BLOCKCHAIN = [js ''/blocks'', js ''/txs'']"

definition isActive :: "jstr \<Rightarrow> jstr \<Rightarrow> bool" where
  "isActive pathname href = (if href = js ''/'' then pathname = js ''/''
     else pathname = href \<or> take (length href + 1) pathname = href @ js ''/'')"

definition mostrarBusca :: "jstr \<Rightarrow> bool" where "mostrarBusca pathname \<longleftrightarrow> pathname \<noteq> js ''/''"

datatype nav_focus = OnTrigger | OnItem nat | Elsewhere

record header =
  hd_badge :: bool
  hd_menu :: bool
  hd_drawer :: bool
  hd_focus :: nav_focus
  hd_frames :: nat

datatype nav_key = ArrowDown | ArrowUp | Enter | Space | Escape | Tab | OtherKey
datatype nav_place = InBadge | InMenu | Outside

datatype nav_event = BadgeClick | NetworkClick | TriggerClick | ItemClick | DrawerClick | DrawerLink
  | FocusTrigger | FocusItem nat | Pointer nav_place | Key nav_key | Frame

definition lose_item :: "nav_focus \<Rightarrow> nav_focus" where
  "lose_item f = (case f of OnItem _ \<Rightarrow> Elsewhere | _ \<Rightarrow> f)"

definition close_menu :: "header \<Rightarrow> header" where
  "close_menu h = h\<lparr>hd_menu := False, hd_focus := lose_item (hd_focus h)\<rparr>"

definition onTriggerKey :: "nav_key \<Rightarrow> header \<Rightarrow> header" where
  "onTriggerKey k h = (if k \<in> {ArrowDown, Enter, Space} then h\<lparr>hd_menu := True, hd_frames := hd_frames h + 1\<rparr>
     else if k = Escape then close_menu h else if k = Tab then h\<lparr>hd_focus := (if hd_menu h then OnItem 0 else Elsewhere)\<rparr> else h)"

definition onMenuKey :: "nav_key \<Rightarrow> nat \<Rightarrow> header \<Rightarrow> header" where
  "onMenuKey k i h = (case k of Escape \<Rightarrow> h\<lparr>hd_menu := False, hd_focus := OnTrigger\<rparr>
     | ArrowDown \<Rightarrow> h\<lparr>hd_focus := OnItem ((i + 1) mod length BLOCKCHAIN)\<rparr>
     | ArrowUp \<Rightarrow> h\<lparr>hd_focus := OnItem (if i = 0 then length BLOCKCHAIN - 1 else i - 1)\<rparr>
     | Tab \<Rightarrow> close_menu h | _ \<Rightarrow> h)"

definition onDocumentKey :: "nav_key \<Rightarrow> header \<Rightarrow> header" where
  "onDocumentKey k h = (if k = Escape then h\<lparr>hd_badge := False, hd_drawer := False\<rparr> else h)"

fun header_do :: "nav_event \<Rightarrow> header \<Rightarrow> header" where
  "header_do BadgeClick h = h\<lparr>hd_badge := \<not> hd_badge h\<rparr>"
| "header_do NetworkClick h = h\<lparr>hd_badge := False\<rparr>"
| "header_do TriggerClick h = (if hd_menu h then (close_menu h)\<lparr>hd_focus := OnTrigger\<rparr> else h\<lparr>hd_menu := True, hd_focus := OnTrigger\<rparr>)"
| "header_do ItemClick h = close_menu h"
| "header_do DrawerClick h = h\<lparr>hd_drawer := \<not> hd_drawer h\<rparr>"
| "header_do DrawerLink h = h\<lparr>hd_drawer := False\<rparr>"
| "header_do FocusTrigger h = h\<lparr>hd_focus := OnTrigger\<rparr>"
| "header_do (FocusItem i) h = h\<lparr>hd_focus := OnItem i\<rparr>"
| "header_do (Pointer p) h = (let h' = (if p = InMenu then h else close_menu h) in
     if p = InBadge then h' else h'\<lparr>hd_badge := False\<rparr>)"
| "header_do (Key k) h = onDocumentKey k (case hd_focus h of OnTrigger \<Rightarrow> onTriggerKey k h
     | OnItem i \<Rightarrow> onMenuKey k i h | Elsewhere \<Rightarrow> h)"
| "header_do Frame h = (if hd_frames h = 0 then h
     else (if hd_menu h then h\<lparr>hd_focus := OnItem 0\<rparr> else h)\<lparr>hd_frames := hd_frames h - 1\<rparr>)"

text \<open>What can be clicked is on the screen.\<close>

fun header_can :: "nav_event \<Rightarrow> header \<Rightarrow> bool" where
  "header_can NetworkClick h = hd_badge h"
| "header_can ItemClick h = hd_menu h"
| "header_can DrawerLink h = hd_drawer h"
| "header_can (FocusItem i) h = (hd_menu h \<and> i < length BLOCKCHAIN)"
| "header_can _ h = True"

inductive header_step :: "header \<Rightarrow> header \<Rightarrow> bool" where
  header_event: "header_can ev h \<Longrightarrow> header_step h (header_do ev h)"

definition header_start :: header where
  "header_start = \<lparr>hd_badge = False, hd_menu = False, hd_drawer = False, hd_focus = Elsewhere, hd_frames = 0\<rparr>"



section \<open>Lemmas\<close>

subsection \<open>Fractions of a frame\<close>

lemma to_num_60: "\<bar>q\<bar> \<le> 2 ^ 60 \<Longrightarrow> to_num q = Num (fl q)"
proof -
  assume q: "\<bar>q\<bar> \<le> 2 ^ 60"
  have c: "is_f64 (2 ^ 60)" unfolding is_f64_def by (intro exI [of _ 1] exI [of _ 60]) simp
  have "fl q \<le> 2 ^ 60" using q c by (intro fl_le_f64) simp_all
  moreover have "- q \<le> 2 ^ 60" using q by simp
  then have "- (2 ^ 60) \<le> fl q" using fl_le_f64 [of "- q", OF _ c] by (simp add: fl_minus)
  ultimately have "\<bar>fl q\<bar> \<le> 2 ^ 60" by simp
  also have "(2 :: rat) ^ 60 < 2 ^ 1024" by simp
  finally show ?thesis by (simp add: to_num_def overflow_def abs_less_iff)
qed

definition part_of :: "rat \<Rightarrow> rat \<Rightarrow> rat \<Rightarrow> rat" where "part_of c s d = fl (fl (d / s) * c)"

lemma part_of_bounds:
  assumes "0 \<le> d" "d \<le> s" "0 < s" "is_f64 c" "0 \<le> c"
  shows "0 \<le> part_of c s d" "part_of c s d \<le> c"
proof -
  have r: "0 \<le> fl (d / s)" "fl (d / s) \<le> 1" using assms by (auto intro: fl_nonneg fl_le_f64)
  show "0 \<le> part_of c s d" unfolding part_of_def using r assms by (intro fl_nonneg) simp
  show "part_of c s d \<le> c" unfolding part_of_def using r assms by (intro fl_le_f64) (simp_all add: mult_left_le_one_le)
qed

lemma part_of_mono: "d \<le> d' \<Longrightarrow> 0 < s \<Longrightarrow> 0 \<le> c \<Longrightarrow> part_of c s d \<le> part_of c s d'"
  unfolding part_of_def by (intro fl_mono mult_right_mono) (simp_all add: divide_right_mono)

lemma part_of_zero [simp]: "part_of c s 0 = 0"
  by (simp add: part_of_def)

lemma num_part_of:
  assumes "0 \<le> d" "d \<le> s" "0 < s" "0 \<le> c" "c \<le> 2 ^ 53"
  shows "num_mul (num_div (Num d) (Num s)) (Num c) = Num (part_of c s d)"
proof -
  have r: "0 \<le> d / s" "d / s \<le> 1" using assms by auto
  then have f: "0 \<le> fl (d / s)" "fl (d / s) \<le> 1" by (auto intro: fl_nonneg fl_le_f64)
  have "fl (d / s) * c \<le> 1 * c" using f assms by (intro mult_right_mono) auto
  then have "\<bar>fl (d / s) * c\<bar> \<le> 2 ^ 60" using f assms by simp
  moreover have "\<bar>d / s\<bar> \<le> 2 ^ 60" using r by simp
  ultimately show ?thesis using assms(3) to_num_60 [of "d / s"] to_num_60 [of "fl (d / s) * c"] by (simp add: part_of_def)
qed


lemma list_max_Num: "qs \<noteq> [] \<Longrightarrow> list_max (map Num qs) = Num (Max (set qs))"
  and list_min_Num: "qs \<noteq> [] \<Longrightarrow> list_min (map Num qs) = Num (Min (set qs))"
proof -
  have mx: "foldl num_max (Num a) (map Num qs) = Num (fold max qs a)" for a and qs :: "rat list"
    by (induction qs arbitrary: a) (simp_all add: num_max_def max_def)
  have mn: "foldl num_min (Num a) (map Num qs) = Num (fold min qs a)" for a and qs :: "rat list"
    by (induction qs arbitrary: a) (simp_all add: num_min_def min_def)
  show "qs \<noteq> [] \<Longrightarrow> list_max (map Num qs) = Num (Max (set qs))" "qs \<noteq> [] \<Longrightarrow> list_min (map Num qs) = Num (Min (set qs))"
    by (cases qs; simp add: list_max_def list_min_def num_max_def num_min_def mx mn flip: Max.set_eq_fold Min.set_eq_fold)+
qed


subsection \<open>The charts\<close>

definition priced :: "rat list \<Rightarrow> bool" where
  "priced qs \<longleftrightarrow> qs \<noteq> [] \<and> (\<forall>q \<in> set qs. 0 \<le> q \<and> q \<le> 2 ^ 53)"

definition span_of :: "rat list \<Rightarrow> rat" where
  "span_of qs = Max {fl (Max (set qs) - Min (set qs)), fl (Max (set qs) * fl (1 / 1000)), fl (1 / 10 ^ 9)}"

lemma priced_bounds:
  assumes "priced qs" "q \<in> set qs"
  shows "0 \<le> Min (set qs)" "Min (set qs) \<le> q" "q \<le> Max (set qs)" "Max (set qs) \<le> 2 ^ 53"
proof -
  have "Min (set qs) \<in> set qs" "Max (set qs) \<in> set qs" using assms by (auto simp: priced_def intro: Min_in Max_in)
  then show "0 \<le> Min (set qs)" "Max (set qs) \<le> 2 ^ 53" using assms(1) by (auto simp: priced_def)
qed (use assms(2) in simp_all)

lemma small_thousandth: "0 \<le> fl (1 / 1000)" "fl (1 / 1000) \<le> 1" "0 < fl (1 / 10 ^ 9)"
proof -
  show "0 \<le> fl (1 / 1000)" by (rule fl_nonneg) simp
  show "fl (1 / 1000) \<le> 1" by (rule fl_le_f64) simp_all
  have "is_f64 (1 / 2 ^ 30)" unfolding is_f64_def by (intro exI [of _ 1] exI [of _ "-30"]) (simp add: power_int_minus field_simps)
  then have "1 / 2 ^ 30 \<le> fl (1 / 10 ^ 9)" by (intro fl_ge_f64) simp_all
  then show "0 < fl (1 / 10 ^ 9)" by (rule less_le_trans [rotated]) simp
qed

lemma span_of_bounds:
  assumes "priced qs" "q \<in> set qs"
  shows "0 < span_of qs" "fl (q - Min (set qs)) \<le> span_of qs" "0 \<le> fl (q - Min (set qs))"
proof -
  note b = priced_bounds [OF assms]
  have "fl (1 / 10 ^ 9) \<le> span_of qs" "fl (Max (set qs) - Min (set qs)) \<le> span_of qs"
    unfolding span_of_def by (rule Max_ge; simp)+
  then show "0 < span_of qs" "fl (q - Min (set qs)) \<le> span_of qs"
    using small_thousandth(3) fl_mono [of "q - Min (set qs)" "Max (set qs) - Min (set qs)"] b by auto
  show "0 \<le> fl (q - Min (set qs))" using b by (intro fl_nonneg) simp
qed

lemma num_sub_60: "\<bar>a - b\<bar> \<le> 2 ^ 60 \<Longrightarrow> num_sub (Num a) (Num b) = Num (fl (a - b))"
  using to_num_60 [of "a - b"] by (simp add: num_sub_def)

lemma price_span_Num:
  assumes "priced qs"
  shows "price_span (map Num qs) = Num (span_of qs)"
proof -
  have ne: "qs \<noteq> []" using assms by (simp add: priced_def)
  then obtain q where q: "q \<in> set qs" by (cases qs) auto
  note b = priced_bounds [OF assms q]
  have m: "0 \<le> Max (set qs) * fl (1 / 1000)" using b small_thousandth by simp
  have "Max (set qs) * fl (1 / 1000) \<le> 2 ^ 53 * 1" by (rule mult_mono) (use b small_thousandth in simp_all)
  note m = m this
  have "num_mul (Num (Max (set qs))) (to_num (1 / 1000)) = Num (fl (Max (set qs) * fl (1 / 1000)))"
    using m to_num_60 [of "1 / 1000"] to_num_60 [of "Max (set qs) * fl (1 / 1000)"] by simp
  moreover have "num_sub (Num (Max (set qs))) (Num (Min (set qs))) = Num (fl (Max (set qs) - Min (set qs)))"
    using b by (intro num_sub_60) simp
  moreover have "to_num (1 / 10 ^ 9) = Num (fl (1 / 10 ^ 9))" by (rule to_num_60) simp
  ultimately have "price_span (map Num qs) = list_max (map Num [fl (Max (set qs) - Min (set qs)), fl (Max (set qs) * fl (1 / 1000)), fl (1 / 10 ^ 9)])"
    by (simp only: price_span_def Let_def list_max_Num [OF ne] list_min_Num [OF ne] list.map)
  then show ?thesis by (simp only: list_max_Num [OF list.distinct(2)] span_of_def set_simps)
qed

definition drawn_y :: "rat list \<Rightarrow> rat \<Rightarrow> rat" where
  "drawn_y qs q = fl (152 - part_of 140 (span_of qs) (fl (q - Min (set qs))))"

lemma f64_small: "is_f64 12" "is_f64 140" "is_f64 148" "is_f64 152" "is_f64 8" "is_f64 2"
  by (rule is_f64_numeral; simp)+

lemma drawn_y_bounds: "priced qs \<Longrightarrow> q \<in> set qs \<Longrightarrow> 12 \<le> drawn_y qs q \<and> drawn_y qs q \<le> 152"
  using span_of_bounds [of qs q] part_of_bounds [of "fl (q - Min (set qs))" "span_of qs" 140]
  unfolding drawn_y_def by (intro conjI fl_ge_f64 fl_le_f64) (simp_all add: f64_small)

lemma drawn_y_mono: "priced qs \<Longrightarrow> q \<in> set qs \<Longrightarrow> q \<le> q' \<Longrightarrow> drawn_y qs q' \<le> drawn_y qs q"
  using span_of_bounds(1) [of qs q] unfolding drawn_y_def
  by (intro fl_mono diff_left_mono part_of_mono) simp_all

lemma chart_y_Num:
  assumes "priced qs" "q \<in> set qs"
  shows "chart_y (num_div (num_sub (Num q) (Num (Min (set qs)))) (Num (span_of qs))) = Num (drawn_y qs q)"
proof -
  note b = priced_bounds [OF assms] and sp = span_of_bounds [OF assms]
  have "num_sub (Num q) (Num (Min (set qs))) = Num (fl (q - Min (set qs)))" using b by (intro num_sub_60) simp
  moreover have "num_mul (num_div (Num (fl (q - Min (set qs)))) (Num (span_of qs))) (Num 140)
      = Num (part_of 140 (span_of qs) (fl (q - Min (set qs))))"
    using sp by (intro num_part_of) simp_all
  ultimately show ?thesis
    using part_of_bounds [OF sp(3) sp(2) sp(1) f64_small(2)] unfolding chart_y_def drawn_y_def by (simp only:) (intro num_sub_60; simp)
qed

lemma price_coords_Num:
  assumes "priced qs"
  shows "price_coords (map Num qs) = chart_coords (map (\<lambda>q. Num (drawn_y qs q)) qs)"
proof -
  have ne: "qs \<noteq> []" using assms by (simp add: priced_def)
  show ?thesis unfolding price_coords_def price_span_Num [OF assms] list_min_Num [OF ne] map_map
    by (intro arg_cong [of _ _ chart_coords] map_cong refl) (simp only: o_apply chart_y_Num [OF assms])
qed


definition drawn_x :: "nat \<Rightarrow> nat \<Rightarrow> rat" where
  "drawn_x n i = fl (of_nat i * fl (600 / of_int (int n - 1)))"

lemma quotient_600: "1 \<le> (x :: rat) \<Longrightarrow> 0 < 600 / x \<and> 600 / x \<le> 600"
  by (simp add: pos_divide_le_eq)

lemma points_less: "2 \<le> n \<Longrightarrow> (1 :: rat) \<le> of_int (int n - 1)"
  by (subst of_int_1_le_iff) simp

lemma step_error:
  assumes "2 \<le> n"
  shows "0 \<le> fl (600 / of_int (int n - 1))" "fl (600 / of_int (int n - 1)) \<le> 600 / of_int (int n - 1) + 1 / 2 ^ 44"
proof -
  define q :: rat where "q = 600 / of_int (int n - 1)"
  have q: "0 < q" "q \<le> 600" using quotient_600 [OF points_less [OF assms]] unfolding q_def by blast+
  have "ilog2 q \<le> ilog2 600" using q by (rule ilog2_mono)
  also have "ilog2 600 = 9" by (simp add: num_eval)
  finally have "ulp_exp q \<le> - 43" using q by (simp add: ulp_exp_def)
  then have "(2 :: rat) powi ulp_exp q \<le> 2 powi (- 43)" by (intro power_int_increasing) simp_all
  then have "2 powi ulp_exp q / 2 \<le> (1 :: rat) / 2 ^ 44" by (simp add: power_int_minus field_simps)
  then show "fl (600 / of_int (int n - 1)) \<le> 600 / of_int (int n - 1) + 1 / 2 ^ 44"
    using fl_error [of q] unfolding q_def by linarith
  show "0 \<le> fl (600 / of_int (int n - 1))" using q by (intro fl_nonneg) (simp add: q_def)
qed

lemma is_f64_thousandth: "is_f64 (600 + 1 / 1024)"
  using is_f64_20 [of 629146624] by simp

lemma steps_bound:
  assumes "0 \<le> (k :: rat)" "k \<le> m" "1 \<le> m" "m \<le> 10 ^ 6" "0 \<le> p" "p \<le> 600 / m + 1 / 2 ^ 44"
  shows "0 \<le> k * p \<and> k * p \<le> 600 + 1 / 1024"
proof -
  have "k * p \<le> m * (600 / m + 1 / 2 ^ 44)" using assms by (intro mult_mono) simp_all
  also have "\<dots> = 600 + m / 2 ^ 44" using assms(3) by (simp add: field_simps)
  also have "\<dots> \<le> 600 + 1 / 1024" using assms(4) by simp
  finally show ?thesis using assms by simp
qed

lemma drawn_x_bounds:
  assumes "i < n" "2 \<le> n" "n \<le> 10 ^ 6"
  shows "0 \<le> drawn_x n i" "drawn_x n i \<le> 600 + 1 / 1024"
    "\<bar>of_nat i * fl (600 / of_int (int n - 1))\<bar> \<le> (2 :: rat) ^ 60"
proof -
  note e = step_error [OF assms(2)]
  have "(of_int (int i) :: rat) \<le> of_int (int n - 1)" using assms(1) by (intro of_int_le_iff [THEN iffD2]) simp
  then have i: "(of_nat i :: rat) \<le> of_int (int n - 1)" by (simp only: of_int_of_nat_eq)
  have m: "(of_int (int n - 1) :: rat) \<le> 10 ^ 6" using of_int_le_iff [of "int n - 1" "10 ^ 6", where 'a = rat] assms(3) by simp
  note u = steps_bound [OF of_nat_0_le_iff i points_less [OF assms(2)] m e]
  then show "\<bar>of_nat i * fl (600 / of_int (int n - 1))\<bar> \<le> 2 ^ 60" by (simp only: abs_of_nonneg) (rule order_trans, blast, simp)
  show "0 \<le> drawn_x n i" unfolding drawn_x_def using u by (intro fl_nonneg) blast
  show "drawn_x n i \<le> 600 + 1 / 1024" unfolding drawn_x_def using u is_f64_thousandth by (intro fl_le_f64) blast
qed

lemma drawn_x_mono: "i \<le> j \<Longrightarrow> 2 \<le> n \<Longrightarrow> drawn_x n i \<le> drawn_x n j"
  unfolding drawn_x_def by (intro fl_mono mult_right_mono step_error) simp_all

lemma length_chart_coords [simp]: "length (chart_coords ys) = length ys"
  by (simp add: chart_coords_def)

lemma chart_coords_nth:
  assumes "i < length ys" "2 \<le> length ys" "length ys \<le> 10 ^ 6"
  shows "chart_coords ys ! i = (Num (drawn_x (length ys) i), ys ! i)"
proof -
  let ?n = "length ys"
  note one = points_less [OF assms(2)]
  have "\<bar>600 / of_int (int ?n - 1)\<bar> \<le> (2 :: rat) ^ 60"
    using quotient_600 [OF one] by (simp only: abs_of_pos) (rule order_trans, blast, simp)
  then have "num_div (Num 600) (num_of_int (int ?n - 1)) = Num (fl (600 / of_int (int ?n - 1)))"
    using assms(2,3) one to_num_60 by (simp add: num_of_int_small)
  moreover have "num_of_int (int i) = Num (of_nat i)" using assms(1,3) by (simp add: num_of_int_small)
  ultimately show ?thesis
    using assms(1) to_num_60 [OF drawn_x_bounds(3) [OF assms]] by (simp add: chart_coords_def nth_enumerate_eq drawn_x_def)
qed


lemma max_of_bar:
  assumes "priced qs" "q \<in> set qs" "q \<noteq> 0"
  shows "0 < Max (set qs)" "bar_height (Num (Max (set qs))) (Num q) = Num (max 2 (part_of 148 (Max (set qs)) q))"
proof -
  have q: "0 < q" using assms by (auto simp: priced_def less_le)
  then show m: "0 < Max (set qs)" using priced_bounds(3) [OF assms(1,2)] by linarith
  have "num_mul (num_div (Num q) (Num (Max (set qs)))) (Num 148) = Num (part_of 148 (Max (set qs)) q)"
    using q m priced_bounds(3) [OF assms(1,2)] by (intro num_part_of) simp_all
  then show "bar_height (Num (Max (set qs))) (Num q) = Num (max 2 (part_of 148 (Max (set qs)) q))"
    using assms(3) by (simp add: bar_height_def num_max_def max_def)
qed

lemma tx_bar_fits:
  assumes "priced qs" "i < length qs"
  obtains x w h where "tx_bars (map Num qs) ! i = (x, Num (fl (156 - h)), w, Num h)" "0 \<le> h" "h \<le> 148"
    "8 \<le> fl (156 - h)" "fl (156 - h) \<le> 156" "h = 0 \<longleftrightarrow> qs ! i = 0" "qs ! i \<noteq> 0 \<longrightarrow> 2 \<le> h"
proof -
  have ne: "qs \<noteq> []" using assms(1) by (simp add: priced_def)
  have q: "qs ! i \<in> set qs" using assms(2) by simp
  define h where "h = (if qs ! i = 0 then 0 else max 2 (part_of 148 (Max (set qs)) (qs ! i)))"
  have bar: "bar_height (Num (Max (set qs))) (Num (qs ! i)) = Num h"
    using max_of_bar(2) [OF assms(1) q] by (auto simp: h_def bar_height_def)
  have h: "0 \<le> h" "h \<le> 148" "h = 0 \<longleftrightarrow> qs ! i = 0" "qs ! i \<noteq> 0 \<longrightarrow> 2 \<le> h"
  proof -
    show "h \<le> 148"
    proof (cases "qs ! i = 0")
      case False
      have "0 \<le> qs ! i" using assms(1) q by (auto simp: priced_def)
      then show ?thesis
        using part_of_bounds(2) [OF _ priced_bounds(3) [OF assms(1) q] max_of_bar(1) [OF assms(1) q False] f64_small(3)] False
        by (simp add: h_def)
    qed (simp add: h_def)
  qed (auto simp: h_def max_def)
  have y: "num_sub (Num 156) (Num h) = Num (fl (156 - h))" using h by (intro num_sub_60) simp
  obtain x w where "tx_bars (map Num qs) ! i = (x, num_sub (Num 156) (Num h), w, Num h)"
    using assms(2) bar by (simp add: tx_bars_def Let_def list_max_Num [OF ne] nth_enumerate_eq)
  then show thesis
    using h y by (intro that [of x h w]) (auto intro: fl_ge_f64 fl_le_f64 simp: f64_small is_f64_numeral)
qed


subsection \<open>Governance, oracles, names\<close>

lemma quarter_f64: "\<bar>k\<bar> \<le> 2 ^ 53 \<Longrightarrow> is_f64 (of_int k / 4)"
  unfolding is_f64_def by (rule exI [of _ k], rule exI [of _ "- 2"]) (simp add: power_int_def power_divide)

lemma floor_two_thirds:
  assumes "0 \<le> n" "n \<le> 2 ^ 50"
  shows "\<lfloor>fl (of_int (2 * n) / 3)\<rfloor> = 2 * n div 3"
proof -
  define k where "k = 2 * n div 3"
  define q :: rat where "q = of_int (2 * n) / 3"
  have k: "3 * k \<le> 2 * n" "2 * n \<le> 3 * k + 2" "0 \<le> k" "k \<le> 2 ^ 50" using assms by (auto simp: k_def)
  have "(of_int (3 * k) :: rat) \<le> of_int (2 * n)" "(of_int (2 * n) :: rat) \<le> of_int (3 * k + 2)"
    using k by (simp_all only: of_int_le_iff)
  then have q: "of_int k \<le> q" "q \<le> of_int (4 * k + 3) / 4" by (simp_all add: q_def)
  have "of_int k \<le> fl q" using q(1) k by (intro fl_ge_f64 is_f64_of_int) simp_all
  moreover have "fl q \<le> of_int (4 * k + 3) / 4"
    using q(2) by (rule fl_le_f64) (rule quarter_f64, use k in simp)
  ultimately show ?thesis unfolding q_def [symmetric] k_def [symmetric] by (simp add: floor_eq_iff)
qed

lemma gov_quorum_exact:
  assumes "gs_quorum g = None" "0 \<le> gs_validators g" "gs_validators g \<le> 2 ^ 50"
  shows "gov_quorum g = Num (of_int (2 * gs_validators g div 3 + 1))"
proof -
  define n where "n = gs_validators g"
  have n: "0 \<le> n" "n \<le> 2 ^ 50" using assms by (simp_all add: n_def)
  have "num_of_int n = Num (of_int n)" using n by (intro num_of_int_small) simp
  moreover have "num_mul (Num 2) (Num (of_int n)) = Num (of_int (2 * n))"
    using n to_num_60 [of "of_int (2 * n)"] fl_of_int [of "2 * n"] by simp
  moreover have "num_div (Num (of_int (2 * n))) (Num 3) = Num (fl (of_int (2 * n) / 3))"
    using n to_num_60 [of "of_int (2 * n) / 3"] by simp
  moreover have "num_add (Num (of_int (2 * n div 3))) (Num 1) = Num (of_int (2 * n div 3 + 1))"
    using n to_num_60 [of "of_int (2 * n div 3 + 1)"] fl_of_int [of "2 * n div 3 + 1"] by simp
  ultimately show ?thesis
    using floor_two_thirds [OF n] assms(1) by (simp add: gov_quorum_def flip: n_def)
qed


text \<open>Reputations are whole numbers; an oracle without one ranks as 0.\<close>

definition reputed :: "ai_oracle \<Rightarrow> bool" where
  "reputed u \<longleftrightarrow> (case ao_reputation u of None \<Rightarrow> True | Some r \<Rightarrow> \<exists>k. \<bar>k\<bar> \<le> 2 ^ 50 \<and> r = Num (of_int k))"

definition rank :: "ai_oracle \<Rightarrow> rat" where
  "rank u = (case reputation_or 0 u of Num q \<Rightarrow> q | _ \<Rightarrow> 0)"

lemma reputed_int: "reputed u \<Longrightarrow> \<exists>k. \<bar>k\<bar> \<le> 2 ^ 50 \<and> reputation_or 0 u = Num (of_int k)"
  by (auto simp: reputed_def reputation_or_def split: option.splits intro: exI [of _ 0])

lemma by_reputation_cmp:
  assumes "reputed a" "reputed b"
  shows "by_reputation a b = Inr (Num (rank b - rank a))"
proof -
  obtain i j where i: "\<bar>i\<bar> \<le> 2 ^ 50" "reputation_or 0 a = Num (of_int i)" and j: "\<bar>j\<bar> \<le> 2 ^ 50" "reputation_or 0 b = Num (of_int j)"
    using reputed_int assms by meson
  have d: "\<bar>j - i\<bar> \<le> 2 ^ 53" using i(1) j(1) by (simp add: abs_le_iff)
  have "num_sub (Num (of_int j)) (Num (of_int i)) = Num (fl (of_int j - of_int i))"
  proof (rule num_sub_60)
    have "(of_int \<bar>j - i\<bar> :: rat) \<le> of_int (2 ^ 53)" using d by (simp only: of_int_le_iff)
    then show "\<bar>of_int j - of_int i\<bar> \<le> (2 :: rat) ^ 60" by simp
  qed
  also have "fl (of_int j - of_int i) = of_int j - of_int i" using fl_of_int [OF d] by simp
  finally show ?thesis using i j by (simp add: by_reputation_def rank_def)
qed

lemma reputation_not_after: "reputed a \<Longrightarrow> reputed b \<Longrightarrow> not_after by_reputation a b \<longleftrightarrow> rank b \<le> rank a"
  by (simp add: not_after_def by_reputation_cmp not_less)

interpretation oracle_order: js_compare by_reputation reputed
proof unfold_locales
  fix a b assume "reputed a" "reputed b"
  then show "\<exists>v. by_reputation a b = Inr v" by (simp add: by_reputation_cmp)
qed (auto simp: reputation_not_after)

lemma oracles_ranked:
  assumes "list_all reputed us"
  shows "\<exists>vs. js_sort by_reputation us = Inr vs \<and> mset vs = mset us \<and> sorted_wrt (\<lambda>a b. rank b \<le> rank a) vs"
proof -
  obtain vs where vs: "js_sort by_reputation us = Inr vs" "mset vs = mset us" "sorted_wrt (not_after by_reputation) vs"
    using oracle_order.js_sort_sorted [OF assms] by blast
  have "list_all reputed vs" using assms mset_eq_setD [OF vs(2)] by (simp add: list_all_iff)
  then have "sorted_wrt (\<lambda>a b. rank b \<le> rank a) vs"
    using vs(3) by (elim sorted_wrt_mono_rel [rotated]) (simp add: list_all_iff reputation_not_after)
  then show ?thesis using vs by blast
qed

text \<open>The row shows 50 for an oracle without a reputation, which ranks below every one that has some.\<close>

lemma unrated_oracle_ranks_last:
  "ao_reputation u = None \<Longrightarrow> ao_reputation v = Some (Num 1) \<Longrightarrow>
    by_reputation v u = Inr (Num (- 1)) \<and> rep_shown u = Num 50 \<and> rep_shown v = Num 1"
  by (simp add: by_reputation_def rep_shown_def reputation_or_def num_max_def num_min_def num_sub_def num_eval)

text \<open>When no task is of the last day, all tasks are counted as of the last day.\<close>

lemma tasks24_counts_all:
  "list_all (\<lambda>k. at_createdAt k = Some 0) tasks \<Longrightarrow> tasks24 (Num 1785000000000) tasks = length tasks"
  by (simp add: tasks24_def filter_False list_all_iff num_sub_def num_of_int_small num_eval)

text \<open>The first name that is not empty stays.\<close>

lemma put_names_keep: "m a = Some s \<Longrightarrow> s \<noteq> [] \<Longrightarrow> foldl put_name m nomes a = Some s"
proof (induction nomes arbitrary: m)
  case (Cons n nomes)
  then have "put_name m n a = Some s" by (auto simp: put_name_def)
  then show ?case using Cons by simp
qed simp

lemma porEndereco_first:
  assumes "find (\<lambda>n. ne_target n = a \<and> ne_name n \<noteq> []) nomes = Some n" "a \<noteq> []"
  shows "porEndereco nomes a = Some (ne_name n)"
proof -
  have "m a = None \<or> m a = Some [] \<Longrightarrow> foldl put_name m nomes a = Some (ne_name n)" for m
    using assms(1)
  proof (induction nomes arbitrary: m)
    case (Cons k nomes)
    show ?case
    proof (cases "ne_target k = a \<and> ne_name k \<noteq> []")
      case True
      then have "put_name m k a = Some (ne_name k)" "ne_name k = ne_name n" using Cons.prems assms(2) by (auto simp: put_name_def)
      then show ?thesis using True put_names_keep [of "put_name m k" a] by simp
    next
      case False
      then have "put_name m k a = None \<or> put_name m k a = Some []" using Cons.prems(1) by (auto simp: put_name_def)
      then show ?thesis using Cons.IH [of "put_name m k"] Cons.prems(2) False by auto
    qed
  qed simp
  then show ?thesis by (simp add: porEndereco_def)
qed


subsection \<open>The header\<close>

definition header_ok :: "header \<Rightarrow> bool" where
  "header_ok h \<longleftrightarrow> (case hd_focus h of OnItem i \<Rightarrow> hd_menu h \<and> i < length BLOCKCHAIN | _ \<Rightarrow> True)"

lemma header_do_ok: "header_ok h \<Longrightarrow> header_can ev h \<Longrightarrow> header_ok (header_do ev h)"
  by (cases "(ev, h)" rule: header_do.cases)
    (auto simp: header_ok_def BLOCKCHAIN_def close_menu_def lose_item_def onTriggerKey_def onMenuKey_def onDocumentKey_def Let_def
      split: nav_focus.splits nav_key.splits)

lemma header_more: "header_step\<^sup>*\<^sup>* g h \<Longrightarrow> header_can ev h \<Longrightarrow> header_step\<^sup>*\<^sup>* g (header_do ev h)"
  by (erule rtranclp.rtrancl_into_rtrancl) (rule header_event)

lemma header_reach_ok: "header_step\<^sup>*\<^sup>* header_start h \<Longrightarrow> header_ok h"
proof (induction rule: rtranclp_induct)
  case (step h h') then show ?case by (auto elim!: header_step.cases intro: header_do_ok)
qed (simp add: header_ok_def header_start_def)


subsection \<open>Properties\<close>



text \<open>
  When the node does not say what quorum a proposal needs, the page names the least number of validators that is
  more than two thirds of them: more than two thirds, no more than there are, and one less is too few.
\<close>

theorem gov_quorum_least:
  assumes "gs_quorum g = None" "0 < gs_validators g" "gs_validators g \<le> 2 ^ 50"
  shows "\<exists>k. gov_quorum g = Num (of_int k) \<and> 2 * gs_validators g < 3 * k \<and> k \<le> gs_validators g
    \<and> 3 * (k - 1) \<le> 2 * gs_validators g"
proof -
  have "gov_quorum g = Num (of_int (2 * gs_validators g div 3 + 1))" using assms by (intro gov_quorum_exact) simp_all
  then show ?thesis using assms(2) by (intro exI [of _ "2 * gs_validators g div 3 + 1"]) auto
qed

theorem gov_quorum_least_witness:
  "\<exists>k. gov_quorum (no_governance\<lparr>gs_validators := 51\<rparr>) = Num (of_int k) \<and> 102 < 3 * k \<and> k \<le> 51"
  using gov_quorum_least [of "no_governance\<lparr>gs_validators := 51\<rparr>"] by (auto simp: no_governance_def)

text \<open>
  However the header is clicked and typed at, the focus is on an item of the menu of the chain only while the menu is
  open, and on one of its items.
\<close>

theorem header_focus_in_menu:
  assumes "header_step\<^sup>*\<^sup>* header_start h" "hd_focus h = OnItem i"
  shows "hd_menu h \<and> i < length BLOCKCHAIN"
  using header_reach_ok [OF assms(1)] assms(2) by (simp add: header_ok_def)

theorem header_focus_in_menu_witness:
  "hd_menu (header_do (Key ArrowUp) (header_do Frame (header_do (Key Enter) (header_do FocusTrigger header_start))))"
proof -
  have s: "header_step\<^sup>*\<^sup>* header_start (header_do (Key ArrowUp) (header_do Frame (header_do (Key Enter) (header_do FocusTrigger header_start))))"
    by (intro header_more rtranclp.rtrancl_refl) simp_all
  show ?thesis
    by (rule header_focus_in_menu [OF s, of 1, THEN conjunct1])
      (simp add: header_start_def onTriggerKey_def onMenuKey_def onDocumentKey_def BLOCKCHAIN_def)
qed

end
