(* ===== verification/SitePages.thy ===== *)
theory SitePages
  imports AccountPage HomePages Circulating
begin

section \<open>The market page, the connection of a browser wallet, and the home page with its sources\<close>

text \<open>
  \<open>app/market/page.tsx\<close>, \<open>components/docs/eavm-connect.tsx\<close>, \<open>components/scan/price-ticker.tsx\<close> and
  \<open>app/page.tsx\<close>: pages that put the models of the other theories together. Markup is not modelled; the answers
  of the node and of the browser's wallet are arguments.
\<close>

subsection \<open>The home page (\<open>app/page.tsx\<close>)\<close>

text \<open>
  Every source fails by itself. The price is read twice, with the node's answers in between; \<open>later\<close> is what time does
  to the market's files and clock meanwhile.
\<close>

definition circulating_for :: "status option \<Rightarrow> jstr option \<Rightarrow> jstr option" where
  "circulating_for status freeFloat = (case freeFloat of Some f \<Rightarrow> Some f | None \<Rightarrow> map_option st_circulating status)"

definition basis_for :: "status option \<Rightarrow> jstr option \<Rightarrow> basis option" where
  "basis_for status freeFloat = (case freeFloat of Some (c # s) \<Rightarrow> Some FreeFloat
     | _ \<Rightarrow> (case status of Some s \<Rightarrow> Some Query | None \<Rightarrow> None))"

record home_page =
  hp_screen :: home_screen
  hp_blocks :: "jstr list list"
  hp_txs :: "(jstr list \<times> bool) list"
  hp_price :: market_price

definition HomePage :: "int \<Rightarrow> status res \<Rightarrow> network_stats res \<Rightarrow> block list res \<Rightarrow> tx_page res \<Rightarrow> name_entry list res
    \<Rightarrow> jstr res \<Rightarrow> market \<Rightarrow> (market \<Rightarrow> market) \<Rightarrow> home_page \<times> market" where
  "HomePage nw rs rn rb rt re rf m later = (let status = get_option rs; stats = get_option rn; blocks = catch [] rb;
       txs = (case rt of Inr p \<Rightarrow> tp_txs p | Inl x \<Rightarrow> []); freeFloat = get_option rf;
       (p, m1) = getMarketPrice None None m; (h, m2) = getPriceHistory (js ''7d'') m1;
       (q, m3) = getMarketPrice (circulating_for status freeFloat) (basis_for status freeFloat) (later m2) in
     (\<lparr>hp_screen = ScanHome status stats blocks txs (Some q) (ph_points h),
       hp_blocks = LatestBlocks nw (porEndereco (catch [] re)) (map_option st_blockReward status) blocks,
       hp_txs = LatestTxs nw txs, hp_price = q\<rparr>, m3))"


subsection \<open>The market page (\<open>app/market/page.tsx\<close>)\<close>

record market_screen =
  ms_height :: jstr
  ms_gross :: "jstr \<times> jstr"
  ms_locked :: "jstr \<times> jstr"
  ms_free :: "jstr \<times> jstr"
  ms_formula :: jstr
  ms_custody :: "jstr list list"
  ms_status :: jstr
  ms_window :: "(jsnum \<times> (jstr \<times> jstr) option) option"
  ms_vault :: "(jstr \<times> jstr option) option"
  ms_notes :: "jstr list"

definition market_free :: "circulating_snapshot \<Rightarrow> market_price \<Rightarrow> jstr \<times> jstr" where
  "market_free s p = (fmtCompact (BStr (cs_freeFloatE7 s)), (case mp_marketCapUsd p of
       Some c \<Rightarrow> js ''mcap '' @ fmtUsd (Some c) 0 @ [32, 183, 32] @ mp_priceUsdFormatted p
     | None \<Rightarrow> fmt (BStr (cs_freeFloatE7 s)) @ js '' EAV7''))"

definition market_vault :: "lbp_addresses option \<Rightarrow> (jstr \<times> jstr option) option" where
  "market_vault a = (if isPublicVaultDeployed a then (case a of Some x \<Rightarrow> (case la_publicVault0x x of
         Some (c # v) \<Rightarrow> Some (addrLink (Some (c # v)), (case la_timelockLpSeeder0x x of
             Some (d # t) \<Rightarrow> Some (addrLink (Some (d # t))) | _ \<Rightarrow> None))
       | _ \<Rightarrow> None) | None \<Rightarrow> None) else None)"

definition market_window :: "lbp_delivery option \<Rightarrow> (jsnum \<times> (jstr \<times> jstr) option) option" where
  "market_window d = (case d of None \<Rightarrow> None | Some x \<Rightarrow> (case ld_windowHours x of
       Some h \<Rightarrow> if h = Num 0 \<or> h = NaN then None else Some (h, ld_priceHintUsd x) | None \<Rightarrow> None))"

definition snap_cap :: "circulating_snapshot res \<Rightarrow> jstr option \<times> basis option" where
  "snap_cap r = (case r of Inr s \<Rightarrow> (Some (cs_freeFloatE7 s), Some FreeFloat) | Inl x \<Rightarrow> (None, None))"

definition MarketPage :: "bool \<Rightarrow> circulating_snapshot res \<Rightarrow> lbp_addresses option \<Rightarrow> lbp_delivery option \<Rightarrow> market
    \<Rightarrow> market_screen option \<times> market" where
  "MarketPage en r addr delivery m = (case getMarketPrice (fst (snap_cap r)) (snd (snap_cap r)) m of (p, m') \<Rightarrow>
     (case r of Inl x \<Rightarrow> None | Inr s \<Rightarrow> Some \<lparr>
       ms_height = js ''#'' @ num (num_of_int (cs_height s)),
       ms_gross = (fmtCompact (BStr (cs_grossE7 s)), fmt (BStr (cs_grossE7 s)) @ js '' EAV7''),
       ms_locked = (fmtCompact (BStr (cs_lockedCustodyE7 s)), fmt (BStr (cs_lockedCustodyE7 s)) @ js '' EAV7''),
       ms_free = market_free s p, ms_formula = cs_formula s,
       ms_custody = map (\<lambda>c. [if en then cb_labelEn c else cb_label c, num_str (cb_sharePct c) @ js ''%'', addrLink (Some (cb_address c)),
         fmtCompact (BStr (cb_balanceE7 c)), fmt (BStr (cb_balanceE7 c)),
         if en then cb_roleEn c else cb_role c]) (cs_custody s),
       ms_status = (case addr of Some a \<Rightarrow> la_status a | None \<Rightarrow> js ''not-deployed''),
       ms_window = market_window delivery, ms_vault = market_vault addr, ms_notes = cs_notes s\<rparr>, m'))"


subsection \<open>Connecting a browser wallet (\<open>eavm-connect.tsx\<close>)\<close>

text \<open>
  A request that is refused carries a code or none, and a message or none. The two requests are answered by \<open>answer\<close>;
  what is asked is part of the result.
\<close>

type_synonym refusal = "int option \<times> jstr option"
type_synonym wallet_answers = "jstr \<Rightarrow> refusal + unit"

datatype connect_message = Rejected | AddFailed | Said jstr

datatype connect_state = Connected | Failed connect_message | NoWallet | OpenApp jstr

definition SWITCH :: jstr where "SWITCH = js ''wallet_switchEthereumChain''"
definition ADD :: jstr where "ADD = js ''wallet_addEthereumChain''"

definition refused :: "refusal \<Rightarrow> connect_state" where
  "refused e = Failed (if fst e = Some 4001 then Rejected else (case snd e of Some (c # s) \<Rightarrow> Said (c # s) | _ \<Rightarrow> AddFailed))"

definition tries_add :: "refusal \<Rightarrow> bool" where
  "tries_add e \<longleftrightarrow> fst e \<in> {None, Some 4902, Some (- 32603)}"

definition request_network :: "wallet_answers \<Rightarrow> jstr list \<times> connect_state" where
  "request_network answer = (case answer SWITCH of Inr u \<Rightarrow> ([SWITCH], Connected)
     | Inl e \<Rightarrow> if tries_add e then ([SWITCH, ADD], case answer ADD of Inr u \<Rightarrow> Connected | Inl e' \<Rightarrow> refused e')
         else ([SWITCH], refused e))"

definition mm_target :: "jstr \<Rightarrow> jstr \<Rightarrow> jstr \<Rightarrow> jstr" where
  "mm_target host path search = dropWhile (\<lambda>c. c = 47) (host @ path @ search)"

text \<open>\<open>search\<close> is the query of the page with \<open>addNetwork\<close> set to 1.\<close>

definition addNetwork :: "wallet_answers option \<Rightarrow> bool \<Rightarrow> jstr \<Rightarrow> jstr \<Rightarrow> jstr \<Rightarrow> jstr list \<times> connect_state" where
  "addNetwork provider mobile host path search = (case provider of Some answer \<Rightarrow> request_network answer
     | None \<Rightarrow> ([], if mobile then OpenApp (js ''https://metamask.app.link/dapp/'' @ mm_target host path search) else NoWallet))"

text \<open>On landing in the wallet's own browser the request is made once, without a click.\<close>

definition on_landing :: "jstr option \<Rightarrow> wallet_answers option \<Rightarrow> bool \<Rightarrow> (jstr list \<times> connect_state) option \<times> bool" where
  "on_landing param provider tried = (case (param, provider) of
       (Some (c # s), Some answer) \<Rightarrow> if tried then (None, tried) else (Some (request_network answer), True)
     | _ \<Rightarrow> (None, tried))"


subsection \<open>The price in the header (\<open>price-ticker.tsx\<close>)\<close>

text \<open>A reply that comes after the ticker is gone, or is not good, leaves what is shown.\<close>

record ticker =
  tk_shown :: "market_price option"
  tk_alive :: bool

definition ticker_reply :: "(bool \<times> market_price res) res \<Rightarrow> ticker \<Rightarrow> ticker" where
  "ticker_reply r t = (case r of Inr (ok, Inr p) \<Rightarrow> if ok \<and> tk_alive t then t\<lparr>tk_shown := Some p\<rparr> else t | _ \<Rightarrow> t)"

definition ticker_text :: "ticker \<Rightarrow> (jstr \<times> jstr \<times> bool) option" where
  "ticker_text t = map_option (\<lambda>p. (mp_priceUsdFormatted p, mp_change24hFormatted p, num_le (Num 0) (mp_change24hPct p))) (tk_shown t)"


section \<open>Lemmas\<close>

text \<open>The network is reported as added just when the wallet has switched to it or has added it.\<close>

lemma connected_iff: "snd (request_network answer) = Connected \<longleftrightarrow> answer SWITCH = Inr ()
    \<or> (\<exists>e. answer SWITCH = Inl e \<and> tries_add e \<and> answer ADD = Inr ())"
  by (auto simp: request_network_def refused_def split: sum.splits)

text \<open>Who refuses the switch is not asked to add the network.\<close>

lemma rejection_ends: "answer SWITCH = Inl (Some 4001, msg) \<Longrightarrow> request_network answer = ([SWITCH], Failed Rejected)"
  by (simp add: request_network_def tries_add_def refused_def)

lemma landing_once: "snd (on_landing p v tried) \<Longrightarrow> fst (on_landing p' v' (snd (on_landing p v tried))) = None"
  by (auto simp: on_landing_def split: option.splits list.splits)

lemma market_page_shown_iff: "fst (MarketPage en r addr delivery m) = None \<longleftrightarrow> (\<exists>x. r = Inl x)"
  by (simp add: MarketPage_def split: sum.split prod.split)

text \<open>The market cap of the page is the free float at the price of the sale.\<close>

lemma market_page_cap:
  "mp_marketCapUsd (fst (getMarketPrice (fst (snap_cap (Inr s))) (snd (snap_cap (Inr s))) m))
    = Some (num_mul (e7ToHuman (BStr (cs_freeFloatE7 s))) (sp_priceUsd (resolveSpot m)))"
  by (simp add: getMarketPrice_def snap_cap_def Let_def)

text \<open>Without the node the home page still has its price, and nothing else.\<close>

lemma home_without_node:
  assumes "HomePage nw (Inl a) (Inl b) (Inl c) (Inl d) (Inl e) (Inl f) m later = (p, m')"
  shows "hp_blocks p = []" "hp_txs p = []" "hs_samples (hp_screen p) = []" "hs_txs (hp_screen p) = None"
    "mp_circulating (hp_price p) = None"
  using assms
  by (auto simp: HomePage_def get_option_def catch_def LatestBlocks_def LatestTxs_def ScanHome_def exemplos_def TxChart_def
      circulating_for_def getMarketPrice_def Let_def split: prod.splits)

lemma dead_ticker_keeps: "\<not> tk_alive t \<Longrightarrow> ticker_reply r t = t"
  by (auto simp: ticker_reply_def split: sum.split prod.split)

end
