(* ===== verification/Spec2Isabelle.thy ===== *)
theory Spec2Isabelle
  imports SaleBook SaleRoutes SendFlow PartnerTranche Circulating RelayerBook Faucet StakePanel Markdown WalletApp Search Lists SalePage I18n Validators AddressPage DetailPages AccountPage Merkle Genesis LbpScripts HomePages SitePages
begin

text \<open>
  The TypeScript of EAV7: the explorer, wallet and token sale of \<open>web-next\<close>, the relayer that
  settles the sale (\<open>contracts/sale/relayer\<close>) and the testnet faucet (\<open>services/faucet\<close>).

  \<^bold>\<open>The program.\<close> The sale has two processes on one file of intents per channel. The web server
  (\<open>lib/sale-server.ts\<close> behind the routes of \<open>app/sale-api\<close>) quotes a price, reserves an exact amount
  to pay and appends an intent; the relayer polls the chains for a transfer of that amount, has
  the vault grant the tokens and marks the intent. The market pages (\<open>lib/price-market.ts\<close>) show the
  sale's price and keep its history; the supply pages (\<open>lib/circulating.ts\<close>) subtract custodies from
  the supply the node reports. The wallet keeps an encrypted key, reads amounts, has a wasm module
  sign and posts the result to the node; the send form, the stake form and the partner panel
  are its users. The API client (\<open>lib/api.ts\<close>) reads the node, or the mock of \<open>lib/mock.ts\<close>.

  \<^bold>\<open>What JavaScript means here.\<close>
  \<^item> \<open>Prelude\<close>: strings as lists of UTF-16 code units (\<open>js\<close> makes one from a literal), trimming,
    digits and bases, errors as \<open>Inl\<close> a message (\<open>res\<close>).
  \<^item> \<open>JsNumber\<close>: binary64 as exact rationals with NaN and the infinities; \<open>fl\<close> rounds to nearest, ties
    to even. Negative zero is not told from zero.
  \<^item> \<open>JsText\<close>, \<open>Decimals\<close>: \<open>Number\<close>, \<open>String\<close>, \<open>BigInt\<close>, \<open>toFixed\<close>, \<open>toLocaleString\<close> and decimal
    amounts; \<open>JsDate\<close>: \<open>toISOString\<close>; \<open>Json\<close>: values, property access, truthiness, conversions.

  \<^bold>\<open>The sale.\<close>
  \<^item> \<open>SaleRails\<close> (\<open>sale-rails.ts\<close>), \<open>SalePricing\<close> (\<open>sale-pricing.ts\<close>): the rails, the suffix that makes an
    amount unique, the tiers and the quote. The quote is shown to pick the first open tier, its
    price never falls as more is raised, and its progress stays within bounds.
  \<^item> \<open>SaleServer\<close> (\<open>sale-server.ts\<close>): the record \<open>server\<close> is the process with its files, clock and random
    source. Allocation is the first free of 64 draws; a create appends one pending intent or
    changes no file; the amount is within a dollar of the price on every token rail.
  \<^item> \<open>SaleApi\<close>, \<open>SaleRoutes\<close> (\<open>sale-api.ts\<close>, the eight routes): the browser's create is the server's.
  \<^item> \<open>SaleBook\<close>: the file under its two writers, as a step relation with the relayer's stale copy in
    the state. The locale \<open>intent_book\<close> is the contract (an appended key is fresh, a settled intent
    keeps its key and does not reopen), interpreted on the create and the settlement of the code;
    from it follow the distinct open payments, the life cycle of intents, and, negatively, that a
    tick drops an intent created while it waits.
  \<^item> \<open>Relayer\<close>, \<open>RelayerBook\<close> (\<open>relayer/index.mjs\<close>): every function of the relayer with the chains as an
    argument; its create is the web server's, its tick refines the steps of \<open>SaleBook\<close>, its
    requests change the file only as they should, and two faults of a failing grant.

  \<^item> \<open>SalePage\<close> (\<open>sale-experience.tsx\<close>): the buyer's page against the book of intents, its requests and
    replies as jobs in any order. The locale \<open>intent_service\<close> is what the page relies on of the
    server's other writers, interpreted on the relayer's settlement. The page shows the terms the
    book holds, its status never goes back, and its estimate is what is booked.

  \<^bold>\<open>The contracts' scripts.\<close>
  \<^item> \<open>Merkle\<close> (\<open>scripts/sale-merkle.mjs\<close>): leaves, tree and proofs over bytes, with keccak256 as an
    argument. Every printed proof leads to the root, and what leads to the root was listed or is a
    collision of the hash.
  \<^item> \<open>Genesis\<close> (\<open>scripts/genesis-buckets.mjs\<close>): the division of the supply, and what of it the
    document hands out.
  \<^item> \<open>LbpScripts\<close> (\<open>prepare-\<close>, \<open>deploy-\<close>, \<open>native-deploy-\<close>, \<open>open-public-lbp\<close>, \<open>fund-public-vault\<close>,
    \<open>finalize-public-keeper\<close>): scripts as functions of a world (the file of addresses, what was sent,
    the secrets, an abstract outside), with rules that follow their structure. The locale \<open>lbp_script\<close>
    is what each owes the others: it leaves the file alone or ends well with a result that keeps it
    consistent; \<open>lbp_live_script\<close> adds that a dry run sends nothing. Any order of runs keeps the file
    consistent, and calldata can be read back.

  \<^bold>\<open>The wallet.\<close>
  \<^item> \<open>Base64\<close>, \<open>Wallet\<close> (\<open>wallet.ts\<close>, \<open>wallet-crypto.ts\<close>): the vault's round trip, the amount parser's
    exactness, and what \<open>signAndSend\<close> may post. WebCrypto, the signer and the node are arguments.
  \<^item> \<open>SendFlow\<close> (\<open>send-flow.tsx\<close>), \<open>StakePanel\<close> (\<open>stake-panel.tsx\<close>), \<open>PartnerTranche\<close>
    (\<open>partner-tranche.ts\<close> and its panel): the components' states and handlers without their markup,
    the form as a step relation with its pending confirmations and clipboard reads.
  \<^item> \<open>WalletApp\<close> (\<open>wallet-app.tsx\<close>): onboarding, unlock, lock and wipe as a step relation over the
    browser's storage, with the awaited cryptography as jobs that end in any order. The locale
    \<open>vault_store\<close> is what the page relies on to remember that there is a vault. The screen agrees
    with the storage in every reachable state, and a wallet created behind a password reopens.

  \<^item> \<open>AccountPage\<close> (\<open>account-view.tsx\<close>, \<open>tx-value.tsx\<close>, \<open>eavm-chain.ts\<close>): the open wallet as a step
    relation (tabs, panels, faucet claim, wipe) and the figures it shows, among them the exact
    remainder to the next tier of the stake form.

  \<^bold>\<open>The explorer.\<close>
  \<^item> \<open>Format\<close> (\<open>format.ts\<close>), \<open>ApiTypes\<close>, \<open>Api\<close> (\<open>api.ts\<close>), \<open>Mock\<close> (\<open>mock.ts\<close>): printing of amounts and
    its reading back, the client's endpoints and errors, the generated data.
  \<^item> \<open>PublicLbp\<close>, \<open>PriceMarket\<close>, \<open>Circulating\<close> (\<open>public-lbp.ts\<close>, \<open>custody.ts\<close>, \<open>price-market.ts\<close>,
    \<open>circulating.ts\<close> and their routes): spot price and history, and the accounting of the float.
  \<^item> \<open>Search\<close> (\<open>explorer-search.tsx\<close>, \<open>search/page.tsx\<close>): the search box as a step relation over its
    timer and the requests under way; hits are those of the text shown, every row is grouped once,
    and an identifier typed in full is found without the index.
  \<^item> \<open>Lists\<close> (\<open>blocks-list.tsx\<close>, \<open>txs-list.tsx\<close>): paging by height and by cursor. The locales
    \<open>block_source\<close> and \<open>tx_source\<close> say what the node's pages promise, interpreted on the mock's.
  \<^item> \<open>Validators\<close> (\<open>validators-list.tsx\<close>, \<open>validators-live.tsx\<close>, the cards of \<open>tokens-list.tsx\<close>): the
    order of the validators by the comparison the code hands to \<open>sort\<close>, and their shares.
  \<^item> \<open>Csv\<close>, \<open>AddressPage\<close> (\<open>address/[addr]/page.tsx\<close>, \<open>address-view.tsx\<close>, \<open>address-holdings.tsx\<close>,
    \<open>csv-button.tsx\<close>): the tabs and their data, the two lists and their filters, the panel as a step
    relation. A reader of CSV, defined from the format, gets back the rows of the screen.
  \<^item> \<open>DetailPages\<close> (\<open>tx-view.tsx\<close>, \<open>token-view.tsx\<close>, \<open>block-view.tsx\<close>): fee bars, confirmations,
    concentration and the totals of a block.
  \<^item> \<open>HomePages\<close> (\<open>home.tsx\<close>, \<open>charts.tsx\<close>, \<open>latest.tsx\<close>, \<open>gov-view.tsx\<close>, \<open>ai-view.tsx\<close>,
    \<open>mining-live.tsx\<close>, \<open>header.tsx\<close>): charts that stay in their frame and keep the order of the
    numbers, the least quorum, the ranking of the oracles by the locale of \<open>Validators\<close>, the emission,
    and the menus of the header as a step relation.
  \<^item> \<open>SitePages\<close> (\<open>app/page.tsx\<close>, \<open>app/market/page.tsx\<close>, \<open>eavm-connect.tsx\<close>,
    \<open>price-ticker.tsx\<close>): pages put together from the other theories, each source failing by itself,
    and when a browser wallet counts as connected.
  \<^item> \<open>I18nText\<close>, \<open>I18n\<close> (\<open>i18n/\<close>): the written dictionaries as trees, their merge with the
    generated ones (an argument), the look-up with its fall-backs and placeholders, and the change
    of language as a step relation.
  \<^item> \<open>Markdown\<close> (\<open>markdown-lite.tsx\<close>, \<open>whitepaper.ts\<close>): the blocks of the whitepaper, when the loop that
    makes them ends, and the agreement of the table of contents with the page.
  \<^item> \<open>Faucet\<close> (\<open>faucet/index.mjs\<close>): reservations and queue as a step relation, and the rate limit.

  \<^bold>\<open>Bounds.\<close> Retries are the code's own (64 draws). The Markdown loop takes a number of turns; as many
  as there are lines decide whether it ends at all (\<open>md_loop_length\<close>). Amount and date bounds are
  stated where they are used: dollars up to 10^9, stakes below 2^33, intervals up to 2^53.

  \<^bold>\<open>Not modelled.\<close> Markup and styles of the components, routing, metadata and the generated message
  tables; network, cryptography, wasm and the chains (arguments); the scheduling of timers beyond
  the step relations; the Solidity contracts and the Rust node, which are other languages; the
  end-to-end script, the build step of the contracts and the script that prints a key, whose content is
  calls to tools; the views no page
  renders any more (\<open>blocks-live\<close>, \<open>txs-live\<close>, \<open>tokens-view\<close>, \<open>network-pulse\<close>), the animations and
  the documentation pages, which are text.
\<close>

end
